(* ===== verification/Prelude.thy ===== *)
theory Prelude
  imports Complex_Main
begin

text \<open>
  What the components share: JavaScript strings and the string methods the code uses, JSON
  values (the code's \<open>unknown\<close>), API error bodies and results, and generic list lemmas.

  A JavaScript string is a sequence of code units. Here it is a \<open>string\<close>, one \<open>char\<close> per code
  unit: code units above 255 are outside the model, except the two the messages of the source
  write, the em dash and the ellipsis, which stand at the otherwise unused positions 0x97 and
  0x85. Every length the code measures is therefore the length of the list.
\<close>

section \<open>Named collections\<close>

named_theorems js_simps \<open>evaluation of the JavaScript string and list helpers\<close>

section \<open>Strings\<close>

definition em_dash :: string where
  "em_dash = [CHR 0x97]"

definition ellipsis :: string where
  "ellipsis = [CHR 0x85]"

definition newline :: char where
  "newline = CHR 0x0A"

definition nl :: string where
  "nl = [newline]"

text \<open>The white space \<open>String.prototype.trim\<close> removes, among the code units of the model.\<close>

definition is_ws :: "char \<Rightarrow> bool" where
  "is_ws c \<longleftrightarrow> c \<in> set [CHR 0x09, CHR 0x0A, CHR 0x0B, CHR 0x0C, CHR 0x0D, CHR 0x20, CHR 0xA0]"

definition js_trim :: "string \<Rightarrow> string" where
  "js_trim s = rev (dropWhile is_ws (rev (dropWhile is_ws s)))"

text \<open>\<open>String.prototype.startsWith\<close>, \<open>includes\<close> and \<open>indexOf\<close>.\<close>

fun starts_with :: "string \<Rightarrow> string \<Rightarrow> bool" where
  "starts_with s [] = True"
| "starts_with [] (p # ps) = False"
| "starts_with (c # cs) (p # ps) = (c = p \<and> starts_with cs ps)"

fun str_includes :: "string \<Rightarrow> string \<Rightarrow> bool" where
  "str_includes [] p = (p = [])"
| "str_includes (c # cs) p = (starts_with (c # cs) p \<or> str_includes cs p)"

fun join :: "string \<Rightarrow> string list \<Rightarrow> string" where
  "join sep [] = []"
| "join sep [x] = x"
| "join sep (x # xs) = x @ sep @ join sep xs"

text \<open>\<open>String.prototype.split\<close> at a character.\<close>

fun split_at :: "char \<Rightarrow> string \<Rightarrow> string list" where
  "split_at sep [] = [[]]"
| "split_at sep (c # cs) =
     (let rest = split_at sep cs in if c = sep then [] # rest else (c # hd rest) # tl rest)"

text \<open>Decimal rendering of an integer in a template literal.\<close>

definition digit_char :: "nat \<Rightarrow> char" where
  "digit_char d = ''0123456789'' ! d"

fun show_nat :: "nat \<Rightarrow> string" where
  "show_nat n = (if n < 10 then [digit_char n] else show_nat (n div 10) @ [digit_char (n mod 10)])"

declare show_nat.simps [simp del]

definition show_int :: "int \<Rightarrow> string" where
  "show_int i = (if i < 0 then ''-'' @ show_nat (nat (- i)) else show_nat (nat i))"

text \<open>Decimal digits, and the number a text of them writes.\<close>

definition is_digit :: "char \<Rightarrow> bool" where
  "is_digit c \<longleftrightarrow> (48::nat) \<le> of_char c \<and> (of_char c :: nat) \<le> 57"

definition decimal_value :: "string \<Rightarrow> int" where
  "decimal_value ds = foldl (\<lambda>n c. 10 * n + (of_char c - 48)) 0 ds"

text \<open>The value of a hexadecimal digit.\<close>

definition digit_in :: "char \<Rightarrow> nat option" where
  "digit_in c =
     (let n = (of_char c :: nat) in
      if 48 \<le> n \<and> n \<le> 57 then Some (n - 48)
      else if 97 \<le> n \<and> n \<le> 102 then Some (n - 87)
      else if 65 \<le> n \<and> n \<le> 70 then Some (n - 55)
      else None)"

text \<open>The UUID pattern of the code: groups of 8, 4, 4, 4 and 12 hexadecimal digits, in either case.\<close>

definition uuid_mask :: "bool list" where
  "uuid_mask = replicate 8 True @ [False] @ replicate 4 True @ [False] @ replicate 4 True @ [False] @
     replicate 4 True @ [False] @ replicate 12 True"

definition is_uuid :: "string \<Rightarrow> bool" where
  "is_uuid s \<longleftrightarrow> list_all2 (\<lambda>hex c. if hex then digit_in c \<noteq> None else c = CHR ''-'') uuid_mask s"

text \<open>ASCII lower case, for the identifiers the code compares without case.\<close>

definition lower_char :: "char \<Rightarrow> char" where
  "lower_char c = (let n = (of_char c :: nat) in
     if 65 \<le> n \<and> n \<le> 90 then char_of (n + 32) else c)"

definition to_lower :: "string \<Rightarrow> string" where
  "to_lower = map lower_char"

text \<open>\<open>Array.from(new Set(xs))\<close>: the first occurrence of every value, in order.\<close>

primrec js_set :: "'a list \<Rightarrow> 'a list" where
  "js_set [] = []"
| "js_set (x # xs) = x # removeAll x (js_set xs)"

lemma set_js_set [simp]: "set (js_set xs) = set xs"
  by (induction xs) auto

lemma distinct_js_set [simp]: "distinct (js_set xs)"
  by (induction xs) (auto simp: distinct_removeAll)

lemma js_set_distinct: "distinct xs \<Longrightarrow> js_set xs = xs"
  by (induction xs) auto

lemma js_set_idem [simp]: "js_set (js_set xs) = js_set xs"
  by (rule js_set_distinct) simp

lemma js_trim_Nil [simp]: "js_trim [] = []"
  by (simp add: js_trim_def)

lemma dropWhile_rev_dropWhile:
  "dropWhile P (rev (dropWhile P (rev (dropWhile P s)))) = rev (dropWhile P (rev (dropWhile P s)))"
proof (cases "dropWhile P s")
  case Nil
  then show ?thesis by (simp only: Nil rev.simps dropWhile.simps)
next
  case (Cons c cs)
  then have c: "\<not> P c" by (metis dropWhile_eq_Cons_conv)
  have "rev (dropWhile P (rev (c # cs))) = c # rev (dropWhile P (rev cs))"
    using c by (induction cs rule: rev_induct) auto
  with Cons c show ?thesis by simp
qed

lemma js_trim_idem [simp]: "js_trim (js_trim s) = js_trim s"
  by (simp add: js_trim_def dropWhile_rev_dropWhile)

lemma length_dropWhile_le': "length (dropWhile P xs) \<le> length xs"
  by (rule length_dropWhile_le)

lemma length_js_trim_le: "length (js_trim s) \<le> length s"
  unfolding js_trim_def
  by (metis length_dropWhile_le length_rev order_trans)

lemma set_js_trim: "set (js_trim s) \<subseteq> set s"
  unfolding js_trim_def
  by (metis set_dropWhileD set_rev subsetI)

lemma starts_with_iff: "starts_with s p \<longleftrightarrow> (\<exists>t. s = p @ t)"
  by (induction s p rule: starts_with.induct) auto

lemma str_includes_iff: "str_includes s p \<longleftrightarrow> (\<exists>a b. s = a @ p @ b)"
proof (induction s)
  case Nil
  then show ?case by simp
next
  case (Cons c cs)
  show ?case
  proof
    assume "str_includes (c # cs) p"
    then consider "starts_with (c # cs) p" | "str_includes cs p" by auto
    then show "\<exists>a b. c # cs = a @ p @ b"
    proof cases
      case 1
      then obtain t where "c # cs = [] @ p @ t" by (auto simp: starts_with_iff)
      then show ?thesis by blast
    next
      case 2
      with Cons.IH obtain a b where "cs = a @ p @ b" by blast
      then have "c # cs = (c # a) @ p @ b" by simp
      then show ?thesis by blast
    qed
  next
    assume "\<exists>a b. c # cs = a @ p @ b"
    then obtain a b where ab: "c # cs = a @ p @ b" by blast
    show "str_includes (c # cs) p"
    proof (cases a)
      case Nil
      with ab have "starts_with (c # cs) p" by (auto simp: starts_with_iff)
      then show ?thesis by simp
    next
      case (Cons c' a')
      with ab have "cs = a' @ p @ b" by simp
      with Cons.IH have "str_includes cs p" by blast
      then show ?thesis by simp
    qed
  qed
qed

lemma str_includes_char: "str_includes s [c] \<longleftrightarrow> c \<in> set s"
  by (induction s) (auto simp: starts_with_iff)

section \<open>JSON values\<close>

text \<open>
  A number of the language: finite values are rationals (the code compares them and never
  rounds), the two infinities and \<open>NaN\<close> are there because the code tests for them.
\<close>

datatype js_num = Fin rat | PosInf | NegInf | NotANumber

datatype json =
    JNull
  | JBool bool
  | JNum js_num
  | JStr string
  | JArr "json list"
  | JObj "(string \<times> json) list"

text \<open>
  The code's \<open>unknown\<close> is a \<open>json option\<close>: \<open>None\<close> is \<open>undefined\<close>, an absent property or column.
\<close>

type_synonym jvalue = "json option"

text \<open>\<open>typeof v === 'string'\<close> with its value.\<close>

fun as_string :: "jvalue \<Rightarrow> string option" where
  "as_string (Some (JStr s)) = Some s"
| "as_string _ = None"

fun as_bool :: "jvalue \<Rightarrow> bool option" where
  "as_bool (Some (JBool b)) = Some b"
| "as_bool _ = None"

text \<open>\<open>v && typeof v === 'object'\<close> (arrays are objects, \<open>null\<close> is falsy).\<close>

fun is_object :: "jvalue \<Rightarrow> bool" where
  "is_object (Some (JArr _)) = True"
| "is_object (Some (JObj _)) = True"
| "is_object _ = False"

text \<open>\<open>v?.key\<close>: \<open>undefined\<close> on \<open>undefined\<close> and \<open>null\<close>, and on the primitives and arrays, which have
  none of the properties the code reads.\<close>

fun jprop :: "jvalue \<Rightarrow> string \<Rightarrow> jvalue" where
  "jprop (Some (JObj kvs)) k = map_of kvs k"
| "jprop _ k = None"

text \<open>\<open>v === undefined || v === null\<close>.\<close>

definition is_nullish :: "jvalue \<Rightarrow> bool" where
  "is_nullish v \<longleftrightarrow> v = None \<or> v = Some JNull"

text \<open>The truth value of a string-typed column: absent, \<open>null\<close> and the empty string are falsy.\<close>

definition truthy_str :: "string option \<Rightarrow> bool" where
  "truthy_str s \<longleftrightarrow> (case s of None \<Rightarrow> False | Some x \<Rightarrow> x \<noteq> [])"

text \<open>An embedded relation comes back as an object, as a list of objects, or not at all.\<close>

datatype 'a embed = EmbedOne 'a | EmbedMany "'a list" | EmbedNone

fun embed_one :: "'a embed \<Rightarrow> 'a option" where
  "embed_one (EmbedOne x) = Some x"
| "embed_one (EmbedMany xs) = (case xs of [] \<Rightarrow> None | x # _ \<Rightarrow> Some x)"
| "embed_one EmbedNone = None"

text \<open>\<open>s || d\<close> on a string-typed column.\<close>

definition str_or :: "string option \<Rightarrow> string \<Rightarrow> string" where
  "str_or s d = (case s of None \<Rightarrow> d | Some x \<Rightarrow> if x = [] then d else x)"

text \<open>\<open>v ?? d\<close>, and \<open>!v\<close>, on a JSON value.\<close>

definition json_or :: "jvalue \<Rightarrow> json \<Rightarrow> json" where
  "json_or v fallback = (if is_nullish v then fallback else the v)"

definition falsy :: "jvalue \<Rightarrow> bool" where
  "falsy v \<longleftrightarrow> (case v of
      None \<Rightarrow> True
    | Some j \<Rightarrow> j = JNull \<or> j = JBool False \<or> j = JStr [] \<or> j = JNum (Fin 0) \<or> j = JNum NotANumber)"

text \<open>\<open>Object.entries\<close>: the members of an object, the elements of an array, the units of a string.\<close>

definition object_entries :: "json \<Rightarrow> (string \<times> json) list" where
  "object_entries j = (case j of
      JObj kvs \<Rightarrow> kvs
    | JArr xs \<Rightarrow> map (\<lambda>(i, x). (show_nat i, x)) (enumerate 0 xs)
    | JStr s \<Rightarrow> map (\<lambda>(i, c). (show_nat i, JStr [c])) (enumerate 0 s)
    | _ \<Rightarrow> [])"

section \<open>API errors\<close>

text \<open>\<open>ApiError\<close> of \<open>src/lib/types.ts\<close>, and a refusal: a status with an error body.\<close>

datatype err_details = DetailText string | DetailIssues "(string \<times> string) list"

record api_error =
  ae_error :: string
  ae_code :: string
  ae_details :: "err_details option"

record refusal =
  rf_status :: nat
  rf_body :: api_error

definition api_err :: "string \<Rightarrow> string \<Rightarrow> api_error" where
  "api_err error code = \<lparr>ae_error = error, ae_code = code, ae_details = None\<rparr>"

lemma api_err_sel [simp]:
  "ae_error (api_err e c) = e" "ae_code (api_err e c) = c" "ae_details (api_err e c) = None"
  by (simp_all add: api_err_def)

section \<open>Lists\<close>

lemma map_filter_set: "set (map f (filter P xs)) = f ` {x \<in> set xs. P x}"
  by auto

lemma filter_length_zero: "filter P xs = [] \<longleftrightarrow> (\<forall>x\<in>set xs. \<not> P x)"
  by (simp add: filter_empty_conv)

lemma list_all_js_set [simp]: "list_all P (js_set xs) = list_all P xs"
  by (simp add: list_all_iff)

end
