(* ===== verification/JsonText.thy ===== *)
theory JsonText
  imports Prelude
begin

text \<open>
  Text of JSON values as the language writes it: numbers (\<open>Number::toString\<close>), \<open>JSON.stringify\<close> and
  \<open>String(v)\<close>. Numbers are exact rationals: those a double cannot hold are outside the model.
\<close>

section \<open>Numbers\<close>

text \<open>The least number of decimals that make \<open>r\<close> an integer, among at most \<open>n\<close> more than \<open>k\<close>.\<close>

fun decimals :: "nat \<Rightarrow> nat \<Rightarrow> rat \<Rightarrow> nat" where
  "decimals 0 k r = k"
| "decimals (Suc n) k r = (if r * 10 ^ k = of_int \<lfloor>r * 10 ^ k\<rfloor> then k else decimals n (Suc k) r)"

fun strip_zeros :: "nat \<Rightarrow> nat \<Rightarrow> nat \<times> nat" where
  "strip_zeros 0 m = (m, 0)"
| "strip_zeros (Suc n) m =
     (if m mod 10 = 0 \<and> m \<noteq> 0 then (case strip_zeros n (m div 10) of (m', z) \<Rightarrow> (m', Suc z)) else (m, 0))"

text \<open>
  The significant digits of a positive number and the exponent \<open>n\<close> of ECMAScript's algorithm: the value
  is \<open>0.digits\<close> times ten to the \<open>n\<close>.
\<close>

definition digits_exponent :: "rat \<Rightarrow> string \<times> int" where
  "digits_exponent r =
     (let k = decimals 1100 0 r;
          m = nat \<lfloor>r * 10 ^ k\<rfloor>;
          (s, z) = strip_zeros 400 m;
          digits = show_nat s
      in (digits, int (length digits) + int z - int k))"

definition positive_string :: "rat \<Rightarrow> string" where
  "positive_string r =
     (case digits_exponent r of (ds, n) \<Rightarrow>
        let k = int (length ds)
        in if k \<le> n \<and> n \<le> 21 then ds @ replicate (nat (n - k)) (CHR ''0'')
           else if 0 < n \<and> n \<le> 21 then take (nat n) ds @ ''.'' @ drop (nat n) ds
           else if - 6 < n \<and> n \<le> 0 then ''0.'' @ replicate (nat (- n)) (CHR ''0'') @ ds
           else
             let e = n - 1; ex = (if e < 0 then ''e-'' else ''e+'') @ show_nat (nat \<bar>e\<bar>)
             in if k = 1 then ds @ ex else take 1 ds @ ''.'' @ drop 1 ds @ ex)"

fun js_num_string :: "js_num \<Rightarrow> string" where
  "js_num_string (Fin r) =
     (if r = 0 then ''0'' else if r < 0 then ''-'' @ positive_string (- r) else positive_string r)"
| "js_num_string PosInf = ''Infinity''"
| "js_num_string NegInf = ''-Infinity''"
| "js_num_string NotANumber = ''NaN''"

section \<open>Strings\<close>

definition hex_lower :: "nat \<Rightarrow> char" where
  "hex_lower n = (if n < 10 then char_of (48 + n) else char_of (87 + n))"

definition escape_char :: "char \<Rightarrow> string" where
  "escape_char c =
     (let n = (of_char c :: nat)
      in if n = 34 then [char_of (92::nat), char_of (34::nat)]
         else if n = 92 then [char_of (92::nat), char_of (92::nat)]
         else if n = 8 then [char_of (92::nat), CHR ''b'']
         else if n = 12 then [char_of (92::nat), CHR ''f'']
         else if n = 10 then [char_of (92::nat), CHR ''n'']
         else if n = 13 then [char_of (92::nat), CHR ''r'']
         else if n = 9 then [char_of (92::nat), CHR ''t'']
         else if n < 32 then [char_of (92::nat), CHR ''u'', CHR ''0'', CHR ''0'', hex_lower (n div 16), hex_lower (n mod 16)]
         else [c])"

definition quoted :: "string \<Rightarrow> string" where
  "quoted s = [char_of (34::nat)] @ concat (map escape_char s) @ [char_of (34::nat)]"

text \<open>A JSON text's number is finite; \<open>JSON.stringify\<close> writes the others as \<open>null\<close>.\<close>

definition json_number :: "js_num \<Rightarrow> string" where
  "json_number n = (case n of Fin r \<Rightarrow> js_num_string (Fin r) | _ \<Rightarrow> ''null'')"

section \<open>String(v)\<close>

fun js_string :: "json \<Rightarrow> string" where
  "js_string JNull = ''null''"
| "js_string (JBool b) = (if b then ''true'' else ''false'')"
| "js_string (JNum n) = js_num_string n"
| "js_string (JStr s) = s"
| "js_string (JArr js) = join '','' (map (\<lambda>j. if j = JNull then [] else js_string j) js)"
| "js_string (JObj _) = ''[object Object]''"

definition js_string_of :: "jvalue \<Rightarrow> string" where
  "js_string_of v = (case v of None \<Rightarrow> ''undefined'' | Some j \<Rightarrow> js_string j)"

section \<open>JSON.stringify(v)\<close>

function stringify :: "json \<Rightarrow> string" where
  "stringify JNull = ''null''"
| "stringify (JBool b) = (if b then ''true'' else ''false'')"
| "stringify (JNum n) = json_number n"
| "stringify (JStr s) = quoted s"
| "stringify (JArr items) = ''['' @ join '','' (map stringify items) @ '']''"
| "stringify (JObj kvs) = ''{'' @ join '','' (map (\<lambda>kv. quoted (fst kv) @ '':'' @ stringify (snd kv)) kvs) @ ''}''"
  by pat_completeness auto

termination stringify
proof (relation "measure size", goal_cases)
  case (2 items x)
  then show ?case by (induction items) auto
next
  case (3 kvs x)
  then show ?case by (induction kvs) auto
qed simp

section \<open>JSON.stringify(v, null, 2)\<close>

text \<open>\<open>n\<close> is the indentation of the line the value begins on.\<close>

definition indented :: "nat \<Rightarrow> string \<Rightarrow> string list \<Rightarrow> string \<Rightarrow> string" where
  "indented n opening items closing =
     (if items = [] then opening @ closing
      else opening @ nl @ join ('','' @ nl) (map (\<lambda>i. replicate (n + 2) (CHR '' '') @ i) items) @
        nl @ replicate n (CHR '' '') @ closing)"

function pretty :: "nat \<Rightarrow> json \<Rightarrow> string" where
  "pretty n JNull = ''null''"
| "pretty n (JBool b) = (if b then ''true'' else ''false'')"
| "pretty n (JNum x) = json_number x"
| "pretty n (JStr s) = quoted s"
| "pretty n (JArr items) = indented n ''['' (map (pretty (n + 2)) items) '']''"
| "pretty n (JObj kvs) = indented n ''{'' (map (\<lambda>kv. quoted (fst kv) @ '': '' @ pretty (n + 2) (snd kv)) kvs) ''}''"
  by pat_completeness auto

termination pretty
proof (relation "measure (size \<circ> snd)", goal_cases)
  case (2 n items x)
  then show ?case by (induction items) auto
next
  case (3 n kvs x)
  then show ?case by (induction kvs) auto
qed simp

section \<open>Times\<close>

text \<open>\<open>toISOString\<close> of a time in milliseconds, in the years 0 to 9999 (days counted from 0000-03-01).\<close>

definition padded :: "nat \<Rightarrow> int \<Rightarrow> string" where
  "padded n i = (let s = show_int i in replicate (n - length s) (CHR ''0'') @ s)"

definition iso_string :: "int \<Rightarrow> string" where
  "iso_string t =
     (let z = t div 86400000 + 719468; ms = t mod 86400000;
          era = z div 146097; doe = z mod 146097;
          yoe = (doe - doe div 1460 + doe div 36524 - doe div 146096) div 365;
          doy = doe - (365 * yoe + yoe div 4 - yoe div 100);
          mp = (5 * doy + 2) div 153;
          day = doy - (153 * mp + 2) div 5 + 1;
          month = (if mp < 10 then mp + 3 else mp - 9);
          year = yoe + era * 400 + (if month \<le> 2 then 1 else 0)
      in padded 4 year @ ''-'' @ padded 2 month @ ''-'' @ padded 2 day @ ''T'' @ padded 2 (ms div 3600000) @ '':'' @
         padded 2 (ms div 60000 mod 60) @ '':'' @ padded 2 (ms div 1000 mod 60) @ ''.'' @ padded 3 (ms mod 1000) @ ''Z'')"

end
