(* ===== verification/CanonicalJson.thy ===== *)
theory CanonicalJson
  imports JsonText "HOL-Library.List_Lexorder"
begin

text \<open>
  The text a request's signature is computed over: \<open>canonicalize\<close> of \<open>src/lib/hmac.ts\<close>, JSON with the keys of
  every object in order. It determines the content: two values of finite numbers have the same text
  exactly when they have the same content, whatever the order of their keys.
\<close>

section \<open>Model\<close>

text \<open>The UTF-16 code units of the model's characters, by which \<open>sort()\<close> orders keys.\<close>

definition code_unit :: "char \<Rightarrow> nat" where
  "code_unit c = (if c = CHR 0x97 then 8212 else if c = CHR 0x85 then 8230 else of_char c)"

definition sorted_entries :: "(string \<times> 'a) list \<Rightarrow> (string \<times> 'a) list" where
  "sorted_entries kvs = sort_key (\<lambda>kv. map code_unit (fst kv)) kvs"

lemma set_sorted_entries [simp]: "set (sorted_entries kvs) = set kvs"
  by (simp add: sorted_entries_def)

function canonicalize :: "json \<Rightarrow> string" where
  "canonicalize JNull = ''null''"
| "canonicalize (JBool b) = (if b then ''true'' else ''false'')"
| "canonicalize (JNum n) = json_number n"
| "canonicalize (JStr s) = quoted s"
| "canonicalize (JArr items) = ''['' @ join '','' (map canonicalize items) @ '']''"
| "canonicalize (JObj kvs) =
     ''{'' @ join '','' (map (\<lambda>kv. quoted (fst kv) @ '':'' @ canonicalize (snd kv)) (sorted_entries kvs)) @ ''}''"
  by pat_completeness auto

termination canonicalize
proof (relation "measure size", goal_cases)
  case (2 items x)
  then show ?case by (induction items) auto
next
  case (3 kvs x)
  then have "x \<in> set kvs" by simp
  then show ?case by (induction kvs) auto
qed simp

section \<open>What the text says\<close>

text \<open>The content of a value: objects in the order of their keys, numbers by their text.\<close>

datatype content_value =
    CNull | CBool bool | CNum string | CStr string | CArr "content_value list"
  | CObj "(string \<times> content_value) list"

function content_of :: "json \<Rightarrow> content_value" where
  "content_of JNull = CNull"
| "content_of (JBool b) = CBool b"
| "content_of (JNum n) = CNum (json_number n)"
| "content_of (JStr s) = CStr s"
| "content_of (JArr items) = CArr (map content_of items)"
| "content_of (JObj kvs) = CObj (map (\<lambda>kv. (fst kv, content_of (snd kv))) (sorted_entries kvs))"
  by pat_completeness auto

termination content_of
proof (relation "measure size", goal_cases)
  case (2 items x)
  then show ?case by (induction items) auto
next
  case (3 kvs x)
  then have "x \<in> set kvs" by simp
  then show ?case by (induction kvs) auto
qed simp

fun printed :: "content_value \<Rightarrow> string" and printed_items :: "content_value list \<Rightarrow> string"
  and printed_entries :: "(string \<times> content_value) list \<Rightarrow> string" where
  "printed CNull = ''null''"
| "printed (CBool b) = (if b then ''true'' else ''false'')"
| "printed (CNum t) = t"
| "printed (CStr s) = quoted s"
| "printed (CArr vs) = CHR ''['' # printed_items vs"
| "printed (CObj kvs) = CHR ''{'' # printed_entries kvs"
| "printed_items [] = '']''"
| "printed_items (v # vs) = printed v @ (if vs = [] then '']'' else CHR '','' # printed_items vs)"
| "printed_entries [] = ''}''"
| "printed_entries ((k, v) # kvs) =
     quoted k @ CHR '':'' # printed v @ (if kvs = [] then ''}'' else CHR '','' # printed_entries kvs)"

lemma join_items: "join '','' (map printed vs) @ '']'' = printed_items vs"
  by (induction vs rule: induct_list012) simp_all

lemma join_entries:
  "join '','' (map (\<lambda>kv. quoted (fst kv) @ '':'' @ printed (snd kv)) kvs) @ ''}'' = printed_entries kvs"
  by (induction kvs rule: induct_list012) auto

lemma canonicalize_printed: "canonicalize j = printed (content_of j)"
proof (induction j rule: canonicalize.induct)
  case (5 items)
  then have e: "map canonicalize items = map printed (map content_of items)" by simp
  show ?case using join_items [of "map content_of items"] unfolding e [symmetric] by simp
next
  case (6 kvs)
  let ?cs = "map (\<lambda>kv. (fst kv, content_of (snd kv))) (sorted_entries kvs)"
  have e: "map (\<lambda>kv. quoted (fst kv) @ '':'' @ canonicalize (snd kv)) (sorted_entries kvs) =
      map (\<lambda>kv. quoted (fst kv) @ '':'' @ printed (snd kv)) ?cs"
    using 6 by simp
  show ?case unfolding canonicalize.simps e content_of.simps printed.simps join_entries [symmetric] by simp
qed simp_all

section \<open>Reading it back\<close>

text \<open>A number's text: digits and the four signs, not empty.\<close>

definition number_chars :: "char set" where
  "number_chars = set ''0123456789+-.e''"

definition number_text :: "string \<Rightarrow> bool" where
  "number_text t \<longleftrightarrow> t \<noteq> [] \<and> hd t \<in> set ''0123456789-'' \<and> set t \<subseteq> number_chars"

fun readable :: "content_value \<Rightarrow> bool" where
  "readable (CNum t) = number_text t"
| "readable (CArr vs) = list_all readable vs"
| "readable (CObj kvs) = list_all (\<lambda>kv. readable (snd kv)) kvs"
| "readable _ = True"

text \<open>What can follow a value in a text.\<close>

definition follows :: "string \<Rightarrow> bool" where
  "follows s \<longleftrightarrow> s = [] \<or> hd s \<in> set '',]}''"

lemma number_prefix:
  assumes "number_text t" "number_text t'" "follows s" "follows s'" "t @ s = t' @ s'"
  shows "t = t' \<and> s = s'"
proof -
  have stop: "takeWhile (\<lambda>c. c \<in> number_chars) (u @ r) = u" if "number_text u" "follows r" for u r
    using that by (cases r) (auto simp: number_text_def follows_def takeWhile_append number_chars_def subset_iff)
  have "t = takeWhile (\<lambda>c. c \<in> number_chars) (t @ s)" using stop assms(1,3) by simp
  also have "\<dots> = t'" using stop [OF assms(2,4)] assms(5) by simp
  finally show ?thesis using assms(5) by simp
qed

text \<open>The character an escaped text begins with, and the rest of the text.\<close>

definition next_char :: "string \<Rightarrow> (char \<times> string) option" where
  "next_char t = (case t of
      c # r \<Rightarrow>
        if c \<noteq> char_of (92::nat) then Some (c, r)
        else (case r of
            d # r' \<Rightarrow>
              if d = CHR ''u'' then
                (case r' of
                   _ # _ # h # l # r'' \<Rightarrow> Some (char_of (16 * the (digit_in h) + the (digit_in l)), r'')
                 | _ \<Rightarrow> None)
              else if d = CHR ''b'' then Some (char_of (8::nat), r')
              else if d = CHR ''f'' then Some (char_of (12::nat), r')
              else if d = CHR ''n'' then Some (char_of (10::nat), r')
              else if d = CHR ''r'' then Some (char_of (13::nat), r')
              else if d = CHR ''t'' then Some (char_of (9::nat), r')
              else Some (d, r')
          | [] \<Rightarrow> None)
    | [] \<Rightarrow> None)"

lemma digit_in_hex_lower: "n < 16 \<Longrightarrow> digit_in (hex_lower n) = Some n"
  by (simp add: digit_in_def hex_lower_def Let_def take_bit_eq_mod)

lemma char_of_div_mod:
  "(char_of (16 * ((of_char c :: nat) div 16) + (of_char c :: nat) mod 16) :: char) = c"
  by (simp del: of_char_mod_256)

definition plain_escape :: "char \<Rightarrow> string" where
  "plain_escape c = [char_of (92::nat), CHR ''u'', CHR ''0'', CHR ''0'', hex_lower (of_char c div 16), hex_lower (of_char c mod 16)]"

lemma next_char_plain_escape:
  assumes "(of_char c :: nat) < 32"
  shows "next_char (plain_escape c @ u) = Some (c, u)"
proof -
  have "digit_in (hex_lower (of_char c div 16)) = Some (of_char c div 16)"
    "digit_in (hex_lower (of_char c mod 16)) = Some (of_char c mod 16)"
    using assms by (simp_all add: digit_in_hex_lower)
  then show ?thesis using char_of_div_mod [of c]
    by (simp only: next_char_def plain_escape_def append_Cons append_Nil list.case option.sel simp_thms if_False if_True)
qed

lemma next_char_escape: "next_char (escape_char c @ u) = Some (c, u)"
proof -
  let ?n = "of_char c :: nat"
  consider (named) "?n \<in> {8, 9, 10, 12, 13, 34, 92}" | (low) "?n < 32" "?n \<notin> {8, 9, 10, 12, 13, 34, 92}"
    | (high) "\<not> ?n < 32" "?n \<notin> {8, 9, 10, 12, 13, 34, 92}" by blast
  then show ?thesis
  proof cases
    case named
    have c: "c = char_of ?n" by simp
    from named consider "c = char_of (8::nat)" | "c = char_of (9::nat)" | "c = char_of (10::nat)" | "c = char_of (12::nat)"
      | "c = char_of (13::nat)" | "c = char_of (34::nat)" | "c = char_of (92::nat)"
      using c by fastforce
    then show ?thesis by cases (simp_all add: escape_char_def next_char_def Let_def char_of_eq_iff take_bit_eq_mod)
  next
    case low
    then have "escape_char c = plain_escape c"
      by (simp add: escape_char_def plain_escape_def Let_def del: of_char_mod_256)
    then show ?thesis using next_char_plain_escape [OF low(1)] by simp
  next
    case high
    then have "escape_char c = [c]" by (simp add: escape_char_def Let_def)
    moreover have "c \<noteq> char_of (92::nat)" using high by auto
    ultimately show ?thesis by (simp add: next_char_def)
  qed
qed

lemma escape_char_prefix:
  assumes "escape_char c @ u = escape_char d @ v"
  shows "c = d \<and> u = v"
proof -
  have "Some (c, u) = next_char (escape_char c @ u)" by (simp only: next_char_escape)
  also have "\<dots> = Some (d, v)" unfolding assms by (simp only: next_char_escape)
  finally show ?thesis by simp
qed

lemma escape_char_first: "escape_char c @ u \<noteq> char_of (34::nat) # v"
  by (auto simp: escape_char_def Let_def)

fun escaped :: "string \<Rightarrow> string" where
  "escaped [] = []"
| "escaped (c # cs) = escape_char c @ escaped cs"

lemma quoted_escaped: "quoted s = char_of (34::nat) # escaped s @ [char_of (34::nat)]"
proof -
  have "concat (map escape_char s) = escaped s" by (induction s) simp_all
  then show ?thesis by (simp add: quoted_def)
qed

lemma escaped_prefix:
  "escaped s @ char_of (34::nat) # u = escaped t @ char_of (34::nat) # v \<Longrightarrow> s = t \<and> u = v"
proof (induction s arbitrary: t)
  case Nil
  then show ?case using escape_char_first by (cases t) (auto simp: eq_commute [of "char_of 34 # u"])
next
  case (Cons c s)
  show ?case
  proof (cases t)
    case Nil
    then show ?thesis using Cons.prems escape_char_first by auto
  next
    case (Cons d t')
    then have "escape_char c @ escaped s @ char_of (34::nat) # u = escape_char d @ escaped t' @ char_of (34::nat) # v"
      using Cons.prems by simp
    then show ?thesis using Cons Cons.IH [of t'] escape_char_prefix by blast
  qed
qed

lemma quoted_prefix:
  assumes "quoted s @ u = quoted t @ v"
  shows "s = t \<and> u = v"
proof (rule escaped_prefix)
  show "escaped s @ char_of (34::nat) # u = escaped t @ char_of (34::nat) # v"
    using assms unfolding quoted_escaped by (simp only: append_Cons append_assoc append_Nil list.inject)
qed

text \<open>What a readable value's text and its continuation are is determined by the two together.\<close>

lemma number_start: "number_text t \<Longrightarrow> \<exists>c r. t = c # r \<and> c \<in> set ''0123456789-''"
  by (cases t) (auto simp: number_text_def)

lemma printed_start:
  "readable v \<Longrightarrow> \<exists>c r. printed v = c # r \<and>
     (case v of CNull \<Rightarrow> c = CHR ''n'' | CBool b \<Rightarrow> c = (if b then CHR ''t'' else CHR ''f'')
      | CNum _ \<Rightarrow> c \<in> set ''0123456789-'' | CStr _ \<Rightarrow> c = char_of (34::nat)
      | CArr _ \<Rightarrow> c = CHR ''['' | CObj _ \<Rightarrow> c = CHR ''{'')"
  by (cases v) (auto simp: quoted_escaped dest: number_start)

lemma printed_first:
  assumes "readable v" "readable w" "printed v @ s = printed w @ s'"
  shows "(\<exists>b b'. v = CBool b \<and> w = CBool b' \<and> b = b') \<or> v = CNull \<and> w = CNull \<or>
    (\<exists>t t'. v = CNum t \<and> w = CNum t') \<or> (\<exists>t t'. v = CStr t \<and> w = CStr t') \<or>
    (\<exists>vs ws. v = CArr vs \<and> w = CArr ws) \<or> (\<exists>kvs lvs. v = CObj kvs \<and> w = CObj lvs)"
proof -
  have "hd (printed v) = hd (printed w)"
    using printed_start [OF assms(1)] printed_start [OF assms(2)] assms(3) by auto
  then show ?thesis
    using printed_start [OF assms(1)] printed_start [OF assms(2)]
    by (cases v; cases w) (auto split: if_splits simp: char_of_def)
qed

lemma follows_simps [simp]: "follows []" "follows ('']'' @ s)" "follows (CHR '','' # s)" "follows (CHR '']'' # s)"
  "follows (CHR ''}'' # s)"
  by (simp_all add: follows_def)

lemma not_bracket: "readable v \<Longrightarrow> printed v @ s \<noteq> CHR '']'' # s'"
  using printed_start [of v] by (cases v) (auto simp: char_of_def split: if_splits)

lemma items_not_bracket: "readable v \<Longrightarrow> printed_items (v # vs) @ s \<noteq> CHR '']'' # s'"
  using not_bracket [of v "(if vs = [] then '']'' else CHR '','' # printed_items vs) @ s" s'] by simp

lemma quote_not_brace: "char_of (34::nat) \<noteq> CHR ''}''"
  by (simp add: char_of_eq_iff take_bit_eq_mod)

lemma printed_prefix:
  "readable v \<Longrightarrow> readable w \<Longrightarrow> follows s \<Longrightarrow> follows s' \<Longrightarrow> printed v @ s = printed w @ s' \<Longrightarrow> v = w \<and> s = s'"
  and printed_items_prefix:
  "list_all readable vs \<Longrightarrow> list_all readable ws \<Longrightarrow> printed_items vs @ s = printed_items ws @ s' \<Longrightarrow> vs = ws \<and> s = s'"
  and printed_entries_prefix:
  "list_all (\<lambda>kv. readable (snd kv)) kvs \<Longrightarrow> list_all (\<lambda>kv. readable (snd kv)) lvs \<Longrightarrow>
   printed_entries kvs @ s = printed_entries lvs @ s' \<Longrightarrow> kvs = lvs \<and> s = s'"
proof (induction v and vs and kvs arbitrary: w s s' and ws s s' and lvs s s' rule: printed_printed_items_printed_entries.induct)
  case 1
  then show ?case using printed_first [OF 1(1,2,5)] by auto
next
  case (2 b)
  then show ?case using printed_first [OF 2(1,2,5)] by auto
next
  case (3 t)
  then obtain t' where w: "w = CNum t'" using printed_first [OF 3(1,2,5)] by auto
  then show ?case using number_prefix [of t t' s s'] 3 by simp
next
  case (4 t)
  then obtain t' where w: "w = CStr t'" using printed_first [OF 4(1,2,5)] by auto
  then show ?case using quoted_prefix [of t s t' s'] 4(5) by simp
next
  case (5 vs)
  then obtain ws where w: "w = CArr ws" using printed_first [OF 5(2,3,6)] by auto
  have "printed_items vs @ s = printed_items ws @ s'" using 5(6) by (simp add: w)
  then show ?case using 5(1) [of ws s s'] 5(2,3) by (simp add: w)
next
  case (6 kvs)
  then obtain lvs where w: "w = CObj lvs" using printed_first [OF 6(2,3,6)] by auto
  have "printed_entries kvs @ s = printed_entries lvs @ s'" using 6(6) by (simp add: w)
  then show ?case using 6(1) [of lvs s s'] 6(2,3) by (simp add: w)
next
  case 7
  show ?case
  proof (cases ws)
    case Nil
    then show ?thesis using 7 by simp
  next
    case (Cons w ws')
    then show ?thesis using 7 items_not_bracket [of w ws' s' s] by (simp add: eq_commute)
  qed
next
  case (8 v vs)
  show ?case
  proof (cases ws)
    case Nil
    then show ?thesis using 8(3,5) items_not_bracket [of v vs s s'] by simp
  next
    case (Cons w ws')
    define r where "r = (if vs = [] then '']'' else CHR '','' # printed_items vs) @ s"
    define r' where "r' = (if ws' = [] then '']'' else CHR '','' # printed_items ws') @ s'"
    have "follows r" "follows r'" by (simp_all add: r_def r'_def)
    moreover have "printed v @ r = printed w @ r'" using 8(5) by (simp add: Cons r_def r'_def)
    ultimately have "v = w \<and> r = r'" using 8(1) [of w r r'] 8(3,4) Cons by simp
    then show ?thesis using 8(2) [of ws' s s'] 8(3,4) Cons by (auto simp: r_def r'_def split: if_splits)
  qed
next
  case 9
  then show ?case by (cases lvs) (auto simp: quoted_escaped char_of_def)
next
  case (10 k v kvs)
  show ?case
  proof (cases lvs)
    case Nil
    then show ?thesis using 10(5) by (simp add: quoted_escaped quote_not_brace)
  next
    case (Cons lv lvs')
    obtain l w where lv: "lv = (l, w)" by (cases lv)
    define r where "r = (if kvs = [] then ''}'' else CHR '','' # printed_entries kvs) @ s"
    define r' where "r' = (if lvs' = [] then ''}'' else CHR '','' # printed_entries lvs') @ s'"
    have f: "follows r" "follows r'" by (simp_all add: r_def r'_def)
    have "quoted k @ CHR '':'' # printed v @ r = quoted l @ CHR '':'' # printed w @ r'"
      using 10(5) by (simp add: Cons lv r_def r'_def)
    from quoted_prefix [OF this] have "k = l" and e: "printed v @ r = printed w @ r'" by simp_all
    moreover have "v = w \<and> r = r'" using 10(1) [of w r r'] 10(3,4) Cons lv f e by simp
    ultimately show ?thesis using 10(2) [of lvs' s s'] 10(3,4) Cons lv by (auto simp: r_def r'_def split: if_splits)
  qed
qed

section \<open>Numbers are readable\<close>

lemma show_nat_digits: "set (show_nat n) \<subseteq> set ''0123456789'' \<and> show_nat n \<noteq> []"
proof (induction n rule: show_nat.induct)
  case (1 n)
  have d: "digit_char m \<in> set ''0123456789''" if "m < 10" for m
    using that nth_mem [of m "''0123456789''"] by (simp add: digit_char_def)
  show ?case
  proof (cases "n < 10")
    case True
    then show ?thesis using d [of n] by (subst (1 2) show_nat.simps) simp
  next
    case False
    then show ?thesis using 1 d [of "n mod 10"] by (subst (1 2) show_nat.simps) simp
  qed
qed

definition digits :: "char set" where
  "digits = set ''0123456789''"

lemma digits_number: "digits \<subseteq> number_chars"
  by (simp add: digits_def number_chars_def)

lemma signs_number: "{CHR ''.'', CHR ''e'', CHR ''-'', CHR ''+''} \<subseteq> number_chars" "CHR ''0'' \<in> digits"
  by (simp_all add: digits_def number_chars_def)

lemma positive_shape: "\<exists>c t. positive_string r = c # t \<and> c \<in> digits \<and> set t \<subseteq> number_chars"
proof -
  obtain ds n where dn: "digits_exponent r = (ds, n)" by (cases "digits_exponent r")
  then obtain m where "ds = show_nat m" by (auto simp: digits_exponent_def Let_def split: prod.splits)
  then have "set ds \<subseteq> digits" "ds \<noteq> []" using show_nat_digits by (simp_all only: digits_def not_False_eq_True)
  then obtain c cs where c: "ds = c # cs" "c \<in> digits" "set cs \<subseteq> digits" by (cases ds) auto
  have ex: "set (show_nat k) \<subseteq> number_chars" for k
    using show_nat_digits digits_number unfolding digits_def by blast
  have cs: "c \<in> number_chars" "set cs \<subseteq> number_chars" "set (take k cs) \<subseteq> number_chars" "set (drop k cs) \<subseteq> number_chars"
    "CHR ''0'' \<in> number_chars" for k
    using c(2,3) digits_number signs_number(2) set_take_subset [of k cs] set_drop_subset [of k cs] by blast+
  have pos: "\<exists>k. nat n = Suc k" if "0 < n" for n :: int using that by (cases "nat n") auto
  show ?thesis
    using pos [of n] c(2) cs ex signs_number
    by (auto simp: positive_string_def dn c(1) Let_def set_replicate_conv_if)
qed

lemma number_text_Cons: "c \<in> digits \<Longrightarrow> set t \<subseteq> number_chars \<Longrightarrow> number_text (c # t)"
  by (auto simp: number_text_def number_chars_def digits_def)

lemma number_text_js: "number_text (js_num_string (Fin r))"
proof -
  have pos: "number_text (positive_string r)" for r
    using positive_shape [of r] number_text_Cons by auto
  have "number_text (CHR ''-'' # positive_string (- r))"
    using pos [of "- r"] signs_number by (simp add: number_text_def)
  moreover have "number_text ''0''" by (simp add: number_text_def number_chars_def)
  ultimately show ?thesis using pos by simp
qed

section \<open>The text determines the content\<close>

text \<open>\<open>JSON.parse\<close> returns finite numbers, except for those too large for a double.\<close>

fun finite_numbers :: "json \<Rightarrow> bool" where
  "finite_numbers (JNum n) = (case n of Fin _ \<Rightarrow> True | _ \<Rightarrow> False)"
| "finite_numbers (JArr js) = list_all finite_numbers js"
| "finite_numbers (JObj kvs) = list_all (\<lambda>kv. finite_numbers (snd kv)) kvs"
| "finite_numbers _ = True"

lemma readable_content: "finite_numbers j \<Longrightarrow> readable (content_of j)"
proof (induction j rule: content_of.induct)
  case (3 n)
  then show ?case using number_text_js by (auto simp: json_number_def split: js_num.splits)
next
  case (5 items)
  then show ?case by (simp add: list_all_iff)
next
  case (6 kvs)
  then show ?case by (simp add: list_all_iff)
qed simp_all

lemma canonicalize_inj:
  assumes "finite_numbers a" "finite_numbers b" "canonicalize a = canonicalize b"
  shows "content_of a = content_of b"
  using printed_prefix [OF readable_content [OF assms(1)] readable_content [OF assms(2)], of "[]" "[]"] assms(3)
  by (simp add: canonicalize_printed)

lemma inj_code_unit: "inj code_unit"
proof (rule injI)
  fix c d
  assume "code_unit c = code_unit d"
  moreover have "(of_char e :: nat) \<noteq> 8212 \<and> (of_char e :: nat) \<noteq> 8230" for e :: char
    using of_char_mod_256 [of e, where ?'a = nat] mod_less_divisor [of 256 "of_char e :: nat"] by linarith
  ultimately show "c = d" by (auto simp: code_unit_def split: if_splits)
qed

text \<open>The order in which the keys were written does not matter.\<close>

lemma sorted_entries_unique:
  assumes "distinct (map fst kvs)" "distinct (map fst lvs)" "set kvs = set lvs"
  shows "sorted_entries kvs = sorted_entries lvs"
proof -
  let ?f = "\<lambda>kv. map code_unit (fst kv)"
  have inj: "inj_on ?f (set kvs)"
    using assms(1) inj_code_unit by (auto simp: inj_on_def distinct_map inj_map_eq_map)
  have d: "distinct (map ?f xs)" if "distinct (map fst xs)" for xs :: "(string \<times> 'a) list"
  proof -
    have "map ?f xs = map (map code_unit) (map fst xs)" by simp
    then show ?thesis using that inj_code_unit by (simp only: distinct_map [of "map code_unit"]) (simp add: inj_on_def inj_map_eq_map)
  qed
  have d': "distinct (map ?f (sort_key ?f xs))" if "distinct (map fst xs)" for xs :: "(string \<times> 'a) list"
    using d [OF that] by (simp add: distinct_map)
  show ?thesis
    unfolding sorted_entries_def
  proof (rule map_sorted_distinct_set_unique [where f = ?f])
    show "inj_on ?f (set (sort_key ?f kvs) \<union> set (sort_key ?f lvs))" using inj assms(3) by simp
  qed (use d' assms in simp_all)
qed

lemma canonicalize_key_order:
  "distinct (map fst kvs) \<Longrightarrow> distinct (map fst lvs) \<Longrightarrow> set kvs = set lvs \<Longrightarrow>
   canonicalize (JObj kvs) = canonicalize (JObj lvs)"
  using sorted_entries_unique [of kvs lvs] by simp

end
