(* ===== verification/ParticipantPolicy.thy ===== *)
theory ParticipantPolicy
  imports Prelude
begin

text \<open>
  Which participant may perform which mutation on a contract
  (\<open>src/lib/contract-trust-policy.ts\<close>): the role and status of the row decide, before any state
  is read.
\<close>

datatype participant_role = Proposer | Invitee | Observer

fun role_name :: "participant_role \<Rightarrow> string" where
  "role_name Proposer = ''proposer''"
| "role_name Invitee = ''invitee''"
| "role_name Observer = ''observer''"

datatype participant_status = PPending | PAccepted | PRejected

fun pstatus_name :: "participant_status \<Rightarrow> string" where
  "pstatus_name PPending = ''pending''"
| "pstatus_name PAccepted = ''accepted''"
| "pstatus_name PRejected = ''rejected''"

datatype contract_action = AAccept | AReject | ACancel | ASendMessage | AClose | AUploadAttachment

datatype participant_decision = MayProceed nat | MayNot refusal

definition forbid :: "string \<Rightarrow> participant_decision" where
  "forbid error = MayNot \<lparr>rf_status = 403, rf_body = api_err error ''FORBIDDEN''\<rparr>"

definition already_responded :: "participant_status option \<Rightarrow> participant_decision" where
  "already_responded st =
     MayNot \<lparr>rf_status = 409,
             rf_body = api_err (''Already responded: '' @
               (case st of None \<Rightarrow> ''unknown'' | Some s \<Rightarrow> pstatus_name s)) ''ALREADY_RESPONDED''\<rparr>"

fun evaluateContractParticipantMutation ::
  "contract_action \<Rightarrow> participant_role \<Rightarrow> participant_status option \<Rightarrow> participant_decision" where
  "evaluateContractParticipantMutation AAccept role st =
     (if role = Observer then forbid ''Observers may inspect contract context but cannot accept contracts''
      else if role = Proposer then forbid ''Proposers cannot accept their own contracts''
      else if st \<noteq> Some PPending then already_responded st
      else MayProceed 200)"
| "evaluateContractParticipantMutation AReject role st =
     (if role = Observer then forbid ''Observers may inspect contract context but cannot reject contracts''
      else if role = Proposer then forbid ''Proposers cannot reject their own contracts''
      else if st \<noteq> Some PPending then already_responded st
      else MayProceed 200)"
| "evaluateContractParticipantMutation ACancel role st =
     (if role = Observer then forbid ''Observers may inspect contract context but cannot cancel contracts''
      else if role \<noteq> Proposer then forbid ''Only the proposer can cancel a contract''
      else MayProceed 200)"
| "evaluateContractParticipantMutation ASendMessage role st =
     (if role = Observer then forbid ''Observers may inspect contract context but cannot send messages''
      else MayProceed 200)"
| "evaluateContractParticipantMutation AClose role st =
     (if role = Observer then forbid ''Observers may inspect contract context but cannot close contracts''
      else MayProceed 200)"
| "evaluateContractParticipantMutation AUploadAttachment role st =
     (if role = Observer then forbid ''Observers may inspect contract artifacts but cannot upload new ones''
      else MayProceed 200)"

lemma decision_distinct [simp]: "forbid e \<noteq> MayProceed n" "already_responded st \<noteq> MayProceed n"
  by (simp_all add: forbid_def already_responded_def)

lemma may_accept_iff:
  "evaluateContractParticipantMutation AAccept r st = MayProceed n \<longleftrightarrow> r = Invitee \<and> st = Some PPending \<and> n = 200"
  by (cases r) auto

lemma may_reject_iff:
  "evaluateContractParticipantMutation AReject r st = MayProceed n \<longleftrightarrow> r = Invitee \<and> st = Some PPending \<and> n = 200"
  by (cases r) auto

lemma may_cancel_iff:
  "evaluateContractParticipantMutation ACancel r st = MayProceed n \<longleftrightarrow> r = Proposer \<and> n = 200"
  by (cases r) auto

lemma observer_never:
  "evaluateContractParticipantMutation a Observer st \<noteq> MayProceed n"
  by (cases a) auto

end
