(* ===== verification/ContractTypes.thy ===== *)
theory ContractTypes
  imports ParticipantPolicy
begin

text \<open>
  The rows of the contract tables and the enumerations of \<open>src/lib/types.ts\<close> the contract
  components share. A timestamp is an integer number of milliseconds since the epoch (the code
  stores its ISO form), a nullable column is an option.
\<close>

type_synonym timestamp = int

section \<open>Contracts\<close>

datatype contract_status = SProposed | SActive | SRejected | SExpired | SCancelled | SClosed

fun status_name :: "contract_status \<Rightarrow> string" where
  "status_name SProposed = ''proposed''"
| "status_name SActive = ''active''"
| "status_name SRejected = ''rejected''"
| "status_name SExpired = ''expired''"
| "status_name SCancelled = ''cancelled''"
| "status_name SClosed = ''closed''"

lemma status_name_inj [simp]: "status_name a = status_name b \<longleftrightarrow> a = b"
  by (cases a; cases b) simp_all

datatype closed_by_kind = ByAgent | ByUser | BySystem

record contract_row =
  c_id :: string
  c_title :: string
  c_description :: "string option"
  c_status :: contract_status
  c_proposer_id :: string
  c_max_turns :: int
  c_current_turns :: int
  c_message_schema :: "json option"
  c_close_reason :: "string option"
  c_closed_by :: "string option"
  c_closed_by_kind :: "closed_by_kind option"
  c_expires_at :: "timestamp option"
  c_closed_at :: "timestamp option"
  c_completion_requires_approval :: bool
  c_completion_approved_at :: "timestamp option"
  c_completion_approved_by :: "string option"
  c_closed_without_approval :: bool
  c_unlinked_reason :: "string option"
  c_created_at :: timestamp
  c_updated_at :: timestamp

record participant_row =
  p_id :: string
  p_contract_id :: string
  p_agent_id :: string
  p_role :: participant_role
  p_status :: participant_status
  p_responded_at :: "timestamp option"

section \<open>Messages\<close>

datatype message_type = MMessage | MRequest | MResponse | MUpdate | MStatus | MReceipt | MApproval

fun message_type_name :: "message_type \<Rightarrow> string" where
  "message_type_name MMessage = ''message''"
| "message_type_name MRequest = ''request''"
| "message_type_name MResponse = ''response''"
| "message_type_name MUpdate = ''update''"
| "message_type_name MStatus = ''status''"
| "message_type_name MReceipt = ''receipt''"
| "message_type_name MApproval = ''approval''"

definition NON_TURN_MESSAGE_TYPES :: "message_type list" where
  "NON_TURN_MESSAGE_TYPES = [MReceipt, MApproval]"

definition consumesTurn :: "message_type \<Rightarrow> bool" where
  "consumesTurn messageType \<longleftrightarrow> messageType \<notin> set NON_TURN_MESSAGE_TYPES"

lemma consumesTurn_simps [simp]:
  "consumesTurn MMessage" "consumesTurn MRequest" "consumesTurn MResponse" "consumesTurn MUpdate"
  "consumesTurn MStatus" "\<not> consumesTurn MReceipt" "\<not> consumesTurn MApproval"
  by (simp_all add: consumesTurn_def NON_TURN_MESSAGE_TYPES_def)

text \<open>A message's content is a JSON object: its keys in order with their values.\<close>

type_synonym content = "(string \<times> json) list"

record message_row =
  m_id :: string
  m_contract_id :: string
  m_sender_id :: string
  m_type :: message_type
  m_content :: content
  m_created_at :: timestamp
  m_requires_action :: bool
  m_consumes_turn :: bool
  m_turn_number :: "int option"

end
