(* ===== verification/Store.thy ===== *)
theory Store
  imports ContractTypes "HOL-Library.State_Monad"
begin

text \<open>
  The database the handlers share, the query client's results (\<open>src/lib/db/client.ts\<close>), and the
  execution of a handler: a state-monad program whose every database call is one atomic statement,
  with the effect of other requests before it.

  A table is the list of its rows in insertion order. Most foreign keys, check constraints and lost
  connections are not written out: any call may fail with an arbitrary error (see below), so every
  claim covers the runs in which they reject a statement. Not modelled: a pool that hands out no
  connection, which throws instead of returning an error and ends the handler.
\<close>

section \<open>Rows\<close>

record agent_row =
  ag_id :: string
  ag_name :: string
  ag_display_name :: string
  ag_owner :: string
  ag_owner_user_id :: "string option"
  ag_description :: "string option"
  ag_capabilities :: "string list"
  ag_protocols :: "string list"
  ag_trust_notes :: "string option"
  ag_trust_tier :: string
  ag_trust_policy :: json
  ag_max_concurrent :: "int option"
  ag_created_at :: timestamp
  ag_updated_at :: timestamp

datatype link_type = Continues | Supersedes | DelegatesTo

record link_row =
  l_id :: string
  l_from :: string
  l_to :: string
  l_type :: link_type
  l_note :: "string option"
  l_created_by :: "string option"
  l_created_at :: timestamp

record project_row =
  pj_id :: string
  pj_title :: "string option"
  pj_description :: "string option"
  pj_status :: string
  pj_created_by_agent_id :: "string option"
  pj_privacy_metadata :: json
  pj_created_at :: timestamp
  pj_updated_at :: timestamp

record member_row =
  pm_id :: string
  pm_project_id :: string
  pm_agent_id :: string
  pm_role :: string
  pm_joined_at :: timestamp

record observer_row =
  ob_id :: string
  ob_project_id :: string
  ob_agent_id :: string
  ob_invited_by_agent_id :: "string option"
  ob_note :: "string option"
  ob_created_at :: timestamp

record sprint_row =
  sp_id :: string
  sp_project_id :: string
  sp_title :: string
  sp_goal :: "string option"
  sp_status :: string
  sp_start_date :: "string option"
  sp_end_date :: "string option"
  sp_position :: int
  sp_created_at :: timestamp
  sp_updated_at :: timestamp

text \<open>
  The execution of a task: its runs, their checkpoints, and the snapshot of them on the task's row
  (the columns from \<open>execution_status\<close> to \<open>last_checkpoint_payload\<close>).
\<close>

datatype run_status =
  RQueued | RStarting | RRunning | RPendingApproval | RWaiting | RBlocked | RPaused | RHandoffNeeded
  | RSucceeded | RFailed | RCancelled

datatype exec_status =
  EIdle | EQueued | ERunning | EPendingApproval | EWaiting | EBlocked | EPaused | EHandoffNeeded
  | ESucceeded | EFailed | ECancelled

record task_snapshot =
  ts_execution_status :: exec_status
  ts_active_run_id :: "string option"
  ts_started_at :: "timestamp option"
  ts_heartbeat_at :: "timestamp option"
  ts_completed_at :: "timestamp option"
  ts_last_checkpoint_at :: "timestamp option"
  ts_last_checkpoint_summary :: "string option"
  ts_last_checkpoint_payload :: json

text \<open>The follow-through of a blocked task, a group of columns of its row.\<close>

record task_blocker =
  tb_blocked_at :: "timestamp option"
  tb_follow_up_at :: "timestamp option"
  tb_followed_through_at :: "timestamp option"
  tb_escalated_at :: "timestamp option"
  tb_resolution_action :: "string option"
  tb_resolution_owner :: "string option"
  tb_resolution_due_at :: "timestamp option"
  tb_resolution_status :: "string option"

definition not_blocked :: task_blocker where
  "not_blocked = \<lparr>tb_blocked_at = None, tb_follow_up_at = None, tb_followed_through_at = None, tb_escalated_at = None,
     tb_resolution_action = None, tb_resolution_owner = None, tb_resolution_due_at = None, tb_resolution_status = None\<rparr>"

record task_row =
  t_id :: string
  t_title :: "string option"
  t_status :: "string option"
  t_project_id :: string
  t_assignee_agent_id :: "string option"
  t_description :: "string option"
  t_priority :: string
  t_labels :: "string list"
  t_due_date :: "string option"
  t_sprint_id :: "string option"
  t_reporter_agent_id :: "string option"
  t_position :: int
  t_created_at :: timestamp
  t_blocker :: task_blocker
  t_snapshot :: task_snapshot
  t_updated_at :: timestamp

record run_row =
  r_id :: string
  r_task_id :: string
  r_project_id :: string
  r_agent_id :: string
  r_status :: run_status
  r_attempt :: int
  r_started_at :: "timestamp option"
  r_heartbeat_at :: "timestamp option"
  r_completed_at :: "timestamp option"
  r_checkpoint_count :: int
  r_summary :: "string option"
  r_error_message :: "string option"
  r_metadata :: json
  r_created_at :: timestamp
  r_updated_at :: timestamp

record checkpoint_row =
  ck_id :: string
  ck_run_id :: string
  ck_task_id :: string
  ck_project_id :: string
  ck_agent_id :: string
  ck_sequence :: int
  ck_key :: string
  ck_summary :: "string option"
  ck_payload :: json
  ck_attachment_ids :: "string list"
  ck_created_at :: timestamp

text \<open>A comment as it is written, and with what the table adds.\<close>

record comment_fields =
  cm_task_id :: string
  cm_project_id :: string
  cm_author_agent_id :: "string option"
  cm_author_name :: string
  cm_content :: string
  cm_comment_type :: string
  cm_metadata :: content

record comment_row = comment_fields +
  cm_id :: string
  cm_created_at :: timestamp

record activity_row =
  av_project_id :: string
  av_task_id :: string
  av_actor_agent_id :: "string option"
  av_actor_user_id :: "string option"
  av_event_type :: string
  av_summary :: string
  av_metadata :: content
  av_created_at :: timestamp

record task_contract_row =
  tk_task_id :: string
  tk_contract_id :: string

record dependency_row =
  dp_id :: string
  dp_blocking_task_id :: string
  dp_blocked_task_id :: string
  dp_type :: string
  dp_created_at :: timestamp

text \<open>Invitations to a project.\<close>

datatype invitation_status = IPending | IAccepted | IDeclined | ICancelled | IExpired

record invitation_row =
  iv_id :: string
  iv_project_id :: string
  iv_agent_id :: string
  iv_invited_by_agent_id :: string
  iv_role :: string
  iv_status :: invitation_status
  iv_responded_at :: "timestamp option"
  iv_reminder_sent_at :: "timestamp option"
  iv_expires_at :: "timestamp option"
  iv_created_at :: timestamp
  iv_updated_at :: timestamp

text \<open>Webhooks, the deliveries made to them, and the requests that were sent over the network.\<close>

record webhook_row =
  wh_id :: string
  wh_agent_id :: string
  wh_url :: string
  wh_secret :: string
  wh_events :: "string list"
  wh_is_active :: bool
  wh_failure_count :: int
  wh_last_delivery_at :: "timestamp option"
  wh_created_at :: timestamp
  wh_updated_at :: timestamp

datatype delivery_status = DPending | DPendingRetry | DRetrying | DSuccess | DFailed

record delivery_row =
  dl_id :: string
  dl_webhook_id :: string
  dl_event :: string
  dl_status :: delivery_status
  dl_attempts :: int
  dl_max_retries :: int
  dl_retry_delay_ms :: int
  dl_last_retry_at :: "timestamp option"
  dl_response_status :: "int option"
  dl_delivered_at :: "timestamp option"
  dl_payload :: json
  dl_created_at :: timestamp

record sent_request =
  sr_delivery_id :: string
  sr_url :: string
  sr_event :: string
  sr_timestamp :: string
  sr_signature :: string
  sr_body :: string

record note_row =
  n_id :: string
  n_contract_id :: string
  n_body :: string
  n_author_user_id :: "string option"
  n_author_name :: string
  n_created_at :: timestamp
  n_updated_at :: timestamp
  n_withdrawn_at :: "timestamp option"

record ack_row =
  k_note_id :: string
  k_agent_id :: string

datatype question_status = QOpen | QAnswered | QDismissed

record question_row =
  q_id :: string
  q_contract_id :: string
  q_asked_by :: string
  q_kind :: string
  q_body :: string
  q_blocking :: bool
  q_status :: question_status
  q_answer :: "string option"
  q_answered_by_user_id :: "string option"
  q_answered_by_name :: "string option"
  q_created_at :: timestamp
  q_answered_at :: "timestamp option"
  q_message_id :: "string option"

datatype approval_status = APending | AApproved | ADenied | AConsumed

record approval_row =
  ap_id :: string
  ap_action :: string
  ap_actor :: string
  ap_details :: json
  ap_status :: approval_status
  ap_reviewed_by :: "string option"
  ap_created_at :: timestamp
  ap_reviewed_at :: "timestamp option"

record user_row =
  u_id :: string
  u_display_name :: string
  u_is_super_admin :: bool

record audit_row =
  au_actor :: string
  au_action :: string
  au_resource_type :: "string option"
  au_resource_id :: "string option"
  au_details :: "content option"
  au_ip_address :: "string option"

record attachment_row =
  at_id :: string
  at_project_id :: string
  at_task_id :: "string option"
  at_contract_id :: "string option"
  at_run_id :: "string option"
  at_checkpoint_id :: "string option"
  at_uploader_agent_id :: "string option"
  at_uploader_user_id :: "string option"
  at_filename :: string
  at_original_name :: string
  at_mime_type :: string
  at_size_bytes :: nat
  at_storage_path :: string
  at_sha256 :: "string option"
  at_metadata :: content
  at_created_at :: timestamp

record config_row =
  cfg_key :: string
  cfg_value :: content

text \<open>Requests: their idempotency keys, rate buckets, nonces and the service keys they are signed with.\<close>

record idempotency_row =
  ik_key :: string
  ik_agent_id :: string
  ik_endpoint :: string
  ik_status_code :: nat
  ik_response :: json
  ik_expires_at :: timestamp

record bucket_row =
  rb_key :: string
  rb_count :: int
  rb_reset_at :: timestamp

record nonce_row =
  nc_nonce :: string
  nc_expires_at :: timestamp

record service_key_row =
  sk_id :: string
  sk_key_id :: string
  sk_signing_secret :: string
  sk_agent_id :: "string option"
  sk_is_active :: bool
  sk_expires_at :: "timestamp option"
  sk_key_hash :: string
  sk_human_owner :: "string option"
  sk_label :: "string option"
  sk_rotated_at :: "timestamp option"
  sk_created_at :: timestamp

text \<open>
  The tables, the clock both the application and the database read, and the supply of primary
  keys: \<open>db_ids n\<close> is the \<open>n\<close>-th generated UUID. The two memory fields are the maps the server process
  keeps for itself while the database is out of reach; \<open>db_sent\<close> records what was sent to the outside.
\<close>

record db =
  db_contracts :: "contract_row list"
  db_participants :: "participant_row list"
  db_messages :: "message_row list"
  db_agents :: "agent_row list"
  db_users :: "user_row list"
  db_links :: "link_row list"
  db_projects :: "project_row list"
  db_members :: "member_row list"
  db_observers :: "observer_row list"
  db_sprints :: "sprint_row list"
  db_tasks :: "task_row list"
  db_task_contracts :: "task_contract_row list"
  db_notes :: "note_row list"
  db_acks :: "ack_row list"
  db_questions :: "question_row list"
  db_attachments :: "attachment_row list"
  db_approvals :: "approval_row list"
  db_config :: "config_row list"
  db_audit :: "audit_row list"
  db_runs :: "run_row list"
  db_checkpoints :: "checkpoint_row list"
  db_comments :: "comment_row list"
  db_activity :: "activity_row list"
  db_idempotency :: "idempotency_row list"
  db_buckets :: "bucket_row list"
  db_nonces :: "nonce_row list"
  db_service_keys :: "service_key_row list"
  db_dependencies :: "dependency_row list"
  db_invitations :: "invitation_row list"
  db_webhooks :: "webhook_row list"
  db_deliveries :: "delivery_row list"
  db_sent :: "sent_request list"
  db_files :: "string \<rightharpoonup> string"
  db_memory_buckets :: "string \<rightharpoonup> (int \<times> timestamp)"
  db_memory_nonces :: "string \<rightharpoonup> timestamp"
  db_now :: timestamp
  db_ids :: "nat \<Rightarrow> string"
  db_next :: nat

definition empty_db :: "(nat \<Rightarrow> string) \<Rightarrow> db" where
  "empty_db ids = \<lparr>db_contracts = [], db_participants = [], db_messages = [], db_agents = [], db_users = [],
     db_links = [], db_projects = [], db_members = [], db_observers = [], db_sprints = [], db_tasks = [], db_task_contracts = [],
     db_notes = [], db_acks = [], db_questions = [], db_attachments = [], db_approvals = [], db_config = [], db_audit = [],
     db_runs = [], db_checkpoints = [], db_comments = [], db_activity = [], db_idempotency = [], db_buckets = [],
     db_nonces = [], db_service_keys = [], db_dependencies = [], db_invitations = [], db_webhooks = [], db_deliveries = [],
     db_sent = [], db_files = Map.empty, db_memory_buckets = Map.empty, db_memory_nonces = Map.empty,
     db_now = 0, db_ids = ids, db_next = 0\<rparr>"

section \<open>Statements and their results\<close>

record db_error =
  de_code :: string
  de_message :: string

type_synonym 'a db_result = "db_error + 'a"

type_synonym 'a statement = "db \<Rightarrow> 'a db_result \<times> db"

text \<open>\<open>DirectQuery.shape\<close> with the cardinalities \<open>single\<close> and \<open>maybeSingle\<close>.\<close>

definition shape_single :: "'r list \<Rightarrow> 'r db_result" where
  "shape_single rows =
     (if length rows \<noteq> 1 then
        Inl \<lparr>de_code = ''PGRST116'', de_message = ''Expected one row, found '' @ show_nat (length rows)\<rparr>
      else Inr (hd rows))"

definition shape_maybe :: "'r list \<Rightarrow> 'r option db_result" where
  "shape_maybe rows =
     (if length rows > 1 then
        Inl \<lparr>de_code = ''PGRST116'', de_message = ''Expected at most one row, found '' @ show_nat (length rows)\<rparr>
      else Inr (case rows of [] \<Rightarrow> None | r # _ \<Rightarrow> Some r))"

definition shaped :: "('r list \<Rightarrow> 'a db_result) \<Rightarrow> 'r list statement \<Rightarrow> 'a statement" where
  "shaped shape q d = (case q d of (Inl e, d') \<Rightarrow> (Inl e, d') | (Inr rows, d') \<Rightarrow> (shape rows, d'))"

definition q_select :: "(db \<Rightarrow> 'r list) \<Rightarrow> ('r \<Rightarrow> bool) \<Rightarrow> 'r list statement" where
  "q_select rows P d = (Inr (filter P (rows d)), d)"

text \<open>An update returns the rows it changed, as they are after it.\<close>

definition q_update ::
  "(db \<Rightarrow> 'r list) \<Rightarrow> (('r list \<Rightarrow> 'r list) \<Rightarrow> db \<Rightarrow> db) \<Rightarrow> ('r \<Rightarrow> bool) \<Rightarrow> ('r \<Rightarrow> 'r) \<Rightarrow> 'r list statement" where
  "q_update rows upd P f d =
     (Inr (map f (filter P (rows d))), upd (map (\<lambda>r. if P r then f r else r)) d)"

definition q_delete ::
  "(db \<Rightarrow> 'r list) \<Rightarrow> (('r list \<Rightarrow> 'r list) \<Rightarrow> db \<Rightarrow> db) \<Rightarrow> ('r \<Rightarrow> bool) \<Rightarrow> 'r list statement" where
  "q_delete rows upd P d = (Inr (filter P (rows d)), upd (filter (\<lambda>r. \<not> P r)) d)"

text \<open>An insert of rows whose \<open>clash\<close> with a stored row violates a unique index.\<close>

definition unique_violation :: db_error where
  "unique_violation = \<lparr>de_code = ''23505'', de_message = ''duplicate key value violates unique constraint''\<rparr>"

definition q_insert ::
  "(db \<Rightarrow> 'r list) \<Rightarrow> (('r list \<Rightarrow> 'r list) \<Rightarrow> db \<Rightarrow> db) \<Rightarrow> ('r \<Rightarrow> 'r \<Rightarrow> bool) \<Rightarrow> 'r list \<Rightarrow> 'r list statement" where
  "q_insert rows upd clash new d =
     (if (\<exists>n\<in>set new. \<exists>r\<in>set (rows d). clash n r) then (Inl unique_violation, d)
      else (Inr new, upd (\<lambda>rs. rs @ new) d))"

text \<open>A statement that needs a fresh primary key takes the next one of the supply.\<close>

definition with_fresh :: "(string \<Rightarrow> 'a statement) \<Rightarrow> 'a statement" where
  "with_fresh q d = q (db_ids d (db_next d)) (d\<lparr>db_next := Suc (db_next d)\<rparr>)"

section \<open>Handlers\<close>

text \<open>
  What happens between two calls of a handler: an arbitrary change of the database by other
  requests, and possibly a failure of the handler's own call.
\<close>

record env_step =
  es_act :: "db \<Rightarrow> db"
  es_fault :: "db_error option"

text \<open>A webhook announcement a handler makes (fire and forget).\<close>

record webhook_event =
  we_targets :: "string list"
  we_event :: string
  we_contract_id :: "string option"
  we_project_id :: "string option"
  we_task_id :: "string option"
  we_sprint_id :: "string option"
  we_approval_id :: "string option"
  we_data :: content

record sys =
  sys_db :: db
  sys_env :: "env_step list"
  sys_out :: "webhook_event list"

type_synonym 'a prog = "(sys, 'a) state"

definition call :: "'a statement \<Rightarrow> 'a db_result prog" where
  "call q = State (\<lambda>s.
     case sys_env s of
       [] \<Rightarrow> (case q (sys_db s) of (r, d) \<Rightarrow> (r, s\<lparr>sys_db := d\<rparr>))
     | e # es \<Rightarrow>
         (case es_fault e of
            Some err \<Rightarrow> (Inl err, s\<lparr>sys_db := es_act e (sys_db s), sys_env := es\<rparr>)
          | None \<Rightarrow> (case q (es_act e (sys_db s)) of (r, d) \<Rightarrow> (r, s\<lparr>sys_db := d, sys_env := es\<rparr>))))"

text \<open>\<open>new Date()\<close>, and a delivery that is started and not awaited.\<close>

definition clock :: "timestamp prog" where
  "clock = State (\<lambda>s. (db_now (sys_db s), s))"

text \<open>An access to the process's own memory: never interrupted, and never failing.\<close>

definition memory :: "(db \<Rightarrow> 'a \<times> db) \<Rightarrow> 'a prog" where
  "memory f = State (\<lambda>s. case f (sys_db s) of (x, d) \<Rightarrow> (x, s\<lparr>sys_db := d\<rparr>))"

definition deliver :: "webhook_event \<Rightarrow> unit prog" where
  "deliver e = State (\<lambda>s. ((), s\<lparr>sys_out := sys_out s @ [e]\<rparr>))"

text \<open>\<open>const { data } = await ...\<close>: the data, or \<open>null\<close>; for the many shape with \<open>|| []\<close>.\<close>

definition data_of :: "'a db_result \<Rightarrow> 'a option" where
  "data_of r = (case r of Inl _ \<Rightarrow> None | Inr x \<Rightarrow> Some x)"

definition maybe_of :: "'a option db_result \<Rightarrow> 'a option" where
  "maybe_of r = (case r of Inl _ \<Rightarrow> None | Inr x \<Rightarrow> x)"

definition rows_of :: "'a list db_result \<Rightarrow> 'a list" where
  "rows_of r = (case r of Inl _ \<Rightarrow> [] | Inr xs \<Rightarrow> xs)"

lemma data_of_simps [simp]: "data_of (Inl e) = None" "data_of (Inr x) = Some x"
  by (simp_all add: data_of_def)

lemma maybe_of_simps [simp]: "maybe_of (Inl e) = None" "maybe_of (Inr x) = x"
  by (simp_all add: maybe_of_def)

lemma rows_of_simps [simp]: "rows_of (Inl e) = []" "rows_of (Inr xs) = xs"
  by (simp_all add: rows_of_def)

text \<open>
  What a route answers: a status with a body, an error body, an exception that escapes it, or the
  recorded answer of an earlier request with the same idempotency key.
\<close>

datatype 'b response = Answer nat 'b | Refusal refusal | Thrown string | Replayed nat json

definition reply_error :: "nat \<Rightarrow> string \<Rightarrow> string \<Rightarrow> 'b response" where
  "reply_error status error code = Refusal \<lparr>rf_status = status, rf_body = api_err error code\<rparr>"

definition run :: "'a prog \<Rightarrow> env_step list \<Rightarrow> db \<Rightarrow> 'a \<times> db \<times> webhook_event list" where
  "run m env d =
     (case run_state m \<lparr>sys_db = d, sys_env = env, sys_out = []\<rparr> of (x, s) \<Rightarrow> (x, sys_db s, sys_out s))"

definition result :: "'a prog \<Rightarrow> env_step list \<Rightarrow> db \<Rightarrow> 'a" where
  "result m env d = fst (run m env d)"

definition final :: "'a prog \<Rightarrow> env_step list \<Rightarrow> db \<Rightarrow> db" where
  "final m env d = fst (snd (run m env d))"

definition announced :: "'a prog \<Rightarrow> env_step list \<Rightarrow> db \<Rightarrow> webhook_event list" where
  "announced m env d = snd (snd (run m env d))"

end
