(* ===== verification/RelyGuarantee.thy ===== *)
theory RelyGuarantee
  imports Store
begin

text \<open>
  Reasoning about handlers that run beside other requests. A relation \<open>R\<close> on databases says what
  every request may do in one step; a triple \<open>valid R P m Q\<close> says that \<open>m\<close>, started where \<open>P\<close> holds
  and disturbed by steps of \<open>R\<close> only, makes only changes that \<open>R\<close> allows and ends where \<open>Q\<close> holds.
\<close>

definition rely :: "(db \<Rightarrow> db \<Rightarrow> bool) \<Rightarrow> env_step list \<Rightarrow> bool" where
  "rely R env \<longleftrightarrow> (\<forall>e\<in>set env. \<forall>d. R d (es_act e d))"

definition stable :: "(db \<Rightarrow> db \<Rightarrow> bool) \<Rightarrow> (db \<Rightarrow> bool) \<Rightarrow> bool" where
  "stable R P \<longleftrightarrow> (\<forall>d d'. P d \<and> R d d' \<longrightarrow> P d')"

definition valid :: "(db \<Rightarrow> db \<Rightarrow> bool) \<Rightarrow> (db \<Rightarrow> bool) \<Rightarrow> 'a prog \<Rightarrow> ('a \<Rightarrow> db \<Rightarrow> bool) \<Rightarrow> bool" where
  "valid R P m Q \<longleftrightarrow>
     (\<forall>s. rely R (sys_env s) \<and> P (sys_db s) \<longrightarrow>
        (case run_state m s of (x, s') \<Rightarrow>
           rely R (sys_env s') \<and> R (sys_db s) (sys_db s') \<and> Q x (sys_db s')))"

text \<open>The program makes only changes that \<open>R\<close> allows, whatever it is started in.\<close>

definition keeps :: "(db \<Rightarrow> db \<Rightarrow> bool) \<Rightarrow> 'a prog \<Rightarrow> bool" where
  "keeps R m \<longleftrightarrow> valid R (\<lambda>_. True) m (\<lambda>_ _. True)"

lemma keepsD: "keeps R m \<Longrightarrow> valid R (\<lambda>_. True) m (\<lambda>_ _. True)"
  by (simp add: keeps_def)

lemma rely_Nil [simp]: "rely R []"
  by (simp add: rely_def)

lemma rely_Cons [simp]: "rely R (e # es) \<longleftrightarrow> (\<forall>d. R d (es_act e d)) \<and> rely R es"
  by (simp add: rely_def)

lemma stable_True [simp]: "stable R (\<lambda>_. True)"
  by (simp add: stable_def)

lemma stable_conj: "stable R P \<Longrightarrow> stable R Q \<Longrightarrow> stable R (\<lambda>d. P d \<and> Q d)"
  by (auto simp: stable_def)

lemma valid_conseq:
  "valid R P m Q \<Longrightarrow> (\<And>d. P' d \<Longrightarrow> P d) \<Longrightarrow> (\<And>x d. Q x d \<Longrightarrow> Q' x d) \<Longrightarrow> valid R P' m Q'"
  unfolding valid_def by (fastforce split: prod.splits)

lemma valid_run:
  assumes "valid R P m Q" "rely R env" "P d"
  shows "R d (final m env d)" and "Q (result m env d) (final m env d)"
proof -
  obtain x s where e: "run_state m \<lparr>sys_db = d, sys_env = env, sys_out = []\<rparr> = (x, s)"
    by (cases "run_state m \<lparr>sys_db = d, sys_env = env, sys_out = []\<rparr>") blast
  have "R d (sys_db s) \<and> Q x (sys_db s)"
    using assms(1) [unfolded valid_def, rule_format, of "\<lparr>sys_db = d, sys_env = env, sys_out = []\<rparr>"]
      assms(2,3) e by simp
  with e show "R d (final m env d)" "Q (result m env d) (final m env d)"
    by (simp_all add: final_def result_def run_def)
qed

lemma keeps_run: "keeps R m \<Longrightarrow> rely R env \<Longrightarrow> R d (final m env d)"
  unfolding keeps_def by (rule valid_run(1)) auto

locale rely_guarantee =
  fixes R :: "db \<Rightarrow> db \<Rightarrow> bool"
  assumes refl: "R d d"
    and trans: "R a b \<Longrightarrow> R b c \<Longrightarrow> R a c"
begin

lemma valid_return: "(\<And>d. P d \<Longrightarrow> Q x d) \<Longrightarrow> valid R P (State_Monad.return x) Q"
  unfolding valid_def by (simp add: State_Monad.return_def refl)

lemma valid_bind:
  assumes "valid R P m Q" and "\<And>x. valid R (Q x) (k x) S"
  shows "valid R P (State_Monad.bind m k) S"
  unfolding valid_def
proof (intro allI impI)
  fix s :: sys assume s: "rely R (sys_env s) \<and> P (sys_db s)"
  obtain x s1 where m: "run_state m s = (x, s1)" by fastforce
  from assms(1) s m have 1: "rely R (sys_env s1)" "R (sys_db s) (sys_db s1)" "Q x (sys_db s1)"
    unfolding valid_def by fastforce+
  obtain y s2 where k: "run_state (k x) s1 = (y, s2)" by fastforce
  from assms(2) [of x] 1 k have 2: "rely R (sys_env s2)" "R (sys_db s1) (sys_db s2)" "S y (sys_db s2)"
    unfolding valid_def by fastforce+
  show "case run_state (State_Monad.bind m k) s of (x, s') \<Rightarrow>
      rely R (sys_env s') \<and> R (sys_db s) (sys_db s') \<and> S x (sys_db s')"
    using 1 2 m k trans [of "sys_db s" "sys_db s1" "sys_db s2"] by (simp add: State_Monad.bind_def)
qed

lemma valid_call:
  assumes st: "stable R P"
    and step: "\<And>d. P d \<Longrightarrow> R d (snd (q d)) \<and> Q (fst (q d)) (snd (q d))"
    and fault: "\<And>d e. P d \<Longrightarrow> Q (Inl e) d"
  shows "valid R P (call q) Q"
  unfolding valid_def
proof (intro allI impI)
  fix s :: sys assume s: "rely R (sys_env s) \<and> P (sys_db s)"
  show "case run_state (call q) s of (x, s') \<Rightarrow>
      rely R (sys_env s') \<and> R (sys_db s) (sys_db s') \<and> Q x (sys_db s')"
  proof (cases "sys_env s")
    case Nil
    with s step [of "sys_db s"] show ?thesis by (auto simp: call_def split: prod.splits)
  next
    case (Cons e es)
    with s have r: "R (sys_db s) (es_act e (sys_db s))" "rely R es" by simp_all
    with s st have p: "P (es_act e (sys_db s))" unfolding stable_def by blast
    show ?thesis
    proof (cases "es_fault e")
      case None
      with Cons r p step [OF p] show ?thesis
        by (auto simp: call_def split: prod.splits intro: trans)
    next
      case (Some err)
      with Cons r p fault show ?thesis by (simp add: call_def)
    qed
  qed
qed

lemma valid_clock: "(\<And>d. P d \<Longrightarrow> Q (db_now d) d) \<Longrightarrow> valid R P clock Q"
  unfolding valid_def by (simp add: clock_def refl)

lemma valid_clock_bind: "(\<And>now. valid R P (k now) S) \<Longrightarrow> valid R P (State_Monad.bind clock k) S"
  by (rule valid_bind [where Q = "\<lambda>_. P"], rule valid_clock)

lemma valid_deliver: "(\<And>d. P d \<Longrightarrow> Q () d) \<Longrightarrow> valid R P (deliver e) Q"
  unfolding valid_def by (simp add: deliver_def refl)

lemma valid_memory:
  "(\<And>d. P d \<Longrightarrow> R d (snd (f d)) \<and> Q (fst (f d)) (snd (f d))) \<Longrightarrow> valid R P (memory f) Q"
  unfolding valid_def memory_def by (fastforce split: prod.splits)

lemma valid_if:
  "(b \<Longrightarrow> valid R P m Q) \<Longrightarrow> (\<not> b \<Longrightarrow> valid R P n Q) \<Longrightarrow> valid R P (if b then m else n) Q"
  by simp

text \<open>For programs that only have to keep the relation.\<close>

lemma keeps_return: "keeps R (State_Monad.return x)"
  unfolding keeps_def by (rule valid_return) simp

lemma keeps_bind: "keeps R m \<Longrightarrow> (\<And>x. keeps R (k x)) \<Longrightarrow> keeps R (State_Monad.bind m k)"
  unfolding keeps_def by (rule valid_bind)

lemma keeps_call: "(\<And>d. R d (snd (q d))) \<Longrightarrow> keeps R (call q)"
  unfolding keeps_def by (rule valid_call) simp_all

lemma keeps_clock: "keeps R clock"
  unfolding keeps_def by (rule valid_clock) simp

lemma keeps_memory: "(\<And>d. R d (snd (f d))) \<Longrightarrow> keeps R (memory f)"
  unfolding keeps_def by (rule valid_memory) simp

lemma keeps_deliver: "keeps R (deliver e)"
  unfolding keeps_def by (rule valid_deliver) simp

lemma keeps_if: "(b \<Longrightarrow> keeps R m) \<Longrightarrow> (\<not> b \<Longrightarrow> keeps R n) \<Longrightarrow> keeps R (if b then m else n)"
  by simp

lemma keeps_option:
  "(x = None \<Longrightarrow> keeps R m) \<Longrightarrow> (\<And>y. x = Some y \<Longrightarrow> keeps R (f y)) \<Longrightarrow>
   keeps R (case x of None \<Rightarrow> m | Some y \<Rightarrow> f y)"
  by (cases x) simp_all

lemma keeps_sum:
  "(\<And>e. x = Inl e \<Longrightarrow> keeps R (f e)) \<Longrightarrow> (\<And>y. x = Inr y \<Longrightarrow> keeps R (g y)) \<Longrightarrow>
   keeps R (case x of Inl e \<Rightarrow> f e | Inr y \<Rightarrow> g y)"
  by (cases x) simp_all

lemma keeps_pair_options:
  "(\<And>a b. x = (Some a, Some b) \<Longrightarrow> keeps R (f a b)) \<Longrightarrow> keeps R g \<Longrightarrow>
   keeps R (case x of (Some a, Some b) \<Rightarrow> f a b | _ \<Rightarrow> g)"
  by (cases x; cases "fst x"; cases "snd x") auto

text \<open>Programs that keep an assertion \<open>P\<close>, which the other requests keep too.\<close>

lemma keeps_holds: "keeps R m \<Longrightarrow> stable R P \<Longrightarrow> valid R P m (\<lambda>_. P)"
  unfolding keeps_def valid_def stable_def by (fastforce split: prod.splits)

lemma holds_return: "valid R P (State_Monad.return x) (\<lambda>_. P)"
  by (rule valid_return)

lemma holds_bind: "valid R P m (\<lambda>_. P) \<Longrightarrow> (\<And>x. valid R P (k x) (\<lambda>_. P)) \<Longrightarrow> valid R P (State_Monad.bind m k) (\<lambda>_. P)"
  by (rule valid_bind)

lemma valid_option:
  "(x = None \<Longrightarrow> valid R P m Q) \<Longrightarrow> (\<And>y. x = Some y \<Longrightarrow> valid R P (f y) Q) \<Longrightarrow>
   valid R P (case x of None \<Rightarrow> m | Some y \<Rightarrow> f y) Q"
  by (cases x) simp_all

lemma valid_sum:
  "(\<And>e. x = Inl e \<Longrightarrow> valid R P (f e) Q) \<Longrightarrow> (\<And>y. x = Inr y \<Longrightarrow> valid R P (g y) Q) \<Longrightarrow>
   valid R P (case x of Inl e \<Rightarrow> f e | Inr y \<Rightarrow> g y) Q"
  by (cases x) simp_all

lemmas holds_rules = holds_return holds_bind valid_if valid_option valid_sum

lemmas keeps_rules = keeps_return keeps_bind keeps_clock keeps_deliver keeps_if keeps_option keeps_sum

end

section \<open>Statements that leave a table alone\<close>

text \<open>Reading changes nothing; a shape does not change what the statement did.\<close>

lemma snd_shaped [simp]: "snd (shaped sh q d) = snd (q d)"
  by (simp add: shaped_def split: prod.splits sum.splits)

lemma snd_q_select [simp]: "snd (q_select rows P d) = d"
  by (simp add: q_select_def)

lemma snd_q_update [simp]: "snd (q_update rows upd P f d) = upd (map (\<lambda>r. if P r then f r else r)) d"
  by (simp add: q_update_def)

lemma snd_q_delete [simp]: "snd (q_delete rows upd P d) = upd (filter (\<lambda>r. \<not> P r)) d"
  by (simp add: q_delete_def)

lemma snd_q_insert:
  "snd (q_insert rows upd clash new d) = d \<or> snd (q_insert rows upd clash new d) = upd (\<lambda>rs. rs @ new) d"
  by (simp add: q_insert_def)

lemma shape_single_Inr: "shape_single rows = Inr r \<longleftrightarrow> rows = [r]"
  by (cases rows) (auto simp: shape_single_def)

lemma shape_maybe_Inr_Some: "shape_maybe rows = Inr (Some r) \<longleftrightarrow> rows = [r]"
  by (cases rows) (auto simp: shape_maybe_def)

lemma shaped_Inr: "fst (shaped sh q d) = Inr x \<Longrightarrow> \<exists>rows. fst (q d) = Inr rows \<and> sh rows = Inr x"
  by (auto simp: shaped_def split: prod.splits sum.splits)

lemma fst_q_select [simp]: "fst (q_select rows P d) = Inr (filter P (rows d))"
  by (simp add: q_select_def)

lemma fst_q_update [simp]: "fst (q_update rows upd P f d) = Inr (map f (filter P (rows d)))"
  by (simp add: q_update_def)

lemma fst_q_delete [simp]: "fst (q_delete rows upd P d) = Inr (filter P (rows d))"
  by (simp add: q_delete_def)

lemma fst_shaped [simp]:
  "fst (q d) = Inr rows \<Longrightarrow> fst (shaped sh q d) = sh rows"
  "fst (q d) = Inl e \<Longrightarrow> fst (shaped sh q d) = Inl e"
  by (auto simp: shaped_def split: prod.splits)

section \<open>Programs that change nothing\<close>

text \<open>
  \<open>quiet R P m Q\<close>: started where \<open>P\<close> holds and disturbed by \<open>R\<close>, the program itself changes nothing:
  the final database is what the other requests made of the first one, in their order.
\<close>

definition quiet :: "(db \<Rightarrow> db \<Rightarrow> bool) \<Rightarrow> (db \<Rightarrow> bool) \<Rightarrow> 'a prog \<Rightarrow> ('a \<Rightarrow> db \<Rightarrow> bool) \<Rightarrow> bool" where
  "quiet R P m Q \<longleftrightarrow>
     (\<forall>s. rely R (sys_env s) \<and> P (sys_db s) \<longrightarrow>
        (case run_state m s of (x, s') \<Rightarrow>
           \<exists>used. sys_env s = used @ sys_env s' \<and> sys_db s' = fold es_act used (sys_db s) \<and>
                  sys_out s' = sys_out s \<and> Q x (sys_db s')))"

lemma rely_append [simp]: "rely R (xs @ ys) \<longleftrightarrow> rely R xs \<and> rely R ys"
  by (auto simp: rely_def)

lemma quiet_return: "(\<And>d. P d \<Longrightarrow> Q x d) \<Longrightarrow> quiet R P (State_Monad.return x) Q"
  unfolding quiet_def by (auto simp: State_Monad.return_def intro: exI [of _ "[]"])

lemma quiet_clock: "(\<And>d. P d \<Longrightarrow> Q (db_now d) d) \<Longrightarrow> quiet R P clock Q"
  unfolding quiet_def by (auto simp: clock_def intro: exI [of _ "[]"])

lemma quiet_bind:
  assumes "quiet R P m Q" and "\<And>x. quiet R (Q x) (k x) S"
  shows "quiet R P (State_Monad.bind m k) S"
  unfolding quiet_def
proof (intro allI impI)
  fix s :: sys assume s: "rely R (sys_env s) \<and> P (sys_db s)"
  obtain x s1 where m: "run_state m s = (x, s1)" by fastforce
  from assms(1) s m obtain u1 where 1: "sys_env s = u1 @ sys_env s1"
    "sys_db s1 = fold es_act u1 (sys_db s)" "sys_out s1 = sys_out s" "Q x (sys_db s1)"
    unfolding quiet_def by fastforce
  obtain y s2 where k: "run_state (k x) s1 = (y, s2)" by fastforce
  from s 1 have "rely R (sys_env s1)" by simp
  with assms(2) [of x] 1 k obtain u2 where 2: "sys_env s1 = u2 @ sys_env s2"
    "sys_db s2 = fold es_act u2 (sys_db s1)" "sys_out s2 = sys_out s1" "S y (sys_db s2)"
    unfolding quiet_def by fastforce
  show "case run_state (State_Monad.bind m k) s of (x, s') \<Rightarrow>
      \<exists>used. sys_env s = used @ sys_env s' \<and> sys_db s' = fold es_act used (sys_db s) \<and>
        sys_out s' = sys_out s \<and> S x (sys_db s')"
    using 1 2 m k by (auto simp: State_Monad.bind_def intro!: exI [of _ "u1 @ u2"])
qed

lemma quiet_call:
  assumes st: "stable R P"
    and step: "\<And>d. P d \<Longrightarrow> snd (q d) = d \<and> Q (fst (q d)) d"
    and fault: "\<And>d e. P d \<Longrightarrow> Q (Inl e) d"
  shows "quiet R P (call q) Q"
  unfolding quiet_def
proof (intro allI impI)
  fix s :: sys assume s: "rely R (sys_env s) \<and> P (sys_db s)"
  show "case run_state (call q) s of (x, s') \<Rightarrow>
      \<exists>used. sys_env s = used @ sys_env s' \<and> sys_db s' = fold es_act used (sys_db s) \<and>
        sys_out s' = sys_out s \<and> Q x (sys_db s')"
  proof (cases "sys_env s")
    case Nil
    with s step [of "sys_db s"] show ?thesis
      by (auto simp: call_def split: prod.splits intro: exI [of _ "[]"])
  next
    case (Cons e es)
    with s st have p: "P (es_act e (sys_db s))" unfolding stable_def by auto
    show ?thesis
      using Cons p step [OF p] fault
      by (cases "es_fault e") (auto simp: call_def split: prod.splits intro!: exI [of _ "[e]"])
  qed
qed

lemma quiet_conseq:
  "quiet R P m Q \<Longrightarrow> (\<And>d. P' d \<Longrightarrow> P d) \<Longrightarrow> (\<And>x d. Q x d \<Longrightarrow> Q' x d) \<Longrightarrow> quiet R P' m Q'"
  unfolding quiet_def by (fastforce split: prod.splits)

lemma quiet_False: "(\<And>d. \<not> P d) \<Longrightarrow> quiet R P m Q"
  unfolding quiet_def by blast

lemma quiet_select:
  assumes "stable R P" and "\<And>d. P d \<Longrightarrow> Q (Inr (filter F (rows d))) d" and "\<And>d e. P d \<Longrightarrow> Q (Inl e) d"
  shows "quiet R P (call (q_select rows F)) Q"
  using assms by (intro quiet_call) (auto simp: q_select_def)

lemma quiet_run:
  assumes "quiet R P m Q" "rely R env" "P d"
  shows "\<exists>used rest. env = used @ rest \<and> final m env d = fold es_act used d"
    and "Q (result m env d) (final m env d)" and "announced m env d = []"
proof -
  obtain x s where e: "run_state m \<lparr>sys_db = d, sys_env = env, sys_out = []\<rparr> = (x, s)"
    by (cases "run_state m \<lparr>sys_db = d, sys_env = env, sys_out = []\<rparr>") blast
  have "\<exists>used. env = used @ sys_env s \<and> sys_db s = fold es_act used d \<and> sys_out s = [] \<and> Q x (sys_db s)"
    using assms(1) [unfolded quiet_def, rule_format, of "\<lparr>sys_db = d, sys_env = env, sys_out = []\<rparr>"]
      assms(2,3) e by simp
  with e show "\<exists>used rest. env = used @ rest \<and> final m env d = fold es_act used d"
    "Q (result m env d) (final m env d)" "announced m env d = []"
    by (auto simp: final_def result_def announced_def run_def)
qed

section \<open>Invariants as relations\<close>

text \<open>Keeping an invariant is the relation that carries it over a step.\<close>

definition inv_rel :: "(db \<Rightarrow> bool) \<Rightarrow> db \<Rightarrow> db \<Rightarrow> bool" where
  "inv_rel I d d' \<longleftrightarrow> (I d \<longrightarrow> I d')"

lemma rely_guarantee_inv: "rely_guarantee (inv_rel I)"
  by unfold_locales (auto simp: inv_rel_def)

end
