(* ===== verification/CalmRuns.thy ===== *)
theory CalmRuns
  imports RelyGuarantee
begin

text \<open>
  Runs in which no statement fails: the other requests still come in between, but the database answers.
  What a handler is sure to do then is a triple \<open>calmly R P m Q\<close>, with the rules of \<open>RelyGuarantee\<close> less
  the case of a failed call.
\<close>

definition calm :: "(db \<Rightarrow> db \<Rightarrow> bool) \<Rightarrow> env_step list \<Rightarrow> bool" where
  "calm R env \<longleftrightarrow> rely R env \<and> (\<forall>e\<in>set env. es_fault e = None)"

definition calmly :: "(db \<Rightarrow> db \<Rightarrow> bool) \<Rightarrow> (db \<Rightarrow> bool) \<Rightarrow> 'a prog \<Rightarrow> ('a \<Rightarrow> db \<Rightarrow> bool) \<Rightarrow> bool" where
  "calmly R P m Q \<longleftrightarrow>
     (\<forall>s. calm R (sys_env s) \<and> P (sys_db s) \<longrightarrow>
        (case run_state m s of (x, s') \<Rightarrow>
           calm R (sys_env s') \<and> R (sys_db s) (sys_db s') \<and> Q x (sys_db s')))"

lemma calm_Nil [simp]: "calm R []"
  by (simp add: calm_def)

lemma calm_rely: "calm R env \<Longrightarrow> rely R env"
  by (simp add: calm_def)

lemma calmly_conseq:
  "calmly R P m Q \<Longrightarrow> (\<And>d. P' d \<Longrightarrow> P d) \<Longrightarrow> (\<And>x d. Q x d \<Longrightarrow> Q' x d) \<Longrightarrow> calmly R P' m Q'"
  unfolding calmly_def by (fastforce split: prod.splits)

lemma calmly_run:
  assumes "calmly R P m Q" "calm R env" "P d"
  shows "R d (final m env d)" and "Q (result m env d) (final m env d)"
proof -
  obtain x s where e: "run_state m \<lparr>sys_db = d, sys_env = env, sys_out = []\<rparr> = (x, s)"
    by (cases "run_state m \<lparr>sys_db = d, sys_env = env, sys_out = []\<rparr>") blast
  have "R d (sys_db s) \<and> Q x (sys_db s)"
    using assms(1) [unfolded calmly_def, rule_format, of "\<lparr>sys_db = d, sys_env = env, sys_out = []\<rparr>"]
      assms(2,3) e by simp
  with e show "R d (final m env d)" "Q (result m env d) (final m env d)"
    by (simp_all add: final_def result_def run_def)
qed

context rely_guarantee
begin

lemma calmly_return: "(\<And>d. P d \<Longrightarrow> Q x d) \<Longrightarrow> calmly R P (State_Monad.return x) Q"
  unfolding calmly_def by (simp add: State_Monad.return_def refl)

lemma calmly_clock: "(\<And>d. P d \<Longrightarrow> Q (db_now d) d) \<Longrightarrow> calmly R P clock Q"
  unfolding calmly_def by (simp add: clock_def refl)

lemma calmly_deliver: "(\<And>d. P d \<Longrightarrow> Q () d) \<Longrightarrow> calmly R P (deliver e) Q"
  unfolding calmly_def by (simp add: deliver_def refl)

lemma calmly_memory:
  "(\<And>d. P d \<Longrightarrow> R d (snd (f d)) \<and> Q (fst (f d)) (snd (f d))) \<Longrightarrow> calmly R P (memory f) Q"
  unfolding calmly_def memory_def by (fastforce split: prod.splits)

lemma calmly_bind:
  assumes "calmly R P m Q" and "\<And>x. calmly R (Q x) (k x) S"
  shows "calmly R P (State_Monad.bind m k) S"
  unfolding calmly_def
proof (intro allI impI)
  fix s :: sys assume s: "calm R (sys_env s) \<and> P (sys_db s)"
  obtain x s1 where m: "run_state m s = (x, s1)" by fastforce
  from assms(1) s m have 1: "calm R (sys_env s1)" "R (sys_db s) (sys_db s1)" "Q x (sys_db s1)"
    unfolding calmly_def by fastforce+
  obtain y s2 where k: "run_state (k x) s1 = (y, s2)" by fastforce
  from assms(2) [of x] 1 k have 2: "calm R (sys_env s2)" "R (sys_db s1) (sys_db s2)" "S y (sys_db s2)"
    unfolding calmly_def by fastforce+
  show "case run_state (State_Monad.bind m k) s of (x, s') \<Rightarrow>
      calm R (sys_env s') \<and> R (sys_db s) (sys_db s') \<and> S x (sys_db s')"
    using 1 2 m k trans [of "sys_db s" "sys_db s1" "sys_db s2"] by (simp add: State_Monad.bind_def)
qed

lemma calmly_call:
  assumes st: "stable R P"
    and step: "\<And>d. P d \<Longrightarrow> R d (snd (q d)) \<and> Q (fst (q d)) (snd (q d))"
  shows "calmly R P (call q) Q"
  unfolding calmly_def
proof (intro allI impI)
  fix s :: sys assume s: "calm R (sys_env s) \<and> P (sys_db s)"
  show "case run_state (call q) s of (x, s') \<Rightarrow>
      calm R (sys_env s') \<and> R (sys_db s) (sys_db s') \<and> Q x (sys_db s')"
  proof (cases "sys_env s")
    case Nil
    with s step [of "sys_db s"] show ?thesis by (auto simp: call_def split: prod.splits)
  next
    case (Cons e es)
    with s have r: "R (sys_db s) (es_act e (sys_db s))" "calm R es" "es_fault e = None" by (simp_all add: calm_def)
    with s st have p: "P (es_act e (sys_db s))" unfolding stable_def by blast
    show ?thesis using Cons r step [OF p] by (auto simp: call_def split: prod.splits intro: trans)
  qed
qed

lemma calmly_if:
  "(b \<Longrightarrow> calmly R P m Q) \<Longrightarrow> (\<not> b \<Longrightarrow> calmly R P n Q) \<Longrightarrow> calmly R P (if b then m else n) Q"
  by simp

lemma calmly_option:
  "(x = None \<Longrightarrow> calmly R P m Q) \<Longrightarrow> (\<And>y. x = Some y \<Longrightarrow> calmly R P (f y) Q) \<Longrightarrow>
   calmly R P (case x of None \<Rightarrow> m | Some y \<Rightarrow> f y) Q"
  by (cases x) simp_all

lemma calmly_sum:
  "(\<And>e. x = Inl e \<Longrightarrow> calmly R P (f e) Q) \<Longrightarrow> (\<And>y. x = Inr y \<Longrightarrow> calmly R P (g y) Q) \<Longrightarrow>
   calmly R P (case x of Inl e \<Rightarrow> f e | Inr y \<Rightarrow> g y) Q"
  by (cases x) simp_all

end

end
