(* ===== verification/RateLimit.thy ===== *)
theory RateLimit
  imports RelyGuarantee
begin

text \<open>
  Rate limiting (\<open>src/lib/rate-limit.ts\<close>): fixed windows counted in the database by
  \<open>rate_limit_increment\<close> (\<open>migrations/20260331144800_shared_rate_limit.sql\<close>), and in the memory of the
  process while the database is out of reach. The periodic cleanup of expired buckets is a step of
  the other requests.
\<close>

section \<open>Model\<close>

record rate_limit_config =
  rc_windowMs :: int
  rc_maxRequests :: int

definition GLOBAL_LIMIT :: rate_limit_config where
  "GLOBAL_LIMIT = \<lparr>rc_windowMs = 60000, rc_maxRequests = 60\<rparr>"

definition PROPOSALS_LIMIT :: rate_limit_config where
  "PROPOSALS_LIMIT = \<lparr>rc_windowMs = 3600000, rc_maxRequests = 10\<rparr>"

definition MESSAGES_LIMIT :: rate_limit_config where
  "MESSAGES_LIMIT = \<lparr>rc_windowMs = 3600000, rc_maxRequests = 100\<rparr>"

record limit_result =
  li_allowed :: bool
  li_remaining :: int
  li_resetAt :: timestamp

text \<open>One atomic upsert: a new or expired bucket starts a window, a live one counts on.\<close>

definition bucket_after :: "timestamp \<Rightarrow> int \<Rightarrow> bucket_row \<Rightarrow> bucket_row" where
  "bucket_after now windowMs b =
     (if rb_reset_at b < now then b\<lparr>rb_count := 1, rb_reset_at := now + windowMs\<rparr>
      else b\<lparr>rb_count := rb_count b + 1\<rparr>)"

definition rate_limit_increment :: "string \<Rightarrow> int \<Rightarrow> bucket_row list statement" where
  "rate_limit_increment key windowMs d =
     (if \<exists>b\<in>set (db_buckets d). rb_key b = key then
        q_update db_buckets db_buckets_update (\<lambda>b. rb_key b = key) (bucket_after (db_now d) windowMs) d
      else
        let new = \<lparr>rb_key = key, rb_count = 1, rb_reset_at = db_now d + windowMs\<rparr>
        in (Inr [new], db_buckets_update (\<lambda>bs. bs @ [new]) d))"

definition judge :: "rate_limit_config \<Rightarrow> int \<Rightarrow> timestamp \<Rightarrow> limit_result" where
  "judge config count resetAt =
     (if count > rc_maxRequests config then \<lparr>li_allowed = False, li_remaining = 0, li_resetAt = resetAt\<rparr>
      else \<lparr>li_allowed = True, li_remaining = rc_maxRequests config - count, li_resetAt = resetAt\<rparr>)"

definition checkRateLimitFallback :: "string \<Rightarrow> rate_limit_config \<Rightarrow> limit_result prog" where
  "checkRateLimitFallback key config = memory (\<lambda>d.
     let now = db_now d;
         entry = (case db_memory_buckets d key of
             Some (n, resetAt) \<Rightarrow> if resetAt < now then (0, now + rc_windowMs config) else (n, resetAt)
           | None \<Rightarrow> (0, now + rc_windowMs config));
         count = fst entry + 1
     in (judge config count (snd entry),
         db_memory_buckets_update (\<lambda>m. m(key \<mapsto> (count, snd entry))) d))"

definition checkRateLimit :: "string \<Rightarrow> rate_limit_config \<Rightarrow> limit_result prog" where
  "checkRateLimit key config = do {
     r \<leftarrow> call (rate_limit_increment key (rc_windowMs config));
     case r of
       Inr (row # _) \<Rightarrow> State_Monad.return (judge config (rb_count row) (rb_reset_at row))
     | _ \<Rightarrow> checkRateLimitFallback key config
   }"

end
