(* ===== verification/TrustTiers.thy ===== *)
theory TrustTiers
  imports Prelude
begin

text \<open>
  The trust tiers of agents and the gates that decide which agent may be brought into a
  project, a handoff, an escalation or a contract (\<open>src/lib/trust-tiers.ts\<close>). A gate that is
  given a row without the column it reads throws; a throw is \<open>Inl\<close> of the error's message.
\<close>

section \<open>Tiers\<close>

datatype tier = Internal | Partner | External

fun tier_name :: "tier \<Rightarrow> string" where
  "tier_name Internal = ''internal''"
| "tier_name Partner = ''partner''"
| "tier_name External = ''external''"

definition AGENT_TRUST_TIERS :: "tier list" where
  "AGENT_TRUST_TIERS = [Internal, Partner, External]"

definition tier_of_name :: "string \<Rightarrow> tier option" where
  "tier_of_name s = find (\<lambda>t. tier_name t = s) AGENT_TRUST_TIERS"

definition normalizeAgentTrustTier :: "jvalue \<Rightarrow> tier" where
  "normalizeAgentTrustTier value =
     (case as_string value of
        None \<Rightarrow> External
      | Some s \<Rightarrow> (case tier_of_name s of Some t \<Rightarrow> t | None \<Rightarrow> External))"

definition isAgentTrustTier :: "jvalue \<Rightarrow> bool" where
  "isAgentTrustTier value =
     (case as_string value of None \<Rightarrow> False | Some s \<Rightarrow> tier_of_name s \<noteq> None)"

text \<open>
  The columns of a row a gate reads. \<open>None\<close> is a column that was not selected
  (\<open>!('trust_tier' in agent)\<close>), \<open>Some JNull\<close> a null one.
\<close>

record policy_agent =
  pa_id :: string
  pa_name :: string
  pa_owner_user_id :: jvalue
  pa_trust_tier :: jvalue

definition gateTier :: "policy_agent \<Rightarrow> string \<Rightarrow> string + tier" where
  "gateTier agent role =
     (if pa_trust_tier agent = None
      then Inl (''trust gate: '' @ role @ '' agent '' @ pa_id agent @
        '' was loaded without trust_tier. Select TRUST_POLICY_AGENT_COLUMNS '' @ em_dash @
        '' the gate cannot be evaluated on a partial row.'')
      else Inr (normalizeAgentTrustTier (pa_trust_tier agent)))"

definition owner_check :: "policy_agent \<Rightarrow> string \<Rightarrow> string option" where
  "owner_check agent role =
     (if pa_owner_user_id agent = None
      then Some (''trust gate: '' @ role @ '' agent '' @ pa_id agent @
        '' was loaded without owner_user_id. Select TRUST_POLICY_AGENT_COLUMNS '' @ em_dash @
        '' ownership cannot be compared on a partial row.'')
      else None)"

definition sameOwner :: "policy_agent \<Rightarrow> policy_agent \<Rightarrow> string + bool" where
  "sameOwner caller target =
     (case owner_check caller ''caller'' of
        Some e \<Rightarrow> Inl e
      | None \<Rightarrow>
         (case owner_check target ''target'' of
            Some e \<Rightarrow> Inl e
          | None \<Rightarrow> Inr (truthy_str (as_string (pa_owner_user_id caller))
               \<and> truthy_str (as_string (pa_owner_user_id target))
               \<and> as_string (pa_owner_user_id caller) = as_string (pa_owner_user_id target))))"

section \<open>Gates on one target\<close>

record gate_result =
  gr_allowed :: bool
  gr_reason :: "string option"
  gr_callerTier :: tier
  gr_targetTier :: tier

definition gate_ok :: "tier \<Rightarrow> tier \<Rightarrow> gate_result" where
  "gate_ok ct tt = \<lparr>gr_allowed = True, gr_reason = None, gr_callerTier = ct, gr_targetTier = tt\<rparr>"

definition gate_no :: "string \<Rightarrow> tier \<Rightarrow> tier \<Rightarrow> gate_result" where
  "gate_no r ct tt = \<lparr>gr_allowed = False, gr_reason = Some r, gr_callerTier = ct, gr_targetTier = tt\<rparr>"

definition both_tiers :: "policy_agent \<Rightarrow> policy_agent \<Rightarrow> string + tier \<times> tier" where
  "both_tiers caller target =
     (case gateTier caller ''caller'' of
        Inl e \<Rightarrow> Inl e
      | Inr ct \<Rightarrow> (case gateTier target ''target'' of Inl e \<Rightarrow> Inl e | Inr tt \<Rightarrow> Inr (ct, tt)))"

definition evaluateProjectMemberInvite :: "policy_agent \<Rightarrow> policy_agent \<Rightarrow> string + gate_result" where
  "evaluateProjectMemberInvite caller target =
     (case both_tiers caller target of
        Inl e \<Rightarrow> Inl e
      | Inr (ct, tt) \<Rightarrow>
          (if tt = External
           then Inr (gate_no ''External-tier agents cannot be invited as project members. Start with observer access or raise their trust tier first.'' ct tt)
           else Inr (gate_ok ct tt)))"

definition evaluateObserverAccess :: "policy_agent \<Rightarrow> policy_agent \<Rightarrow> string + gate_result" where
  "evaluateObserverAccess caller target =
     (case both_tiers caller target of
        Inl e \<Rightarrow> Inl e
      | Inr (ct, tt) \<Rightarrow>
          (if tt = External
           then (case sameOwner caller target of
                   Inl e \<Rightarrow> Inl e
                 | Inr same \<Rightarrow>
                    (if \<not> same
                     then Inr (gate_no ''External-tier agents need at least partner trust before they can observe another owner's project.'' ct tt)
                     else Inr (gate_ok ct tt)))
           else Inr (gate_ok ct tt)))"

definition evaluateHandoffInvite :: "policy_agent \<Rightarrow> policy_agent \<Rightarrow> string + gate_result" where
  "evaluateHandoffInvite caller target =
     (case both_tiers caller target of
        Inl e \<Rightarrow> Inl e
      | Inr (ct, tt) \<Rightarrow>
          (if tt \<noteq> Internal
           then Inr (gate_no ''Only internal-tier agents can receive task handoff contracts. Third-party agents should be brought in as observers or brokers first.'' ct tt)
           else Inr (gate_ok ct tt)))"

definition evaluateEscalationBroker :: "policy_agent \<Rightarrow> policy_agent \<Rightarrow> string + gate_result" where
  "evaluateEscalationBroker caller target =
     (case both_tiers caller target of
        Inl e \<Rightarrow> Inl e
      | Inr (ct, tt) \<Rightarrow>
          (if tt = External
           then Inr (gate_no ''External-tier agents cannot broker escalations. Promote them to partner if you trust them with coordination.'' ct tt)
           else Inr (gate_ok ct tt)))"

definition evaluateGenericContractInvite :: "policy_agent \<Rightarrow> policy_agent \<Rightarrow> string + gate_result" where
  "evaluateGenericContractInvite caller target =
     (case both_tiers caller target of
        Inl e \<Rightarrow> Inl e
      | Inr (ct, tt) \<Rightarrow>
          (if tt = External
           then (case sameOwner caller target of
                   Inl e \<Rightarrow> Inl e
                 | Inr same \<Rightarrow>
                    (if \<not> same
                     then Inr (gate_no ''External-tier agents cannot receive generic contract proposals across owners until promoted to partner or invited into a narrower project observer flow first.'' ct tt)
                     else Inr (gate_ok ct tt)))
           else Inr (gate_ok ct tt)))"

section \<open>Gates on a contract's participants\<close>

record blocked_target =
  bt_id :: string
  bt_name :: string
  bt_targetTier :: tier
  bt_reason :: string

record multi_gate_result =
  mg_allowed :: bool
  mg_reason :: "string option"
  mg_callerTier :: tier
  mg_blockedTargets :: "blocked_target list"

record collaboration_gate_result =
  cg_allowed :: bool
  cg_reason :: "string option"
  cg_callerTier :: tier
  cg_blockedInvitees :: "blocked_target list"
  cg_blockedObservers :: "blocked_target list"

text \<open>The \<open>flatMap\<close> over the targets; the first gate that throws ends it.\<close>

fun blocked_targets ::
  "(policy_agent \<Rightarrow> string + gate_result) \<Rightarrow> string \<Rightarrow> policy_agent list \<Rightarrow> string + blocked_target list" where
  "blocked_targets gate dflt [] = Inr []"
| "blocked_targets gate dflt (target # targets) =
     (case gate target of
        Inl e \<Rightarrow> Inl e
      | Inr g \<Rightarrow>
         (case blocked_targets gate dflt targets of
            Inl e \<Rightarrow> Inl e
          | Inr bs \<Rightarrow>
             Inr ((if gr_allowed g then []
                   else [\<lparr>bt_id = pa_id target, bt_name = pa_name target,
                          bt_targetTier = gr_targetTier g,
                          bt_reason = str_or (gr_reason g) dflt\<rparr>]) @ bs)))"

definition multi_gate :: "tier \<Rightarrow> blocked_target list \<Rightarrow> multi_gate_result" where
  "multi_gate ct blocked =
     (case blocked of
        [] \<Rightarrow> \<lparr>mg_allowed = True, mg_reason = None, mg_callerTier = ct, mg_blockedTargets = []\<rparr>
      | first # rest \<Rightarrow>
          \<lparr>mg_allowed = False,
           mg_reason = Some (bt_name first @ '': '' @ bt_reason first @
             (if length blocked > 1 then '' (+'' @ show_nat (length blocked - 1) @ '' more)'' else [])),
           mg_callerTier = ct, mg_blockedTargets = blocked\<rparr>)"

definition evaluateContractInvitees :: "policy_agent \<Rightarrow> policy_agent list \<Rightarrow> string + multi_gate_result" where
  "evaluateContractInvitees caller targets =
     (case gateTier caller ''caller'' of
        Inl e \<Rightarrow> Inl e
      | Inr ct \<Rightarrow>
         (case blocked_targets (evaluateGenericContractInvite caller)
                 ''Invitee trust tier blocks generic contract proposal'' targets of
            Inl e \<Rightarrow> Inl e
          | Inr blocked \<Rightarrow> Inr (multi_gate ct blocked)))"

definition evaluateContractObservers :: "policy_agent \<Rightarrow> policy_agent list \<Rightarrow> string + multi_gate_result" where
  "evaluateContractObservers caller targets =
     (case gateTier caller ''caller'' of
        Inl e \<Rightarrow> Inl e
      | Inr ct \<Rightarrow>
         (case blocked_targets (evaluateObserverAccess caller)
                 ''Observer trust tier blocks contract observer access'' targets of
            Inl e \<Rightarrow> Inl e
          | Inr blocked \<Rightarrow> Inr (multi_gate ct blocked)))"

definition evaluateContractCollaboration ::
  "policy_agent \<Rightarrow> policy_agent list \<Rightarrow> policy_agent list \<Rightarrow> string + collaboration_gate_result" where
  "evaluateContractCollaboration caller invitees observers =
     (case gateTier caller ''caller'' of
        Inl e \<Rightarrow> Inl e
      | Inr ct \<Rightarrow>
     (case evaluateContractInvitees caller invitees of
        Inl e \<Rightarrow> Inl e
      | Inr ig \<Rightarrow>
     (case evaluateContractObservers caller observers of
        Inl e \<Rightarrow> Inl e
      | Inr og \<Rightarrow>
         (if \<not> mg_allowed ig
          then Inr \<lparr>cg_allowed = False, cg_reason = mg_reason ig, cg_callerTier = ct,
                    cg_blockedInvitees = mg_blockedTargets ig, cg_blockedObservers = mg_blockedTargets og\<rparr>
          else if \<not> mg_allowed og
          then Inr \<lparr>cg_allowed = False, cg_reason = mg_reason og, cg_callerTier = ct,
                    cg_blockedInvitees = mg_blockedTargets ig, cg_blockedObservers = mg_blockedTargets og\<rparr>
          else Inr \<lparr>cg_allowed = True, cg_reason = None, cg_callerTier = ct,
                    cg_blockedInvitees = [], cg_blockedObservers = []\<rparr>))))"

section \<open>Lemmas\<close>

lemma tier_of_name_name [simp]: "tier_of_name (tier_name t) = Some t"
  by (cases t) (simp_all add: tier_of_name_def AGENT_TRUST_TIERS_def)

lemma tier_of_name_Some: "tier_of_name s = Some t \<longleftrightarrow> s = tier_name t"
proof
  assume "tier_of_name s = Some t"
  then show "s = tier_name t" by (auto simp only: tier_of_name_def find_Some_iff)
qed simp

lemma normalize_name [simp]: "normalizeAgentTrustTier (Some (JStr (tier_name t))) = t"
  by (simp add: normalizeAgentTrustTier_def)

text \<open>What a gate may conclude when it concludes anything: the rows carry the columns it reads.\<close>

definition complete_row :: "policy_agent \<Rightarrow> bool" where
  "complete_row a \<longleftrightarrow> pa_trust_tier a \<noteq> None \<and> pa_owner_user_id a \<noteq> None"

definition tier_of :: "policy_agent \<Rightarrow> tier" where
  "tier_of a = normalizeAgentTrustTier (pa_trust_tier a)"

definition owned_together :: "policy_agent \<Rightarrow> policy_agent \<Rightarrow> bool" where
  "owned_together a b \<longleftrightarrow>
     (\<exists>u. u \<noteq> [] \<and> as_string (pa_owner_user_id a) = Some u \<and> as_string (pa_owner_user_id b) = Some u)"

lemma gateTier_complete [simp]: "complete_row a \<Longrightarrow> gateTier a r = Inr (tier_of a)"
  by (simp add: gateTier_def complete_row_def tier_of_def)

lemma both_tiers_complete [simp]:
  "complete_row a \<Longrightarrow> complete_row b \<Longrightarrow> both_tiers a b = Inr (tier_of a, tier_of b)"
  by (simp add: both_tiers_def)

lemma sameOwner_complete [simp]:
  "complete_row a \<Longrightarrow> complete_row b \<Longrightarrow> sameOwner a b = Inr (owned_together a b)"
  by (auto simp: sameOwner_def owner_check_def complete_row_def owned_together_def truthy_str_def
           split: option.splits)

lemma gate_sel [simp]:
  "gr_allowed (gate_ok c t)" "\<not> gr_allowed (gate_no r c t)"
  "gr_targetTier (gate_ok c t) = t" "gr_targetTier (gate_no r c t) = t"
  "gr_callerTier (gate_ok c t) = c" "gr_callerTier (gate_no r c t) = c"
  "gr_reason (gate_no r c t) = Some r" "gr_reason (gate_ok c t) = None"
  by (simp_all add: gate_ok_def gate_no_def)

lemmas gate_defs = evaluateProjectMemberInvite_def evaluateObserverAccess_def
  evaluateHandoffInvite_def evaluateEscalationBroker_def evaluateGenericContractInvite_def

text \<open>The decision each gate takes on complete rows.\<close>

definition allows :: "string + gate_result \<Rightarrow> bool" where
  "allows r \<longleftrightarrow> (case r of Inl _ \<Rightarrow> False | Inr g \<Rightarrow> gr_allowed g)"

lemma allows_simps [simp]: "allows (Inr g) = gr_allowed g" "\<not> allows (Inl e)"
  by (simp_all add: allows_def)

lemma gates_on_complete_rows:
  assumes "complete_row c" "complete_row t"
  shows allows_member: "allows (evaluateProjectMemberInvite c t) \<longleftrightarrow> tier_of t \<noteq> External"
    and allows_observer: "allows (evaluateObserverAccess c t) \<longleftrightarrow> tier_of t \<noteq> External \<or> owned_together c t"
    and allows_handoff: "allows (evaluateHandoffInvite c t) \<longleftrightarrow> tier_of t = Internal"
    and allows_broker: "allows (evaluateEscalationBroker c t) \<longleftrightarrow> tier_of t \<noteq> External"
    and allows_generic: "allows (evaluateGenericContractInvite c t) \<longleftrightarrow> tier_of t \<noteq> External \<or> owned_together c t"
  using assms by (simp_all add: gate_defs)

lemma generic_invite_total:
  assumes "complete_row c" "complete_row t"
  shows "\<exists>g. evaluateGenericContractInvite c t = Inr g \<and> gr_allowed g = allows (evaluateGenericContractInvite c t)
           \<and> gr_targetTier g = tier_of t"
  using assms by (simp add: gate_defs)

lemma observer_access_total:
  assumes "complete_row c" "complete_row t"
  shows "\<exists>g. evaluateObserverAccess c t = Inr g \<and> gr_allowed g = allows (evaluateObserverAccess c t)
           \<and> gr_targetTier g = tier_of t"
  using assms by (simp add: gate_defs)

text \<open>The \<open>flatMap\<close> of a gate that never throws: exactly the refused targets, in order.\<close>

lemma blocked_targets_total:
  assumes "\<forall>t\<in>set ts. \<exists>g. gate t = Inr g"
  shows "\<exists>bs. blocked_targets gate d ts = Inr bs
           \<and> map bt_id bs = map pa_id (filter (\<lambda>t. \<not> allows (gate t)) ts)"
  using assms
proof (induction ts)
  case Nil
  then show ?case by simp
next
  case (Cons t ts)
  then obtain g bs where "gate t = Inr g" "blocked_targets gate d ts = Inr bs"
    "map bt_id bs = map pa_id (filter (\<lambda>t. \<not> allows (gate t)) ts)" by auto
  then show ?case by simp
qed

lemma multi_gate_allowed: "mg_allowed (multi_gate ct bs) \<longleftrightarrow> bs = []"
  by (simp add: multi_gate_def split: list.split)

lemma multi_gate_blocked [simp]: "mg_blockedTargets (multi_gate ct bs) = bs"
  by (simp add: multi_gate_def split: list.split)

lemma invitees_complete:
  assumes "complete_row c" "\<forall>t\<in>set ts. complete_row t"
  shows "\<exists>m. evaluateContractInvitees c ts = Inr m
     \<and> map bt_id (mg_blockedTargets m) = map pa_id (filter (\<lambda>t. tier_of t = External \<and> \<not> owned_together c t) ts)
     \<and> (mg_allowed m \<longleftrightarrow> (\<forall>t\<in>set ts. tier_of t \<noteq> External \<or> owned_together c t))"
proof -
  have tot: "\<forall>t\<in>set ts. \<exists>g. evaluateGenericContractInvite c t = Inr g"
    using assms generic_invite_total by blast
  have flt: "filter (\<lambda>t. \<not> allows (evaluateGenericContractInvite c t)) ts
           = filter (\<lambda>t. tier_of t = External \<and> \<not> owned_together c t) ts"
    using assms by (intro filter_cong) (auto simp: allows_generic)
  obtain bs where bs: "blocked_targets (evaluateGenericContractInvite c)
      ''Invitee trust tier blocks generic contract proposal'' ts = Inr bs"
    "map bt_id bs = map pa_id (filter (\<lambda>t. tier_of t = External \<and> \<not> owned_together c t) ts)"
    using blocked_targets_total [OF tot] unfolding flt by blast
  have "bs = [] \<longleftrightarrow> (\<forall>t\<in>set ts. tier_of t \<noteq> External \<or> owned_together c t)"
    using arg_cong [OF bs(2), of length] by (auto simp: filter_empty_conv)
  with bs assms(1) show ?thesis
    by (simp add: evaluateContractInvitees_def multi_gate_allowed)
qed

lemma observers_complete:
  assumes "complete_row c" "\<forall>t\<in>set ts. complete_row t"
  shows "\<exists>m. evaluateContractObservers c ts = Inr m
     \<and> map bt_id (mg_blockedTargets m) = map pa_id (filter (\<lambda>t. tier_of t = External \<and> \<not> owned_together c t) ts)
     \<and> (mg_allowed m \<longleftrightarrow> (\<forall>t\<in>set ts. tier_of t \<noteq> External \<or> owned_together c t))"
proof -
  have tot: "\<forall>t\<in>set ts. \<exists>g. evaluateObserverAccess c t = Inr g"
    using assms observer_access_total by blast
  have flt: "filter (\<lambda>t. \<not> allows (evaluateObserverAccess c t)) ts
           = filter (\<lambda>t. tier_of t = External \<and> \<not> owned_together c t) ts"
    using assms by (intro filter_cong) (auto simp: allows_observer)
  obtain bs where bs: "blocked_targets (evaluateObserverAccess c)
      ''Observer trust tier blocks contract observer access'' ts = Inr bs"
    "map bt_id bs = map pa_id (filter (\<lambda>t. tier_of t = External \<and> \<not> owned_together c t) ts)"
    using blocked_targets_total [OF tot] unfolding flt by blast
  have "bs = [] \<longleftrightarrow> (\<forall>t\<in>set ts. tier_of t \<noteq> External \<or> owned_together c t)"
    using arg_cong [OF bs(2), of length] by (auto simp: filter_empty_conv)
  with bs assms(1) show ?thesis
    by (simp add: evaluateContractObservers_def multi_gate_allowed)
qed

section \<open>Properties\<close>

text \<open>
  Property C1. On rows that carry the columns, a contract proposal passes the trust gate exactly
  when every invitee and every observer is either above the external tier or owned by the
  caller's owner, and the two lists of blocked agents are exactly the refused ones, in order.
\<close>

theorem contract_collaboration_decision:
  assumes "complete_row c" "\<forall>t\<in>set is. complete_row t" "\<forall>t\<in>set os. complete_row t"
  shows "\<exists>r. evaluateContractCollaboration c is os = Inr r
     \<and> (cg_allowed r \<longleftrightarrow> (\<forall>t\<in>set is \<union> set os. tier_of t \<noteq> External \<or> owned_together c t))
     \<and> map bt_id (cg_blockedInvitees r)
         = map pa_id (filter (\<lambda>t. tier_of t = External \<and> \<not> owned_together c t) is)
     \<and> map bt_id (cg_blockedObservers r)
         = map pa_id (filter (\<lambda>t. tier_of t = External \<and> \<not> owned_together c t) os)"
proof -
  obtain mi where mi: "evaluateContractInvitees c is = Inr mi"
    "map bt_id (mg_blockedTargets mi) = map pa_id (filter (\<lambda>t. tier_of t = External \<and> \<not> owned_together c t) is)"
    "mg_allowed mi \<longleftrightarrow> (\<forall>t\<in>set is. tier_of t \<noteq> External \<or> owned_together c t)"
    using invitees_complete [OF assms(1,2)] by blast
  obtain mo where mo: "evaluateContractObservers c os = Inr mo"
    "map bt_id (mg_blockedTargets mo) = map pa_id (filter (\<lambda>t. tier_of t = External \<and> \<not> owned_together c t) os)"
    "mg_allowed mo \<longleftrightarrow> (\<forall>t\<in>set os. tier_of t \<noteq> External \<or> owned_together c t)"
    using observers_complete [OF assms(1,3)] by blast
  show ?thesis
  proof (cases "mg_allowed mi \<and> mg_allowed mo")
    case True
    with mi mo have "filter (\<lambda>t. tier_of t = External \<and> \<not> owned_together c t) is = []"
      "filter (\<lambda>t. tier_of t = External \<and> \<not> owned_together c t) os = []"
      by (auto simp: filter_empty_conv)
    with True mi mo assms(1) show ?thesis
      by (auto simp: evaluateContractCollaboration_def)
  next
    case False
    with mi mo assms(1) show ?thesis
      by (auto simp: evaluateContractCollaboration_def)
  qed
qed

lemma contract_collaboration_decision_witness:
  "\<exists>r. evaluateContractCollaboration
         \<lparr>pa_id = ''a'', pa_name = ''alpha'', pa_owner_user_id = Some (JStr ''u1''), pa_trust_tier = Some (JStr ''internal'')\<rparr>
         [\<lparr>pa_id = ''b'', pa_name = ''beta'', pa_owner_user_id = Some (JStr ''u2''), pa_trust_tier = Some JNull\<rparr>]
         [] = Inr r \<and> \<not> cg_allowed r"
proof -
  have ext: "normalizeAgentTrustTier (Some JNull) = External"
    by (simp add: normalizeAgentTrustTier_def)
  show ?thesis
    using contract_collaboration_decision [of
      "\<lparr>pa_id = ''a'', pa_name = ''alpha'', pa_owner_user_id = Some (JStr ''u1''), pa_trust_tier = Some (JStr ''internal'')\<rparr>"
      "[\<lparr>pa_id = ''b'', pa_name = ''beta'', pa_owner_user_id = Some (JStr ''u2''), pa_trust_tier = Some JNull\<rparr>]"
      "[]"] ext
    by (auto simp: complete_row_def tier_of_def owned_together_def)
qed

text \<open>
  A row that was loaded without its trust tier is never decided on: every gate
  throws, whether the missing column is the caller's or the target's. A missing owner column is
  noticed wherever ownership decides: a proposal to, or an observation by, an external agent.
\<close>

theorem partial_row_throws:
  assumes "pa_trust_tier c = None \<or> pa_trust_tier t = None
    \<or> (pa_owner_user_id c = None \<or> pa_owner_user_id t = None) \<and> tier_of t = External"
  shows "(\<exists>e. evaluateGenericContractInvite c t = Inl e) \<and> (\<exists>e. evaluateObserverAccess c t = Inl e)
     \<and> (pa_trust_tier c = None \<or> pa_trust_tier t = None \<longrightarrow>
          (\<exists>e. evaluateProjectMemberInvite c t = Inl e)
        \<and> (\<exists>e. evaluateHandoffInvite c t = Inl e)
        \<and> (\<exists>e. evaluateEscalationBroker c t = Inl e))"
  using assms
  by (auto simp: gate_defs both_tiers_def gateTier_def sameOwner_def owner_check_def tier_of_def)

lemma partial_row_throws_witness:
  "\<exists>e. evaluateHandoffInvite
     \<lparr>pa_id = ''a'', pa_name = ''alpha'', pa_owner_user_id = Some (JStr ''u1''), pa_trust_tier = Some (JStr ''internal'')\<rparr>
     \<lparr>pa_id = ''b'', pa_name = ''beta'', pa_owner_user_id = Some (JStr ''u2''), pa_trust_tier = None\<rparr> = Inl e"
  using partial_row_throws [of
    "\<lparr>pa_id = ''a'', pa_name = ''alpha'', pa_owner_user_id = Some (JStr ''u1''), pa_trust_tier = Some (JStr ''internal'')\<rparr>"
    "\<lparr>pa_id = ''b'', pa_name = ''beta'', pa_owner_user_id = Some (JStr ''u2''), pa_trust_tier = None\<rparr>"]
  by simp

end
