(* ===== verification/TrustPolicy.thy ===== *)
theory TrustPolicy
  imports TrustTiers
begin

text \<open>
  Per-agent trust policies: the JSON an owner stored, normalised field by field to a complete
  configuration, and the decisions that compare the caller's tier with the tier a feature
  requires (\<open>src/lib/agent-trust-policy.ts\<close>, \<open>webhook-trust-policy.ts\<close>,
  \<open>attachment-trust-policy.ts\<close>, \<open>project-invitation-visibility.ts\<close>, \<open>privacy-policy.ts\<close>).
\<close>

section \<open>Configuration\<close>

record webhook_policy =
  wp_management :: tier

record observer_access_policy =
  op_read :: tier
  op_download_project_attachments :: tier

record participant_list_policy =
  pp_list_members :: tier
  pp_list_observers :: tier

record invitation_policy =
  ip_list_pending :: tier

record trust_policy =
  tp_webhooks :: webhook_policy
  tp_observer_project_access :: observer_access_policy
  tp_project_participants :: participant_list_policy
  tp_project_invitations :: invitation_policy

definition DEFAULT_AGENT_TRUST_POLICY :: trust_policy where
  "DEFAULT_AGENT_TRUST_POLICY =
     \<lparr>tp_webhooks = \<lparr>wp_management = Partner\<rparr>,
      tp_observer_project_access = \<lparr>op_read = Partner, op_download_project_attachments = Partner\<rparr>,
      tp_project_participants = \<lparr>pp_list_members = Partner, pp_list_observers = Partner\<rparr>,
      tp_project_invitations = \<lparr>ip_list_pending = Internal\<rparr>\<rparr>"

fun TIER_RANK :: "tier \<Rightarrow> nat" where
  "TIER_RANK External = 0"
| "TIER_RANK Partner = 1"
| "TIER_RANK Internal = 2"

text \<open>\<open>clampTier\<close> accepts the three tiers; the three clamps of the two-tier fields accept
  \<open>internal\<close> and \<open>partner\<close> only and have one body.\<close>

definition clampTier :: "jvalue \<Rightarrow> tier \<Rightarrow> tier" where
  "clampTier value fallback =
     (if value = Some (JStr ''internal'') then Internal
      else if value = Some (JStr ''partner'') then Partner
      else if value = Some (JStr ''external'') then External
      else fallback)"

definition clampWebhookManagementTier :: "jvalue \<Rightarrow> tier \<Rightarrow> tier" where
  "clampWebhookManagementTier value fallback =
     (if value = Some (JStr ''internal'') then Internal
      else if value = Some (JStr ''partner'') then Partner
      else fallback)"

definition clampAttachmentDownloadTier :: "jvalue \<Rightarrow> tier \<Rightarrow> tier" where
  "clampAttachmentDownloadTier value fallback =
     (if value = Some (JStr ''internal'') then Internal
      else if value = Some (JStr ''partner'') then Partner
      else fallback)"

definition clampObserverListTier :: "jvalue \<Rightarrow> tier \<Rightarrow> tier" where
  "clampObserverListTier value fallback =
     (if value = Some (JStr ''internal'') then Internal
      else if value = Some (JStr ''partner'') then Partner
      else fallback)"

definition normalizeAgentTrustPolicy :: "jvalue \<Rightarrow> trust_policy" where
  "normalizeAgentTrustPolicy raw =
     (let candidate = (if is_object raw then raw else Some (JObj []));
          d = DEFAULT_AGENT_TRUST_POLICY
      in \<lparr>tp_webhooks =
            \<lparr>wp_management =
               clampWebhookManagementTier (jprop (jprop candidate ''webhooks'') ''management'')
                 (wp_management (tp_webhooks d))\<rparr>,
          tp_observer_project_access =
            \<lparr>op_read =
               clampTier (jprop (jprop candidate ''observer_project_access'') ''read'')
                 (op_read (tp_observer_project_access d)),
             op_download_project_attachments =
               clampAttachmentDownloadTier
                 (jprop (jprop candidate ''observer_project_access'') ''download_project_attachments'')
                 (op_download_project_attachments (tp_observer_project_access d))\<rparr>,
          tp_project_participants =
            \<lparr>pp_list_members =
               clampTier (jprop (jprop candidate ''project_participants'') ''list_members'')
                 (pp_list_members (tp_project_participants d)),
             pp_list_observers =
               clampObserverListTier (jprop (jprop candidate ''project_participants'') ''list_observers'')
                 (pp_list_observers (tp_project_participants d))\<rparr>,
          tp_project_invitations =
            \<lparr>ip_list_pending =
               clampWebhookManagementTier (jprop (jprop candidate ''project_invitations'') ''list_pending'')
                 (ip_list_pending (tp_project_invitations d))\<rparr>\<rparr>)"

definition canAccessPolicyTier :: "tier \<Rightarrow> tier \<Rightarrow> bool" where
  "canAccessPolicyTier callerTier requiredTier \<longleftrightarrow> TIER_RANK requiredTier \<le> TIER_RANK callerTier"

definition buildDefaultAgentTrustPolicyForTier :: "tier \<Rightarrow> trust_policy" where
  "buildDefaultAgentTrustPolicyForTier trustTier = DEFAULT_AGENT_TRUST_POLICY"

section \<open>Decisions\<close>

text \<open>The row a decision reads; \<open>None\<close> is a column that was not selected.\<close>

record access_context =
  ac_trust_tier :: jvalue
  ac_trust_policy :: jvalue

record policy_decision =
  pd_allowed :: bool
  pd_callerTier :: tier
  pd_requiredTier :: tier
  pd_policy :: trust_policy
  pd_status :: "nat option"
  pd_body :: "api_error option"

definition evaluatePolicyTierAccess ::
  "access_context \<Rightarrow> tier \<Rightarrow> (tier \<Rightarrow> tier \<Rightarrow> string) \<Rightarrow> string + policy_decision" where
  "evaluatePolicyTierAccess ctx requiredTier errorBuilder =
     (if ac_trust_policy ctx = None
      then Inl (''trust policy: the agent row was loaded without trust_policy. Select TRUST_POLICY_ACCESS_COLUMNS '' @
        em_dash @ '' an absent column would otherwise read as \"no custom policy\" and grant the permissive default.'')
      else
        let callerTier = normalizeAgentTrustTier (ac_trust_tier ctx);
            policy = normalizeAgentTrustPolicy (ac_trust_policy ctx)
        in if canAccessPolicyTier callerTier requiredTier
           then Inr \<lparr>pd_allowed = True, pd_callerTier = callerTier, pd_requiredTier = requiredTier,
                     pd_policy = policy, pd_status = None, pd_body = None\<rparr>
           else Inr \<lparr>pd_allowed = False, pd_callerTier = callerTier, pd_requiredTier = requiredTier,
                     pd_policy = policy, pd_status = Some 403,
                     pd_body = Some (api_err (errorBuilder callerTier requiredTier) ''TRUST_TIER_BLOCKED'')\<rparr>)"

definition tier_error :: "string \<Rightarrow> tier \<Rightarrow> tier \<Rightarrow> string" where
  "tier_error what callerTier requiredTier =
     what @ '' '' @ tier_name requiredTier @ ''-tier trust. This agent is '' @ tier_name callerTier @ ''-tier.''"

definition evaluateWebhookPolicyAccess :: "access_context \<Rightarrow> string + policy_decision" where
  "evaluateWebhookPolicyAccess ctx =
     evaluatePolicyTierAccess ctx
       (wp_management (tp_webhooks (normalizeAgentTrustPolicy (ac_trust_policy ctx))))
       (tier_error ''Webhook management requires'')"

definition evaluateObserverProjectReadPolicyAccess :: "access_context \<Rightarrow> string + policy_decision" where
  "evaluateObserverProjectReadPolicyAccess ctx =
     evaluatePolicyTierAccess ctx
       (op_read (tp_observer_project_access (normalizeAgentTrustPolicy (ac_trust_policy ctx))))
       (tier_error ''Observer project read access requires'')"

definition evaluateObserverProjectAttachmentDownloadPolicyAccess ::
  "access_context \<Rightarrow> string + policy_decision" where
  "evaluateObserverProjectAttachmentDownloadPolicyAccess ctx =
     evaluatePolicyTierAccess ctx
       (op_download_project_attachments
          (tp_observer_project_access (normalizeAgentTrustPolicy (ac_trust_policy ctx))))
       (tier_error ''Observer project attachment downloads require'')"

definition evaluateProjectMemberListPolicyAccess :: "access_context \<Rightarrow> string + policy_decision" where
  "evaluateProjectMemberListPolicyAccess ctx =
     evaluatePolicyTierAccess ctx
       (pp_list_members (tp_project_participants (normalizeAgentTrustPolicy (ac_trust_policy ctx))))
       (tier_error ''Observer project member visibility requires'')"

definition evaluateProjectObserverListPolicyAccess :: "access_context \<Rightarrow> string + policy_decision" where
  "evaluateProjectObserverListPolicyAccess ctx =
     evaluatePolicyTierAccess ctx
       (pp_list_observers (tp_project_participants (normalizeAgentTrustPolicy (ac_trust_policy ctx))))
       (tier_error ''Observer project observer visibility requires'')"

definition evaluateProjectInvitationListPolicyAccess :: "access_context \<Rightarrow> string + policy_decision" where
  "evaluateProjectInvitationListPolicyAccess ctx =
     evaluatePolicyTierAccess ctx
       (ip_list_pending (tp_project_invitations (normalizeAgentTrustPolicy (ac_trust_policy ctx))))
       (tier_error ''Observer project invitation visibility requires'')"

lemmas policy_access_defs = evaluateWebhookPolicyAccess_def evaluateObserverProjectReadPolicyAccess_def
  evaluateObserverProjectAttachmentDownloadPolicyAccess_def evaluateProjectMemberListPolicyAccess_def
  evaluateProjectObserverListPolicyAccess_def evaluateProjectInvitationListPolicyAccess_def

subsection \<open>Webhook management\<close>

datatype webhook_action = WRegister | WUpdate | WDelete | WTest | WList

fun webhook_action_name :: "webhook_action \<Rightarrow> string" where
  "webhook_action_name WRegister = ''register''"
| "webhook_action_name WUpdate = ''update''"
| "webhook_action_name WDelete = ''delete''"
| "webhook_action_name WTest = ''test''"
| "webhook_action_name WList = ''list''"

text \<open>\<open>s.replace('-', ' ')\<close>: the first occurrence only.\<close>

fun replace_first :: "char \<Rightarrow> char \<Rightarrow> string \<Rightarrow> string" where
  "replace_first a b [] = []"
| "replace_first a b (c # cs) = (if c = a then b # cs else c # replace_first a b cs)"

datatype webhook_decision =
    WebhookAllowed tier
  | WebhookForbidden tier refusal

definition evaluateWebhookManagementAccess ::
  "webhook_action \<Rightarrow> access_context \<Rightarrow> string + webhook_decision" where
  "evaluateWebhookManagementAccess action actor =
     (let callerTier = normalizeAgentTrustTier (ac_trust_tier actor) in
      case evaluateWebhookPolicyAccess actor of
        Inl e \<Rightarrow> Inl e
      | Inr d \<Rightarrow>
         if \<not> pd_allowed d
         then
           let err = (case pd_body d of None \<Rightarrow> ''undefined'' | Some b \<Rightarrow> ae_error b);
               req = tier_name (pd_requiredTier d);
               msg = (if action = WList
                 then err @ '' External-tier agents cannot manage webhook endpoints until promoted to '' @ req @ ''.''
                 else err @ '' External-tier agents cannot '' @
                      replace_first (CHR ''-'') (CHR '' '') (webhook_action_name action) @
                      '' webhook endpoints until promoted to '' @ req @ ''.'');
               status = (case pd_status d of None \<Rightarrow> 403 | Some s \<Rightarrow> s);
               code = (case pd_body d of None \<Rightarrow> ''FORBIDDEN'' | Some b \<Rightarrow> ae_code b)
           in Inr (WebhookForbidden callerTier \<lparr>rf_status = status, rf_body = api_err msg code\<rparr>)
         else Inr (WebhookAllowed callerTier))"

subsection \<open>Attachment downloads\<close>

text \<open>\<open>ProjectAccessRecord\<close> of \<open>src/lib/project-access.ts\<close>.\<close>

datatype access_role = AccessOwner | AccessMember | AccessObserver

datatype access_kind = Membership | ObserverKind

record project_access =
  pac_projectId :: string
  pac_agentId :: string
  pac_role :: access_role
  pac_accessKind :: access_kind
  pac_isWriteAllowed :: bool

record download_decision =
  dd_allowed :: bool
  dd_status :: nat
  dd_body :: "api_error option"

definition download_ok :: download_decision where
  "download_ok = \<lparr>dd_allowed = True, dd_status = 200, dd_body = None\<rparr>"

definition download_no :: "policy_decision \<Rightarrow> download_decision" where
  "download_no d =
     \<lparr>dd_allowed = False,
      dd_status = (case pd_status d of None \<Rightarrow> 403 | Some s \<Rightarrow> if s = 0 then 403 else s),
      dd_body = pd_body d\<rparr>"

text \<open>The scope is the attachment's \<open>contract_id\<close> column.\<close>

definition evaluateAttachmentDownloadAccess ::
  "access_context \<Rightarrow> project_access option \<Rightarrow> jvalue \<Rightarrow> string + download_decision" where
  "evaluateAttachmentDownloadAccess actor projectAccess contract_id =
     (case projectAccess of
        None \<Rightarrow> Inr \<lparr>dd_allowed = False, dd_status = 403, dd_body = Some (api_err ''Forbidden'' ''FORBIDDEN'')\<rparr>
      | Some pa \<Rightarrow>
         if pac_accessKind pa \<noteq> ObserverKind then Inr download_ok
         else
           let hasContractBoundary = truthy_str (as_string contract_id) in
           case evaluateObserverProjectReadPolicyAccess actor of
             Inl e \<Rightarrow> Inl e
           | Inr rd \<Rightarrow>
              if \<not> pd_allowed rd then Inr (download_no rd)
              else if \<not> hasContractBoundary
              then (case evaluateObserverProjectAttachmentDownloadPolicyAccess actor of
                      Inl e \<Rightarrow> Inl e
                    | Inr ad \<Rightarrow> if \<not> pd_allowed ad then Inr (download_no ad) else Inr download_ok)
              else Inr download_ok)"

subsection \<open>Invitation visibility\<close>

datatype invitation_status = InvPending | InvAccepted | InvDeclined | InvCancelled | InvExpired

record 'i invitation_visibility =
  iv_visibleInvitations :: "'i list"
  iv_hiddenPendingCount :: nat
  iv_canListPending :: bool
  iv_canSeeSummary :: bool

definition applyProjectInvitationVisibility ::
  "('i \<Rightarrow> invitation_status) \<Rightarrow> 'i list \<Rightarrow> access_context \<Rightarrow> bool \<Rightarrow> bool
     \<Rightarrow> string + 'i invitation_visibility" where
  "applyProjectInvitationVisibility status invitations ctx treatAsObserver includeObserverSummary =
     (if \<not> treatAsObserver
      then Inr \<lparr>iv_visibleInvitations = invitations, iv_hiddenPendingCount = 0,
                iv_canListPending = True, iv_canSeeSummary = True\<rparr>
      else
       (case evaluateProjectInvitationListPolicyAccess ctx of
          Inl e \<Rightarrow> Inl e
        | Inr pending \<Rightarrow>
       (case evaluateProjectObserverListPolicyAccess ctx of
          Inl e \<Rightarrow> Inl e
        | Inr summary \<Rightarrow>
           let canListPending = pd_allowed pending;
               canSeeSummary = (if includeObserverSummary then pd_allowed summary else False)
           in Inr \<lparr>iv_visibleInvitations =
                      (if canListPending then invitations
                       else filter (\<lambda>i. status i \<noteq> InvPending) invitations),
                    iv_hiddenPendingCount =
                      (if canListPending then 0
                       else length (filter (\<lambda>i. status i = InvPending) invitations)),
                    iv_canListPending = canListPending,
                    iv_canSeeSummary = canSeeSummary\<rparr>)))"

subsection \<open>Project privacy\<close>

record privacy_metadata =
  pm_version :: nat
  pm_allow_observer_access :: bool

definition DEFAULT_PROJECT_PRIVACY_METADATA :: privacy_metadata where
  "DEFAULT_PROJECT_PRIVACY_METADATA = \<lparr>pm_version = 1, pm_allow_observer_access = True\<rparr>"

definition normalizeProjectPrivacyMetadata :: "jvalue \<Rightarrow> privacy_metadata" where
  "normalizeProjectPrivacyMetadata raw =
     (let candidate = (if is_object raw then raw else Some (JObj [])) in
      \<lparr>pm_version = 1,
       pm_allow_observer_access =
         (case as_bool (jprop candidate ''allow_observer_access'') of
            Some b \<Rightarrow> b
          | None \<Rightarrow> pm_allow_observer_access DEFAULT_PROJECT_PRIVACY_METADATA)\<rparr>)"

section \<open>Lemmas\<close>

lemmas clamp_defs = clampTier_def clampWebhookManagementTier_def clampAttachmentDownloadTier_def
  clampObserverListTier_def

text \<open>The fields that only ever hold two tiers.\<close>

definition two_tier_fields_ok :: "trust_policy \<Rightarrow> bool" where
  "two_tier_fields_ok p \<longleftrightarrow>
     wp_management (tp_webhooks p) \<noteq> External
   \<and> op_download_project_attachments (tp_observer_project_access p) \<noteq> External
   \<and> pp_list_observers (tp_project_participants p) \<noteq> External
   \<and> ip_list_pending (tp_project_invitations p) \<noteq> External"

lemma two_tier_clamps:
  "d \<noteq> External \<Longrightarrow> clampWebhookManagementTier v d \<noteq> External"
  "d \<noteq> External \<Longrightarrow> clampAttachmentDownloadTier v d \<noteq> External"
  "d \<noteq> External \<Longrightarrow> clampObserverListTier v d \<noteq> External"
  by (auto simp: clamp_defs)

lemma normalize_two_tier: "two_tier_fields_ok (normalizeAgentTrustPolicy raw)"
  by (simp add: two_tier_fields_ok_def normalizeAgentTrustPolicy_def Let_def two_tier_clamps
      DEFAULT_AGENT_TRUST_POLICY_def)

lemma normalize_two_tier_fields [simp]:
  "wp_management (tp_webhooks (normalizeAgentTrustPolicy raw)) \<noteq> External"
  "op_download_project_attachments (tp_observer_project_access (normalizeAgentTrustPolicy raw)) \<noteq> External"
  "pp_list_observers (tp_project_participants (normalizeAgentTrustPolicy raw)) \<noteq> External"
  "ip_list_pending (tp_project_invitations (normalizeAgentTrustPolicy raw)) \<noteq> External"
  using normalize_two_tier [of raw] by (simp_all add: two_tier_fields_ok_def)

text \<open>A policy written back as the JSON it is stored as.\<close>

definition policy_json :: "trust_policy \<Rightarrow> json" where
  "policy_json p =
     JObj [(''webhooks'', JObj [(''management'', JStr (tier_name (wp_management (tp_webhooks p))))]),
           (''observer_project_access'',
              JObj [(''read'', JStr (tier_name (op_read (tp_observer_project_access p)))),
                    (''download_project_attachments'',
                       JStr (tier_name (op_download_project_attachments (tp_observer_project_access p))))]),
           (''project_participants'',
              JObj [(''list_members'', JStr (tier_name (pp_list_members (tp_project_participants p)))),
                    (''list_observers'', JStr (tier_name (pp_list_observers (tp_project_participants p))))]),
           (''project_invitations'',
              JObj [(''list_pending'', JStr (tier_name (ip_list_pending (tp_project_invitations p))))])]"

lemma clampTier_name [simp]: "clampTier (Some (JStr (tier_name t))) d = t"
  by (cases t) (simp_all add: clamp_defs)

lemma clamp_two_name [simp]:
  "t \<noteq> External \<Longrightarrow> clampWebhookManagementTier (Some (JStr (tier_name t))) d = t"
  "t \<noteq> External \<Longrightarrow> clampAttachmentDownloadTier (Some (JStr (tier_name t))) d = t"
  "t \<noteq> External \<Longrightarrow> clampObserverListTier (Some (JStr (tier_name t))) d = t"
  by (cases t; simp add: clamp_defs)+

lemma normalize_policy_json:
  assumes "two_tier_fields_ok p"
  shows "normalizeAgentTrustPolicy (Some (policy_json p)) = p"
  using assms
  by (simp add: normalizeAgentTrustPolicy_def policy_json_def two_tier_fields_ok_def Let_def)

lemma TIER_RANK_External [simp]: "TIER_RANK t = 0 \<longleftrightarrow> t = External"
  by (cases t) simp_all

lemma canAccess_External [simp]: "canAccessPolicyTier External t \<longleftrightarrow> t = External"
  by (simp add: canAccessPolicyTier_def)

lemma canAccess_Internal [simp]: "canAccessPolicyTier Internal t"
  by (cases t) (simp_all add: canAccessPolicyTier_def)

lemma canAccess_mono: "TIER_RANK a \<le> TIER_RANK b \<Longrightarrow> canAccessPolicyTier a t \<Longrightarrow> canAccessPolicyTier b t"
  by (simp add: canAccessPolicyTier_def)

lemma evaluatePolicyTierAccess_absent:
  "ac_trust_policy ctx = None \<Longrightarrow> \<exists>e. evaluatePolicyTierAccess ctx t b = Inl e"
  by (simp add: evaluatePolicyTierAccess_def)

lemma evaluatePolicyTierAccess_present:
  "ac_trust_policy ctx \<noteq> None \<Longrightarrow>
   \<exists>d. evaluatePolicyTierAccess ctx t b = Inr d
     \<and> (pd_allowed d \<longleftrightarrow> canAccessPolicyTier (normalizeAgentTrustTier (ac_trust_tier ctx)) t)
     \<and> (\<not> pd_allowed d \<longrightarrow> pd_status d = Some 403)"
  by (simp add: evaluatePolicyTierAccess_def Let_def)

text \<open>
  The six decisions are one interface: which field of the policy a feature reads. What is proved
  of it once holds of all six.
\<close>

locale policy_gate =
  fixes evaluate :: "access_context \<Rightarrow> string + policy_decision"
    and required :: "trust_policy \<Rightarrow> tier"
    and message :: "tier \<Rightarrow> tier \<Rightarrow> string"
  assumes evaluate_eq:
    "evaluate ctx = evaluatePolicyTierAccess ctx
       (required (normalizeAgentTrustPolicy (ac_trust_policy ctx))) message"
begin

lemma absent_throws: "ac_trust_policy ctx = None \<Longrightarrow> \<exists>e. evaluate ctx = Inl e"
  by (simp add: evaluate_eq evaluatePolicyTierAccess_absent)

lemma present_decides:
  assumes "ac_trust_policy ctx \<noteq> None"
  shows "\<exists>d. evaluate ctx = Inr d
     \<and> (pd_allowed d \<longleftrightarrow> canAccessPolicyTier (normalizeAgentTrustTier (ac_trust_tier ctx))
                         (required (normalizeAgentTrustPolicy (ac_trust_policy ctx))))
     \<and> (\<not> pd_allowed d \<longrightarrow> pd_status d = Some 403)"
  unfolding evaluate_eq using assms by (rule evaluatePolicyTierAccess_present)

lemma raised_tier_keeps_access:
  assumes "evaluate ctx = Inr d" "pd_allowed d"
    and "TIER_RANK (normalizeAgentTrustTier (ac_trust_tier ctx)) \<le> TIER_RANK (normalizeAgentTrustTier v)"
  shows "\<exists>d'. evaluate (ctx\<lparr>ac_trust_tier := v\<rparr>) = Inr d' \<and> pd_allowed d'"
proof -
  have p: "ac_trust_policy ctx \<noteq> None"
    using assms(1) absent_throws by fastforce
  obtain d' where d': "evaluate (ctx\<lparr>ac_trust_tier := v\<rparr>) = Inr d'"
    "pd_allowed d' \<longleftrightarrow> canAccessPolicyTier (normalizeAgentTrustTier v)
       (required (normalizeAgentTrustPolicy (ac_trust_policy ctx)))"
    using present_decides [of "ctx\<lparr>ac_trust_tier := v\<rparr>"] p by auto
  with present_decides [OF p] assms show ?thesis
    using canAccess_mono by fastforce
qed

end

interpretation webhook_gate: policy_gate evaluateWebhookPolicyAccess
  "\<lambda>p. wp_management (tp_webhooks p)" "tier_error ''Webhook management requires''"
  by unfold_locales (simp add: policy_access_defs)

interpretation read_gate: policy_gate evaluateObserverProjectReadPolicyAccess
  "\<lambda>p. op_read (tp_observer_project_access p)" "tier_error ''Observer project read access requires''"
  by unfold_locales (simp add: policy_access_defs)

interpretation download_gate: policy_gate evaluateObserverProjectAttachmentDownloadPolicyAccess
  "\<lambda>p. op_download_project_attachments (tp_observer_project_access p)"
  "tier_error ''Observer project attachment downloads require''"
  by unfold_locales (simp add: policy_access_defs)

interpretation member_list_gate: policy_gate evaluateProjectMemberListPolicyAccess
  "\<lambda>p. pp_list_members (tp_project_participants p)"
  "tier_error ''Observer project member visibility requires''"
  by unfold_locales (simp add: policy_access_defs)

interpretation observer_list_gate: policy_gate evaluateProjectObserverListPolicyAccess
  "\<lambda>p. pp_list_observers (tp_project_participants p)"
  "tier_error ''Observer project observer visibility requires''"
  by unfold_locales (simp add: policy_access_defs)

interpretation invitation_list_gate: policy_gate evaluateProjectInvitationListPolicyAccess
  "\<lambda>p. ip_list_pending (tp_project_invitations p)"
  "tier_error ''Observer project invitation visibility requires''"
  by unfold_locales (simp add: policy_access_defs)

lemma webhook_management_absent:
  "ac_trust_policy ctx = None \<Longrightarrow> \<exists>e. evaluateWebhookManagementAccess a ctx = Inl e"
  using webhook_gate.absent_throws [of ctx]
  by (auto simp: evaluateWebhookManagementAccess_def Let_def)

lemma webhook_management_present:
  assumes "ac_trust_policy ctx \<noteq> None"
  shows "(\<exists>t. evaluateWebhookManagementAccess a ctx = Inr (WebhookAllowed t)) \<longleftrightarrow>
     canAccessPolicyTier (normalizeAgentTrustTier (ac_trust_tier ctx))
       (wp_management (tp_webhooks (normalizeAgentTrustPolicy (ac_trust_policy ctx))))"
  using webhook_gate.present_decides [OF assms]
  by (auto simp: evaluateWebhookManagementAccess_def Let_def)

section \<open>Properties\<close>

text \<open>
  Property C2. A stored policy is normalised to a complete one: reading back a policy that was
  written out gives the same policy, and whatever JSON an owner stored, the webhook, attachment
  download, observer list and pending invitation fields never come out open to external agents.
\<close>

theorem policy_normalisation_roundtrip:
  "normalizeAgentTrustPolicy (Some (policy_json (normalizeAgentTrustPolicy raw)))
     = normalizeAgentTrustPolicy raw
   \<and> two_tier_fields_ok (normalizeAgentTrustPolicy raw)"
  using normalize_policy_json [OF normalize_two_tier] normalize_two_tier by blast

text \<open>
  An agent whose stored tier is not one of the three known names (null, absent, any
  other JSON) cannot manage webhooks, whatever policy its owner stored, and as an observer it
  cannot download an attachment outside a contract; with a row that lacks the policy column the
  decision throws instead of falling back to the permissive default.
\<close>

theorem unknown_tier_fails_closed:
  assumes "\<not> isAgentTrustTier (ac_trust_tier ctx)"
    and "pac_accessKind pa = ObserverKind" and "\<not> truthy_str (as_string contract_id)"
  shows "(\<nexists>t. evaluateWebhookManagementAccess a ctx = Inr (WebhookAllowed t))
       \<and> (\<nexists>d. evaluateAttachmentDownloadAccess ctx (Some pa) contract_id = Inr d \<and> dd_allowed d)
       \<and> (ac_trust_policy ctx = None \<longrightarrow>
            (\<exists>e. evaluateWebhookManagementAccess a ctx = Inl e)
          \<and> (\<exists>e. evaluateAttachmentDownloadAccess ctx (Some pa) contract_id = Inl e))"
proof -
  have ext: "normalizeAgentTrustTier (ac_trust_tier ctx) = External"
    using assms(1) by (auto simp: isAgentTrustTier_def normalizeAgentTrustTier_def split: option.splits)
  show ?thesis
  proof (cases "ac_trust_policy ctx = None")
    case True
    then show ?thesis
      using webhook_management_absent [OF True, of a] read_gate.absent_throws [OF True] assms(2)
      by (auto simp: evaluateAttachmentDownloadAccess_def Let_def)
  next
    case False
    have "\<nexists>t. evaluateWebhookManagementAccess a ctx = Inr (WebhookAllowed t)"
      using webhook_management_present [OF False, of a] ext by simp
    moreover have "\<nexists>d. evaluateAttachmentDownloadAccess ctx (Some pa) contract_id = Inr d \<and> dd_allowed d"
      using download_gate.present_decides [OF False] read_gate.present_decides [OF False] assms ext
      by (auto simp: evaluateAttachmentDownloadAccess_def Let_def download_no_def split: if_splits)
    ultimately show ?thesis using False by blast
  qed
qed

lemma unknown_tier_fails_closed_witness:
  "\<not> isAgentTrustTier (Some (JStr ''admin''))
   \<and> (\<nexists>t. evaluateWebhookManagementAccess WRegister
            \<lparr>ac_trust_tier = Some (JStr ''admin''),
             ac_trust_policy = Some (JObj [(''webhooks'', JObj [(''management'', JStr ''external'')])])\<rparr>
          = Inr (WebhookAllowed t))"
proof -
  have t: "\<not> isAgentTrustTier (Some (JStr ''admin''))"
    by (simp add: isAgentTrustTier_def tier_of_name_def AGENT_TRUST_TIERS_def)
  show ?thesis
    using unknown_tier_fails_closed [of
      "\<lparr>ac_trust_tier = Some (JStr ''admin''),
        ac_trust_policy = Some (JObj [(''webhooks'', JObj [(''management'', JStr ''external'')])])\<rparr>"
      "\<lparr>pac_projectId = [], pac_agentId = [], pac_role = AccessObserver,
        pac_accessKind = ObserverKind, pac_isWriteAllowed = False\<rparr>" None WRegister] t
    by (simp add: truthy_str_def)
qed

end
