(* ===== verification/TaskLink.thy ===== *)
theory TaskLink
  imports RelyGuarantee TrustPolicy
begin

text \<open>
  Access to a project (\<open>src/lib/project-access.ts\<close>) and the link of a contract to a project task
  (\<open>src/lib/contract-task-link.ts\<close>).
\<close>

section \<open>Project access\<close>

definition getProjectAccess :: "string \<Rightarrow> string \<Rightarrow> project_access option prog" where
  "getProjectAccess projectId agentId = do {
     member \<leftarrow> call (shaped shape_maybe
       (q_select db_members (\<lambda>m. pm_project_id m = projectId \<and> pm_agent_id m = agentId)));
     case maybe_of member of
       Some m \<Rightarrow> State_Monad.return (Some
         \<lparr>pac_projectId = projectId, pac_agentId = agentId,
          pac_role = (if pm_role m = ''owner'' then AccessOwner else AccessMember),
          pac_accessKind = Membership, pac_isWriteAllowed = True\<rparr>)
     | None \<Rightarrow> do {
         observer \<leftarrow> call (shaped shape_maybe
           (q_select db_observers (\<lambda>m. ob_project_id m = projectId \<and> ob_agent_id m = agentId)));
         case maybe_of observer of
           None \<Rightarrow> State_Monad.return None
         | Some _ \<Rightarrow> State_Monad.return (Some
             \<lparr>pac_projectId = projectId, pac_agentId = agentId, pac_role = AccessObserver,
              pac_accessKind = ObserverKind, pac_isWriteAllowed = False\<rparr>)
       }
   }"

definition listProjectObserverAgentIds :: "string \<Rightarrow> string list prog" where
  "listProjectObserverAgentIds projectId = do {
     rows \<leftarrow> call (q_select db_observers (\<lambda>m. ob_project_id m = projectId));
     State_Monad.return (map ob_agent_id (rows_of rows))
   }"

definition listObservedProjectIds :: "string \<Rightarrow> string list prog" where
  "listObservedProjectIds agentId = do {
     rows \<leftarrow> call (q_select db_observers (\<lambda>m. ob_agent_id m = agentId));
     State_Monad.return (map ob_project_id (rows_of rows))
   }"

section \<open>The linked task\<close>

record linked_task =
  lt_task_id :: string
  lt_task_title :: "string option"
  lt_task_status :: "string option"
  lt_project_id :: string
  lt_project_title :: "string option"

record raw_project =
  rp_id :: "string option"
  rp_title :: "string option"

record raw_task =
  rt_id :: "string option"
  rt_title :: "string option"
  rt_status :: "string option"
  rt_project_id :: "string option"
  rt_project :: "raw_project embed"

definition normalizeLinkedTaskRow :: "raw_task embed \<Rightarrow> linked_task option" where
  "normalizeLinkedTaskRow taskEmbed =
     (case embed_one taskEmbed of
        None \<Rightarrow> None
      | Some task \<Rightarrow>
          if \<not> truthy_str (rt_project_id task) \<or> \<not> truthy_str (rt_id task) then None
          else Some
            \<lparr>lt_task_id = the (rt_id task), lt_task_title = rt_title task, lt_task_status = rt_status task,
             lt_project_id = the (rt_project_id task),
             lt_project_title = Option.bind (embed_one (rt_project task)) rp_title\<rparr>)"

definition validateLinkFields :: "string option \<Rightarrow> string option \<Rightarrow> string option" where
  "validateLinkFields projectId taskId =
     (if truthy_str projectId = truthy_str taskId then None
      else Some ''project_id and task_id must be provided together to link a contract to a task'')"

definition refuse :: "nat \<Rightarrow> string \<Rightarrow> string \<Rightarrow> refusal" where
  "refuse status error code = \<lparr>rf_status = status, rf_body = api_err error code\<rparr>"

text \<open>\<open>refuse\<close> with details; an empty or absent detail is left out.\<close>

definition refuse_d :: "nat \<Rightarrow> string \<Rightarrow> string \<Rightarrow> string option \<Rightarrow> refusal" where
  "refuse_d status error code details =
     \<lparr>rf_status = status,
      rf_body = \<lparr>ae_error = error, ae_code = code,
                 ae_details = (if truthy_str details then Some (DetailText (the details)) else None)\<rparr>\<rparr>"

definition checkLinkPermission :: "string \<Rightarrow> string \<Rightarrow> string \<Rightarrow> refusal option prog" where
  "checkLinkPermission projectId taskId agentId = do {
     access \<leftarrow> getProjectAccess projectId agentId;
     case access of
       None \<Rightarrow> State_Monad.return (Some (refuse 403 ''Not a participant in this project'' ''FORBIDDEN''))
     | Some a \<Rightarrow>
         if pac_accessKind a = ObserverKind then
           State_Monad.return (Some (refuse 403
             ''Observers may inspect linked contracts but cannot change task-contract links'' ''FORBIDDEN''))
         else do {
           task \<leftarrow> call (shaped shape_maybe (q_select db_tasks (\<lambda>t. t_id t = taskId \<and> t_project_id t = projectId)));
           State_Monad.return
             (if maybe_of task = None then Some (refuse 404 ''Task not found in this project'' ''NOT_FOUND'')
              else None)
         }
   }"

definition linkContractToTask :: "string \<Rightarrow> string \<Rightarrow> refusal option prog" where
  "linkContractToTask contractId taskId = do {
     r \<leftarrow> call (q_insert db_task_contracts db_task_contracts_update
        (\<lambda>n r. tk_task_id n = tk_task_id r \<and> tk_contract_id n = tk_contract_id r)
        [\<lparr>tk_task_id = taskId, tk_contract_id = contractId\<rparr>]);
     State_Monad.return
       (case r of
          Inr _ \<Rightarrow> None
        | Inl error \<Rightarrow> if de_code error = ''23505'' then None
                     else Some (refuse 500 ''Failed to link contract'' ''DB_ERROR''))
   }"

text \<open>The embeds the query builder adds: the task of a link row, and its project.\<close>

definition embed_find :: "('r \<Rightarrow> bool) \<Rightarrow> 'r list \<Rightarrow> ('r \<Rightarrow> 'e) \<Rightarrow> 'e embed" where
  "embed_find P rows f = (case find P rows of None \<Rightarrow> EmbedNone | Some r \<Rightarrow> EmbedOne (f r))"

definition embed_task :: "db \<Rightarrow> task_contract_row \<Rightarrow> raw_task embed" where
  "embed_task d link =
     embed_find (\<lambda>t. t_id t = tk_task_id link) (db_tasks d)
       (\<lambda>t. \<lparr>rt_id = Some (t_id t), rt_title = t_title t, rt_status = t_status t,
             rt_project_id = Some (t_project_id t),
             rt_project = embed_find (\<lambda>p. pj_id p = t_project_id t) (db_projects d)
               (\<lambda>p. \<lparr>rp_id = Some (pj_id p), rp_title = pj_title p\<rparr>)\<rparr>)"

definition q_task_links :: "(task_contract_row \<Rightarrow> bool) \<Rightarrow> (string \<times> raw_task embed) list statement" where
  "q_task_links P d = (Inr (map (\<lambda>l. (tk_contract_id l, embed_task d l)) (filter P (db_task_contracts d))), d)"

text \<open>\<open>limit(1)\<close>.\<close>

definition limited :: "nat \<Rightarrow> 'r list statement \<Rightarrow> 'r list statement" where
  "limited n = shaped (\<lambda>rows. Inr (take n rows))"

definition getLinkedTask :: "string \<Rightarrow> linked_task option prog" where
  "getLinkedTask contractId = do {
     r \<leftarrow> call (shaped shape_maybe (limited 1 (q_task_links (\<lambda>l. tk_contract_id l = contractId))));
     State_Monad.return (case maybe_of r of None \<Rightarrow> None | Some row \<Rightarrow> normalizeLinkedTaskRow (snd row))
   }"

text \<open>The loop of the batched lookup over its rows; the map it fills has a key at most once.\<close>

fun linked_tasks_loop ::
  "(string \<times> raw_task embed) list \<Rightarrow> (string \<rightharpoonup> linked_task) \<Rightarrow> (string \<rightharpoonup> linked_task)" where
  "linked_tasks_loop [] out = out"
| "linked_tasks_loop ((cid, emb) # rows) out =
     (if out cid \<noteq> None then linked_tasks_loop rows out
      else case normalizeLinkedTaskRow emb of
        None \<Rightarrow> linked_tasks_loop rows out
      | Some summary \<Rightarrow> linked_tasks_loop rows (out(cid \<mapsto> summary)))"

definition getLinkedTasksForContracts :: "string list \<Rightarrow> (string \<rightharpoonup> linked_task) prog" where
  "getLinkedTasksForContracts contractIds =
     (if contractIds = [] then State_Monad.return Map.empty
      else do {
        r \<leftarrow> call (q_task_links (\<lambda>l. tk_contract_id l \<in> set contractIds));
        State_Monad.return (linked_tasks_loop (rows_of r) Map.empty)
      })"

section \<open>Lemmas\<close>

lemma linked_tasks_loop_lookup:
  "linked_tasks_loop rows out cid =
     (case out cid of
        Some x \<Rightarrow> Some x
      | None \<Rightarrow>
         (case List.map_filter (\<lambda>r. if fst r = cid then normalizeLinkedTaskRow (snd r) else None) rows of
            [] \<Rightarrow> None | x # _ \<Rightarrow> Some x))"
proof (induction rows out rule: linked_tasks_loop.induct)
  case (1 out)
  then show ?case by (simp add: List.map_filter_simps split: option.split)
next
  case (2 c e rows out)
  then show ?case
    by (cases "c = cid"; cases "out c"; cases "normalizeLinkedTaskRow e")
       (simp_all add: List.map_filter_simps fun_upd_same fun_upd_other del: fun_upd_apply split: option.split)
qed

text \<open>A successful permission check means membership (not observation) and a task of the project.\<close>

lemma bind_case_run:
  "run_state (State_Monad.bind m k) s = (case run_state m s of (x, s') \<Rightarrow> run_state (k x) s')"
  by (simp add: State_Monad.bind_def split: prod.splits)

end
