(* ===== verification/ApiHelpers.thy ===== *)
theory ApiHelpers
  imports TaskLink
begin

text \<open>
  What every route shares (\<open>src/lib/api-helpers.ts\<close>): the audit log, the kill switch and the
  client's address; and the request a route receives once it is authenticated.
\<close>

text \<open>A body as the route sees it: none, not JSON, or the value \<open>JSON.parse\<close> returned.\<close>

datatype request_body = NoBody | BadJson | Parsed json

text \<open>
  The authenticated agent, the two headers the client address is taken from, and the header
  \<open>x-idempotency-key\<close>.
\<close>

record request =
  rq_agent :: agent_row
  rq_body :: request_body
  rq_forwarded_for :: "string option"
  rq_real_ip :: "string option"
  rq_idempotency_key :: "string option"

definition getClientIp :: "request \<Rightarrow> string" where
  "getClientIp req =
     (let first = map_option (\<lambda>h. js_trim (takeWhile (\<lambda>c. c \<noteq> CHR '','') h)) (rq_forwarded_for req)
      in if truthy_str first then the first
         else if truthy_str (rq_real_ip req) then the (rq_real_ip req)
         else ''unknown'')"

text \<open>
  A column of type text that a client fills with a JSON value that is no string gets what the
  database driver makes of it: \<open>to_text\<close>, a parameter. A JSON column keeps the value.
\<close>

definition column_text :: "(json \<Rightarrow> string) \<Rightarrow> jvalue \<Rightarrow> string option" where
  "column_text to_text v =
     (if is_nullish v then None
      else case as_string v of Some s \<Rightarrow> Some s | None \<Rightarrow> Some (to_text (the v)))"

text \<open>\<open>{ ...(value || {}), ...fields }\<close>.\<close>

definition obj_spread :: "json \<Rightarrow> content \<Rightarrow> json" where
  "obj_spread j extra =
     (let base = object_entries j
      in JObj (map (\<lambda>(k, v). (k, case map_of extra k of Some v' \<Rightarrow> v' | None \<Rightarrow> v)) base @
               filter (\<lambda>(k, _). k \<notin> set (map fst base)) extra))"

definition truthy_or_null :: "string option \<Rightarrow> string option" where
  "truthy_or_null s = (if truthy_str s then s else None)"

definition auditLog ::
  "string \<Rightarrow> string \<Rightarrow> string option \<Rightarrow> string option \<Rightarrow> content option \<Rightarrow> string option \<Rightarrow> unit prog" where
  "auditLog actor action resourceType resourceId details ipAddress = do {
     _ \<leftarrow> call (q_insert db_audit db_audit_update (\<lambda>_ _. False)
       [\<lparr>au_actor = actor, au_action = action, au_resource_type = truthy_or_null resourceType,
         au_resource_id = truthy_or_null resourceId, au_details = details,
         au_ip_address = truthy_or_null ipAddress\<rparr>]);
     State_Monad.return ()
   }"

text \<open>The audit entry of an agent's action on a contract, as the contract routes write it.\<close>

definition audit_contract :: "request \<Rightarrow> string \<Rightarrow> string \<Rightarrow> content \<Rightarrow> unit prog" where
  "audit_contract req action contractId details =
     auditLog (ag_name (rq_agent req)) action (Some ''contract'') (Some contractId) (Some details)
       (Some (getClientIp req))"

definition isSystemFrozen :: "bool prog" where
  "isSystemFrozen = do {
     row \<leftarrow> call (shaped shape_single (q_select db_config (\<lambda>c. cfg_key c = ''kill_switch'')));
     State_Monad.return
       (case data_of row of
          None \<Rightarrow> False
        | Some c \<Rightarrow> map_of (cfg_value c) ''active'' = Some (JBool True))
   }"

text \<open>JSON of optional columns.\<close>

definition jstr_or_null :: "string option \<Rightarrow> json" where
  "jstr_or_null s = (case s of None \<Rightarrow> JNull | Some x \<Rightarrow> JStr x)"

definition jint :: "int \<Rightarrow> json" where
  "jint i = JNum (Fin (of_int i))"

definition jtime_or_null :: "timestamp option \<Rightarrow> json" where
  "jtime_or_null t = (case t of None \<Rightarrow> JNull | Some x \<Rightarrow> jint x)"

text \<open>
  The agent has no row on the contract that lets it act: every row it has there is an observer's.
\<close>

definition only_observes :: "string \<Rightarrow> string \<Rightarrow> db \<Rightarrow> bool" where
  "only_observes agentId contractId d \<longleftrightarrow>
     (\<forall>p\<in>set (db_participants d). p_agent_id p = agentId \<and> p_contract_id p = contractId \<longrightarrow> p_role p = Observer)"

lemma stable_inv_rel: "stable (inv_rel I) I"
  by (simp add: stable_def inv_rel_def)

text \<open>A request that was turned away: an error body or an escaped exception, never an answer.\<close>

fun turned_away :: "'b response \<Rightarrow> bool" where
  "turned_away (Answer _ _) = False"
| "turned_away (Replayed _ _) = False"
| "turned_away _ = True"

lemma turned_away_error [simp]: "turned_away (reply_error s e c)"
  by (simp add: reply_error_def)

end
