(* ===== verification/HmacAuth.thy ===== *)
theory HmacAuth
  imports CanonicalJson CalmRuns RateLimit ApiHelpers
begin

text \<open>
  The authentication of API requests: \<open>validateHmac\<close> of \<open>src/lib/hmac.ts\<close> (timestamps, nonces, service
  keys and the signed message) and the pipeline around it, \<open>authenticateApiRequest\<close> of
  \<open>src/lib/middleware-auth.ts\<close> (kill switch, rate limit, agent). The entries of the security log, written
  without waiting for them, are not modelled.

  Parameters: \<open>parse\<close> is \<open>JSON.parse\<close> (a request's text can hold code units the model has not), \<open>pathname\<close>
  is \<open>new URL(path).pathname\<close>, and \<open>hmac\<close> the hexadecimal HMAC-SHA256 of the platform's crypto module.
\<close>

section \<open>Model\<close>

definition TIMESTAMP_TOLERANCE_SECONDS :: int where
  "TIMESTAMP_TOLERANCE_SECONDS = 300"

definition MAX_BODY_SIZE :: nat where
  "MAX_BODY_SIZE = 50 * 1024"

text \<open>\<open>parseInt(s, 10)\<close>: white space, a sign and the digits that follow; \<open>None\<close> is \<open>NaN\<close>.\<close>

definition digits_value :: "string \<Rightarrow> int option" where
  "digits_value s =
     (let ds = takeWhile is_digit s in if ds = [] then None else Some (decimal_value ds))"

definition parse_int :: "string \<Rightarrow> int option" where
  "parse_int s = (case dropWhile is_ws s of
      [] \<Rightarrow> None
    | c # cs \<Rightarrow> if c = CHR ''-'' then map_option uminus (digits_value cs)
                else if c = CHR ''+'' then digits_value cs
                else digits_value (c # cs))"

text \<open>\<open>Buffer.byteLength(s, 'utf8')\<close>.\<close>

definition utf8_bytes :: "char \<Rightarrow> nat" where
  "utf8_bytes c = (if code_unit c < 128 then 1 else if code_unit c < 2048 then 2 else 3)"

definition byte_length :: "string \<Rightarrow> nat" where
  "byte_length s = sum_list (map utf8_bytes s)"

text \<open>\<open>Buffer.from(s, 'hex')\<close>: pairs of digits, up to the first pair that is none.\<close>

fun hex_bytes :: "string \<Rightarrow> nat list" where
  "hex_bytes (a # b # s) =
     (case (digit_in a, digit_in b) of (Some x, Some y) \<Rightarrow> (16 * x + y) # hex_bytes s | _ \<Rightarrow> [])"
| "hex_bytes _ = []"

subsection \<open>Nonces\<close>

definition expired_nonce :: "timestamp \<Rightarrow> nonce_row \<Rightarrow> bool" where
  "expired_nonce now r \<longleftrightarrow> nc_expires_at r < now"

text \<open>\<open>cleanup_expired_nonces\<close> of the migration, and the periodic cleanup that calls it.\<close>

definition cleanup_expired_nonces :: "unit statement" where
  "cleanup_expired_nonces d = (Inr (), db_nonces_update (filter (\<lambda>r. \<not> expired_nonce (db_now d) r)) d)"

definition runNonceCleanup :: "unit prog" where
  "runNonceCleanup = do {
     _ \<leftarrow> memory (\<lambda>d. ((), db_memory_nonces_update (\<lambda>m k. case m k of
            Some expiresAt \<Rightarrow> if expiresAt < db_now d then None else Some expiresAt
          | None \<Rightarrow> None) d));
     _ \<leftarrow> call cleanup_expired_nonces;
     State_Monad.return ()
   }"

definition remember_nonce :: "string \<Rightarrow> timestamp \<Rightarrow> bool prog" where
  "remember_nonce nonce expiresAtMs = memory (\<lambda>d.
     if db_memory_nonces d nonce \<noteq> None then (True, d)
     else (False, db_memory_nonces_update (\<lambda>m. m(nonce \<mapsto> expiresAtMs)) d))"

text \<open>Whether the nonce is a duplicate.\<close>

definition checkAndRecordNonce :: "string \<Rightarrow> timestamp \<Rightarrow> bool prog" where
  "checkAndRecordNonce nonce expiresAtMs = do {
     existing \<leftarrow> call (shaped shape_maybe (q_select db_nonces (\<lambda>r. nc_nonce r = nonce)));
     (case maybe_of existing of
        Some _ \<Rightarrow> State_Monad.return True
      | None \<Rightarrow> do {
          inserted \<leftarrow> call (q_insert db_nonces db_nonces_update (\<lambda>n r. nc_nonce n = nc_nonce r)
            [\<lparr>nc_nonce = nonce, nc_expires_at = expiresAtMs\<rparr>]);
          case inserted of
            Inr _ \<Rightarrow> State_Monad.return False
          | Inl e \<Rightarrow>
              if de_code e = ''23505'' then State_Monad.return True else remember_nonce nonce expiresAtMs
        })
   }"

subsection \<open>The signed message\<close>

definition deriveSigningBody :: "(string \<Rightarrow> json option) \<Rightarrow> string \<Rightarrow> string" where
  "deriveSigningBody parse body =
     (if body = [] then []
      else case parse body of Some parsed \<Rightarrow> canonicalize parsed | None \<Rightarrow> body)"

definition canonical_path :: "(string \<Rightarrow> string option) \<Rightarrow> string \<Rightarrow> string" where
  "canonical_path pathname path =
     (let before = takeWhile (\<lambda>c. c \<noteq> CHR ''?'') path;
          p = (if starts_with path ''http'' then (case pathname path of Some q \<Rightarrow> q | None \<Rightarrow> before) else before)
      in if length p > 1 \<and> last p = CHR ''/'' then butlast p else p)"

definition signing_message :: "string \<Rightarrow> string \<Rightarrow> string \<Rightarrow> string \<Rightarrow> string \<Rightarrow> string" where
  "signing_message httpMethod path timestamp nonce body = httpMethod @ nl @ path @ nl @ timestamp @ nl @ nonce @ nl @ body"

record signed_headers =
  sh_apiKey :: "string option"
  sh_timestamp :: "string option"
  sh_signature :: "string option"
  sh_nonce :: "string option"

record hmac_identity =
  hi_agentId :: "string option"
  hi_keyId :: string
  hi_keyRecordId :: string

text \<open>What is left of the validation once the nonce is recorded.\<close>

definition check_signature ::
  "(string \<Rightarrow> json option) \<Rightarrow> (string \<Rightarrow> string option) \<Rightarrow> (string \<Rightarrow> string \<Rightarrow> string) \<Rightarrow> string \<Rightarrow> string \<Rightarrow> string \<Rightarrow>
   string \<Rightarrow> string \<Rightarrow> string \<Rightarrow> string \<Rightarrow> (api_error + hmac_identity) prog" where
  "check_signature parse pathname hmac httpMethod path body apiKey timestamp signature nonce = do {
     r \<leftarrow> call (shaped shape_single (q_select db_service_keys (\<lambda>k. sk_key_id k = apiKey)));
     (case data_of r of
        None \<Rightarrow> State_Monad.return (Inl (api_err ''Invalid API key'' ''INVALID_KEY''))
      | Some key \<Rightarrow>
          if \<not> sk_is_active key then
            State_Monad.return (Inl (api_err ''API key is deactivated'' ''KEY_DEACTIVATED''))
          else do {
            now \<leftarrow> clock;
            if (case sk_expires_at key of Some t \<Rightarrow> t < now | None \<Rightarrow> False) then
              State_Monad.return (Inl (api_err ''API key has expired'' ''KEY_EXPIRED''))
            else
              let expected = hmac (sk_signing_secret key)
                    (signing_message httpMethod (canonical_path pathname path) timestamp nonce (deriveSigningBody parse body))
              in if hex_bytes signature \<noteq> hex_bytes expected then
                   State_Monad.return (Inl (api_err ''Invalid signature'' ''INVALID_SIGNATURE''))
                 else State_Monad.return (Inr
                   \<lparr>hi_agentId = sk_agent_id key, hi_keyId = sk_key_id key, hi_keyRecordId = sk_id key\<rparr>)
          })
   }"

text \<open>The nonce, the size of the body and the signature, once the timestamp is found in tolerance.\<close>

definition check_nonce ::
  "(string \<Rightarrow> json option) \<Rightarrow> (string \<Rightarrow> string option) \<Rightarrow> (string \<Rightarrow> string \<Rightarrow> string) \<Rightarrow> string \<Rightarrow> string \<Rightarrow> string \<Rightarrow>
   signed_headers \<Rightarrow> string \<Rightarrow> (api_error + hmac_identity) prog" where
  "check_nonce parse pathname hmac httpMethod path body headers nonce = do {
     now \<leftarrow> clock;
     isDuplicate \<leftarrow> checkAndRecordNonce nonce (now + TIMESTAMP_TOLERANCE_SECONDS * 1000);
     if isDuplicate then
       State_Monad.return (Inl (api_err (''Duplicate nonce '' @ em_dash @ '' possible replay attack'') ''NONCE_REPLAY''))
     else if byte_length body > MAX_BODY_SIZE then
       State_Monad.return (Inl (api_err ''Request body exceeds 50KB limit'' ''BODY_TOO_LARGE''))
     else check_signature parse pathname hmac httpMethod path body (the (sh_apiKey headers))
       (the (sh_timestamp headers)) (the (sh_signature headers)) nonce
   }"

definition validateHmac ::
  "(string \<Rightarrow> json option) \<Rightarrow> (string \<Rightarrow> string option) \<Rightarrow> (string \<Rightarrow> string \<Rightarrow> string) \<Rightarrow> string \<Rightarrow> string \<Rightarrow> string \<Rightarrow>
   signed_headers \<Rightarrow> (api_error + hmac_identity) prog" where
  "validateHmac parse pathname hmac httpMethod path body headers =
     (if \<not> truthy_str (sh_apiKey headers) \<or> \<not> truthy_str (sh_timestamp headers) \<or> \<not> truthy_str (sh_signature headers) then
        State_Monad.return (Inl (api_err ''Missing required headers: X-API-Key, X-Timestamp, X-Signature'' ''MISSING_HEADERS''))
      else do {
        now \<leftarrow> clock;
        if (case parse_int (the (sh_timestamp headers)) of
              None \<Rightarrow> True
            | Some requestTime \<Rightarrow> \<bar>now div 1000 - requestTime\<bar> > TIMESTAMP_TOLERANCE_SECONDS) then
          State_Monad.return (Inl (api_err (''Timestamp out of tolerance ('' @ [CHR 0xB1] @ ''300s)'') ''TIMESTAMP_EXPIRED''))
        else if \<not> truthy_str (sh_nonce headers) then
          State_Monad.return (Inl (api_err ''Missing required header: X-Nonce'' ''MISSING_NONCE''))
        else check_nonce parse pathname hmac httpMethod path body headers (the (sh_nonce headers))
      })"

subsection \<open>The pipeline\<close>

text \<open>A request as it arrives: the path is that of its URL, the text is empty for a multipart body.\<close>

record raw_request =
  rr_method :: string
  rr_path :: string
  rr_multipart :: bool
  rr_text :: string
  rr_headers :: signed_headers

definition reads_only :: "string \<Rightarrow> bool" where
  "reads_only httpMethod \<longleftrightarrow> httpMethod = ''GET'' \<or> httpMethod = ''HEAD''"

text \<open>\<open>data?.value?.active === true\<close>.\<close>

definition switch_active :: "config_row db_result \<Rightarrow> bool" where
  "switch_active r = (case data_of r of None \<Rightarrow> False | Some c \<Rightarrow> map_of (cfg_value c) ''active'' = Some (JBool True))"

record auth_context =
  ac_agent :: agent_row
  ac_keyId :: string
  ac_body :: string

definition look_up_agent :: "hmac_identity \<Rightarrow> string \<Rightarrow> (refusal + auth_context) prog" where
  "look_up_agent key body =
     (if \<not> truthy_str (hi_agentId key) then
        State_Monad.return (Inl \<lparr>rf_status = 403, rf_body = api_err ''Service key not associated with an agent'' ''NO_AGENT''\<rparr>)
      else do {
        r \<leftarrow> call (shaped shape_single (q_select db_agents (\<lambda>a. ag_id a = the (hi_agentId key))));
        State_Monad.return (case data_of r of
            None \<Rightarrow> Inl \<lparr>rf_status = 404, rf_body = api_err ''Agent not found'' ''AGENT_NOT_FOUND''\<rparr>
          | Some agent \<Rightarrow> Inr \<lparr>ac_agent = agent, ac_keyId = hi_keyId key, ac_body = body\<rparr>)
      })"

definition count_request :: "hmac_identity \<Rightarrow> string \<Rightarrow> (refusal + auth_context) prog" where
  "count_request key body = do {
     globalLimit \<leftarrow> checkRateLimit (''global:'' @ hi_keyId key) GLOBAL_LIMIT;
     if \<not> li_allowed globalLimit then
       State_Monad.return (Inl \<lparr>rf_status = 429, rf_body = api_err ''Rate limit exceeded'' ''RATE_LIMITED''\<rparr>)
     else look_up_agent key body
   }"

definition authenticateApiRequest ::
  "(string \<Rightarrow> json option) \<Rightarrow> (string \<Rightarrow> string option) \<Rightarrow> (string \<Rightarrow> string \<Rightarrow> string) \<Rightarrow> raw_request \<Rightarrow>
   (refusal + auth_context) prog" where
  "authenticateApiRequest parse pathname hmac req =
     (let body = (if rr_multipart req \<or> reads_only (rr_method req) then [] else rr_text req)
      in do {
        hmacResult \<leftarrow> validateHmac parse pathname hmac (rr_method req) (rr_path req) body (rr_headers req);
        case hmacResult of
          Inl e \<Rightarrow> State_Monad.return (Inl \<lparr>rf_status = 401, rf_body = e\<rparr>)
        | Inr key \<Rightarrow>
            if reads_only (rr_method req) then count_request key body
            else do {
              r \<leftarrow> call (shaped shape_single (q_select db_config (\<lambda>c. cfg_key c = ''kill_switch'')));
              if switch_active r then
                State_Monad.return (Inl \<lparr>rf_status = 503,
                  rf_body = api_err (''System is frozen '' @ em_dash @ '' kill switch active'') ''SYSTEM_FROZEN''\<rparr>)
              else count_request key body
            }
      })"

section \<open>Replays\<close>

text \<open>What the other requests do to the nonces: time passes, and only expired nonces go.\<close>

definition nonce_step :: "db \<Rightarrow> db \<Rightarrow> bool" where
  "nonce_step d d' \<longleftrightarrow> db_now d \<le> db_now d' \<and>
     (\<forall>r\<in>set (db_nonces d). r \<in> set (db_nonces d') \<or> nc_expires_at r < db_now d')"

interpretation nonces: rely_guarantee nonce_step
  by unfold_locales (fastforce simp: nonce_step_def)+

text \<open>The nonce is on record until \<open>x\<close> at least.\<close>

definition kept :: "string \<Rightarrow> timestamp \<Rightarrow> db \<Rightarrow> bool" where
  "kept n x d \<longleftrightarrow> (\<exists>r\<in>set (db_nonces d). nc_nonce r = n \<and> x \<le> nc_expires_at r) \<or> x < db_now d"

lemma stable_kept: "stable nonce_step (kept n x)"
  unfolding stable_def kept_def nonce_step_def by fastforce

lemma nonce_step_same: "db_now d' = db_now d \<Longrightarrow> set (db_nonces d) \<subseteq> set (db_nonces d') \<Longrightarrow> nonce_step d d'"
  by (auto simp: nonce_step_def)

lemma nonce_step_cleanup: "nonce_step d (final runNonceCleanup [] d)"
  by (simp add: nonce_step_def runNonceCleanup_def final_def run_def call_def memory_def State_Monad.bind_def
      State_Monad.return_def cleanup_expired_nonces_def expired_nonce_def)

text \<open>Recording: what is inserted is on record; what clashes, or is found, is a duplicate.\<close>

definition insert_nonce :: "string \<Rightarrow> timestamp \<Rightarrow> nonce_row list statement" where
  "insert_nonce n x = q_insert db_nonces db_nonces_update (\<lambda>n r. nc_nonce n = nc_nonce r)
     [\<lparr>nc_nonce = n, nc_expires_at = x\<rparr>]"

lemma nonce_step_insert: "nonce_step d (snd (insert_nonce n x d))"
  by (auto simp: insert_nonce_def q_insert_def intro: nonce_step_same)

lemma insert_nonce_kept: "fst (insert_nonce n x d) = Inr rows \<Longrightarrow> kept n x (snd (insert_nonce n x d))"
  by (auto simp: insert_nonce_def q_insert_def kept_def split: if_splits)

lemma insert_nonce_clash: "fst (insert_nonce n x d) = Inl e \<Longrightarrow> de_code e = ''23505''"
  by (auto simp: insert_nonce_def q_insert_def unique_violation_def split: if_splits)

lemma insert_nonce_again: "kept n x d \<Longrightarrow> fst (insert_nonce n y d) = Inr rows \<Longrightarrow> x < db_now d"
  by (auto simp: insert_nonce_def q_insert_def kept_def split: if_splits)

lemma now_insert_nonce [simp]: "db_now (snd (insert_nonce n x d)) = db_now d"
  by (simp add: insert_nonce_def q_insert_def)

lemma calm_insert:
  "calmly nonce_step (\<lambda>_. True) (call (insert_nonce n x))
     (\<lambda>r. case r of Inl e \<Rightarrow> \<lambda>_. de_code e = ''23505'' | Inr _ \<Rightarrow> kept n x)"
  by (intro nonces.calmly_call)
    (auto simp: nonce_step_insert split: sum.splits dest: insert_nonce_kept insert_nonce_clash)

lemma calm_insert_again:
  "calmly nonce_step (kept n x) (call (insert_nonce n y))
     (\<lambda>r. case r of Inl e \<Rightarrow> \<lambda>_. de_code e = ''23505'' | Inr _ \<Rightarrow> \<lambda>d. x < db_now d)"
  by (intro nonces.calmly_call stable_kept)
    (auto simp: nonce_step_insert split: sum.splits dest: insert_nonce_again insert_nonce_clash)

lemma calm_inserted:
  assumes "calmly nonce_step P (call (insert_nonce n y)) (\<lambda>r. case r of Inl e \<Rightarrow> \<lambda>_. de_code e = ''23505'' | Inr _ \<Rightarrow> Q)"
  shows "calmly nonce_step P (do {
      inserted \<leftarrow> call (insert_nonce n y);
      case inserted of
        Inr _ \<Rightarrow> State_Monad.return False
      | Inl e \<Rightarrow> if de_code e = ''23505'' then State_Monad.return True else remember_nonce n y
    }) (\<lambda>duplicate. if duplicate then (\<lambda>_. True) else Q)"
proof (rule nonces.calmly_bind [OF assms])
  fix r :: "nonce_row list db_result"
  show "calmly nonce_step (case r of Inl e \<Rightarrow> \<lambda>_. de_code e = ''23505'' | Inr _ \<Rightarrow> Q)
      (case r of Inr _ \<Rightarrow> State_Monad.return False
        | Inl e \<Rightarrow> if de_code e = ''23505'' then State_Monad.return True else remember_nonce n y)
      (\<lambda>duplicate. if duplicate then (\<lambda>_. True) else Q)"
    by (cases r) (auto simp: calmly_def nonces.refl State_Monad.return_def)
qed

lemma calm_record:
  assumes "stable nonce_step P"
    and "calmly nonce_step P (call (insert_nonce n y)) (\<lambda>r. case r of Inl e \<Rightarrow> \<lambda>_. de_code e = ''23505'' | Inr _ \<Rightarrow> Q)"
  shows "calmly nonce_step P (checkAndRecordNonce n y) (\<lambda>duplicate. if duplicate then (\<lambda>_. True) else Q)"
  unfolding checkAndRecordNonce_def insert_nonce_def [symmetric]
  by (intro nonces.calmly_bind [where Q = "\<lambda>_. P"] nonces.calmly_call nonces.calmly_option calm_inserted assms
      nonces.calmly_return)
    (simp_all add: nonces.refl)

lemma calm_signature:
  assumes "stable nonce_step P"
  shows "calmly nonce_step P (check_signature parse pathname hmac httpMethod path body apiKey timestamp signature nonce)
    (\<lambda>_. P)"
  unfolding check_signature_def Let_def
  by (intro nonces.calmly_bind [where Q = "\<lambda>_. P"] nonces.calmly_call nonces.calmly_clock nonces.calmly_option
      nonces.calmly_if nonces.calmly_return assms)
    (simp_all add: nonces.refl)

text \<open>
  The validation with the nonce recorded until 300 seconds after the request came in: if it accepts,
  the nonce is on record; if the nonce was on record until \<open>x\<close>, it accepts only after \<open>x\<close>.
\<close>

definition accepted_only :: "(db \<Rightarrow> bool) \<Rightarrow> 'e + 'a \<Rightarrow> db \<Rightarrow> bool" where
  "accepted_only Q r d \<longleftrightarrow> (case r of Inl _ \<Rightarrow> True | Inr _ \<Rightarrow> Q d)"

lemma calm_check_nonce:
  assumes "stable nonce_step P" "stable nonce_step Q"
    and "\<And>y. t + 300000 \<le> y \<Longrightarrow>
      calmly nonce_step P (call (insert_nonce n y)) (\<lambda>r. case r of Inl e \<Rightarrow> \<lambda>_. de_code e = ''23505'' | Inr _ \<Rightarrow> Q)"
  shows "calmly nonce_step (\<lambda>d. P d \<and> t \<le> db_now d) (check_nonce parse pathname hmac httpMethod path body headers n)
    (accepted_only Q)"
  unfolding check_nonce_def
proof (rule nonces.calmly_bind [where Q = "\<lambda>now d. t \<le> now \<and> P d"])
  show "calmly nonce_step (\<lambda>d. P d \<and> t \<le> db_now d) clock (\<lambda>now d. t \<le> now \<and> P d)"
    by (rule nonces.calmly_clock) simp
next
  fix now :: timestamp
  have sign: "calmly nonce_step Q (check_signature parse pathname hmac httpMethod path body a b c n) (accepted_only Q)" for a b c
    by (rule calmly_conseq [OF calm_signature [OF assms(2)]]) (auto simp: accepted_only_def split: sum.splits)
  show "calmly nonce_step (\<lambda>d. t \<le> now \<and> P d) (do {
     isDuplicate \<leftarrow> checkAndRecordNonce n (now + TIMESTAMP_TOLERANCE_SECONDS * 1000);
     if isDuplicate then
       State_Monad.return (Inl (api_err (''Duplicate nonce '' @ em_dash @ '' possible replay attack'') ''NONCE_REPLAY''))
     else if byte_length body > MAX_BODY_SIZE then
       State_Monad.return (Inl (api_err ''Request body exceeds 50KB limit'' ''BODY_TOO_LARGE''))
     else check_signature parse pathname hmac httpMethod path body (the (sh_apiKey headers))
       (the (sh_timestamp headers)) (the (sh_signature headers)) n
    }) (accepted_only Q)"
  proof (cases "t \<le> now")
    case True
    then have "t + 300000 \<le> now + TIMESTAMP_TOLERANCE_SECONDS * 1000" by (simp add: TIMESTAMP_TOLERANCE_SECONDS_def)
    note recorded = calm_record [OF assms(1) assms(3) [OF this]]
    have "calmly nonce_step P (do {
       isDuplicate \<leftarrow> checkAndRecordNonce n (now + TIMESTAMP_TOLERANCE_SECONDS * 1000);
       if isDuplicate then
         State_Monad.return (Inl (api_err (''Duplicate nonce '' @ em_dash @ '' possible replay attack'') ''NONCE_REPLAY''))
       else if byte_length body > MAX_BODY_SIZE then
         State_Monad.return (Inl (api_err ''Request body exceeds 50KB limit'' ''BODY_TOO_LARGE''))
       else check_signature parse pathname hmac httpMethod path body (the (sh_apiKey headers))
         (the (sh_timestamp headers)) (the (sh_signature headers)) n
      }) (accepted_only Q)"
      by (rule nonces.calmly_bind [OF recorded])
        (auto intro!: nonces.calmly_return sign simp: accepted_only_def)
    then show ?thesis by (rule calmly_conseq) simp_all
  qed (simp add: calmly_def)
qed

lemma calm_validate:
  assumes "stable nonce_step P" "stable nonce_step Q"
    and "\<And>n y. sh_nonce headers = Some n \<Longrightarrow> t + 300000 \<le> y \<Longrightarrow>
      calmly nonce_step P (call (insert_nonce n y)) (\<lambda>r. case r of Inl e \<Rightarrow> \<lambda>_. de_code e = ''23505'' | Inr _ \<Rightarrow> Q)"
  shows "calmly nonce_step (\<lambda>d. P d \<and> t \<le> db_now d) (validateHmac parse pathname hmac httpMethod path body headers)
    (accepted_only Q)"
  unfolding validateHmac_def
  by (intro nonces.calmly_if nonces.calmly_return nonces.calmly_bind [where Q = "\<lambda>_ d. P d \<and> t \<le> db_now d"]
      nonces.calmly_clock calm_check_nonce assms)
    (auto simp: truthy_str_def accepted_only_def split: option.splits)

text \<open>An accepted request's nonce is on record; a nonce on record is accepted only after its time.\<close>

lemma accepted_nonce_kept:
  assumes "calm nonce_step env" "sh_nonce headers = Some n"
    and "result (validateHmac parse pathname hmac httpMethod path body headers) env d = Inr k"
  shows "kept n (db_now d + 300000) (final (validateHmac parse pathname hmac httpMethod path body headers) env d)"
proof -
  have "calmly nonce_step (\<lambda>d'. True \<and> db_now d \<le> db_now d') (validateHmac parse pathname hmac httpMethod path body headers)
      (accepted_only (kept n (db_now d + 300000)))"
  proof (rule calm_validate [OF stable_True stable_kept])
    fix n' y
    assume "sh_nonce headers = Some n'" and y: "db_now d + 300000 \<le> y"
    then have n: "n' = n" using assms(2) by simp
    have "kept n y d' \<Longrightarrow> kept n (db_now d + 300000) d'" for d' using y unfolding kept_def by fastforce
    then show "calmly nonce_step (\<lambda>_. True) (call (insert_nonce n' y))
      (\<lambda>r. case r of Inl e \<Rightarrow> \<lambda>_. de_code e = ''23505'' | Inr _ \<Rightarrow> kept n (db_now d + 300000))"
      unfolding n by (intro calmly_conseq [OF calm_insert]) (auto split: sum.splits)
  qed
  from calmly_run(2) [OF this assms(1), of d] assms(3) show ?thesis by (simp add: accepted_only_def)
qed

lemma kept_nonce_refused:
  assumes "calm nonce_step env" "sh_nonce headers = Some n" "kept n x d"
    and "result (validateHmac parse pathname hmac httpMethod path body headers) env d = Inr k"
  shows "x < db_now (final (validateHmac parse pathname hmac httpMethod path body headers) env d)"
proof -
  have "stable nonce_step (\<lambda>d. x < db_now d)" by (auto simp: stable_def nonce_step_def)
  then have "calmly nonce_step (\<lambda>d'. kept n x d' \<and> db_now d \<le> db_now d')
      (validateHmac parse pathname hmac httpMethod path body headers) (accepted_only (\<lambda>d. x < db_now d))"
    using assms(2) by (intro calm_validate stable_kept) (auto intro: calm_insert_again)
  from calmly_run(2) [OF this assms(1), of d] assms(3,4) show ?thesis by (simp add: accepted_only_def)
qed

text \<open>While no time passes, whatever is accepted has a timestamp in tolerance.\<close>

definition same_time :: "db \<Rightarrow> db \<Rightarrow> bool" where
  "same_time d d' \<longleftrightarrow> db_now d' = db_now d"

interpretation still: rely_guarantee same_time
  by unfold_locales (simp_all add: same_time_def)

lemma still_record: "keeps same_time (checkAndRecordNonce n y)"
  unfolding checkAndRecordNonce_def insert_nonce_def [symmetric] remember_nonce_def
  by (intro still.keeps_rules still.keeps_call still.keeps_memory) (simp_all add: same_time_def)

lemma still_validate: "keeps same_time (validateHmac parse pathname hmac httpMethod path body headers)"
  unfolding validateHmac_def check_nonce_def check_signature_def Let_def
  by (intro still.keeps_rules still.keeps_call still_record) (simp_all add: same_time_def)

definition in_tolerance :: "signed_headers \<Rightarrow> timestamp \<Rightarrow> bool" where
  "in_tolerance headers now \<longleftrightarrow> (\<exists>t. parse_int (the (sh_timestamp headers)) = Some t \<and> \<bar>now div 1000 - t\<bar> \<le> 300)"

lemma accepted_in_tolerance:
  assumes "result (validateHmac parse pathname hmac httpMethod path body headers) env d = Inr k"
  shows "in_tolerance headers (db_now d)"
  using assms
  by (auto simp: validateHmac_def result_def run_def State_Monad.bind_def State_Monad.return_def clock_def
      in_tolerance_def TIMESTAMP_TOLERANCE_SECONDS_def split: if_splits option.splits prod.splits)

section \<open>Signatures\<close>

definition key_step :: "db \<Rightarrow> db \<Rightarrow> bool" where
  "key_step d d' \<longleftrightarrow> db_service_keys d' = db_service_keys d \<and> db_now d \<le> db_now d'"

interpretation service_keys: rely_guarantee key_step
  by unfold_locales (auto simp: key_step_def)

lemma keeps_record: "keeps key_step (checkAndRecordNonce n y)"
  unfolding checkAndRecordNonce_def insert_nonce_def [symmetric] remember_nonce_def
  by (intro service_keys.keeps_rules service_keys.keeps_call service_keys.keeps_memory)
    (auto simp: key_step_def insert_nonce_def q_insert_def)

text \<open>The key a request was accepted with: the only one of its id, usable at \<open>t\<close>, and its secret signed the request.\<close>

definition signed_with ::
  "(string \<Rightarrow> json option) \<Rightarrow> (string \<Rightarrow> string option) \<Rightarrow> (string \<Rightarrow> string \<Rightarrow> string) \<Rightarrow> string \<Rightarrow> string \<Rightarrow> string \<Rightarrow>
   signed_headers \<Rightarrow> string \<Rightarrow> timestamp \<Rightarrow> service_key_row list \<Rightarrow> hmac_identity \<Rightarrow> service_key_row \<Rightarrow> bool" where
  "signed_with parse pathname hmac httpMethod path body headers nonce t ks who k \<longleftrightarrow>
     filter (\<lambda>k. sk_key_id k = the (sh_apiKey headers)) ks = [k] \<and> sk_is_active k \<and>
     (case sk_expires_at k of Some x \<Rightarrow> t \<le> x | None \<Rightarrow> True) \<and>
     who = \<lparr>hi_agentId = sk_agent_id k, hi_keyId = sk_key_id k, hi_keyRecordId = sk_id k\<rparr> \<and>
     hex_bytes (the (sh_signature headers)) = hex_bytes (hmac (sk_signing_secret k)
       (signing_message httpMethod (canonical_path pathname path) (the (sh_timestamp headers)) nonce (deriveSigningBody parse body)))"

lemma check_signature_valid:
  "valid key_step (\<lambda>d. db_service_keys d = ks \<and> t \<le> db_now d)
     (check_signature parse pathname hmac httpMethod path body (the (sh_apiKey headers)) (the (sh_timestamp headers))
        (the (sh_signature headers)) nonce)
     (\<lambda>r d. \<forall>who. r = Inr who \<longrightarrow> (\<exists>k. signed_with parse pathname hmac httpMethod path body headers nonce t ks who k))"
  unfolding check_signature_def Let_def
proof (rule service_keys.valid_bind [where Q = "\<lambda>r d. t \<le> db_now d \<and>
    (\<forall>k. r = Inr k \<longrightarrow> filter (\<lambda>k. sk_key_id k = the (sh_apiKey headers)) ks = [k])"])
  show "valid key_step (\<lambda>d. db_service_keys d = ks \<and> t \<le> db_now d)
     (call (shaped shape_single (q_select db_service_keys (\<lambda>k. sk_key_id k = the (sh_apiKey headers)))))
     (\<lambda>r d. t \<le> db_now d \<and> (\<forall>k. r = Inr k \<longrightarrow> filter (\<lambda>k. sk_key_id k = the (sh_apiKey headers)) ks = [k]))"
    by (intro service_keys.valid_call) (auto simp: stable_def key_step_def shape_single_Inr)
next
  fix r :: "service_key_row db_result"
  show "valid key_step (\<lambda>d. t \<le> db_now d \<and> (\<forall>k. r = Inr k \<longrightarrow> filter (\<lambda>k. sk_key_id k = the (sh_apiKey headers)) ks = [k]))
     (case data_of r of
        None \<Rightarrow> State_Monad.return (Inl (api_err ''Invalid API key'' ''INVALID_KEY''))
      | Some key \<Rightarrow>
          if \<not> sk_is_active key then
            State_Monad.return (Inl (api_err ''API key is deactivated'' ''KEY_DEACTIVATED''))
          else do {
            now \<leftarrow> clock;
            if (case sk_expires_at key of Some t \<Rightarrow> t < now | None \<Rightarrow> False) then
              State_Monad.return (Inl (api_err ''API key has expired'' ''KEY_EXPIRED''))
            else
              if hex_bytes (the (sh_signature headers)) \<noteq> hex_bytes (hmac (sk_signing_secret key)
                  (signing_message httpMethod (canonical_path pathname path) (the (sh_timestamp headers)) nonce
                    (deriveSigningBody parse body))) then
                State_Monad.return (Inl (api_err ''Invalid signature'' ''INVALID_SIGNATURE''))
              else State_Monad.return (Inr
                   \<lparr>hi_agentId = sk_agent_id key, hi_keyId = sk_key_id key, hi_keyRecordId = sk_id key\<rparr>)
          })
     (\<lambda>r d. \<forall>who. r = Inr who \<longrightarrow> (\<exists>k. signed_with parse pathname hmac httpMethod path body headers nonce t ks who k))"
  proof (cases r)
    case (Inr k)
    show ?thesis
      unfolding Inr data_of_simps option.case
      by (intro service_keys.valid_if service_keys.valid_return service_keys.valid_bind [where Q = "\<lambda>now d. t \<le> now \<and>
            filter (\<lambda>k. sk_key_id k = the (sh_apiKey headers)) ks = [k]"] service_keys.valid_clock)
        (auto simp: signed_with_def split: option.splits)
  qed (auto intro!: service_keys.valid_return)
qed

lemma validate_signed:
  assumes "sh_nonce headers = Some n"
  shows "valid key_step (\<lambda>d. db_service_keys d = ks \<and> t \<le> db_now d)
     (validateHmac parse pathname hmac httpMethod path body headers)
     (\<lambda>r d. \<forall>who. r = Inr who \<longrightarrow> (\<exists>k. signed_with parse pathname hmac httpMethod path body headers n t ks who k))"
proof -
  have st: "stable key_step (\<lambda>d. db_service_keys d = ks \<and> t \<le> db_now d)" by (auto simp: stable_def key_step_def)
  show ?thesis
    unfolding validateHmac_def check_nonce_def assms option.sel
    by (intro service_keys.valid_if service_keys.valid_return service_keys.valid_bind [where Q = "\<lambda>_ d. db_service_keys d = ks \<and> t \<le> db_now d"]
        service_keys.valid_clock service_keys.keeps_holds [OF keeps_record st] check_signature_valid) simp_all
qed

section \<open>The kill switch\<close>

definition same_config :: "db \<Rightarrow> db \<Rightarrow> bool" where
  "same_config d d' \<longleftrightarrow> db_config d' = db_config d"

interpretation config: rely_guarantee same_config
  by unfold_locales (simp_all add: same_config_def)

definition switched_on :: "db \<Rightarrow> bool" where
  "switched_on d \<longleftrightarrow> (\<exists>c. filter (\<lambda>c. cfg_key c = ''kill_switch'') (db_config d) = [c] \<and>
     map_of (cfg_value c) ''active'' = Some (JBool True))"

lemma stable_switched_on: "stable same_config switched_on"
  by (simp add: stable_def same_config_def switched_on_def)

lemma config_record: "calmly same_config switched_on (checkAndRecordNonce n y) (\<lambda>_. switched_on)"
  unfolding checkAndRecordNonce_def insert_nonce_def [symmetric] remember_nonce_def
  by (intro config.calmly_bind [where Q = "\<lambda>_. switched_on"] config.calmly_call config.calmly_option config.calmly_sum
      config.calmly_if config.calmly_memory config.calmly_return stable_switched_on)
    (auto simp: same_config_def switched_on_def insert_nonce_def q_insert_def)

lemma config_validate:
  "calmly same_config switched_on (validateHmac parse pathname hmac httpMethod path body headers) (\<lambda>_. switched_on)"
  unfolding validateHmac_def check_nonce_def check_signature_def Let_def
  by (intro config.calmly_bind [where Q = "\<lambda>_. switched_on"] config.calmly_call config.calmly_option config.calmly_clock
      config.calmly_if config.calmly_return stable_switched_on config_record)
    (simp_all add: same_config_def)

lemma frozen_refuses:
  assumes "\<not> reads_only (rr_method req)"
  shows "calmly same_config switched_on (authenticateApiRequest parse pathname hmac req)
    (\<lambda>r _. \<exists>e. r = Inl e \<and> (rf_status e = 401 \<or> rf_status e = 503))"
proof -
  have read: "calmly same_config switched_on (call (shaped shape_single (q_select db_config (\<lambda>c. cfg_key c = ''kill_switch''))))
      (\<lambda>r _. switch_active r)"
    by (intro config.calmly_call stable_switched_on)
      (auto simp: switched_on_def same_config_def switch_active_def shape_single_def)
  have stop: "calmly same_config (\<lambda>_. switch_active r) (if switch_active r then
                State_Monad.return (Inl \<lparr>rf_status = 503,
                  rf_body = api_err (''System is frozen '' @ em_dash @ '' kill switch active'') ''SYSTEM_FROZEN''\<rparr>)
              else count_request key body) (\<lambda>r _. \<exists>e. r = Inl e \<and> (rf_status e = 401 \<or> rf_status e = 503))" for r key body
    by (intro config.calmly_if config.calmly_return) (auto simp: calmly_def)
  show ?thesis
    unfolding authenticateApiRequest_def Let_def using assms
    by (simp only: if_False simp_thms)
      (intro config.calmly_bind [OF config_validate] config.calmly_sum config.calmly_return config.calmly_bind [OF read] stop,
        auto)
qed

section \<open>What a signature binds\<close>

lemma nl_prefix:
  assumes "newline \<notin> set a" "newline \<notin> set a'" "a @ nl @ r = a' @ nl @ r'"
  shows "a = a' \<and> r = r'"
proof -
  have "takeWhile (\<lambda>c. c \<noteq> newline) (b @ nl @ q) = b" if "newline \<notin> set b" for b q
    using that by (induction b) (auto simp: nl_def)
  then have "a = a'" using assms by metis
  then show ?thesis using assms(3) by simp
qed

text \<open>Neither a header nor a path can contain a line break.\<close>

definition one_line :: "string list \<Rightarrow> bool" where
  "one_line ss \<longleftrightarrow> (\<forall>s\<in>set ss. newline \<notin> set s)"

lemma signing_message_inj:
  assumes "one_line [m, p, t, n]" "one_line [m', p', t', n']"
    and "signing_message m p t n b = signing_message m' p' t' n' b'"
  shows "m = m' \<and> p = p' \<and> t = t' \<and> n = n' \<and> b = b'"
proof -
  have l: "newline \<notin> set m" "newline \<notin> set m'" "newline \<notin> set p" "newline \<notin> set p'" "newline \<notin> set t"
    "newline \<notin> set t'" "newline \<notin> set n" "newline \<notin> set n'"
    using assms(1,2) by (simp_all add: one_line_def)
  note 1 = nl_prefix [OF l(1,2) assms(3) [unfolded signing_message_def]]
  note 2 = nl_prefix [OF l(3,4) conjunct2 [OF 1]]
  note 3 = nl_prefix [OF l(5,6) conjunct2 [OF 2]]
  note 4 = nl_prefix [OF l(7,8) conjunct2 [OF 3]]
  show ?thesis using 1 2 3 4 by blast
qed

section \<open>Properties\<close>

text \<open>A key, a signed request of it made at second 1000, and a keyed hash, for the witnesses.\<close>

definition sample_hmac :: "string \<Rightarrow> string \<Rightarrow> string" where
  "sample_hmac secret message = (if even (length message) then ''a0'' else ''b1'')"

definition sample_parse :: "string \<Rightarrow> json option" where
  "sample_parse text = (if text = ''1'' \<or> text = '' 1'' then Some (JNum (Fin 1)) else None)"

definition sample_headers :: "string \<Rightarrow> signed_headers" where
  "sample_headers time = \<lparr>sh_apiKey = Some ''key'', sh_timestamp = Some time, sh_signature = Some ''b1'', sh_nonce = Some ''nonce''\<rparr>"

definition sample_key :: service_key_row where
  "sample_key = \<lparr>sk_id = ''k'', sk_key_id = ''key'', sk_signing_secret = ''secret'', sk_agent_id = Some ''a'', sk_is_active = True,
     sk_expires_at = None, sk_key_hash = ''h'', sk_human_owner = None, sk_label = None, sk_rotated_at = None, sk_created_at = 0\<rparr>"

definition sample_keys :: "timestamp \<Rightarrow> db" where
  "sample_keys now = (empty_db (\<lambda>_. []))\<lparr>db_service_keys := [sample_key], db_now := now,
     db_config := [\<lparr>cfg_key = ''kill_switch'', cfg_value = [(''active'', JBool True)]\<rparr>]\<rparr>"

definition sample_validate :: "string \<Rightarrow> (api_error + hmac_identity) prog" where
  "sample_validate time = validateHmac sample_parse (\<lambda>_. None) sample_hmac ''POST'' ''/api/v1/contracts'' ''1'' (sample_headers time)"

definition sample_identity :: hmac_identity where
  "sample_identity = \<lparr>hi_agentId = Some ''a'', hi_keyId = ''key'', hi_keyRecordId = ''k''\<rparr>"

lemma sample_accepted_request: "result (sample_validate ''0999'') [] (sample_keys 1000000) = Inr sample_identity"
  by code_simp

text \<open>Property C16: a nonce is accepted once: while the database answers and only expired nonces are cleaned up, no
  request with the nonce of an accepted one is accepted within the 300 seconds after it, whatever its
  key, its content and its timestamp.\<close>
theorem replay_refused:
  assumes "calm nonce_step env" "sh_nonce headers = Some n" "sh_nonce headers' = Some n"
    and "result (validateHmac parse pathname hmac httpMethod path body headers) env d = Inr who"
    and "nonce_step (final (validateHmac parse pathname hmac httpMethod path body headers) env d) d'"
    and "calm nonce_step env'"
    and "db_now (final (validateHmac parse pathname hmac httpMethod' path' body' headers') env' d') \<le> db_now d + 300000"
  shows "\<exists>e. result (validateHmac parse pathname hmac httpMethod' path' body' headers') env' d' = Inl e"
proof (rule ccontr)
  assume "\<nexists>e. result (validateHmac parse pathname hmac httpMethod' path' body' headers') env' d' = Inl e"
  then obtain k where k: "result (validateHmac parse pathname hmac httpMethod' path' body' headers') env' d' = Inr k"
    by (cases "result (validateHmac parse pathname hmac httpMethod' path' body' headers') env' d'") auto
  have "kept n (db_now d + 300000) d'"
    using accepted_nonce_kept [OF assms(1,2,4)] assms(5) stable_kept unfolding stable_def by blast
  from kept_nonce_refused [OF assms(6,3) this k] assms(7) show False by simp
qed

theorem replay_refused_witness:
  "\<exists>e. result (sample_validate ''0999'') [] (final (sample_validate ''0999'') [] (sample_keys 1000000)) = Inl e"
  unfolding sample_validate_def
proof (rule replay_refused)
  show "result (validateHmac sample_parse (\<lambda>_. None) sample_hmac ''POST'' ''/api/v1/contracts'' ''1'' (sample_headers ''0999''))
      [] (sample_keys 1000000) = Inr sample_identity"
    using sample_accepted_request by (simp add: sample_validate_def)
  show "db_now (final (validateHmac sample_parse (\<lambda>_. None) sample_hmac ''POST'' ''/api/v1/contracts'' ''1'' (sample_headers ''0999''))
      [] (final (validateHmac sample_parse (\<lambda>_. None) sample_hmac ''POST'' ''/api/v1/contracts'' ''1'' (sample_headers ''0999''))
      [] (sample_keys 1000000))) \<le> db_now (sample_keys 1000000) + 300000"
    by code_simp
qed (simp_all add: sample_headers_def nonces.refl)

text \<open>A request whose timestamp was at least a second old when it was accepted is never accepted again,
  however much later it is replayed.\<close>
theorem old_request_never_again:
  assumes "calm nonce_step env" "sh_nonce headers = Some n" "parse_int (the (sh_timestamp headers)) = Some t"
    and "t < db_now d div 1000"
    and "result (validateHmac parse pathname hmac httpMethod path body headers) env d = Inr who"
    and "nonce_step (final (validateHmac parse pathname hmac httpMethod path body headers) env d) d'"
  shows "\<exists>e. result (validateHmac parse pathname hmac httpMethod path body headers) [] d' = Inl e"
proof (rule ccontr)
  let ?v = "validateHmac parse pathname hmac httpMethod path body headers"
  assume "\<nexists>e. result ?v [] d' = Inl e"
  then obtain k where k: "result ?v [] d' = Inr k" by (cases "result ?v [] d'") auto
  have "kept n (db_now d + 300000) d'"
    using accepted_nonce_kept [OF assms(1,2,5)] assms(6) stable_kept unfolding stable_def by blast
  from kept_nonce_refused [OF calm_Nil assms(2) this k]
  have "db_now d + 300000 < db_now (final ?v [] d')" .
  also have "db_now (final ?v [] d') = db_now d'"
    using keeps_run [OF still_validate rely_Nil, of d'] by (simp add: same_time_def)
  finally have "db_now d + 300000 < db_now d'" .
  moreover have "db_now d' div 1000 \<le> t + 300"
    using accepted_in_tolerance [OF k] assms(3) by (auto simp: in_tolerance_def)
  ultimately show False using assms(4) by linarith
qed

theorem old_request_never_again_witness:
  "\<exists>e. result (sample_validate ''0999'') [] (final (sample_validate ''0999'') [] (sample_keys 1000000)) = Inl e"
  unfolding sample_validate_def
proof (rule old_request_never_again)
  show "result (validateHmac sample_parse (\<lambda>_. None) sample_hmac ''POST'' ''/api/v1/contracts'' ''1'' (sample_headers ''0999''))
      [] (sample_keys 1000000) = Inr sample_identity"
    using sample_accepted_request by (simp add: sample_validate_def)
  show "parse_int (the (sh_timestamp (sample_headers ''0999''))) = Some 999" by code_simp
qed (simp_all add: sample_headers_def nonces.refl sample_keys_def)


text \<open>Property C18: an accepted request was signed with the secret of the only service key of its id, which was active
  and not expired when the request came in; it is identified as that key's, and the signature is over
  its method, path, timestamp, nonce and canonical body.\<close>
theorem accepted_is_signed:
  assumes "rely key_step env" "sh_nonce headers = Some n"
    and "result (validateHmac parse pathname hmac httpMethod path body headers) env d = Inr who"
  shows "\<exists>k. signed_with parse pathname hmac httpMethod path body headers n (db_now d) (db_service_keys d) who k"
  using valid_run(2) [OF validate_signed [OF assms(2), of "db_service_keys d" "db_now d"] assms(1), of d] assms(3) by simp

theorem accepted_is_signed_witness:
  "\<exists>k. signed_with sample_parse (\<lambda>_. None) sample_hmac ''POST'' ''/api/v1/contracts'' ''1'' (sample_headers ''0999'') ''nonce''
     1000000 [sample_key] sample_identity k"
  using accepted_is_signed [OF rely_Nil _ sample_accepted_request [unfolded sample_validate_def], of "''nonce''"]
  by (simp add: sample_headers_def sample_keys_def)

text \<open>Property C19: the signed text determines the request: two requests with JSON bodies have the same one exactly when
  they have the same method, path, timestamp, nonce and content, whatever the white space and the order
  of the keys.\<close>
theorem signed_text_binds_request:
  assumes "one_line [m, p, t, n]" "one_line [m', p', t', n']"
    and "b \<noteq> []" "b' \<noteq> []" "parse b = Some j" "parse b' = Some j'" "finite_numbers j" "finite_numbers j'"
  shows "signing_message m p t n (deriveSigningBody parse b) = signing_message m' p' t' n' (deriveSigningBody parse b') \<longleftrightarrow>
    (m, p, t, n, content_of j) = (m', p', t', n', content_of j')"
proof -
  have "deriveSigningBody parse b = canonicalize j" "deriveSigningBody parse b' = canonicalize j'"
    using assms(3-6) by (simp_all add: deriveSigningBody_def)
  moreover have "canonicalize j = canonicalize j' \<longleftrightarrow> content_of j = content_of j'"
    using canonicalize_inj [OF assms(7,8)] by (auto simp: canonicalize_printed)
  ultimately show ?thesis using signing_message_inj [OF assms(1,2)] by auto
qed

theorem signed_text_binds_request_witness:
  "signing_message ''POST'' ''/'' ''1'' ''n'' (deriveSigningBody sample_parse ''1'') =
   signing_message ''POST'' ''/'' ''1'' ''n'' (deriveSigningBody sample_parse '' 1'')"
  using signed_text_binds_request [of "''POST''" "''/''" "''1''" "''n''" "''POST''" "''/''" "''1''" "''n''" "''1''" "'' 1''"
      sample_parse "JNum (Fin 1)" "JNum (Fin 1)"]
  by (simp add: one_line_def newline_def sample_parse_def)



end
