(* ===== verification/MessageContent.thy ===== *)
theory MessageContent
  imports ContractTypes
begin

text \<open>
  The texts agents write: contract descriptions (\<open>src/lib/contract-description.ts\<close>), the prose of
  a message (\<open>message-structure.ts\<close>), the signals and the attention a message carries
  (\<open>contract-message-notifications.ts\<close>) and observer notes (\<open>contract-observers.ts\<close>).
\<close>

section \<open>Escaped line breaks\<close>

definition backslash :: char where
  "backslash = CHR 0x5C"

definition escaped_n :: string where
  "escaped_n = [backslash, CHR ''n'']"

definition escaped_r :: string where
  "escaped_r = [backslash, CHR ''r'']"

definition backtick :: char where
  "backtick = CHR 0x60"

text \<open>The scanner's index is the suffix of the content that is left.\<close>

definition escapedBreakLength :: "string \<Rightarrow> nat" where
  "escapedBreakLength source =
     (if starts_with source (escaped_r @ escaped_n) then 4
      else if starts_with source escaped_n \<or> starts_with source escaped_r then 2
      else 0)"

text \<open>\<open>indexOf(delimiter, end)\<close> and the step behind the occurrence.\<close>

fun after_first :: "string \<Rightarrow> string \<Rightarrow> string option" where
  "after_first d [] = (if d = [] then Some [] else None)"
| "after_first d (c # cs) =
     (if starts_with (c # cs) d then Some (drop (length d) (c # cs)) else after_first d cs)"

lemma after_first_length: "after_first d s = Some t \<Longrightarrow> length t + length d \<le> length s"
proof (induction s)
  case Nil
  then show ?case by (simp split: if_splits)
next
  case (Cons c cs)
  then show ?case
    by (auto split: if_splits simp: starts_with_iff dest!: arg_cong [of _ _ length])
qed

function hasEscapedBreakOutsideCode :: "string \<Rightarrow> bool" where
  "hasEscapedBreakOutsideCode [] = False"
| "hasEscapedBreakOutsideCode (c # cs) =
     (if c = backtick then
        let delimiter = c # takeWhile (\<lambda>x. x = backtick) cs;
            rest = dropWhile (\<lambda>x. x = backtick) cs
        in case after_first delimiter rest of
             None \<Rightarrow> False
           | Some behind \<Rightarrow> hasEscapedBreakOutsideCode behind
      else if escapedBreakLength (c # cs) > 0 then True
      else hasEscapedBreakOutsideCode cs)"
  by pat_completeness auto

termination hasEscapedBreakOutsideCode
proof (relation "measure length", goal_cases)
  case (2 c cs delimiter rest behind)
  then show ?case
    using after_first_length [of delimiter rest behind] length_dropWhile_le [of "\<lambda>x. x = backtick" cs]
    by simp
qed simp_all

section \<open>Contract descriptions\<close>

definition DESCRIPTION_STRUCTURE_THRESHOLD :: nat where
  "DESCRIPTION_STRUCTURE_THRESHOLD = 600"

datatype description_check = DescriptionOk "string option" | DescriptionBad refusal

definition bad_request :: "string \<Rightarrow> string \<Rightarrow> refusal" where
  "bad_request error code = \<lparr>rf_status = 400, rf_body = api_err error code\<rparr>"

definition validateContractDescription :: "jvalue \<Rightarrow> description_check" where
  "validateContractDescription input =
     (if is_nullish input then DescriptionOk None
      else case as_string input of
        None \<Rightarrow> DescriptionBad (bad_request ''description must be a string containing Markdown.''
                 ''CONTRACT_DESCRIPTION_INVALID'')
      | Some s \<Rightarrow>
          let value = js_trim s
          in if length value = 0 then DescriptionOk None
             else if hasEscapedBreakOutsideCode value then
               DescriptionBad (bad_request
                 (''description contains a literal '' @ escaped_n @ '' instead of a real line break. A shell single-quoted string does not expand escapes: use --description @brief.md to read the text from a file, or --description - to read it from stdin.'')
                 ''CONTRACT_DESCRIPTION_ESCAPED_BREAKS'')
             else if length value > DESCRIPTION_STRUCTURE_THRESHOLD \<and> \<not> str_includes value nl then
               DescriptionBad (bad_request
                 (''description is '' @ show_nat (length value) @ '' characters on a single line. Over '' @
                  show_nat DESCRIPTION_STRUCTURE_THRESHOLD @ '' it must use Markdown structure - headings, bullets, and blank lines between paragraphs - so it is readable in the dashboard and to the agent deciding whether to accept. Write it in a file and pass --description @brief.md, or shorten it.'')
                 ''CONTRACT_DESCRIPTION_UNSTRUCTURED'')
             else DescriptionOk (Some value))"

section \<open>Message structure\<close>

definition MESSAGE_STRUCTURE_THRESHOLD :: nat where
  "MESSAGE_STRUCTURE_THRESHOLD = 400"

definition PROSE_KEYS :: "string list" where
  "PROSE_KEYS = [''text'', ''markdown'', ''message'', ''summary'']"

definition messageProse :: "content \<Rightarrow> string" where
  "messageProse content =
     join (nl @ nl)
       (filter (\<lambda>v. length (js_trim v) > 0)
         (List.map_filter (\<lambda>key. as_string (map_of content key)) PROSE_KEYS))"

definition SHAPE :: string where
  "SHAPE = join nl
     [''## <what this message is>'', '''', ''**Status:** <one line>'', '''', ''**Evidence:**'',
      ''- `<sha / command / path>` - <result>'', '''', ''**Next:** <who owns the next move, and what it is>'']"

definition prose_problem :: "string \<Rightarrow> string \<Rightarrow> refusal option" where
  "prose_problem key value =
     (let prose = js_trim value
      in if hasEscapedBreakOutsideCode prose then
           Some (bad_request
             (''content.'' @ key @ '' contains a literal '' @ escaped_n @ '' instead of a real line break. A shell single-quoted string does not expand escapes: write the message to a file and pass --content @reply.md, or pipe it with --content -.'')
             ''MESSAGE_ESCAPED_BREAKS'')
         else if length prose > MESSAGE_STRUCTURE_THRESHOLD \<and> \<not> str_includes prose nl then
           Some (bad_request
             (''content.'' @ key @ '' is '' @ show_nat (length prose) @ '' characters on a single line. Over '' @
              show_nat MESSAGE_STRUCTURE_THRESHOLD @ '' a message must use Markdown structure - a heading, labelled status and next step, bullets for evidence, code spans for SHAs, paths and commands. Nothing was sent and no turn was spent. Write it to a file and pass --content @reply.md, shaped like:'' @ nl @ nl @ SHAPE)
             ''MESSAGE_UNSTRUCTURED'')
         else None)"

fun structure_loop :: "content \<Rightarrow> string list \<Rightarrow> refusal option" where
  "structure_loop content [] = None"
| "structure_loop content (key # keys) =
     (case as_string (map_of content key) of
        None \<Rightarrow> structure_loop content keys
      | Some value \<Rightarrow>
          (case prose_problem key value of
             Some r \<Rightarrow> Some r
           | None \<Rightarrow> structure_loop content keys))"

definition validateMessageStructure :: "content \<Rightarrow> refusal option" where
  "validateMessageStructure content = structure_loop content PROSE_KEYS"

section \<open>Attention and signals\<close>

datatype async_signal = SigPendingApproval | SigWaiting | SigBlocked | SigCompleted

datatype attention = AttSignal async_signal | AttActionRequired | AttInformational | AttReceipt

definition SIGNAL_PRIORITY :: "async_signal list" where
  "SIGNAL_PRIORITY = [SigBlocked, SigPendingApproval, SigWaiting, SigCompleted]"

definition resolvePrimaryAttention :: "message_type \<Rightarrow> async_signal list \<Rightarrow> bool \<Rightarrow> attention" where
  "resolvePrimaryAttention messageType signals requiresAction =
     (if \<not> consumesTurn messageType then AttReceipt
      else case find (\<lambda>candidate. candidate \<in> set signals) SIGNAL_PRIORITY of
        Some candidate \<Rightarrow> AttSignal candidate
      | None \<Rightarrow> if requiresAction then AttActionRequired else AttInformational)"

definition resolveRequiresAction :: "message_type \<Rightarrow> bool option \<Rightarrow> bool" where
  "resolveRequiresAction messageType requested =
     (if \<not> consumesTurn messageType then False
      else if messageType = MRequest then True
      else case requested of None \<Rightarrow> True | Some b \<Rightarrow> b)"

definition validateReceiptContent :: "content \<Rightarrow> string option" where
  "validateReceiptContent content =
     (case as_string (map_of content ''acknowledges'') of
        None \<Rightarrow> Some ''Receipt messages require content.acknowledges with the message id being acknowledged''
      | Some target \<Rightarrow>
          if length (js_trim target) = 0
          then Some ''Receipt messages require content.acknowledges with the message id being acknowledged''
          else None)"

definition validateCompletionApprovalContent :: "content \<Rightarrow> string option" where
  "validateCompletionApprovalContent content =
     (if map_of content ''approves_completion'' \<noteq> Some (JBool True)
      then Some ''Completion approval messages require content.approves_completion=true''
      else None)"

definition dashes :: "string \<Rightarrow> string" where
  "dashes = map (\<lambda>c. if c = CHR ''_'' then CHR ''-'' else c)"

definition normalize_value :: "string \<Rightarrow> string" where
  "normalize_value value = dashes (to_lower (js_trim value))"

definition toSignal :: "string option \<Rightarrow> async_signal option" where
  "toSignal value =
     (if value = Some ''pending-approval'' then Some SigPendingApproval
      else if value = Some ''waiting'' then Some SigWaiting
      else if value = Some ''blocked'' then Some SigBlocked
      else if value \<in> Some ` set [''completed'', ''complete'', ''done'', ''succeeded'', ''success'']
      then Some SigCompleted
      else None)"

fun truthy_flag :: "json \<Rightarrow> bool" where
  "truthy_flag (JBool b) = b"
| "truthy_flag (JStr s) =
     (normalize_value s \<in> set [''true'', ''yes'', ''done'', ''completed'', ''blocked'', ''waiting''])"
| "truthy_flag _ = False"

definition ends_with :: "string \<Rightarrow> string \<Rightarrow> bool" where
  "ends_with s p = starts_with (rev s) (rev p)"

text \<open>The signals one property adds, in the order the visitor adds them.\<close>

definition visit :: "string \<Rightarrow> json \<Rightarrow> async_signal list" where
  "visit key value =
     (let normalizedKey = dashes (to_lower key);
          normalizedValue = map_option normalize_value (as_string (Some value))
      in (if normalizedKey = ''status'' \<or> ends_with normalizedKey ''-status''
             \<or> normalizedKey = ''state'' \<or> ends_with normalizedKey ''-state''
          then (case toSignal normalizedValue of None \<Rightarrow> [] | Some s \<Rightarrow> [s]) else []) @
         (if str_includes normalizedKey ''waiting'' \<and> truthy_flag value then [SigWaiting] else []) @
         (if str_includes normalizedKey ''blocked'' \<and> truthy_flag value then [SigBlocked] else []) @
         (if str_includes normalizedKey ''approval'' \<and>
             (case normalizedValue of None \<Rightarrow> False | Some v \<Rightarrow> str_includes v ''pending'')
          then [SigPendingApproval] else []) @
         (if str_includes normalizedKey ''completed'' \<and> truthy_flag value then [SigCompleted] else []))"

fun walk :: "json \<Rightarrow> async_signal list" where
  "walk (JArr items) = concat (map walk items)"
| "walk (JObj entries) = concat (map (\<lambda>e. visit (fst e) (snd e) @ walk (snd e)) entries)"
| "walk _ = []"

definition extractSignals :: "content \<Rightarrow> async_signal list" where
  "extractSignals content = js_set (walk (JObj content))"

section \<open>Observers\<close>

definition normalizeContractObserverNames :: "json list option \<Rightarrow> string list" where
  "normalizeContractObserverNames observers =
     js_set (map js_trim
       (filter (\<lambda>value. length (js_trim value) > 0)
         (List.map_filter (\<lambda>v. as_string (Some v)) (case observers of None \<Rightarrow> [] | Some xs \<Rightarrow> xs))))"

definition isObserverContractNote :: "jvalue \<Rightarrow> bool" where
  "isObserverContractNote content \<longleftrightarrow>
     is_object content \<and>
     (jprop content ''observer_note'' = Some (JBool True) \<or>
      jprop content ''observer_read_only'' = Some (JBool True) \<or>
      jprop content ''visibility'' = Some (JStr ''observer-note''))"

text \<open>The pair of the thread messages and the observer notes, built by one pass.\<close>

fun split_loop :: "('m \<Rightarrow> jvalue) \<Rightarrow> 'm list \<Rightarrow> 'm list \<Rightarrow> 'm list \<Rightarrow> 'm list \<times> 'm list" where
  "split_loop contentOf threadMessages observerNotes [] = (threadMessages, observerNotes)"
| "split_loop contentOf threadMessages observerNotes (m # ms) =
     (if isObserverContractNote (contentOf m)
      then split_loop contentOf threadMessages (observerNotes @ [m]) ms
      else split_loop contentOf (threadMessages @ [m]) observerNotes ms)"

definition splitContractMessagesByVisibility :: "('m \<Rightarrow> jvalue) \<Rightarrow> 'm list \<Rightarrow> 'm list \<times> 'm list" where
  "splitContractMessagesByVisibility contentOf messages = split_loop contentOf [] [] messages"

section \<open>Lemmas\<close>

subsection \<open>Code spans\<close>

lemma after_first_here: "after_first d (d @ t) = Some t"
proof (cases "d @ t")
  case Nil
  then show ?thesis by simp
next
  case (Cons c cs)
  then have "starts_with (c # cs) d" by (auto simp: starts_with_iff intro!: exI [of _ t])
  moreover have "drop (length d) (c # cs) = t" using Cons by (metis append_eq_conv_conj)
  ultimately show ?thesis using Cons by simp
qed

lemma after_first_append: "after_first d x = Some y \<Longrightarrow> after_first d (x @ z) = Some (y @ z)"
proof (induction x)
  case Nil
  then have "d = []" "y = []" by (simp_all split: if_splits)
  then show ?case by (cases z) simp_all
next
  case (Cons c cs)
  show ?case
  proof (cases "starts_with (c # cs) d")
    case True
    then obtain t where t: "c # cs = d @ t" by (auto simp: starts_with_iff)
    with Cons.prems have "y = t" using after_first_here [of d t] by (metis option.inject)
    have "(c # cs) @ z = d @ (t @ z)" using t by (metis append_assoc)
    then have "after_first d ((c # cs) @ z) = Some (t @ z)" by (simp only: after_first_here)
    with \<open>y = t\<close> show ?thesis by simp
  next
    case False
    with Cons have ih: "after_first d (cs @ z) = Some (y @ z)" and a: "after_first d cs = Some y" by simp_all
    have "\<not> starts_with (c # (cs @ z)) d"
    proof
      assume "starts_with (c # (cs @ z)) d"
      then obtain t where "c # (cs @ z) = d @ t" by (auto simp: starts_with_iff)
      then have "(c # cs) @ z = d @ t" by simp
      moreover have "length d \<le> length (c # cs)" using after_first_length [OF a] by simp
      ultimately have "\<exists>u. c # cs = d @ u"
        by (metis append_eq_append_conv_if append_take_drop_id)
      with False show False by (auto simp: starts_with_iff)
    qed
    with ih show ?thesis by simp
  qed
qed

lemma after_first_split:
  "after_first d s = Some t \<Longrightarrow> \<exists>body. s = body @ d @ t \<and> after_first d (body @ d) = Some []"
proof (induction s)
  case Nil
  then have "d = [] \<and> t = []" by (simp split: if_splits)
  then show ?case by simp
next
  case (Cons c cs)
  show ?case
  proof (cases "starts_with (c # cs) d")
    case True
    then obtain u where u: "c # cs = d @ u" by (auto simp: starts_with_iff)
    with Cons.prems have "t = u" using after_first_here [of d u] by (metis option.inject)
    have "after_first d ([] @ d) = Some []"
      by (cases d) (auto simp: starts_with_iff)
    with u \<open>t = u\<close> show ?thesis by (intro exI [of _ "[]"]) simp
  next
    case False
    with Cons obtain body where b: "cs = body @ d @ t" "after_first d (body @ d) = Some []" by auto
    have "\<not> starts_with (c # body @ d) d"
    proof
      assume "starts_with (c # body @ d) d"
      then obtain u where "c # body @ d = d @ u" by (auto simp: starts_with_iff)
      then have "c # cs = d @ (u @ t)" using b(1) by (metis append_Cons append_assoc)
      with False show False by (auto simp: starts_with_iff)
    qed
    with b have "after_first d ((c # body) @ d) = Some []" by simp
    with b(1) show ?thesis by (intro exI [of _ "c # body"]) simp
  qed
qed

text \<open>
  What the scanner means, without an index: a text splits into plain characters and code spans. A
  span opens with a maximal run of back ticks and ends with the first run of the same length
  behind it.
\<close>

inductive plain_and_spans :: "string \<Rightarrow> bool" where
  ps_empty: "plain_and_spans []"
| ps_char: "c \<noteq> backtick \<Longrightarrow> plain_and_spans s \<Longrightarrow> plain_and_spans (c # s)"
| ps_span: "0 < n \<Longrightarrow> body \<noteq> [] \<Longrightarrow> hd body \<noteq> backtick \<Longrightarrow>
    after_first (replicate n backtick) (body @ replicate n backtick) = Some [] \<Longrightarrow>
    plain_and_spans s \<Longrightarrow>
    plain_and_spans (replicate n backtick @ body @ replicate n backtick @ s)"

definition escaped_break_outside_code :: "string \<Rightarrow> bool" where
  "escaped_break_outside_code s \<longleftrightarrow>
     (\<exists>pre suf. s = pre @ suf \<and> plain_and_spans pre \<and>
        (starts_with suf escaped_n \<or> starts_with suf escaped_r))"

lemma escapedBreakLength_pos:
  "escapedBreakLength s > 0 \<longleftrightarrow> starts_with s escaped_n \<or> starts_with s escaped_r"
  unfolding escapedBreakLength_def by (auto simp: starts_with_iff)

lemma escaped_not_backtick:
  "starts_with (c # cs) escaped_n \<or> starts_with (c # cs) escaped_r \<Longrightarrow> c \<noteq> backtick"
  by (auto simp: escaped_n_def escaped_r_def backslash_def backtick_def)

lemma takeWhile_ticks: "takeWhile (\<lambda>x. x = a) s = replicate (length (takeWhile (\<lambda>x. x = a) s)) a"
  by (induction s) auto

lemma ticks_of_span:
  assumes "body \<noteq> []" "hd body \<noteq> backtick"
  shows "takeWhile (\<lambda>x. x = backtick) (replicate n backtick @ body @ r) = replicate n backtick"
    and "dropWhile (\<lambda>x. x = backtick) (replicate n backtick @ body @ r) = body @ r"
  using assms by (induction n) (cases body; simp)+

lemma scan_span:
  assumes "0 < n" "body \<noteq> []" "hd body \<noteq> backtick"
    and "after_first (replicate n backtick) (body @ replicate n backtick) = Some []"
  shows "hasEscapedBreakOutsideCode (replicate n backtick @ body @ replicate n backtick @ s) =
         hasEscapedBreakOutsideCode s"
proof -
  obtain k where n: "n = Suc k" using assms(1) by (cases n) auto
  have a: "after_first (backtick # replicate k backtick) (body @ backtick # replicate k backtick @ s) = Some s"
    using after_first_append [OF assms(4), of s] n by simp
  show ?thesis
    using ticks_of_span [OF assms(2,3), of k "replicate n backtick @ s"] a
    by (simp add: n)
qed

lemma scan_complete:
  assumes "plain_and_spans pre" "starts_with suf escaped_n \<or> starts_with suf escaped_r"
  shows "hasEscapedBreakOutsideCode (pre @ suf)"
  using assms
proof (induction rule: plain_and_spans.induct)
  case ps_empty
  then obtain c cs where "suf = c # cs" by (cases suf) (auto simp: escaped_n_def escaped_r_def)
  with ps_empty show ?case using escaped_not_backtick [of c cs] by (simp add: escapedBreakLength_pos)
next
  case (ps_char c s)
  then show ?case by simp
next
  case (ps_span n body s)
  then show ?case using scan_span [of n body "s @ suf"] by simp
qed

lemma scan_sound: "hasEscapedBreakOutsideCode s \<Longrightarrow> escaped_break_outside_code s"
proof (induction s rule: hasEscapedBreakOutsideCode.induct)
  case 1
  then show ?case by simp
next
  case (2 c cs)
  show ?case
  proof (cases "c = backtick")
    case False
    show ?thesis
    proof (cases "escapedBreakLength (c # cs) > 0")
      case True
      then show ?thesis
        unfolding escaped_break_outside_code_def escapedBreakLength_pos
        by (intro exI [of _ "[]"] exI [of _ "c # cs"]) (simp add: ps_empty)
    next
      case no: False
      with False 2 have "escaped_break_outside_code cs" by simp
      then obtain pre suf where "cs = pre @ suf" "plain_and_spans pre"
        "starts_with suf escaped_n \<or> starts_with suf escaped_r"
        unfolding escaped_break_outside_code_def by blast
      with False show ?thesis
        unfolding escaped_break_outside_code_def
        by (intro exI [of _ "c # pre"] exI [of _ suf]) (simp add: ps_char)
    qed
  next
    case True
    define k where "k = length (takeWhile (\<lambda>x. x = backtick) cs)"
    define rest where "rest = dropWhile (\<lambda>x. x = backtick) cs"
    have tw: "takeWhile (\<lambda>x. x = backtick) cs = replicate k backtick"
      unfolding k_def by (rule takeWhile_ticks)
    have cs: "c # cs = replicate (Suc k) backtick @ rest"
      using True tw takeWhile_dropWhile_id [of "\<lambda>x. x = backtick" cs] by (simp add: rest_def)
    from 2 True tw obtain behind where b: "after_first (replicate (Suc k) backtick) rest = Some behind"
      and h: "hasEscapedBreakOutsideCode behind"
      by (auto simp: rest_def [symmetric] split: option.splits)
    have "escaped_break_outside_code behind"
      using "2.IH"(1) True tw b h by (simp add: rest_def)
    then obtain pre suf where ps: "behind = pre @ suf" "plain_and_spans pre"
      "starts_with suf escaped_n \<or> starts_with suf escaped_r"
      unfolding escaped_break_outside_code_def by blast
    from after_first_split [OF b] obtain body where
      body: "rest = body @ replicate (Suc k) backtick @ behind"
      "after_first (replicate (Suc k) backtick) (body @ replicate (Suc k) backtick) = Some []" by blast
    have hd_rest: "rest \<noteq> [] \<longrightarrow> hd rest \<noteq> backtick"
      unfolding rest_def using hd_dropWhile by blast
    then have "body \<noteq> []" "hd body \<noteq> backtick"
      using body(1) by (cases body; simp)+
    then have "plain_and_spans (replicate (Suc k) backtick @ body @ replicate (Suc k) backtick @ pre)"
      using body(2) ps(2) by (intro ps_span) simp_all
    with ps cs body(1) show ?thesis
      unfolding escaped_break_outside_code_def
      by (intro exI [of _ "replicate (Suc k) backtick @ body @ replicate (Suc k) backtick @ pre"]
          exI [of _ suf]) simp
  qed
qed

lemma hasEscapedBreakOutsideCode_iff:
  "hasEscapedBreakOutsideCode s \<longleftrightarrow> escaped_break_outside_code s"
  using scan_sound scan_complete unfolding escaped_break_outside_code_def by blast

subsection \<open>Readable texts\<close>

text \<open>What both validators ask of a trimmed text, with their own threshold.\<close>

definition readable :: "nat \<Rightarrow> string \<Rightarrow> bool" where
  "readable threshold s \<longleftrightarrow>
     \<not> escaped_break_outside_code s \<and> (length s \<le> threshold \<or> newline \<in> set s)"

lemma str_includes_nl: "str_includes s nl \<longleftrightarrow> newline \<in> set s"
  by (simp add: nl_def str_includes_char)

lemma prose_problem_None: "prose_problem key v = None \<longleftrightarrow> readable 400 (js_trim v)"
  unfolding prose_problem_def readable_def
  by (auto simp: Let_def hasEscapedBreakOutsideCode_iff str_includes_nl MESSAGE_STRUCTURE_THRESHOLD_def)

lemma structure_loop_None:
  "structure_loop content keys = None \<longleftrightarrow>
     (\<forall>k\<in>set keys. \<forall>v. as_string (map_of content k) = Some v \<longrightarrow> readable 400 (js_trim v))"
proof (induction keys)
  case Nil
  then show ?case by simp
next
  case (Cons key keys)
  show ?case
  proof (cases "as_string (map_of content key)")
    case None
    with Cons show ?thesis by simp
  next
    case (Some v)
    then show ?thesis
      using Cons prose_problem_None [of key v] by (cases "prose_problem key v") simp_all
  qed
qed

lemma structure_loop_status: "structure_loop content keys = Some r \<Longrightarrow> rf_status r = 400"
  by (induction keys)
     (auto simp: prose_problem_def Let_def bad_request_def split: option.splits if_splits)

lemma description_ok_string:
  "validateContractDescription (Some (JStr s)) = DescriptionOk v \<longleftrightarrow>
     js_trim s = [] \<and> v = None \<or>
     js_trim s \<noteq> [] \<and> readable 600 (js_trim s) \<and> v = Some (js_trim s)"
  by (auto simp: validateContractDescription_def is_nullish_def readable_def Let_def
      hasEscapedBreakOutsideCode_iff str_includes_nl DESCRIPTION_STRUCTURE_THRESHOLD_def)

lemma description_ok:
  "validateContractDescription input = DescriptionOk v \<longleftrightarrow>
     is_nullish input \<and> v = None \<or>
     (\<exists>s. input = Some (JStr s) \<and>
        (js_trim s = [] \<and> v = None \<or>
         js_trim s \<noteq> [] \<and> readable 600 (js_trim s) \<and> v = Some (js_trim s)))"
proof (cases "\<exists>s. input = Some (JStr s)")
  case True
  then obtain s where "input = Some (JStr s)" by blast
  then show ?thesis by (auto simp: description_ok_string is_nullish_def)
next
  case False
  then have "as_string input = None" by (cases input rule: as_string.cases) auto
  with False show ?thesis by (auto simp: validateContractDescription_def)
qed

subsection \<open>Signals\<close>

text \<open>A property with its value, at any depth of a JSON value.\<close>

inductive occurs :: "string \<Rightarrow> json \<Rightarrow> json \<Rightarrow> bool" where
  occurs_here: "(k, v) \<in> set entries \<Longrightarrow> occurs k v (JObj entries)"
| occurs_entry: "(k', child) \<in> set entries \<Longrightarrow> occurs k v child \<Longrightarrow> occurs k v (JObj entries)"
| occurs_item: "child \<in> set items \<Longrightarrow> occurs k v child \<Longrightarrow> occurs k v (JArr items)"

inductive_cases occurs_JObjE: "occurs k v (JObj entries)"
inductive_cases occurs_JArrE: "occurs k v (JArr items)"
inductive_simps occurs_atoms [simp]: "occurs k v JNull" "occurs k v (JBool b)" "occurs k v (JNum n)" "occurs k v (JStr s)"

lemma walk_sound: "sig \<in> set (walk j) \<Longrightarrow> \<exists>k v. occurs k v j \<and> sig \<in> set (visit k v)"
proof (induction j rule: walk.induct)
  case (1 items)
  then obtain c where "c \<in> set items" "sig \<in> set (walk c)" by auto
  with 1 show ?case by (blast intro: occurs_item)
next
  case (2 entries)
  then obtain e where e: "e \<in> set entries" "sig \<in> set (visit (fst e) (snd e)) \<or> sig \<in> set (walk (snd e))"
    by auto
  from e(2) show ?case
  proof
    assume "sig \<in> set (visit (fst e) (snd e))"
    with e(1) show ?thesis by (metis occurs_here prod.collapse)
  next
    assume "sig \<in> set (walk (snd e))"
    with 2 e(1) show ?thesis by (metis occurs_entry prod.collapse)
  qed
qed simp_all

lemma walk_complete: "occurs k v j \<Longrightarrow> set (visit k v) \<subseteq> set (walk j)"
proof (induction rule: occurs.induct)
  case (occurs_here k v entries)
  then show ?case by (force simp: image_iff)
next
  case (occurs_entry k' child entries k v)
  then have "set (walk child) \<subseteq> set (walk (JObj entries))" by force
  with occurs_entry show ?case by blast
next
  case (occurs_item child items k v)
  then have "set (walk child) \<subseteq> set (walk (JArr items))" by auto
  with occurs_item show ?case by blast
qed

lemma set_extractSignals:
  "sig \<in> set (extractSignals content) \<longleftrightarrow>
     (\<exists>k v. occurs k v (JObj content) \<and> sig \<in> set (visit k v))"
  unfolding extractSignals_def set_js_set using walk_sound walk_complete by blast

lemma attention_cases:
  "resolvePrimaryAttention t sigs ra =
     (if \<not> consumesTurn t then AttReceipt
      else if SigBlocked \<in> set sigs then AttSignal SigBlocked
      else if SigPendingApproval \<in> set sigs then AttSignal SigPendingApproval
      else if SigWaiting \<in> set sigs then AttSignal SigWaiting
      else if SigCompleted \<in> set sigs then AttSignal SigCompleted
      else if ra then AttActionRequired else AttInformational)"
  by (simp add: resolvePrimaryAttention_def SIGNAL_PRIORITY_def)

subsection \<open>Observers\<close>

lemma split_loop_filter:
  "split_loop f ts ns ms =
     (ts @ filter (\<lambda>m. \<not> isObserverContractNote (f m)) ms,
      ns @ filter (\<lambda>m. isObserverContractNote (f m)) ms)"
  by (induction ms arbitrary: ts ns) auto

lemma split_by_visibility:
  "splitContractMessagesByVisibility f ms =
     (filter (\<lambda>m. \<not> isObserverContractNote (f m)) ms, filter (\<lambda>m. isObserverContractNote (f m)) ms)"
  by (simp add: splitContractMessagesByVisibility_def split_loop_filter)

lemma observer_names_normal:
  "distinct (normalizeContractObserverNames obs) \<and>
   (\<forall>n\<in>set (normalizeContractObserverNames obs). n \<noteq> [] \<and> js_trim n = n)"
  by (auto simp: normalizeContractObserverNames_def)

section \<open>Properties\<close>

text \<open>
  Property C5. The scanner for escaped line breaks reads a text as its grammar says: it reports a
  break exactly when the text splits into plain characters and code spans up to a backslash
  followed by \<open>n\<close> or \<open>r\<close> that stands outside them; wrapping a text free of back ticks in a code
  span hides every escaped break in it.
\<close>
theorem escaped_break_scanner_correct:
  "(hasEscapedBreakOutsideCode s \<longleftrightarrow> escaped_break_outside_code s) \<and>
   (s \<noteq> [] \<and> backtick \<notin> set s \<longrightarrow> \<not> hasEscapedBreakOutsideCode ([backtick] @ s @ [backtick]))"
proof
  show "hasEscapedBreakOutsideCode s \<longleftrightarrow> escaped_break_outside_code s"
    by (rule hasEscapedBreakOutsideCode_iff)
  show "s \<noteq> [] \<and> backtick \<notin> set s \<longrightarrow> \<not> hasEscapedBreakOutsideCode ([backtick] @ s @ [backtick])"
  proof
    assume a: "s \<noteq> [] \<and> backtick \<notin> set s"
    have "after_first [backtick] (t @ [backtick]) = Some []" if "backtick \<notin> set t" for t
      using that by (induction t) auto
    with a have "hasEscapedBreakOutsideCode (replicate 1 backtick @ s @ replicate 1 backtick @ []) =
      hasEscapedBreakOutsideCode []"
      by (intro scan_span) (auto dest: hd_in_set)
    then show "\<not> hasEscapedBreakOutsideCode ([backtick] @ s @ [backtick])" by simp
  qed
qed

lemma escaped_break_scanner_correct_witness:
  "\<not> hasEscapedBreakOutsideCode ([backtick] @ escaped_n @ [backtick]) \<and> hasEscapedBreakOutsideCode escaped_n"
proof -
  have "escaped_n \<noteq> [] \<and> backtick \<notin> set escaped_n"
    by (simp add: escaped_n_def backslash_def backtick_def)
  moreover have "hasEscapedBreakOutsideCode escaped_n"
    by (simp add: escaped_n_def escaped_r_def backslash_def backtick_def escapedBreakLength_def)
  ultimately show ?thesis using escaped_break_scanner_correct [of escaped_n] by blast
qed

text \<open>
  A description is accepted exactly when it is absent, blank, or a string whose
  trimmed text has no escaped line break outside code and is either at most 600 characters or has
  a real line break; the value stored is the trimmed text, and validating it again accepts it
  unchanged.
\<close>
theorem description_accepted:
  "(validateContractDescription input = DescriptionOk v \<longleftrightarrow>
      is_nullish input \<and> v = None \<or>
      (\<exists>s. input = Some (JStr s) \<and>
        (js_trim s = [] \<and> v = None \<or>
         js_trim s \<noteq> [] \<and> v = Some (js_trim s) \<and> \<not> escaped_break_outside_code (js_trim s) \<and>
           (length (js_trim s) \<le> 600 \<or> newline \<in> set (js_trim s))))) \<and>
   (validateContractDescription input = DescriptionOk (Some t) \<longrightarrow>
      validateContractDescription (Some (JStr t)) = DescriptionOk (Some t))"
proof
  show "validateContractDescription input = DescriptionOk v \<longleftrightarrow>
      is_nullish input \<and> v = None \<or>
      (\<exists>s. input = Some (JStr s) \<and>
        (js_trim s = [] \<and> v = None \<or>
         js_trim s \<noteq> [] \<and> v = Some (js_trim s) \<and> \<not> escaped_break_outside_code (js_trim s) \<and>
           (length (js_trim s) \<le> 600 \<or> newline \<in> set (js_trim s))))"
    unfolding description_ok readable_def by blast
  show "validateContractDescription input = DescriptionOk (Some t) \<longrightarrow>
      validateContractDescription (Some (JStr t)) = DescriptionOk (Some t)"
    unfolding description_ok by auto
qed

lemma description_accepted_witness:
  "validateContractDescription (Some (JStr ''brief'')) = DescriptionOk (Some ''brief'')"
proof -
  have "validateContractDescription (Some (JStr '' brief '')) = DescriptionOk (Some ''brief'')"
    by (simp add: validateContractDescription_def is_nullish_def js_trim_def is_ws_def backtick_def
        escapedBreakLength_def escaped_n_def escaped_r_def backslash_def DESCRIPTION_STRUCTURE_THRESHOLD_def)
  then show ?thesis using description_accepted [of "Some (JStr '' brief '')" None "''brief''"] by blast
qed

text \<open>0. A message is refused by the structure check exactly when one of the four prose keys
  holds a string that is unreadable: an escaped line break outside code, or more than 400
  characters on a single line; the refusal has status 400.
\<close>
theorem message_structure_accepts:
  "validateMessageStructure content = None \<longleftrightarrow>
     (\<forall>k v. k \<in> {''text'', ''markdown'', ''message'', ''summary''} \<and> map_of content k = Some (JStr v) \<longrightarrow>
        \<not> escaped_break_outside_code (js_trim v) \<and>
        (length (js_trim v) \<le> 400 \<or> newline \<in> set (js_trim v)))"
proof -
  have "as_string x = Some v \<longleftrightarrow> x = Some (JStr v)" for x v
    by (cases x rule: as_string.cases) auto
  then show ?thesis
    unfolding validateMessageStructure_def structure_loop_None readable_def PROSE_KEYS_def by auto
qed

lemma message_structure_accepts_witness:
  "validateMessageStructure [(''text'', JStr ''ok'')] = None"
proof (subst message_structure_accepts, intro allI impI)
  fix k v
  assume a: "k \<in> {''text'', ''markdown'', ''message'', ''summary''} \<and>
    map_of [(''text'', JStr ''ok'')] k = Some (JStr v)"
  then have v: "js_trim v = ''ok''" by (auto split: if_splits simp: js_trim_def is_ws_def)
  have "\<not> hasEscapedBreakOutsideCode ''ok''"
    by (simp add: backtick_def escapedBreakLength_def escaped_n_def escaped_r_def backslash_def)
  then show "\<not> escaped_break_outside_code (js_trim v) \<and>
      (length (js_trim v) \<le> 400 \<or> newline \<in> set (js_trim v))"
    by (simp add: v hasEscapedBreakOutsideCode_iff)
qed

text \<open>1. The recipient of a message is told it is blocked exactly when the message is a turn
  and a property at any depth of its content, inside any nesting of objects and arrays, signals
  blocked; and a request is never announced as a receipt or as informational.
\<close>
theorem attention_reflects_content:
  "(resolvePrimaryAttention t (extractSignals content) ra = AttSignal SigBlocked \<longleftrightarrow>
      consumesTurn t \<and> (\<exists>k v. occurs k v (JObj content) \<and> SigBlocked \<in> set (visit k v))) \<and>
   resolvePrimaryAttention MRequest sigs (resolveRequiresAction MRequest asked)
     \<notin> {AttReceipt, AttInformational} \<and>
   (resolvePrimaryAttention t sigs ra = AttReceipt \<longleftrightarrow> t \<in> {MReceipt, MApproval})"
  unfolding set_extractSignals [symmetric]
  by (cases t) (simp_all add: attention_cases resolveRequiresAction_def)

end
