(* ===== verification/Closure.thy ===== *)
theory Closure
  imports ContractTypes MessageContent
begin

text \<open>
  Why a contract stopped and who may stop a gated one (\<open>src/lib/contract-closure.ts\<close>): the
  outcome, the decision on an explicit close, and the announcement a closure sends.
\<close>

section \<open>Outcomes\<close>

datatype close_outcome =
  CompletedApproved | TurnsExhausted | OutcomeExpired | ClosedByParticipant | ClosedUnapproved

fun outcome_name :: "close_outcome \<Rightarrow> string" where
  "outcome_name CompletedApproved = ''completed-approved''"
| "outcome_name TurnsExhausted = ''turns-exhausted''"
| "outcome_name OutcomeExpired = ''expired''"
| "outcome_name ClosedByParticipant = ''closed-by-participant''"
| "outcome_name ClosedUnapproved = ''closed-unapproved''"

definition resolveCloseOutcome ::
  "string option \<Rightarrow> timestamp option \<Rightarrow> bool option \<Rightarrow> close_outcome" where
  "resolveCloseOutcome closedBy completionApprovedAt closedWithoutApproval =
     (if closedWithoutApproval = Some True then ClosedUnapproved
      else
        let closedBy' = (case closedBy of None \<Rightarrow> [] | Some s \<Rightarrow> s)
        in if closedBy' = ''system:completion-approved'' then CompletedApproved
           else if closedBy' = ''system:max-turns'' then
             (if completionApprovedAt \<noteq> None then CompletedApproved else TurnsExhausted)
           else if closedBy' = ''system:expiry'' then OutcomeExpired
           else ClosedByParticipant)"

definition outcomeIsSuccess :: "close_outcome \<Rightarrow> bool" where
  "outcomeIsSuccess outcome \<longleftrightarrow> outcome = CompletedApproved"

section \<open>Closing a gated contract\<close>

definition UNAPPROVED_CLOSE_REASON_MIN :: nat where
  "UNAPPROVED_CLOSE_REASON_MIN = 10"

definition approvalGateWaysOut :: "string \<Rightarrow> string" where
  "approvalGateWaysOut contractId =
     ''Two ways out: the proposer approves the work (`holloway approve-completion '' @ contractId @ ''`), '' @
     ''or the proposer closes it without approving (`holloway close '' @ contractId @
     '' --without-approval --reason \"...\"`).''"

datatype gated_close_decision = CloseAllowed bool | CloseRefused refusal

definition evaluateGatedClose ::
  "string \<Rightarrow> bool \<Rightarrow> bool \<Rightarrow> bool option \<Rightarrow> string option \<Rightarrow> gated_close_decision" where
  "evaluateGatedClose contractId gatePending isProposer withoutApproval reason =
     (if \<not> gatePending then CloseAllowed False
      else
        let reason' = js_trim (case reason of None \<Rightarrow> [] | Some r \<Rightarrow> r)
        in if isProposer \<and> withoutApproval = Some True \<and> length reason' \<ge> UNAPPROVED_CLOSE_REASON_MIN
           then CloseAllowed True
           else
             let lead = (if \<not> isProposer then
                   ''This contract requires the proposer to approve completion, and only the proposer can close it before that.''
                 else if withoutApproval = Some True then
                   ''Closing without approval needs a reason of at least '' @ show_nat UNAPPROVED_CLOSE_REASON_MIN @
                   '' characters saying why the work is not being accepted.''
                 else ''This contract requires completion approval before it can close.'')
             in CloseRefused \<lparr>rf_status = 409,
                  rf_body = api_err (lead @ '' '' @ approvalGateWaysOut contractId) ''COMPLETION_APPROVAL_REQUIRED''\<rparr>)"

definition successorHint :: "string \<Rightarrow> string" where
  "successorHint contractId =
     ''If the work continues, propose the follow-up with `holloway propose ... --continues '' @ contractId @
     ''` so it inherits the task and the chain stays linked.''"

definition needsSuccessorHint :: "close_outcome \<Rightarrow> bool \<Rightarrow> bool" where
  "needsSuccessorHint outcome hasSuccessor \<longleftrightarrow> \<not> outcomeIsSuccess outcome \<and> \<not> hasSuccessor"

section \<open>Lemmas\<close>

lemma outcome_success_iff:
  "outcomeIsSuccess (resolveCloseOutcome cb ap w) \<longleftrightarrow>
     w \<noteq> Some True \<and>
     (cb = Some ''system:completion-approved'' \<or> cb = Some ''system:max-turns'' \<and> ap \<noteq> None)"
  by (cases cb) (auto simp: outcomeIsSuccess_def resolveCloseOutcome_def Let_def)

lemma gated_close_allowed:
  "evaluateGatedClose cid gp ip wa r = CloseAllowed b \<longleftrightarrow>
     (if gp then b \<and> ip \<and> wa = Some True \<and> (\<exists>t. r = Some t \<and> 10 \<le> length (js_trim t)) else \<not> b)"
  by (cases r) (auto simp: evaluateGatedClose_def Let_def UNAPPROVED_CLOSE_REASON_MIN_def)

lemma gated_close_refused:
  "evaluateGatedClose cid gp ip wa r = CloseRefused f \<Longrightarrow>
     gp \<and> rf_status f = 409 \<and> ae_code (rf_body f) = ''COMPLETION_APPROVAL_REQUIRED''"
  by (auto simp: evaluateGatedClose_def Let_def split: if_splits)

end
