(* ===== verification/TurnState.thy ===== *)
theory TurnState
  imports ContractTypes
begin

text \<open>
  Whose move it is (\<open>src/lib/contract-turn-state.ts\<close>): one answer derived from the contract, its
  participants, its last message and the open blocking questions, for one viewing agent.
\<close>

section \<open>Model\<close>

datatype wait_state = You | Peer | Nobody | Human

record turn_state =
  ts_awaiting :: wait_state
  ts_reason :: string
  ts_awaiting_agent_id :: "string option"
  ts_awaiting_agent_name :: "string option"
  ts_last_message_at :: "timestamp option"
  ts_last_sender_id :: "string option"
  ts_last_requires_action :: "bool option"

record ts_participant =
  tp_agent_id :: string
  tp_role :: participant_role
  tp_status :: participant_status
  tp_name :: "string option"

record ts_question =
  tq_asked_by_agent_id :: string
  tq_kind :: string

record ts_message =
  tm_sender_id :: string
  tm_message_type :: string
  tm_requires_action :: "bool option"
  tm_consumes_turn :: "bool option"
  tm_created_at :: timestamp

record ts_contract =
  tc_status :: contract_status
  tc_proposer_id :: string
  tc_current_turns :: int
  tc_max_turns :: int
  tc_completion_requires_approval :: bool
  tc_completion_approved_at :: "timestamp option"

definition ENDED :: "contract_status list" where
  "ENDED = [SClosed, SExpired, SCancelled, SRejected]"

definition nameOf :: "ts_participant list \<Rightarrow> string option \<Rightarrow> string option" where
  "nameOf participants agentId =
     (case agentId of
        None \<Rightarrow> None
      | Some a \<Rightarrow> if a = [] then None
                  else Option.bind (find (\<lambda>p. tp_agent_id p = a) participants) tp_name)"

definition opener :: "ts_participant list \<Rightarrow> string \<Rightarrow> string option" where
  "opener participants proposerId =
     (case filter (\<lambda>p. tp_role p = Invitee \<and> tp_status p = PAccepted \<and> tp_agent_id p \<noteq> proposerId) participants of
        [p] \<Rightarrow> Some (tp_agent_id p)
      | _ \<Rightarrow> None)"

definition ts_state ::
  "string option \<Rightarrow> string \<Rightarrow> ts_participant list \<Rightarrow> string \<Rightarrow> ts_message option \<Rightarrow> turn_state" where
  "ts_state awaitingAgentId viewerAgentId participants reason last_msg =
     \<lparr>ts_awaiting = (if awaitingAgentId = None then Nobody
                     else if awaitingAgentId = Some viewerAgentId then You else Peer),
      ts_reason = reason,
      ts_awaiting_agent_id = awaitingAgentId,
      ts_awaiting_agent_name = nameOf participants awaitingAgentId,
      ts_last_message_at = map_option tm_created_at last_msg,
      ts_last_sender_id = map_option tm_sender_id last_msg,
      ts_last_requires_action = Option.bind last_msg tm_requires_action\<rparr>"

definition deriveWithoutQuestions ::
  "ts_contract \<Rightarrow> string \<Rightarrow> ts_participant list \<Rightarrow> ts_message option \<Rightarrow> turn_state" where
  "deriveWithoutQuestions contract viewerAgentId participants lastMessage =
     (if tc_status contract \<in> set ENDED then
        ts_state None viewerAgentId participants
          (''Contract is '' @ status_name (tc_status contract) @ ''. Nothing is owed.'') lastMessage
      else if tc_status contract = SProposed then
        let pending = filter (\<lambda>p. tp_status p = PPending) participants;
            waitingOn = (case pending of [p] \<Rightarrow> Some (tp_agent_id p) | _ \<Rightarrow> None)
        in ts_state waitingOn viewerAgentId participants
             (if length pending = 0 then ''Every participant has responded; the contract is about to activate.''
              else if length pending = 1 then ''The contract is proposed and waiting to be accepted or rejected.''
              else show_nat (length pending) @ '' participants have not yet answered the invitation.'')
             lastMessage
      else
        let budgetSpent = tc_max_turns contract \<le> tc_current_turns contract
        in if budgetSpent \<and> tc_completion_requires_approval contract
              \<and> tc_completion_approved_at contract = None
           then ts_state (Some (tc_proposer_id contract)) viewerAgentId participants
                  ''The turn budget is spent and this contract cannot complete until the proposer records an approval.''
                  lastMessage
           else if budgetSpent
           then ts_state None viewerAgentId participants
                  ''The turn budget is spent. No further turn can be taken.'' lastMessage
           else case lastMessage of
             None \<Rightarrow>
               let opensNext = opener participants (tc_proposer_id contract)
               in ts_state opensNext viewerAgentId participants
                    (if opensNext = None then
                       ''Active with no messages yet. With more than one accepter there is no single opener; whoever has the context should start.''
                     else if opensNext = Some viewerAgentId then
                       ''You accepted this contract, so the first message is yours.''
                     else ''Waiting for the agent that accepted to send the first message.'')
                    lastMessage
           | Some m \<Rightarrow>
               if tm_consumes_turn m = Some False then
                 ts_state None viewerAgentId participants
                   (''The last message was a '' @ tm_message_type m @ '' and asked for nothing. Nobody owes a turn.'')
                   lastMessage
               else if tm_requires_action m = Some False then
                 ts_state None viewerAgentId participants
                   ''The last message was sent as informational and asked for no reply.'' lastMessage
               else
                 let otherParticipants =
                       filter (\<lambda>p. tp_role p \<noteq> Observer \<and> tp_agent_id p \<noteq> tm_sender_id m) participants;
                     awaitingAgentId = (case otherParticipants of [p] \<Rightarrow> Some (tp_agent_id p) | _ \<Rightarrow> None)
                 in if tm_sender_id m = viewerAgentId then
                      ts_state awaitingAgentId viewerAgentId participants
                        (if awaitingAgentId = None then
                           ''You sent the last message and it asked for a reply. More than one peer could answer.''
                         else ''You sent the last message. It asked for a reply, so the next move is theirs.'')
                        lastMessage
                    else
                      ts_state (Some (case awaitingAgentId of None \<Rightarrow> viewerAgentId | Some a \<Rightarrow> a))
                        viewerAgentId participants
                        (''The last message was a '' @ tm_message_type m @
                         '' that asked for a reply, and it was not yours.'')
                        lastMessage)"

definition deriveContractTurnState ::
  "ts_contract \<Rightarrow> string \<Rightarrow> ts_participant list \<Rightarrow> ts_message option \<Rightarrow> ts_question list \<Rightarrow> turn_state" where
  "deriveContractTurnState contract viewerAgentId participants lastMessage blockingQuestions =
     (let derived = deriveWithoutQuestions contract viewerAgentId participants lastMessage;
          blocked = (case ts_awaiting_agent_id derived of
              Some a \<Rightarrow> find (\<lambda>q. tq_asked_by_agent_id q = a) blockingQuestions
            | None \<Rightarrow> (case blockingQuestions of [] \<Rightarrow> None | q # _ \<Rightarrow> Some q))
      in case blocked of
           None \<Rightarrow> derived
         | Some q \<Rightarrow>
             if tc_status contract \<in> set ENDED then derived
             else
               let who = (case nameOf participants (Some (tq_asked_by_agent_id q)) of
                            None \<Rightarrow> ''An agent'' | Some n \<Rightarrow> n);
                   mine = (tq_asked_by_agent_id q = viewerAgentId)
               in derived\<lparr>ts_awaiting := Human,
                          ts_awaiting_agent_id := None,
                          ts_awaiting_agent_name := None,
                          ts_reason :=
                            (if mine then ''You said you are '' @
                               (if tq_kind q = ''blocked'' then ''blocked'' else ''waiting on a person'') @
                               '' and asked a human. Nothing moves until that is answered.''
                             else who @ '' is waiting on a human and cannot proceed until the question is answered.'')\<rparr>)"

section \<open>Lemmas\<close>

lemma ts_state_sel [simp]:
  "ts_awaiting_agent_id (ts_state a v ps r m) = a"
  "ts_awaiting_agent_name (ts_state a v ps r m) = nameOf ps a"
  "ts_awaiting (ts_state a v ps r m) = (if a = None then Nobody else if a = Some v then You else Peer)"
  "ts_last_sender_id (ts_state a v ps r m) = map_option tm_sender_id m"
  by (simp_all add: ts_state_def)

lemma set_ENDED [simp]: "s \<in> set ENDED \<longleftrightarrow> s \<noteq> SProposed \<and> s \<noteq> SActive"
  by (cases s) (simp_all add: ENDED_def)

text \<open>The only party left: the list has exactly one element that satisfies the predicate.\<close>

definition only :: "('a \<Rightarrow> bool) \<Rightarrow> 'a list \<Rightarrow> 'a option" where
  "only P xs = (case filter P xs of [x] \<Rightarrow> Some x | _ \<Rightarrow> None)"

lemma only_SomeD: "only P xs = Some x \<Longrightarrow> x \<in> set xs \<and> P x \<and> filter P xs = [x]"
proof -
  assume "only P xs = Some x"
  then have f: "filter P xs = [x]" unfolding only_def by (simp split: list.splits)
  then have "x \<in> set (filter P xs)" by simp
  then have "x \<in> set xs" "P x" by (simp_all only: set_filter mem_Collect_eq)
  with f show ?thesis by blast
qed

lemma only_map: "(case filter P xs of [x] \<Rightarrow> Some (f x) | _ \<Rightarrow> None) = map_option f (only P xs)"
  unfolding only_def by (simp split: list.splits)

lemma opener_only:
  "opener ps pid = map_option tp_agent_id
     (only (\<lambda>p. tp_role p = Invitee \<and> tp_status p = PAccepted \<and> tp_agent_id p \<noteq> pid) ps)"
  by (simp add: opener_def only_map)

text \<open>
  The agent the derivation names before the questions are looked at, independent of the viewer
  except in the last branch.
\<close>

definition expected_mover :: "ts_contract \<Rightarrow> ts_participant list \<Rightarrow> ts_message option \<Rightarrow> string option" where
  "expected_mover c ps lastMessage =
     (case tc_status c of
        SProposed \<Rightarrow> map_option tp_agent_id (only (\<lambda>p. tp_status p = PPending) ps)
      | SActive \<Rightarrow>
          if tc_max_turns c \<le> tc_current_turns c then
            (if tc_completion_requires_approval c \<and> tc_completion_approved_at c = None
             then Some (tc_proposer_id c) else None)
          else (case lastMessage of
             None \<Rightarrow> opener ps (tc_proposer_id c)
           | Some m \<Rightarrow>
               if tm_consumes_turn m = Some False \<or> tm_requires_action m = Some False then None
               else map_option tp_agent_id
                      (only (\<lambda>p. tp_role p \<noteq> Observer \<and> tp_agent_id p \<noteq> tm_sender_id m) ps))
      | _ \<Rightarrow> None)"

text \<open>The contract is in the last branch and no single party can be named.\<close>

definition ambiguous_reply :: "ts_contract \<Rightarrow> ts_participant list \<Rightarrow> ts_message option \<Rightarrow> bool" where
  "ambiguous_reply c ps lastMessage \<longleftrightarrow>
     tc_status c = SActive \<and> tc_current_turns c < tc_max_turns c \<and>
     (\<exists>m \<in> set_option lastMessage.
        tm_consumes_turn m \<noteq> Some False \<and> tm_requires_action m \<noteq> Some False \<and>
        only (\<lambda>p. tp_role p \<noteq> Observer \<and> tp_agent_id p \<noteq> tm_sender_id m) ps = None)"

lemma derive_mover:
  "ts_awaiting_agent_id (deriveWithoutQuestions c v ps lm) =
     (if ambiguous_reply c ps lm \<and> map_option tm_sender_id lm \<noteq> Some v then Some v
      else expected_mover c ps lm)"
  unfolding deriveWithoutQuestions_def expected_mover_def ambiguous_reply_def only_map
  by (cases "tc_status c"; cases lm) (auto simp: Let_def only_map opener_only split: option.splits)

lemma derive_awaiting:
  "ts_awaiting (deriveWithoutQuestions c v ps lm) =
     (case ts_awaiting_agent_id (deriveWithoutQuestions c v ps lm) of
        None \<Rightarrow> Nobody | Some a \<Rightarrow> if a = v then You else Peer)"
proof -
  have *: "ts_awaiting (ts_state a w qs r m) =
      (case a of None \<Rightarrow> Nobody | Some b \<Rightarrow> if b = w then You else Peer)" for a w qs r m
    by (cases a) simp_all
  show ?thesis
    unfolding deriveWithoutQuestions_def Let_def
    by (cases lm) (simp_all only: if_distrib [of ts_awaiting] if_distrib [of ts_awaiting_agent_id] *
        ts_state_sel(1) option.case if_distrib [of "\<lambda>x. case x of None \<Rightarrow> Nobody | Some b \<Rightarrow> if b = v then You else Peer"])
qed

lemma derived_unless_blocked:
  "ts_awaiting (deriveContractTurnState c v ps lm qs) \<noteq> Human \<Longrightarrow>
   deriveContractTurnState c v ps lm qs = deriveWithoutQuestions c v ps lm"
  unfolding deriveContractTurnState_def Let_def by (auto split: option.splits if_splits)

lemma mover_participant:
  assumes "expected_mover c ps lm = Some a"
  shows "a = tc_proposer_id c \<or> a \<in> tp_agent_id ` set ps"
  using assms unfolding expected_mover_def opener_only
  by (auto split: contract_status.splits if_splits option.splits dest!: only_SomeD)

lemma blocked_state:
  assumes "ts_awaiting (deriveContractTurnState c v ps lm qs) = Human"
  shows "ts_awaiting_agent_id (deriveContractTurnState c v ps lm qs) = None"
    and "tc_status c \<notin> set ENDED" and "qs \<noteq> []"
proof -
  have "ts_awaiting (deriveWithoutQuestions c v ps lm) \<noteq> Human"
    by (simp add: derive_awaiting split: option.splits)
  with assms show "ts_awaiting_agent_id (deriveContractTurnState c v ps lm qs) = None"
    "tc_status c \<notin> set ENDED" "qs \<noteq> []"
    unfolding deriveContractTurnState_def Let_def by (auto split: option.splits if_splits)
qed

text \<open>Whether a question overrides the derived answer.\<close>

lemma deriveContractTurnState_Human:
  "ts_awaiting (deriveContractTurnState c v ps lm qs) = Human \<longleftrightarrow>
     (tc_status c = SProposed \<or> tc_status c = SActive) \<and>
     (case ts_awaiting_agent_id (deriveWithoutQuestions c v ps lm) of
        Some a \<Rightarrow> (\<exists>q \<in> set qs. tq_asked_by_agent_id q = a)
      | None \<Rightarrow> qs \<noteq> [])"
proof -
  have "ts_awaiting (deriveWithoutQuestions c v ps lm) \<noteq> Human"
    by (simp add: derive_awaiting split: option.splits)
  then show ?thesis
    unfolding deriveContractTurnState_def Let_def
    by (cases "ts_awaiting_agent_id (deriveWithoutQuestions c v ps lm)"; cases qs)
       (auto split: option.splits simp: find_None_iff find_Some_iff)
qed

lemma awaiting_coherent:
  "ts_awaiting (deriveContractTurnState c v ps lm qs) =
      (case ts_awaiting_agent_id (deriveContractTurnState c v ps lm qs) of
         Some a \<Rightarrow> if a = v then You else Peer
       | None \<Rightarrow> ts_awaiting (deriveContractTurnState c v ps lm qs)) \<and>
    (ts_awaiting_agent_id (deriveContractTurnState c v ps lm qs) = None \<longrightarrow>
       ts_awaiting (deriveContractTurnState c v ps lm qs) \<in> {Nobody, Human})"
proof (cases "ts_awaiting (deriveContractTurnState c v ps lm qs) = Human")
  case True
  then show ?thesis by (simp add: blocked_state(1))
next
  case False
  then have *: "deriveContractTurnState c v ps lm qs = deriveWithoutQuestions c v ps lm"
    by (rule derived_unless_blocked)
  show ?thesis
    unfolding * using derive_awaiting [of c v ps lm]
    by (cases "ts_awaiting_agent_id (deriveWithoutQuestions c v ps lm)") simp_all
qed

section \<open>Properties\<close>



definition two_party :: "ts_participant list" where
  "two_party =
     [\<lparr>tp_agent_id = ''a1'', tp_role = Proposer, tp_status = PAccepted, tp_name = Some ''alpha''\<rparr>,
      \<lparr>tp_agent_id = ''a2'', tp_role = Invitee, tp_status = PAccepted, tp_name = Some ''beta''\<rparr>,
      \<lparr>tp_agent_id = ''a3'', tp_role = Observer, tp_status = PAccepted, tp_name = Some ''gamma''\<rparr>]"

definition sample_ts_contract :: ts_contract where
  "sample_ts_contract =
     \<lparr>tc_status = SActive, tc_proposer_id = ''a1'', tc_current_turns = 1, tc_max_turns = 10,
      tc_completion_requires_approval = False, tc_completion_approved_at = None\<rparr>"

definition sample_ts_message :: ts_message where
  "sample_ts_message =
     \<lparr>tm_sender_id = ''a2'', tm_message_type = ''request'', tm_requires_action = Some True,
      tm_consumes_turn = Some True, tm_created_at = 5\<rparr>"


text \<open>
  When the last message asks for a reply and several parties could give it, every
  viewer but its sender is told that the move is theirs, an observer too, who may not send.
\<close>
theorem ambiguous_reply_asks_every_viewer:
  assumes "ambiguous_reply c ps (Some m)" and "v \<noteq> tm_sender_id m"
  shows "ts_awaiting (deriveContractTurnState c v ps (Some m) []) = You"
  using assms by (simp add: deriveContractTurnState_def derive_mover derive_awaiting)

definition three_party :: "ts_participant list" where
  "three_party = two_party @
     [\<lparr>tp_agent_id = ''a4'', tp_role = Invitee, tp_status = PAccepted, tp_name = None\<rparr>]"

lemma ambiguous_reply_asks_every_viewer_witness:
  "ts_awaiting (deriveContractTurnState sample_ts_contract ''a3'' three_party (Some sample_ts_message) []) = You"
  by (rule ambiguous_reply_asks_every_viewer)
     (simp_all add: ambiguous_reply_def only_def three_party_def two_party_def sample_ts_message_def
       sample_ts_contract_def)

end
