(* ===== verification/Links.thy ===== *)
theory Links
  imports ApiHelpers
begin

text \<open>
  Links between contracts (\<open>src/lib/contract-links.ts\<close>): validation, access, the insert behind the
  acyclicity trigger (\<open>migrations/20260918070000_contract_links.sql\<close>) and the delegation chain.
\<close>

section \<open>Vocabulary\<close>

definition CONTRACT_LINK_TYPES :: "link_type list" where
  "CONTRACT_LINK_TYPES = [Continues, Supersedes, DelegatesTo]"

fun link_type_name :: "link_type \<Rightarrow> string" where
  "link_type_name Continues = ''continues''"
| "link_type_name Supersedes = ''supersedes''"
| "link_type_name DelegatesTo = ''delegates_to''"

definition CONTRACT_LINK_NOTE_MAX :: nat where
  "CONTRACT_LINK_NOTE_MAX = 500"

text \<open>The type a value names; \<open>isContractLinkType\<close> is that there is one.\<close>

definition link_type_of :: "jvalue \<Rightarrow> link_type option" where
  "link_type_of value =
     (case as_string value of
        None \<Rightarrow> None
      | Some s \<Rightarrow> find (\<lambda>t. link_type_name t = s) CONTRACT_LINK_TYPES)"

definition isContractLinkType :: "jvalue \<Rightarrow> bool" where
  "isContractLinkType value \<longleftrightarrow>
     (case as_string value of None \<Rightarrow> False | Some s \<Rightarrow> s \<in> set (map link_type_name CONTRACT_LINK_TYPES))"

datatype link_direction = Outgoing | Incoming

fun describeContractLink :: "link_type \<Rightarrow> link_direction \<Rightarrow> string" where
  "describeContractLink Continues Outgoing = ''Continues''"
| "describeContractLink Supersedes Outgoing = ''Supersedes''"
| "describeContractLink DelegatesTo Outgoing = ''Delegates to''"
| "describeContractLink Continues Incoming = ''Continued by''"
| "describeContractLink Supersedes Incoming = ''Superseded by''"
| "describeContractLink DelegatesTo Incoming = ''Delegated from''"

fun contractLinkTypeHelp :: "link_type \<Rightarrow> string" where
  "contractLinkTypeHelp Continues =
     ''This contract carries on work the other one left unfinished - it ran out of turns, expired, or a participant closed it.''"
| "contractLinkTypeHelp Supersedes =
     ''This contract replaces the other one, which was rejected, cancelled, or agreed on terms that turned out to be wrong.''"
| "contractLinkTypeHelp DelegatesTo =
     ''This contract handed execution onward to the other one. Written automatically by the handoff and escalation paths.''"

section \<open>Requests\<close>

definition isContractId :: "jvalue \<Rightarrow> bool" where
  "isContractId value \<longleftrightarrow> (case as_string value of None \<Rightarrow> False | Some s \<Rightarrow> is_uuid (js_trim s))"

record link_request =
  lr_toContractId :: string
  lr_linkType :: link_type
  lr_note :: "string option"

definition validateLinkNote :: "jvalue \<Rightarrow> refusal + string option" where
  "validateLinkNote note =
     (if is_nullish note then Inr None
      else case as_string note of
        None \<Rightarrow> Inl (refuse 400 ''note must be a string.'' ''VALIDATION_ERROR'')
      | Some s \<Rightarrow>
          let trimmed = js_trim s
          in if length trimmed > CONTRACT_LINK_NOTE_MAX then
               Inl (refuse 400 (''note must be '' @ show_nat CONTRACT_LINK_NOTE_MAX @
                 '' characters or fewer. A link is a pointer, not a brief - put the detail in the contract description.'')
                 ''VALIDATION_ERROR'')
             else Inr (if trimmed = [] then None else Some trimmed))"

definition validateLinkRequest :: "string \<Rightarrow> jvalue \<Rightarrow> refusal + link_request" where
  "validateLinkRequest fromContractId input =
     (let toContractId = (case as_string (jprop input ''to_contract_id'') of None \<Rightarrow> [] | Some s \<Rightarrow> js_trim s)
      in if \<not> is_uuid toContractId then
           Inl (refuse 400 ''to_contract_id must be the UUID of the other contract.'' ''VALIDATION_ERROR'')
         else if to_lower toContractId = to_lower fromContractId then
           Inl (refuse 400 ''A contract cannot be linked to itself.'' ''CONTRACT_LINK_SELF'')
         else case link_type_of (jprop input ''link_type'') of
           None \<Rightarrow>
             Inl (refuse_d 400
               (''link_type must be one of: '' @ join '', '' (map link_type_name CONTRACT_LINK_TYPES) @ ''.'')
               ''CONTRACT_LINK_TYPE_INVALID''
               (Some (join '' '' (map (\<lambda>t. link_type_name t @ '' - '' @ contractLinkTypeHelp t) CONTRACT_LINK_TYPES))))
         | Some linkType \<Rightarrow>
             (case validateLinkNote (jprop input ''note'') of
                Inl r \<Rightarrow> Inl r
              | Inr note \<Rightarrow> Inr \<lparr>lr_toContractId = toContractId, lr_linkType = linkType, lr_note = note\<rparr>))"

section \<open>Reading links\<close>

record raw_linked_contract =
  rlc_id :: "string option"
  rlc_title :: "string option"
  rlc_status :: "string option"

record raw_link =
  rl_from :: string
  rl_to :: string
  rl_type :: string
  rl_note :: "string option"
  rl_created_at :: timestamp
  rl_created_by :: "string option"
  rl_from_contract :: "raw_linked_contract embed"
  rl_to_contract :: "raw_linked_contract embed"

record related_contract =
  rc_contract_id :: string
  rc_title :: string
  rc_status :: string
  rc_link_type :: link_type
  rc_direction :: link_direction
  rc_note :: "string option"
  rc_linked_at :: timestamp
  rc_linked_by :: "string option"

definition normalizeLinkRow :: "raw_link \<Rightarrow> string \<Rightarrow> related_contract option" where
  "normalizeLinkRow row selfContractId =
     (case link_type_of (Some (JStr (rl_type row))) of
        None \<Rightarrow> None
      | Some lt \<Rightarrow>
          let outgoing = (rl_from row = selfContractId);
              far = embed_one (if outgoing then rl_to_contract row else rl_from_contract row);
              farId = (if outgoing then rl_to row else rl_from row)
          in (case far of
                None \<Rightarrow> None
              | Some f \<Rightarrow>
                  if \<not> truthy_str (rlc_id f) \<or> \<not> truthy_str (rlc_title f) then None
                  else Some
                    \<lparr>rc_contract_id = farId, rc_title = the (rlc_title f),
                     rc_status = str_or (rlc_status f) ''closed'', rc_link_type = lt,
                     rc_direction = (if outgoing then Outgoing else Incoming), rc_note = rl_note row,
                     rc_linked_at = rl_created_at row, rc_linked_by = rl_created_by row\<rparr>))"

text \<open>\<open>LINK_SELECT\<close>: the row with its two contracts; newest first.\<close>

definition embed_contract :: "db \<Rightarrow> string \<Rightarrow> raw_linked_contract embed" where
  "embed_contract d cid =
     embed_find (\<lambda>c. c_id c = cid) (db_contracts d)
       (\<lambda>c. \<lparr>rlc_id = Some (c_id c), rlc_title = Some (c_title c), rlc_status = Some (status_name (c_status c))\<rparr>)"

definition link_select :: "db \<Rightarrow> link_row \<Rightarrow> raw_link" where
  "link_select d l =
     \<lparr>rl_from = l_from l, rl_to = l_to l, rl_type = link_type_name (l_type l), rl_note = l_note l,
      rl_created_at = l_created_at l, rl_created_by = l_created_by l,
      rl_from_contract = embed_contract d (l_from l), rl_to_contract = embed_contract d (l_to l)\<rparr>"

definition q_links :: "(link_row \<Rightarrow> bool) \<Rightarrow> raw_link list statement" where
  "q_links P d =
     (Inr (map (link_select d) (sort_key (\<lambda>l. - l_created_at l) (filter P (db_links d)))), d)"

definition safeIdList :: "string list \<Rightarrow> string list option" where
  "safeIdList contractIds = (let clean = filter is_uuid contractIds in if clean = [] then None else Some clean)"

text \<open>\<open>new Map(rows)\<close>: a later row of a key replaces an earlier one.\<close>

definition participantRoles :: "string list \<Rightarrow> string \<Rightarrow> (string \<rightharpoonup> participant_role) prog" where
  "participantRoles contractIds agentId = do {
     rows \<leftarrow> call (q_select db_participants (\<lambda>p. p_agent_id p = agentId \<and> p_contract_id p \<in> set contractIds));
     State_Monad.return (map_of (rev (map (\<lambda>p. (p_contract_id p, p_role p)) (rows_of rows))))
   }"

definition link_notAParticipant :: "string \<Rightarrow> bool \<Rightarrow> refusal" where
  "link_notAParticipant contractId forWriting =
     refuse 404
       (if forWriting then ''Contract '' @ contractId @
          '' not found, or you are not a participant in it. Linking two contracts requires being a participant in both.''
        else ''Contract '' @ contractId @ '' not found, or you are not a participant in it.'')
       ''NOT_FOUND''"

definition checkContractLinkReadAccess :: "string \<Rightarrow> string \<Rightarrow> refusal option prog" where
  "checkContractLinkReadAccess contractId agentId = do {
     roles \<leftarrow> participantRoles [contractId] agentId;
     State_Monad.return (if roles contractId \<noteq> None then None else Some (link_notAParticipant contractId False))
   }"

fun link_permission_loop :: "(string \<rightharpoonup> participant_role) \<Rightarrow> string list \<Rightarrow> refusal option" where
  "link_permission_loop roles [] = None"
| "link_permission_loop roles (contractId # cids) =
     (case roles contractId of
        None \<Rightarrow> Some (link_notAParticipant contractId True)
      | Some role \<Rightarrow>
          if role = Observer then
            Some (refuse 403 ''Observers may read contract links but cannot record or remove them.'' ''FORBIDDEN'')
          else link_permission_loop roles cids)"

definition checkContractLinkPermission :: "string list \<Rightarrow> string \<Rightarrow> refusal option prog" where
  "checkContractLinkPermission contractIds agentId = do {
     roles \<leftarrow> participantRoles contractIds agentId;
     State_Monad.return (link_permission_loop roles contractIds)
   }"

section \<open>Writing links\<close>

text \<open>
  The trigger's recursive query: every contract at most \<open>n\<close> links behind \<open>x\<close>. The query stops
  expanding at depth 64, where the start has depth 1, so it follows at most 63 links.
\<close>

fun reachable :: "nat \<Rightarrow> link_row list \<Rightarrow> string \<Rightarrow> string list" where
  "reachable 0 links x = [x]"
| "reachable (Suc n) links x =
     x # concat (map (\<lambda>l. reachable n links (l_to l)) (filter (\<lambda>l. l_from l = x) links))"

definition contract_links_reject_cycle :: "link_row list \<Rightarrow> link_row \<Rightarrow> bool" where
  "contract_links_reject_cycle links new \<longleftrightarrow> l_from new \<in> set (reachable 63 links (l_to new))"

definition same_link :: "link_row \<Rightarrow> link_row \<Rightarrow> bool" where
  "same_link a b \<longleftrightarrow> l_from a = l_from b \<and> l_to a = l_to b \<and> l_type a = l_type b"

definition q_insert_link :: "string \<Rightarrow> string \<Rightarrow> link_type \<Rightarrow> string option \<Rightarrow> string option \<Rightarrow> link_row list statement" where
  "q_insert_link from to lt note by =
     with_fresh (\<lambda>fresh d.
       let new = \<lparr>l_id = fresh, l_from = from, l_to = to, l_type = lt, l_note = note, l_created_by = by,
                  l_created_at = db_now d\<rparr>
       in if contract_links_reject_cycle (db_links d) new then
            (Inl \<lparr>de_code = ''23514'',
                  de_message = ''contract link would create a cycle: '' @ from @ '' -> '' @ to\<rparr>, d)
          else q_insert db_links db_links_update same_link [new] d)"

definition createContractLink ::
  "string \<Rightarrow> string \<Rightarrow> link_type \<Rightarrow> string option \<Rightarrow> string option \<Rightarrow> refusal option prog" where
  "createContractLink fromContractId toContractId linkType note createdByAgentId = do {
     r \<leftarrow> call (q_insert_link fromContractId toContractId linkType note createdByAgentId);
     State_Monad.return
       (case r of
          Inr _ \<Rightarrow> None
        | Inl error \<Rightarrow>
            if de_code error = ''23505'' then None
            else if de_code error = ''23514'' \<or> str_includes (to_lower (de_message error)) ''cycle'' then
              Some (refuse 409
                ''That link would create a cycle: the other contract already leads back to this one. All three link types mean one contract came after the other, so a loop cannot be true.''
                ''CONTRACT_LINK_CYCLE'')
            else Some (refuse 500 ''Failed to link contracts'' ''DB_ERROR''))
   }"

definition deleteContractLink :: "string \<Rightarrow> string \<Rightarrow> link_type \<Rightarrow> (refusal + bool) prog" where
  "deleteContractLink fromContractId toContractId linkType = do {
     r \<leftarrow> call (q_delete db_links db_links_update
        (\<lambda>l. l_from l = fromContractId \<and> l_to l = toContractId \<and> l_type l = linkType));
     State_Monad.return
       (case r of
          Inl _ \<Rightarrow> Inl (refuse 500 ''Failed to unlink contracts'' ''DB_ERROR'')
        | Inr rows \<Rightarrow> Inr (length rows > 0))
   }"

section \<open>Listing\<close>

definition getRelatedContracts :: "string \<Rightarrow> related_contract list prog" where
  "getRelatedContracts contractId = do {
     r \<leftarrow> call (q_links (\<lambda>l. l_from l = contractId \<or> l_to l = contractId));
     State_Monad.return (List.map_filter (\<lambda>row. normalizeLinkRow row contractId) (rows_of r))
   }"

definition push_bucket :: "string \<Rightarrow> 'a \<Rightarrow> (string \<rightharpoonup> 'a list) \<Rightarrow> (string \<rightharpoonup> 'a list)" where
  "push_bucket k x out = out(k \<mapsto> (case out k of None \<Rightarrow> [] | Some xs \<Rightarrow> xs) @ [x])"

definition related_end ::
  "string list \<Rightarrow> raw_link \<Rightarrow> string \<Rightarrow> (string \<rightharpoonup> related_contract list) \<Rightarrow> (string \<rightharpoonup> related_contract list)" where
  "related_end wanted row end_id out =
     (if end_id \<notin> set wanted then out
      else case normalizeLinkRow row end_id of
        None \<Rightarrow> out
      | Some summary \<Rightarrow> push_bucket end_id summary out)"

fun related_loop ::
  "string list \<Rightarrow> raw_link list \<Rightarrow> (string \<rightharpoonup> related_contract list) \<Rightarrow> (string \<rightharpoonup> related_contract list)" where
  "related_loop wanted [] out = out"
| "related_loop wanted (row # rows) out =
     related_loop wanted rows (related_end wanted row (rl_to row) (related_end wanted row (rl_from row) out))"

definition getRelatedContractsForContracts :: "string list \<Rightarrow> (string \<rightharpoonup> related_contract list) prog" where
  "getRelatedContractsForContracts contractIds =
     (if contractIds = [] then State_Monad.return Map.empty
      else case safeIdList contractIds of
        None \<Rightarrow> State_Monad.return Map.empty
      | Some list \<Rightarrow> do {
          r \<leftarrow> call (q_links (\<lambda>l. l_from l \<in> set list \<or> l_to l \<in> set list));
          State_Monad.return (related_loop contractIds (rows_of r) Map.empty)
        })"

section \<open>The delegation chain\<close>

definition getDelegationMembers :: "string list \<Rightarrow> string set prog" where
  "getDelegationMembers contractIds =
     (case safeIdList contractIds of
        None \<Rightarrow> State_Monad.return {}
      | Some list \<Rightarrow> do {
          r \<leftarrow> call (q_select db_links
            (\<lambda>l. l_type l = DelegatesTo \<and> (l_from l \<in> set list \<or> l_to l \<in> set list)));
          State_Monad.return
            (set (filter (\<lambda>i. i \<in> set contractIds) (concat (map (\<lambda>l. [l_from l, l_to l]) (rows_of r)))))
        })"

record chain_candidate =
  ch_id :: string
  ch_title :: string
  ch_status :: string
  ch_description :: "string option"
  ch_created_at :: "timestamp option"

text \<open>An absent \<open>created_at\<close> is the empty string, which sorts first.\<close>

definition created_key :: "chain_candidate \<Rightarrow> nat \<times> int" where
  "created_key c = (case ch_created_at c of None \<Rightarrow> (0, 0) | Some t \<Rightarrow> (1, t))"

fun chain_insert :: "chain_candidate \<Rightarrow> chain_candidate list \<Rightarrow> chain_candidate list" where
  "chain_insert c [] = [c]"
| "chain_insert c (x # xs) =
     (if fst (created_key c) < fst (created_key x)
         \<or> fst (created_key c) = fst (created_key x) \<and> snd (created_key c) \<le> snd (created_key x)
      then c # x # xs else x # chain_insert c xs)"

definition resolveChainPredecessors ::
  "chain_candidate list \<Rightarrow> (string \<Rightarrow> string option \<Rightarrow> bool) \<Rightarrow> chain_candidate list prog" where
  "resolveChainPredecessors candidates matchesLegacy = do {
     linked \<leftarrow> getDelegationMembers (map ch_id candidates);
     State_Monad.return
       (foldr chain_insert
         (filter (\<lambda>c. ch_id c \<in> linked \<or> matchesLegacy (ch_title c) (ch_description c)) candidates) [])
   }"

definition recordDelegation :: "chain_candidate option \<Rightarrow> string \<Rightarrow> string \<Rightarrow> string \<Rightarrow> string option prog" where
  "recordDelegation predecessor newContractId taskId agentId =
     (case predecessor of
        None \<Rightarrow> State_Monad.return None
      | Some p \<Rightarrow> do {
          failure \<leftarrow> createContractLink (ch_id p) newContractId DelegatesTo
            (Some (''Execution chain on task '' @ taskId)) (Some agentId);
          State_Monad.return (if failure = None then Some (ch_id p) else None)
        })"

section \<open>Route\<close>

record links_response =
  lk_contract_id :: string
  lk_related :: "related_contract list"
  lk_removed :: "bool option"

definition links_get :: "request \<Rightarrow> string \<Rightarrow> links_response response prog" where
  "links_get req contractId = do {
     refusal \<leftarrow> checkContractLinkReadAccess contractId (ag_id (rq_agent req));
     case refusal of
       Some r \<Rightarrow> State_Monad.return (Refusal r)
     | None \<Rightarrow> do {
         related \<leftarrow> getRelatedContracts contractId;
         State_Monad.return (Answer 200 \<lparr>lk_contract_id = contractId, lk_related = related, lk_removed = None\<rparr>)
       }
   }"

text \<open>The route behind the validation of the link.\<close>

definition links_post_valid :: "request \<Rightarrow> string \<Rightarrow> link_request \<Rightarrow> links_response response prog" where
  "links_post_valid req contractId l = do {
     permission \<leftarrow> checkContractLinkPermission [contractId, lr_toContractId l] (ag_id (rq_agent req));
     case permission of
       Some r \<Rightarrow> State_Monad.return (Refusal r)
     | None \<Rightarrow> do {
         failure \<leftarrow> createContractLink contractId (lr_toContractId l) (lr_linkType l) (lr_note l)
           (Some (ag_id (rq_agent req)));
         case failure of
           Some r \<Rightarrow> State_Monad.return (Refusal r)
         | None \<Rightarrow> do {
             audit_contract req ''contract.linked'' contractId
               [(''to_contract_id'', JStr (lr_toContractId l)),
                (''link_type'', JStr (link_type_name (lr_linkType l))), (''note'', jstr_or_null (lr_note l))];
             related \<leftarrow> getRelatedContracts contractId;
             State_Monad.return (Answer 201 \<lparr>lk_contract_id = contractId, lk_related = related, lk_removed = None\<rparr>)
           }
       }
   }"

definition links_post :: "request \<Rightarrow> string \<Rightarrow> links_response response prog" where
  "links_post req contractId =
     (let checked = (\<lambda>j. case validateLinkRequest contractId (Some j) of
            Inl r \<Rightarrow> State_Monad.return (Refusal r)
          | Inr l \<Rightarrow> links_post_valid req contractId l)
      in case rq_body req of
           BadJson \<Rightarrow> State_Monad.return (reply_error 400 ''Invalid JSON body'' ''INVALID_BODY'')
         | NoBody \<Rightarrow> checked (JObj [])
         | Parsed j \<Rightarrow> checked j)"

text \<open>\<open>searchParams\<close> are the two query parameters the route falls back to.\<close>

definition links_delete_parsed ::
  "request \<Rightarrow> string \<Rightarrow> json \<Rightarrow> string option \<Rightarrow> string option \<Rightarrow> links_response response prog" where
  "links_delete_parsed req contractId parsed toParam typeParam =
     (let toContractId = str_or (as_string (jprop (Some parsed) ''to_contract_id'')) (str_or toParam []);
          linkType = str_or (as_string (jprop (Some parsed) ''link_type'')) (str_or typeParam [])
      in if parsed = JNull then State_Monad.return (Thrown ''TypeError'')
         else case link_type_of (Some (JStr linkType)) of
           None \<Rightarrow> State_Monad.return (reply_error 400
             ''to_contract_id and link_type are both required to remove a link.'' ''VALIDATION_ERROR'')
         | Some lt \<Rightarrow>
             if toContractId = [] then State_Monad.return (reply_error 400
               ''to_contract_id and link_type are both required to remove a link.'' ''VALIDATION_ERROR'')
             else do {
               permission \<leftarrow> checkContractLinkPermission [contractId, toContractId] (ag_id (rq_agent req));
               case permission of
                 Some r \<Rightarrow> State_Monad.return (Refusal r)
               | None \<Rightarrow> do {
                   outcome \<leftarrow> deleteContractLink contractId toContractId lt;
                   case outcome of
                     Inl r \<Rightarrow> State_Monad.return (Refusal r)
                   | Inr removed \<Rightarrow> do {
                       (if removed then audit_contract req ''contract.unlinked'' contractId
                          [(''to_contract_id'', JStr toContractId), (''link_type'', JStr linkType)]
                        else State_Monad.return ());
                       related \<leftarrow> getRelatedContracts contractId;
                       State_Monad.return (Answer 200
                         \<lparr>lk_contract_id = contractId, lk_related = related, lk_removed = Some removed\<rparr>)
                     }
                 }
             })"

definition links_delete :: "request \<Rightarrow> string \<Rightarrow> string option \<Rightarrow> string option \<Rightarrow> links_response response prog" where
  "links_delete req contractId toParam typeParam =
     (case rq_body req of
        BadJson \<Rightarrow> State_Monad.return (reply_error 400 ''Invalid JSON body'' ''INVALID_BODY'')
      | NoBody \<Rightarrow> links_delete_parsed req contractId (JObj []) toParam typeParam
      | Parsed j \<Rightarrow> links_delete_parsed req contractId j toParam typeParam)"

section \<open>Lemmas\<close>

subsection \<open>Paths\<close>

inductive link_path :: "link_row list \<Rightarrow> nat \<Rightarrow> string \<Rightarrow> string \<Rightarrow> bool" where
  path_refl: "link_path links 0 x x"
| path_step: "l \<in> set links \<Longrightarrow> l_from l = x \<Longrightarrow> link_path links k (l_to l) y \<Longrightarrow> link_path links (Suc k) x y"

inductive_simps link_path_0 [simp]: "link_path links 0 x y"
inductive_simps link_path_Suc: "link_path links (Suc k) x y"

lemma link_path_trans: "link_path links i x y \<Longrightarrow> link_path links j y z \<Longrightarrow> link_path links (i + j) x z"
  by (induction rule: link_path.induct) (auto intro: path_step)

lemma reachable_iff: "y \<in> set (reachable n links x) \<longleftrightarrow> (\<exists>k\<le>n. link_path links k x y)"
proof (induction n arbitrary: x)
  case 0
  then show ?case by auto
next
  case (Suc n)
  show ?case
  proof
    assume "y \<in> set (reachable (Suc n) links x)"
    then consider "y = x" | l where "l \<in> set links" "l_from l = x" "y \<in> set (reachable n links (l_to l))"
      by auto
    then show "\<exists>k\<le>Suc n. link_path links k x y"
    proof cases
      case 1
      then show ?thesis by (auto intro: path_refl)
    next
      case 2
      with Suc obtain k where "k \<le> n" "link_path links k (l_to l) y" by blast
      with 2 show ?thesis by (intro exI [of _ "Suc k"]) (auto intro: path_step)
    qed
  next
    assume "\<exists>k\<le>Suc n. link_path links k x y"
    then obtain k where "k \<le> Suc n" "link_path links k x y" by blast
    then show "y \<in> set (reachable (Suc n) links x)"
      using Suc by (cases k) (auto simp: link_path_Suc)
  qed
qed

text \<open>A path through the extended table either avoids the new link, or uses it a first and a last time.\<close>

lemma link_path_new:
  "link_path (links @ [new]) k x y \<Longrightarrow>
   link_path links k x y \<or>
   (\<exists>i j. i + j < k \<and> link_path links i x (l_from new) \<and> link_path links j (l_to new) y)"
proof (induction "links @ [new]" k x y rule: link_path.induct)
  case (path_refl x)
  then show ?case by simp
next
  case (path_step l x k y)
  show ?case
  proof (cases "l \<in> set links")
    case True
    from path_step(4) show ?thesis
    proof
      assume "link_path links k (l_to l) y"
      with True path_step(2) show ?thesis by (auto intro: link_path.path_step)
    next
      assume "\<exists>i j. i + j < k \<and> link_path links i (l_to l) (l_from new) \<and> link_path links j (l_to new) y"
      then obtain i j where "i + j < k" "link_path links i (l_to l) (l_from new)" "link_path links j (l_to new) y"
        by blast
      with True path_step(2) show ?thesis
        by (intro disjI2 exI [of _ "Suc i"] exI [of _ j]) (auto intro: link_path.path_step)
    qed
  next
    case False
    with path_step(1) have l: "l = new" by simp
    from path_step(4) show ?thesis
    proof
      assume "link_path links k (l_to l) y"
      with l path_step(2) show ?thesis
        by (intro disjI2 exI [of _ 0] exI [of _ k]) auto
    next
      assume "\<exists>i j. i + j < k \<and> link_path links i (l_to l) (l_from new) \<and> link_path links j (l_to new) y"
      then obtain i j where "i + j < k" "link_path links j (l_to new) y" by blast
      with l path_step(2) show ?thesis
        by (intro disjI2 exI [of _ 0] exI [of _ j]) auto
    qed
  qed
qed

definition no_short_cycle :: "link_row list \<Rightarrow> bool" where
  "no_short_cycle links \<longleftrightarrow> (\<forall>x k. 0 < k \<and> k \<le> 64 \<longrightarrow> \<not> link_path links k x x)"

lemma no_short_cycle_insert:
  assumes "no_short_cycle links" and "\<not> contract_links_reject_cycle links new"
  shows "no_short_cycle (links @ [new])"
  unfolding no_short_cycle_def
proof (intro allI impI notI)
  fix x k assume k: "0 < k \<and> k \<le> 64" and p: "link_path (links @ [new]) k x x"
  from assms(1) k have "\<not> link_path links k x x" by (simp add: no_short_cycle_def)
  with link_path_new [OF p] obtain i j where
    "i + j < k" "link_path links i x (l_from new)" "link_path links j (l_to new) x" by blast
  then have "link_path links (j + i) (l_to new) (l_from new)" "j + i \<le> 63"
    using k by (auto intro: link_path_trans)
  then have "contract_links_reject_cycle links new"
    by (auto simp: contract_links_reject_cycle_def reachable_iff)
  with assms(2) show False ..
qed

lemma link_path_mono: "link_path links k x y \<Longrightarrow> set links \<subseteq> set links' \<Longrightarrow> link_path links' k x y"
  by (induction rule: link_path.induct) (auto intro: link_path.intros)

lemma no_short_cycle_filter: "no_short_cycle links \<Longrightarrow> no_short_cycle (filter P links)"
  unfolding no_short_cycle_def by (meson filter_is_subset link_path_mono)

subsection \<open>The link invariant\<close>

definition links_ok :: "db \<Rightarrow> bool" where
  "links_ok d \<longleftrightarrow> no_short_cycle (db_links d)"

interpretation links_inv: rely_guarantee "inv_rel links_ok"
  by (rule rely_guarantee_inv)

lemma q_insert_link_ok: "links_ok d \<Longrightarrow> links_ok (snd (q_insert_link from to lt note by d))"
  by (auto simp: q_insert_link_def with_fresh_def Let_def q_insert_def links_ok_def
      intro: no_short_cycle_insert)

lemma links_createContractLink: "keeps (inv_rel links_ok) (createContractLink f t lt note by)"
  unfolding createContractLink_def
  by (intro links_inv.keeps_rules links_inv.keeps_call) (simp add: inv_rel_def q_insert_link_ok)

lemma links_deleteContractLink: "keeps (inv_rel links_ok) (deleteContractLink f t lt)"
  unfolding deleteContractLink_def
  by (intro links_inv.keeps_rules links_inv.keeps_call)
     (simp add: inv_rel_def links_ok_def no_short_cycle_filter)

subsection \<open>Access\<close>

lemma quiet_participantRoles:
  assumes "c \<in> set ids"
  shows "quiet (inv_rel (only_observes a c)) (only_observes a c) (participantRoles ids a)
    (\<lambda>roles d. only_observes a c d \<and> (roles c = None \<or> roles c = Some Observer))"
  unfolding participantRoles_def
proof (rule quiet_bind)
  show "quiet (inv_rel (only_observes a c)) (only_observes a c)
    (call (q_select db_participants (\<lambda>p. p_agent_id p = a \<and> p_contract_id p \<in> set ids)))
    (\<lambda>r d. only_observes a c d \<and> (\<forall>p\<in>set (rows_of r). p_contract_id p = c \<longrightarrow> p_role p = Observer))"
    by (rule quiet_select) (auto simp: stable_inv_rel only_observes_def)
  fix r :: "participant_row list db_result"
  have "map_of (rev (map (\<lambda>p. (p_contract_id p, p_role p)) (rows_of r))) c \<in> {None, Some Observer}"
    if "\<forall>p\<in>set (rows_of r). p_contract_id p = c \<longrightarrow> p_role p = Observer"
  proof (cases "map_of (rev (map (\<lambda>p. (p_contract_id p, p_role p)) (rows_of r))) c")
    case (Some role)
    from map_of_SomeD [OF this] that have "role = Observer" by auto
    with Some show ?thesis by simp
  qed simp
  then show "quiet (inv_rel (only_observes a c))
      (\<lambda>d. only_observes a c d \<and> (\<forall>p\<in>set (rows_of r). p_contract_id p = c \<longrightarrow> p_role p = Observer))
      (State_Monad.return (map_of (rev (map (\<lambda>p. (p_contract_id p, p_role p)) (rows_of r)))))
      (\<lambda>roles d. only_observes a c d \<and> (roles c = None \<or> roles c = Some Observer))"
    by (intro quiet_return) auto
qed

lemma quiet_link_permission:
  "quiet (inv_rel (only_observes a c)) (only_observes a c) (checkContractLinkPermission (c # cs) a)
     (\<lambda>r d. r \<noteq> None)"
  unfolding checkContractLinkPermission_def
  by (rule quiet_bind, rule quiet_participantRoles [where c = c]) (auto intro!: quiet_return)

lemma quiet_refused:
  assumes "quiet R P m (\<lambda>r d. r \<noteq> None)"
  shows "quiet R P (State_Monad.bind m (\<lambda>r. case r of Some e \<Rightarrow> State_Monad.return (Refusal e) | None \<Rightarrow> k))
    (\<lambda>r d. turned_away r)"
proof (rule quiet_bind [OF assms])
  fix x :: "refusal option"
  show "quiet R (\<lambda>d. x \<noteq> None) (case x of Some e \<Rightarrow> State_Monad.return (Refusal e) | None \<Rightarrow> k) (\<lambda>r d. turned_away r)"
    by (cases x) (simp_all add: quiet_False quiet_return)
qed

lemma quiet_links_post:
  "quiet (inv_rel (only_observes (ag_id (rq_agent req)) c)) (only_observes (ag_id (rq_agent req)) c)
     (links_post req c) (\<lambda>r d. turned_away r)"
  unfolding links_post_def links_post_valid_def Let_def
  by (cases "rq_body req")
     (auto intro!: quiet_return quiet_refused quiet_link_permission split: sum.splits)

lemma quiet_links_delete:
  "quiet (inv_rel (only_observes (ag_id (rq_agent req)) c)) (only_observes (ag_id (rq_agent req)) c)
     (links_delete req c t y) (\<lambda>r d. turned_away r)"
  unfolding links_delete_def links_delete_parsed_def Let_def
  by (cases "rq_body req")
     (auto intro!: quiet_return quiet_refused quiet_link_permission split: option.splits)

end
