(* ===== verification/OperatorChannel.thy ===== *)
theory OperatorChannel
  imports ApiHelpers MessageContent
begin

text \<open>
  The side channel between operators and agents on a contract: the pure rules
  (\<open>src/lib/contract-operator-channel.ts\<close>), the queries and writes
  (\<open>contract-operator-channel-server.ts\<close>) and the two agent routes
  (\<open>app/api/v1/contracts/[id]/notes\<close> and \<open>questions\<close>).
\<close>

section \<open>Validation\<close>

datatype question_kind = KQuestion | KValidation | KBlocked

fun kind_name :: "question_kind \<Rightarrow> string" where
  "kind_name KQuestion = ''question''"
| "kind_name KValidation = ''validation''"
| "kind_name KBlocked = ''blocked''"

definition OPERATOR_QUESTION_KINDS :: "question_kind list" where
  "OPERATOR_QUESTION_KINDS = [KQuestion, KValidation, KBlocked]"

definition CONTRACT_NOTE_BODY_MAX :: nat where
  "CONTRACT_NOTE_BODY_MAX = 4000"

definition CONTRACT_QUESTION_BODY_MAX :: nat where
  "CONTRACT_QUESTION_BODY_MAX = 2000"

definition CONTRACT_ANSWER_MAX :: nat where
  "CONTRACT_ANSWER_MAX = 4000"

text \<open>The kind a value names; \<open>isOperatorQuestionKind\<close> is that there is one.\<close>

definition question_kind_of :: "jvalue \<Rightarrow> question_kind option" where
  "question_kind_of value =
     (case as_string value of
        None \<Rightarrow> None
      | Some s \<Rightarrow> find (\<lambda>k. kind_name k = s) OPERATOR_QUESTION_KINDS)"

definition isOperatorQuestionKind :: "jvalue \<Rightarrow> bool" where
  "isOperatorQuestionKind value \<longleftrightarrow>
     (case as_string value of None \<Rightarrow> False | Some s \<Rightarrow> s \<in> set (map kind_name OPERATOR_QUESTION_KINDS))"

fun describeQuestionKind :: "question_kind \<Rightarrow> string" where
  "describeQuestionKind KQuestion = ''You would like an answer but can carry on without one.''"
| "describeQuestionKind KValidation =
     ''You have done something and want a person to confirm it before it counts as done.''"
| "describeQuestionKind KBlocked = ''You cannot proceed at all until a person responds.''"

definition defaultBlockingForKind :: "question_kind \<Rightarrow> bool" where
  "defaultBlockingForKind kind \<longleftrightarrow> kind = KBlocked"

definition isUuid :: "jvalue \<Rightarrow> bool" where
  "isUuid value \<longleftrightarrow> (case as_string value of None \<Rightarrow> False | Some s \<Rightarrow> is_uuid s)"

definition safe_ids :: "string list \<Rightarrow> string list" where
  "safe_ids ids = filter is_uuid ids"

definition validateBody :: "jvalue \<Rightarrow> string \<Rightarrow> nat \<Rightarrow> refusal + string" where
  "validateBody raw field max_len =
     (case as_string raw of
        None \<Rightarrow> Inl (refuse 400 (field @ '' is required and must be a string.'') ''VALIDATION_ERROR'')
      | Some s \<Rightarrow>
          let value = js_trim s
          in if length value = 0 then Inl (refuse 400 (field @ '' cannot be empty.'') ''VALIDATION_ERROR'')
             else if length value > max_len then
               Inl (refuse 400 (field @ '' is '' @ show_nat (length value) @ '' characters; the maximum is '' @
                 show_nat max_len @ ''.'') ''VALIDATION_ERROR'')
             else Inr value)"

definition validateNoteBody :: "jvalue \<Rightarrow> refusal + string" where
  "validateNoteBody raw = validateBody raw ''body'' CONTRACT_NOTE_BODY_MAX"

definition validateAnswerBody :: "jvalue \<Rightarrow> refusal + string" where
  "validateAnswerBody raw = validateBody raw ''answer'' CONTRACT_ANSWER_MAX"

record validated_question =
  vq_kind :: question_kind
  vq_body :: string
  vq_blocking :: bool

definition validateQuestionRequest :: "jvalue \<Rightarrow> refusal + validated_question" where
  "validateQuestionRequest input =
     (let kind = (if jprop input ''kind'' = None then Some (JStr ''question'') else jprop input ''kind'')
      in case question_kind_of kind of
           None \<Rightarrow>
             Inl (refuse_d 400
               (''kind must be one of: '' @ join '', '' (map kind_name OPERATOR_QUESTION_KINDS) @ ''.'')
               ''VALIDATION_ERROR''
               (Some (join '' '' (map (\<lambda>k. kind_name k @ '' - '' @ describeQuestionKind k) OPERATOR_QUESTION_KINDS))))
         | Some k \<Rightarrow>
             (case validateBody (jprop input ''body'') ''body'' CONTRACT_QUESTION_BODY_MAX of
                Inl r \<Rightarrow> Inl r
              | Inr body \<Rightarrow> Inr
                  \<lparr>vq_kind = k, vq_body = body,
                   vq_blocking = (case as_bool (jprop input ''blocking'') of
                      Some b \<Rightarrow> b | None \<Rightarrow> defaultBlockingForKind k)\<rparr>))"

text \<open>\<open>replace(/^body\b/, 'question')\<close>: \<open>body\<close> at the start, not followed by a word character.\<close>

definition word_char :: "char \<Rightarrow> bool" where
  "word_char c \<longleftrightarrow> (let n = (of_char c :: nat) in
     48 \<le> n \<and> n \<le> 57 \<or> 65 \<le> n \<and> n \<le> 90 \<or> 97 \<le> n \<and> n \<le> 122 \<or> n = 95)"

definition body_to_question :: "string \<Rightarrow> string" where
  "body_to_question s =
     (if starts_with s ''body'' \<and> (case drop 4 s of [] \<Rightarrow> True | c # _ \<Rightarrow> \<not> word_char c)
      then ''question'' @ drop 4 s else s)"

definition opt_entry :: "string \<Rightarrow> jvalue \<Rightarrow> content" where
  "opt_entry k v = (case v of None \<Rightarrow> [] | Some j \<Rightarrow> [(k, j)])"

definition validateNeedsHuman :: "jvalue \<Rightarrow> refusal + validated_question" where
  "validateNeedsHuman input =
     (case input of
        Some (JObj raw) \<Rightarrow>
          (case validateQuestionRequest (Some (JObj
              ((''kind'', case map_of raw ''kind'' of None \<Rightarrow> JStr ''blocked'' | Some k \<Rightarrow> k) #
               opt_entry ''body'' (map_of raw ''question'') @ opt_entry ''blocking'' (map_of raw ''blocking'')))) of
             Inr q \<Rightarrow> Inr q
           | Inl r \<Rightarrow> Inl (r\<lparr>rf_body := (rf_body r)\<lparr>ae_error :=
               ''needs_human.'' @ body_to_question (ae_error (rf_body r)) @
               '' Nothing was sent and no turn was spent.''\<rparr>\<rparr>))
      | _ \<Rightarrow> Inl (refuse 400
          ''needs_human must be an object: { \"question\": \"<the exact decision needed>\", \"kind\": \"blocked\" }.''
          ''VALIDATION_ERROR''))"

section \<open>Shaping\<close>

record note_summary =
  ns_id :: string
  ns_body :: string
  ns_author_name :: string
  ns_created_at :: timestamp
  ns_updated_at :: timestamp
  ns_withdrawn_at :: "timestamp option"
  ns_acknowledged :: "bool option"

record question_summary =
  qs_id :: string
  qs_kind :: question_kind
  qs_body :: string
  qs_blocking :: bool
  qs_status :: question_status
  qs_asked_by :: string
  qs_asked_by_name :: "string option"
  qs_created_at :: timestamp
  qs_answer :: "string option"
  qs_answered_by_name :: "string option"
  qs_answered_at :: "timestamp option"

record channel_counts =
  cc_notes :: nat
  cc_unacknowledged :: "nat option"
  cc_open :: nat
  cc_blocking :: nat

definition summariseChannel :: "note_summary list \<Rightarrow> question_summary list \<Rightarrow> bool \<Rightarrow> channel_counts" where
  "summariseChannel notes questions viewerIdentified =
     (let live = filter (\<lambda>n. ns_withdrawn_at n = None) notes;
          open_qs = filter (\<lambda>q. qs_status q = QOpen) questions
      in \<lparr>cc_notes = length live,
          cc_unacknowledged =
            (if viewerIdentified then Some (length (filter (\<lambda>n. ns_acknowledged n \<noteq> Some True) live)) else None),
          cc_open = length open_qs,
          cc_blocking = length (filter qs_blocking open_qs)\<rparr>)"

definition plural :: "nat \<Rightarrow> string" where
  "plural n = (if n = 1 then [] else ''s'')"

definition describeChannelState :: "channel_counts option \<Rightarrow> string option" where
  "describeChannelState counts =
     (case counts of
        None \<Rightarrow> None
      | Some c \<Rightarrow>
          let parts =
            (case cc_unacknowledged c of
               Some n \<Rightarrow> if n = 0 then []
                 else [show_nat n @ '' operator note'' @ plural n @ '' you have not acknowledged'']
             | None \<Rightarrow> []) @
            (if cc_open c = 0 then []
             else [show_nat (cc_open c) @ '' open question'' @ plural (cc_open c) @ '' to a human'' @
               (if cc_blocking c = 0 then [] else '', '' @ show_nat (cc_blocking c) @ '' blocking'')])
          in if parts = [] then None else Some (join ''; '' parts))"

section \<open>Access\<close>

definition channel_notAParticipant :: "string \<Rightarrow> refusal" where
  "channel_notAParticipant contractId =
     refuse 404 (''Contract '' @ contractId @ '' not found, or you are not a participant in it.'') ''NOT_FOUND''"

definition participantRole :: "string \<Rightarrow> string \<Rightarrow> participant_role option prog" where
  "participantRole contractId agentId = do {
     r \<leftarrow> call (shaped shape_maybe (limited 1
       (q_select db_participants (\<lambda>p. p_contract_id p = contractId \<and> p_agent_id p = agentId))));
     State_Monad.return (map_option p_role (maybe_of r))
   }"

definition checkChannelReadAccess :: "string \<Rightarrow> string \<Rightarrow> refusal option prog" where
  "checkChannelReadAccess contractId agentId = do {
     role \<leftarrow> participantRole contractId agentId;
     State_Monad.return (if role = None then Some (channel_notAParticipant contractId) else None)
   }"

definition checkChannelWriteAccess :: "string \<Rightarrow> string \<Rightarrow> refusal option prog" where
  "checkChannelWriteAccess contractId agentId = do {
     role \<leftarrow> participantRole contractId agentId;
     State_Monad.return
       (case role of
          None \<Rightarrow> Some (channel_notAParticipant contractId)
        | Some r \<Rightarrow>
            if r = Observer then
              Some (refuse 403 ''Observers may read the operator channel but cannot ask questions on it.'' ''FORBIDDEN'')
            else None)
   }"

section \<open>Reads\<close>

record agent_names =
  an_name :: "string option"
  an_display_name :: "string option"

record raw_question =
  rq_row :: question_row
  rq_asker :: "agent_names embed"

definition toQuestion :: "raw_question \<Rightarrow> question_summary option" where
  "toQuestion raw =
     (let row = rq_row raw; agent = embed_one (rq_asker raw)
      in case question_kind_of (Some (JStr (q_kind row))) of
           None \<Rightarrow> None
         | Some k \<Rightarrow> Some
             \<lparr>qs_id = q_id row, qs_kind = k, qs_body = q_body row, qs_blocking = q_blocking row,
              qs_status = q_status row, qs_asked_by = q_asked_by row,
              qs_asked_by_name =
                (let display = Option.bind agent an_display_name; name = Option.bind agent an_name
                 in if truthy_str display then display else if truthy_str name then name else None),
              qs_created_at = q_created_at row, qs_answer = q_answer row,
              qs_answered_by_name = q_answered_by_name row, qs_answered_at = q_answered_at row\<rparr>)"

definition q_questions :: "(question_row \<Rightarrow> bool) \<Rightarrow> raw_question list statement" where
  "q_questions P d =
     (Inr (map (\<lambda>q. \<lparr>rq_row = q, rq_asker = embed_find (\<lambda>a. ag_id a = q_asked_by q) (db_agents d)
         (\<lambda>a. \<lparr>an_name = Some (ag_name a), an_display_name = Some (ag_display_name a)\<rparr>)\<rparr>)
       (sort_key q_created_at (filter P (db_questions d)))), d)"

definition q_notes :: "(note_row \<Rightarrow> bool) \<Rightarrow> note_row list statement" where
  "q_notes P d = (Inr (sort_key n_created_at (filter P (db_notes d))), d)"

record operator_channel =
  oc_notes :: "note_summary list"
  oc_questions :: "question_summary list"
  oc_counts :: channel_counts

definition EMPTY_COUNTS :: channel_counts where
  "EMPTY_COUNTS = \<lparr>cc_notes = 0, cc_unacknowledged = None, cc_open = 0, cc_blocking = 0\<rparr>"

definition note_summary_of :: "string option \<Rightarrow> string set \<Rightarrow> note_row \<Rightarrow> note_summary" where
  "note_summary_of viewerAgentId acked row =
     \<lparr>ns_id = n_id row, ns_body = n_body row, ns_author_name = n_author_name row,
      ns_created_at = n_created_at row, ns_updated_at = n_updated_at row, ns_withdrawn_at = n_withdrawn_at row,
      ns_acknowledged = (if truthy_str viewerAgentId then Some (n_id row \<in> acked) else None)\<rparr>"

text \<open>One contract's bucket: its rows, in the order of the queries.\<close>

definition channel_bucket ::
  "string option \<Rightarrow> bool \<Rightarrow> string set \<Rightarrow> note_row list \<Rightarrow> raw_question list \<Rightarrow> string \<Rightarrow> operator_channel" where
  "channel_bucket viewerAgentId includeWithdrawn acked notes questions cid =
     (let ns = map (note_summary_of viewerAgentId acked)
            (filter (\<lambda>n. n_contract_id n = cid \<and> (n_withdrawn_at n = None \<or> includeWithdrawn)) notes);
          qs = List.map_filter toQuestion (filter (\<lambda>q. q_contract_id (rq_row q) = cid) questions)
      in \<lparr>oc_notes = ns, oc_questions = qs, oc_counts = summariseChannel ns qs (truthy_str viewerAgentId)\<rparr>)"

definition getOperatorChannelForContracts ::
  "string list \<Rightarrow> string option \<Rightarrow> bool \<Rightarrow> (string \<rightharpoonup> operator_channel) prog" where
  "getOperatorChannelForContracts contractIds viewerAgentId includeWithdrawn =
     (let ids = safe_ids contractIds
      in if ids = [] then State_Monad.return Map.empty
         else do {
           noteRows \<leftarrow> call (q_notes (\<lambda>n. n_contract_id n \<in> set ids));
           questionRows \<leftarrow> call (q_questions (\<lambda>q. q_contract_id q \<in> set ids));
           let notes = rows_of noteRows;
           let questions = rows_of questionRows;
           acked \<leftarrow> (if truthy_str viewerAgentId \<and> is_uuid (the viewerAgentId) \<and> notes \<noteq> [] then do {
               ackRows \<leftarrow> call (q_select db_acks
                 (\<lambda>k. k_agent_id k = the viewerAgentId \<and> k_note_id k \<in> set (map n_id notes)));
               State_Monad.return (set (map k_note_id (rows_of ackRows)))
             } else State_Monad.return {});
           State_Monad.return (\<lambda>cid. if cid \<in> set ids
             then Some (channel_bucket viewerAgentId includeWithdrawn acked notes questions cid) else None)
         })"

definition getOperatorChannel :: "string \<Rightarrow> string option \<Rightarrow> bool \<Rightarrow> operator_channel prog" where
  "getOperatorChannel contractId viewerAgentId includeWithdrawn = do {
     byContract \<leftarrow> getOperatorChannelForContracts [contractId] viewerAgentId includeWithdrawn;
     State_Monad.return
       (case byContract contractId of
          Some c \<Rightarrow> c
        | None \<Rightarrow> \<lparr>oc_notes = [], oc_questions = [], oc_counts = EMPTY_COUNTS\<rparr>)
   }"

section \<open>Writes\<close>

definition createContractNote :: "string \<Rightarrow> string \<Rightarrow> string option \<Rightarrow> string \<Rightarrow> (refusal + string) prog" where
  "createContractNote contractId body authorUserId authorName = do {
     r \<leftarrow> call (shaped shape_single (with_fresh (\<lambda>fresh d.
        q_insert db_notes db_notes_update (\<lambda>_ _. False)
          [\<lparr>n_id = fresh, n_contract_id = contractId, n_body = body, n_author_user_id = authorUserId,
            n_author_name = authorName, n_created_at = db_now d, n_updated_at = db_now d,
            n_withdrawn_at = None\<rparr>] d)));
     State_Monad.return
       (case r of
          Inl error \<Rightarrow> Inl (refuse_d 500 ''Could not save the note.'' ''INTERNAL_ERROR'' (Some (de_message error)))
        | Inr row \<Rightarrow> Inr (n_id row))
   }"

definition updateContractNote :: "string \<Rightarrow> string \<Rightarrow> refusal option prog" where
  "updateContractNote noteId body = do {
     now \<leftarrow> clock;
     r \<leftarrow> call (shaped shape_maybe (q_update db_notes db_notes_update
        (\<lambda>n. n_id n = noteId \<and> n_withdrawn_at n = None)
        (\<lambda>n. n\<lparr>n_body := body, n_updated_at := now\<rparr>)));
     State_Monad.return
       (case r of
          Inl error \<Rightarrow> Some (refuse_d 500 ''Could not update the note.'' ''INTERNAL_ERROR'' (Some (de_message error)))
        | Inr None \<Rightarrow> Some (refuse 404 ''Note not found, or it has already been withdrawn.'' ''NOT_FOUND'')
        | Inr (Some _) \<Rightarrow> None)
   }"

definition withdrawContractNote :: "string \<Rightarrow> refusal option prog" where
  "withdrawContractNote noteId = do {
     now \<leftarrow> clock;
     r \<leftarrow> call (shaped shape_maybe (q_update db_notes db_notes_update
        (\<lambda>n. n_id n = noteId \<and> n_withdrawn_at n = None)
        (\<lambda>n. n\<lparr>n_withdrawn_at := Some now\<rparr>)));
     State_Monad.return
       (case r of
          Inl error \<Rightarrow> Some (refuse_d 500 ''Could not withdraw the note.'' ''INTERNAL_ERROR'' (Some (de_message error)))
        | Inr None \<Rightarrow> Some (refuse 404 ''Note not found, or it was already withdrawn.'' ''NOT_FOUND'')
        | Inr (Some _) \<Rightarrow> None)
   }"

text \<open>Which of the live notes a request means: all, or the named subset, refusing an id that is not live.\<close>

definition ack_targets :: "string list \<Rightarrow> string list option \<Rightarrow> refusal + string list" where
  "ack_targets live noteIds =
     (case noteIds of
        None \<Rightarrow> Inr live
      | Some given \<Rightarrow>
          if given = [] then Inr live
          else
            let wanted = js_set (safe_ids given);
                missing = filter (\<lambda>i. i \<notin> set live) wanted
            in case missing of
                 m # _ \<Rightarrow> Inl (refuse 404 (''No live note on this contract with id '' @ m @ ''.'') ''NOT_FOUND'')
               | [] \<Rightarrow> Inr (filter (\<lambda>i. i \<in> set wanted) live))"

definition acknowledgeContractNotes ::
  "string \<Rightarrow> string \<Rightarrow> string list option \<Rightarrow> (refusal + nat \<times> nat) prog" where
  "acknowledgeContractNotes contractId agentId noteIds = do {
     liveRows \<leftarrow> call (q_select db_notes (\<lambda>n. n_contract_id n = contractId \<and> n_withdrawn_at n = None));
     case ack_targets (map n_id (rows_of liveRows)) noteIds of
       Inl r \<Rightarrow> State_Monad.return (Inl r)
     | Inr live \<Rightarrow>
         if live = [] then State_Monad.return (Inr (0, 0))
         else do {
           existing \<leftarrow> call (q_select db_acks (\<lambda>k. k_agent_id k = agentId \<and> k_note_id k \<in> set live));
           let already = js_set (map k_note_id (rows_of existing));
           let fresh = filter (\<lambda>i. i \<notin> set already) live;
           if fresh = [] then State_Monad.return (Inr (0, length already))
           else do {
             r \<leftarrow> call (q_insert db_acks db_acks_update
               (\<lambda>n r. k_note_id n = k_note_id r \<and> k_agent_id n = k_agent_id r)
               (map (\<lambda>i. \<lparr>k_note_id = i, k_agent_id = agentId\<rparr>) fresh));
             State_Monad.return
               (case r of
                  Inl error \<Rightarrow> Inl (refuse_d 500 ''Could not record the acknowledgement.'' ''INTERNAL_ERROR''
                    (Some (de_message error)))
                | Inr _ \<Rightarrow> Inr (length fresh, length already))
           }
         }
   }"

definition new_question ::
  "string \<Rightarrow> string \<Rightarrow> string \<Rightarrow> validated_question \<Rightarrow> string option \<Rightarrow> timestamp \<Rightarrow> question_row" where
  "new_question qid contractId agentId q messageId now =
     \<lparr>q_id = qid, q_contract_id = contractId, q_asked_by = agentId, q_kind = kind_name (vq_kind q),
      q_body = vq_body q, q_blocking = vq_blocking q, q_status = QOpen, q_answer = None,
      q_answered_by_user_id = None, q_answered_by_name = None, q_created_at = now, q_answered_at = None,
      q_message_id = messageId\<rparr>"

definition createContractQuestion ::
  "string \<Rightarrow> string \<Rightarrow> validated_question \<Rightarrow> (refusal + string) prog" where
  "createContractQuestion contractId agentId question = do {
     r \<leftarrow> call (shaped shape_single (with_fresh (\<lambda>fresh d.
        q_insert db_questions db_questions_update (\<lambda>_ _. False)
          [new_question fresh contractId agentId question None (db_now d)] d)));
     State_Monad.return
       (case r of
          Inl error \<Rightarrow> Inl (refuse_d 500 ''Could not record the question.'' ''INTERNAL_ERROR'' (Some (de_message error)))
        | Inr row \<Rightarrow> Inr (q_id row))
   }"

definition announceContractQuestion ::
  "string \<Rightarrow> string \<Rightarrow> agent_row \<Rightarrow> validated_question \<Rightarrow> string option \<Rightarrow> string option \<Rightarrow> unit prog" where
  "announceContractQuestion contractId questionId agent question messageId ipAddress = do {
     let message_entry = (if truthy_str messageId then [(''message_id'', JStr (the messageId))] else []);
     auditLog (ag_name agent) ''contract.question_asked'' (Some ''contract'') (Some contractId)
       (Some ([(''question_id'', JStr questionId), (''kind'', JStr (kind_name (vq_kind question))),
               (''blocking'', JBool (vq_blocking question))] @ message_entry)) ipAddress;
     rows \<leftarrow> call (q_select db_participants (\<lambda>p. p_contract_id p = contractId));
     let peers = filter (\<lambda>a. a \<noteq> ag_id agent) (map p_agent_id (rows_of rows));
     if peers = [] then State_Monad.return ()
     else deliver \<lparr>we_targets = peers, we_event = ''contract.question_asked'', we_contract_id = Some contractId,
       we_project_id = None, we_task_id = None, we_sprint_id = None, we_approval_id = None,
       we_data = [(''question_id'', JStr questionId), (''asked_by'', JStr (ag_name agent)),
         (''asked_by_agent_id'', JStr (ag_id agent)), (''kind'', JStr (kind_name (vq_kind question))),
         (''blocking'', JBool (vq_blocking question)), (''body'', JStr (vq_body question))] @ message_entry @
         [(''requires_action'', JBool False), (''attention'', JStr ''informational'')]\<rparr>
   }"

definition getQuestionIdsByMessage :: "string \<Rightarrow> (string \<rightharpoonup> string) prog" where
  "getQuestionIdsByMessage contractId =
     (if \<not> is_uuid contractId then State_Monad.return Map.empty
      else do {
        r \<leftarrow> call (q_select db_questions (\<lambda>q. q_contract_id q = contractId \<and> q_message_id q \<noteq> None));
        State_Monad.return
          (case r of
             Inl _ \<Rightarrow> Map.empty
           | Inr rows \<Rightarrow> map_of (rev (map (\<lambda>q. (the (q_message_id q), q_id q))
               (filter (\<lambda>q. truthy_str (q_message_id q)) rows))))
      })"

text \<open>
  The answer to a question: only while it is open. The rows an update returns carry no embedded
  relation (see \<open>DirectQuery.execute\<close>), so the summary has no agent name.
\<close>

definition resolveContractQuestion ::
  "string \<Rightarrow> question_status \<Rightarrow> string option \<Rightarrow> string option \<Rightarrow> string \<Rightarrow>
   (refusal + question_summary) prog" where
  "resolveContractQuestion questionId status answer answeredByUserId answeredByName = do {
     now \<leftarrow> clock;
     r \<leftarrow> call (shaped shape_maybe (q_update db_questions db_questions_update
        (\<lambda>q. q_id q = questionId \<and> q_status q = QOpen)
        (\<lambda>q. q\<lparr>q_status := status, q_answer := answer, q_answered_by_user_id := answeredByUserId,
               q_answered_by_name := Some answeredByName, q_answered_at := Some now\<rparr>)));
     State_Monad.return
       (case r of
          Inl error \<Rightarrow> Inl (refuse_d 500 ''Could not save the answer.'' ''INTERNAL_ERROR'' (Some (de_message error)))
        | Inr None \<Rightarrow> Inl (refuse 409
            ''That question is no longer open - someone has already answered or dismissed it.'' ''ALREADY_RESPONDED'')
        | Inr (Some row) \<Rightarrow>
            (case toQuestion \<lparr>rq_row = row, rq_asker = EmbedNone\<rparr> of
               None \<Rightarrow> Inl (refuse 500 ''Saved the answer but could not read it back.'' ''INTERNAL_ERROR'')
             | Some q \<Rightarrow> Inr q))
   }"

definition getNoteAckCounts :: "string list \<Rightarrow> (string \<rightharpoonup> nat) prog" where
  "getNoteAckCounts noteIds =
     (let ids = safe_ids noteIds
      in if ids = [] then State_Monad.return Map.empty
         else do {
           r \<leftarrow> call (q_select db_acks (\<lambda>k. k_note_id k \<in> set ids));
           State_Monad.return (\<lambda>i. if i \<in> set ids
             then Some (length (filter (\<lambda>k. k_note_id k = i) (rows_of r))) else None)
         })"

section \<open>Routes\<close>

record channel_response =
  cr_contract_id :: string
  cr_notes :: "note_summary list"
  cr_questions :: "question_summary list"
  cr_counts :: channel_counts
  cr_acknowledged :: "(nat \<times> nat) option"

definition notes_get :: "request \<Rightarrow> string \<Rightarrow> channel_response response prog" where
  "notes_get req contractId = do {
     refusal \<leftarrow> checkChannelReadAccess contractId (ag_id (rq_agent req));
     case refusal of
       Some r \<Rightarrow> State_Monad.return (Refusal r)
     | None \<Rightarrow> do {
         channel \<leftarrow> getOperatorChannel contractId (Some (ag_id (rq_agent req))) False;
         State_Monad.return (Answer 200 \<lparr>cr_contract_id = contractId, cr_notes = oc_notes channel,
           cr_questions = [], cr_counts = oc_counts channel, cr_acknowledged = None\<rparr>)
       }
   }"

text \<open>\<open>note_ids\<close>: absent, or an array of UUID strings.\<close>

definition parse_note_ids :: "json \<Rightarrow> refusal + string list option" where
  "parse_note_ids parsed =
     (case jprop (Some parsed) ''note_ids'' of
        None \<Rightarrow> Inr None
      | Some (JArr items) \<Rightarrow>
          if list_all (\<lambda>i. isUuid (Some i)) items
          then Inr (Some (List.map_filter (\<lambda>i. as_string (Some i)) items))
          else Inl (refuse 400 ''note_ids must be an array of note UUIDs.'' ''VALIDATION_ERROR'')
      | Some _ \<Rightarrow> Inl (refuse 400 ''note_ids must be an array of note UUIDs.'' ''VALIDATION_ERROR''))"

text \<open>The rest of the route behind the parsing of its body.\<close>

definition notes_post_parsed :: "request \<Rightarrow> string \<Rightarrow> json \<Rightarrow> channel_response response prog" where
  "notes_post_parsed req contractId parsed = do {
     refusal \<leftarrow> checkChannelWriteAccess contractId (ag_id (rq_agent req));
     case refusal of
       Some r \<Rightarrow> State_Monad.return (Refusal r)
     | None \<Rightarrow>
         if parsed = JNull then State_Monad.return (Thrown ''TypeError'')
         else (case parse_note_ids parsed of
           Inl r \<Rightarrow> State_Monad.return (Refusal r)
         | Inr noteIds \<Rightarrow> do {
             acked \<leftarrow> acknowledgeContractNotes contractId (ag_id (rq_agent req)) noteIds;
             case acked of
               Inl r \<Rightarrow> State_Monad.return (Refusal r)
             | Inr (n, already) \<Rightarrow> do {
                 (if n > 0 then audit_contract req ''contract.notes_acknowledged'' contractId
                    [(''acknowledged'', jint (int n)),
                     (''note_ids'', case noteIds of None \<Rightarrow> JNull | Some ids \<Rightarrow> JArr (map JStr ids))]
                  else State_Monad.return ());
                 channel \<leftarrow> getOperatorChannel contractId (Some (ag_id (rq_agent req))) False;
                 State_Monad.return (Answer 200 \<lparr>cr_contract_id = contractId, cr_notes = oc_notes channel,
                   cr_questions = [], cr_counts = oc_counts channel, cr_acknowledged = Some (n, already)\<rparr>)
               }
           })
   }"

definition notes_post :: "request \<Rightarrow> string \<Rightarrow> channel_response response prog" where
  "notes_post req contractId =
     (case rq_body req of
        BadJson \<Rightarrow> State_Monad.return (reply_error 400 ''Invalid JSON body'' ''INVALID_BODY'')
      | NoBody \<Rightarrow> notes_post_parsed req contractId (JObj [])
      | Parsed j \<Rightarrow> notes_post_parsed req contractId j)"

definition questions_get :: "request \<Rightarrow> string \<Rightarrow> channel_response response prog" where
  "questions_get req contractId = do {
     refusal \<leftarrow> checkChannelReadAccess contractId (ag_id (rq_agent req));
     case refusal of
       Some r \<Rightarrow> State_Monad.return (Refusal r)
     | None \<Rightarrow> do {
         channel \<leftarrow> getOperatorChannel contractId (Some (ag_id (rq_agent req))) False;
         State_Monad.return (Answer 200 \<lparr>cr_contract_id = contractId, cr_notes = [],
           cr_questions = oc_questions channel, cr_counts = oc_counts channel, cr_acknowledged = None\<rparr>)
       }
   }"

text \<open>The end of the route: record the question, announce it, read the channel back.\<close>

definition ask_question :: "request \<Rightarrow> string \<Rightarrow> validated_question \<Rightarrow> channel_response response prog" where
  "ask_question req contractId question = do {
     created \<leftarrow> createContractQuestion contractId (ag_id (rq_agent req)) question;
     case created of
       Inl r \<Rightarrow> State_Monad.return (Refusal r)
     | Inr questionId \<Rightarrow> do {
         announceContractQuestion contractId questionId (rq_agent req) question None (Some (getClientIp req));
         channel \<leftarrow> getOperatorChannel contractId (Some (ag_id (rq_agent req))) False;
         State_Monad.return (Answer 201 \<lparr>cr_contract_id = contractId, cr_notes = [],
           cr_questions = oc_questions channel, cr_counts = oc_counts channel, cr_acknowledged = None\<rparr>)
       }
   }"

text \<open>The route behind the validation of the question.\<close>

definition questions_post_valid :: "request \<Rightarrow> string \<Rightarrow> validated_question \<Rightarrow> channel_response response prog" where
  "questions_post_valid req contractId question = do {
     refusal \<leftarrow> checkChannelWriteAccess contractId (ag_id (rq_agent req));
     case refusal of
       Some r \<Rightarrow> State_Monad.return (Refusal r)
     | None \<Rightarrow> do {
         contract \<leftarrow> call (shaped shape_maybe (q_select db_contracts (\<lambda>c. c_id c = contractId)));
         case maybe_of contract of
           Some c \<Rightarrow>
             if c_status c \<in> {SClosed, SExpired, SCancelled, SRejected} then
               State_Monad.return (reply_error 409 (''This contract is '' @ status_name (c_status c) @
                 ''. There is nothing left to be blocked on; raise it on the successor contract instead.'')
                 ''CONTRACT_NOT_ACTIVE'')
             else ask_question req contractId question
         | None \<Rightarrow> ask_question req contractId question
       }
   }"

definition questions_post :: "request \<Rightarrow> string \<Rightarrow> channel_response response prog" where
  "questions_post req contractId =
     (let checked = (\<lambda>j. case validateQuestionRequest (Some j) of
            Inl r \<Rightarrow> State_Monad.return (Refusal r)
          | Inr question \<Rightarrow> questions_post_valid req contractId question)
      in case rq_body req of
           BadJson \<Rightarrow> State_Monad.return (reply_error 400 ''Invalid JSON body'' ''INVALID_BODY'')
         | NoBody \<Rightarrow> checked (JObj [])
         | Parsed j \<Rightarrow> checked j)"

end
