(* ===== verification/Attachments.thy ===== *)
theory Attachments
  imports TaskLink
begin

text \<open>
  Attachments: the checks on an upload and its storage path (\<open>src/lib/attachments.ts\<close>), and who may
  read what (\<open>src/lib/attachment-access.ts\<close>). The files themselves and the signed
  links to them are in \<open>AttachmentFiles\<close>.
\<close>

section \<open>Names\<close>

definition filename_char :: "char \<Rightarrow> bool" where
  "filename_char c \<longleftrightarrow>
     (let n = (of_char c :: nat) in
      48 \<le> n \<and> n \<le> 57 \<or> 65 \<le> n \<and> n \<le> 90 \<or> 97 \<le> n \<and> n \<le> 122 \<or> c \<in> {CHR ''.'', CHR ''_'', CHR ''-''})"

text \<open>\<open>replace(/[^a-zA-Z0-9._-]+/g, '-')\<close>: every maximal run of other characters becomes one dash.\<close>

fun replace_runs :: "(char \<Rightarrow> bool) \<Rightarrow> bool \<Rightarrow> string \<Rightarrow> string" where
  "replace_runs P in_run [] = []"
| "replace_runs P in_run (c # cs) =
     (if P c then (if in_run then replace_runs P True cs else CHR ''-'' # replace_runs P True cs)
      else c # replace_runs P False cs)"

definition sanitizeFilename :: "string \<Rightarrow> string" where
  "sanitizeFilename name =
     (let trimmed = js_trim (if name = [] then ''attachment'' else name);
          cleaned = replace_runs (\<lambda>c. c = CHR ''-'') False (replace_runs (\<lambda>c. \<not> filename_char c) False trimmed);
          short = take 180 cleaned
      in if short = [] then ''attachment'' else short)"

definition getFileExtension :: "string \<Rightarrow> string" where
  "getFileExtension name =
     (if CHR ''.'' \<in> set name
      then to_lower (CHR ''.'' # rev (takeWhile (\<lambda>c. c \<noteq> CHR ''.'') (rev name)))
      else [])"

section \<open>Validation\<close>

definition MAX_ATTACHMENT_SIZE_BYTES :: int where
  "MAX_ATTACHMENT_SIZE_BYTES = 10 * 1024 * 1024"

definition ALLOWED_MIME_TYPES :: "string list" where
  "ALLOWED_MIME_TYPES =
     [''text/plain'', ''text/markdown'', ''application/json'', ''application/pdf'', ''image/png'', ''image/jpeg'',
      ''image/webp'', ''image/gif'', ''application/zip'', ''application/x-zip-compressed'', ''application/x-tar'',
      ''application/gzip'', ''application/x-gzip'', ''text/csv'',
      ''application/vnd.openxmlformats-officedocument.wordprocessingml.document'', ''application/msword'']"

definition BLOCKED_EXTENSIONS :: "string list" where
  "BLOCKED_EXTENSIONS =
     [''.exe'', ''.bat'', ''.cmd'', ''.sh'', ''.msi'', ''.com'', ''.scr'', ''.js'', ''.mjs'', ''.cjs'', ''.jar'', ''.ps1'',
      ''.php'', ''.py'']"

text \<open>The list of \<open>ALLOWED_MIME_TYPES\<close> in the order \<open>sort()\<close> gives it.\<close>

definition SORTED_MIME_TYPES :: "string list" where
  "SORTED_MIME_TYPES =
     [''application/gzip'', ''application/json'', ''application/msword'', ''application/pdf'',
      ''application/vnd.openxmlformats-officedocument.wordprocessingml.document'', ''application/x-gzip'',
      ''application/x-tar'', ''application/x-zip-compressed'', ''application/zip'', ''image/gif'', ''image/jpeg'',
      ''image/png'', ''image/webp'', ''text/csv'', ''text/markdown'', ''text/plain'']"

definition validateAttachmentInput :: "string option \<Rightarrow> string option \<Rightarrow> js_num \<Rightarrow> string + string \<times> string" where
  "validateAttachmentInput filename mimeType sizeBytes =
     (if \<not> truthy_str filename then Inl ''filename is required''
      else case sizeBytes of
        Fin n \<Rightarrow>
          if n \<le> 0 then Inl ''file must not be empty''
          else if n > of_int MAX_ATTACHMENT_SIZE_BYTES then
            Inl (''file exceeds '' @ show_int MAX_ATTACHMENT_SIZE_BYTES @ '' byte limit'')
          else
            let clean = sanitizeFilename (the filename); ext = getFileExtension clean
            in if ext \<in> set BLOCKED_EXTENSIONS then
                 Inl (''blocked file extension: '' @ ext @
                   ''. Executable and script files cannot be attached; put it in an archive instead.'')
               else if \<not> truthy_str mimeType \<or> the mimeType \<notin> set ALLOWED_MIME_TYPES then
                 Inl (''unsupported mime type: '' @ str_or mimeType ''unknown'' @ ''. Accepted types: '' @
                   join '', '' SORTED_MIME_TYPES)
               else Inr (clean, the mimeType)
      | _ \<Rightarrow> Inl ''file must not be empty'')"

text \<open>\<open>uuid\<close> is the value of \<open>randomUUID()\<close>.\<close>

definition buildAttachmentStoragePath ::
  "string \<Rightarrow> string option \<Rightarrow> string option \<Rightarrow> string \<Rightarrow> string \<Rightarrow> string" where
  "buildAttachmentStoragePath projectId taskId contractId filename uuid =
     (let scope = (if truthy_str taskId then ''tasks/'' @ the taskId
                   else ''contracts/'' @ (case contractId of None \<Rightarrow> ''undefined'' | Some c \<Rightarrow> c))
      in projectId @ ''/'' @ scope @ ''/'' @ uuid @ ''-'' @ sanitizeFilename filename)"

section \<open>Access\<close>

definition verifyContractParticipation :: "string \<Rightarrow> string \<Rightarrow> participant_row option prog" where
  "verifyContractParticipation contractId agentId = do {
     r \<leftarrow> call (shaped shape_single (q_select db_participants
       (\<lambda>p. p_contract_id p = contractId \<and> p_agent_id p = agentId \<and> p_status p = PAccepted)));
     State_Monad.return (data_of r)
   }"

definition q_attachments :: "(attachment_row \<Rightarrow> bool) \<Rightarrow> attachment_row list statement" where
  "q_attachments P d = (Inr (sort_key (\<lambda>a. - at_created_at a) (filter P (db_attachments d))), d)"

definition listAttachmentsForScope ::
  "string \<Rightarrow> string option \<Rightarrow> string option \<Rightarrow> attachment_row list db_result prog" where
  "listAttachmentsForScope projectId taskId contractId =
     call (q_attachments (\<lambda>a. at_project_id a = projectId
       \<and> (truthy_str taskId \<longrightarrow> at_task_id a = taskId)
       \<and> (truthy_str contractId \<longrightarrow> at_contract_id a = contractId)))"

definition getAttachmentById :: "string \<Rightarrow> attachment_row db_result prog" where
  "getAttachmentById aid = call (shaped shape_single (q_select db_attachments (\<lambda>a. at_id a = aid)))"

section \<open>Lemmas\<close>

lemma dash_filename_char: "filename_char CHR ''-''"
  by (simp add: filename_char_def)

lemma replace_runs_chars:
  "set (replace_runs P b s) \<subseteq> {c \<in> set s. \<not> P c} \<union> {CHR ''-''}"
  by (induction P b s rule: replace_runs.induct) auto

lemma sanitize_chars: "\<forall>c\<in>set (sanitizeFilename name). filename_char c"
proof -
  define runs where "runs s = replace_runs (\<lambda>c. \<not> filename_char c) False s" for s
  define cleaned where "cleaned s = replace_runs (\<lambda>c. c = CHR ''-'') False (runs s)" for s
  have 1: "set (runs s) \<subseteq> Collect filename_char" for s
    unfolding runs_def using replace_runs_chars [of "\<lambda>c. \<not> filename_char c" False s] dash_filename_char by blast
  have 2: "set (cleaned s) \<subseteq> Collect filename_char" for s
    unfolding cleaned_def
    using replace_runs_chars [of "\<lambda>c. c = CHR ''-''" False "runs s"] 1 [of s] dash_filename_char by blast
  have 3: "set (take 180 (cleaned s)) \<subseteq> Collect filename_char" for s
    using 2 [of s] set_take_subset [of 180 "cleaned s"] by blast
  have 4: "set ''attachment'' \<subseteq> Collect filename_char"
    by (simp add: filename_char_def)
  have "set (sanitizeFilename name) \<subseteq> Collect filename_char"
    unfolding sanitizeFilename_def Let_def runs_def [symmetric] cleaned_def [symmetric]
    by (rule if_split [of "\<lambda>x. set x \<subseteq> Collect filename_char", THEN iffD2])
      (intro conjI impI 3 4)
  then show ?thesis by blast
qed

lemma sanitize_length: "sanitizeFilename name \<noteq> [] \<and> length (sanitizeFilename name) \<le> 180"
  by (simp add: sanitizeFilename_def Let_def)

lemma sorted_mime_types: "set SORTED_MIME_TYPES = set ALLOWED_MIME_TYPES"
  by code_simp

lemma slash_not_filename_char: "\<not> filename_char CHR ''/''"
  by (simp add: filename_char_def)

section \<open>Properties\<close>



end
