(* ===== verification/ContractHelpers.thy ===== *)
theory ContractHelpers
  imports Closure TurnState Links OperatorChannel Attachments
begin

text \<open>
  What the contract routes share: announcing a closure (\<open>src/lib/contract-closure.ts\<close>), closing an
  expired contract, reading one for an agent, and activation
  (\<open>src/app/api/v1/contracts/_helpers.ts\<close>).
\<close>

section \<open>Announcing a closure\<close>

definition hasSuccessorLink :: "string \<Rightarrow> bool prog" where
  "hasSuccessorLink contractId = do {
     incoming \<leftarrow> call (limited 1 (q_select db_links
       (\<lambda>l. l_to l = contractId \<and> l_type l \<in> {Continues, Supersedes})));
     outgoing \<leftarrow> call (limited 1 (q_select db_links (\<lambda>l. l_from l = contractId \<and> l_type l = DelegatesTo)));
     State_Monad.return (length (rows_of incoming) > 0 \<or> length (rows_of outgoing) > 0)
   }"

record closure_notice =
  cn_contractId :: string
  cn_excludeAgentId :: "string option"
  cn_status :: contract_status
  cn_closedBy :: "string option"
  cn_closedByKind :: "closed_by_kind option"
  cn_reason :: "string option"
  cn_currentTurns :: "int option"
  cn_maxTurns :: "int option"
  cn_completionApprovedAt :: "timestamp option"
  cn_closedWithoutApproval :: "bool option"

fun kind_json :: "closed_by_kind option \<Rightarrow> json" where
  "kind_json None = JNull"
| "kind_json (Some ByAgent) = JStr ''agent''"
| "kind_json (Some ByUser) = JStr ''user''"
| "kind_json (Some BySystem) = JStr ''system''"

definition jint_or_null :: "int option \<Rightarrow> json" where
  "jint_or_null i = (case i of None \<Rightarrow> JNull | Some n \<Rightarrow> jint n)"

definition closure_event :: "closure_notice \<Rightarrow> string list \<Rightarrow> bool \<Rightarrow> webhook_event" where
  "closure_event input recipientIds hasSuccessor =
     (let outcome = resolveCloseOutcome (cn_closedBy input) (cn_completionApprovedAt input)
            (cn_closedWithoutApproval input);
          hint = (if needsSuccessorHint outcome hasSuccessor then Some (successorHint (cn_contractId input)) else None)
      in \<lparr>we_targets = recipientIds,
          we_event = (if cn_status input = SExpired then ''contract.expired'' else ''contract.closed''),
          we_contract_id = Some (cn_contractId input),
          we_project_id = None, we_task_id = None, we_sprint_id = None, we_approval_id = None,
          we_data = [(''status'', JStr (status_name (cn_status input))),
            (''outcome'', JStr (outcome_name outcome)),
            (''work_accepted'', JBool (outcomeIsSuccess outcome)),
            (''closed_by'', jstr_or_null (cn_closedBy input)),
            (''closed_by_kind'', kind_json (cn_closedByKind input)),
            (''reason'', jstr_or_null (cn_reason input)),
            (''current_turns'', jint_or_null (cn_currentTurns input)),
            (''max_turns'', jint_or_null (cn_maxTurns input)),
            (''completion_approved_at'', jtime_or_null (cn_completionApprovedAt input)),
            (''closed_without_approval'', JBool (cn_closedWithoutApproval input = Some True)),
            (''successor_hint'', jstr_or_null hint)]\<rparr>)"

definition emitContractClosed :: "closure_notice \<Rightarrow> unit prog" where
  "emitContractClosed input = do {
     participants \<leftarrow> call (q_select db_participants
       (\<lambda>p. p_contract_id p = cn_contractId input \<and>
            (\<not> truthy_str (cn_excludeAgentId input) \<or> p_agent_id p \<noteq> the (cn_excludeAgentId input))));
     let recipientIds = map p_agent_id (rows_of participants);
     if recipientIds = [] then State_Monad.return ()
     else do {
       let outcome = resolveCloseOutcome (cn_closedBy input) (cn_completionApprovedAt input)
         (cn_closedWithoutApproval input);
       hasSuccessor \<leftarrow> (if outcomeIsSuccess outcome then State_Monad.return True
                        else hasSuccessorLink (cn_contractId input));
       deliver (closure_event input recipientIds hasSuccessor)
     }
   }"

section \<open>Expiry\<close>

definition is_live :: "contract_status \<Rightarrow> bool" where
  "is_live s \<longleftrightarrow> s = SProposed \<or> s = SActive"

definition has_expired :: "contract_row \<Rightarrow> timestamp \<Rightarrow> bool" where
  "has_expired contract now \<longleftrightarrow>
     is_live (c_status contract) \<and> (case c_expires_at contract of None \<Rightarrow> False | Some t \<Rightarrow> t < now)"

definition expiry_status :: "contract_row \<Rightarrow> contract_status" where
  "expiry_status contract = (if c_status contract = SProposed then SExpired else SClosed)"

definition expiry_reason :: "contract_row \<Rightarrow> string" where
  "expiry_reason contract =
     (if c_status contract = SProposed then ''Expired before activation'' else ''Contract expired'')"

definition autoCloseIfExpired :: "contract_row \<Rightarrow> contract_row prog" where
  "autoCloseIfExpired contract = do {
     now \<leftarrow> clock;
     if has_expired contract now then do {
       let newStatus = expiry_status contract;
       let closeReason = expiry_reason contract;
       updated \<leftarrow> call (shaped shape_single (q_update db_contracts db_contracts_update
         (\<lambda>c. c_id c = c_id contract)
         (\<lambda>c. c\<lparr>c_status := newStatus, c_close_reason := Some closeReason, c_closed_by := Some ''system:expiry'',
                c_closed_by_kind := Some BySystem, c_closed_at := Some now, c_updated_at := now\<rparr>)));
       let closed = (case data_of updated of
           Some c \<Rightarrow> c
         | None \<Rightarrow> contract\<lparr>c_status := newStatus, c_close_reason := Some closeReason\<rparr>);
       emitContractClosed \<lparr>cn_contractId = c_id contract, cn_excludeAgentId = None, cn_status = newStatus,
         cn_closedBy = Some ''system:expiry'', cn_closedByKind = Some BySystem, cn_reason = Some closeReason,
         cn_currentTurns = Some (c_current_turns closed), cn_maxTurns = Some (c_max_turns closed),
         cn_completionApprovedAt = c_completion_approved_at closed, cn_closedWithoutApproval = None\<rparr>;
       State_Monad.return closed
     }
     else State_Monad.return contract
   }"

section \<open>Reading a contract for an agent\<close>

text \<open>
  \<open>latest_contract_messages\<close> (\<open>migrations/20260918100000_latest_contract_messages.sql\<close>): per contract a
  message with the greatest \<open>created_at\<close>; among equal ones the last row.
\<close>

definition latest_of :: "message_row list \<Rightarrow> message_row option" where
  "latest_of ms = fold (\<lambda>m acc. case acc of None \<Rightarrow> Some m
       | Some a \<Rightarrow> if m_created_at a \<le> m_created_at m then Some m else Some a) ms None"

definition q_latest_messages :: "string list \<Rightarrow> message_row list statement" where
  "q_latest_messages ids d =
     (Inr (List.map_filter (\<lambda>i. latest_of (filter (\<lambda>m. m_contract_id m = i) (db_messages d))) ids), d)"

definition last_message_of :: "message_row \<Rightarrow> ts_message" where
  "last_message_of m =
     \<lparr>tm_sender_id = m_sender_id m, tm_message_type = message_type_name (m_type m),
      tm_requires_action = Some (m_requires_action m), tm_consumes_turn = Some (m_consumes_turn m),
      tm_created_at = m_created_at m\<rparr>"

definition getLastMessages :: "string list \<Rightarrow> (string \<rightharpoonup> ts_message) prog" where
  "getLastMessages contractIds =
     (if contractIds = [] then State_Monad.return Map.empty
      else do {
        r \<leftarrow> call (q_latest_messages contractIds);
        State_Monad.return (map_of (rev (map (\<lambda>m. (m_contract_id m, last_message_of m)) (rows_of r))))
      })"

record agent_brief =
  ab_id :: string
  ab_name :: string
  ab_display_name :: string

record participant_brief =
  pb_agent :: agent_brief
  pb_role :: participant_role
  pb_status :: participant_status

record enrich_options =
  eo_related :: "related_contract list option"
  eo_viewer :: "string option"
  eo_last_message :: "ts_message option option"
  eo_channel :: "operator_channel option"
  eo_bodies :: bool

definition default_options :: enrich_options where
  "default_options = \<lparr>eo_related = None, eo_viewer = None, eo_last_message = None, eo_channel = None, eo_bodies = False\<rparr>"

record contract_response =
  co_contract :: contract_row
  co_proposer :: agent_brief
  co_participants :: "participant_brief list"
  co_attachments :: "attachment_row list"
  co_linked_task :: "linked_task option"
  co_related :: "related_contract list"
  co_turn_state :: "turn_state option"
  co_bodies :: "(note_summary list \<times> question_summary list) option"
  co_counts :: channel_counts

definition brief :: "agent_row \<Rightarrow> agent_brief" where
  "brief a = \<lparr>ab_id = ag_id a, ab_name = ag_name a, ab_display_name = ag_display_name a\<rparr>"

definition unknown_agent :: "string \<Rightarrow> agent_brief" where
  "unknown_agent aid = \<lparr>ab_id = aid, ab_name = ''unknown'', ab_display_name = ''Unknown''\<rparr>"

definition ts_contract_of :: "contract_row \<Rightarrow> ts_contract" where
  "ts_contract_of c =
     \<lparr>tc_status = c_status c, tc_proposer_id = c_proposer_id c, tc_current_turns = c_current_turns c,
      tc_max_turns = c_max_turns c, tc_completion_requires_approval = c_completion_requires_approval c,
      tc_completion_approved_at = c_completion_approved_at c\<rparr>"

definition ts_participant_of :: "(string \<rightharpoonup> agent_row) \<Rightarrow> participant_row \<Rightarrow> ts_participant" where
  "ts_participant_of agentMap p =
     \<lparr>tp_agent_id = p_agent_id p, tp_role = p_role p, tp_status = p_status p,
      tp_name = (case agentMap (p_agent_id p) of
         None \<Rightarrow> None
       | Some a \<Rightarrow> if ag_display_name a \<noteq> [] then Some (ag_display_name a)
                   else if ag_name a \<noteq> [] then Some (ag_name a) else None)\<rparr>"

definition blocking_questions :: "question_summary list \<Rightarrow> ts_question list" where
  "blocking_questions qs =
     map (\<lambda>q. \<lparr>tq_asked_by_agent_id = qs_asked_by q, tq_kind = kind_name (qs_kind q)\<rparr>)
       (filter (\<lambda>q. qs_status q = QOpen \<and> qs_blocking q) qs)"

definition enrich_turn_state ::
  "contract_row \<Rightarrow> enrich_options \<Rightarrow> participant_row list \<Rightarrow> (string \<rightharpoonup> agent_row) \<Rightarrow> operator_channel \<Rightarrow>
   turn_state option prog" where
  "enrich_turn_state contract options participantRows agentMap channel =
     (if \<not> truthy_str (eo_viewer options) then State_Monad.return None
      else do {
        lastMessage \<leftarrow> (case eo_last_message options of
            Some m \<Rightarrow> State_Monad.return m
          | None \<Rightarrow> do { ms \<leftarrow> getLastMessages [c_id contract]; State_Monad.return (ms (c_id contract)) });
        State_Monad.return (Some (deriveContractTurnState (ts_contract_of contract) (the (eo_viewer options))
          (map (ts_participant_of agentMap) participantRows) lastMessage
          (blocking_questions (oc_questions channel))))
      })"

definition enrichContract :: "contract_row \<Rightarrow> enrich_options \<Rightarrow> contract_response prog" where
  "enrichContract contract options = do {
     proposer \<leftarrow> call (shaped shape_single (q_select db_agents (\<lambda>a. ag_id a = c_proposer_id contract)));
     participants \<leftarrow> call (q_select db_participants (\<lambda>p. p_contract_id p = c_id contract));
     let participantRows = rows_of participants;
     agents \<leftarrow> call (q_select db_agents (\<lambda>a. ag_id a \<in> set (map p_agent_id participantRows)));
     let agentMap = map_of (rev (map (\<lambda>a. (ag_id a, a)) (rows_of agents)));
     linkedTask \<leftarrow> getLinkedTask (c_id contract);
     attachments \<leftarrow> (case linkedTask of
         None \<Rightarrow> State_Monad.return (Inr [])
       | Some t \<Rightarrow> listAttachmentsForScope (lt_project_id t) None (Some (c_id contract)));
     channel \<leftarrow> (case eo_channel options of
         Some ch \<Rightarrow> State_Monad.return ch
       | None \<Rightarrow> getOperatorChannel (c_id contract) (eo_viewer options) False);
     turnState \<leftarrow> enrich_turn_state contract options participantRows agentMap channel;
     related \<leftarrow> (case eo_related options of
         Some rs \<Rightarrow> State_Monad.return rs
       | None \<Rightarrow> getRelatedContracts (c_id contract));
     State_Monad.return
       \<lparr>co_contract = contract,
        co_proposer = (case data_of proposer of Some a \<Rightarrow> brief a | None \<Rightarrow> unknown_agent (c_proposer_id contract)),
        co_participants = map (\<lambda>p. \<lparr>pb_agent = (case agentMap (p_agent_id p) of
              Some a \<Rightarrow> brief a | None \<Rightarrow> unknown_agent (p_agent_id p)),
            pb_role = p_role p, pb_status = p_status p\<rparr>) participantRows,
        co_attachments = (case attachments of Inl _ \<Rightarrow> [] | Inr rows \<Rightarrow> rows),
        co_linked_task = linkedTask,
        co_related = related,
        co_turn_state = turnState,
        co_bodies = (if eo_bodies options then Some (oc_notes channel, oc_questions channel) else None),
        co_counts = oc_counts channel\<rparr>
   }"

section \<open>Participation and activation\<close>

definition getParticipant :: "string \<Rightarrow> string \<Rightarrow> participant_row option prog" where
  "getParticipant contractId agentId = do {
     r \<leftarrow> call (shaped shape_single
       (q_select db_participants (\<lambda>p. p_contract_id p = contractId \<and> p_agent_id p = agentId)));
     State_Monad.return (data_of r)
   }"

definition activateIfAllAccepted :: "string \<Rightarrow> bool prog" where
  "activateIfAllAccepted contractId = do {
     r \<leftarrow> call (q_select db_participants (\<lambda>p. p_contract_id p = contractId));
     let participants = rows_of r;
     if participants = [] then State_Monad.return False
     else if list_all (\<lambda>p. p_status p = PAccepted) participants then do {
       now \<leftarrow> clock;
       activated \<leftarrow> call (shaped shape_maybe (q_update db_contracts db_contracts_update
         (\<lambda>c. c_id c = contractId \<and> c_status c = SProposed)
         (\<lambda>c. c\<lparr>c_status := SActive, c_updated_at := now\<rparr>)));
       State_Monad.return (maybe_of activated \<noteq> None)
     }
     else State_Monad.return False
   }"

end
