(* ===== verification/MessageSql.thy ===== *)
theory MessageSql
  imports RelyGuarantee
begin

text \<open>
  The database function every message goes through (\<open>insert_message_atomic\<close>,
  \<open>migrations/20260917160000_persist_turn_accounting.sql\<close>): it locks the contract, stores the message
  with its accounting and closes the contract when the budget is spent or the work is approved.
\<close>

record rpc_ok =
  ro_message_id :: string
  ro_message_created_at :: timestamp
  ro_consumes_turn :: bool
  ro_requires_action :: bool
  ro_turn_number :: int
  ro_new_turns :: int
  ro_max_turns :: int
  ro_max_reached :: bool
  ro_awaiting_completion_approval :: bool
  ro_completion_approved_at :: "timestamp option"
  ro_completed :: bool

datatype rpc_result = RpcError string string | RpcOk rpc_ok

definition sql_requires_action :: "message_type \<Rightarrow> bool option \<Rightarrow> bool" where
  "sql_requires_action arg_message_type arg_requires_action =
     (if \<not> consumesTurn arg_message_type then False
      else if arg_message_type = MRequest then True
      else (case arg_requires_action of None \<Rightarrow> True | Some b \<Rightarrow> b))"

text \<open>The refusals, in their order; \<open>None\<close> means the message is stored.\<close>

definition insert_message_refusal :: "contract_row \<Rightarrow> string \<Rightarrow> message_type \<Rightarrow> bool \<Rightarrow> rpc_result option" where
  "insert_message_refusal v_contract arg_sender_id arg_message_type arg_approves_completion =
     (if c_status v_contract \<noteq> SActive then
        Some (RpcError ''INVALID_STATE'' (''Contract is '' @ status_name (c_status v_contract) @
          '', can only send messages to active contracts''))
      else if consumesTurn arg_message_type \<and> c_current_turns v_contract \<ge> c_max_turns v_contract then
        Some (RpcError ''MAX_TURNS'' ''Max turns reached'')
      else if arg_approves_completion \<and> arg_sender_id \<noteq> c_proposer_id v_contract then
        Some (RpcError ''FORBIDDEN'' ''Only the contract proposer can approve completion'')
      else None)"

definition new_turns :: "contract_row \<Rightarrow> message_type \<Rightarrow> int" where
  "new_turns v_contract arg_message_type =
     c_current_turns v_contract + (if consumesTurn arg_message_type then 1 else 0)"

definition approved_at_after :: "contract_row \<Rightarrow> bool \<Rightarrow> timestamp \<Rightarrow> timestamp option" where
  "approved_at_after v_contract arg_approves_completion now =
     (if arg_approves_completion \<and> c_completion_approved_at v_contract = None then Some now
      else c_completion_approved_at v_contract)"

definition approved_by_after :: "contract_row \<Rightarrow> bool \<Rightarrow> string \<Rightarrow> string option" where
  "approved_by_after v_contract arg_approves_completion arg_sender_id =
     (if arg_approves_completion \<and> c_completion_approved_at v_contract = None then Some arg_sender_id
      else c_completion_approved_by v_contract)"

text \<open>The update of a non-turn message, and the update of one that spends a turn.\<close>

definition system_close :: "bool \<Rightarrow> string \<Rightarrow> string \<Rightarrow> timestamp \<Rightarrow> contract_row \<Rightarrow> contract_row" where
  "system_close closes reason by now c =
     (if closes then c\<lparr>c_status := SClosed, c_close_reason := Some reason, c_closed_by := Some by,
                      c_closed_by_kind := Some BySystem, c_closed_at := Some now\<rparr>
      else c)"

definition completes :: "contract_row \<Rightarrow> bool \<Rightarrow> bool" where
  "completes v_contract arg_approves_completion \<longleftrightarrow>
     arg_approves_completion \<and> c_completion_requires_approval v_contract \<and>
     c_current_turns v_contract \<ge> c_max_turns v_contract"

definition after_non_turn :: "contract_row \<Rightarrow> bool \<Rightarrow> string \<Rightarrow> timestamp \<Rightarrow> contract_row \<Rightarrow> contract_row" where
  "after_non_turn v_contract arg_approves_completion arg_sender_id now c =
     system_close (completes v_contract arg_approves_completion)
       ''Completed with proposer approval'' ''system:completion-approved'' now
       (c\<lparr>c_updated_at := now,
          c_completion_approved_at := approved_at_after v_contract arg_approves_completion now,
          c_completion_approved_by := approved_by_after v_contract arg_approves_completion arg_sender_id\<rparr>)"

definition approval_pending :: "contract_row \<Rightarrow> bool \<Rightarrow> timestamp \<Rightarrow> bool" where
  "approval_pending v_contract arg_approves_completion now \<longleftrightarrow>
     c_completion_requires_approval v_contract \<and> approved_at_after v_contract arg_approves_completion now = None"

definition max_reached :: "contract_row \<Rightarrow> message_type \<Rightarrow> bool" where
  "max_reached v_contract arg_message_type \<longleftrightarrow> new_turns v_contract arg_message_type \<ge> c_max_turns v_contract"

definition after_turn ::
  "contract_row \<Rightarrow> message_type \<Rightarrow> bool \<Rightarrow> string \<Rightarrow> timestamp \<Rightarrow> contract_row \<Rightarrow> contract_row" where
  "after_turn v_contract arg_message_type arg_approves_completion arg_sender_id now c =
     system_close (max_reached v_contract arg_message_type \<and> \<not> approval_pending v_contract arg_approves_completion now)
       ''Max turns reached'' ''system:max-turns'' now
       (c\<lparr>c_current_turns := new_turns v_contract arg_message_type, c_updated_at := now,
          c_completion_approved_at := approved_at_after v_contract arg_approves_completion now,
          c_completion_approved_by := approved_by_after v_contract arg_approves_completion arg_sender_id\<rparr>)"

definition insert_message_atomic ::
  "string \<Rightarrow> string \<Rightarrow> message_type \<Rightarrow> content \<Rightarrow> bool \<Rightarrow> bool option \<Rightarrow> rpc_result statement" where
  "insert_message_atomic arg_contract_id arg_sender_id arg_message_type arg_content arg_approves_completion arg_requires_action d =
     (case find (\<lambda>c. c_id c = arg_contract_id) (db_contracts d) of
        None \<Rightarrow> (Inr (RpcError ''CONTRACT_NOT_FOUND'' ''Contract not found''), d)
      | Some v_contract \<Rightarrow>
         (case insert_message_refusal v_contract arg_sender_id arg_message_type arg_approves_completion of
            Some r \<Rightarrow> (Inr r, d)
          | None \<Rightarrow>
             let now = db_now d;
                 consumes = consumesTurn arg_message_type;
                 turns = new_turns v_contract arg_message_type;
                 message = \<lparr>m_id = db_ids d (db_next d), m_contract_id = arg_contract_id, m_sender_id = arg_sender_id,
                    m_type = arg_message_type, m_content = arg_content, m_created_at = now,
                    m_requires_action = sql_requires_action arg_message_type arg_requires_action,
                    m_consumes_turn = consumes, m_turn_number = Some turns\<rparr>;
                 after = (if consumes
                    then after_turn v_contract arg_message_type arg_approves_completion arg_sender_id now
                    else after_non_turn v_contract arg_approves_completion arg_sender_id now)
             in (Inr (RpcOk
                   \<lparr>ro_message_id = m_id message, ro_message_created_at = now, ro_consumes_turn = consumes,
                    ro_requires_action = m_requires_action message, ro_turn_number = turns,
                    ro_new_turns = turns, ro_max_turns = c_max_turns v_contract,
                    ro_max_reached = max_reached v_contract arg_message_type,
                    ro_awaiting_completion_approval =
                      (consumes \<and> max_reached v_contract arg_message_type
                       \<and> approval_pending v_contract arg_approves_completion now),
                    ro_completion_approved_at = approved_at_after v_contract arg_approves_completion now,
                    ro_completed = (\<not> consumes \<and> completes v_contract arg_approves_completion)\<rparr>),
                 d\<lparr>db_messages := db_messages d @ [message],
                   db_contracts := map (\<lambda>c. if c_id c = arg_contract_id then after c else c) (db_contracts d),
                   db_next := Suc (db_next d)\<rparr>)))"

end
