(* ===== verification/ContractLifecycle.thy ===== *)
theory ContractLifecycle
  imports ContractHelpers MessageSql
begin

text \<open>
  What every request of the API does to the contracts, as one relation on databases: a contract only
  moves forward, its terms never change, and the invariants of its rows are kept. The routes are
  shown to respect it while other requests that respect it run in between.
\<close>

section \<open>The relation\<close>

fun status_rank :: "contract_status \<Rightarrow> nat" where
  "status_rank SProposed = 0"
| "status_rank SActive = 1"
| "status_rank _ = 2"

definition evolves :: "contract_row \<Rightarrow> contract_row \<Rightarrow> bool" where
  "evolves c c' \<longleftrightarrow>
     c_id c' = c_id c \<and> c_proposer_id c' = c_proposer_id c \<and> c_max_turns c' = c_max_turns c \<and>
     c_completion_requires_approval c' = c_completion_requires_approval c \<and>
     status_rank (c_status c) \<le> status_rank (c_status c') \<and>
     (c_completion_approved_at c \<noteq> None \<longrightarrow> c_completion_approved_at c' = c_completion_approved_at c) \<and>
     c_current_turns c \<le> c_current_turns c' \<and>
     (\<not> is_live (c_status c) \<or> c_status c' = SProposed \<longrightarrow>
        c_current_turns c' = c_current_turns c \<and> c_completion_approved_at c' = c_completion_approved_at c)"

definition p_evolves :: "participant_row \<Rightarrow> participant_row \<Rightarrow> bool" where
  "p_evolves p p' \<longleftrightarrow>
     p_contract_id p' = p_contract_id p \<and> p_agent_id p' = p_agent_id p \<and> p_role p' = p_role p \<and>
     (p_status p \<noteq> PPending \<longrightarrow> p_status p' = p_status p)"

definition crows :: "db \<Rightarrow> string \<Rightarrow> contract_row list" where
  "crows d i = filter (\<lambda>c. c_id c = i) (db_contracts d)"

definition parts :: "db \<Rightarrow> string \<Rightarrow> participant_row list" where
  "parts d i = filter (\<lambda>p. p_contract_id p = i) (db_participants d)"

text \<open>An id the supply has handed out, or never will.\<close>

definition spent :: "db \<Rightarrow> string \<Rightarrow> bool" where
  "spent d i \<longleftrightarrow> (\<forall>k\<ge>db_next d. db_ids d k \<noteq> i)"

text \<open>
  A contract that is there evolves, or is deleted (a proposal that fails half way takes its contract
  back), and its id is not used again.
\<close>

definition lifecycle :: "db \<Rightarrow> db \<Rightarrow> bool" where
  "lifecycle d d' \<longleftrightarrow>
     db_ids d' = db_ids d \<and> db_next d \<le> db_next d' \<and>
     (\<forall>i. (crows d i \<noteq> [] \<longrightarrow> list_all2 evolves (crows d i) (crows d' i) \<or> crows d' i = []) \<and>
          (parts d i \<noteq> [] \<longrightarrow> list_all2 p_evolves (parts d i) (parts d' i) \<or> crows d' i = []) \<and>
          (spent d i \<and> crows d i = [] \<longrightarrow> crows d' i = []))"

section \<open>The invariants\<close>

text \<open>The messages that spent a turn of a contract.\<close>

definition turns_spent :: "db \<Rightarrow> string \<Rightarrow> int" where
  "turns_spent d i = int (length (filter (\<lambda>m. m_contract_id m = i \<and> m_consumes_turn m) (db_messages d)))"

text \<open>
  A gated contract that an agent closed, or that a message closed, has its approval recorded, or
  says that it was closed without one.
\<close>

definition gate_respected :: "contract_row \<Rightarrow> bool" where
  "gate_respected c \<longleftrightarrow>
     (c_completion_requires_approval c \<and> c_status c = SClosed \<and>
      (c_closed_by_kind c = Some ByAgent \<or>
       c_closed_by c \<in> {Some ''system:max-turns'', Some ''system:completion-approved''})
      \<longrightarrow> c_completion_approved_at c \<noteq> None \<or> c_closed_without_approval c)"

text \<open>The budget is not exceeded; one that is not positive allows no turn.\<close>

definition turns_bounded :: "contract_row \<Rightarrow> bool" where
  "turns_bounded c \<longleftrightarrow> 0 \<le> c_current_turns c \<and> c_current_turns c \<le> max 0 (c_max_turns c)"

definition row_ok :: "db \<Rightarrow> contract_row \<Rightarrow> bool" where
  "row_ok d c \<longleftrightarrow>
     turns_bounded c \<and> gate_respected c \<and> c_current_turns c = turns_spent d (c_id c) \<and>
     (c_status c = SActive \<longrightarrow> parts d (c_id c) \<noteq> [] \<and> (\<forall>p\<in>set (parts d (c_id c)). p_status p = PAccepted)) \<and>
     (parts d (c_id c) \<noteq> [] \<longrightarrow> c_proposer_id c \<in> p_agent_id ` set (parts d (c_id c)))"

text \<open>
  The ids of the supply are distinct, no contract has an id that is still to come, and participants
  and messages belong to contracts (foreign keys).
\<close>

definition keys_ok :: "db \<Rightarrow> bool" where
  "keys_ok d \<longleftrightarrow>
     inj (db_ids d) \<and> distinct (map c_id (db_contracts d)) \<and>
     (\<forall>i\<in>c_id ` set (db_contracts d). spent d i) \<and>
     p_contract_id ` set (db_participants d) \<subseteq> c_id ` set (db_contracts d) \<and>
     m_contract_id ` set (db_messages d) \<subseteq> c_id ` set (db_contracts d)"

definition contracts_ok :: "db \<Rightarrow> bool" where
  "contracts_ok d \<longleftrightarrow> keys_ok d \<and> (\<forall>c\<in>set (db_contracts d). row_ok d c)"

definition orderly :: "db \<Rightarrow> db \<Rightarrow> bool" where
  "orderly d d' \<longleftrightarrow> (contracts_ok d \<longrightarrow> lifecycle d d' \<and> contracts_ok d')"

section \<open>Lemmas\<close>

lemma evolves_refl [simp]: "evolves c c"
  by (simp add: evolves_def)

lemma status_rank_live: "\<not> is_live s \<longleftrightarrow> status_rank s = 2"
  by (cases s) (simp_all add: is_live_def)

lemma status_rank_le: "status_rank s \<le> 2"
  by (cases s) simp_all

lemma status_rank_proposed: "status_rank s = 0 \<longleftrightarrow> s = SProposed"
  by (cases s) simp_all

lemma evolves_trans: "evolves a b \<Longrightarrow> evolves b c \<Longrightarrow> evolves a c"
proof -
  assume ab: "evolves a b" and bc: "evolves b c"
  have "\<not> is_live (c_status b)" if "\<not> is_live (c_status a)"
    using that ab status_rank_le [of "c_status b"] by (simp add: evolves_def status_rank_live)
  moreover have "c_status b = SProposed" if "c_status c = SProposed"
    using that bc status_rank_proposed [of "c_status b"] by (simp add: evolves_def)
  ultimately show ?thesis using ab bc unfolding evolves_def by auto
qed

lemma p_evolves_refl [simp]: "p_evolves p p"
  by (simp add: p_evolves_def)

lemma p_evolves_trans: "p_evolves a b \<Longrightarrow> p_evolves b c \<Longrightarrow> p_evolves a c"
  by (auto simp: p_evolves_def)

lemma list_all2_Nil_iff: "list_all2 P xs ys \<Longrightarrow> xs = [] \<longleftrightarrow> ys = []"
  by auto

lemma lifecycle_refl: "lifecycle d d"
  by (simp add: lifecycle_def list_all2_refl)

lemma spent_stays: "lifecycle d d' \<Longrightarrow> spent d i \<Longrightarrow> spent d' i"
  by (auto simp: lifecycle_def spent_def)

lemma crows_Nil: "crows d i = [] \<longleftrightarrow> i \<notin> c_id ` set (db_contracts d)"
  by (auto simp: crows_def filter_empty_conv)

lemma parts_Nil: "parts d i = [] \<longleftrightarrow> i \<notin> p_contract_id ` set (db_participants d)"
  by (auto simp: parts_def filter_empty_conv)

lemma crows_spent: "contracts_ok d \<Longrightarrow> crows d i \<noteq> [] \<Longrightarrow> spent d i"
  by (auto simp: contracts_ok_def keys_ok_def crows_Nil)

lemma parts_crows: "contracts_ok d \<Longrightarrow> parts d i \<noteq> [] \<Longrightarrow> crows d i \<noteq> []"
  by (auto simp: contracts_ok_def keys_ok_def crows_Nil parts_Nil)

lemma vanished_stays: "lifecycle d d' \<Longrightarrow> spent d i \<Longrightarrow> crows d i = [] \<Longrightarrow> crows d' i = []"
  by (auto simp: lifecycle_def)

lemma evolves_list_trans:
  "list_all2 evolves xs ys \<Longrightarrow> list_all2 evolves ys zs \<Longrightarrow> list_all2 evolves xs zs"
  by (rule list_all2_trans [OF evolves_trans])

lemma p_evolves_list_trans:
  "list_all2 p_evolves xs ys \<Longrightarrow> list_all2 p_evolves ys zs \<Longrightarrow> list_all2 p_evolves xs zs"
  by (rule list_all2_trans [OF p_evolves_trans])

lemma lifecycle_trans:
  assumes ok: "contracts_ok a" "contracts_ok b" and l: "lifecycle a b" "lifecycle b c"
  shows "lifecycle a c"
proof -
  have rows: "list_all2 evolves (crows a i) (crows c i) \<or> crows c i = []" if "crows a i \<noteq> []" for i
  proof (cases "crows b i = []")
    case True
    with that ok l show ?thesis using vanished_stays spent_stays crows_spent by blast
  next
    case False
    with that l have "list_all2 evolves (crows a i) (crows b i)"
      "list_all2 evolves (crows b i) (crows c i) \<or> crows c i = []"
      by (auto simp: lifecycle_def)
    then show ?thesis using evolves_list_trans by blast
  qed
  have ps: "list_all2 p_evolves (parts a i) (parts c i) \<or> crows c i = []" if "parts a i \<noteq> []" for i
  proof (cases "crows b i = []")
    case True
    with that ok l show ?thesis using vanished_stays spent_stays crows_spent parts_crows by blast
  next
    case False
    with that l have ab: "list_all2 p_evolves (parts a i) (parts b i)" by (auto simp: lifecycle_def)
    with that have "parts b i \<noteq> []" using list_all2_Nil_iff by blast
    with l have "list_all2 p_evolves (parts b i) (parts c i) \<or> crows c i = []" by (auto simp: lifecycle_def)
    with ab show ?thesis using p_evolves_list_trans by blast
  qed
  have "crows c i = []" if "spent a i" "crows a i = []" for i
    using that l vanished_stays spent_stays by blast
  with rows ps l show ?thesis by (auto simp: lifecycle_def)
qed

lemma orderly_refl: "orderly d d"
  by (simp add: orderly_def lifecycle_refl)

lemma orderly_trans: "orderly a b \<Longrightarrow> orderly b c \<Longrightarrow> orderly a c"
  unfolding orderly_def using lifecycle_trans by blast

lemma filter_key_map:
  "(\<And>x. x \<in> set xs \<Longrightarrow> k (g x) = k x) \<Longrightarrow> filter (\<lambda>x. k x = i) (map g xs) = map g (filter (\<lambda>x. k x = i) xs)"
  by (induction xs) auto

lemma list_all2_map_same: "(\<And>x. x \<in> set xs \<Longrightarrow> P x (g x)) \<Longrightarrow> list_all2 P xs (map g xs)"
  by (induction xs) auto

text \<open>
  Statements that leave the contracts alone, and take at most new ids; those that leave all tables
  alone whose rows a relation of this development follows (the approvals and the links too).
\<close>

definition same_contracts :: "db \<Rightarrow> db \<Rightarrow> bool" where
  "same_contracts d d' \<longleftrightarrow>
     db_contracts d' = db_contracts d \<and> db_participants d' = db_participants d \<and>
     db_messages d' = db_messages d \<and> db_ids d' = db_ids d \<and> db_next d \<le> db_next d'"

definition same_tracked :: "db \<Rightarrow> db \<Rightarrow> bool" where
  "same_tracked d d' \<longleftrightarrow>
     same_contracts d d' \<and> db_approvals d' = db_approvals d \<and> db_links d' = db_links d"

declare same_contracts_def [simp] same_tracked_def [simp]

lemma same_with_fresh:
  assumes "\<And>f d. same_tracked d (snd (q f d))"
  shows "same_tracked d (snd (with_fresh q d))"
  using assms [of "d\<lparr>db_next := Suc (db_next d)\<rparr>" "db_ids d (db_next d)"] by (simp add: with_fresh_def)

lemma orderly_same: "same_contracts d d' \<Longrightarrow> orderly d d'"
  unfolding same_contracts_def orderly_def lifecycle_def contracts_ok_def keys_ok_def
  by (auto simp: crows_def parts_def row_ok_def turns_spent_def spent_def list_all2_refl)

text \<open>Changing contract rows.\<close>

lemma lifecycle_map_contracts:
  assumes "\<And>c. c \<in> set (db_contracts d) \<Longrightarrow> evolves c (g c)"
    and "db_contracts d' = map g (db_contracts d)" and "db_participants d' = db_participants d"
    and "db_ids d' = db_ids d" and "db_next d \<le> db_next d'"
  shows "lifecycle d d'"
proof -
  have "crows d' i = map g (crows d i)" for i
    unfolding crows_def assms(2) using assms(1) by (intro filter_key_map) (auto simp: evolves_def)
  moreover have "list_all2 evolves (crows d i) (map g (crows d i))" for i
    using assms(1) by (intro list_all2_map_same) (simp add: crows_def)
  ultimately show ?thesis
    using assms(3-5) by (simp add: lifecycle_def parts_def list_all2_refl)
qed

lemma keys_map_contracts:
  assumes "\<And>c. c \<in> set (db_contracts d) \<Longrightarrow> c_id (g c) = c_id c" and "keys_ok d"
    and "db_contracts d' = map g (db_contracts d)" and "db_participants d' = db_participants d"
    and "m_contract_id ` set (db_messages d') \<subseteq> c_id ` set (db_contracts d)"
    and "db_ids d' = db_ids d" and "db_next d \<le> db_next d'"
  shows "keys_ok d'"
proof -
  have m: "map c_id (db_contracts d') = map c_id (db_contracts d)"
    using assms(1,3) by simp
  then have e: "c_id ` set (db_contracts d') = c_id ` set (db_contracts d)"
    by (metis list.set_map)
  have "spent d i \<Longrightarrow> spent d' i" for i
    using assms(6,7) by (simp add: spent_def)
  with assms(2,4-7) show ?thesis
    unfolding keys_ok_def m e by auto
qed

lemma participants_of_update: "db_participants (db_participants_update f d) = f (db_participants d)"
  by simp

lemma image_map_same: "(\<And>x. x \<in> set xs \<Longrightarrow> k (g x) = k x) \<Longrightarrow> k ` set (map g xs) = k ` set xs"
  by (induction xs) auto

lemma keys_same:
  assumes "keys_ok d" and "p_contract_id ` set (db_participants d') = p_contract_id ` set (db_participants d)"
    and "db_contracts d' = db_contracts d" and "db_messages d' = db_messages d"
    and "db_ids d' = db_ids d" and "db_next d' = db_next d"
  shows "keys_ok d'"
  using assms(1) unfolding keys_ok_def spent_def assms(2-6) .

lemma orderly_update_contracts:
  assumes step: "\<And>c. contracts_ok d \<Longrightarrow> c \<in> set (db_contracts d) \<Longrightarrow> P c \<Longrightarrow> row_ok d c \<Longrightarrow>
      evolves c (f c) \<and> row_ok d (f c)"
  shows "orderly d (db_contracts_update (map (\<lambda>c. if P c then f c else c)) d)"
  unfolding orderly_def
proof (intro impI)
  let ?g = "\<lambda>c. if P c then f c else c"
  let ?d = "db_contracts_update (map ?g) d"
  assume ok: "contracts_ok d"
  have rows: "evolves c (?g c) \<and> row_ok d (?g c)" if "c \<in> set (db_contracts d)" for c
    using step [OF ok that] that ok by (auto simp: contracts_ok_def)
  have "lifecycle d ?d"
    by (rule lifecycle_map_contracts [where g = ?g]) (use rows in auto)
  moreover have "keys_ok ?d"
    by (rule keys_map_contracts [where g = ?g and d = d])
       (use rows ok in \<open>auto simp: evolves_def contracts_ok_def keys_ok_def\<close>)
  moreover have "row_ok ?d c = row_ok d c" for c
    by (simp add: row_ok_def turns_spent_def parts_def)
  moreover have "\<forall>c\<in>set (map ?g (db_contracts d)). row_ok d c"
    using rows unfolding set_map by blast
  ultimately show "lifecycle d ?d \<and> contracts_ok ?d"
    by (simp add: contracts_ok_def)
qed

text \<open>Changing participant rows.\<close>

lemma parts_map_participants:
  assumes "\<And>p. p \<in> set (db_participants d) \<Longrightarrow> p_evolves p (g p)"
  shows "parts (db_participants_update (map g) d) i = map g (parts d i)"
  unfolding parts_def using assms by (simp, intro filter_key_map) (auto simp: p_evolves_def)

lemma orderly_update_participants:
  assumes ev: "\<And>p. p \<in> set (db_participants d) \<Longrightarrow> P p \<Longrightarrow> p_evolves p (f p)"
    and pend: "\<And>p. P p \<Longrightarrow> p_status p = PPending"
  shows "orderly d (db_participants_update (map (\<lambda>p. if P p then f p else p)) d)"
proof -
  let ?g = "\<lambda>p. if P p then f p else p"
  let ?d = "db_participants_update (map ?g) d"
  have ps: "parts ?d i = map ?g (parts d i)" for i
    by (rule parts_map_participants) (simp add: ev)
  have same: "p_agent_id (?g p) = p_agent_id p" "p_contract_id (?g p) = p_contract_id p"
    if "p \<in> set (db_participants d)" for p
    using ev [OF that] by (auto simp: p_evolves_def)
  have agents: "p_agent_id ` set (map ?g (parts d i)) = p_agent_id ` set (parts d i)" for i
    by (rule image_map_same) (use same in \<open>auto simp: parts_def\<close>)
  have "list_all2 p_evolves (parts d i) (map ?g (parts d i))" for i
    by (rule list_all2_map_same) (auto simp: parts_def ev)
  then have "lifecycle d ?d"
    by (simp add: lifecycle_def ps crows_def list_all2_refl)
  moreover have "contracts_ok ?d" if "contracts_ok d"
  proof -
    have "row_ok ?d c" if "row_ok d c" for c
    proof -
      have "\<forall>p\<in>set (map ?g (parts d (c_id c))). p_status p = PAccepted" if "c_status c = SActive"
        using that \<open>row_ok d c\<close> pend by (fastforce simp: row_ok_def)
      with \<open>row_ok d c\<close> show ?thesis unfolding row_ok_def ps agents by (simp add: turns_spent_def)
    qed
    moreover have "keys_ok ?d"
    proof (rule keys_same)
      show "keys_ok d" using that by (simp add: contracts_ok_def)
      show "p_contract_id ` set (db_participants ?d) = p_contract_id ` set (db_participants d)"
        unfolding participants_of_update by (rule image_map_same) (rule same(2))
    qed simp_all
    ultimately show ?thesis using that by (simp add: contracts_ok_def)
  qed
  ultimately show ?thesis by (simp add: orderly_def)
qed

subsection \<open>Storing a message\<close>

lemma find_distinct:
  assumes "distinct (map c_id cs)" "find (\<lambda>c. c_id c = i) cs = Some v" "c \<in> set cs" "c_id c = i"
  shows "c = v"
proof -
  from assms(2) have "v \<in> set cs" "c_id v = i" by (auto simp: find_Some_iff)
  with assms show ?thesis by (auto simp: distinct_map inj_on_def)
qed

lemma system_close_fields [simp]:
  "c_id (system_close b r w n c) = c_id c" "c_proposer_id (system_close b r w n c) = c_proposer_id c"
  "c_max_turns (system_close b r w n c) = c_max_turns c"
  "c_completion_requires_approval (system_close b r w n c) = c_completion_requires_approval c"
  "c_completion_approved_at (system_close b r w n c) = c_completion_approved_at c"
  "c_closed_without_approval (system_close b r w n c) = c_closed_without_approval c"
  "c_current_turns (system_close b r w n c) = c_current_turns c"
  "c_status (system_close b r w n c) = (if b then SClosed else c_status c)"
  "c_closed_by (system_close b r w n c) = (if b then Some w else c_closed_by c)"
  "c_closed_by_kind (system_close b r w n c) = (if b then Some BySystem else c_closed_by_kind c)"
  by (simp_all add: system_close_def)

lemma approved_stays:
  "c_completion_approved_at v \<noteq> None \<Longrightarrow> approved_at_after v a n = c_completion_approved_at v"
  by (simp add: approved_at_after_def)

lemma message_step:
  fixes n :: timestamp
  assumes r: "insert_message_refusal v sender t a = None" and b: "turns_bounded v"
  defines "v' \<equiv> (if consumesTurn t then after_turn v t a sender n v else after_non_turn v a sender n v)"
  shows "evolves v v'" and "turns_bounded v'" and "gate_respected v'"
    and "c_current_turns v' = c_current_turns v + (if consumesTurn t then 1 else 0)"
    and "c_status v' = SActive \<or> c_status v' = SClosed" and "c_id v' = c_id v" and "c_status v = SActive"
    and "c_proposer_id v' = c_proposer_id v"
proof -
  show act: "c_status v = SActive"
    using r by (simp add: insert_message_refusal_def split: if_splits)
  show ct: "c_current_turns v' = c_current_turns v + (if consumesTurn t then 1 else 0)"
    by (simp add: v'_def after_turn_def after_non_turn_def new_turns_def)
  show "c_id v' = c_id v" "c_proposer_id v' = c_proposer_id v"
    by (simp_all add: v'_def after_turn_def after_non_turn_def)
  show st: "c_status v' = SActive \<or> c_status v' = SClosed"
    using act by (simp add: v'_def after_turn_def after_non_turn_def)
  show "evolves v v'"
    using act st ct approved_stays [of v a n]
    by (auto simp: evolves_def v'_def after_turn_def after_non_turn_def is_live_def)
  show "turns_bounded v'"
    using r b by (simp add: v'_def turns_bounded_def after_turn_def after_non_turn_def new_turns_def
        insert_message_refusal_def split: if_splits) (linarith?)
  show "gate_respected v'"
    using act by (auto simp: gate_respected_def v'_def after_turn_def after_non_turn_def approval_pending_def
        completes_def approved_at_after_def split: if_splits)
qed

lemma orderly_insert_message: "orderly d (snd (insert_message_atomic i sender t content a ra d))"
proof (cases "find (\<lambda>c. c_id c = i) (db_contracts d)")
  case None
  then show ?thesis by (simp add: insert_message_atomic_def orderly_refl)
next
  case (Some v)
  show ?thesis
  proof (cases "insert_message_refusal v sender t a")
    case (Some r)
    with \<open>find _ _ = Some v\<close> show ?thesis by (simp add: insert_message_atomic_def orderly_refl)
  next
    case None
    define n where "n = db_now d"
    define after where "after = (\<lambda>c. if consumesTurn t then after_turn v t a sender n c else after_non_turn v a sender n c)"
    define d' where "d' = snd (insert_message_atomic i sender t content a ra d)"
    have contracts: "db_contracts d' = map (\<lambda>c. if c_id c = i then after c else c) (db_contracts d)"
      and participants: "db_participants d' = db_participants d"
      and messages: "\<exists>m. db_messages d' = db_messages d @ [m] \<and> m_contract_id m = i \<and> m_consumes_turn m = consumesTurn t"
      and ids: "db_ids d' = db_ids d" "db_next d \<le> db_next d'"
      using Some None by (simp_all add: d'_def insert_message_atomic_def Let_def n_def after_def)
    have "lifecycle d d' \<and> contracts_ok d'" if ok: "contracts_ok d"
    proof -
      have v: "v \<in> set (db_contracts d)" "c_id v = i" using Some by (auto simp: find_Some_iff)
      have same: "c = v" if "c \<in> set (db_contracts d)" "c_id c = i" for c
        using find_distinct [OF _ Some that] ok by (simp add: contracts_ok_def keys_ok_def)
      have rv: "row_ok d v" using v ok by (simp add: contracts_ok_def)
      then have tb: "turns_bounded v" by (simp add: row_ok_def)
      note step = message_step(1-6,8) [OF None tb, where n = n]
      note act = message_step(7) [OF None tb]
      have step': "evolves v (after v)" "turns_bounded (after v)" "gate_respected (after v)"
        "c_current_turns (after v) = c_current_turns v + (if consumesTurn t then 1 else 0)"
        "c_id (after v) = c_id v" "c_proposer_id (after v) = c_proposer_id v"
        using step(1-4,6,7) by (simp_all add: after_def)
      have spent: "turns_spent d' j = turns_spent d j + (if j = i \<and> consumesTurn t then 1 else 0)" for j
        using messages by (auto simp: turns_spent_def)
      have ps: "parts d' j = parts d j" for j by (simp add: parts_def participants)
      have ev: "evolves c (if c_id c = i then after c else c)" if "c \<in> set (db_contracts d)" for c
        using same [OF that] step'(1) by auto
      have "lifecycle d d'"
        by (rule lifecycle_map_contracts [OF ev contracts participants ids])
      moreover have "keys_ok d'"
      proof (rule keys_map_contracts [OF _ _ contracts participants _ ids])
        show "m_contract_id ` set (db_messages d') \<subseteq> c_id ` set (db_contracts d)"
        proof -
          have "m_contract_id ` set (db_messages d') = insert i (m_contract_id ` set (db_messages d))"
            using messages by auto
          moreover have "m_contract_id ` set (db_messages d) \<subseteq> c_id ` set (db_contracts d)"
            using ok unfolding contracts_ok_def keys_ok_def by blast
          ultimately show ?thesis using v by blast
        qed
      qed (use ok ev in \<open>auto simp: contracts_ok_def evolves_def\<close>)
      moreover have "row_ok d' c'" if "c' \<in> set (db_contracts d')" for c'
      proof -
        from that obtain c where c: "c \<in> set (db_contracts d)" "c' = (if c_id c = i then after c else c)"
          by (auto simp: contracts)
        have rc: "row_ok d c" using c ok by (simp add: contracts_ok_def)
        show ?thesis
        proof (cases "c_id c = i")
          case True
          with c same have "c' = after v" by auto
          with step' spent rv v ps show ?thesis
            using act by (auto simp: row_ok_def)
        next
          case False
          with c rc spent ps show ?thesis by (simp add: row_ok_def)
        qed
      qed
      ultimately show ?thesis by (simp add: contracts_ok_def)
    qed
    then show ?thesis by (simp add: orderly_def d'_def)
  qed
qed

section \<open>Reading beside other requests\<close>

text \<open>
  A relation that only looks at the tables that are followed: every program that only reads, or only
  writes other tables, keeps it.
\<close>

locale contract_relation = rely_guarantee +
  assumes same: "same_tracked d d' \<Longrightarrow> R d d'"
begin

lemma keeps_read: "(\<And>d. snd (q d) = d) \<Longrightarrow> keeps R (call q)"
  by (rule keeps_call) (simp add: refl)

lemma keeps_other: "(\<And>d. same_tracked d (snd (q d))) \<Longrightarrow> keeps R (call q)"
  by (rule keeps_call) (simp add: same)

lemma keeps_let: "keeps R (f x) \<Longrightarrow> keeps R (Let x f)"
  by simp

lemma keeps_auditLog: "keeps R (auditLog a b c e f g)"
  unfolding auditLog_def by (intro keeps_rules keeps_other) (simp add: q_insert_def)

lemma keeps_audit_contract: "keeps R (audit_contract req a c x)"
  unfolding audit_contract_def by (rule keeps_auditLog)

lemma keeps_getProjectAccess: "keeps R (getProjectAccess p a)"
  unfolding getProjectAccess_def by (intro keeps_rules keeps_read) simp_all

lemma keeps_getLinkedTask: "keeps R (getLinkedTask c)"
  unfolding getLinkedTask_def by (intro keeps_rules keeps_read) (simp add: limited_def q_task_links_def)

lemma keeps_getOperatorChannel: "keeps R (getOperatorChannel c v w)"
  unfolding getOperatorChannel_def getOperatorChannelForContracts_def Let_def
  by (intro keeps_rules keeps_read) (simp_all add: q_notes_def q_questions_def)

lemma keeps_getRelatedContracts: "keeps R (getRelatedContracts c)"
  unfolding getRelatedContracts_def by (intro keeps_rules keeps_read) (simp add: q_links_def)

lemma keeps_listAttachmentsForScope: "keeps R (listAttachmentsForScope p t c)"
  unfolding listAttachmentsForScope_def by (intro keeps_read) (simp add: q_attachments_def)

lemma keeps_getLastMessages: "keeps R (getLastMessages cs)"
  unfolding getLastMessages_def by (intro keeps_rules keeps_read) (simp add: q_latest_messages_def)

lemma keeps_enrich_turn_state: "keeps R (enrich_turn_state c opts ps am ch)"
  unfolding enrich_turn_state_def by (intro keeps_rules keeps_getLastMessages)

lemma keeps_enrichContract: "keeps R (enrichContract c opts)"
  unfolding enrichContract_def Let_def
  by (intro keeps_rules keeps_read keeps_getLinkedTask keeps_getOperatorChannel keeps_enrich_turn_state
      keeps_getRelatedContracts keeps_listAttachmentsForScope) simp_all

lemma keeps_getParticipant: "keeps R (getParticipant c a)"
  unfolding getParticipant_def by (intro keeps_rules keeps_read) simp

lemma keeps_hasSuccessorLink: "keeps R (hasSuccessorLink c)"
  unfolding hasSuccessorLink_def by (intro keeps_rules keeps_read) (simp_all add: limited_def)

lemma keeps_emitContractClosed: "keeps R (emitContractClosed n)"
  unfolding emitContractClosed_def Let_def
  by (intro keeps_rules keeps_read keeps_hasSuccessorLink) simp

end

interpretation orderly: contract_relation orderly
  by unfold_locales (auto intro: orderly_refl orderly_trans orderly_same)

section \<open>The helpers that write\<close>

lemma orderly_autoCloseIfExpired:
  "keeps orderly (autoCloseIfExpired contract)"
proof -
  have "orderly d (snd (shaped shape_single (q_update db_contracts db_contracts_update
         (\<lambda>c. c_id c = c_id contract)
         (\<lambda>c. c\<lparr>c_status := expiry_status contract, c_close_reason := Some (expiry_reason contract),
                c_closed_by := Some ''system:expiry'', c_closed_by_kind := Some BySystem,
                c_closed_at := Some now, c_updated_at := now\<rparr>)) d))" for d now
    unfolding snd_shaped snd_q_update
    by (rule orderly_update_contracts)
       (use status_rank_le in \<open>auto simp: evolves_def row_ok_def turns_bounded_def gate_respected_def expiry_status_def\<close>)
  then show ?thesis
    unfolding autoCloseIfExpired_def Let_def
    by (intro orderly.keeps_rules orderly.keeps_call orderly.keeps_emitContractClosed)
qed

text \<open>Everybody has accepted: what the activation reads, and what stays true until it writes.\<close>

definition all_accepted :: "string \<Rightarrow> db \<Rightarrow> bool" where
  "all_accepted i d \<longleftrightarrow>
     spent d i \<and> (crows d i = [] \<or> parts d i \<noteq> [] \<and> (\<forall>p\<in>set (parts d i). p_status p = PAccepted))"

lemma all_accepted_evolves:
  assumes "list_all2 p_evolves ps ps'" "\<forall>p\<in>set ps. p_status p = PAccepted"
  shows "\<forall>p\<in>set ps'. p_status p = PAccepted"
  using assms by (induction rule: list_all2_induct) (auto simp: p_evolves_def)

lemma stable_contracts_ok: "stable orderly contracts_ok"
  by (auto simp: stable_def orderly_def)

lemma stable_all_accepted: "stable orderly (\<lambda>d. contracts_ok d \<and> all_accepted i d)"
  unfolding stable_def
proof (intro allI impI)
  fix d d' assume a: "(contracts_ok d \<and> all_accepted i d) \<and> orderly d d'"
  then have l: "lifecycle d d'" and ok: "contracts_ok d'" by (auto simp: orderly_def)
  have s: "spent d' i" using a l spent_stays by (auto simp: all_accepted_def)
  have "crows d' i = [] \<or> parts d' i \<noteq> [] \<and> (\<forall>p\<in>set (parts d' i). p_status p = PAccepted)"
  proof (cases "crows d i = []")
    case True
    with a l vanished_stays show ?thesis by (auto simp: all_accepted_def)
  next
    case False
    with a have p: "parts d i \<noteq> []" "\<forall>p\<in>set (parts d i). p_status p = PAccepted" by (auto simp: all_accepted_def)
    with l have "list_all2 p_evolves (parts d i) (parts d' i) \<or> crows d' i = []" by (auto simp: lifecycle_def)
    with p show ?thesis using all_accepted_evolves list_all2_Nil_iff by metis
  qed
  with s ok show "contracts_ok d' \<and> all_accepted i d'" by (simp add: all_accepted_def)
qed

lemma orderly_activate:
  assumes "contracts_ok d \<Longrightarrow> all_accepted i d"
  shows "orderly d (db_contracts_update (map (\<lambda>c. if c_id c = i \<and> c_status c = SProposed
    then c\<lparr>c_status := SActive, c_updated_at := now\<rparr> else c)) d)"
proof (rule orderly_update_contracts)
  fix c assume c: "contracts_ok d" "c \<in> set (db_contracts d)" "c_id c = i \<and> c_status c = SProposed" "row_ok d c"
  then have "crows d i \<noteq> []" by (auto simp: crows_Nil)
  with c assms show "evolves c (c\<lparr>c_status := SActive, c_updated_at := now\<rparr>) \<and>
      row_ok d (c\<lparr>c_status := SActive, c_updated_at := now\<rparr>)"
    by (auto simp: evolves_def row_ok_def turns_bounded_def gate_respected_def all_accepted_def is_live_def)
qed

lemma holds_activateIfAllAccepted:
  "valid orderly contracts_ok (activateIfAllAccepted i) (\<lambda>_. contracts_ok)"
  unfolding activateIfAllAccepted_def Let_def
proof (rule orderly.valid_bind)
  show "valid orderly contracts_ok (call (q_select db_participants (\<lambda>p. p_contract_id p = i)))
    (\<lambda>r d. contracts_ok d \<and> (rows_of r \<noteq> [] \<and> list_all (\<lambda>p. p_status p = PAccepted) (rows_of r) \<longrightarrow> all_accepted i d))"
  proof (rule orderly.valid_call)
    fix d assume ok: "contracts_ok d"
    have "all_accepted i d" if "parts d i \<noteq> []" "\<forall>p\<in>set (parts d i). p_status p = PAccepted"
      using that ok crows_spent parts_crows by (auto simp: all_accepted_def)
    with ok show "orderly d (snd (q_select db_participants (\<lambda>p. p_contract_id p = i) d)) \<and>
        contracts_ok (snd (q_select db_participants (\<lambda>p. p_contract_id p = i) d)) \<and>
        (rows_of (fst (q_select db_participants (\<lambda>p. p_contract_id p = i) d)) \<noteq> [] \<and>
         list_all (\<lambda>p. p_status p = PAccepted) (rows_of (fst (q_select db_participants (\<lambda>p. p_contract_id p = i) d)))
         \<longrightarrow> all_accepted i (snd (q_select db_participants (\<lambda>p. p_contract_id p = i) d)))"
      by (simp add: orderly_refl parts_def [symmetric] list_all_iff)
  qed (simp_all add: stable_contracts_ok)
  fix r :: "participant_row list db_result"
  let ?P = "\<lambda>d. contracts_ok d \<and> (rows_of r \<noteq> [] \<and> list_all (\<lambda>p. p_status p = PAccepted) (rows_of r) \<longrightarrow> all_accepted i d)"
  have upd: "valid orderly (\<lambda>d. contracts_ok d \<and> all_accepted i d)
      (State_Monad.bind clock (\<lambda>now. State_Monad.bind
         (call (shaped shape_maybe (q_update db_contracts db_contracts_update
            (\<lambda>c. c_id c = i \<and> c_status c = SProposed) (\<lambda>c. c\<lparr>c_status := SActive, c_updated_at := now\<rparr>))))
         (\<lambda>activated. State_Monad.return (maybe_of activated \<noteq> None))))
      (\<lambda>_. contracts_ok)"
  proof (rule orderly.valid_clock_bind)
    fix now
    show "valid orderly (\<lambda>d. contracts_ok d \<and> all_accepted i d)
      (State_Monad.bind
         (call (shaped shape_maybe (q_update db_contracts db_contracts_update
            (\<lambda>c. c_id c = i \<and> c_status c = SProposed) (\<lambda>c. c\<lparr>c_status := SActive, c_updated_at := now\<rparr>))))
         (\<lambda>activated. State_Monad.return (maybe_of activated \<noteq> None)))
      (\<lambda>_. contracts_ok)"
    proof (rule orderly.valid_bind [where Q = "\<lambda>_. contracts_ok"], rule orderly.valid_call)
      fix d assume "contracts_ok d \<and> all_accepted i d"
      then show "orderly d (snd (shaped shape_maybe (q_update db_contracts db_contracts_update
            (\<lambda>c. c_id c = i \<and> c_status c = SProposed) (\<lambda>c. c\<lparr>c_status := SActive, c_updated_at := now\<rparr>)) d)) \<and>
         contracts_ok (snd (shaped shape_maybe (q_update db_contracts db_contracts_update
            (\<lambda>c. c_id c = i \<and> c_status c = SProposed) (\<lambda>c. c\<lparr>c_status := SActive, c_updated_at := now\<rparr>)) d))"
        using orderly_activate [of d i now] by (auto simp: orderly_def)
    qed (auto simp: stable_all_accepted intro: orderly.holds_return)
  qed
  show "valid orderly ?P
    (if rows_of r = [] then State_Monad.return False
     else if list_all (\<lambda>p. p_status p = PAccepted) (rows_of r) then
       State_Monad.bind clock (\<lambda>now. State_Monad.bind
         (call (shaped shape_maybe (q_update db_contracts db_contracts_update
            (\<lambda>c. c_id c = i \<and> c_status c = SProposed) (\<lambda>c. c\<lparr>c_status := SActive, c_updated_at := now\<rparr>))))
         (\<lambda>activated. State_Monad.return (maybe_of activated \<noteq> None)))
     else State_Monad.return False) (\<lambda>_. contracts_ok)"
    by (intro orderly.valid_if orderly.valid_return valid_conseq [OF upd]) auto
qed

end
