(* ===== verification/ContractRoutes.thy ===== *)
theory ContractRoutes
  imports ContractLifecycle
begin

text \<open>
  The routes that act on one contract (\<open>src/app/api/v1/contracts/[id]\<close>): read it, correct its
  description, reject, cancel and close it. What they share is stated once: who may act, the contract
  they then read, and the contract they answer with.
\<close>

section \<open>What the routes share\<close>

definition not_a_participant :: "'b response" where
  "not_a_participant = reply_error 404 ''Contract not found or you are not a participant'' ''NOT_FOUND''"

definition contract_not_found :: "'b response" where
  "contract_not_found = reply_error 404 ''Contract not found'' ''NOT_FOUND''"

definition invalid_state :: "contract_row \<Rightarrow> string \<Rightarrow> 'b response" where
  "invalid_state c problem =
     reply_error 409 (''Contract is '' @ status_name (c_status c) @ problem) ''INVALID_STATE''"

definition read_contract :: "string \<Rightarrow> contract_row option prog" where
  "read_contract contractId = do {
     r \<leftarrow> call (shaped shape_single (q_select db_contracts (\<lambda>c. c_id c = contractId)));
     State_Monad.return (data_of r)
   }"

definition with_contract :: "string \<Rightarrow> (contract_row \<Rightarrow> 'b response prog) \<Rightarrow> 'b response prog" where
  "with_contract contractId k = do {
     contract \<leftarrow> read_contract contractId;
     case contract of
       None \<Rightarrow> State_Monad.return contract_not_found
     | Some c \<Rightarrow> k c
   }"

definition acting_on ::
  "request \<Rightarrow> string \<Rightarrow> contract_action \<Rightarrow> (contract_row \<Rightarrow> 'b response prog) \<Rightarrow> 'b response prog" where
  "acting_on req contractId action k = do {
     participant \<leftarrow> getParticipant contractId (ag_id (rq_agent req));
     case participant of
       None \<Rightarrow> State_Monad.return not_a_participant
     | Some p \<Rightarrow>
         (case evaluateContractParticipantMutation action (p_role p) (Some (p_status p)) of
            MayNot r \<Rightarrow> State_Monad.return (Refusal r)
          | MayProceed _ \<Rightarrow> with_contract contractId k)
   }"

definition viewed_by :: "request \<Rightarrow> enrich_options" where
  "viewed_by req = default_options\<lparr>eo_viewer := Some (ag_id (rq_agent req))\<rparr>"

text \<open>The last read of a route; \<open>enrichContract\<close> of a row that is gone throws.\<close>

definition answer_contract :: "request \<Rightarrow> string \<Rightarrow> contract_response response prog" where
  "answer_contract req contractId = do {
     updated \<leftarrow> read_contract contractId;
     case updated of
       None \<Rightarrow> State_Monad.return (Thrown ''TypeError'')
     | Some c \<Rightarrow> do {
         enriched \<leftarrow> enrichContract c (viewed_by req);
         State_Monad.return (Answer 200 enriched)
       }
   }"

text \<open>A participant's answer: written only while none is recorded.\<close>

definition respond :: "string \<Rightarrow> string \<Rightarrow> participant_status \<Rightarrow> participant_row option prog" where
  "respond contractId agentId answer = do {
     now \<leftarrow> clock;
     r \<leftarrow> call (shaped shape_maybe (q_update db_participants db_participants_update
       (\<lambda>p. p_contract_id p = contractId \<and> p_agent_id p = agentId \<and> p_status p = PPending)
       (\<lambda>p. p\<lparr>p_status := answer, p_responded_at := Some now\<rparr>)));
     State_Monad.return (maybe_of r)
   }"

text \<open>An agent's write of a final status, guarded by the status it replaces.\<close>

definition ended_by ::
  "agent_row \<Rightarrow> contract_status \<Rightarrow> string \<Rightarrow> timestamp \<Rightarrow> contract_row \<Rightarrow> contract_row" where
  "ended_by agent newStatus reason now c =
     c\<lparr>c_status := newStatus, c_close_reason := Some reason, c_closed_by := Some (ag_name agent),
       c_closed_by_kind := Some ByAgent, c_closed_at := Some now, c_updated_at := now\<rparr>"

definition contract_event :: "string list \<Rightarrow> string \<Rightarrow> string \<Rightarrow> content \<Rightarrow> webhook_event" where
  "contract_event targets event contractId data =
     \<lparr>we_targets = targets, we_event = event, we_contract_id = Some contractId, we_project_id = None,
      we_task_id = None, we_sprint_id = None, we_approval_id = None, we_data = data\<rparr>"

section \<open>Reading and correcting\<close>

definition contract_get :: "request \<Rightarrow> string \<Rightarrow> contract_response response prog" where
  "contract_get req contractId = do {
     participant \<leftarrow> getParticipant contractId (ag_id (rq_agent req));
     case participant of
       None \<Rightarrow> State_Monad.return not_a_participant
     | Some _ \<Rightarrow> with_contract contractId (\<lambda>contract. do {
         updated \<leftarrow> autoCloseIfExpired contract;
         enriched \<leftarrow> enrichContract updated ((viewed_by req)\<lparr>eo_bodies := True\<rparr>);
         State_Monad.return (Answer 200 enriched)
       })
   }"

definition patch_description ::
  "request \<Rightarrow> string \<Rightarrow> contract_row \<Rightarrow> string option \<Rightarrow> contract_response response prog" where
  "patch_description req contractId existing description = do {
     r \<leftarrow> call (shaped shape_single (q_update db_contracts db_contracts_update
       (\<lambda>c. c_id c = contractId) (\<lambda>c. c\<lparr>c_description := description\<rparr>)));
     case data_of r of
       None \<Rightarrow> State_Monad.return (reply_error 500 ''Failed to update contract'' ''DB_ERROR'')
     | Some saved \<Rightarrow> do {
         audit_contract req ''contract.description_updated'' contractId
           [(''previous_description'', jstr_or_null (c_description existing)),
            (''new_description'', jstr_or_null description),
            (''contract_status'', JStr (status_name (c_status existing)))];
         enriched \<leftarrow> enrichContract saved (viewed_by req);
         State_Monad.return (Answer 200 enriched)
       }
   }"

definition patch_parsed :: "request \<Rightarrow> string \<Rightarrow> contract_row \<Rightarrow> json \<Rightarrow> contract_response response prog" where
  "patch_parsed req contractId existing parsed =
     (if parsed = JNull then State_Monad.return (Thrown ''TypeError'')
      else case jprop (Some parsed) ''description'' of
        None \<Rightarrow> State_Monad.return (reply_error 400
          ''Nothing to update. Send { \"description\": \"<markdown>\" }; only the description can be edited.''
          ''VALIDATION_ERROR'')
      | Some d \<Rightarrow>
          (case validateContractDescription (Some d) of
             DescriptionBad r \<Rightarrow> State_Monad.return (Refusal r)
           | DescriptionOk value \<Rightarrow> patch_description req contractId existing value))"

definition contract_patch :: "request \<Rightarrow> string \<Rightarrow> contract_response response prog" where
  "contract_patch req contractId = do {
     participant \<leftarrow> getParticipant contractId (ag_id (rq_agent req));
     case participant of
       None \<Rightarrow> State_Monad.return not_a_participant
     | Some _ \<Rightarrow> with_contract contractId (\<lambda>existing.
         if c_proposer_id existing \<noteq> ag_id (rq_agent req) then
           State_Monad.return (reply_error 403 ''Only the proposer can edit a contract description.'' ''PROPOSER_ONLY'')
         else case rq_body req of
           BadJson \<Rightarrow> State_Monad.return (reply_error 400 ''Invalid JSON body'' ''INVALID_BODY'')
         | NoBody \<Rightarrow> patch_parsed req contractId existing (JObj [])
         | Parsed j \<Rightarrow> patch_parsed req contractId existing j)
   }"

section \<open>Rejecting and cancelling\<close>

definition reject_recorded :: "request \<Rightarrow> string \<Rightarrow> contract_response response prog" where
  "reject_recorded req contractId = do {
     now \<leftarrow> clock;
     _ \<leftarrow> call (shaped shape_maybe (q_update db_contracts db_contracts_update
       (\<lambda>c. c_id c = contractId \<and> c_status c = SProposed)
       (ended_by (rq_agent req) SRejected (''Rejected by '' @ ag_name (rq_agent req)) now)));
     contractData \<leftarrow> read_contract contractId;
     (case contractData of
        None \<Rightarrow> State_Monad.return ()
      | Some c \<Rightarrow> deliver (contract_event [c_proposer_id c] ''contract.rejected'' contractId
          [(''status'', JStr ''rejected''), (''rejected_by'', JStr (ag_name (rq_agent req)))]));
     audit_contract req ''contract.reject'' contractId [];
     answer_contract req contractId
   }"

definition reject_post :: "request \<Rightarrow> string \<Rightarrow> contract_response response prog" where
  "reject_post req contractId = acting_on req contractId AReject (\<lambda>contract. do {
     checked \<leftarrow> autoCloseIfExpired contract;
     if c_status checked \<noteq> SProposed then State_Monad.return (invalid_state checked '', cannot reject'')
     else do {
       updatedParticipant \<leftarrow> respond contractId (ag_id (rq_agent req)) PRejected;
       case updatedParticipant of
         None \<Rightarrow> State_Monad.return
           (reply_error 409 ''Already responded to this contract'' ''ALREADY_RESPONDED'')
       | Some _ \<Rightarrow> reject_recorded req contractId
     }
   })"

definition cancelled :: "request \<Rightarrow> string \<Rightarrow> contract_response response prog" where
  "cancelled req contractId = do {
     invitees \<leftarrow> call (q_select db_participants (\<lambda>p. p_contract_id p = contractId \<and> p_role p = Invitee));
     deliver (contract_event (map p_agent_id (rows_of invitees)) ''contract.cancelled'' contractId
       [(''status'', JStr ''cancelled''), (''cancelled_by'', JStr (ag_name (rq_agent req)))]);
     audit_contract req ''contract.cancel'' contractId [];
     answer_contract req contractId
   }"

definition cancel_post :: "request \<Rightarrow> string \<Rightarrow> contract_response response prog" where
  "cancel_post req contractId = acting_on req contractId ACancel (\<lambda>contract.
     if c_status contract \<noteq> SProposed then
       State_Monad.return (invalid_state contract '', can only cancel proposed contracts'')
     else do {
       now \<leftarrow> clock;
       updated \<leftarrow> call (shaped shape_maybe (q_update db_contracts db_contracts_update
         (\<lambda>c. c_id c = contractId \<and> c_status c = SProposed)
         (ended_by (rq_agent req) SCancelled (''Cancelled by proposer ('' @ ag_name (rq_agent req) @ '')'') now)));
       case maybe_of updated of
         None \<Rightarrow> State_Monad.return (reply_error 409 ''Contract state changed concurrently'' ''CONFLICT'')
       | Some _ \<Rightarrow> cancelled req contractId
     })"

section \<open>Closing\<close>

definition close_reason :: "agent_row \<Rightarrow> jvalue \<Rightarrow> string" where
  "close_reason agent reason =
     (case as_string reason of
        Some r \<Rightarrow> if js_trim r \<noteq> [] then js_trim r else ''Closed by '' @ ag_name agent
      | None \<Rightarrow> ''Closed by '' @ ag_name agent)"

definition gate_pending :: "contract_row \<Rightarrow> bool" where
  "gate_pending c \<longleftrightarrow> c_completion_requires_approval c \<and> c_completion_approved_at c = None"

definition close_notice :: "request \<Rightarrow> contract_row \<Rightarrow> string \<Rightarrow> string \<Rightarrow> bool \<Rightarrow> closure_notice" where
  "close_notice req gated contractId reason withoutApproval =
     \<lparr>cn_contractId = contractId, cn_excludeAgentId = None, cn_status = SClosed,
      cn_closedBy = Some (ag_name (rq_agent req)), cn_closedByKind = Some ByAgent, cn_reason = Some reason,
      cn_currentTurns = Some (c_current_turns gated), cn_maxTurns = Some (c_max_turns gated),
      cn_completionApprovedAt = c_completion_approved_at gated, cn_closedWithoutApproval = Some withoutApproval\<rparr>"

definition close_allowed ::
  "request \<Rightarrow> string \<Rightarrow> contract_row \<Rightarrow> string \<Rightarrow> bool \<Rightarrow> contract_response response prog" where
  "close_allowed req contractId gated reason withoutApproval = do {
     now \<leftarrow> clock;
     updated \<leftarrow> call (shaped shape_maybe (q_update db_contracts db_contracts_update
       (\<lambda>c. c_id c = contractId \<and> c_status c = SActive \<and>
            (withoutApproval \<longrightarrow> c_completion_approved_at c = None))
       (\<lambda>c. (ended_by (rq_agent req) SClosed reason now c)\<lparr>c_closed_without_approval := withoutApproval\<rparr>)));
     case maybe_of updated of
       None \<Rightarrow> State_Monad.return (reply_error 409 ''Contract state changed concurrently'' ''CONFLICT'')
     | Some _ \<Rightarrow> do {
         emitContractClosed (close_notice req gated contractId reason withoutApproval);
         audit_contract req ''contract.close'' contractId
           [(''reason'', JStr reason), (''without_approval'', JBool withoutApproval)];
         answer_contract req contractId
       }
   }"

text \<open>
  A body that is no object counts as an empty one. A reason that is no string is only looked at by a
  pending gate, where \<open>.trim()\<close> throws.
\<close>

definition close_parsed :: "request \<Rightarrow> string \<Rightarrow> contract_row \<Rightarrow> jvalue \<Rightarrow> contract_response response prog" where
  "close_parsed req contractId gated body =
     (let reason = jprop body ''reason''
      in if gate_pending gated \<and> \<not> is_nullish reason \<and> as_string reason = None then
           State_Monad.return (Thrown ''TypeError'')
         else case evaluateGatedClose contractId (gate_pending gated) (c_proposer_id gated = ag_id (rq_agent req))
             (as_bool (jprop body ''without_approval'')) (as_string reason) of
           CloseRefused r \<Rightarrow> State_Monad.return (Refusal r)
         | CloseAllowed w \<Rightarrow> close_allowed req contractId gated (close_reason (rq_agent req) reason) w)"

definition close_post :: "request \<Rightarrow> string \<Rightarrow> contract_response response prog" where
  "close_post req contractId = acting_on req contractId AClose (\<lambda>contract.
     if c_status contract \<noteq> SActive then
       State_Monad.return (invalid_state contract '', can only close active contracts'')
     else case rq_body req of
       BadJson \<Rightarrow> State_Monad.return (reply_error 400 ''Invalid JSON body'' ''INVALID_BODY'')
     | NoBody \<Rightarrow> close_parsed req contractId contract (Some (JObj []))
     | Parsed j \<Rightarrow> close_parsed req contractId contract (Some j))"

section \<open>The routes beside other requests\<close>

text \<open>A fact about the rows of a contract that survives whatever happens to them.\<close>

definition rows_are :: "string \<Rightarrow> (contract_row \<Rightarrow> bool) \<Rightarrow> db \<Rightarrow> bool" where
  "rows_are i Q d \<longleftrightarrow> contracts_ok d \<and> spent d i \<and> (\<forall>c\<in>set (crows d i). Q c)"

lemma list_all2_evolves_all:
  assumes "list_all2 evolves cs cs'" "\<And>c c'. evolves c c' \<Longrightarrow> Q c \<Longrightarrow> Q c'" "\<forall>c\<in>set cs. Q c"
  shows "\<forall>c\<in>set cs'. Q c"
  using assms by (induction rule: list_all2_induct) auto

lemma stable_rows_are:
  assumes "\<And>c c'. evolves c c' \<Longrightarrow> Q c \<Longrightarrow> Q c'"
  shows "stable orderly (rows_are i Q)"
  unfolding stable_def
proof (intro allI impI)
  fix d d' assume a: "rows_are i Q d \<and> orderly d d'"
  then have l: "lifecycle d d'" and ok: "contracts_ok d'" and s: "spent d i"
    by (auto simp: rows_are_def orderly_def)
  have "\<forall>c\<in>set (crows d' i). Q c"
  proof (cases "crows d i = []")
    case True
    then show ?thesis using vanished_stays [OF l s] by simp
  next
    case False
    then have "list_all2 evolves (crows d i) (crows d' i) \<or> crows d' i = []"
      using l by (simp add: lifecycle_def)
    then show ?thesis
      using a list_all2_evolves_all [where Q = Q, OF _ assms] by (auto simp: rows_are_def)
  qed
  with ok spent_stays [OF l s] show "rows_are i Q d'"
    by (simp add: rows_are_def)
qed

lemma valid_read_contract:
  "valid orderly contracts_ok (read_contract i) (\<lambda>r d. contracts_ok d \<and> (\<forall>c. r = Some c \<longrightarrow> rows_are i (\<lambda>c'. c' = c) d))"
  unfolding read_contract_def
proof (rule orderly.valid_bind)
  show "valid orderly contracts_ok (call (shaped shape_single (q_select db_contracts (\<lambda>c. c_id c = i))))
     (\<lambda>r d. contracts_ok d \<and> (\<forall>c. data_of r = Some c \<longrightarrow> crows d i = [c]))"
  proof (rule orderly.valid_call)
    fix d assume ok: "contracts_ok d"
    have "crows d i = [c]" if "data_of (shape_single (crows d i)) = Some c" for c
      using that by (cases "shape_single (crows d i)") (simp_all add: shape_single_Inr)
    with ok show "orderly d (snd (shaped shape_single (q_select db_contracts (\<lambda>c. c_id c = i)) d)) \<and>
       contracts_ok (snd (shaped shape_single (q_select db_contracts (\<lambda>c. c_id c = i)) d)) \<and>
       (\<forall>c. data_of (fst (shaped shape_single (q_select db_contracts (\<lambda>c. c_id c = i)) d)) = Some c \<longrightarrow>
          crows (snd (shaped shape_single (q_select db_contracts (\<lambda>c. c_id c = i)) d)) i = [c])"
      by (simp add: orderly_refl crows_def)
  qed (simp_all add: stable_contracts_ok)
qed (auto intro!: orderly.valid_return simp: rows_are_def intro: crows_spent)

lemma holds_read_contract: "valid orderly contracts_ok (read_contract i) (\<lambda>_. contracts_ok)"
  by (rule valid_conseq [OF valid_read_contract]) auto

lemmas holds_helpers =
  orderly.keeps_holds [OF orderly.keeps_enrichContract stable_contracts_ok]
  orderly.keeps_holds [OF orderly.keeps_getParticipant stable_contracts_ok]
  orderly.keeps_holds [OF orderly.keeps_emitContractClosed stable_contracts_ok]
  orderly.keeps_holds [OF orderly.keeps_audit_contract stable_contracts_ok]
  orderly.keeps_holds [OF orderly.keeps_deliver stable_contracts_ok]
  orderly.keeps_holds [OF orderly.keeps_clock stable_contracts_ok]
  orderly.keeps_holds [OF orderly_autoCloseIfExpired stable_contracts_ok]
  holds_activateIfAllAccepted holds_read_contract

lemma holds_call:
  "(\<And>d. orderly d (snd (q d))) \<Longrightarrow> valid orderly contracts_ok (call q) (\<lambda>_. contracts_ok)"
  by (rule orderly.keeps_holds [OF orderly.keeps_call stable_contracts_ok])

lemma holds_answer_contract: "valid orderly contracts_ok (answer_contract req i) (\<lambda>_. contracts_ok)"
  unfolding answer_contract_def by (intro orderly.holds_rules holds_helpers)

lemma holds_with_contract:
  assumes "\<And>c. valid orderly (rows_are i (\<lambda>c'. c' = c)) (k c) (\<lambda>_. contracts_ok)"
  shows "valid orderly contracts_ok (with_contract i k) (\<lambda>_. contracts_ok)"
  unfolding with_contract_def
proof (rule orderly.valid_bind [OF valid_read_contract])
  fix r :: "contract_row option"
  show "valid orderly (\<lambda>d. contracts_ok d \<and> (\<forall>c. r = Some c \<longrightarrow> rows_are i (\<lambda>c'. c' = c) d))
     (case r of None \<Rightarrow> State_Monad.return contract_not_found | Some c \<Rightarrow> k c) (\<lambda>_. contracts_ok)"
    by (cases r) (auto intro!: orderly.valid_return valid_conseq [OF assms])
qed

lemma holds_acting_on:
  assumes "\<And>c. valid orderly (rows_are i (\<lambda>c'. c' = c)) (k c) (\<lambda>_. contracts_ok)"
  shows "valid orderly contracts_ok (acting_on req i a k) (\<lambda>_. contracts_ok)"
proof -
  have "valid orderly contracts_ok (case x of MayNot r \<Rightarrow> State_Monad.return (Refusal r) | MayProceed _ \<Rightarrow> with_contract i k)
      (\<lambda>_. contracts_ok)" for x
    by (cases x) (simp_all add: orderly.valid_return holds_with_contract [OF assms])
  then show ?thesis
    unfolding acting_on_def by (intro orderly.holds_rules holds_helpers)
qed

text \<open>A program that needs nothing of the contract it read.\<close>

lemma rows_forget:
  "valid orderly contracts_ok m Q \<Longrightarrow> valid orderly (rows_are i P) m Q"
  by (erule valid_conseq) (auto simp: rows_are_def)

lemma holds_respond:
  assumes "answer \<noteq> PPending"
  shows "valid orderly contracts_ok (respond i a answer) (\<lambda>_. contracts_ok)"
proof -
  have "orderly d (db_participants_update (map (\<lambda>p. if p_contract_id p = i \<and> p_agent_id p = a \<and> p_status p = PPending
       then p\<lparr>p_status := answer, p_responded_at := Some now\<rparr> else p)) d)" for d now
    by (rule orderly_update_participants) (auto simp: p_evolves_def)
  then show ?thesis
    unfolding respond_def by (intro orderly.holds_rules holds_helpers holds_call) simp_all
qed

lemma orderly_end_proposed:
  assumes "\<not> is_live s" "s \<noteq> SClosed"
  shows "orderly d (db_contracts_update (map (\<lambda>c. if c_id c = i \<and> c_status c = SProposed
    then ended_by agent s reason now c else c)) d)"
  using assms by (intro orderly_update_contracts)
    (auto simp: ended_by_def evolves_def row_ok_def turns_bounded_def gate_respected_def is_live_def)

lemma contract_get_holds: "valid orderly contracts_ok (contract_get req i) (\<lambda>_. contracts_ok)"
  unfolding contract_get_def
  by (intro orderly.holds_rules holds_helpers holds_with_contract rows_forget)

lemma orderly_description:
  "orderly d (db_contracts_update (map (\<lambda>c. if c_id c = i then c\<lparr>c_description := x\<rparr> else c)) d)"
  by (rule orderly_update_contracts) (auto simp: evolves_def row_ok_def turns_bounded_def gate_respected_def)

lemma patch_description_holds:
  "valid orderly contracts_ok (patch_description req i c x) (\<lambda>_. contracts_ok)"
  unfolding patch_description_def
  by (intro orderly.holds_rules holds_helpers holds_call) (simp add: orderly_description)

lemma patch_parsed_holds: "valid orderly contracts_ok (patch_parsed req i c j) (\<lambda>_. contracts_ok)"
  unfolding patch_parsed_def
  by (intro orderly.holds_rules, split description_check.split) (auto intro!: orderly.holds_rules patch_description_holds)

lemma contract_patch_holds: "valid orderly contracts_ok (contract_patch req i) (\<lambda>_. contracts_ok)"
  unfolding contract_patch_def
  by (cases "rq_body req"; simp only: request_body.case;
      intro orderly.holds_rules holds_helpers holds_with_contract rows_forget patch_parsed_holds)

lemma reject_post_holds: "valid orderly contracts_ok (reject_post req i) (\<lambda>_. contracts_ok)"
  unfolding reject_post_def reject_recorded_def
  by (intro holds_acting_on rows_forget orderly.holds_rules holds_helpers holds_respond holds_answer_contract holds_call)
     (simp_all add: orderly_end_proposed is_live_def)

lemma cancel_post_holds: "valid orderly contracts_ok (cancel_post req i) (\<lambda>_. contracts_ok)"
  unfolding cancel_post_def cancelled_def
  by (intro holds_acting_on rows_forget orderly.holds_rules holds_helpers holds_answer_contract holds_call)
     (simp_all add: orderly_end_proposed orderly_refl is_live_def)

subsection \<open>Closing a gated contract\<close>

text \<open>What the gate decided on stays true until the close is written.\<close>

definition gate_open :: "contract_row \<Rightarrow> bool" where
  "gate_open c \<longleftrightarrow> c_completion_requires_approval c \<longrightarrow> c_completion_approved_at c \<noteq> None"

lemma gate_open_stays: "evolves c c' \<Longrightarrow> gate_open c \<Longrightarrow> gate_open c'"
  by (auto simp: evolves_def gate_open_def)

lemma valid_gated_update:
  assumes row: "\<And>d c. w \<or> gate_open c \<Longrightarrow> c_id c = i \<Longrightarrow> P c \<Longrightarrow> row_ok d c \<Longrightarrow> evolves c (f c) \<and> row_ok d (f c)"
  shows "valid orderly (rows_are i (\<lambda>c. w \<or> gate_open c))
    (call (shaped sh (q_update db_contracts db_contracts_update (\<lambda>c. c_id c = i \<and> P c) f))) (\<lambda>_. contracts_ok)"
proof (rule orderly.valid_call)
  show "stable orderly (rows_are i (\<lambda>c. w \<or> gate_open c))"
    by (rule stable_rows_are) (use gate_open_stays in blast)
  fix d assume a: "rows_are i (\<lambda>c. w \<or> gate_open c) d"
  have "orderly d (db_contracts_update (map (\<lambda>c. if c_id c = i \<and> P c then f c else c)) d)"
  proof (rule orderly_update_contracts)
    fix c assume c: "c \<in> set (db_contracts d)" "c_id c = i \<and> P c" "row_ok d c"
    then have "w \<or> gate_open c" using a by (auto simp: rows_are_def crows_def)
    with c row show "evolves c (f c) \<and> row_ok d (f c)" by blast
  qed
  with a show "orderly d (snd (shaped sh (q_update db_contracts db_contracts_update (\<lambda>c. c_id c = i \<and> P c) f) d)) \<and>
      contracts_ok (snd (shaped sh (q_update db_contracts db_contracts_update (\<lambda>c. c_id c = i \<and> P c) f) d))"
    by (auto simp: rows_are_def orderly_def)
qed (simp add: rows_are_def)

lemma gated_close_row:
  assumes "w \<or> gate_open c" "c_status c = SActive" "row_ok d c"
  shows "evolves c ((ended_by a SClosed reason now c)\<lparr>c_closed_without_approval := w\<rparr>) \<and>
    row_ok d ((ended_by a SClosed reason now c)\<lparr>c_closed_without_approval := w\<rparr>)"
  using assms
  by (auto simp: ended_by_def evolves_def row_ok_def turns_bounded_def gate_respected_def gate_open_def is_live_def)

lemma close_allowed_holds:
  "valid orderly (rows_are i (\<lambda>c. w \<or> gate_open c)) (close_allowed req i gated reason w) (\<lambda>_. contracts_ok)"
  unfolding close_allowed_def
  by (rule orderly.valid_clock_bind, rule orderly.valid_bind, rule valid_gated_update)
     (auto simp: gated_close_row intro: orderly.holds_rules holds_helpers holds_answer_contract)

lemma close_parsed_holds:
  "valid orderly (rows_are i (\<lambda>c'. c' = c)) (close_parsed req i c body) (\<lambda>_. contracts_ok)"
proof -
  have "valid orderly (rows_are i (\<lambda>c'. c' = c)) (case evaluateGatedClose i (gate_pending c) ip wa rs of
       CloseRefused r \<Rightarrow> State_Monad.return (Refusal r)
     | CloseAllowed w \<Rightarrow> close_allowed req i c reason w) (\<lambda>_. contracts_ok)" for ip wa rs reason
  proof (cases "evaluateGatedClose i (gate_pending c) ip wa rs")
    case (CloseAllowed w)
    then have "w \<or> gate_open c"
      by (auto simp: gated_close_allowed gate_open_def gate_pending_def split: if_splits)
    then have "rows_are i (\<lambda>c. w \<or> gate_open c) d" if "rows_are i (\<lambda>c'. c' = c) d" for d
      using that by (auto simp: rows_are_def)
    with CloseAllowed show ?thesis by (auto intro: valid_conseq [OF close_allowed_holds])
  qed (auto intro!: orderly.valid_return simp: rows_are_def)
  then show ?thesis
    unfolding close_parsed_def Let_def
    by (intro orderly.valid_if orderly.valid_return) (auto simp: rows_are_def)
qed

lemma close_post_holds: "valid orderly contracts_ok (close_post req i) (\<lambda>_. contracts_ok)"
  unfolding close_post_def
  by (intro holds_acting_on, cases "rq_body req"; simp only: request_body.case;
      intro orderly.valid_if orderly.valid_return close_parsed_holds) (auto simp: rows_are_def)

end
