(* ===== verification/Approvals.thy ===== *)
theory Approvals
  imports ApiHelpers RateLimit
begin

text \<open>
  Approvals of sensitive operations (\<open>src/lib/approvals.ts\<close>): who may review them, the decision, its
  consumption, and the rotation of keys an approval executes; and the routes
  \<open>src/app/api/v1/approvals\<close> and \<open>[id]/approve\<close>, \<open>[id]/deny\<close>.

  Parameters: \<open>reviewers\<close>, the environment variable \<open>APPROVAL_REVIEWER_AGENTS\<close>; \<open>secret\<close> and \<open>sha256\<close>,
  the new key's random secret and the hash function; \<open>to_text\<close> as in the other routes. The mails a
  request sends are not modelled.
\<close>

section \<open>Who may review\<close>

definition getReviewerAllowlist :: "string option \<Rightarrow> string list option" where
  "getReviewerAllowlist raw =
     (if \<not> truthy_str raw \<or> js_trim (the raw) = [] then None
      else Some (filter (\<lambda>s. s \<noteq> []) (map js_trim (split_at CHR '','' (the raw)))))"

definition agent_called :: "string \<Rightarrow> agent_row option prog" where
  "agent_called name = do {
     r \<leftarrow> call (shaped shape_single (q_select db_agents (\<lambda>a. ag_name a = name)));
     State_Monad.return (data_of r)
   }"

definition agent_with_id :: "string \<Rightarrow> agent_row option prog" where
  "agent_with_id i = do {
     r \<leftarrow> call (shaped shape_single (q_select db_agents (\<lambda>a. ag_id a = i)));
     State_Monad.return (data_of r)
   }"

definition is_super_admin :: "string \<Rightarrow> bool prog" where
  "is_super_admin userId = do {
     r \<leftarrow> call (shaped shape_single (q_select db_users (\<lambda>u. u_id u = userId)));
     State_Monad.return (case data_of r of None \<Rightarrow> False | Some u \<Rightarrow> u_is_super_admin u)
   }"

text \<open>Does the user own the agent the request came from?\<close>

definition owns_actor :: "string \<Rightarrow> string option \<Rightarrow> bool prog" where
  "owns_actor userId actorAgentName =
     (if \<not> truthy_str actorAgentName then State_Monad.return False
      else do {
        actor \<leftarrow> agent_called (the actorAgentName);
        State_Monad.return (case actor of None \<Rightarrow> False
          | Some a \<Rightarrow> truthy_str (ag_owner_user_id a) \<and> ag_owner_user_id a = Some userId)
      })"

definition isAuthorizedReviewer :: "string option \<Rightarrow> string \<Rightarrow> string option \<Rightarrow> bool prog" where
  "isAuthorizedReviewer reviewers agentId actorAgentName = do {
     agent \<leftarrow> agent_with_id agentId;
     case agent of
       None \<Rightarrow> State_Monad.return False
     | Some a \<Rightarrow>
         if \<not> truthy_str (ag_owner_user_id a) then State_Monad.return False
         else if (case getReviewerAllowlist reviewers of None \<Rightarrow> False | Some names \<Rightarrow> ag_name a \<notin> set names) then
           State_Monad.return False
         else do {
           super \<leftarrow> is_super_admin (the (ag_owner_user_id a));
           if \<not> super then State_Monad.return False
           else do {
             own \<leftarrow> owns_actor (the (ag_owner_user_id a)) actorAgentName;
             State_Monad.return (\<not> own)
           }
         }
   }"

definition isAuthorizedDashboardReviewer :: "string option \<Rightarrow> string \<Rightarrow> string option \<Rightarrow> bool prog" where
  "isAuthorizedDashboardReviewer reviewers userId actorAgentName = do {
     super \<leftarrow> is_super_admin userId;
     if \<not> super then State_Monad.return False
     else do {
       allowed \<leftarrow> (case getReviewerAllowlist reviewers of
           None \<Rightarrow> State_Monad.return True
         | Some names \<Rightarrow> do {
             r \<leftarrow> call (q_select db_agents (\<lambda>a. ag_owner_user_id a = Some userId));
             State_Monad.return (\<exists>a\<in>set (rows_of r). ag_name a \<noteq> [] \<and> ag_name a \<in> set names)
           });
       if \<not> allowed then State_Monad.return False
       else do {
         own \<leftarrow> owns_actor userId actorAgentName;
         State_Monad.return (\<not> own)
       }
     }
   }"

definition getAdminAgentIds :: "string option \<Rightarrow> string option \<Rightarrow> string list prog" where
  "getAdminAgentIds reviewers excludeActorName = do {
     admins \<leftarrow> call (q_select db_users u_is_super_admin);
     if rows_of admins = [] then State_Monad.return []
     else do {
       excluded \<leftarrow> (if truthy_str excludeActorName then do {
           actor \<leftarrow> agent_called (the excludeActorName);
           State_Monad.return (Option.bind actor ag_owner_user_id)
         }
         else State_Monad.return None);
       agents \<leftarrow> call (q_select db_agents
         (\<lambda>a. \<exists>u\<in>set (rows_of admins). ag_owner_user_id a = Some (u_id u)));
       State_Monad.return (map ag_id
         (filter (\<lambda>a. (case getReviewerAllowlist reviewers of None \<Rightarrow> True
               | Some names \<Rightarrow> ag_name a \<noteq> [] \<and> ag_name a \<in> set names))
           (filter (\<lambda>a. \<not> truthy_str excluded \<or> ag_owner_user_id a \<noteq> excluded) (rows_of agents))))
     }
   }"

section \<open>Requests\<close>

definition approval_event :: "string list \<Rightarrow> string \<Rightarrow> string \<Rightarrow> content \<Rightarrow> webhook_event" where
  "approval_event targets event approvalId data =
     \<lparr>we_targets = targets, we_event = event, we_contract_id = None, we_project_id = None, we_task_id = None,
      we_sprint_id = None, we_approval_id = Some approvalId, we_data = data\<rparr>"

definition q_insert_approval :: "string \<Rightarrow> string \<Rightarrow> json \<Rightarrow> approval_row list statement" where
  "q_insert_approval action actor details =
     with_fresh (\<lambda>fresh d. q_insert db_approvals db_approvals_update (\<lambda>n r. ap_id n = ap_id r)
       [\<lparr>ap_id = fresh, ap_action = action, ap_actor = actor, ap_details = details, ap_status = APending,
         ap_reviewed_by = None, ap_created_at = db_now d, ap_reviewed_at = None\<rparr>] d)"

definition announce_request :: "string option \<Rightarrow> string \<Rightarrow> string \<Rightarrow> content \<Rightarrow> unit prog" where
  "announce_request reviewers actor approvalId data = do {
     adminIds \<leftarrow> getAdminAgentIds reviewers (Some actor);
     if adminIds \<noteq> [] then deliver (approval_event adminIds ''approval.requested'' approvalId data)
     else State_Monad.return ()
   }"

definition requestApproval :: "string option \<Rightarrow> string \<Rightarrow> string \<Rightarrow> content \<Rightarrow> (string + string) prog" where
  "requestApproval reviewers action actor details = do {
     r \<leftarrow> call (shaped shape_single (q_insert_approval action actor (JObj details)));
     case r of
       Inl e \<Rightarrow> State_Monad.return (Inl (''Failed to create approval request: '' @ de_message e))
     | Inr row \<Rightarrow> do {
         auditLog actor ''approval.requested'' (Some ''approval'') (Some (ap_id row))
           (Some (object_entries (obj_spread (JObj [(''approval_action'', JStr action)]) details))) None;
         announce_request reviewers actor (ap_id row) [(''action'', JStr action), (''actor'', JStr actor)];
         State_Monad.return (Inr (ap_id row))
       }
   }"

section \<open>Consuming an approval\<close>

definition consumed_details :: "json \<Rightarrow> timestamp \<Rightarrow> string \<Rightarrow> json" where
  "consumed_details original now executorName = obj_spread original
     [(''executed'', JBool True), (''executed_at'', jint now), (''executed_by'', JStr executorName)]"

definition consumeApproval :: "string \<Rightarrow> string \<Rightarrow> approval_row option prog" where
  "consumeApproval approvalId executorName = do {
     now \<leftarrow> clock;
     current \<leftarrow> call (shaped shape_maybe
       (q_select db_approvals (\<lambda>a. ap_id a = approvalId \<and> ap_status a = AApproved)));
     case maybe_of current of
       None \<Rightarrow> State_Monad.return None
     | Some c \<Rightarrow> do {
         updated \<leftarrow> call (shaped shape_maybe (q_update db_approvals db_approvals_update
           (\<lambda>a. ap_id a = approvalId \<and> ap_status a = AApproved)
           (\<lambda>a. a\<lparr>ap_status := AConsumed, ap_details := consumed_details (ap_details c) now executorName\<rparr>)));
         case maybe_of updated of
           None \<Rightarrow> State_Monad.return None
         | Some row \<Rightarrow> do {
             auditLog executorName ''approval.consumed'' (Some ''approval'') (Some approvalId)
               (Some [(''approval_action'', JStr (ap_action row)), (''original_actor'', JStr (ap_actor row))]) None;
             State_Monad.return (Some row)
           }
       }
   }"

text \<open>\<open>order('reviewed_at', descending)\<close> puts the rows without a review first.\<close>

definition latest_reviewed :: "approval_row list \<Rightarrow> approval_row list" where
  "latest_reviewed rows =
     filter (\<lambda>a. ap_reviewed_at a = None) rows @
     sort_key (\<lambda>a. - the (ap_reviewed_at a)) (filter (\<lambda>a. ap_reviewed_at a \<noteq> None) rows)"

definition latest_approved :: "string \<Rightarrow> approval_row option prog" where
  "latest_approved action = do {
     r \<leftarrow> call (shaped shape_maybe (\<lambda>d. (Inr (take 1 (latest_reviewed
       (filter (\<lambda>a. ap_action a = action \<and> ap_status a = AApproved) (db_approvals d)))), d)));
     State_Monad.return (maybe_of r)
   }"

definition consumeApprovalByAction :: "string \<Rightarrow> string \<Rightarrow> approval_row option prog" where
  "consumeApprovalByAction action executorName = do {
     approval \<leftarrow> latest_approved action;
     case approval of None \<Rightarrow> State_Monad.return None | Some a \<Rightarrow> consumeApproval (ap_id a) executorName
   }"

section \<open>Rotating keys\<close>

fun digits_of :: "nat \<Rightarrow> int \<Rightarrow> string" where
  "digits_of 0 n = []"
| "digits_of (Suc fuel) n =
     (if n < 36 then [''0123456789abcdefghijklmnopqrstuvwxyz'' ! nat n]
      else digits_of fuel (n div 36) @ [''0123456789abcdefghijklmnopqrstuvwxyz'' ! nat (n mod 36)])"

text \<open>\<open>Date.now().toString(36)\<close>; a millisecond clock has fewer than 32 digits.\<close>

definition base36 :: "timestamp \<Rightarrow> string" where
  "base36 now = digits_of 32 now"

fun expire_keys :: "service_key_row list \<Rightarrow> timestamp \<Rightarrow> unit prog" where
  "expire_keys [] expiresAt = State_Monad.return ()"
| "expire_keys (key # rest) expiresAt = do {
     now \<leftarrow> clock;
     _ \<leftarrow> call (q_update db_service_keys db_service_keys_update (\<lambda>k. sk_id k = sk_id key)
       (\<lambda>k. k\<lparr>sk_expires_at := Some expiresAt, sk_rotated_at := Some now\<rparr>));
     expire_keys rest expiresAt
   }"

definition rotated_key ::
  "string \<Rightarrow> (string \<Rightarrow> string) \<Rightarrow> string \<Rightarrow> string \<Rightarrow> service_key_row list \<Rightarrow> string \<Rightarrow> timestamp \<Rightarrow> service_key_row" where
  "rotated_key secret sha256 keyId agentId currentKeys fresh created =
     \<lparr>sk_id = fresh, sk_key_id = keyId, sk_signing_secret = secret, sk_agent_id = Some agentId, sk_is_active = True,
      sk_expires_at = None, sk_key_hash = sha256 secret,
      sk_human_owner = (case currentKeys of [] \<Rightarrow> None | k # _ \<Rightarrow> sk_human_owner k),
      sk_label = (case currentKeys of
         k # _ \<Rightarrow> if truthy_str (sk_label k) then Some (the (sk_label k) @ '' (rotated)'') else Some ''rotated''
       | [] \<Rightarrow> Some ''rotated''),
      sk_rotated_at = None, sk_created_at = created\<rparr>"

definition rotate_keys ::
  "string \<Rightarrow> (string \<Rightarrow> string) \<Rightarrow> string \<Rightarrow> string \<Rightarrow> string \<Rightarrow> string \<Rightarrow> string option \<Rightarrow> unit prog" where
  "rotate_keys secret sha256 approvalId reviewerName agentId agentName ip = do {
     current \<leftarrow> call (q_select db_service_keys (\<lambda>k. sk_agent_id k = Some agentId \<and> sk_is_active k));
     now \<leftarrow> clock;
     expire_keys (rows_of current) (now + 3600000);
     now' \<leftarrow> clock;
     let keyId = agentName @ ''-'' @ base36 now';
     _ \<leftarrow> call (with_fresh (\<lambda>fresh d. q_insert db_service_keys db_service_keys_update
       (\<lambda>n k. sk_key_id n = sk_key_id k) [rotated_key secret sha256 keyId agentId (rows_of current) fresh (db_now d)] d));
     auditLog reviewerName ''key.rotate.executed'' (Some ''agent'') (Some agentId)
       (Some [(''agent_name'', JStr agentName), (''new_key_id'', JStr keyId),
         (''old_keys_expiring'', JArr (map (\<lambda>k. JStr (sk_key_id k)) (rows_of current))),
         (''approval_id'', JStr approvalId)]) ip
   }"

definition detail_text :: "(json \<Rightarrow> string) \<Rightarrow> json \<Rightarrow> string \<Rightarrow> string option" where
  "detail_text to_text details k =
     (if falsy (jprop (Some details) k) then None else column_text to_text (jprop (Some details) k))"

definition agent_name_of :: "(json \<Rightarrow> string) \<Rightarrow> json \<Rightarrow> string" where
  "agent_name_of to_text details =
     (case detail_text to_text details ''agent_name'' of None \<Rightarrow> ''unknown'' | Some n \<Rightarrow> n)"

definition executeKeyRotationSideEffect ::
  "(json \<Rightarrow> string) \<Rightarrow> string \<Rightarrow> (string \<Rightarrow> string) \<Rightarrow> string \<Rightarrow> string \<Rightarrow> approval_row \<Rightarrow> unit prog" where
  "executeKeyRotationSideEffect to_text secret sha256 approvalId reviewerName approval =
     (case detail_text to_text (ap_details approval) ''agent_id'' of
        None \<Rightarrow> State_Monad.return ()
      | Some agentId \<Rightarrow> do {
          target \<leftarrow> agent_with_id agentId;
          actor \<leftarrow> agent_called (ap_actor approval);
          (case (target, actor) of
             (Some t, Some a) \<Rightarrow>
               if ag_owner_user_id t \<noteq> ag_owner_user_id a then State_Monad.return ()
               else do {
                 consumed \<leftarrow> consumeApproval approvalId reviewerName;
                 if consumed = None then State_Monad.return ()
                 else rotate_keys secret sha256 approvalId reviewerName agentId
                   (agent_name_of to_text (ap_details approval)) None
               }
           | _ \<Rightarrow> State_Monad.return ())
        })"

section \<open>Deciding\<close>

fun approval_status_name :: "approval_status \<Rightarrow> string" where
  "approval_status_name APending = ''pending''"
| "approval_status_name AApproved = ''approved''"
| "approval_status_name ADenied = ''denied''"
| "approval_status_name AConsumed = ''consumed''"

definition read_approval :: "string \<Rightarrow> approval_row option prog" where
  "read_approval approvalId = do {
     r \<leftarrow> call (shaped shape_single (q_select db_approvals (\<lambda>a. ap_id a = approvalId)));
     State_Monad.return (data_of r)
   }"

text \<open>The decision: written only while the request is pending.\<close>

definition decide :: "approval_status \<Rightarrow> string \<Rightarrow> string \<Rightarrow> approval_row option db_result prog" where
  "decide verdict approvalId reviewerName = do {
     now \<leftarrow> clock;
     call (shaped shape_maybe (q_update db_approvals db_approvals_update
       (\<lambda>a. ap_id a = approvalId \<and> ap_status a = APending)
       (\<lambda>a. a\<lparr>ap_status := verdict, ap_reviewed_by := Some reviewerName, ap_reviewed_at := Some now\<rparr>)))
   }"

definition verdict_event :: "approval_status \<Rightarrow> string" where
  "verdict_event verdict = (if verdict = AApproved then ''approval.approved'' else ''approval.denied'')"

definition announce_decision :: "approval_status \<Rightarrow> approval_row \<Rightarrow> string \<Rightarrow> content \<Rightarrow> unit prog" where
  "announce_decision verdict approval approvalId data = do {
     actor \<leftarrow> agent_called (ap_actor approval);
     (case actor of
        None \<Rightarrow> State_Monad.return ()
      | Some a \<Rightarrow> deliver (approval_event [ag_id a] (verdict_event verdict) approvalId data))
   }"

definition reviewed_data :: "approval_row \<Rightarrow> string \<Rightarrow> content" where
  "reviewed_data approval reviewerName =
     [(''action'', JStr (ap_action approval)), (''actor'', JStr (ap_actor approval)),
      (''reviewed_by'', JStr reviewerName)]"

text \<open>
  What the four functions of the library share: read, the three refusals, the decision, its audit
  entry and announcement; \<open>own\<close> is the test that the reviewer is the actor.
\<close>

definition reviewed ::
  "approval_status \<Rightarrow> string \<Rightarrow> (approval_row \<Rightarrow> bool) \<Rightarrow> bool prog \<Rightarrow> string \<Rightarrow> string \<Rightarrow> content \<Rightarrow> string \<Rightarrow> approval_row \<Rightarrow>
   (string + approval_row) prog" where
  "reviewed verdict verb own authorized unauthorized reviewerName via approvalId approval =
     (if ap_status approval \<noteq> APending then
        State_Monad.return (Inl (''Request already '' @ approval_status_name (ap_status approval)))
      else if own approval then State_Monad.return (Inl (''You cannot '' @ verb @ '' your own request''))
      else do {
        ok \<leftarrow> authorized;
        if \<not> ok then State_Monad.return (Inl unauthorized)
        else do {
          updated \<leftarrow> decide verdict approvalId reviewerName;
          case maybe_of updated of
            None \<Rightarrow> State_Monad.return (Inl ''Approval already decided by another reviewer'')
          | Some _ \<Rightarrow> do {
              auditLog reviewerName (verdict_event verdict) (Some ''approval'') (Some approvalId)
                (Some ([(''approval_action'', JStr (ap_action approval)), (''original_actor'', JStr (ap_actor approval))] @ via))
                None;
              announce_decision verdict approval approvalId (reviewed_data approval reviewerName);
              State_Monad.return (Inr approval)
            }
        }
      })"

definition agents_only :: string where
  "agents_only = ''Only admin agents can review approvals (cross-owner required)''"

definition users_only :: string where
  "users_only = ''Only admin users can review approvals (cross-owner required)''"

definition approval_not_found :: string where
  "approval_not_found = ''Approval request not found''"

text \<open>An approved request of the action \<open>key.rotate\<close> is executed at once.\<close>

definition executed ::
  "(json \<Rightarrow> string) \<Rightarrow> string \<Rightarrow> (string \<Rightarrow> string) \<Rightarrow> string \<Rightarrow> string \<Rightarrow> string + approval_row \<Rightarrow> (string + unit) prog" where
  "executed to_text secret sha256 approvalId reviewerName r =
     (case r of
        Inl e \<Rightarrow> State_Monad.return (Inl e)
      | Inr approval \<Rightarrow>
          if ap_action approval = ''key.rotate'' then do {
            executeKeyRotationSideEffect to_text secret sha256 approvalId reviewerName approval;
            State_Monad.return (Inr ())
          }
          else State_Monad.return (Inr ()))"

definition approveRequest ::
  "(json \<Rightarrow> string) \<Rightarrow> string option \<Rightarrow> string \<Rightarrow> (string \<Rightarrow> string) \<Rightarrow> string \<Rightarrow> string \<Rightarrow> string \<Rightarrow> (string + unit) prog" where
  "approveRequest to_text reviewers secret sha256 approvalId reviewerAgentId reviewerName = do {
     approval \<leftarrow> read_approval approvalId;
     case approval of
       None \<Rightarrow> State_Monad.return (Inl approval_not_found)
     | Some a \<Rightarrow> do {
         r \<leftarrow> reviewed AApproved ''approve'' (\<lambda>a. ap_actor a = reviewerName \<or> ap_actor a = reviewerAgentId)
           (isAuthorizedReviewer reviewers reviewerAgentId (Some (ap_actor a))) agents_only reviewerName [] approvalId a;
         executed to_text secret sha256 approvalId reviewerName r
       }
   }"

definition denyRequest :: "string option \<Rightarrow> string \<Rightarrow> string \<Rightarrow> string \<Rightarrow> (string + unit) prog" where
  "denyRequest reviewers approvalId reviewerAgentId reviewerName = do {
     approval \<leftarrow> read_approval approvalId;
     case approval of
       None \<Rightarrow> State_Monad.return (Inl approval_not_found)
     | Some a \<Rightarrow> do {
         r \<leftarrow> reviewed ADenied ''deny'' (\<lambda>a. ap_actor a = reviewerName \<or> ap_actor a = reviewerAgentId)
           (isAuthorizedReviewer reviewers reviewerAgentId (Some (ap_actor a))) agents_only reviewerName [] approvalId a;
         State_Monad.return (map_sum id (\<lambda>_. ()) r)
       }
   }"

definition via_dashboard :: content where
  "via_dashboard = [(''via'', JStr ''dashboard'')]"

definition approveDashboardRequest ::
  "(json \<Rightarrow> string) \<Rightarrow> string option \<Rightarrow> string \<Rightarrow> (string \<Rightarrow> string) \<Rightarrow> string \<Rightarrow> string \<Rightarrow> string \<Rightarrow> (string + unit) prog" where
  "approveDashboardRequest to_text reviewers secret sha256 approvalId userId displayName = do {
     approval \<leftarrow> read_approval approvalId;
     case approval of
       None \<Rightarrow> State_Monad.return (Inl approval_not_found)
     | Some a \<Rightarrow> do {
         r \<leftarrow> reviewed AApproved ''approve'' (\<lambda>a. ap_actor a = displayName)
           (isAuthorizedDashboardReviewer reviewers userId (Some (ap_actor a))) users_only displayName via_dashboard
           approvalId a;
         executed to_text secret sha256 approvalId displayName r
       }
   }"

definition denyDashboardRequest :: "string option \<Rightarrow> string \<Rightarrow> string \<Rightarrow> string \<Rightarrow> (string + unit) prog" where
  "denyDashboardRequest reviewers approvalId userId displayName = do {
     approval \<leftarrow> read_approval approvalId;
     case approval of
       None \<Rightarrow> State_Monad.return (Inl approval_not_found)
     | Some a \<Rightarrow> do {
         r \<leftarrow> reviewed ADenied ''deny'' (\<lambda>a. ap_actor a = displayName)
           (isAuthorizedDashboardReviewer reviewers userId (Some (ap_actor a))) users_only displayName via_dashboard
           approvalId a;
         State_Monad.return (map_sum id (\<lambda>_. ()) r)
       }
   }"

end
