(* ===== verification/Idempotency.thy ===== *)
theory Idempotency
  imports ApiHelpers
begin

text \<open>
  Idempotency keys (\<open>src/lib/idempotency.ts\<close>): a write that carries one claims it first and records its
  answer under it, so that a retry gets the recorded answer. The table is that of
  \<open>migrations/20260401072500_idempotency_keys.sql\<close> with the primary key of
  \<open>20260402100000_idempotency_composite_unique.sql\<close>; its column \<open>response\<close> is \<open>NOT NULL\<close>.
\<close>

section \<open>Model\<close>

definition MAX_KEY_LENGTH :: nat where
  "MAX_KEY_LENGTH = 256"

definition idempotency_ttl :: timestamp where
  "idempotency_ttl = 24 * 60 * 60 * 1000"

definition has_key :: "string \<Rightarrow> string \<Rightarrow> string \<Rightarrow> idempotency_row \<Rightarrow> bool" where
  "has_key key agentId endpoint r \<longleftrightarrow>
     ik_key r = key \<and> ik_agent_id r = agentId \<and> ik_endpoint r = endpoint"

definition not_null_violation :: db_error where
  "not_null_violation =
     \<lparr>de_code = ''23502'', de_message = ''null value in column \"response\" violates not-null constraint''\<rparr>"

text \<open>
  The two upserts of the module. A \<open>null\<close> response violates the column's constraint whether or not the
  key is taken: the row is checked before the conflict is.
\<close>

definition q_upsert_key ::
  "bool \<Rightarrow> string \<Rightarrow> string \<Rightarrow> string \<Rightarrow> nat \<Rightarrow> json option \<Rightarrow> timestamp \<Rightarrow> idempotency_row list statement" where
  "q_upsert_key ignoreDuplicates key agentId endpoint statusCode response expiresAt d =
     (case response of
        None \<Rightarrow> (Inl not_null_violation, d)
      | Some body \<Rightarrow>
          let new = \<lparr>ik_key = key, ik_agent_id = agentId, ik_endpoint = endpoint, ik_status_code = statusCode,
                     ik_response = body, ik_expires_at = expiresAt\<rparr>
          in if \<exists>r\<in>set (db_idempotency d). has_key key agentId endpoint r then
               (if ignoreDuplicates then (Inr [], d)
                else (Inr [new],
                  db_idempotency_update (map (\<lambda>r. if has_key key agentId endpoint r then new else r)) d))
             else (Inr [new], db_idempotency_update (\<lambda>rs. rs @ [new]) d))"

text \<open>
  What a write does next: go on (and record its answer under the key, if there is one), or answer at
  once. A replay is marked by the header \<open>X-Idempotency-Replay\<close>.
\<close>

datatype idempotency_result =
    Proceed "string option"
  | Replay nat json
  | KeyRefused nat api_error

definition checkIdempotency :: "request \<Rightarrow> string \<Rightarrow> idempotency_result prog" where
  "checkIdempotency req endpoint =
     (if \<not> truthy_str (rq_idempotency_key req) then State_Monad.return (Proceed None)
      else
        let key = the (rq_idempotency_key req); agentId = ag_id (rq_agent req)
        in if length key > MAX_KEY_LENGTH then
             State_Monad.return (KeyRefused 400
               (api_err (''Idempotency key exceeds '' @ show_nat MAX_KEY_LENGTH @ '' characters'') ''VALIDATION_ERROR''))
           else do {
             now \<leftarrow> clock;
             upserted \<leftarrow> call (shaped shape_single
               (q_upsert_key True key agentId endpoint 0 None (now + idempotency_ttl)));
             existing \<leftarrow> (case upserted of
                 Inl _ \<Rightarrow> do {
                   r \<leftarrow> call (shaped shape_single (q_select db_idempotency (has_key key agentId endpoint)));
                   State_Monad.return (data_of r)
                 }
               | Inr row \<Rightarrow> State_Monad.return (Some row));
             (case existing of
                None \<Rightarrow> State_Monad.return (Proceed (Some key))
              | Some row \<Rightarrow>
                  if ik_status_code row \<noteq> 0 then do {
                    now' \<leftarrow> clock;
                    if ik_expires_at row < now' then do {
                      _ \<leftarrow> call (q_delete db_idempotency db_idempotency_update (has_key key agentId endpoint));
                      State_Monad.return (Proceed (Some key))
                    }
                    else State_Monad.return (Replay (ik_status_code row) (ik_response row))
                  }
                  else case upserted of
                    Inl _ \<Rightarrow> State_Monad.return (KeyRefused 409
                      (api_err ''Concurrent request in progress for this idempotency key'' ''CONFLICT''))
                  | Inr _ \<Rightarrow> State_Monad.return (Proceed (Some key)))
           })"

definition storeIdempotencyResponse ::
  "string option \<Rightarrow> request \<Rightarrow> string \<Rightarrow> nat \<Rightarrow> json \<Rightarrow> unit prog" where
  "storeIdempotencyResponse key req endpoint statusCode responseBody =
     (case key of
        None \<Rightarrow> State_Monad.return ()
      | Some k \<Rightarrow> do {
          now \<leftarrow> clock;
          _ \<leftarrow> call (q_upsert_key False k (ag_id (rq_agent req)) endpoint statusCode (Some responseBody)
            (now + idempotency_ttl));
          State_Monad.return ()
        })"

text \<open>What a route does with the result.\<close>

definition with_key ::
  "request \<Rightarrow> string \<Rightarrow> (string option \<Rightarrow> 'b response prog) \<Rightarrow> 'b response prog" where
  "with_key req endpoint k = do {
     i \<leftarrow> checkIdempotency req endpoint;
     case i of
       Replay status body \<Rightarrow> State_Monad.return (Replayed status body)
     | KeyRefused status body \<Rightarrow> State_Monad.return (Refusal \<lparr>rf_status = status, rf_body = body\<rparr>)
     | Proceed key \<Rightarrow> k key
   }"

end
