(* ===== verification/RequestGuards.thy ===== *)
theory RequestGuards
  imports ContractLifecycle Idempotency RateLimit
begin

text \<open>
  The guards a writing route starts with, the idempotency key and the rate limit, leave the contracts
  alone.
\<close>

lemma holds_idempotency:
  "(\<And>s b. x = Replay s b \<Longrightarrow> valid R P (f s b) Q) \<Longrightarrow> (\<And>s b. x = KeyRefused s b \<Longrightarrow> valid R P (g s b) Q) \<Longrightarrow>
   (\<And>k. x = Proceed k \<Longrightarrow> valid R P (h k) Q) \<Longrightarrow>
   valid R P (case x of Replay s b \<Rightarrow> f s b | KeyRefused s b \<Rightarrow> g s b | Proceed k \<Rightarrow> h k) Q"
  by (cases x) auto

context contract_relation begin

lemma upsert_other_tables: "same_tracked d (snd (q_upsert_key b k a e s r x d))"
  by (simp add: q_upsert_key_def Let_def split: option.split)

lemma keeps_checkIdempotency: "keeps R (checkIdempotency req e)"
  unfolding checkIdempotency_def Let_def
  by (intro keeps_rules keeps_other) (simp_all add: upsert_other_tables [simplified])

lemma keeps_storeIdempotencyResponse: "keeps R (storeIdempotencyResponse k req e s b)"
  unfolding storeIdempotencyResponse_def
  by (intro keeps_rules keeps_other upsert_other_tables)

lemma keeps_checkRateLimit: "keeps R (checkRateLimit k c)"
proof -
  have "keeps R (checkRateLimitFallback k c)"
    unfolding checkRateLimitFallback_def by (rule keeps_memory) (simp add: Let_def same)
  moreover have "keeps R (call (rate_limit_increment k n))" for n
    by (rule keeps_other) (simp add: rate_limit_increment_def Let_def)
  ultimately show ?thesis
    unfolding checkRateLimit_def
    by (intro keeps_bind) (auto intro: keeps_return split: sum.split list.split)
qed

lemma keeps_with_key:
  assumes "\<And>key. keeps R (k key)"
  shows "keeps R (with_key req e k)"
proof -
  have "keeps R (case x of
      Replay s b \<Rightarrow> State_Monad.return (Replayed s b)
    | KeyRefused s b \<Rightarrow> State_Monad.return (Refusal \<lparr>rf_status = s, rf_body = b\<rparr>)
    | Proceed key \<Rightarrow> k key)" for x
    by (cases x) (simp_all add: assms keeps_return)
  then show ?thesis
    unfolding with_key_def by (intro keeps_bind keeps_checkIdempotency)
qed

end

end
