(* ===== verification/ApprovalRoutes.thy ===== *)
theory ApprovalRoutes
  imports Approvals RequestGuards
begin

text \<open>
  The routes of approvals: request one (\<open>src/app/api/v1/approvals/route.ts\<close>), approve and deny one
  (\<open>[id]/approve/route.ts\<close>, \<open>[id]/deny/route.ts\<close>); and what holds of every approval while they, and the
  functions of the dashboard, run beside each other: it is decided once, by somebody else than its
  actor, and consumed once.
\<close>

section \<open>The routes\<close>

definition approval_limited :: "request \<Rightarrow> string \<Rightarrow> 'b response prog \<Rightarrow> 'b response prog" where
  "approval_limited req problem k = do {
     limit \<leftarrow> checkRateLimit (''approvals:'' @ ag_id (rq_agent req)) PROPOSALS_LIMIT;
     if \<not> li_allowed limit then State_Monad.return (reply_error 429 problem ''RATE_LIMITED'') else k
   }"

definition approvals_post_parsed ::
  "(json \<Rightarrow> string) \<Rightarrow> string option \<Rightarrow> request \<Rightarrow> json \<Rightarrow> approval_row response prog" where
  "approvals_post_parsed to_text reviewers req parsed =
     (if parsed = JNull then State_Monad.return (Thrown ''TypeError'')
      else case detail_text to_text parsed ''action'' of
        None \<Rightarrow> State_Monad.return (reply_error 400 ''Missing required field: action'' ''VALIDATION_ERROR'')
      | Some action \<Rightarrow> do {
          let details = (if falsy (jprop (Some parsed) ''details'') then JObj [] else the (jprop (Some parsed) ''details''));
          let actionJson = the (jprop (Some parsed) ''action'');
          r \<leftarrow> call (shaped shape_single (q_insert_approval action (ag_name (rq_agent req)) details));
          case data_of r of
            None \<Rightarrow> State_Monad.return (reply_error 500 ''Failed to create approval request'' ''DB_ERROR'')
          | Some approval \<Rightarrow> do {
              auditLog (ag_name (rq_agent req)) ''approval.requested'' (Some ''approval'') (Some (ap_id approval))
                (Some (object_entries (obj_spread (JObj [(''approval_action'', actionJson)]) (object_entries details))))
                (Some (getClientIp req));
              announce_request reviewers (ag_name (rq_agent req)) (ap_id approval)
                [(''action'', actionJson), (''actor'', JStr (ag_name (rq_agent req))),
                 (''requester'', JStr (ag_name (rq_agent req))), (''details'', details)];
              State_Monad.return (Answer 201 approval)
            }
        })"

definition approvals_post :: "(json \<Rightarrow> string) \<Rightarrow> string option \<Rightarrow> request \<Rightarrow> approval_row response prog" where
  "approvals_post to_text reviewers req = approval_limited req ''Approval request rate limit exceeded''
     (case rq_body req of
        Parsed j \<Rightarrow> approvals_post_parsed to_text reviewers req j
      | _ \<Rightarrow> State_Monad.return (reply_error 400 ''Invalid JSON body'' ''INVALID_BODY''))"

text \<open>What approving and denying share, up to the decision; \<open>k\<close> gets the request and the decided row.\<close>

definition decided_route ::
  "approval_status \<Rightarrow> string \<Rightarrow> string option \<Rightarrow> request \<Rightarrow> string \<Rightarrow> (approval_row \<Rightarrow> approval_row \<Rightarrow> unit prog) \<Rightarrow>
   approval_row response prog" where
  "decided_route verdict verb reviewers req approvalId k = approval_limited req ''Approval rate limit exceeded'' (do {
     approval \<leftarrow> read_approval approvalId;
     case approval of
       None \<Rightarrow> State_Monad.return (reply_error 404 approval_not_found ''NOT_FOUND'')
     | Some a \<Rightarrow>
         if ap_status a \<noteq> APending then
           State_Monad.return (reply_error 409 (''Request already '' @ approval_status_name (ap_status a)) ''ALREADY_RESPONDED'')
         else if ap_actor a = ag_name (rq_agent req) \<or> ap_actor a = ag_id (rq_agent req) then
           State_Monad.return (reply_error 403 (''You cannot '' @ verb @ '' your own request'') ''FORBIDDEN'')
         else do {
           ok \<leftarrow> isAuthorizedReviewer reviewers (ag_id (rq_agent req)) (Some (ap_actor a));
           if \<not> ok then State_Monad.return (reply_error 403
             ''Not authorized to review this approval (admin required, cross-owner enforced)'' ''FORBIDDEN'')
           else do {
             updated \<leftarrow> decide verdict approvalId (ag_name (rq_agent req));
             case updated of
               Inl _ \<Rightarrow> State_Monad.return (reply_error 500 (''Failed to '' @ verb @ '' request'') ''DB_ERROR'')
             | Inr None \<Rightarrow> State_Monad.return
                 (reply_error 409 ''Approval already decided by another reviewer'' ''ALREADY_RESPONDED'')
             | Inr (Some row) \<Rightarrow> do {
                 auditLog (ag_name (rq_agent req)) (verdict_event verdict) (Some ''approval'') (Some approvalId)
                   (Some [(''approval_action'', JStr (ap_action a)), (''original_actor'', JStr (ap_actor a))])
                   (Some (getClientIp req));
                 k a row;
                 State_Monad.return (Answer 200 row)
               }
           }
         }
   })"

definition decision_data :: "approval_status \<Rightarrow> approval_row \<Rightarrow> string \<Rightarrow> content" where
  "decision_data verdict approval reviewerName =
     [(''action'', JStr (ap_action approval)), (''actor'', JStr (ap_actor approval)),
      (''requester'', JStr (ap_actor approval)),
      ((if verdict = AApproved then ''approved_by'' else ''denied_by''), JStr reviewerName),
      (''reviewed_by'', JStr reviewerName)]"

text \<open>
  The key rotation as this route executes it: the requester must be the actor, or be left out; the
  owner of the agent whose keys are rotated is not looked at.
\<close>

definition route_rotation ::
  "(json \<Rightarrow> string) \<Rightarrow> string \<Rightarrow> (string \<Rightarrow> string) \<Rightarrow> request \<Rightarrow> string \<Rightarrow> approval_row \<Rightarrow> unit prog" where
  "route_rotation to_text secret sha256 req approvalId approval =
     (if ap_action approval \<noteq> ''key.rotate'' then State_Monad.return ()
      else case detail_text to_text (ap_details approval) ''agent_id'' of
        None \<Rightarrow> State_Monad.return ()
      | Some agentId \<Rightarrow>
          if json_or (jprop (Some (ap_details approval)) ''requested_by'') (JStr (ap_actor approval)) \<noteq> JStr (ap_actor approval)
          then State_Monad.return ()
          else do {
            consumed \<leftarrow> consumeApproval approvalId (ag_name (rq_agent req));
            if consumed = None then State_Monad.return ()
            else rotate_keys secret sha256 approvalId (ag_name (rq_agent req)) agentId
              (agent_name_of to_text (ap_details approval)) (Some (getClientIp req))
          })"

definition approve_post ::
  "(json \<Rightarrow> string) \<Rightarrow> string option \<Rightarrow> string \<Rightarrow> (string \<Rightarrow> string) \<Rightarrow> request \<Rightarrow> string \<Rightarrow> approval_row response prog" where
  "approve_post to_text reviewers secret sha256 req approvalId =
     decided_route AApproved ''approve'' reviewers req approvalId (\<lambda>approval _. do {
       announce_decision AApproved approval approvalId (decision_data AApproved approval (ag_name (rq_agent req)));
       route_rotation to_text secret sha256 req approvalId approval
     })"

definition deny_post :: "string option \<Rightarrow> request \<Rightarrow> string \<Rightarrow> approval_row response prog" where
  "deny_post reviewers req approvalId =
     decided_route ADenied ''deny'' reviewers req approvalId (\<lambda>approval _.
       announce_decision ADenied approval approvalId (decision_data ADenied approval (ag_name (rq_agent req))))"

section \<open>What every approval is\<close>

text \<open>An approval goes from pending to approved or denied, and from approved to consumed.\<close>

fun approval_step :: "approval_status \<Rightarrow> approval_status \<Rightarrow> bool" where
  "approval_step APending s = True"
| "approval_step AApproved s = (s = AApproved \<or> s = AConsumed)"
| "approval_step s s' = (s' = s)"

definition approval_evolves :: "approval_row \<Rightarrow> approval_row \<Rightarrow> bool" where
  "approval_evolves a a' \<longleftrightarrow>
     ap_id a' = ap_id a \<and> ap_action a' = ap_action a \<and> ap_actor a' = ap_actor a \<and>
     approval_step (ap_status a) (ap_status a') \<and>
     (ap_status a \<noteq> APending \<longrightarrow> ap_reviewed_by a' = ap_reviewed_by a)"

text \<open>A decided request was reviewed under another name than its actor's.\<close>

definition four_eyes :: "approval_row \<Rightarrow> bool" where
  "four_eyes a \<longleftrightarrow> (ap_status a \<noteq> APending \<longrightarrow> (\<exists>r. ap_reviewed_by a = Some r \<and> r \<noteq> ap_actor a))"

definition approvals_ok :: "db \<Rightarrow> bool" where
  "approvals_ok d \<longleftrightarrow> (\<forall>a\<in>set (db_approvals d). four_eyes a)"

definition approvals_step :: "db \<Rightarrow> db \<Rightarrow> bool" where
  "approvals_step d d' \<longleftrightarrow>
     (\<exists>old new. db_approvals d' = old @ new \<and> list_all2 approval_evolves (db_approvals d) old \<and>
        ap_id ` set new \<inter> ap_id ` set (db_approvals d) = {}) \<and>
     (approvals_ok d \<longrightarrow> approvals_ok d')"

section \<open>Lemmas\<close>

lemma approval_step_refl [simp]: "approval_step s s"
  by (cases s) simp_all

lemma approval_step_trans: "approval_step a b \<Longrightarrow> approval_step b c \<Longrightarrow> approval_step a c"
  by (cases a; cases b) auto

lemma approval_step_pending: "approval_step s APending \<longleftrightarrow> s = APending"
  by (cases s) simp_all

lemma approval_evolves_refl [simp]: "approval_evolves a a"
  by (simp add: approval_evolves_def)

lemma approval_evolves_trans:
  assumes ab: "approval_evolves a b" and bc: "approval_evolves b c"
  shows "approval_evolves a c"
  unfolding approval_evolves_def
proof (intro conjI impI)
  show "approval_step (ap_status a) (ap_status c)"
    by (rule approval_step_trans [of _ "ap_status b"]) (use ab bc in \<open>simp_all only: approval_evolves_def\<close>)
  assume a: "ap_status a \<noteq> APending"
  have "approval_step (ap_status a) (ap_status b)" using ab by (simp only: approval_evolves_def)
  then have "ap_status b \<noteq> APending" using a approval_step_pending by metis
  then show "ap_reviewed_by c = ap_reviewed_by a" using a ab bc by (simp add: approval_evolves_def)
qed (use ab bc in \<open>simp_all add: approval_evolves_def\<close>)

lemma evolves_ids: "list_all2 approval_evolves as bs \<Longrightarrow> map ap_id bs = map ap_id as"
  by (induction rule: list_all2_induct) (auto simp: approval_evolves_def)

lemma evolves_id_set: "list_all2 approval_evolves as bs \<Longrightarrow> ap_id ` set bs = ap_id ` set as"
  using evolves_ids [of as bs] by (metis list.set_map)

lemma approvals_stepI:
  "db_approvals d' = old @ new \<Longrightarrow> list_all2 approval_evolves (db_approvals d) old \<Longrightarrow>
   ap_id ` set new \<inter> ap_id ` set (db_approvals d) = {} \<Longrightarrow> (approvals_ok d \<Longrightarrow> approvals_ok d') \<Longrightarrow> approvals_step d d'"
  unfolding approvals_step_def by blast

lemma approvals_step_same: "db_approvals d' = db_approvals d \<Longrightarrow> approvals_step d d'"
  by (rule approvals_stepI [where old = "db_approvals d" and new = "[]"])
    (simp_all add: list.rel_refl approvals_ok_def)

lemma approvals_step_refl: "approvals_step d d"
  by (rule approvals_step_same) simp

lemma approvals_step_trans:
  assumes "approvals_step a b" "approvals_step b c"
  shows "approvals_step a c"
proof -
  from assms(1) obtain o1 n1 where 1: "db_approvals b = o1 @ n1"
    "list_all2 approval_evolves (db_approvals a) o1" "ap_id ` set n1 \<inter> ap_id ` set (db_approvals a) = {}"
    by (auto simp: approvals_step_def)
  from assms(2) obtain o2 n2 where 2: "db_approvals c = o2 @ n2"
    "list_all2 approval_evolves (o1 @ n1) o2" "ap_id ` set n2 \<inter> ap_id ` set (o1 @ n1) = {}"
    using 1(1) by (auto simp: approvals_step_def)
  from 2(2) obtain o3 o4 where 3: "o2 = o3 @ o4" "list_all2 approval_evolves o1 o3" "list_all2 approval_evolves n1 o4"
    by (auto simp: list_all2_append1)
  have "list_all2 approval_evolves (db_approvals a) o3"
    by (rule list_all2_trans [OF approval_evolves_trans 1(2) 3(2)])
  moreover have same: "ap_id ` set o4 = ap_id ` set n1" "ap_id ` set o1 = ap_id ` set (db_approvals a)"
    using evolves_id_set [OF 3(3)] evolves_id_set [OF 1(2)] .
  have "ap_id ` set n2 \<inter> ap_id ` set (db_approvals a) = {}"
    using 2(3) unfolding set_append image_Un same Int_Un_distrib by simp
  with 1(3) have "ap_id ` set (o4 @ n2) \<inter> ap_id ` set (db_approvals a) = {}"
    unfolding set_append image_Un same Int_Un_distrib2 by simp
  moreover have "approvals_ok a \<Longrightarrow> approvals_ok c"
    using assms by (simp add: approvals_step_def)
  ultimately show ?thesis
    using 2(1) 3(1) by (intro approvals_stepI [where old = o3 and new = "o4 @ n2"]) simp_all
qed

context contract_relation begin

lemma keeps_read_approval: "keeps R (read_approval i)"
  unfolding read_approval_def by (intro keeps_rules keeps_other) simp

lemma keeps_latest_approved: "keeps R (latest_approved a)"
  unfolding latest_approved_def by (intro keeps_rules keeps_other) simp

lemma keeps_agent_called: "keeps R (agent_called n)"
  unfolding agent_called_def by (intro keeps_rules keeps_other) simp

lemma keeps_agent_with_id: "keeps R (agent_with_id n)"
  unfolding agent_with_id_def by (intro keeps_rules keeps_other) simp

lemma keeps_is_super_admin: "keeps R (is_super_admin u)"
  unfolding is_super_admin_def by (intro keeps_rules keeps_other) simp

lemma keeps_owns_actor: "keeps R (owns_actor u a)"
  unfolding owns_actor_def by (intro keeps_rules keeps_agent_called)

lemma keeps_isAuthorizedReviewer: "keeps R (isAuthorizedReviewer rs i a)"
  unfolding isAuthorizedReviewer_def
  by (intro keeps_rules keeps_agent_with_id keeps_is_super_admin keeps_owns_actor)

lemma keeps_isAuthorizedDashboardReviewer: "keeps R (isAuthorizedDashboardReviewer rs u a)"
  unfolding isAuthorizedDashboardReviewer_def
  by (intro keeps_rules keeps_is_super_admin keeps_owns_actor keeps_other) simp

lemma keeps_announce_request: "keeps R (announce_request rs a i x)"
  unfolding announce_request_def getAdminAgentIds_def
  by (intro keeps_rules keeps_agent_called keeps_other) simp_all

lemma keeps_announce_decision: "keeps R (announce_decision v a i x)"
  unfolding announce_decision_def by (intro keeps_rules keeps_agent_called)

lemma keeps_expire_keys: "keeps R (expire_keys ks t)"
  by (induction ks) (auto intro!: keeps_rules keeps_other)

lemma keeps_rotate_keys: "keeps R (rotate_keys s h i r a n ip)"
  unfolding rotate_keys_def Let_def
  by (intro keeps_rules keeps_expire_keys keeps_auditLog keeps_other) (simp_all add: with_fresh_def q_insert_def)

end

interpretation approvals: contract_relation approvals_step
  by unfold_locales (auto intro: approvals_step_refl approvals_step_trans approvals_step_same)

text \<open>Changing rows, and adding one.\<close>

lemma approvals_update:
  assumes "\<And>a. a \<in> set (db_approvals d) \<Longrightarrow> P a \<Longrightarrow> approval_evolves a (f a) \<and> (four_eyes a \<longrightarrow> four_eyes (f a))"
  shows "approvals_step d (db_approvals_update (map (\<lambda>a. if P a then f a else a)) d)"
  unfolding approvals_step_def approvals_ok_def
proof (intro conjI exI)
  show "db_approvals (db_approvals_update (map (\<lambda>a. if P a then f a else a)) d) =
      map (\<lambda>a. if P a then f a else a) (db_approvals d) @ []" by simp
  show "list_all2 approval_evolves (db_approvals d) (map (\<lambda>a. if P a then f a else a) (db_approvals d))"
    using assms by (simp add: list_all2_map2 list_all2_same)
qed (use assms in \<open>auto simp: image_iff\<close>)

lemma approvals_insert:
  "approvals_step d (snd (q_insert_approval action actor details d))"
proof -
  let ?r = "\<lparr>ap_id = db_ids d (db_next d), ap_action = action, ap_actor = actor, ap_details = details,
    ap_status = APending, ap_reviewed_by = None, ap_created_at = db_now d, ap_reviewed_at = None\<rparr>"
  have "approvals_step d (db_approvals_update (\<lambda>rs. rs @ [?r]) (d\<lparr>db_next := Suc (db_next d)\<rparr>))"
    if "\<forall>r\<in>set (db_approvals d). ap_id ?r \<noteq> ap_id r"
    using that by (intro approvals_stepI [where old = "db_approvals d" and new = "[?r]"])
      (auto simp: list_all2_same approvals_ok_def four_eyes_def)
  then show ?thesis
    by (auto simp: q_insert_approval_def with_fresh_def q_insert_def intro: approvals_step_same)
qed

lemma steps_consumeApproval: "keeps approvals_step (consumeApproval i n)"
proof -
  have "approvals_step d (db_approvals_update (map (\<lambda>a. if ap_id a = i \<and> ap_status a = AApproved
      then a\<lparr>ap_status := AConsumed, ap_details := x\<rparr> else a)) d)" for d x
    by (rule approvals_update) (auto simp: approval_evolves_def four_eyes_def)
  then show ?thesis
    unfolding consumeApproval_def
    by (intro approvals.keeps_rules approvals.keeps_auditLog approvals.keeps_call) (simp_all add: approvals_step_refl)
qed

lemma steps_route_rotation: "keeps approvals_step (route_rotation tt s h req i a)"
  unfolding route_rotation_def
  by (intro approvals.keeps_rules steps_consumeApproval approvals.keeps_rotate_keys)

lemma keeps_executeKeyRotationSideEffect: "keeps approvals_step (executeKeyRotationSideEffect tt s h i n a)"
  unfolding executeKeyRotationSideEffect_def
  by (intro approvals.keeps_rules approvals.keeps_pair_options approvals.keeps_agent_with_id
      approvals.keeps_agent_called steps_consumeApproval approvals.keeps_rotate_keys)

text \<open>The row read before a decision still belongs to the same actor when it is written.\<close>

definition requested_by :: "string \<Rightarrow> string \<Rightarrow> db \<Rightarrow> bool" where
  "requested_by i actor d \<longleftrightarrow>
     i \<in> ap_id ` set (db_approvals d) \<and> (\<forall>a\<in>set (db_approvals d). ap_id a = i \<longrightarrow> ap_actor a = actor)"

lemma evolves_actor:
  "list_all2 approval_evolves as bs \<Longrightarrow> \<forall>a\<in>set as. ap_id a = i \<longrightarrow> ap_actor a = x \<Longrightarrow>
   \<forall>b\<in>set bs. ap_id b = i \<longrightarrow> ap_actor b = x"
  by (induction rule: list_all2_induct) (auto simp: approval_evolves_def)

lemma stable_requested_by: "stable approvals_step (requested_by i actor)"
  unfolding stable_def
proof (intro allI impI)
  fix d d' assume a: "requested_by i actor d \<and> approvals_step d d'"
  then obtain old new where n: "db_approvals d' = old @ new" "list_all2 approval_evolves (db_approvals d) old"
    "ap_id ` set new \<inter> ap_id ` set (db_approvals d) = {}"
    by (auto simp: approvals_step_def)
  have i: "i \<in> ap_id ` set (db_approvals d)" using a by (simp add: requested_by_def)
  then have "i \<in> ap_id ` set old" using evolves_id_set [OF n(2)] by simp
  moreover have "\<forall>b\<in>set old. ap_id b = i \<longrightarrow> ap_actor b = actor"
    using evolves_actor [OF n(2), of i actor] a by (simp add: requested_by_def)
  moreover have "\<forall>b\<in>set new. ap_id b \<noteq> i" using i n(3) by blast
  ultimately show "requested_by i actor d'" using n(1) by (auto simp: requested_by_def)
qed

lemma valid_read_approval:
  "valid approvals_step (\<lambda>_. True) (read_approval i) (\<lambda>r d. \<forall>a. r = Some a \<longrightarrow> requested_by i (ap_actor a) d)"
  unfolding read_approval_def
proof (rule approvals.valid_bind)
  show "valid approvals_step (\<lambda>_. True) (call (shaped shape_single (q_select db_approvals (\<lambda>a. ap_id a = i))))
     (\<lambda>r d. \<forall>a. data_of r = Some a \<longrightarrow> requested_by i (ap_actor a) d)"
  proof (rule approvals.valid_call)
    fix d :: db
    have "requested_by i (ap_actor a) d"
      if "data_of (shape_single (filter (\<lambda>a. ap_id a = i) (db_approvals d))) = Some a" for a
    proof -
      have f: "filter (\<lambda>a. ap_id a = i) (db_approvals d) = [a]"
        using that by (cases "shape_single (filter (\<lambda>a. ap_id a = i) (db_approvals d))")
          (simp_all add: shape_single_Inr)
      then have "set (filter (\<lambda>a. ap_id a = i) (db_approvals d)) = {a}" by simp
      then show ?thesis by (auto simp: requested_by_def set_eq_iff)
    qed
    then show "approvals_step d (snd (shaped shape_single (q_select db_approvals (\<lambda>a. ap_id a = i)) d)) \<and>
       (\<forall>a. data_of (fst (shaped shape_single (q_select db_approvals (\<lambda>a. ap_id a = i)) d)) = Some a \<longrightarrow>
          requested_by i (ap_actor a) (snd (shaped shape_single (q_select db_approvals (\<lambda>a. ap_id a = i)) d)))"
      by (simp add: approvals_step_refl)
  qed simp_all
qed (auto intro: approvals.valid_return)

lemma valid_decide:
  assumes "reviewer \<noteq> actor" "v \<noteq> APending"
  shows "valid approvals_step (requested_by i actor) (decide v i reviewer) (\<lambda>_ _. True)"
  unfolding decide_def
proof (rule approvals.valid_clock_bind, rule approvals.valid_call [OF stable_requested_by])
  fix now d assume "requested_by i actor d"
  then have "approvals_step d (db_approvals_update (map (\<lambda>a. if ap_id a = i \<and> ap_status a = APending
      then a\<lparr>ap_status := v, ap_reviewed_by := Some reviewer, ap_reviewed_at := Some now\<rparr> else a)) d)"
    using assms by (intro approvals_update) (auto simp: approval_evolves_def four_eyes_def requested_by_def)
  then show "approvals_step d (snd (shaped shape_maybe (q_update db_approvals db_approvals_update
      (\<lambda>a. ap_id a = i \<and> ap_status a = APending)
      (\<lambda>a. a\<lparr>ap_status := v, ap_reviewed_by := Some reviewer, ap_reviewed_at := Some now\<rparr>)) d)) \<and> True"
    by simp
qed simp

text \<open>Reviewing: the decision is made by somebody else than the actor.\<close>

lemma valid_reviewed:
  assumes "keeps approvals_step authorized" "v \<noteq> APending" "\<not> own a \<Longrightarrow> reviewer \<noteq> ap_actor a"
  shows "valid approvals_step (requested_by i (ap_actor a)) (reviewed v verb own authorized x reviewer via i a) (\<lambda>_ _. True)"
proof -
  have st: "valid approvals_step (requested_by i (ap_actor a)) authorized (\<lambda>_. requested_by i (ap_actor a))"
    by (rule approvals.keeps_holds [OF assms(1) stable_requested_by])
  have after: "valid approvals_step (\<lambda>_. True) (case y of
      None \<Rightarrow> State_Monad.return (Inl ''Approval already decided by another reviewer'')
    | Some _ \<Rightarrow> do {
        auditLog reviewer (verdict_event v) (Some ''approval'') (Some i)
          (Some ([(''approval_action'', JStr (ap_action a)), (''original_actor'', JStr (ap_actor a))] @ via)) None;
        announce_decision v a i (reviewed_data a reviewer);
        State_Monad.return (Inr a)
      }) (\<lambda>_ _. True)" for y :: "approval_row option"
    by (rule keepsD) (intro approvals.keeps_rules approvals.keeps_auditLog approvals.keeps_announce_decision)
  show ?thesis
    unfolding reviewed_def
    by (intro approvals.valid_if approvals.valid_bind [OF st] approvals.valid_bind [OF valid_decide] after
        approvals.valid_return) (use assms in auto)
qed

text \<open>A reviewer reads the request, then goes on with what was read.\<close>

lemma keeps_read_then:
  assumes "\<And>a. valid approvals_step (requested_by i (ap_actor a)) (k a) (\<lambda>_ _. True)"
  shows "keeps approvals_step (do { approval \<leftarrow> read_approval i;
    case approval of None \<Rightarrow> State_Monad.return x | Some a \<Rightarrow> k a })"
  unfolding keeps_def
proof (rule approvals.valid_bind [OF valid_read_approval])
  fix r :: "approval_row option"
  show "valid approvals_step (\<lambda>d. \<forall>a. r = Some a \<longrightarrow> requested_by i (ap_actor a) d)
     (case r of None \<Rightarrow> State_Monad.return x | Some a \<Rightarrow> k a) (\<lambda>_ _. True)"
    by (cases r) (auto intro: approvals.valid_return valid_conseq [OF assms])
qed

lemma steps_executed: "keeps approvals_step (executed tt s h i n r)"
  unfolding executed_def by (intro approvals.keeps_rules keeps_executeKeyRotationSideEffect)

lemma keeps_approveRequest: "keeps approvals_step (approveRequest tt rs s h i ra rn)"
  unfolding approveRequest_def
  by (intro keeps_read_then approvals.valid_bind [OF valid_reviewed] approvals.keeps_isAuthorizedReviewer
      keepsD [OF steps_executed]) auto

lemma keeps_denyRequest: "keeps approvals_step (denyRequest rs i ra rn)"
  unfolding denyRequest_def
  by (intro keeps_read_then approvals.valid_bind [OF valid_reviewed] approvals.keeps_isAuthorizedReviewer
      approvals.valid_return) auto

lemma keeps_approveDashboardRequest: "keeps approvals_step (approveDashboardRequest tt rs s h i u n)"
  unfolding approveDashboardRequest_def
  by (intro keeps_read_then approvals.valid_bind [OF valid_reviewed] approvals.keeps_isAuthorizedDashboardReviewer
      keepsD [OF steps_executed]) auto

lemma keeps_denyDashboardRequest: "keeps approvals_step (denyDashboardRequest rs i u n)"
  unfolding denyDashboardRequest_def
  by (intro keeps_read_then approvals.valid_bind [OF valid_reviewed] approvals.keeps_isAuthorizedDashboardReviewer
      approvals.valid_return) auto

lemma steps_decided_route:
  assumes "v \<noteq> APending" "\<And>a r. keeps approvals_step (k a r)"
  shows "keeps approvals_step (decided_route v verb rs req i k)"
proof -
  let ?n = "ag_name (rq_agent req)"
  have auth: "valid approvals_step (requested_by i x) (isAuthorizedReviewer rs b y) (\<lambda>_. requested_by i x)" for x b y
    by (rule approvals.keeps_holds [OF approvals.keeps_isAuthorizedReviewer stable_requested_by])
  have done': "keeps approvals_step (case u of
       Inl _ \<Rightarrow> State_Monad.return (reply_error 500 (''Failed to '' @ verb @ '' request'') ''DB_ERROR'')
     | Inr None \<Rightarrow> State_Monad.return
         (reply_error 409 ''Approval already decided by another reviewer'' ''ALREADY_RESPONDED'')
     | Inr (Some row) \<Rightarrow> do {
         auditLog ?n (verdict_event v) (Some ''approval'') (Some i)
           (Some [(''approval_action'', JStr (ap_action a)), (''original_actor'', JStr (ap_actor a))])
           (Some (getClientIp req));
         k a row;
         State_Monad.return (Answer 200 row)
       })" for u :: "approval_row option db_result" and a
    by (cases u; cases "data_of u") (auto intro!: approvals.keeps_rules approvals.keeps_auditLog assms(2) split: option.split)
  show ?thesis
    unfolding decided_route_def approval_limited_def
    by (intro approvals.keeps_bind approvals.keeps_if approvals.keeps_return approvals.keeps_checkRateLimit keeps_read_then
        approvals.valid_if approvals.valid_bind [OF auth] approvals.valid_bind [OF valid_decide] keepsD [OF done']
        approvals.valid_return) (use assms(1) in auto)
qed

lemma steps_approve_post: "keeps approvals_step (approve_post tt rs s h req i)"
  unfolding approve_post_def
  by (intro steps_decided_route approvals.keeps_bind approvals.keeps_announce_decision steps_route_rotation) simp

lemma steps_deny_post: "keeps approvals_step (deny_post rs req i)"
  unfolding deny_post_def by (intro steps_decided_route approvals.keeps_announce_decision) simp

lemma steps_approvals_post: "keeps approvals_step (approvals_post tt rs req)"
proof -
  have ins: "keeps approvals_step (call (shaped shape_single (q_insert_approval a n x)))" for a n x
    by (rule approvals.keeps_call) (simp add: approvals_insert)
  have "keeps approvals_step (approvals_post_parsed tt rs req j)" for j
    unfolding approvals_post_parsed_def Let_def
    by (intro approvals.keeps_rules ins approvals.keeps_auditLog approvals.keeps_announce_request)
  then show ?thesis
    unfolding approvals_post_def approval_limited_def
    by (cases "rq_body req") (auto intro!: approvals.keeps_rules approvals.keeps_checkRateLimit)
qed

lemma steps_requestApproval: "keeps approvals_step (requestApproval rs a n x)"
proof -
  have ins: "keeps approvals_step (call (shaped shape_single (q_insert_approval a n x)))" for a n x
    by (rule approvals.keeps_call) (simp add: approvals_insert)
  show ?thesis
    unfolding requestApproval_def
    by (intro approvals.keeps_rules ins approvals.keeps_auditLog approvals.keeps_announce_request)
qed

lemma steps_consumeApprovalByAction: "keeps approvals_step (consumeApprovalByAction a n)"
  unfolding consumeApprovalByAction_def
  by (intro approvals.keeps_rules approvals.keeps_latest_approved steps_consumeApproval)

section \<open>Relations that do not look at approvals\<close>

text \<open>To the contracts, everything this theory does is another table.\<close>

locale approvals_unseen = contract_relation +
  assumes unseen: "same_contracts d d' \<Longrightarrow> db_links d' = db_links d \<Longrightarrow> R d d'"
begin

lemma keeps_unseen:
  "(\<And>d. same_contracts d (snd (q d)) \<and> db_links (snd (q d)) = db_links d) \<Longrightarrow> keeps R (call q)"
  by (rule keeps_call) (simp add: unseen)

lemma keeps_insert_approval: "keeps R (call (shaped sh (q_insert_approval a n x)))"
  by (rule keeps_unseen) (simp add: q_insert_approval_def with_fresh_def q_insert_def)

lemma keeps_decide: "keeps R (decide v i n)"
  unfolding decide_def by (intro keeps_rules keeps_unseen) simp

lemma keeps_consumeApproval: "keeps R (consumeApproval i n)"
  unfolding consumeApproval_def by (intro keeps_rules keeps_auditLog keeps_unseen) simp_all

lemma keeps_consumeApprovalByAction: "keeps R (consumeApprovalByAction a n)"
  unfolding consumeApprovalByAction_def by (intro keeps_rules keeps_latest_approved keeps_consumeApproval)

lemma keeps_requestApproval: "keeps R (requestApproval rs a n x)"
  unfolding requestApproval_def
  by (intro keeps_rules keeps_insert_approval keeps_auditLog keeps_announce_request)

lemma keeps_reviewed: "keeps R auth \<Longrightarrow> keeps R (reviewed v verb own auth x n via i a)"
  unfolding reviewed_def by (intro keeps_rules keeps_decide keeps_auditLog keeps_announce_decision)

lemma keeps_executed: "keeps R (executed tt s h i n r)"
  unfolding executed_def executeKeyRotationSideEffect_def
  by (intro keeps_rules keeps_pair_options keeps_agent_with_id keeps_agent_called keeps_consumeApproval keeps_rotate_keys)

lemma keeps_reviews:
  "keeps R (approveRequest tt rs s h i ra rn)" "keeps R (denyRequest rs i ra rn)"
  "keeps R (approveDashboardRequest tt rs s h i u n)" "keeps R (denyDashboardRequest rs i u n)"
  unfolding approveRequest_def denyRequest_def approveDashboardRequest_def denyDashboardRequest_def
  by (intro keeps_rules keeps_read_approval keeps_reviewed keeps_isAuthorizedReviewer
      keeps_isAuthorizedDashboardReviewer keeps_executed)+

lemma keeps_decided_route: "(\<And>a r. keeps R (k a r)) \<Longrightarrow> keeps R (decided_route v verb rs req i k)"
proof -
  assume k: "\<And>a r. keeps R (k a r)"
  have rest: "keeps R (case u of None \<Rightarrow> State_Monad.return x
     | Some row \<Rightarrow> do { auditLog n e t j y ip; k a row; State_Monad.return (Answer 200 row) })"
    for u x n e t j y ip and a :: approval_row
    by (intro keeps_rules keeps_auditLog k)
  show ?thesis
    unfolding decided_route_def approval_limited_def
    by (intro keeps_rules keeps_checkRateLimit keeps_read_approval keeps_isAuthorizedReviewer keeps_decide rest)
qed

lemma keeps_route_rotation: "keeps R (route_rotation tt s h req i a)"
  unfolding route_rotation_def by (intro keeps_rules keeps_consumeApproval keeps_rotate_keys)

lemma keeps_approve_post: "keeps R (approve_post tt rs s h req i)"
  unfolding approve_post_def by (intro keeps_decided_route keeps_rules keeps_announce_decision keeps_route_rotation)

lemma keeps_deny_post: "keeps R (deny_post rs req i)"
  unfolding deny_post_def by (intro keeps_decided_route keeps_announce_decision)

lemma keeps_approvals_post: "keeps R (approvals_post tt rs req)"
proof -
  have "keeps R (approvals_post_parsed tt rs req j)" for j
    unfolding approvals_post_parsed_def Let_def
    by (intro keeps_rules keeps_insert_approval keeps_auditLog keeps_announce_request)
  then show ?thesis
    unfolding approvals_post_def approval_limited_def
    by (cases "rq_body req") (auto intro!: keeps_rules keeps_checkRateLimit)
qed

end

interpretation contracts_only: approvals_unseen orderly
  by unfold_locales (rule orderly_same)

end
