(* ===== verification/OperatorActions.thy ===== *)
theory OperatorActions
  imports ContractRoutes ApprovalRoutes
begin

text \<open>
  What an operator does from the dashboard: closing a contract
  (\<open>src/app/(dashboard)/contracts/[id]/actions.ts\<close>), the kill switch
  (\<open>src/app/(dashboard)/kill-switch/actions.ts\<close>) and the review of approvals
  (\<open>src/app/(dashboard)/approvals/actions.ts\<close>). The session is a parameter: the signed-in user with the
  agents in scope, or none. A server action that throws is \<open>Inl\<close> its message. Revalidated pages are
  not modelled.
\<close>

section \<open>Closing a contract\<close>

record auth_actor =
  au_user_id :: string
  au_email :: string
  au_displayName :: string
  au_isSuperAdmin :: bool
  au_agentScope :: "string list"
  au_actingAgentId :: "string option"

definition EMPTY_UUID :: string where
  "EMPTY_UUID = ''00000000-0000-0000-0000-000000000000''"

definition actor_name :: "auth_actor \<Rightarrow> string" where
  "actor_name u = (if au_email u \<noteq> [] then au_email u else au_displayName u)"

text \<open>May the user close it at all? \<open>None\<close>: yes.\<close>

definition close_refused :: "auth_actor \<Rightarrow> string \<Rightarrow> string option prog" where
  "close_refused u contractId =
     (if au_isSuperAdmin u then State_Monad.return None
      else do {
        let scope = (if au_agentScope u \<noteq> [] then au_agentScope u else [EMPTY_UUID]);
        r \<leftarrow> call (limited 1 (q_select db_participants
          (\<lambda>p. p_contract_id p = contractId \<and> p_agent_id p \<in> set scope)));
        State_Monad.return (case rows_of r of
            [] \<Rightarrow> Some ''You are not a participant in this contract.''
          | p # _ \<Rightarrow> if p_role p = Observer then Some ''Observers may inspect a contract but cannot close it.''
                    else None)
      })"

definition q_contract_with_proposer :: "string \<Rightarrow> (contract_row \<times> agent_row option) list statement" where
  "q_contract_with_proposer contractId d =
     (Inr (map (\<lambda>c. (c, find (\<lambda>a. ag_id a = c_proposer_id c) (db_agents d)))
        (filter (\<lambda>c. c_id c = contractId) (db_contracts d))), d)"

definition proposer_name :: "agent_row option \<Rightarrow> string" where
  "proposer_name proposer =
     (case proposer of
        None \<Rightarrow> ''the proposer''
      | Some a \<Rightarrow> if ag_display_name a \<noteq> [] then ag_display_name a
                  else if ag_name a \<noteq> [] then ag_name a else ''the proposer'')"

record close_options =
  cp_withoutApproval :: bool
  cp_reason :: "string option"

definition typed_reason :: "close_options \<Rightarrow> string" where
  "typed_reason options = (case cp_reason options of None \<Rightarrow> [] | Some r \<Rightarrow> js_trim r)"

text \<open>The gate: the refusal, or whether the close is one without approval.\<close>

definition operator_gate :: "contract_row \<Rightarrow> agent_row option \<Rightarrow> close_options \<Rightarrow> string \<Rightarrow> string + bool" where
  "operator_gate contract proposer options contractId =
     (if \<not> gate_pending contract then Inr False
      else if \<not> cp_withoutApproval options then
        Inl (''This contract needs completion approval from '' @ proposer_name proposer @ '' before it can close. '' @
             proposer_name proposer @ '' approves it with `holloway approve-completion '' @ contractId @
             ''`, or you can close it without approving and give a reason.'')
      else if length (typed_reason options) < UNAPPROVED_CLOSE_REASON_MIN then
        Inl (''Say why the work is not being accepted, in at least '' @ show_nat UNAPPROVED_CLOSE_REASON_MIN @ '' characters.'')
      else Inr True)"

definition operator_closed :: "auth_actor \<Rightarrow> string \<Rightarrow> bool \<Rightarrow> timestamp \<Rightarrow> contract_row \<Rightarrow> contract_row" where
  "operator_closed u reason w now c =
     c\<lparr>c_status := SClosed, c_close_reason := Some reason, c_closed_by := Some (actor_name u),
       c_closed_by_kind := Some ByUser, c_closed_without_approval := w, c_closed_at := Some now, c_updated_at := now\<rparr>"

definition operator_reason :: "close_options \<Rightarrow> bool \<Rightarrow> string" where
  "operator_reason options w =
     (if w then ''Closed without approval by operator: '' @ typed_reason options else ''Closed by operator via UI'')"

text \<open>The conditional write, and what follows it when a row came back.\<close>

definition q_operator_close :: "auth_actor \<Rightarrow> string \<Rightarrow> string \<Rightarrow> bool \<Rightarrow> timestamp \<Rightarrow> contract_row option statement" where
  "q_operator_close u contractId reason w now =
     shaped shape_maybe (q_update db_contracts db_contracts_update
       (\<lambda>c. c_id c = contractId \<and> c_status c = SActive \<and> (w \<longrightarrow> c_completion_approved_at c = None))
       (operator_closed u reason w now))"

definition operator_announce :: "auth_actor \<Rightarrow> string \<Rightarrow> contract_row \<Rightarrow> string \<Rightarrow> bool \<Rightarrow> (string + unit) prog" where
  "operator_announce u contractId contract reason w = do {
     emitContractClosed \<lparr>cn_contractId = contractId, cn_excludeAgentId = None, cn_status = SClosed,
       cn_closedBy = Some (actor_name u), cn_closedByKind = Some ByUser, cn_reason = Some reason,
       cn_currentTurns = Some (c_current_turns contract), cn_maxTurns = Some (c_max_turns contract),
       cn_completionApprovedAt = c_completion_approved_at contract, cn_closedWithoutApproval = Some w\<rparr>;
     auditLog (actor_name u) ''contract.close'' (Some ''contract'') (Some contractId)
       (Some [(''reason'', JStr reason), (''without_approval'', JBool w),
         (''actor_agent_id'', jstr_or_null (truthy_or_null (au_actingAgentId u)))]) None;
     State_Monad.return (Inr ())
   }"

definition operator_close :: "auth_actor \<Rightarrow> string \<Rightarrow> contract_row \<Rightarrow> close_options \<Rightarrow> bool \<Rightarrow> (string + unit) prog" where
  "operator_close u contractId contract options w = do {
     now \<leftarrow> clock;
     closed \<leftarrow> call (q_operator_close u contractId (operator_reason options w) w now);
     case closed of
       Inl e \<Rightarrow> State_Monad.return (Inl (''The contract could not be closed: '' @ de_message e))
     | Inr row \<Rightarrow> (case row of
         None \<Rightarrow> State_Monad.return
           (Inl ''The contract changed while you were closing it. Reload to see its current state.'')
       | Some _ \<Rightarrow> operator_announce u contractId contract (operator_reason options w) w)
   }"

definition closeContract :: "auth_actor option \<Rightarrow> string \<Rightarrow> close_options \<Rightarrow> (string + unit) prog" where
  "closeContract session contractId options =
     (case session of
        None \<Rightarrow> State_Monad.return (Inl ''You are signed out. Sign in again to close this contract.'')
      | Some u \<Rightarrow> do {
          refused \<leftarrow> close_refused u contractId;
          case refused of
            Some e \<Rightarrow> State_Monad.return (Inl e)
          | None \<Rightarrow> do {
              r \<leftarrow> call (shaped shape_maybe (q_contract_with_proposer contractId));
              case maybe_of r of
                None \<Rightarrow> State_Monad.return (Inl ''Contract not found.'')
              | Some (contract, proposer) \<Rightarrow>
                  if c_status contract \<noteq> SActive then State_Monad.return (Inl (''This contract is '' @
                    status_name (c_status contract) @ ''; only active contracts can be closed.''))
                  else (case operator_gate contract proposer options contractId of
                    Inl e \<Rightarrow> State_Monad.return (Inl e)
                  | Inr w \<Rightarrow> operator_close u contractId contract options w)
            }
        })"

section \<open>The kill switch\<close>

text \<open>Both functions are for super admins.\<close>

definition as_admin :: "auth_actor option \<Rightarrow> (auth_actor \<Rightarrow> (string + 'a) prog) \<Rightarrow> (string + 'a) prog" where
  "as_admin session k =
     (case session of
        None \<Rightarrow> State_Monad.return (Inl ''Not authenticated'')
      | Some u \<Rightarrow> if au_isSuperAdmin u then k u else State_Monad.return (Inl ''Admin access required''))"

definition requestKillSwitchActivation ::
  "(json \<Rightarrow> string) \<Rightarrow> string option \<Rightarrow> string \<Rightarrow> (string \<Rightarrow> string) \<Rightarrow> auth_actor option \<Rightarrow> (string + string) prog" where
  "requestKillSwitchActivation to_text reviewers secret sha256 session = as_admin session (\<lambda>u. do {
     requested \<leftarrow> requestApproval reviewers ''killswitch.activate'' (au_displayName u)
       [(''reason'', JStr ''Kill switch activation requested via dashboard''), (''user_id'', JStr (au_user_id u)),
        (''requested_via'', JStr ''dashboard'')];
     case requested of
       Inl e \<Rightarrow> State_Monad.return (Inl e)
     | Inr i \<Rightarrow> do {
         approved \<leftarrow> approveDashboardRequest to_text reviewers secret sha256 i (au_user_id u) (au_displayName u);
         State_Monad.return (case approved of
             Inl e \<Rightarrow> Inl (if e \<noteq> [] then e else ''Failed to auto-approve kill switch activation'')
           | Inr _ \<Rightarrow> Inr i)
       }
   })"

text \<open>
  \<open>upsert\<close> with its conflict columns (\<open>src/lib/db/client.ts\<close>): without any, the query builder throws, and
  returns that as the error of the statement.
\<close>

definition q_upsert_config :: "string list \<Rightarrow> config_row \<Rightarrow> unit statement" where
  "q_upsert_config conflictColumns new d =
     (if conflictColumns = [] then
        (Inl \<lparr>de_code = ''DATABASE_ERROR'', de_message = ''upsert requires onConflict''\<rparr>, d)
      else if \<exists>c\<in>set (db_config d). cfg_key c = cfg_key new then
        (Inr (), d\<lparr>db_config := map (\<lambda>c. if cfg_key c = cfg_key new then new else c) (db_config d)\<rparr>)
      else (Inr (), d\<lparr>db_config := db_config d @ [new]\<rparr>))"

definition switched_off :: "contract_status \<Rightarrow> timestamp \<Rightarrow> contract_row \<Rightarrow> contract_row" where
  "switched_off s now c =
     c\<lparr>c_status := s, c_close_reason := Some ''System kill switch activated'', c_closed_by := Some ''system:kill-switch'',
       c_closed_by_kind := Some BySystem, c_closed_at := Some now, c_updated_at := now\<rparr>"

definition switch_off :: "contract_status \<Rightarrow> contract_status \<Rightarrow> timestamp \<Rightarrow> contract_row list statement" where
  "switch_off s s' now = q_update db_contracts db_contracts_update (\<lambda>c. c_status c = s) (switched_off s' now)"

definition executeKillSwitchActivation :: "auth_actor option \<Rightarrow> (string + unit) prog" where
  "executeKillSwitchActivation session = as_admin session (\<lambda>u. do {
     pending \<leftarrow> latest_approved ''killswitch.activate'';
     if pending = None then State_Monad.return (Inl ''No approved kill switch activation request found.'')
     else do {
       now \<leftarrow> clock;
       switched \<leftarrow> call (q_upsert_config [] \<lparr>cfg_key = ''kill_switch'',
         cfg_value = [(''active'', JBool True), (''activated_at'', jint now)]\<rparr>);
       case switched of
         Inl e \<Rightarrow> State_Monad.return (Inl (''Failed to activate kill switch: '' @ de_message e))
       | Inr _ \<Rightarrow> do {
           approved \<leftarrow> consumeApprovalByAction ''killswitch.activate'' (au_displayName u);
           case approved of
             None \<Rightarrow> State_Monad.return (Inl ''Failed to consume approval after state change.'')
           | Some a \<Rightarrow> do {
               closed \<leftarrow> call (switch_off SActive SClosed now);
               case closed of
                 Inl e \<Rightarrow> State_Monad.return (Inl (''Failed to close active contracts: '' @ de_message e))
               | Inr _ \<Rightarrow> do {
                   cancelled \<leftarrow> call (switch_off SProposed SCancelled now);
                   case cancelled of
                     Inl e \<Rightarrow> State_Monad.return (Inl (''Failed to cancel proposed contracts: '' @ de_message e))
                   | Inr _ \<Rightarrow> do {
                       auditLog (au_displayName u) ''killswitch.activate'' (Some ''system'') None
                         (Some [(''reason'', JStr ''Kill switch activated via UI (auto-approved admin action)''),
                           (''approval_id'', JStr (ap_id a))]) None;
                       State_Monad.return (Inr ())
                     }
                 }
             }
         }
     }
   })"

definition deactivateKillSwitch :: "auth_actor option \<Rightarrow> (string + unit) prog" where
  "deactivateKillSwitch session = as_admin session (\<lambda>u. do {
     now \<leftarrow> clock;
     r \<leftarrow> call (shaped shape_single (q_select db_config (\<lambda>c. cfg_key c = ''kill_switch'')));
     if (case data_of r of None \<Rightarrow> True | Some c \<Rightarrow> falsy (map_of (cfg_value c) ''active'')) then
       State_Monad.return (Inl ''Kill switch is already inactive'')
     else do {
       updated \<leftarrow> call (q_update db_config db_config_update (\<lambda>c. cfg_key c = ''kill_switch'')
         (\<lambda>c. c\<lparr>cfg_value := [(''active'', JBool False), (''deactivated_at'', jint now)]\<rparr>));
       case updated of
         Inl _ \<Rightarrow> State_Monad.return (Inl (''Failed to deactivate kill switch '' @ em_dash @ '' please try again''))
       | Inr _ \<Rightarrow> do {
           auditLog (au_displayName u) ''killswitch.deactivate'' (Some ''system'') None
             (Some [(''reason'', JStr ''Kill switch deactivated via UI'')]) None;
           State_Monad.return (Inr ())
         }
     }
   })"

section \<open>Reviewing\<close>

definition handleApprove ::
  "(json \<Rightarrow> string) \<Rightarrow> string option \<Rightarrow> string \<Rightarrow> (string \<Rightarrow> string) \<Rightarrow> auth_actor option \<Rightarrow> string \<Rightarrow> (string + unit) prog" where
  "handleApprove to_text reviewers secret sha256 session approvalId = as_admin session (\<lambda>u. do {
     approval \<leftarrow> read_approval approvalId;
     if (case approval of None \<Rightarrow> False | Some a \<Rightarrow> ap_actor a = au_displayName u \<or>
           jprop (Some (ap_details a)) ''user_id'' = Some (JStr (au_user_id u))) then
       State_Monad.return (Inl ''You cannot approve your own request'')
     else approveDashboardRequest to_text reviewers secret sha256 approvalId (au_user_id u) (au_displayName u)
   })"

definition handleDeny :: "string option \<Rightarrow> auth_actor option \<Rightarrow> string \<Rightarrow> (string + unit) prog" where
  "handleDeny reviewers session approvalId = as_admin session (\<lambda>u.
     denyDashboardRequest reviewers approvalId (au_user_id u) (au_displayName u))"

section \<open>Beside other requests\<close>

lemma orderly_switch_off:
  assumes "(s, s') \<in> {(SActive, SClosed), (SProposed, SCancelled)}"
  shows "orderly d (snd (switch_off s s' now d))"
  unfolding switch_off_def snd_q_update using assms
  by (intro orderly_update_contracts)
    (auto simp: switched_off_def evolves_def row_ok_def turns_bounded_def gate_respected_def is_live_def)

lemma operator_gate_open: "operator_gate c p o' i = Inr w \<Longrightarrow> w \<or> gate_open c"
  by (auto simp: operator_gate_def gate_pending_def gate_open_def split: if_splits)

lemma operator_close_row:
  assumes "w \<or> gate_open c" "c_status c = SActive" "row_ok d c"
  shows "evolves c (operator_closed u r w now c) \<and> row_ok d (operator_closed u r w now c)"
  using assms
  by (auto simp: operator_closed_def evolves_def row_ok_def turns_bounded_def gate_respected_def gate_open_def is_live_def)

lemma q_operator_close_holds:
  "valid orderly (rows_are i (\<lambda>c. w \<or> gate_open c)) (call (q_operator_close u i r w now)) (\<lambda>_. contracts_ok)"
  unfolding q_operator_close_def by (rule valid_gated_update) (auto simp: operator_close_row)

lemma operator_announce_holds: "valid orderly contracts_ok (operator_announce u i c r w) (\<lambda>_. contracts_ok)"
  unfolding operator_announce_def
  by (intro orderly.holds_rules holds_helpers orderly.keeps_holds [OF orderly.keeps_auditLog stable_contracts_ok])

lemma operator_close_holds:
  "valid orderly (rows_are i (\<lambda>c. w \<or> gate_open c)) (operator_close u i c opts w) (\<lambda>_. contracts_ok)"
  unfolding operator_close_def
  by (rule orderly.valid_clock_bind, rule orderly.valid_bind [OF q_operator_close_holds])
     (intro orderly.holds_rules operator_announce_holds)

lemma keeps_close_refused: "keeps orderly (close_refused u i)"
  unfolding close_refused_def Let_def by (intro orderly.keeps_rules orderly.keeps_read) (simp add: limited_def)

text \<open>What the gate was decided on was the only row of that id.\<close>

lemma valid_contract_with_proposer:
  "valid orderly contracts_ok (call (shaped shape_maybe (q_contract_with_proposer i)))
     (\<lambda>r d. contracts_ok d \<and> (\<forall>c p. maybe_of r = Some (c, p) \<longrightarrow> rows_are i (\<lambda>c'. c' = c) d))"
proof (rule orderly.valid_call)
  fix d assume ok: "contracts_ok d"
  let ?q = "shaped shape_maybe (q_contract_with_proposer i) d"
  have "snd ?q = d" by (simp add: q_contract_with_proposer_def)
  moreover have "rows_are i (\<lambda>c'. c' = c) d" if "maybe_of (fst ?q) = Some (c, p)" for c p
  proof -
    from that have "shape_maybe (map (\<lambda>c. (c, find (\<lambda>a. ag_id a = c_proposer_id c) (db_agents d))) (crows d i)) = Inr (Some (c, p))"
      by (cases "fst ?q") (auto simp: q_contract_with_proposer_def shaped_def crows_def)
    then have "crows d i = [c]" unfolding shape_maybe_Inr_Some by auto
    then show ?thesis using ok crows_spent [OF ok, of i] by (simp add: rows_are_def)
  qed
  ultimately show "orderly d (snd ?q) \<and> contracts_ok (snd ?q) \<and>
      (\<forall>c p. maybe_of (fst ?q) = Some (c, p) \<longrightarrow> rows_are i (\<lambda>c'. c' = c) (snd ?q))"
    using ok orderly_refl by metis
qed (simp_all add: stable_contracts_ok)

lemma closeContract_holds: "valid orderly contracts_ok (closeContract session i opts) (\<lambda>_. contracts_ok)"
proof -
  have close: "valid orderly (rows_are i (\<lambda>c'. c' = c)) (case operator_gate c p opts i of
      Inl e \<Rightarrow> State_Monad.return (Inl e) | Inr w \<Rightarrow> operator_close u i c opts w) (\<lambda>_. contracts_ok)" for c p u
  proof (cases "operator_gate c p opts i")
    case (Inr w)
    then have "w \<or> gate_open c" by (rule operator_gate_open)
    then have "rows_are i (\<lambda>c. w \<or> gate_open c) d" if "rows_are i (\<lambda>c'. c' = c) d" for d
      using that by (auto simp: rows_are_def)
    with Inr show ?thesis by (auto intro: valid_conseq [OF operator_close_holds])
  qed (auto intro!: orderly.valid_return simp: rows_are_def)
  have found: "valid orderly (\<lambda>d. contracts_ok d \<and> (\<forall>c p. maybe_of r = Some (c, p) \<longrightarrow> rows_are i (\<lambda>c'. c' = c) d))
     (case maybe_of r of
        None \<Rightarrow> State_Monad.return (Inl ''Contract not found.'')
      | Some (contract, proposer) \<Rightarrow>
          if c_status contract \<noteq> SActive then State_Monad.return (Inl (''This contract is '' @
            status_name (c_status contract) @ ''; only active contracts can be closed.''))
          else (case operator_gate contract proposer opts i of
            Inl e \<Rightarrow> State_Monad.return (Inl e)
          | Inr w \<Rightarrow> operator_close u i contract opts w)) (\<lambda>_. contracts_ok)" for r u
  proof (cases "maybe_of r")
    case None
    then show ?thesis by (simp add: orderly.valid_return)
  next
    case (Some cp)
    obtain c p where cp: "cp = (c, p)" by fastforce
    have "valid orderly (rows_are i (\<lambda>c'. c' = c)) (if c_status c \<noteq> SActive then State_Monad.return (Inl (''This contract is '' @
            status_name (c_status c) @ ''; only active contracts can be closed.''))
          else (case operator_gate c p opts i of
            Inl e \<Rightarrow> State_Monad.return (Inl e)
          | Inr w \<Rightarrow> operator_close u i c opts w)) (\<lambda>_. contracts_ok)"
      by (rule orderly.valid_if) (auto intro!: orderly.valid_return close simp only: rows_are_def)
    then show ?thesis
      unfolding Some cp option.case prod.case by (rule valid_conseq) auto
  qed
  show ?thesis
    unfolding closeContract_def
    by (intro orderly.valid_option orderly.valid_return
        orderly.valid_bind [OF orderly.keeps_holds [OF keeps_close_refused stable_contracts_ok]]
        orderly.valid_bind [OF valid_contract_with_proposer] found) simp_all
qed

text \<open>A relation that every operation of the kill switch and of the review page keeps.\<close>

locale operator_relation = contract_relation +
  assumes switching: "(s, s') \<in> {(SActive, SClosed), (SProposed, SCancelled)} \<Longrightarrow> keeps R (call (switch_off s s' now))"
    and consuming: "keeps R (consumeApprovalByAction a n)"
    and requesting: "keeps R (requestApproval rs a n x)"
    and approving: "keeps R (approveDashboardRequest tt rs key h i u n)"
    and denying: "keeps R (denyDashboardRequest rs i u n)"
begin

lemma keeps_as_admin: "(\<And>u. keeps R (k u)) \<Longrightarrow> keeps R (as_admin session k)"
  unfolding as_admin_def by (intro keeps_rules)

lemma keeps_executeKillSwitchActivation: "keeps R (executeKillSwitchActivation session)"
  unfolding executeKillSwitchActivation_def
  by (intro keeps_as_admin keeps_rules keeps_latest_approved consuming keeps_auditLog switching keeps_other)
     (simp_all add: q_upsert_config_def)

lemma keeps_requestKillSwitchActivation: "keeps R (requestKillSwitchActivation tt rs s h session)"
  unfolding requestKillSwitchActivation_def by (intro keeps_as_admin keeps_rules requesting approving)

lemma keeps_deactivateKillSwitch: "keeps R (deactivateKillSwitch session)"
  unfolding deactivateKillSwitch_def by (intro keeps_as_admin keeps_rules keeps_auditLog keeps_other) simp_all

lemma keeps_handleApprove: "keeps R (handleApprove tt rs s h session i)"
  unfolding handleApprove_def by (intro keeps_as_admin keeps_rules keeps_read_approval approving)

lemma keeps_handleDeny: "keeps R (handleDeny rs session i)"
  unfolding handleDeny_def by (intro keeps_as_admin denying)

end

interpretation orderly_operator: operator_relation orderly
  by unfold_locales
    (auto intro: orderly.keeps_call orderly_switch_off contracts_only.keeps_consumeApprovalByAction
      contracts_only.keeps_requestApproval contracts_only.keeps_reviews)

section \<open>The kill switch cannot be thrown\<close>

text \<open>What a request for approval leaves behind is still its actor's when it is reviewed.\<close>

lemma valid_requestApproval:
  "valid approvals_step (\<lambda>_. True) (requestApproval rs a n x) (\<lambda>r d. \<forall>i. r = Inr i \<longrightarrow> requested_by i n d)"
  unfolding requestApproval_def
proof (rule approvals.valid_bind)
  show "valid approvals_step (\<lambda>_. True) (call (shaped shape_single (q_insert_approval a n (JObj x))))
     (\<lambda>r d. \<forall>row. r = Inr row \<longrightarrow> requested_by (ap_id row) n d)"
  proof (rule approvals.valid_call)
    fix d :: db
    let ?q = "shaped shape_single (q_insert_approval a n (JObj x)) d"
    have "requested_by (ap_id row) n (snd ?q)" if "fst ?q = Inr row" for row
      using that by (auto simp: shaped_def q_insert_approval_def with_fresh_def q_insert_def requested_by_def
          shape_single_def split: prod.splits sum.splits if_splits)
    then show "approvals_step d (snd ?q) \<and> (\<forall>row. fst ?q = Inr row \<longrightarrow> requested_by (ap_id row) n (snd ?q))"
      using approvals_insert [of d a n "JObj x"] by simp
  qed simp_all
next
  fix r :: "approval_row db_result"
  have st: "valid approvals_step (requested_by i n) m (\<lambda>_. requested_by i n)" if "keeps approvals_step m" for i and m :: "'z prog"
    by (rule approvals.keeps_holds [OF that stable_requested_by])
  show "valid approvals_step (\<lambda>d. \<forall>row. r = Inr row \<longrightarrow> requested_by (ap_id row) n d)
    (case r of
       Inl e \<Rightarrow> State_Monad.return (Inl (''Failed to create approval request: '' @ de_message e))
     | Inr row \<Rightarrow> do {
         auditLog n ''approval.requested'' (Some ''approval'') (Some (ap_id row))
           (Some (object_entries (obj_spread (JObj [(''approval_action'', JStr a)]) x))) None;
         announce_request rs n (ap_id row) [(''action'', JStr a), (''actor'', JStr n)];
         State_Monad.return (Inr (ap_id row))
       }) (\<lambda>r d. \<forall>i. r = Inr i \<longrightarrow> requested_by i n d)"
    by (cases r) (auto intro!: approvals.valid_return
        approvals.valid_bind [OF st [OF approvals.keeps_auditLog]] approvals.valid_bind [OF st [OF approvals.keeps_announce_request]])
qed

lemma valid_own_request:
  "valid approvals_step (requested_by i n) (read_approval i) (\<lambda>r d. \<forall>a. r = Some a \<longrightarrow> ap_actor a = n)"
  unfolding read_approval_def
proof (rule approvals.valid_bind)
  show "valid approvals_step (requested_by i n) (call (shaped shape_single (q_select db_approvals (\<lambda>a. ap_id a = i))))
     (\<lambda>r d. \<forall>a. data_of r = Some a \<longrightarrow> ap_actor a = n)"
  proof (rule approvals.valid_call [OF stable_requested_by])
    fix d assume own: "requested_by i n d"
    have "ap_actor a = n" if "data_of (shape_single (filter (\<lambda>a. ap_id a = i) (db_approvals d))) = Some a" for a
    proof -
      have "filter (\<lambda>a. ap_id a = i) (db_approvals d) = [a]"
        using that by (cases "shape_single (filter (\<lambda>a. ap_id a = i) (db_approvals d))") (simp_all add: shape_single_Inr)
      then have "a \<in> set (filter (\<lambda>a. ap_id a = i) (db_approvals d))" by simp
      with own show ?thesis by (simp add: requested_by_def)
    qed
    then show "approvals_step d (snd (shaped shape_single (q_select db_approvals (\<lambda>a. ap_id a = i)) d)) \<and>
       (\<forall>a. data_of (fst (shaped shape_single (q_select db_approvals (\<lambda>a. ap_id a = i)) d)) = Some a \<longrightarrow> ap_actor a = n)"
      by (simp add: approvals_step_refl)
  qed simp
qed (auto intro: approvals.valid_return)

lemma valid_self_review:
  "valid approvals_step (requested_by i n) (approveDashboardRequest tt rs s h i u n) (\<lambda>r _. isl r)"
  unfolding approveDashboardRequest_def
proof (rule approvals.valid_bind [OF valid_own_request])
  fix r :: "approval_row option"
  have "valid approvals_step (\<lambda>_. ap_actor a = n)
     (do { r \<leftarrow> reviewed AApproved ''approve'' (\<lambda>a. ap_actor a = n) (isAuthorizedDashboardReviewer rs u (Some (ap_actor a)))
             users_only n via_dashboard i a;
           executed tt s h i n r }) (\<lambda>r _. isl r)" for a
  proof (rule approvals.valid_bind [where Q = "\<lambda>r _. isl r"])
    show "valid approvals_step (\<lambda>_. ap_actor a = n) (reviewed AApproved ''approve'' (\<lambda>a. ap_actor a = n)
        (isAuthorizedDashboardReviewer rs u (Some (ap_actor a))) users_only n via_dashboard i a) (\<lambda>r _. isl r)"
      by (cases "ap_actor a = n")
        (auto simp: reviewed_def valid_def approvals_step_refl State_Monad.return_def)
    show "valid approvals_step (\<lambda>_. isl r) (executed tt s h i n r) (\<lambda>r _. isl r)" for r
      by (cases r) (auto simp: executed_def valid_def approvals_step_refl State_Monad.return_def)
  qed
  then show "valid approvals_step (\<lambda>d. \<forall>a. r = Some a \<longrightarrow> ap_actor a = n)
     (case r of None \<Rightarrow> State_Monad.return (Inl approval_not_found)
      | Some a \<Rightarrow> do {
          r \<leftarrow> reviewed AApproved ''approve'' (\<lambda>a. ap_actor a = n) (isAuthorizedDashboardReviewer rs u (Some (ap_actor a)))
             users_only n via_dashboard i a;
          executed tt s h i n r
        }) (\<lambda>r _. isl r)"
    by (cases r) (simp_all add: approvals.valid_return)
qed

lemma quiet_latest_approved: "quiet (\<lambda>_ _. True) (\<lambda>_. True) (latest_approved a) (\<lambda>_ _. True)"
  unfolding latest_approved_def by (rule quiet_bind, rule quiet_call) (auto intro: quiet_return)

lemma quiet_executeKillSwitch:
  "quiet (\<lambda>_ _. True) (\<lambda>_. True) (executeKillSwitchActivation session) (\<lambda>r _. isl r)"
proof -
  have ups: "quiet (\<lambda>_ _. True) (\<lambda>_. True) (call (q_upsert_config [] row)) (\<lambda>r _. isl r)" for row
    by (rule quiet_call) (auto simp: q_upsert_config_def)
  have rest: "quiet (\<lambda>_ _. True) (\<lambda>_. isl x) (case x of Inl e \<Rightarrow> State_Monad.return (Inl (f e)) | Inr y \<Rightarrow> k y) (\<lambda>r _. isl r)"
    for x :: "unit db_result" and f :: "db_error \<Rightarrow> string" and k :: "unit \<Rightarrow> (string + unit) prog"
    by (cases x) (auto intro: quiet_return quiet_False)
  have act: "quiet (\<lambda>_ _. True) (\<lambda>_. True) (if p = None then State_Monad.return (Inl e) else k) (\<lambda>r _. isl r)"
    if "quiet (\<lambda>_ _. True) (\<lambda>_. True) k (\<lambda>r _. isl r)" for p :: "approval_row option" and e and k :: "(string + unit) prog"
    using that by (simp add: quiet_return)
  have clk: "quiet (\<lambda>_ _. True) (\<lambda>_. True) clock (\<lambda>_ _. True)" by (rule quiet_clock) simp
  show ?thesis
    unfolding executeKillSwitchActivation_def as_admin_def
    by (cases session)
       (auto intro!: quiet_return quiet_bind [OF quiet_latest_approved] act quiet_bind [OF clk] quiet_bind [OF ups] rest)
qed

text \<open>Activating the kill switch always fails and changes nothing: its upsert names no conflict column,
  which the query builder answers with an error before it reaches the database. Whatever runs beside it,
  the database is left as the other requests made it.\<close>
theorem kill_switch_never_activates:
  "isl (result (executeKillSwitchActivation session) env d) \<and>
   announced (executeKillSwitchActivation session) env d = [] \<and>
   (\<exists>used rest. env = used @ rest \<and> final (executeKillSwitchActivation session) env d = fold es_act used d)"
  using quiet_run [OF quiet_executeKillSwitch, of env session d] by (simp add: rely_def)

text \<open>Requesting the activation always fails: the request is approved at once in the name of its own
  actor, which the review refuses. (Provided the other requests leave approvals in order.)\<close>
theorem kill_switch_request_refused:
  assumes "rely approvals_step env"
  shows "isl (result (requestKillSwitchActivation to_text reviewers secret sha256 session) env d)"
proof -
  have "valid approvals_step (\<lambda>_. True) (requestKillSwitchActivation to_text reviewers secret sha256 session) (\<lambda>r _. isl r)"
  proof (cases session)
    case (Some u)
    have two: "valid approvals_step (\<lambda>d. \<forall>i. r = Inr i \<longrightarrow> requested_by i (au_displayName u) d) (case r of
        Inl e \<Rightarrow> State_Monad.return (Inl e)
      | Inr i \<Rightarrow> do {
          approved \<leftarrow> approveDashboardRequest to_text reviewers secret sha256 i (au_user_id u) (au_displayName u);
          State_Monad.return (case approved of
              Inl e \<Rightarrow> Inl (if e \<noteq> [] then e else ''Failed to auto-approve kill switch activation'')
            | Inr _ \<Rightarrow> Inr i)
        }) (\<lambda>r _. isl r)" for r :: "string + string"
      by (cases r)
         (auto intro!: approvals.valid_return approvals.valid_bind [OF valid_self_review] split: sum.split)
    then show ?thesis
      using Some unfolding requestKillSwitchActivation_def as_admin_def
      by (auto intro!: approvals.valid_return approvals.valid_bind [OF valid_requestApproval] two)
  qed (simp add: requestKillSwitchActivation_def as_admin_def approvals.valid_return)
  from valid_run(2) [OF this assms] show ?thesis by simp
qed

theorem kill_switch_request_refused_witness:
  "isl (result (requestKillSwitchActivation (\<lambda>_. []) None [] id (Some \<lparr>au_user_id = ''u'', au_email = [],
     au_displayName = ''Ada'', au_isSuperAdmin = True, au_agentScope = [], au_actingAgentId = None\<rparr>)) [] (empty_db (\<lambda>_. ''id'')))"
  by (rule kill_switch_request_refused) simp

end
