(* ===== verification/TaskExecution.thy ===== *)
theory TaskExecution
  imports Idempotency
begin

text \<open>
  The execution of tasks: runs, their checkpoints, and the snapshot of them on the task
  (\<open>src/lib/task-execution.ts\<close>, \<open>src/lib/task-activity.ts\<close>), with the database function that appends a
  checkpoint (\<open>migrations/20260917200000_atomic_checkpoint_append.sql\<close>).
\<close>

section \<open>Statuses\<close>

fun run_status_name :: "run_status \<Rightarrow> string" where
  "run_status_name RQueued = ''queued''"
| "run_status_name RStarting = ''starting''"
| "run_status_name RRunning = ''running''"
| "run_status_name RPendingApproval = ''pending-approval''"
| "run_status_name RWaiting = ''waiting''"
| "run_status_name RBlocked = ''blocked''"
| "run_status_name RPaused = ''paused''"
| "run_status_name RHandoffNeeded = ''handoff-needed''"
| "run_status_name RSucceeded = ''succeeded''"
| "run_status_name RFailed = ''failed''"
| "run_status_name RCancelled = ''cancelled''"

definition TASK_EXECUTION_RUN_STATUSES :: "run_status list" where
  "TASK_EXECUTION_RUN_STATUSES =
     [RQueued, RStarting, RRunning, RPendingApproval, RWaiting, RBlocked, RPaused, RHandoffNeeded,
      RSucceeded, RFailed, RCancelled]"

definition run_status_of :: "string \<Rightarrow> run_status option" where
  "run_status_of value = find (\<lambda>s. run_status_name s = value) TASK_EXECUTION_RUN_STATUSES"

definition isTaskExecutionRunStatus :: "string \<Rightarrow> bool" where
  "isTaskExecutionRunStatus value \<longleftrightarrow> value \<in> set (map run_status_name TASK_EXECUTION_RUN_STATUSES)"

fun mapRunStatusToTaskStatus :: "run_status \<Rightarrow> exec_status" where
  "mapRunStatusToTaskStatus RQueued = EQueued"
| "mapRunStatusToTaskStatus RStarting = ERunning"
| "mapRunStatusToTaskStatus RRunning = ERunning"
| "mapRunStatusToTaskStatus RPendingApproval = EPendingApproval"
| "mapRunStatusToTaskStatus RWaiting = EWaiting"
| "mapRunStatusToTaskStatus RBlocked = EBlocked"
| "mapRunStatusToTaskStatus RPaused = EPaused"
| "mapRunStatusToTaskStatus RHandoffNeeded = EHandoffNeeded"
| "mapRunStatusToTaskStatus RSucceeded = ESucceeded"
| "mapRunStatusToTaskStatus RFailed = EFailed"
| "mapRunStatusToTaskStatus RCancelled = ECancelled"

definition finished :: "run_status \<Rightarrow> bool" where
  "finished s \<longleftrightarrow> s \<in> {RSucceeded, RFailed, RCancelled}"

definition beats :: "run_status \<Rightarrow> bool" where
  "beats s \<longleftrightarrow> s \<in> {RStarting, RRunning, RPendingApproval, RWaiting, RBlocked, RPaused, RHandoffNeeded}"

section \<open>Errors\<close>

text \<open>
  \<open>TaskExecutionError\<close>: the functions of this component throw it; here it is the left of a sum. A
  database error that \<open>throw error\<close> lets through is one too, with its own code.
\<close>

record task_error =
  te_message :: string
  te_code :: string
  te_status :: nat

definition task_fail :: "string \<Rightarrow> string \<Rightarrow> nat \<Rightarrow> task_error + 'a" where
  "task_fail msg code status = Inl \<lparr>te_message = msg, te_code = code, te_status = status\<rparr>"

definition taskExecutionErrorFromDb :: "db_error \<Rightarrow> string \<Rightarrow> task_error" where
  "taskExecutionErrorFromDb error fallback =
     (let msg = (if de_message error \<noteq> [] then de_message error else fallback)
      in if de_code error = ''23505'' then \<lparr>te_message = msg, te_code = ''DUPLICATE'', te_status = 409\<rparr>
         else if de_code error = ''23514'' then \<lparr>te_message = msg, te_code = ''VALIDATION_ERROR'', te_status = 400\<rparr>
         else if de_code error = ''23503'' then \<lparr>te_message = msg, te_code = ''VALIDATION_ERROR'', te_status = 400\<rparr>
         else \<lparr>te_message = msg, te_code = ''DB_ERROR'', te_status = 500\<rparr>)"

definition or_fail :: "string \<Rightarrow> 'a db_result \<Rightarrow> task_error + 'a" where
  "or_fail fallback r = (case r of Inl e \<Rightarrow> Inl (taskExecutionErrorFromDb e fallback) | Inr x \<Rightarrow> Inr x)"

section \<open>The snapshot\<close>

definition deriveTaskExecutionSnapshot ::
  "string option \<Rightarrow> run_status option \<Rightarrow> timestamp option \<Rightarrow> timestamp option \<Rightarrow> timestamp option \<Rightarrow>
   timestamp option \<Rightarrow> string option \<Rightarrow> json \<Rightarrow> task_snapshot" where
  "deriveTaskExecutionSnapshot activeRunId status startedAt heartbeatAt completedAt checkpointAt
       checkpointSummary checkpointPayload =
     \<lparr>ts_execution_status = (case status of Some s \<Rightarrow> mapRunStatusToTaskStatus s | None \<Rightarrow> EIdle),
      ts_active_run_id = activeRunId, ts_started_at = startedAt, ts_heartbeat_at = heartbeatAt,
      ts_completed_at = completedAt, ts_last_checkpoint_at = checkpointAt,
      ts_last_checkpoint_summary = checkpointSummary, ts_last_checkpoint_payload = checkpointPayload\<rparr>"

definition syncTaskExecutionSnapshot :: "string \<Rightarrow> task_snapshot \<Rightarrow> (task_error + unit) prog" where
  "syncTaskExecutionSnapshot taskId snapshot = do {
     r \<leftarrow> call (\<lambda>d. q_update db_tasks db_tasks_update (\<lambda>t. t_id t = taskId)
       (\<lambda>t. t\<lparr>t_snapshot := snapshot, t_updated_at := db_now d\<rparr>) d);
     State_Monad.return (case r of
        Inl e \<Rightarrow> Inl (taskExecutionErrorFromDb e ''Failed to sync execution snapshot'')
      | Inr _ \<Rightarrow> Inr ())
   }"

section \<open>Reading\<close>

text \<open>\<open>order(..., ascending: false)\<close>, equal keys in insertion order.\<close>

definition descending :: "('r \<Rightarrow> int) \<Rightarrow> 'r list \<Rightarrow> 'r list" where
  "descending key rows = sort_key (\<lambda>r. - key r) rows"

definition listTaskExecutionRuns :: "string \<Rightarrow> (task_error + run_row list) prog" where
  "listTaskExecutionRuns taskId = do {
     r \<leftarrow> call (\<lambda>d. (Inr (descending r_created_at (filter (\<lambda>r. r_task_id r = taskId) (db_runs d))), d));
     State_Monad.return (or_fail ''Failed to list execution runs'' r)
   }"

definition isMissingAttachmentIdsColumn :: "db_error \<Rightarrow> bool" where
  "isMissingAttachmentIdsColumn error \<longleftrightarrow> str_includes (to_lower (de_message error)) ''attachment_ids''"

text \<open>A database without the column \<open>attachment_ids\<close> is asked again without it.\<close>

definition without_attachments :: "checkpoint_row \<Rightarrow> checkpoint_row" where
  "without_attachments c = c\<lparr>ck_attachment_ids := []\<rparr>"

definition selectTaskExecutionCheckpoints ::
  "((checkpoint_row \<Rightarrow> checkpoint_row) \<Rightarrow> 'a statement) \<Rightarrow> 'a db_result prog" where
  "selectTaskExecutionCheckpoints build = do {
     withAttachments \<leftarrow> call (build id);
     case withAttachments of
       Inr rows \<Rightarrow> State_Monad.return withAttachments
     | Inl e \<Rightarrow>
         if \<not> isMissingAttachmentIdsColumn e then State_Monad.return withAttachments
         else call (build without_attachments)
   }"

definition checkpoints_where :: "(checkpoint_row \<Rightarrow> bool) \<Rightarrow> db \<Rightarrow> checkpoint_row list" where
  "checkpoints_where P d = descending ck_sequence (filter P (db_checkpoints d))"

definition listTaskExecutionCheckpoints :: "string \<Rightarrow> (task_error + checkpoint_row list) prog" where
  "listTaskExecutionCheckpoints runId = do {
     r \<leftarrow> selectTaskExecutionCheckpoints (\<lambda>select d.
       (Inr (map select (checkpoints_where (\<lambda>c. ck_run_id c = runId) d)), d));
     State_Monad.return (or_fail ''Failed to list checkpoints'' r)
   }"

definition getLatestTaskCheckpoint :: "string \<Rightarrow> string option \<Rightarrow> (task_error + checkpoint_row option) prog" where
  "getLatestTaskCheckpoint taskId runId = do {
     r \<leftarrow> selectTaskExecutionCheckpoints (\<lambda>select. shaped shape_maybe (\<lambda>d.
       (Inr (map select (take 1 (checkpoints_where
          (\<lambda>c. ck_task_id c = taskId \<and> (truthy_str runId \<longrightarrow> ck_run_id c = the runId)) d))), d)));
     State_Monad.return (or_fail ''Failed to load latest checkpoint'' r)
   }"

section \<open>Runs\<close>

definition new_run ::
  "string \<Rightarrow> string \<Rightarrow> string \<Rightarrow> run_status \<Rightarrow> int \<Rightarrow> string option \<Rightarrow> string option \<Rightarrow> json \<Rightarrow>
   timestamp \<Rightarrow> timestamp \<Rightarrow> string \<Rightarrow> run_row" where
  "new_run taskId projectId agentId status attempt summary errorMessage metadata now created fresh =
     \<lparr>r_id = fresh, r_task_id = taskId, r_project_id = projectId, r_agent_id = agentId, r_status = status,
      r_attempt = attempt,
      r_started_at = (if status = RQueued then None else Some now),
      r_heartbeat_at = (if beats status then Some now else None),
      r_completed_at = (if finished status then Some now else None),
      r_checkpoint_count = 0, r_summary = summary, r_error_message = errorMessage, r_metadata = metadata,
      r_created_at = created, r_updated_at = created\<rparr>"

definition createTaskExecutionRun ::
  "string \<Rightarrow> string \<Rightarrow> string \<Rightarrow> run_status option \<Rightarrow> int option \<Rightarrow> string option \<Rightarrow> string option \<Rightarrow>
   json \<Rightarrow> (task_error + run_row) prog" where
  "createTaskExecutionRun taskId projectId agentId status attempt summary errorMessage metadata = do {
     now \<leftarrow> clock;
     let status' = (case status of Some s \<Rightarrow> s | None \<Rightarrow> RStarting);
     let attempt' = (case attempt of Some n \<Rightarrow> n | None \<Rightarrow> 1);
     r \<leftarrow> call (shaped shape_single (with_fresh (\<lambda>fresh d.
       q_insert db_runs db_runs_update (\<lambda>_ _. False)
         [new_run taskId projectId agentId status' attempt' summary errorMessage metadata now (db_now d) fresh] d)));
     case r of
       Inl e \<Rightarrow> State_Monad.return (Inl (taskExecutionErrorFromDb e ''Failed to create execution run''))
     | Inr row \<Rightarrow> do {
         synced \<leftarrow> syncTaskExecutionSnapshot taskId
           (deriveTaskExecutionSnapshot (Some (r_id row)) (Some (r_status row)) (r_started_at row)
             (r_heartbeat_at row) (r_completed_at row) None None (JObj []));
         State_Monad.return (case synced of Inl e \<Rightarrow> Inl e | Inr _ \<Rightarrow> Inr row)
       }
   }"

text \<open>An update of a run: a field that is absent is not written, \<open>null\<close> clears it.\<close>

record run_update =
  ru_status :: "run_status option"
  ru_summary :: "string option option"
  ru_errorMessage :: "string option option"
  ru_metadata :: "json option"
  ru_heartbeat :: bool

definition run_updated :: "run_update \<Rightarrow> run_row \<Rightarrow> timestamp \<Rightarrow> run_row \<Rightarrow> run_row" where
  "run_updated u existing now r =
     (let r1 = (case ru_status u of
            None \<Rightarrow> r
          | Some s \<Rightarrow> r\<lparr>r_status := s,
              r_started_at := (if r_started_at existing = None \<and> s \<noteq> RQueued then Some now else r_started_at r),
              r_heartbeat_at := (if beats s then Some now else r_heartbeat_at r),
              r_completed_at := (if finished s then Some now else None)\<rparr>);
          r2 = (case ru_summary u of None \<Rightarrow> r1 | Some x \<Rightarrow> r1\<lparr>r_summary := x\<rparr>);
          r3 = (case ru_errorMessage u of None \<Rightarrow> r2 | Some x \<Rightarrow> r2\<lparr>r_error_message := x\<rparr>);
          r4 = (case ru_metadata u of None \<Rightarrow> r3 | Some x \<Rightarrow> r3\<lparr>r_metadata := x\<rparr>)
      in if ru_heartbeat u then r4\<lparr>r_heartbeat_at := Some now\<rparr> else r4)"

definition snapshot_of_run :: "run_row \<Rightarrow> string option \<Rightarrow> checkpoint_row option \<Rightarrow> task_snapshot" where
  "snapshot_of_run row activeRunId latest =
     deriveTaskExecutionSnapshot activeRunId (Some (r_status row)) (r_started_at row) (r_heartbeat_at row)
       (r_completed_at row) (map_option ck_created_at latest) (Option.bind latest ck_summary)
       (case latest of Some c \<Rightarrow> ck_payload c | None \<Rightarrow> JObj [])"

text \<open>
  \<open>single()\<close> reports a missing row as an error, so the branch that answers \<open>NOT_FOUND\<close> is never
  taken. An update that sets no column is no SQL: the statement fails.
\<close>

definition sets_nothing :: "run_update \<Rightarrow> bool" where
  "sets_nothing u \<longleftrightarrow>
     ru_status u = None \<and> ru_summary u = None \<and> ru_errorMessage u = None \<and> ru_metadata u = None \<and> \<not> ru_heartbeat u"

definition syntax_error :: db_error where
  "syntax_error = \<lparr>de_code = ''42601'', de_message = ''syntax error''\<rparr>"

definition updateTaskExecutionRun :: "string \<Rightarrow> string \<Rightarrow> run_update \<Rightarrow> (task_error + run_row) prog" where
  "updateTaskExecutionRun runId taskId input = do {
     now \<leftarrow> clock;
     loaded \<leftarrow> call (shaped shape_single (q_select db_runs (\<lambda>r. r_id r = runId)));
     case loaded of
       Inl e \<Rightarrow> State_Monad.return (Inl (taskExecutionErrorFromDb e ''Failed to load execution run''))
     | Inr existing \<Rightarrow> do {
         saved \<leftarrow> call (if sets_nothing input then (\<lambda>d. (Inl syntax_error, d))
           else shaped shape_single (\<lambda>d. q_update db_runs db_runs_update (\<lambda>r. r_id r = runId)
             (\<lambda>r. (run_updated input existing now r)\<lparr>r_updated_at := db_now d\<rparr>) d));
         case saved of
           Inl e \<Rightarrow> State_Monad.return (Inl (taskExecutionErrorFromDb e ''Failed to update execution run''))
         | Inr row \<Rightarrow> do {
             latest \<leftarrow> getLatestTaskCheckpoint taskId (Some runId);
             case latest of
               Inl e \<Rightarrow> State_Monad.return (Inl e)
             | Inr checkpoint \<Rightarrow> do {
                 synced \<leftarrow> syncTaskExecutionSnapshot taskId
                   (snapshot_of_run row (if finished (r_status row) then None else Some (r_id row)) checkpoint);
                 State_Monad.return (case synced of Inl e \<Rightarrow> Inl e | Inr _ \<Rightarrow> Inr row)
               }
           }
       }
   }"

section \<open>Checkpoints\<close>

text \<open>The database function: one locked statement. A business refusal is a value, not an error.\<close>

datatype append_result = AppendRefused string string | Appended checkpoint_row

definition same_checkpoint :: "checkpoint_row \<Rightarrow> checkpoint_row \<Rightarrow> bool" where
  "same_checkpoint a b \<longleftrightarrow>
     ck_run_id a = ck_run_id b \<and> (ck_sequence a = ck_sequence b \<or> ck_key a = ck_key b)"

definition append_task_checkpoint_atomic ::
  "string \<Rightarrow> string \<Rightarrow> string \<Rightarrow> string \<Rightarrow> string \<Rightarrow> string option \<Rightarrow> bool \<Rightarrow> json \<Rightarrow> string list \<Rightarrow>
   append_result statement" where
  "append_task_checkpoint_atomic runId taskId projectId agentId key summary summaryProvided payload attachmentIds =
     with_fresh (\<lambda>fresh d.
       case find (\<lambda>r. r_id r = runId) (db_runs d) of
         None \<Rightarrow> (Inr (AppendRefused ''RUN_NOT_FOUND'' ''Execution run not found''), d)
       | Some v_run \<Rightarrow>
           if finished (r_status v_run) then
             (Inr (AppendRefused ''INVALID_STATE''
                (''Run is '' @ run_status_name (r_status v_run) @ ''; completed runs do not accept checkpoints'')), d)
           else
             let next = r_checkpoint_count v_run + 1; now = db_now d;
                 checkpoint = \<lparr>ck_id = fresh, ck_run_id = runId, ck_task_id = taskId, ck_project_id = projectId,
                   ck_agent_id = agentId, ck_sequence = next, ck_key = key, ck_summary = summary,
                   ck_payload = payload, ck_attachment_ids = attachmentIds, ck_created_at = now\<rparr>
             in if \<exists>c\<in>set (db_checkpoints d). same_checkpoint checkpoint c then (Inl unique_violation, d)
                else (Inr (Appended checkpoint),
                  db_runs_update (map (\<lambda>r. if r_id r = runId then
                      r\<lparr>r_checkpoint_count := next, r_heartbeat_at := Some now,
                        r_summary := (if summaryProvided then summary else r_summary r), r_updated_at := now\<rparr>
                    else r))
                    (db_checkpoints_update (\<lambda>cs. cs @ [checkpoint]) d)))"

text \<open>\<open>/duplicate|already exists|checkpoint_key/i\<close>.\<close>

definition says_duplicate :: "string \<Rightarrow> bool" where
  "says_duplicate msg \<longleftrightarrow>
     (let m = to_lower msg
      in str_includes m ''duplicate'' \<or> str_includes m ''already exists'' \<or> str_includes m ''checkpoint_key'')"

definition appendTaskCheckpoint ::
  "string \<Rightarrow> string \<Rightarrow> string \<Rightarrow> string \<Rightarrow> string \<Rightarrow> string option option \<Rightarrow> json \<Rightarrow> string list \<Rightarrow>
   (task_error + checkpoint_row) prog" where
  "appendTaskCheckpoint runId taskId projectId agentId checkpointKey summary payload attachmentIds = do {
     r \<leftarrow> call (append_task_checkpoint_atomic runId taskId projectId agentId checkpointKey
       (case summary of Some x \<Rightarrow> x | None \<Rightarrow> None) (summary \<noteq> None) payload attachmentIds);
     case r of
       Inl e \<Rightarrow> State_Monad.return (Inl (taskExecutionErrorFromDb e ''Failed to append checkpoint''))
     | Inr (AppendRefused error msg) \<Rightarrow>
         State_Monad.return (if says_duplicate error then task_fail msg ''DUPLICATE'' 409
           else task_fail msg ''VALIDATION_ERROR'' 400)
     | Inr (Appended checkpoint) \<Rightarrow> do {
         updatedRun \<leftarrow> call (shaped shape_single (q_select db_runs (\<lambda>r. r_id r = runId)));
         case data_of updatedRun of
           None \<Rightarrow> State_Monad.return (Inr checkpoint)
         | Some row \<Rightarrow> do {
             synced \<leftarrow> syncTaskExecutionSnapshot taskId
               (deriveTaskExecutionSnapshot (Some (r_id row)) (Some (r_status row)) (r_started_at row)
                 (r_heartbeat_at row) (r_completed_at row) (Some (ck_created_at checkpoint))
                 (ck_summary checkpoint) payload);
             State_Monad.return (case synced of Inl e \<Rightarrow> Inl e | Inr _ \<Rightarrow> Inr checkpoint)
           }
       }
   }"

section \<open>Activity\<close>

text \<open>\<open>/(task_activity_events|relation .* does not exist)/i\<close>.\<close>

fun relation_missing :: "string \<Rightarrow> bool" where
  "relation_missing [] = False"
| "relation_missing (c # cs) =
     (starts_with (c # cs) ''relation '' \<and>
        str_includes (takeWhile (\<lambda>x. x \<noteq> newline) (drop 9 (c # cs))) '' does not exist'' \<or>
      relation_missing cs)"

definition isMissingTaskActivityTable :: "db_error \<Rightarrow> bool" where
  "isMissingTaskActivityTable error \<longleftrightarrow>
     str_includes (to_lower (de_message error)) ''task_activity_events'' \<or>
     relation_missing (to_lower (de_message error))"

definition appendTaskActivityEvent ::
  "string \<Rightarrow> string \<Rightarrow> string option \<Rightarrow> string option \<Rightarrow> string \<Rightarrow> string \<Rightarrow> content \<Rightarrow>
   (db_error + activity_row option) prog" where
  "appendTaskActivityEvent projectId taskId actorAgentId actorUserId eventType summary metadata = do {
     now \<leftarrow> clock;
     r \<leftarrow> call (shaped shape_single (q_insert db_activity db_activity_update (\<lambda>_ _. False)
       [\<lparr>av_project_id = projectId, av_task_id = taskId, av_actor_agent_id = actorAgentId,
         av_actor_user_id = actorUserId, av_event_type = eventType, av_summary = summary, av_metadata = metadata,
         av_created_at = now\<rparr>]));
     State_Monad.return (case r of
        Inr row \<Rightarrow> Inr (Some row)
      | Inl e \<Rightarrow> if isMissingTaskActivityTable e then Inr None else Inl e)
   }"

end
