(* ===== verification/RunRoutes.thy ===== *)
theory RunRoutes
  imports TaskExecution
begin

text \<open>
  The routes of execution runs (\<open>src/app/api/v1/projects/[id]/tasks/[tid]/runs\<close>): list and start runs,
  read and update one, list and append checkpoints.
\<close>

section \<open>What the routes share\<close>

definition forbidden :: "string \<Rightarrow> 'b response" where
  "forbidden error = reply_error 403 error ''FORBIDDEN''"

definition run_not_found :: "'b response" where
  "run_not_found = reply_error 404 ''Execution run not found'' ''NOT_FOUND''"

definition task_failed :: "task_error \<Rightarrow> 'b response" where
  "task_failed e = reply_error (te_status e) (te_message e) (te_code e)"

definition access_context_of :: "agent_row \<Rightarrow> access_context" where
  "access_context_of a = \<lparr>ac_trust_tier = Some (JStr (ag_trust_tier a)), ac_trust_policy = Some (ag_trust_policy a)\<rparr>"

text \<open>Reading: every participant of the project, observers as far as their policy allows it.\<close>

definition reading_project :: "request \<Rightarrow> string \<Rightarrow> string \<Rightarrow> 'b response prog \<Rightarrow> 'b response prog" where
  "reading_project req projectId blocked k = do {
     access \<leftarrow> getProjectAccess projectId (ag_id (rq_agent req));
     case access of
       None \<Rightarrow> State_Monad.return (forbidden ''Not a participant in this project'')
     | Some a \<Rightarrow>
         if pac_accessKind a \<noteq> ObserverKind then k
         else case evaluateObserverProjectReadPolicyAccess (access_context_of (rq_agent req)) of
           Inl e \<Rightarrow> State_Monad.return (Thrown e)
         | Inr d \<Rightarrow>
             if pd_allowed d then k
             else State_Monad.return (Refusal
               \<lparr>rf_status = (case pd_status d of Some n \<Rightarrow> n | None \<Rightarrow> 403),
                rf_body = (case pd_body d of Some b \<Rightarrow> b | None \<Rightarrow> api_err blocked ''TRUST_TIER_BLOCKED'')\<rparr>)
   }"

text \<open>Writing: members only.\<close>

definition writing_project ::
  "request \<Rightarrow> string \<Rightarrow> string \<Rightarrow> (project_access \<Rightarrow> 'b response prog) \<Rightarrow> 'b response prog" where
  "writing_project req projectId observerError k = do {
     access \<leftarrow> getProjectAccess projectId (ag_id (rq_agent req));
     case access of
       None \<Rightarrow> State_Monad.return (forbidden ''Not a participant in this project'')
     | Some a \<Rightarrow>
         if pac_accessKind a = ObserverKind then State_Monad.return (forbidden observerError)
         else k a
   }"

definition getTaskContext :: "string \<Rightarrow> string \<Rightarrow> task_row option prog" where
  "getTaskContext projectId taskId = do {
     r \<leftarrow> call (shaped shape_single (q_select db_tasks (\<lambda>t. t_id t = taskId \<and> t_project_id t = projectId)));
     State_Monad.return (data_of r)
   }"

definition getTaskAndRun :: "string \<Rightarrow> string \<Rightarrow> string \<Rightarrow> (task_row option \<times> run_row option) prog" where
  "getTaskAndRun projectId taskId runId = do {
     task \<leftarrow> getTaskContext projectId taskId;
     r \<leftarrow> call (shaped shape_single (q_select db_runs
       (\<lambda>r. r_id r = runId \<and> r_task_id r = taskId \<and> r_project_id r = projectId)));
     State_Monad.return (task, data_of r)
   }"

definition may_mutate_run :: "request \<Rightarrow> project_access \<Rightarrow> run_row \<Rightarrow> bool" where
  "may_mutate_run req access r \<longleftrightarrow> r_agent_id r = ag_id (rq_agent req) \<or> pac_role access = AccessOwner"

definition audit_task :: "request \<Rightarrow> string \<Rightarrow> string \<Rightarrow> content \<Rightarrow> unit prog" where
  "audit_task req action taskId details =
     auditLog (ag_name (rq_agent req)) action (Some ''task'') (Some taskId) (Some details)
       (Some (getClientIp req))"

text \<open>A run or a checkpoint as the answer recorded under an idempotency key.\<close>

definition run_json :: "run_row \<Rightarrow> json" where
  "run_json r = JObj
     [(''id'', JStr (r_id r)), (''task_id'', JStr (r_task_id r)), (''project_id'', JStr (r_project_id r)),
      (''agent_id'', JStr (r_agent_id r)), (''status'', JStr (run_status_name (r_status r))),
      (''attempt'', jint (r_attempt r)), (''started_at'', jtime_or_null (r_started_at r)),
      (''heartbeat_at'', jtime_or_null (r_heartbeat_at r)), (''completed_at'', jtime_or_null (r_completed_at r)),
      (''checkpoint_count'', jint (r_checkpoint_count r)), (''summary'', jstr_or_null (r_summary r)),
      (''error_message'', jstr_or_null (r_error_message r)), (''metadata'', r_metadata r),
      (''created_at'', jint (r_created_at r)), (''updated_at'', jint (r_updated_at r))]"

definition checkpoint_json :: "checkpoint_row \<Rightarrow> json" where
  "checkpoint_json c = JObj
     [(''id'', JStr (ck_id c)), (''run_id'', JStr (ck_run_id c)), (''task_id'', JStr (ck_task_id c)),
      (''project_id'', JStr (ck_project_id c)), (''agent_id'', JStr (ck_agent_id c)),
      (''sequence'', jint (ck_sequence c)), (''checkpoint_key'', JStr (ck_key c)),
      (''status'', JStr ''written''), (''summary'', jstr_or_null (ck_summary c)), (''payload'', ck_payload c),
      (''attachment_ids'', JArr (map JStr (ck_attachment_ids c))), (''created_at'', jint (ck_created_at c))]"

section \<open>Runs of a task\<close>

definition runs_get :: "request \<Rightarrow> string \<Rightarrow> string \<Rightarrow> run_row list response prog" where
  "runs_get req projectId taskId =
     reading_project req projectId ''Observer execution visibility blocked by trust policy'' (do {
       task \<leftarrow> getTaskContext projectId taskId;
       case task of
         None \<Rightarrow> State_Monad.return (reply_error 404 ''Task not found'' ''NOT_FOUND'')
       | Some _ \<Rightarrow> do {
           rows \<leftarrow> listTaskExecutionRuns taskId;
           State_Monad.return (Answer 200 (case rows of Inl _ \<Rightarrow> [] | Inr rs \<Rightarrow> rs))
         }
     })"

definition latest_attempt :: "string \<Rightarrow> int option prog" where
  "latest_attempt taskId = do {
     r \<leftarrow> call (shaped shape_maybe (\<lambda>d.
       (Inr (take 1 (descending r_attempt (filter (\<lambda>r. r_task_id r = taskId) (db_runs d)))), d)));
     State_Monad.return (map_option r_attempt (maybe_of r))
   }"

definition run_created :: "request \<Rightarrow> string \<Rightarrow> string \<Rightarrow> string option \<Rightarrow> string \<Rightarrow> run_row \<Rightarrow> run_row response prog" where
  "run_created req projectId taskId key endpoint row = do {
     audit_task req ''task_execution_run.create'' taskId
       [(''project_id'', JStr projectId), (''run_id'', JStr (r_id row)),
        (''status'', JStr (run_status_name (r_status row))), (''attempt'', jint (r_attempt row))];
     _ \<leftarrow> appendTaskActivityEvent projectId taskId (Some (ag_id (rq_agent req))) None ''execution_run_created''
       (''Execution run #'' @ show_int (r_attempt row) @ '' started'')
       [(''run_id'', JStr (r_id row)), (''attempt'', jint (r_attempt row)),
        (''status'', JStr (run_status_name (r_status row))), (''summary'', jstr_or_null (r_summary row))];
     storeIdempotencyResponse key req endpoint 201 (run_json row);
     State_Monad.return (Answer 201 row)
   }"

text \<open>A falsy status that is not absent reaches the table, whose check constraint rejects it.\<close>

definition status_check_violation :: db_error where
  "status_check_violation =
     \<lparr>de_code = ''23514'', de_message = ''new row for relation \"task_execution_runs\" violates check constraint''\<rparr>"

definition runs_post_parsed ::
  "(json \<Rightarrow> string) \<Rightarrow> request \<Rightarrow> string \<Rightarrow> string \<Rightarrow> string option \<Rightarrow> string \<Rightarrow> json \<Rightarrow> run_row response prog" where
  "runs_post_parsed to_text req projectId taskId key endpoint parsed =
     (let status = jprop (Some parsed) ''status''
      in if parsed = JNull then State_Monad.return (Thrown ''TypeError'')
         else if \<not> falsy status \<and> Option.bind (as_string status) run_status_of = None then
           State_Monad.return (reply_error 400 ''Invalid execution run status'' ''VALIDATION_ERROR'')
         else do {
           attempt \<leftarrow> latest_attempt taskId;
           created \<leftarrow> (if falsy status \<and> \<not> is_nullish status then do {
               r \<leftarrow> call (\<lambda>d. (Inl status_check_violation, d));
               State_Monad.return (or_fail ''Failed to create execution run'' r)
             }
             else createTaskExecutionRun taskId projectId (ag_id (rq_agent req))
               (Some (case Option.bind (as_string status) run_status_of of Some s \<Rightarrow> s | None \<Rightarrow> RStarting))
               (Some ((case attempt of Some n \<Rightarrow> n | None \<Rightarrow> 0) + 1))
               (column_text to_text (jprop (Some parsed) ''summary'')) None
               (json_or (jprop (Some parsed) ''metadata'') (JObj [])));
           case created of
             Inl e \<Rightarrow> State_Monad.return (task_failed e)
           | Inr row \<Rightarrow> run_created req projectId taskId key endpoint row
         })"

definition runs_post ::
  "(json \<Rightarrow> string) \<Rightarrow> request \<Rightarrow> string \<Rightarrow> string \<Rightarrow> run_row response prog" where
  "runs_post to_text req projectId taskId =
     (let endpoint = ''POST /v1/projects/'' @ projectId @ ''/tasks/'' @ taskId @ ''/runs''
      in with_key req endpoint (\<lambda>key.
        writing_project req projectId ''Observers may inspect runs but cannot start execution'' (\<lambda>_. do {
          task \<leftarrow> getTaskContext projectId taskId;
          case task of
            None \<Rightarrow> State_Monad.return (reply_error 404 ''Task not found'' ''NOT_FOUND'')
          | Some t \<Rightarrow>
              if truthy_str (ts_active_run_id (t_snapshot t)) then
                State_Monad.return (reply_error 409 ''Task already has an active execution run'' ''INVALID_STATE'')
              else case rq_body req of
                BadJson \<Rightarrow> State_Monad.return (reply_error 400 ''Invalid JSON body'' ''INVALID_BODY'')
              | NoBody \<Rightarrow> runs_post_parsed to_text req projectId taskId key endpoint (JObj [])
              | Parsed j \<Rightarrow> runs_post_parsed to_text req projectId taskId key endpoint j
        })))"

section \<open>One run\<close>

definition run_get :: "request \<Rightarrow> string \<Rightarrow> string \<Rightarrow> string \<Rightarrow> run_row response prog" where
  "run_get req projectId taskId runId =
     reading_project req projectId ''Observer run visibility blocked by trust policy'' (do {
       found \<leftarrow> getTaskAndRun projectId taskId runId;
       State_Monad.return (case found of (Some _, Some r) \<Rightarrow> Answer 200 r | _ \<Rightarrow> run_not_found)
     })"

text \<open>The fields of the body: absent ones are not updated, \<open>null\<close> clears a text.\<close>

definition update_of_body :: "(json \<Rightarrow> string) \<Rightarrow> json \<Rightarrow> run_update" where
  "update_of_body to_text parsed =
     \<lparr>ru_status = Option.bind (as_string (jprop (Some parsed) ''status'')) run_status_of,
      ru_summary = map_option (\<lambda>j. column_text to_text (Some j)) (jprop (Some parsed) ''summary''),
      ru_errorMessage = map_option (\<lambda>j. column_text to_text (Some j)) (jprop (Some parsed) ''error_message''),
      ru_metadata = jprop (Some parsed) ''metadata'',
      ru_heartbeat = (\<not> falsy (jprop (Some parsed) ''heartbeat''))\<rparr>"

definition heartbeat_true :: "json \<Rightarrow> bool" where
  "heartbeat_true parsed \<longleftrightarrow> jprop (Some parsed) ''heartbeat'' = Some (JBool True)"

definition other_fields :: "json \<Rightarrow> bool" where
  "other_fields parsed \<longleftrightarrow>
     jprop (Some parsed) ''summary'' \<noteq> None \<or> jprop (Some parsed) ''error_message'' \<noteq> None \<or>
     jprop (Some parsed) ''metadata'' \<noteq> None \<or> \<not> falsy (jprop (Some parsed) ''status'')"

definition patch_summary :: "json \<Rightarrow> string" where
  "patch_summary parsed =
     (if \<not> falsy (jprop (Some parsed) ''status'') then
        ''Execution run '' @ (case as_string (jprop (Some parsed) ''status'') of Some s \<Rightarrow> s | None \<Rightarrow> [])
      else if \<not> falsy (jprop (Some parsed) ''error_message'') then ''Execution run error updated''
      else ''Execution run updated'')"

definition run_patched ::
  "request \<Rightarrow> string \<Rightarrow> string \<Rightarrow> run_row \<Rightarrow> json \<Rightarrow> run_row \<Rightarrow> run_row response prog" where
  "run_patched req projectId taskId before parsed after = do {
     audit_task req ''task_execution_run.update'' taskId
       [(''project_id'', JStr projectId), (''run_id'', JStr (r_id before)),
        (''status'', json_or (jprop (Some parsed) ''status'') (JStr (run_status_name (r_status after)))),
        (''heartbeat'', JBool (heartbeat_true parsed))];
     (if heartbeat_true parsed \<and> \<not> other_fields parsed then State_Monad.return ()
      else do {
        _ \<leftarrow> appendTaskActivityEvent projectId taskId (Some (ag_id (rq_agent req))) None ''execution_run_updated''
          (patch_summary parsed)
          [(''run_id'', JStr (r_id before)), (''previous_status'', JStr (run_status_name (r_status before))),
           (''status'', JStr (run_status_name (r_status after))), (''summary'', jstr_or_null (r_summary after)),
           (''error_message'', jstr_or_null (r_error_message after)), (''heartbeat'', JBool (heartbeat_true parsed))];
        State_Monad.return ()
      });
     State_Monad.return (Answer 200 after)
   }"

definition run_patch_parsed ::
  "(json \<Rightarrow> string) \<Rightarrow> request \<Rightarrow> string \<Rightarrow> string \<Rightarrow> run_row \<Rightarrow> json \<Rightarrow> run_row response prog" where
  "run_patch_parsed to_text req projectId taskId before parsed =
     (let status = jprop (Some parsed) ''status''
      in if parsed = JNull then State_Monad.return (Thrown ''TypeError'')
         else if \<not> falsy status \<and> Option.bind (as_string status) run_status_of = None then
           State_Monad.return (reply_error 400 ''Invalid execution run status'' ''VALIDATION_ERROR'')
         else if \<not> heartbeat_true parsed \<and> \<not> other_fields parsed then
           State_Monad.return (reply_error 400 ''No execution run fields to update'' ''VALIDATION_ERROR'')
         else if finished (r_status before) \<and> \<not> falsy (jprop (Some parsed) ''heartbeat'') then
           State_Monad.return (reply_error 409 ''Cannot heartbeat a completed execution run'' ''INVALID_STATE'')
         else do {
           r \<leftarrow> updateTaskExecutionRun (r_id before) taskId (update_of_body to_text parsed);
           case r of
             Inl e \<Rightarrow> State_Monad.return (task_failed e)
           | Inr after \<Rightarrow> run_patched req projectId taskId before parsed after
         })"

definition run_patch ::
  "(json \<Rightarrow> string) \<Rightarrow> request \<Rightarrow> string \<Rightarrow> string \<Rightarrow> string \<Rightarrow> run_row response prog" where
  "run_patch to_text req projectId taskId runId =
     writing_project req projectId ''Observers may inspect runs but cannot mutate execution state'' (\<lambda>member. do {
       found \<leftarrow> getTaskAndRun projectId taskId runId;
       case found of
         (Some _, Some before) \<Rightarrow>
           if \<not> may_mutate_run req member before then
             State_Monad.return (forbidden ''Only the run owner or a project owner can mutate this execution run'')
           else (case rq_body req of
             Parsed j \<Rightarrow> run_patch_parsed to_text req projectId taskId before j
           | _ \<Rightarrow> State_Monad.return (reply_error 400 ''Invalid JSON body'' ''INVALID_BODY''))
       | _ \<Rightarrow> State_Monad.return run_not_found
     })"

section \<open>Checkpoints of a run\<close>

definition checkpoints_get :: "request \<Rightarrow> string \<Rightarrow> string \<Rightarrow> string \<Rightarrow> checkpoint_row list response prog" where
  "checkpoints_get req projectId taskId runId =
     reading_project req projectId ''Observer checkpoint visibility blocked by trust policy'' (do {
       found \<leftarrow> getTaskAndRun projectId taskId runId;
       case found of
         (Some _, Some _) \<Rightarrow> do {
           rows \<leftarrow> listTaskExecutionCheckpoints runId;
           State_Monad.return (Answer 200 (case rows of Inl _ \<Rightarrow> [] | Inr cs \<Rightarrow> cs))
         }
       | _ \<Rightarrow> State_Monad.return run_not_found
     })"

text \<open>The attachment ids of the body: a list of strings, anything else fails in the driver.\<close>

definition attachment_ids_of :: "jvalue \<Rightarrow> string list option" where
  "attachment_ids_of v =
     (if is_nullish v then Some []
      else case v of
        Some (JArr js) \<Rightarrow> those (map (\<lambda>j. as_string (Some j)) js)
      | _ \<Rightarrow> None)"

definition checkpoint_appended ::
  "request \<Rightarrow> string \<Rightarrow> string \<Rightarrow> string option \<Rightarrow> string \<Rightarrow> checkpoint_row \<Rightarrow> checkpoint_row response prog" where
  "checkpoint_appended req projectId taskId key endpoint c = do {
     audit_task req ''task_execution_checkpoint.create'' taskId
       [(''project_id'', JStr projectId), (''run_id'', JStr (ck_run_id c)), (''checkpoint_id'', JStr (ck_id c)),
        (''checkpoint_key'', JStr (ck_key c)), (''attachment_ids'', JArr (map JStr (ck_attachment_ids c)))];
     _ \<leftarrow> appendTaskActivityEvent projectId taskId (Some (ag_id (rq_agent req))) None ''execution_checkpoint_created''
       (str_or (ck_summary c) (''Checkpoint added: '' @ ck_key c))
       [(''run_id'', JStr (ck_run_id c)), (''checkpoint_id'', JStr (ck_id c)), (''checkpoint_key'', JStr (ck_key c)),
        (''sequence'', jint (ck_sequence c)), (''attachment_ids'', JArr (map JStr (ck_attachment_ids c)))];
     storeIdempotencyResponse key req endpoint 201 (checkpoint_json c);
     State_Monad.return (Answer 201 c)
   }"

definition checkpoints_post_parsed ::
  "(json \<Rightarrow> string) \<Rightarrow> request \<Rightarrow> string \<Rightarrow> string \<Rightarrow> string \<Rightarrow> string option \<Rightarrow> string \<Rightarrow> json \<Rightarrow>
   checkpoint_row response prog" where
  "checkpoints_post_parsed to_text req projectId taskId runId key endpoint parsed =
     (if parsed = JNull then State_Monad.return (Thrown ''TypeError'')
      else case as_string (jprop (Some parsed) ''checkpoint_key'') of
        None \<Rightarrow> State_Monad.return (reply_error 400 ''checkpoint_key is required'' ''VALIDATION_ERROR'')
      | Some ckey \<Rightarrow>
          if js_trim ckey = [] then
            State_Monad.return (reply_error 400 ''checkpoint_key is required'' ''VALIDATION_ERROR'')
          else case attachment_ids_of (jprop (Some parsed) ''attachment_ids'') of
            None \<Rightarrow> State_Monad.return (task_failed (taskExecutionErrorFromDb
              \<lparr>de_code = ''22P02'', de_message = ''malformed array literal''\<rparr> ''Failed to append checkpoint''))
          | Some ids \<Rightarrow> do {
              r \<leftarrow> appendTaskCheckpoint runId taskId projectId (ag_id (rq_agent req)) (js_trim ckey)
                (Some (column_text to_text (jprop (Some parsed) ''summary'')))
                (json_or (jprop (Some parsed) ''payload'') (JObj [])) ids;
              case r of
                Inl e \<Rightarrow> State_Monad.return (task_failed e)
              | Inr c \<Rightarrow> checkpoint_appended req projectId taskId key endpoint c
            })"

definition checkpoints_post ::
  "(json \<Rightarrow> string) \<Rightarrow> request \<Rightarrow> string \<Rightarrow> string \<Rightarrow> string \<Rightarrow> checkpoint_row response prog" where
  "checkpoints_post to_text req projectId taskId runId =
     (let endpoint = ''POST /v1/projects/'' @ projectId @ ''/tasks/'' @ taskId @ ''/runs/'' @ runId @ ''/checkpoints''
      in with_key req endpoint (\<lambda>key.
        writing_project req projectId ''Observers may inspect checkpoints but cannot append to execution streams''
          (\<lambda>member. do {
            found \<leftarrow> getTaskAndRun projectId taskId runId;
            case found of
              (Some _, Some before) \<Rightarrow>
                if \<not> may_mutate_run req member before then
                  State_Monad.return (forbidden ''Only the run owner or a project owner can append checkpoints'')
                else if finished (r_status before) then
                  State_Monad.return (reply_error 409
                    ''Cannot append checkpoints to a completed execution run'' ''INVALID_STATE'')
                else (case rq_body req of
                  Parsed j \<Rightarrow> checkpoints_post_parsed to_text req projectId taskId runId key endpoint j
                | _ \<Rightarrow> State_Monad.return (reply_error 400 ''Invalid JSON body'' ''INVALID_BODY''))
            | _ \<Rightarrow> State_Monad.return run_not_found
          })))"

end
