(* ===== verification/Succession.thy ===== *)
theory Succession
  imports Closure Links
begin

text \<open>
  Contract succession (\<open>src/lib/contract-succession.ts\<close>): which earlier contract a proposal carries on,
  where its task link comes from, which recent contracts look like predecessors, and the guidance the
  invitation and the end of the budget carry. Pure, except the query of the candidates.
\<close>

section \<open>The proposal's fields\<close>

definition UNLINKED_REASON_MIN :: nat where
  "UNLINKED_REASON_MIN = 10"

definition LIKELY_PREDECESSOR_WINDOW_DAYS :: int where
  "LIKELY_PREDECESSOR_WINDOW_DAYS = 14"

definition INVITATION_DESCRIPTION_MAX :: nat where
  "INVITATION_DESCRIPTION_MAX = 2000"

text \<open>\<open>SuccessionLinkType\<close>: a link type other than \<open>delegates_to\<close>.\<close>

type_synonym predecessor = "string \<times> link_type"

record succession_fields =
  sf_predecessor :: "predecessor option"
  sf_unlinkedReason :: "string option"

definition invalid_succession :: "string \<Rightarrow> refusal" where
  "invalid_succession error = \<lparr>rf_status = 400, rf_body = api_err error ''INVALID_BODY''\<rparr>"

definition present :: "jvalue \<Rightarrow> bool" where
  "present v \<longleftrightarrow> v \<noteq> None \<and> v \<noteq> Some JNull \<and> v \<noteq> Some (JStr [])"

text \<open>The loop over the two fields; the last one present wins.\<close>

fun predecessor_loop :: "jvalue \<Rightarrow> predecessor option \<Rightarrow> link_type list \<Rightarrow> refusal + predecessor option" where
  "predecessor_loop body acc [] = Inr acc"
| "predecessor_loop body acc (linkType # rest) =
     (let value = jprop body (link_type_name linkType) in
      if \<not> present value then predecessor_loop body acc rest
      else if \<not> isContractId value then
        Inl (invalid_succession (link_type_name linkType @ '' must be the UUID of the earlier contract.''))
      else predecessor_loop body (Some (js_trim (the (as_string value)), linkType)) rest)"

definition validateProposalSuccession :: "jvalue \<Rightarrow> refusal + succession_fields" where
  "validateProposalSuccession body =
     (if present (jprop body ''continues'') \<and> present (jprop body ''supersedes'') then
        Inl (invalid_succession ''Give at most one of continues or supersedes: a contract carries on one predecessor or replaces it, not both.'')
      else case predecessor_loop body None [Continues, Supersedes] of
        Inl r \<Rightarrow> Inl r
      | Inr predecessor \<Rightarrow>
          if present (jprop body ''unlinked_reason'') then
            (case as_string (jprop body ''unlinked_reason'') of
               None \<Rightarrow> Inl (invalid_succession ''unlinked_reason must be a string.'')
             | Some s \<Rightarrow> Inr \<lparr>sf_predecessor = predecessor,
                 sf_unlinkedReason = (if js_trim s = [] then None else Some (js_trim s))\<rparr>)
          else Inr \<lparr>sf_predecessor = predecessor, sf_unlinkedReason = None\<rparr>)"

datatype task_link_plan = PlanTask | PlanInherit linked_task | PlanUnlinked string

definition resolveTaskLinkPlan ::
  "bool \<Rightarrow> string option \<Rightarrow> predecessor option \<Rightarrow> linked_task option \<Rightarrow> refusal + task_link_plan" where
  "resolveTaskLinkPlan hasTask unlinkedReason predecessor predecessorTask =
     (if hasTask then Inr PlanTask
      else case predecessorTask of
        Some t \<Rightarrow> Inr (PlanInherit t)
      | None \<Rightarrow>
          let reason = (case unlinkedReason of None \<Rightarrow> [] | Some r \<Rightarrow> r)
          in if length reason \<ge> UNLINKED_REASON_MIN then Inr (PlanUnlinked reason)
             else
               let lead = (case predecessor of
                     Some (pid, lt) \<Rightarrow> ''The contract this one '' @ link_type_name lt @ '' ('' @ pid @
                       '') has no task link to inherit, so this contract needs one of its own or a reason it has none.''
                   | None \<Rightarrow> ''A contract must be linked to a project task, or say why it is not.'');
                   tooShort = (if reason = [] then []
                     else '' unlinked_reason must be at least '' @ show_nat UNLINKED_REASON_MIN @ '' characters.'')
               in Inl \<lparr>rf_status = 400, rf_body = api_err
                    (lead @ tooShort @ '' Either link it (project_id + task_id; CLI: `--project P --task T`) '' @
                     ''or explain (unlinked_reason; CLI: `--unlinked-reason \"...\"`). '' @
                     ''If it carries on an earlier contract, `--continues <id>` inherits that contract'' @
                     [CHR 0x27] @ ''s task.'')
                    ''CONTRACT_LINK_REQUIRED''\<rparr>)"

section \<open>Likely predecessors\<close>

record candidate_row =
  cd_id :: string
  cd_title :: string
  cd_status :: contract_status
  cd_current_turns :: int
  cd_max_turns :: int
  cd_closed_by :: "string option"
  cd_completion_approved_at :: "timestamp option"
  cd_closed_without_approval :: "bool option"
  cd_participant_ids :: "string list option"

record likely_predecessor =
  lp_id :: string
  lp_title :: string
  lp_status :: contract_status
  lp_current_turns :: int
  lp_max_turns :: int

definition sameSet :: "string list \<Rightarrow> string list \<Rightarrow> bool" where
  "sameSet a b \<longleftrightarrow>
     length (js_set a) = length (js_set b) \<and> list_all (\<lambda>v. v \<in> set b) (js_set a)"

definition not_accepted :: "candidate_row \<Rightarrow> bool" where
  "not_accepted row \<longleftrightarrow>
     (if cd_status row = SActive then cd_current_turns row \<ge> cd_max_turns row
      else if cd_status row \<noteq> SClosed \<and> cd_status row \<noteq> SExpired then False
      else \<not> outcomeIsSuccess (resolveCloseOutcome (cd_closed_by row) (cd_completion_approved_at row)
                (cd_closed_without_approval row)))"

definition filterLikelyPredecessors :: "candidate_row list \<Rightarrow> string list \<Rightarrow> likely_predecessor list" where
  "filterLikelyPredecessors rows participantIds =
     map (\<lambda>row. \<lparr>lp_id = cd_id row, lp_title = cd_title row, lp_status = cd_status row,
            lp_current_turns = cd_current_turns row, lp_max_turns = cd_max_turns row\<rparr>)
       (filter not_accepted
         (filter (\<lambda>row. sameSet (case cd_participant_ids row of None \<Rightarrow> [] | Some ids \<Rightarrow> ids) participantIds) rows))"

definition successionHint :: "string \<Rightarrow> likely_predecessor list \<Rightarrow> string option" where
  "successionHint newContractId predecessors =
     (case predecessors of
        [] \<Rightarrow> None
      | first # rest \<Rightarrow>
          let lead = (if rest = [] then ''This looks like it carries on \"'' @ lp_title first @ ''\" ('' @ lp_id first @
                  ''), which ended without its work being accepted and that nothing continues yet.''
                else ''This looks like it carries on one of '' @ show_nat (length predecessors) @
                  '' recent contracts between the same agents that ended without their work being accepted.'')
          in Some (lead @ '' If so, record it: `holloway contract-relate '' @ newContractId @ '' --to '' @ lp_id first @
            '' --type continues`'' @
            '' (or --type supersedes if this replaces it). Next time, propose with `--continues <id>` to link it and inherit its task in one step.''))"

text \<open>The moment a contract last changed, for the window and the order of the query.\<close>

definition last_change :: "contract_row \<Rightarrow> timestamp" where
  "last_change c = (case c_closed_at c of Some t \<Rightarrow> t | None \<Rightarrow> c_updated_at c)"

definition candidate_filter :: "string \<Rightarrow> string \<Rightarrow> db \<Rightarrow> contract_row \<Rightarrow> bool" where
  "candidate_filter proposerId newContractId d c \<longleftrightarrow>
     (\<exists>p\<in>set (db_participants d). p_contract_id p = c_id c \<and> p_agent_id p = proposerId \<and> p_role p \<noteq> Observer) \<and>
     c_id c \<noteq> newContractId \<and>
     last_change c \<ge> db_now d - LIKELY_PREDECESSOR_WINDOW_DAYS * 86400000 \<and>
     (c_status c = SClosed \<or> c_status c = SExpired \<or> c_status c = SActive \<and> c_current_turns c \<ge> c_max_turns c) \<and>
     \<not> (\<exists>l\<in>set (db_links d). l_to l = c_id c \<and> (l_type l = Continues \<or> l_type l = Supersedes)) \<and>
     \<not> (\<exists>l\<in>set (db_links d). l_from l = c_id c \<and> l_type l = DelegatesTo)"

definition candidate_of :: "db \<Rightarrow> contract_row \<Rightarrow> candidate_row" where
  "candidate_of d c =
     \<lparr>cd_id = c_id c, cd_title = c_title c, cd_status = c_status c, cd_current_turns = c_current_turns c,
      cd_max_turns = c_max_turns c, cd_closed_by = c_closed_by c,
      cd_completion_approved_at = c_completion_approved_at c,
      cd_closed_without_approval = Some (c_closed_without_approval c),
      cd_participant_ids = Some (map p_agent_id
        (filter (\<lambda>p. p_contract_id p = c_id c \<and> p_role p \<noteq> Observer) (db_participants d)))\<rparr>"

definition q_candidates :: "string \<Rightarrow> string \<Rightarrow> candidate_row list statement" where
  "q_candidates proposerId newContractId d =
     (Inr (map (candidate_of d) (take 25 (sort_key (\<lambda>c. - last_change c)
        (filter (candidate_filter proposerId newContractId d) (db_contracts d))))), d)"

definition findLikelyPredecessors :: "string \<Rightarrow> string \<Rightarrow> string list \<Rightarrow> likely_predecessor list prog" where
  "findLikelyPredecessors newContractId proposerId participantIds = do {
     r \<leftarrow> call (q_candidates proposerId newContractId);
     State_Monad.return (case r of Inl _ \<Rightarrow> [] | Inr rows \<Rightarrow> filterLikelyPredecessors rows participantIds)
   }"

section \<open>Guidance\<close>

definition invitationNextAction :: "string \<Rightarrow> string" where
  "invitationNextAction contractId =
     ''Accept with `holloway accept '' @ contractId @ ''` (or reject with `holloway reject '' @ contractId @
     ''` and say why). '' @
     ''Once you accept, YOU send the first message '' @ em_dash @ '' the accepter opens.''"

definition invitationGuidance :: "string \<Rightarrow> (string \<times> json) list" where
  "invitationGuidance contractId =
     [(''next_action'', JStr (invitationNextAction contractId)), (''opens_after_accept'', JStr ''invitee'')]"

definition acceptedNextAction :: "string \<Rightarrow> string option \<Rightarrow> string" where
  "acceptedNextAction contractId openerName =
     (if truthy_str openerName then
        the openerName @ '' accepted, so '' @ the openerName @ '' opens: send the first message now (`holloway send '' @
        contractId @ '' --content \"...\"`). Everyone else waits for it.''
      else ''More than one invitee accepted, so no single opener was named: whoever holds the context sends the first message (`holloway send '' @
        contractId @ '' --content \"...\"`).'')"

definition truncate_text :: "string option \<Rightarrow> nat \<Rightarrow> string option" where
  "truncate_text value max_len =
     (if \<not> truthy_str value then None
      else if length (the value) > max_len then Some (take (max_len - 1) (the value) @ ellipsis)
      else value)"

record invitation_input =
  ii_contractId :: string
  ii_title :: string
  ii_proposer :: string
  ii_expiresAt :: "timestamp option"
  ii_description :: "string option"
  ii_maxTurns :: int
  ii_completionRequiresApproval :: bool
  ii_linkedTask :: "linked_task option"
  ii_unlinkedReason :: "string option"
  ii_relatedContracts :: "related_contract list"
  ii_likelyPredecessors :: "likely_predecessor list"

definition predecessor_json :: "likely_predecessor \<Rightarrow> json" where
  "predecessor_json p = JObj [(''id'', JStr (lp_id p)), (''title'', JStr (lp_title p)),
     (''status'', JStr (status_name (lp_status p))), (''current_turns'', JNum (Fin (of_int (lp_current_turns p)))),
     (''max_turns'', JNum (Fin (of_int (lp_max_turns p))))]"

definition null_or :: "('a \<Rightarrow> json) \<Rightarrow> 'a option \<Rightarrow> json" where
  "null_or f x = (case x of None \<Rightarrow> JNull | Some y \<Rightarrow> f y)"

definition buildInvitationData :: "invitation_input \<Rightarrow> (string \<times> json) list" where
  "buildInvitationData input =
     [(''title'', JStr (ii_title input)),
      (''proposer'', JStr (ii_proposer input)),
      (''expires_at'', null_or (\<lambda>t. JNum (Fin (of_int t))) (ii_expiresAt input)),
      (''description'', null_or JStr (truncate_text (ii_description input) INVITATION_DESCRIPTION_MAX)),
      (''max_turns'', JNum (Fin (of_int (ii_maxTurns input)))),
      (''completion_requires_approval'', JBool (ii_completionRequiresApproval input)),
      (''linked_task'', null_or (\<lambda>t. JObj [(''project_id'', JStr (lt_project_id t)), (''task_id'', JStr (lt_task_id t)),
          (''title'', null_or JStr (lt_task_title t))]) (ii_linkedTask input)),
      (''unlinked_reason'', null_or JStr (ii_unlinkedReason input)),
      (''related_contracts'', JArr (map (\<lambda>l. JObj [(''id'', JStr (rc_contract_id l)), (''title'', JStr (rc_title l)),
          (''link_type'', JStr (link_type_name (rc_link_type l)))])
        (filter (\<lambda>l. rc_direction l = Outgoing \<and> (rc_link_type l = Continues \<or> rc_link_type l = Supersedes))
          (ii_relatedContracts input)))),
      (''likely_predecessors'', JArr (map predecessor_json (ii_likelyPredecessors input)))] @
     invitationGuidance (ii_contractId input)"

definition budgetExhaustedNextSteps :: "string \<Rightarrow> bool \<Rightarrow> bool \<Rightarrow> bool \<Rightarrow> string list" where
  "budgetExhaustedNextSteps contractId isProposer gatePending completed =
     (let continuation = ''If work remains, propose a continuation: `holloway propose ... --continues '' @ contractId @
            ''` (inherits the task and links the chain).''
      in if completed then []
         else if gatePending \<and> isProposer then
           [''Accept the work: `holloway approve-completion '' @ contractId @ ''` (closes it as completed-approved).'',
            ''Or close it without accepting: `holloway close '' @ contractId @
              '' --without-approval --reason \"...\"` (outcome closed-unapproved).'',
            continuation]
         else if gatePending then
           [''The turn budget is spent and this contract cannot complete until the proposer records an approval (`holloway approve-completion '' @
              contractId @ ''`) or closes it without approving. Nothing more can be sent here.'',
            continuation]
         else
           [''The turn budget is spent and the contract closed as turns-exhausted: the work is not recorded as accepted.'',
            continuation])"

section \<open>Lemmas\<close>

lemma sameSet_iff: "sameSet a b \<longleftrightarrow> set a = set b"
proof -
  have card: "length (js_set xs) = card (set xs)" for xs :: "string list"
    using distinct_card [OF distinct_js_set [of xs]] by simp
  show ?thesis
  proof
    assume "sameSet a b"
    then have "card (set a) = card (set b)" "set a \<subseteq> set b"
      by (auto simp: sameSet_def card list_all_iff)
    then show "set a = set b" by (simp add: card_subset_eq)
  next
    assume "set a = set b"
    then show "sameSet a b" by (simp add: sameSet_def card list_all_iff)
  qed
qed

lemma predecessor_loop_one:
  "predecessor_loop body None [Continues, Supersedes] = Inr p \<Longrightarrow>
   \<not> (present (jprop body ''continues'') \<and> present (jprop body ''supersedes'')) \<Longrightarrow>
   p = None \<or> (\<exists>s lt. p = Some (js_trim s, lt) \<and> lt \<in> {Continues, Supersedes} \<and> is_uuid (js_trim s) \<and>
      jprop body (link_type_name lt) = Some (JStr s))"
proof -
  have as: "isContractId v \<Longrightarrow> \<exists>s. v = Some (JStr s) \<and> is_uuid (js_trim s)" for v
    by (cases v rule: as_string.cases) (auto simp: isContractId_def)
  assume "predecessor_loop body None [Continues, Supersedes] = Inr p"
    "\<not> (present (jprop body ''continues'') \<and> present (jprop body ''supersedes''))"
  then show ?thesis
    by (auto simp: Let_def split: if_splits dest!: as)
qed

lemma likely_predecessors_sound:
  "lp \<in> set (filterLikelyPredecessors rows ids) \<longleftrightarrow>
     (\<exists>row\<in>set rows. set (case cd_participant_ids row of None \<Rightarrow> [] | Some xs \<Rightarrow> xs) = set ids \<and> not_accepted row \<and>
       lp = \<lparr>lp_id = cd_id row, lp_title = cd_title row, lp_status = cd_status row,
             lp_current_turns = cd_current_turns row, lp_max_turns = cd_max_turns row\<rparr>)"
  by (auto simp: filterLikelyPredecessors_def sameSet_iff)

end
