(* ===== verification/ExpiryWindow.thy ===== *)
theory ExpiryWindow
  imports MessageContent
begin

text \<open>
  The expiry window a client asks for (\<open>src/lib/contract-expiry-window.ts\<close>), with the
  language's conversion of a string to a number that it relies on.
\<close>

section \<open>Numbers from strings\<close>

definition is_dec :: "char \<Rightarrow> bool" where
  "is_dec c \<longleftrightarrow> 48 \<le> (of_char c :: nat) \<and> (of_char c :: nat) \<le> 57"

definition digits_value :: "nat \<Rightarrow> string \<Rightarrow> nat" where
  "digits_value radix s = foldl (\<lambda>acc c. acc * radix + (case digit_in c of None \<Rightarrow> 0 | Some d \<Rightarrow> d)) 0 s"

definition radix_literal :: "nat \<Rightarrow> string \<Rightarrow> js_num" where
  "radix_literal radix s =
     (if s \<noteq> [] \<and> list_all (\<lambda>c. case digit_in c of None \<Rightarrow> False | Some d \<Rightarrow> d < radix) s
      then Fin (of_nat (digits_value radix s)) else NotANumber)"

text \<open>The exponent part behind the mantissa: empty, or \<open>e\<close> with an optionally signed integer.\<close>

definition exponent_part :: "string \<Rightarrow> int option" where
  "exponent_part s =
     (case s of
        [] \<Rightarrow> Some 0
      | c # q \<Rightarrow>
          if c \<noteq> CHR ''e'' \<and> c \<noteq> CHR ''E'' then None
          else let neg = (case q of CHR ''-'' # _ \<Rightarrow> True | _ \<Rightarrow> False);
                   ds = (case q of [] \<Rightarrow> [] | x # r \<Rightarrow> if x = CHR ''-'' \<or> x = CHR ''+'' then r else q)
               in if ds \<noteq> [] \<and> list_all is_dec ds
                  then Some (if neg then - int (digits_value 10 ds) else int (digits_value 10 ds))
                  else None)"

definition scale10 :: "rat \<Rightarrow> int \<Rightarrow> rat" where
  "scale10 x e = (if 0 \<le> e then x * 10 ^ nat e else x / 10 ^ nat (- e))"

definition unsigned_decimal :: "string \<Rightarrow> js_num" where
  "unsigned_decimal s =
     (if s = ''Infinity'' then PosInf
      else let ip = takeWhile is_dec s;
               r = dropWhile is_dec s;
               fp = (case r of CHR ''.'' # q \<Rightarrow> takeWhile is_dec q | _ \<Rightarrow> []);
               r2 = (case r of CHR ''.'' # q \<Rightarrow> dropWhile is_dec q | _ \<Rightarrow> r)
           in if ip @ fp = [] then NotANumber
              else case exponent_part r2 of
                None \<Rightarrow> NotANumber
              | Some e \<Rightarrow> Fin (scale10 (of_nat (digits_value 10 (ip @ fp))) (e - int (length fp))))"

fun js_neg :: "js_num \<Rightarrow> js_num" where
  "js_neg (Fin x) = Fin (- x)"
| "js_neg PosInf = NegInf"
| "js_neg NegInf = PosInf"
| "js_neg NotANumber = NotANumber"

text \<open>
  \<open>Number(s)\<close>: white space is trimmed, the empty string is 0, then a radix literal or a signed
  decimal one. The value is the exact rational the literal denotes.
\<close>

definition Number :: "string \<Rightarrow> js_num" where
  "Number s =
     (let t = js_trim s in
      if t = [] then Fin 0
      else case t of
        CHR ''0'' # x # r \<Rightarrow>
          if x = CHR ''x'' \<or> x = CHR ''X'' then radix_literal 16 r
          else if x = CHR ''o'' \<or> x = CHR ''O'' then radix_literal 8 r
          else if x = CHR ''b'' \<or> x = CHR ''B'' then radix_literal 2 r
          else unsigned_decimal t
      | CHR ''-'' # r \<Rightarrow> js_neg (unsigned_decimal r)
      | CHR ''+'' # r \<Rightarrow> unsigned_decimal r
      | _ \<Rightarrow> unsigned_decimal t)"

section \<open>The window\<close>

definition DEFAULT_CONTRACT_EXPIRY_HOURS :: rat where
  "DEFAULT_CONTRACT_EXPIRY_HOURS = 168"

definition MAX_CONTRACT_EXPIRY_HOURS :: rat where
  "MAX_CONTRACT_EXPIRY_HOURS = 8760"

datatype expiry_check = ExpiryOk rat | ExpiryBad refusal

definition invalid_expiry :: "string \<Rightarrow> expiry_check" where
  "invalid_expiry field =
     ExpiryBad (bad_request
       (field @ '' must be a positive number of hours, at most 8760 (365 days). Omit it for the default of 168 (7 days).'')
       ''VALIDATION_ERROR'')"

definition check_hours :: "string \<Rightarrow> js_num \<Rightarrow> expiry_check" where
  "check_hours field hours =
     (case hours of
        Fin h \<Rightarrow> if h \<le> 0 \<or> h > MAX_CONTRACT_EXPIRY_HOURS then invalid_expiry field else ExpiryOk h
      | _ \<Rightarrow> invalid_expiry field)"

definition validateExpiresInHours :: "jvalue \<Rightarrow> string \<Rightarrow> expiry_check" where
  "validateExpiresInHours input field =
     (if is_nullish input then ExpiryOk DEFAULT_CONTRACT_EXPIRY_HOURS
      else case input of
        Some (JNum n) \<Rightarrow> check_hours field n
      | Some (JStr s) \<Rightarrow>
          if length (js_trim s) > 0 then check_hours field (Number s) else invalid_expiry field
      | _ \<Rightarrow> invalid_expiry field)"

lemma check_hours_ok:
  "check_hours field n = ExpiryOk h \<longleftrightarrow> n = Fin h \<and> 0 < h \<and> h \<le> 8760"
  by (cases n) (auto simp: check_hours_def invalid_expiry_def MAX_CONTRACT_EXPIRY_HOURS_def)

lemma expiry_nullish: "is_nullish input \<Longrightarrow> validateExpiresInHours input field = ExpiryOk 168"
  by (simp add: validateExpiresInHours_def DEFAULT_CONTRACT_EXPIRY_HOURS_def)

lemma expiry_refusal:
  "validateExpiresInHours input field = ExpiryBad r \<Longrightarrow> ExpiryBad r = invalid_expiry field"
  unfolding validateExpiresInHours_def check_hours_def
  by (auto split: if_splits option.splits json.splits js_num.splits)

section \<open>Properties\<close>

text \<open>2. The window that is used is always a positive number of hours, at most 8760, whatever
  the client sent: a number, or a string that denotes one, is accepted exactly in that range, an
  absent value means 168 hours, and every other value is refused with status 400.
\<close>
theorem expiry_window_bounds:
  "(validateExpiresInHours input field = ExpiryOk h \<longleftrightarrow>
      is_nullish input \<and> h = 168 \<or>
      0 < h \<and> h \<le> 8760 \<and>
        (input = Some (JNum (Fin h)) \<or>
         (\<exists>s. input = Some (JStr s) \<and> js_trim s \<noteq> [] \<and> Number s = Fin h))) \<and>
   (\<exists>h. 0 < h \<and> h \<le> 8760 \<and> validateExpiresInHours input field = ExpiryOk h) \<noteq>
   (\<exists>r. rf_status r = 400 \<and> ae_code (rf_body r) = ''VALIDATION_ERROR'' \<and>
        validateExpiresInHours input field = ExpiryBad r)"
proof
  have nz: "is_nullish (Some (JNum n)) = False" "is_nullish (Some (JStr s)) = False" for n s
    by (simp_all add: is_nullish_def)
  show ok: "validateExpiresInHours input field = ExpiryOk h \<longleftrightarrow>
      is_nullish input \<and> h = 168 \<or>
      0 < h \<and> h \<le> 8760 \<and>
        (input = Some (JNum (Fin h)) \<or>
         (\<exists>s. input = Some (JStr s) \<and> js_trim s \<noteq> [] \<and> Number s = Fin h))" for h
  proof (cases "is_nullish input")
    case True
    then have "input = None \<or> input = Some JNull" by (simp add: is_nullish_def)
    with True show ?thesis using expiry_nullish [OF True, of field] by auto
  next
    case False
    then show ?thesis
      unfolding validateExpiresInHours_def
      by (cases input; cases "the input") (auto simp: check_hours_ok is_nullish_def invalid_expiry_def)
  qed
  show "(\<exists>h. 0 < h \<and> h \<le> 8760 \<and> validateExpiresInHours input field = ExpiryOk h) \<noteq>
   (\<exists>r. rf_status r = 400 \<and> ae_code (rf_body r) = ''VALIDATION_ERROR'' \<and>
        validateExpiresInHours input field = ExpiryBad r)"
  proof (cases "validateExpiresInHours input field")
    case (ExpiryOk h)
    then have "0 < h \<and> h \<le> 8760" using ok [of h] by auto
    with ExpiryOk show ?thesis by auto
  next
    case (ExpiryBad r)
    with expiry_refusal [OF ExpiryBad] show ?thesis by (auto simp: invalid_expiry_def bad_request_def)
  qed
qed

lemma number_samples:
  "Number '' 48 '' = Fin 48" "Number ''0x10'' = Fin 16" "Number ''1.5e1'' = Fin 15"
  "Number ''abc'' = NotANumber" "Number ''-Infinity'' = NegInf"
  by (simp_all add: Number_def unsigned_decimal_def radix_literal_def digits_value_def digit_in_def
      is_dec_def exponent_part_def scale10_def js_trim_def is_ws_def)

end
