(* ===== verification/Proposals.thy ===== *)
theory Proposals
  imports ContractRoutes RequestGuards Succession ExpiryWindow
begin

text \<open>
  Proposing a contract: \<open>createContractProposal\<close> (\<open>src/lib/contract-proposals.ts\<close>) and the POST handler of
  \<open>src/app/api/v1/contracts/route.ts\<close>, from the checks before anything is written to the invitation.

  Parameters: \<open>to_text\<close> and \<open>to_int\<close>, what the database makes of a client's JSON value in a text and
  in an integer column (\<open>None\<close>: it rejects it); \<open>encode\<close>, the JSON of the answer.
\<close>

section \<open>The terms of a proposal\<close>

text \<open>What \<open>createContractProposal\<close> throws: a \<open>ContractProposalError\<close>, or any other exception.\<close>

datatype proposal_error = ProposalRefused refusal | ProposalThrew

definition proposal_fail :: "nat \<Rightarrow> string \<Rightarrow> string \<Rightarrow> proposal_error" where
  "proposal_fail status error code = ProposalRefused (refuse status error code)"

text \<open>Distinct trimmed names, without what is no string or blank.\<close>

definition names_of :: "json list \<Rightarrow> string list" where
  "names_of values = js_set (map js_trim
     (filter (\<lambda>s. js_trim s \<noteq> []) (List.map_filter (\<lambda>v. as_string (Some v)) values)))"

record proposal_terms =
  pt_title :: json
  pt_invitees :: "string list"
  pt_observers :: "string list"
  pt_description :: "string option"
  pt_hours :: rat
  pt_max_turns :: json
  pt_schema :: "json option"
  pt_approval :: bool

definition missing_fields :: proposal_error where
  "missing_fields = proposal_fail 400 ''Missing required fields: title, invitees (non-empty array)'' ''VALIDATION_ERROR''"

definition proposal_terms_of :: "json \<Rightarrow> proposal_error + proposal_terms" where
  "proposal_terms_of parsed =
     (let f = (\<lambda>k. jprop (Some parsed) k)
      in case (f ''title'', f ''invitees'') of
           (Some title, Some (JArr invitees)) \<Rightarrow>
             if falsy (Some title) \<or> invitees = [] then Inl missing_fields
             else (case (if falsy (f ''observers'') then Some [] else case f ''observers'' of Some (JArr xs) \<Rightarrow> Some xs | _ \<Rightarrow> None) of
               None \<Rightarrow> Inl ProposalThrew
             | Some observers \<Rightarrow>
                 if names_of invitees = [] then Inl missing_fields
                 else (case validateContractDescription (f ''description'') of
                   DescriptionBad r \<Rightarrow> Inl (ProposalRefused r)
                 | DescriptionOk description \<Rightarrow>
                     (case validateExpiresInHours (f ''expires_in_hours'') ''expires_in_hours'' of
                        ExpiryBad r \<Rightarrow> Inl (ProposalRefused r)
                      | ExpiryOk hours \<Rightarrow> Inr
                          \<lparr>pt_title = title, pt_invitees = names_of invitees, pt_observers = names_of observers,
                           pt_description = description, pt_hours = hours,
                           pt_max_turns = json_or (f ''max_turns'') (jint 50),
                           pt_schema = (if falsy (f ''message_schema'') then None else f ''message_schema''),
                           pt_approval = (f ''completion_requires_approval'' = Some (JBool True))\<rparr>)))
         | _ \<Rightarrow> Inl missing_fields)"

section \<open>Who takes part\<close>

definition policy_agent_of :: "agent_row \<Rightarrow> policy_agent" where
  "policy_agent_of a =
     \<lparr>pa_id = ag_id a, pa_name = ag_name a,
      pa_owner_user_id = Some (case ag_owner_user_id a of None \<Rightarrow> JNull | Some u \<Rightarrow> JStr u),
      pa_trust_tier = Some (JStr (ag_trust_tier a))\<rparr>"

definition agent_named :: "agent_row list \<Rightarrow> string \<Rightarrow> agent_row option" where
  "agent_named rows = map_of (rev (map (\<lambda>a. (ag_name a, a)) rows))"

definition unknown_names :: "string list \<Rightarrow> string list \<Rightarrow> string" where
  "unknown_names invitees observers = join ''; ''
     ((if invitees = [] then [] else [''unknown invitee(s): '' @ join '', '' invitees]) @
      (if observers = [] then [] else [''unknown observer(s): '' @ join '', '' observers]))"

text \<open>The invitees and observers, in the order of their names; or why they cannot take part.\<close>

definition proposal_agents ::
  "agent_row \<Rightarrow> proposal_terms \<Rightarrow> agent_row list \<Rightarrow> proposal_error + agent_row list \<times> agent_row list" where
  "proposal_agents actor terms rows =
     (let known = agent_named rows;
          missingInvitees = filter (\<lambda>n. known n = None) (pt_invitees terms);
          missingObservers = filter (\<lambda>n. known n = None) (pt_observers terms);
          overlap = filter (\<lambda>n. n \<in> set (pt_invitees terms)) (pt_observers terms);
          invitees = List.map_filter known (pt_invitees terms);
          observers = List.map_filter known (pt_observers terms)
      in if missingInvitees \<noteq> [] \<or> missingObservers \<noteq> [] then
           Inl (proposal_fail 400 (unknown_names missingInvitees missingObservers) ''INVALID_INVITEES'')
         else if ag_name actor \<in> set (pt_invitees terms) \<or> ag_name actor \<in> set (pt_observers terms) then
           Inl (proposal_fail 400 ''Cannot add yourself as an invitee or observer on the same contract'' ''VALIDATION_ERROR'')
         else if overlap \<noteq> [] then
           Inl (proposal_fail 400 (''Agents cannot be both invitees and observers on the same contract: '' @
             join '', '' overlap) ''VALIDATION_ERROR'')
         else case evaluateContractCollaboration (policy_agent_of actor) (map policy_agent_of invitees)
             (map policy_agent_of observers) of
           Inl _ \<Rightarrow> Inl ProposalThrew
         | Inr g \<Rightarrow>
             if \<not> cg_allowed g then
               Inl (proposal_fail 403 (if truthy_str (cg_reason g) then the (cg_reason g)
                 else ''Participant trust tier blocks contract proposal'') ''TRUST_TIER_BLOCKED'')
             else Inr (invitees, observers))"

section \<open>Capacity\<close>

definition live_contracts_of :: "string \<Rightarrow> nat prog" where
  "live_contracts_of agentId = do {
     ps \<leftarrow> call (q_select db_participants (\<lambda>p. p_agent_id p = agentId));
     cs \<leftarrow> call (q_select db_contracts
       (\<lambda>c. is_live (c_status c) \<and> c_id c \<in> set (map p_contract_id (rows_of ps))));
     State_Monad.return (length (rows_of cs))
   }"

definition limit_of :: "agent_row \<Rightarrow> int option" where
  "limit_of a = (case ag_max_concurrent a of None \<Rightarrow> None | Some n \<Rightarrow> if n = 0 then None else Some n)"

definition at_capacity :: "agent_row \<Rightarrow> nat \<Rightarrow> bool" where
  "at_capacity a live \<longleftrightarrow> (case limit_of a of None \<Rightarrow> False | Some n \<Rightarrow> int live \<ge> n)"

definition capacity_error :: "string \<Rightarrow> agent_row \<Rightarrow> proposal_error" where
  "capacity_error who a = proposal_fail 409
     (who @ '' '' @ ag_name a @ '' has reached max concurrent active contracts ('' @ show_int (the (ag_max_concurrent a)) @ '')'')
     ''MAX_CONTRACTS_REACHED''"

fun invitee_over_capacity :: "agent_row list \<Rightarrow> agent_row option prog" where
  "invitee_over_capacity [] = State_Monad.return None"
| "invitee_over_capacity (a # rest) =
     (if limit_of a = None then invitee_over_capacity rest
      else do {
        live \<leftarrow> live_contracts_of (ag_id a);
        if at_capacity a live then State_Monad.return (Some a) else invitee_over_capacity rest
      })"

section \<open>The rows\<close>

definition int4 :: "int \<Rightarrow> bool" where
  "int4 n \<longleftrightarrow> - (2 ^ 31) \<le> n \<and> n < 2 ^ 31"

definition turns_column :: "(json \<Rightarrow> int option) \<Rightarrow> json \<Rightarrow> int option" where
  "turns_column to_int v =
     (case v of
        JNum (Fin q) \<Rightarrow> if q = of_int \<lfloor>q\<rfloor> then (if int4 \<lfloor>q\<rfloor> then Some \<lfloor>q\<rfloor> else None) else to_int v
      | _ \<Rightarrow> to_int v)"

definition proposed_contract ::
  "(json \<Rightarrow> string) \<Rightarrow> string \<Rightarrow> proposal_terms \<Rightarrow> int \<Rightarrow> string option \<Rightarrow> timestamp \<Rightarrow> string \<Rightarrow> timestamp \<Rightarrow> contract_row" where
  "proposed_contract to_text actorId terms maxTurns unlinkedReason expiresAt fresh now =
     \<lparr>c_id = fresh,
      c_title = (case column_text to_text (Some (pt_title terms)) of None \<Rightarrow> [] | Some t \<Rightarrow> t),
      c_description = pt_description terms, c_status = SProposed, c_proposer_id = actorId, c_max_turns = maxTurns,
      c_current_turns = 0, c_message_schema = pt_schema terms, c_close_reason = None, c_closed_by = None,
      c_closed_by_kind = None, c_expires_at = Some expiresAt, c_closed_at = None,
      c_completion_requires_approval = pt_approval terms, c_completion_approved_at = None,
      c_completion_approved_by = None, c_closed_without_approval = False,
      c_unlinked_reason = truthy_or_null (map_option js_trim unlinkedReason),
      c_created_at = now, c_updated_at = now\<rparr>"

definition invalid_integer :: db_error where
  "invalid_integer = \<lparr>de_code = ''22P02'', de_message = ''invalid input syntax for type integer''\<rparr>"

definition q_insert_contract ::
  "(json \<Rightarrow> string) \<Rightarrow> (json \<Rightarrow> int option) \<Rightarrow> string \<Rightarrow> proposal_terms \<Rightarrow> string option \<Rightarrow> timestamp \<Rightarrow> contract_row list statement" where
  "q_insert_contract to_text to_int actorId terms unlinkedReason expiresAt =
     (case turns_column to_int (pt_max_turns terms) of
        None \<Rightarrow> (\<lambda>d. (Inl invalid_integer, d))
      | Some n \<Rightarrow> with_fresh (\<lambda>fresh d.
          q_insert db_contracts db_contracts_update (\<lambda>new c. c_id new = c_id c)
            [proposed_contract to_text actorId terms n unlinkedReason expiresAt fresh (db_now d)] d))"

definition proposed_participants ::
  "string \<Rightarrow> string \<Rightarrow> agent_row list \<Rightarrow> agent_row list \<Rightarrow> timestamp \<Rightarrow> participant_row list" where
  "proposed_participants contractId actorId invitees observers now =
     (let row = (\<lambda>a r s t. \<lparr>p_id = [], p_contract_id = contractId, p_agent_id = a, p_role = r, p_status = s,
                           p_responded_at = t\<rparr>)
      in row actorId Proposer PAccepted (Some now) #
         map (\<lambda>a. row (ag_id a) Invitee PPending None) invitees @
         map (\<lambda>a. row (ag_id a) Observer PAccepted (Some now)) observers)"

text \<open>
  The statement gives every row an id of its own. It fails as a whole when the contract is gone or an
  agent would take part twice.
\<close>

definition foreign_key_violation :: db_error where
  "foreign_key_violation =
     \<lparr>de_code = ''23503'', de_message = ''insert or update violates foreign key constraint''\<rparr>"

definition q_insert_participants :: "string \<Rightarrow> participant_row list \<Rightarrow> participant_row list statement" where
  "q_insert_participants contractId rows d =
     (if contractId \<notin> c_id ` set (db_contracts d) then (Inl foreign_key_violation, d)
      else if \<not> distinct (map p_agent_id rows) then (Inl unique_violation, d)
      else q_insert db_participants db_participants_update
        (\<lambda>new p. p_contract_id new = p_contract_id p \<and> p_agent_id new = p_agent_id p)
        (map (\<lambda>(n, p). p\<lparr>p_id := db_ids d (db_next d + n)\<rparr>) (enumerate 0 rows))
        (d\<lparr>db_next := db_next d + length rows\<rparr>))"

text \<open>Deleting a contract deletes what refers to it (\<open>ON DELETE CASCADE\<close>).\<close>

definition q_delete_contract :: "string \<Rightarrow> unit statement" where
  "q_delete_contract contractId d =
     (Inr (), d\<lparr>
        db_contracts := filter (\<lambda>c. c_id c \<noteq> contractId) (db_contracts d),
        db_participants := filter (\<lambda>p. p_contract_id p \<noteq> contractId) (db_participants d),
        db_messages := filter (\<lambda>m. m_contract_id m \<noteq> contractId) (db_messages d),
        db_links := filter (\<lambda>l. l_from l \<noteq> contractId \<and> l_to l \<noteq> contractId) (db_links d),
        db_task_contracts := filter (\<lambda>t. tk_contract_id t \<noteq> contractId) (db_task_contracts d),
        db_acks := filter (\<lambda>k. \<not> (\<exists>n\<in>set (db_notes d). n_contract_id n = contractId \<and> n_id n = k_note_id k)) (db_acks d),
        db_notes := filter (\<lambda>n. n_contract_id n \<noteq> contractId) (db_notes d),
        db_questions := filter (\<lambda>q. q_contract_id q \<noteq> contractId) (db_questions d),
        db_attachments := filter (\<lambda>a. at_contract_id a \<noteq> Some contractId) (db_attachments d)\<rparr>)"

section \<open>Creating the proposal\<close>

record proposal =
  pp_contract :: contract_response
  pp_contractId :: string

definition expires_at_of :: "timestamp \<Rightarrow> rat \<Rightarrow> timestamp" where
  "expires_at_of now hours = \<lfloor>of_int now + hours * 3600000\<rfloor>"

definition propose_details :: "proposal_terms \<Rightarrow> content" where
  "propose_details terms =
     [(''title'', pt_title terms), (''invitees'', JArr (map JStr (pt_invitees terms))),
      (''observers'', JArr (map JStr (pt_observers terms))), (''max_turns'', pt_max_turns terms),
      (''expires_in_hours'', JNum (Fin (pt_hours terms)))]"

text \<open>After the contract's row: the second look at the capacity, the participants, the answer.\<close>

definition proposal_inserted ::
  "request \<Rightarrow> proposal_terms \<Rightarrow> agent_row list \<Rightarrow> agent_row list \<Rightarrow> contract_row \<Rightarrow> (proposal_error + proposal) prog" where
  "proposal_inserted req terms invitees observers contract = do {
     live \<leftarrow> live_contracts_of (ag_id (rq_agent req));
     if (case limit_of (rq_agent req) of None \<Rightarrow> False | Some n \<Rightarrow> int live > n) then do {
       _ \<leftarrow> call (q_delete_contract (c_id contract));
       State_Monad.return (Inl (capacity_error ''Proposer'' (rq_agent req)))
     }
     else do {
       now \<leftarrow> clock;
       inserted \<leftarrow> call (q_insert_participants (c_id contract)
         (proposed_participants (c_id contract) (ag_id (rq_agent req)) invitees observers now));
       case inserted of
         Inl _ \<Rightarrow> do {
           _ \<leftarrow> call (q_delete_contract (c_id contract));
           State_Monad.return (Inl (proposal_fail 500 ''Failed to create participants'' ''DB_ERROR''))
         }
       | Inr _ \<Rightarrow> do {
           audit_contract req ''contract.propose'' (c_id contract) (propose_details terms);
           enriched \<leftarrow> enrichContract contract (viewed_by req);
           State_Monad.return (Inr \<lparr>pp_contract = enriched, pp_contractId = c_id contract\<rparr>)
         }
     }
   }"

definition proposal_allowed ::
  "(json \<Rightarrow> string) \<Rightarrow> (json \<Rightarrow> int option) \<Rightarrow> request \<Rightarrow> proposal_terms \<Rightarrow> string option \<Rightarrow> timestamp \<Rightarrow>
   agent_row list \<Rightarrow> agent_row list \<Rightarrow> (proposal_error + proposal) prog" where
  "proposal_allowed to_text to_int req terms unlinkedReason expiresAt invitees observers = do {
     live \<leftarrow> live_contracts_of (ag_id (rq_agent req));
     if at_capacity (rq_agent req) live then
       State_Monad.return (Inl (capacity_error ''Proposer'' (rq_agent req)))
     else do {
       full \<leftarrow> invitee_over_capacity invitees;
       case full of
         Some a \<Rightarrow> State_Monad.return (Inl (capacity_error ''Invitee'' a))
       | None \<Rightarrow> do {
           r \<leftarrow> call (shaped shape_single
             (q_insert_contract to_text to_int (ag_id (rq_agent req)) terms unlinkedReason expiresAt));
           case data_of r of
             None \<Rightarrow> State_Monad.return (Inl (proposal_fail 500 ''Failed to create contract'' ''DB_ERROR''))
           | Some contract \<Rightarrow> proposal_inserted req terms invitees observers contract
         }
     }
   }"

definition createContractProposal ::
  "(json \<Rightarrow> string) \<Rightarrow> (json \<Rightarrow> int option) \<Rightarrow> request \<Rightarrow> json \<Rightarrow> string option \<Rightarrow> (proposal_error + proposal) prog" where
  "createContractProposal to_text to_int req parsed unlinkedReason =
     (case proposal_terms_of parsed of
        Inl e \<Rightarrow> State_Monad.return (Inl e)
      | Inr terms \<Rightarrow> do {
          now \<leftarrow> clock;
          rows \<leftarrow> call (q_select db_agents (\<lambda>a. ag_name a \<in> set (pt_invitees terms @ pt_observers terms)));
          case rows of
            Inl _ \<Rightarrow> State_Monad.return (Inl (proposal_fail 500 ''Failed to validate participants'' ''DB_ERROR''))
          | Inr found \<Rightarrow>
              (case proposal_agents (rq_agent req) terms found of
                 Inl e \<Rightarrow> State_Monad.return (Inl e)
               | Inr (invitees, observers) \<Rightarrow>
                   proposal_allowed to_text to_int req terms unlinkedReason (expires_at_of now (pt_hours terms))
                     invitees observers)
        })"

section \<open>The route\<close>

record proposal_plan =
  pl_task_id :: "string option"
  pl_inherited :: bool
  pl_unlinked_reason :: "string option"
  pl_predecessor :: "predecessor option"

definition plan_of :: "string option \<Rightarrow> predecessor option \<Rightarrow> task_link_plan \<Rightarrow> proposal_plan" where
  "plan_of taskId predecessor p =
     (case p of
        PlanTask \<Rightarrow> \<lparr>pl_task_id = taskId, pl_inherited = False, pl_unlinked_reason = None, pl_predecessor = predecessor\<rparr>
      | PlanInherit t \<Rightarrow> \<lparr>pl_task_id = Some (lt_task_id t), pl_inherited = True, pl_unlinked_reason = None,
          pl_predecessor = predecessor\<rparr>
      | PlanUnlinked reason \<Rightarrow> \<lparr>pl_task_id = None, pl_inherited = False, pl_unlinked_reason = Some reason,
          pl_predecessor = predecessor\<rparr>)"

definition text_field :: "(json \<Rightarrow> string) \<Rightarrow> json \<Rightarrow> string \<Rightarrow> string option" where
  "text_field to_text parsed k =
     (if falsy (jprop (Some parsed) k) then None else column_text to_text (jprop (Some parsed) k))"

text \<open>Everything that is settled before anything is written: succession, permissions, the task link.\<close>

definition plan_permitted ::
  "request \<Rightarrow> string option \<Rightarrow> string option \<Rightarrow> succession_fields \<Rightarrow> (refusal + proposal_plan) prog" where
  "plan_permitted req projectId taskId s = do {
     let wantsLink = (projectId \<noteq> None \<or> taskId \<noteq> None);
     linkRefusal \<leftarrow> (case (projectId, taskId) of
         (Some p, Some t) \<Rightarrow> checkLinkPermission p t (ag_id (rq_agent req))
       | _ \<Rightarrow> State_Monad.return None);
     case linkRefusal of
       Some r \<Rightarrow> State_Monad.return (Inl r)
     | None \<Rightarrow> do {
         refusal \<leftarrow> (case sf_predecessor s of
             Some (pid, _) \<Rightarrow> checkContractLinkPermission [pid] (ag_id (rq_agent req))
           | None \<Rightarrow> State_Monad.return None);
         case refusal of
           Some r \<Rightarrow> State_Monad.return (Inl r)
         | None \<Rightarrow> do {
             predecessorTask \<leftarrow> (case (wantsLink, sf_predecessor s) of
                 (False, Some (pid, _)) \<Rightarrow> getLinkedTask pid
               | _ \<Rightarrow> State_Monad.return None);
             State_Monad.return (map_sum id (plan_of taskId (sf_predecessor s))
               (resolveTaskLinkPlan wantsLink (sf_unlinkedReason s) (sf_predecessor s) predecessorTask))
           }
       }
   }"

definition proposal_plan_of ::
  "(json \<Rightarrow> string) \<Rightarrow> request \<Rightarrow> json \<Rightarrow> (refusal + proposal_plan) prog" where
  "proposal_plan_of to_text req parsed =
     (case validateProposalSuccession (Some parsed) of
        Inl r \<Rightarrow> State_Monad.return (Inl r)
      | Inr s \<Rightarrow>
          let projectId = text_field to_text parsed ''project_id''; taskId = text_field to_text parsed ''task_id''
          in if (projectId = None) \<noteq> (taskId = None) then
               State_Monad.return (Inl (refuse 400
                 ''project_id and task_id must be provided together to link a contract to a task'' ''VALIDATION_ERROR''))
             else plan_permitted req projectId taskId s)"

definition record_task_link :: "request \<Rightarrow> proposal_plan \<Rightarrow> string \<Rightarrow> refusal option prog" where
  "record_task_link req plan contractId =
     (if \<not> truthy_str (pl_task_id plan) then State_Monad.return None
      else do {
        failure \<leftarrow> linkContractToTask contractId (the (pl_task_id plan));
        case failure of
          Some r \<Rightarrow> State_Monad.return (Some r)
        | None \<Rightarrow> do {
            auditLog (ag_name (rq_agent req)) ''task.contract_link'' (Some ''task'') (pl_task_id plan)
              (Some ([(''contract_id'', JStr contractId),
                (''via'', JStr (if pl_inherited plan then ''contract-create-inherited'' else ''contract-create''))] @
                (if pl_inherited plan then
                   (case pl_predecessor plan of None \<Rightarrow> [] | Some p \<Rightarrow> [(''inherited_from_contract_id'', JStr (fst p))])
                 else [])))
              (Some (getClientIp req));
            State_Monad.return None
          }
      })"

definition record_predecessor :: "request \<Rightarrow> proposal_plan \<Rightarrow> string \<Rightarrow> unit prog" where
  "record_predecessor req plan contractId =
     (case pl_predecessor plan of
        None \<Rightarrow> State_Monad.return ()
      | Some (pid, linkType) \<Rightarrow> do {
          failure \<leftarrow> createContractLink contractId pid linkType None (Some (ag_id (rq_agent req)));
          if failure \<noteq> None then State_Monad.return ()
          else audit_contract req ''contract.linked'' contractId
            [(''to_contract_id'', JStr pid), (''link_type'', JStr (link_type_name linkType)), (''via'', JStr ''contract-create'')]
        })"

record propose_response =
  pr_contract :: contract_response
  pr_likely_predecessors :: "likely_predecessor list"
  pr_succession_hint :: "string option"

definition invitation_of ::
  "(json \<Rightarrow> string) \<Rightarrow> request \<Rightarrow> json \<Rightarrow> proposal \<Rightarrow> contract_response \<Rightarrow> likely_predecessor list \<Rightarrow> webhook_event" where
  "invitation_of to_text req parsed pp body likely =
     contract_event
       (map (\<lambda>p. ab_id (pb_agent p)) (filter (\<lambda>p. pb_role p = Invitee) (co_participants (pp_contract pp))))
       ''invitation'' (pp_contractId pp)
       (buildInvitationData
         \<lparr>ii_contractId = pp_contractId pp,
          ii_title = (case column_text to_text (jprop (Some parsed) ''title'') of None \<Rightarrow> [] | Some t \<Rightarrow> t),
          ii_proposer = ag_name (rq_agent req),
          ii_expiresAt = c_expires_at (co_contract (pp_contract pp)),
          ii_description = c_description (co_contract body), ii_maxTurns = c_max_turns (co_contract body),
          ii_completionRequiresApproval = c_completion_requires_approval (co_contract body),
          ii_linkedTask = co_linked_task body, ii_unlinkedReason = c_unlinked_reason (co_contract body),
          ii_relatedContracts = co_related body, ii_likelyPredecessors = likely\<rparr>)"

definition proposal_created ::
  "(json \<Rightarrow> string) \<Rightarrow> (propose_response \<Rightarrow> json) \<Rightarrow> request \<Rightarrow> string option \<Rightarrow> json \<Rightarrow> proposal_plan \<Rightarrow> proposal \<Rightarrow>
   propose_response response prog" where
  "proposal_created to_text encode req key parsed plan pp = do {
     linkFailure \<leftarrow> record_task_link req plan (pp_contractId pp);
     case linkFailure of
       Some r \<Rightarrow> State_Monad.return (Refusal r)
     | None \<Rightarrow> do {
         record_predecessor req plan (pp_contractId pp);
         body \<leftarrow> (if truthy_str (pl_task_id plan) \<or> pl_predecessor plan \<noteq> None
           then enrichContract (co_contract (pp_contract pp)) (viewed_by req)
           else State_Monad.return (pp_contract pp));
         likely \<leftarrow> (if pl_predecessor plan \<noteq> None then State_Monad.return []
           else findLikelyPredecessors (pp_contractId pp) (ag_id (rq_agent req))
             (map (\<lambda>p. ab_id (pb_agent p))
               (filter (\<lambda>p. pb_role p \<noteq> Observer) (co_participants (pp_contract pp)))));
         deliver (invitation_of to_text req parsed pp body likely);
         let answer = \<lparr>pr_contract = body, pr_likely_predecessors = likely,
                       pr_succession_hint = successionHint (pp_contractId pp) likely\<rparr>;
         storeIdempotencyResponse key req ''POST /v1/contracts'' 201 (encode answer);
         State_Monad.return (Answer 201 answer)
       }
   }"

definition contracts_post_parsed ::
  "(json \<Rightarrow> string) \<Rightarrow> (json \<Rightarrow> int option) \<Rightarrow> (propose_response \<Rightarrow> json) \<Rightarrow> request \<Rightarrow> string option \<Rightarrow> json \<Rightarrow>
   propose_response response prog" where
  "contracts_post_parsed to_text to_int encode req key parsed =
     (if parsed = JNull then State_Monad.return (Thrown ''TypeError'')
      else do {
        planned \<leftarrow> proposal_plan_of to_text req parsed;
        case planned of
          Inl r \<Rightarrow> State_Monad.return (Refusal r)
        | Inr plan \<Rightarrow> do {
            created \<leftarrow> createContractProposal to_text to_int req parsed (pl_unlinked_reason plan);
            case created of
              Inl (ProposalRefused r) \<Rightarrow> State_Monad.return (Refusal r)
            | Inl ProposalThrew \<Rightarrow> State_Monad.return (reply_error 500 ''Failed to create contract'' ''DB_ERROR'')
            | Inr pp \<Rightarrow> proposal_created to_text encode req key parsed plan pp
          }
      })"

definition contracts_post ::
  "(json \<Rightarrow> string) \<Rightarrow> (json \<Rightarrow> int option) \<Rightarrow> (propose_response \<Rightarrow> json) \<Rightarrow> request \<Rightarrow> propose_response response prog" where
  "contracts_post to_text to_int encode req =
     with_key req ''POST /v1/contracts'' (\<lambda>key. do {
       limit \<leftarrow> checkRateLimit (''proposals:'' @ ag_id (rq_agent req)) PROPOSALS_LIMIT;
       if \<not> li_allowed limit then
         State_Monad.return (reply_error 429 ''Proposal rate limit exceeded (10/hour)'' ''RATE_LIMITED'')
       else case rq_body req of
         Parsed j \<Rightarrow> contracts_post_parsed to_text to_int encode req key j
       | _ \<Rightarrow> State_Monad.return (reply_error 400 ''Invalid JSON body'' ''INVALID_BODY'')
     })"

section \<open>Beside other requests\<close>

text \<open>The new contract's id is one the supply has not handed out.\<close>

lemma fresh_contract:
  assumes "contracts_ok d"
  shows "crows d (db_ids d (db_next d)) = []" and "parts d (db_ids d (db_next d)) = []"
    and "turns_spent d (db_ids d (db_next d)) = 0"
proof -
  let ?i = "db_ids d (db_next d)"
  have n: "?i \<notin> c_id ` set (db_contracts d)"
    using assms unfolding contracts_ok_def keys_ok_def spent_def by blast
  then show "crows d ?i = []" by (simp add: crows_Nil)
  have "?i \<notin> p_contract_id ` set (db_participants d)" "?i \<notin> m_contract_id ` set (db_messages d)"
    using n assms unfolding contracts_ok_def keys_ok_def by blast+
  then show "parts d ?i = []" "turns_spent d ?i = 0"
    by (auto simp add: parts_Nil turns_spent_def filter_empty_conv image_iff)
qed

lemma orderly_insert_contract:
  fixes d :: db
  defines "i \<equiv> db_ids d (db_next d)"
  assumes "c_id c = i" "c_status c = SProposed" "c_current_turns c = 0"
  shows "orderly d (d\<lparr>db_next := Suc (db_next d), db_contracts := db_contracts d @ [c]\<rparr>)"
    (is "orderly d ?d")
  unfolding orderly_def
proof (intro impI conjI)
  assume ok: "contracts_ok d"
  note fresh = fresh_contract [OF ok, folded i_def]
  have cr: "crows ?d j = (if j = i then [c] else crows d j)" for j
    using fresh(1) assms(2) by (simp add: crows_def)
  have ps: "parts ?d j = parts d j" for j by (simp add: parts_def)
  have "\<not> spent d i" by (auto simp: spent_def i_def)
  then show "lifecycle d ?d"
    using fresh by (simp add: lifecycle_def cr ps list_all2_refl)
  have sp: "spent d j \<Longrightarrow> spent ?d j" for j by (simp add: spent_def)
  have "inj (db_ids d)" using ok by (simp add: contracts_ok_def keys_ok_def)
  then have "spent ?d i" by (auto simp: spent_def i_def dest: injD)
  moreover have "i \<notin> c_id ` set (db_contracts d)" using fresh(1) by (simp add: crows_Nil)
  ultimately have "keys_ok ?d"
    using ok assms(2) sp unfolding contracts_ok_def keys_ok_def by auto
  moreover have "row_ok ?d x = row_ok d x" for x
    by (simp add: row_ok_def turns_spent_def parts_def)
  moreover have "row_ok d c"
    using fresh assms(2-4) by (simp add: row_ok_def turns_bounded_def gate_respected_def)
  ultimately show "contracts_ok ?d"
    using ok by (simp add: contracts_ok_def)
qed

text \<open>Participants are added only to a contract that has none: another row of the proposer would clash.\<close>

lemma orderly_insert_participants:
  assumes own: "rows_are i (\<lambda>c. c_proposer_id c = a) d" and "ps \<noteq> []" "p_agent_id (hd ps) = a"
    and ids: "\<And>p. p \<in> set ps \<Longrightarrow> p_contract_id p = i"
  shows "orderly d (snd (q_insert_participants i ps d))"
proof -
  define new where "new = map (\<lambda>(n, p). p\<lparr>p_id := db_ids d (db_next d + n)\<rparr>) (enumerate 0 ps)"
  define d' where "d' = d\<lparr>db_next := db_next d + length ps, db_participants := db_participants d @ new\<rparr>"
  have ni: "p_contract_id p = i" if "p \<in> set new" for p
    using that ids by (auto simp: new_def in_set_enumerate_eq)
  obtain p ps' where "ps = p # ps'" using assms(2) by (cases ps) auto
  then have hd: "\<exists>p\<in>set new. p_agent_id p = a" using assms(3) by (auto simp: new_def)
  then have mem: "a \<in> p_agent_id ` set new" by force
  have "orderly d d'" if free: "\<And>n p. n \<in> set new \<Longrightarrow> p \<in> set (db_participants d) \<Longrightarrow>
      \<not> (p_contract_id n = p_contract_id p \<and> p_agent_id n = p_agent_id p)" and there: "i \<in> c_id ` set (db_contracts d)"
    unfolding orderly_def
  proof (intro impI conjI)
    assume ok: "contracts_ok d"
    obtain c where c: "c \<in> set (db_contracts d)" "c_id c = i" using there by blast
    then have "c_proposer_id c = a" using own by (auto simp: rows_are_def crows_def)
    moreover have rc: "row_ok d c" using ok c by (simp add: contracts_ok_def)
    moreover have "a \<notin> p_agent_id ` set (parts d i)" using hd ni free by (fastforce simp: parts_def)
    ultimately have empty: "parts d i = []" using c by (auto simp: row_ok_def)
    have ps: "parts d' j = parts d j @ (if j = i then new else [])" for j
      using ni by (auto simp: parts_def d'_def filter_id_conv filter_empty_conv)
    have cr: "crows d' j = crows d j" for j by (simp add: crows_def d'_def)
    have ts: "turns_spent d' j = turns_spent d j" for j by (simp add: turns_spent_def d'_def)
    show "lifecycle d d'"
      using empty by (simp add: lifecycle_def cr ps list_all2_refl) (simp add: d'_def)
    have "row_ok d' x" if x: "x \<in> set (db_contracts d)" for x
    proof (cases "c_id x = i")
      case True
      then have "c_proposer_id x \<in> p_agent_id ` set new" using own x mem by (auto simp: rows_are_def crows_def)
      with True x ok empty show ?thesis
        by (auto simp: contracts_ok_def row_ok_def ps ts)
    next
      case False
      with x ok show ?thesis by (simp add: contracts_ok_def row_ok_def ps ts)
    qed
    moreover have "p_contract_id ` set (db_participants d') \<subseteq> c_id ` set (db_contracts d)"
      using ok ni there unfolding contracts_ok_def keys_ok_def d'_def by auto
    ultimately show "contracts_ok d'"
      using ok unfolding contracts_ok_def keys_ok_def spent_def by (simp add: d'_def)
  qed
  moreover have "db_participants_update (\<lambda>rs. rs @ new) (d\<lparr>db_next := db_next d + length ps\<rparr>) = d'"
    by (cases d) (simp add: d'_def)
  moreover have "orderly d (d\<lparr>db_next := db_next d + length ps\<rparr>)"
    by (rule orderly_same) simp
  ultimately show ?thesis
    unfolding q_insert_participants_def q_insert_def new_def [symmetric]
    by (auto simp: orderly_refl)
qed

lemma orderly_delete_contract: "orderly d (snd (q_delete_contract i d))"
  unfolding orderly_def
proof (intro impI conjI)
  let ?d = "snd (q_delete_contract i d)"
  assume ok: "contracts_ok d"
  have cr: "crows ?d j = (if j = i then [] else crows d j)" for j
    by (auto simp: crows_def q_delete_contract_def filter_empty_conv intro: filter_cong)
  have ps: "parts ?d j = (if j = i then [] else parts d j)" for j
    by (auto simp: parts_def q_delete_contract_def filter_empty_conv intro: filter_cong)
  have ts: "turns_spent ?d j = (if j = i then 0 else turns_spent d j)" for j
    by (auto simp: turns_spent_def q_delete_contract_def filter_empty_conv
        intro!: arg_cong [where f = length] filter_cong)
  show "lifecycle d ?d"
    by (simp add: lifecycle_def cr ps list_all2_refl) (simp add: q_delete_contract_def)
  have "row_ok ?d x" if "x \<in> set (db_contracts ?d)" for x
    using that ok by (auto simp: contracts_ok_def row_ok_def ps ts) (auto simp: q_delete_contract_def)
  moreover have "keys_ok ?d"
    using ok unfolding contracts_ok_def keys_ok_def spent_def
    by (auto simp: q_delete_contract_def distinct_map_filter)
  ultimately show "contracts_ok ?d" by (simp add: contracts_ok_def)
qed

lemma holds_live_contracts_of: "valid orderly contracts_ok (live_contracts_of a) (\<lambda>_. contracts_ok)"
  unfolding live_contracts_of_def by (intro orderly.holds_rules holds_call) (simp_all add: orderly_refl)

lemma holds_invitee_over_capacity: "valid orderly contracts_ok (invitee_over_capacity as) (\<lambda>_. contracts_ok)"
  by (induction as) (auto intro!: orderly.holds_rules holds_live_contracts_of)

text \<open>The inserted row is there, with its proposer.\<close>

lemma valid_insert_contract:
  "valid orderly contracts_ok (call (shaped shape_single (q_insert_contract tt ti a terms u e)))
     (\<lambda>r d. contracts_ok d \<and> (\<forall>c. data_of r = Some c \<longrightarrow> rows_are (c_id c) (\<lambda>c'. c_proposer_id c' = a) d))"
proof (rule orderly.valid_call)
  fix d assume ok: "contracts_ok d"
  let ?q = "shaped shape_single (q_insert_contract tt ti a terms u e)"
  show "orderly d (snd (?q d)) \<and> contracts_ok (snd (?q d)) \<and>
      (\<forall>c. data_of (fst (?q d)) = Some c \<longrightarrow> rows_are (c_id c) (\<lambda>c'. c_proposer_id c' = a) (snd (?q d)))"
  proof (cases "turns_column ti (pt_max_turns terms)")
    case None
    with ok show ?thesis
      by (simp add: q_insert_contract_def shaped_def orderly_refl)
  next
    case (Some n)
    let ?i = "db_ids d (db_next d)"
    define c where "c = proposed_contract tt a terms n u e ?i (db_now d)"
    define d' where "d' = d\<lparr>db_next := Suc (db_next d), db_contracts := db_contracts d @ [c]\<rparr>"
    have c: "c_id c = ?i" "c_status c = SProposed" "c_current_turns c = 0" "c_proposer_id c = a"
      by (simp_all add: c_def proposed_contract_def)
    have f: "crows d ?i = []" by (rule fresh_contract(1) [OF ok])
    then have "\<forall>r\<in>set (db_contracts d). c_id c \<noteq> c_id r" using c(1) by (auto simp: crows_def filter_empty_conv)
    then have q: "?q d = (Inr c, d')"
      using Some by (simp add: q_insert_contract_def shaped_def with_fresh_def q_insert_def d'_def c_def
          shape_single_def)
    have o: "orderly d d'" unfolding d'_def by (rule orderly_insert_contract [OF c(1-3)])
    moreover from o ok have ok': "contracts_ok d'" by (simp add: orderly_def)
    moreover have "crows d' ?i = [c]" using f c(1) by (simp add: crows_def d'_def)
    then have "rows_are ?i (\<lambda>c'. c_proposer_id c' = a) d'"
      using ok' c(4) crows_spent [OF ok', of ?i] by (simp add: rows_are_def)
    ultimately show ?thesis using c(1) by (simp add: q)
  qed
qed (simp_all add: stable_contracts_ok)

lemma holds_delete_contract: "valid orderly contracts_ok (call (q_delete_contract i)) (\<lambda>_. contracts_ok)"
  by (rule holds_call) (rule orderly_delete_contract)

lemma proposal_inserted_holds:
  "valid orderly (rows_are (c_id c) (\<lambda>c'. c_proposer_id c' = ag_id (rq_agent req)))
     (proposal_inserted req terms xs ys c) (\<lambda>_. contracts_ok)"
proof -
  let ?P = "rows_are (c_id c) (\<lambda>c'. c_proposer_id c' = ag_id (rq_agent req))"
  have st: "stable orderly ?P" by (rule stable_rows_are) (simp add: evolves_def)
  have live: "valid orderly ?P (live_contracts_of a) (\<lambda>_. ?P)" for a
    unfolding live_contracts_of_def
    by (intro orderly.keeps_holds [OF _ st] orderly.keeps_rules orderly.keeps_read) simp_all
  have ins: "valid orderly ?P (call (q_insert_participants (c_id c)
      (proposed_participants (c_id c) (ag_id (rq_agent req)) xs ys now))) (\<lambda>_. contracts_ok)" for now
  proof (rule orderly.valid_call [OF st])
    fix d assume p: "?P d"
    let ?ps = "proposed_participants (c_id c) (ag_id (rq_agent req)) xs ys now"
    have "orderly d (snd (q_insert_participants (c_id c) ?ps d))"
      by (rule orderly_insert_participants [OF p]) (auto simp: proposed_participants_def Let_def)
    with p show "orderly d (snd (q_insert_participants (c_id c) ?ps d)) \<and>
        contracts_ok (snd (q_insert_participants (c_id c) ?ps d))"
      by (simp add: rows_are_def orderly_def)
  qed (simp add: rows_are_def)
  show ?thesis
    unfolding proposal_inserted_def
    by (intro orderly.valid_bind [OF live] orderly.valid_if rows_forget orderly.holds_rules holds_delete_contract
        orderly.valid_clock_bind orderly.valid_bind [OF ins] holds_helpers)
qed

lemma createContractProposal_holds:
  "valid orderly contracts_ok (createContractProposal tt ti req j u) (\<lambda>_. contracts_ok)"
proof -
  have allowed: "valid orderly contracts_ok (proposal_allowed tt ti req terms u e xs ys) (\<lambda>_. contracts_ok)"
    for terms e xs ys
  proof -
    have "valid orderly (\<lambda>d. contracts_ok d \<and>
        (\<forall>c. data_of r = Some c \<longrightarrow> rows_are (c_id c) (\<lambda>c'. c_proposer_id c' = ag_id (rq_agent req)) d))
      (case data_of r of
         None \<Rightarrow> State_Monad.return (Inl (proposal_fail 500 ''Failed to create contract'' ''DB_ERROR''))
       | Some contract \<Rightarrow> proposal_inserted req terms xs ys contract) (\<lambda>_. contracts_ok)" for r
      by (cases "data_of r") (auto intro!: orderly.valid_return valid_conseq [OF proposal_inserted_holds])
    note insert = orderly.valid_bind [OF valid_insert_contract this]
    show ?thesis
      unfolding proposal_allowed_def
      by (intro insert orderly.holds_rules holds_live_contracts_of holds_invitee_over_capacity)
  qed
  have pair: "valid orderly contracts_ok (case y of (xs, ys) \<Rightarrow> proposal_allowed tt ti req terms u e xs ys)
      (\<lambda>_. contracts_ok)" for y terms e
    by (cases y) (simp add: allowed)
  show ?thesis
    unfolding createContractProposal_def
    by (intro pair orderly.holds_rules holds_helpers holds_call) (simp_all add: orderly_refl)
qed

context contract_relation begin

lemma keeps_checkLinkPermission: "keeps R (checkLinkPermission p t a)"
  unfolding checkLinkPermission_def by (intro keeps_rules keeps_getProjectAccess keeps_read) simp

lemma keeps_checkContractLinkPermission: "keeps R (checkContractLinkPermission cs a)"
  unfolding checkContractLinkPermission_def participantRoles_def by (intro keeps_rules keeps_read) simp

lemma keeps_task_or_none:
  "keeps R m \<Longrightarrow> keeps R (case x of (Some p, Some t) \<Rightarrow> checkLinkPermission p t a | _ \<Rightarrow> m)"
  by (cases x; cases "fst x"; cases "snd x") (auto intro: keeps_checkLinkPermission)

lemma keeps_inherited: "keeps R (case (w, p) of (False, Some (pid, l)) \<Rightarrow> getLinkedTask pid | _ \<Rightarrow> State_Monad.return None)"
  by (cases w; cases p) (auto intro: keeps_return keeps_getLinkedTask)

lemma keeps_plan_permitted: "keeps R (plan_permitted req p t s)"
proof -
  have pred: "keeps R (case x of Some (pid, l) \<Rightarrow> checkContractLinkPermission [pid] a | None \<Rightarrow> State_Monad.return None)"
    for x :: "predecessor option" and a
    by (cases x) (auto intro: keeps_return keeps_checkContractLinkPermission)
  show ?thesis
    unfolding plan_permitted_def Let_def
    by (intro keeps_rules keeps_task_or_none pred keeps_inherited)
qed

lemma keeps_proposal_plan_of: "keeps R (proposal_plan_of tt req j)"
  unfolding proposal_plan_of_def Let_def by (intro keeps_rules keeps_plan_permitted)

lemma keeps_record_task_link: "keeps R (record_task_link req p i)"
  unfolding record_task_link_def linkContractToTask_def
  by (intro keeps_rules keeps_auditLog keeps_other) (simp add: q_insert_def)

lemma keeps_findLikelyPredecessors: "keeps R (findLikelyPredecessors c p ids)"
  unfolding findLikelyPredecessors_def by (intro keeps_rules keeps_read) (simp add: q_candidates_def)

end

text \<open>A relation that linking and unlinking contracts keeps.\<close>

locale link_relation = contract_relation +
  assumes linking: "keeps R (createContractLink f t l n b)"
    and unlinking: "keeps R (deleteContractLink f t l)"
begin

lemma keeps_record_predecessor: "keeps R (record_predecessor req p i)"
  unfolding record_predecessor_def
  by (cases "pl_predecessor p") (auto intro!: keeps_rules linking keeps_audit_contract)

lemma keeps_proposal_created: "keeps R (proposal_created tt en req k j plan pp)"
  unfolding proposal_created_def Let_def
  by (intro keeps_rules keeps_record_task_link keeps_record_predecessor keeps_enrichContract
      keeps_findLikelyPredecessors keeps_storeIdempotencyResponse)

end

lemma insert_link_contracts: "same_contracts d (snd (q_insert_link f t l n b d))"
  by (simp add: q_insert_link_def with_fresh_def Let_def q_insert_def)

interpretation orderly_links: link_relation orderly
proof
  show "keeps orderly (createContractLink f t l n b)" for f t l n b
    unfolding createContractLink_def
    by (intro orderly.keeps_rules orderly.keeps_call orderly_same insert_link_contracts)
  show "keeps orderly (deleteContractLink f t l)" for f t l
    unfolding deleteContractLink_def by (intro orderly.keeps_rules orderly.keeps_call orderly_same) simp
qed

lemma contracts_post_holds: "valid orderly contracts_ok (contracts_post tt ti en req) (\<lambda>_. contracts_ok)"
proof -
  have created: "valid orderly contracts_ok (case x of
      Inl (ProposalRefused r) \<Rightarrow> State_Monad.return (Refusal r)
    | Inl ProposalThrew \<Rightarrow> State_Monad.return (reply_error 500 ''Failed to create contract'' ''DB_ERROR'')
    | Inr pp \<Rightarrow> proposal_created tt en req key j plan pp) (\<lambda>_. contracts_ok)" for x key j plan
    by (auto intro!: orderly.valid_return orderly.keeps_holds [OF orderly_links.keeps_proposal_created stable_contracts_ok]
        split: sum.split proposal_error.split)
  have parsed: "valid orderly contracts_ok (contracts_post_parsed tt ti en req key j) (\<lambda>_. contracts_ok)" for key j
    unfolding contracts_post_parsed_def
    by (intro orderly.holds_rules createContractProposal_holds created
        orderly.keeps_holds [OF orderly.keeps_proposal_plan_of stable_contracts_ok])
  have body: "valid orderly contracts_ok (case rq_body req of
        Parsed j \<Rightarrow> contracts_post_parsed tt ti en req key j
      | _ \<Rightarrow> State_Monad.return (reply_error 400 ''Invalid JSON body'' ''INVALID_BODY'')) (\<lambda>_. contracts_ok)" for key
    by (cases "rq_body req") (auto intro: orderly.valid_return parsed)
  show ?thesis
    unfolding contracts_post_def with_key_def
    by (intro orderly.holds_rules holds_idempotency body
        orderly.keeps_holds [OF orderly.keeps_checkIdempotency stable_contracts_ok]
        orderly.keeps_holds [OF orderly.keeps_checkRateLimit stable_contracts_ok])
qed

end
