(* ===== verification/HandoffResume.thy ===== *)
theory HandoffResume
  imports TaskExecution Links
begin

text \<open>
  What accepting a contract does to the task behind it: claiming a delegated execution
  (\<open>src/lib/handoff-resume.ts\<close>, \<open>handoff-contracts.ts\<close>) and engaging a broker (the block of
  \<open>app/api/v1/contracts/[id]/accept/route.ts\<close> for the contracts of \<open>escalation-brokerage.ts\<close>).
\<close>

section \<open>Which contracts\<close>

text \<open>The middle dot is one code unit, 0xB7.\<close>

definition middle_dot :: string where
  "middle_dot = [CHR 0xB7]"

definition isLikelyHandoffContract :: "string \<Rightarrow> string option \<Rightarrow> bool" where
  "isLikelyHandoffContract title description \<longleftrightarrow>
     starts_with (to_lower title) (''handoff '' @ middle_dot) \<or>
     str_includes (to_lower (str_or description [])) ''## task handoff''"

definition isLikelyBrokerContract :: "string \<Rightarrow> string option \<Rightarrow> bool" where
  "isLikelyBrokerContract title description \<longleftrightarrow>
     starts_with (to_lower title) (''escalation '' @ middle_dot) \<or>
     str_includes (to_lower (str_or description [])) ''## task escalation'' \<or>
     str_includes (to_lower (str_or description [])) ''brokered collaboration''"

definition isHandoffClaimEligible :: "contract_row \<Rightarrow> bool prog" where
  "isHandoffClaimEligible contract =
     (if isLikelyHandoffContract (c_title contract) (c_description contract) then State_Monad.return True
      else do {
        members \<leftarrow> getDelegationMembers [c_id contract];
        State_Monad.return (c_id contract \<in> members)
      })"

text \<open>The task a contract is linked to: the first link, and the row its embed finds.\<close>

definition q_linked_task_row :: "string \<Rightarrow> task_row embed list statement" where
  "q_linked_task_row contractId = limited 1 (\<lambda>d.
     (Inr (map (\<lambda>l. embed_find (\<lambda>t. t_id t = tk_task_id l) (db_tasks d) id)
        (filter (\<lambda>l. tk_contract_id l = contractId) (db_task_contracts d))), d))"

definition getLinkedTaskForContract :: "string \<Rightarrow> task_row option prog" where
  "getLinkedTaskForContract contractId = do {
     r \<leftarrow> call (shaped shape_maybe (q_linked_task_row contractId));
     State_Monad.return (Option.bind (maybe_of r) embed_one)
   }"

section \<open>Claiming a handoff\<close>

record handoff_claim =
  hc_taskId :: string
  hc_projectId :: string
  hc_priorAssignee :: "string option"
  hc_previousRunId :: "string option"
  hc_resumedFrom :: "checkpoint_row option"
  hc_newRun :: run_row

definition q_insert_comments :: "comment_fields list \<Rightarrow> comment_row list statement" where
  "q_insert_comments rows d =
     (let new = map (\<lambda>(n, c). comment_fields.extend c (comment_row.fields (db_ids d (db_next d + n)) (db_now d)))
        (enumerate 0 rows)
      in q_insert db_comments db_comments_update (\<lambda>_ _. False) new (d\<lparr>db_next := db_next d + length rows\<rparr>))"

definition insert_comments :: "comment_fields list \<Rightarrow> unit prog" where
  "insert_comments rows = do {
     _ \<leftarrow> call (q_insert_comments rows);
     State_Monad.return ()
   }"

definition best_summary :: "checkpoint_row option \<Rightarrow> task_row \<Rightarrow> string option" where
  "best_summary latest task =
     (let s = Option.bind latest ck_summary
      in if truthy_str s then s
         else if truthy_str (ts_last_checkpoint_summary (t_snapshot task)) then ts_last_checkpoint_summary (t_snapshot task)
         else None)"

definition active_run :: "task_row \<Rightarrow> string option" where
  "active_run task = ts_active_run_id (t_snapshot task)"

definition opt_json :: "('a \<Rightarrow> string) \<Rightarrow> 'a option \<Rightarrow> json" where
  "opt_json f x = (case x of None \<Rightarrow> JNull | Some y \<Rightarrow> JStr (f y))"

fun exec_status_name :: "exec_status \<Rightarrow> string" where
  "exec_status_name EIdle = ''idle''"
| "exec_status_name EQueued = ''queued''"
| "exec_status_name ERunning = ''running''"
| "exec_status_name EPendingApproval = ''pending-approval''"
| "exec_status_name EWaiting = ''waiting''"
| "exec_status_name EBlocked = ''blocked''"
| "exec_status_name EPaused = ''paused''"
| "exec_status_name EHandoffNeeded = ''handoff-needed''"
| "exec_status_name ESucceeded = ''succeeded''"
| "exec_status_name EFailed = ''failed''"
| "exec_status_name ECancelled = ''cancelled''"

definition release_metadata :: "string \<Rightarrow> agent_row \<Rightarrow> json" where
  "release_metadata contractId accepter = JObj
     [(''handoff_contract_id'', JStr contractId), (''delegated_to_agent_id'', JStr (ag_id accepter)),
      (''delegated_to_agent_name'', JStr (ag_name accepter)),
      (''delegated_to_agent_display_name'', jstr_or_null (truthy_or_null (Some (ag_display_name accepter)))),
      (''delegation_reason'', JStr ''contract accepted''),
      (''delegation_claim_type'', JStr ''delegated-execution'')]"

definition claim_metadata :: "string \<Rightarrow> task_row \<Rightarrow> checkpoint_row option \<Rightarrow> timestamp \<Rightarrow> json" where
  "claim_metadata contractId task latest now = JObj
     [(''handoff_contract_id'', JStr contractId), (''delegation_contract_id'', JStr contractId),
      (''delegated_by_agent_id'', jstr_or_null (t_assignee_agent_id task)),
      (''delegated_by_run_id'', jstr_or_null (active_run task)),
      (''delegated_by_checkpoint_id'', opt_json ck_id latest),
      (''delegated_by_checkpoint_key'', opt_json ck_key latest),
      (''delegated_by_summary'', jstr_or_null (best_summary latest task)),
      (''delegated_at'', jint now),
      (''delegated_from_assignee_agent_id'', jstr_or_null (t_assignee_agent_id task)),
      (''delegated_from_execution_status'', JStr (exec_status_name (ts_execution_status (t_snapshot task)))),
      (''delegated_from_task_status'', jstr_or_null (t_status task)),
      (''resumed_from_run_id'', jstr_or_null (active_run task)),
      (''resumed_from_checkpoint_id'', opt_json ck_id latest),
      (''resumed_from_checkpoint_key'', opt_json ck_key latest),
      (''claimed_from_agent_id'', jstr_or_null (t_assignee_agent_id task)),
      (''claim_type'', JStr ''delegated-execution'')]"

definition nullish_summary :: "checkpoint_row option \<Rightarrow> task_row \<Rightarrow> string option" where
  "nullish_summary latest task =
     (case Option.bind latest ck_summary of Some s \<Rightarrow> Some s | None \<Rightarrow> ts_last_checkpoint_summary (t_snapshot task))"

definition claim_payload ::
  "string \<Rightarrow> string \<Rightarrow> task_row \<Rightarrow> checkpoint_row option \<Rightarrow> timestamp \<Rightarrow> json" where
  "claim_payload contractId accepterId task latest now = JObj
     [(''contract_id'', JStr contractId), (''delegation_contract_id'', JStr contractId),
      (''resumed_from_run_id'', jstr_or_null (active_run task)),
      (''resumed_from_checkpoint_id'', opt_json ck_id latest),
      (''resumed_from_checkpoint_key'', opt_json ck_key latest),
      (''resumed_from_summary'', jstr_or_null (nullish_summary latest task)),
      (''resumed_from_payload'', (case latest of Some c \<Rightarrow> ck_payload c
         | None \<Rightarrow> ts_last_checkpoint_payload (t_snapshot task))),
      (''prior_assignee_agent_id'', jstr_or_null (t_assignee_agent_id task)),
      (''delegated_by_agent_id'', jstr_or_null (t_assignee_agent_id task)),
      (''delegated_by_run_id'', jstr_or_null (active_run task)),
      (''delegated_by_checkpoint_id'', opt_json ck_id latest),
      (''delegated_by_checkpoint_key'', opt_json ck_key latest),
      (''delegated_by_summary'', jstr_or_null (nullish_summary latest task)),
      (''delegated_at'', jint now), (''claimed_by_agent_id'', JStr accepterId),
      (''claim_type'', JStr ''delegated-execution'')]"

definition claim_comments ::
  "string \<Rightarrow> agent_row \<Rightarrow> task_row \<Rightarrow> checkpoint_row option \<Rightarrow> run_row \<Rightarrow> comment_fields list" where
  "claim_comments contractId accepter task latest newRun =
     (let label = str_or (Some (ag_display_name accepter)) (ag_name accepter);
          comment = (\<lambda>text kind meta. \<lparr>cm_task_id = t_id task, cm_project_id = t_project_id task,
            cm_author_agent_id = Some (ag_id accepter), cm_author_name = label, cm_content = text,
            cm_comment_type = kind, cm_metadata = meta\<rparr>)
      in [comment (''Claimed delegated execution contract `'' @ contractId @
             ''` and became the active executor for this task.'') ''system''
            [(''handoff_contract_id'', JStr contractId), (''resumed_run_id'', JStr (r_id newRun)),
             (''resumed_from_run_id'', jstr_or_null (active_run task)),
             (''resumed_from_checkpoint_id'', opt_json ck_id latest)],
          comment (''Assigned to '' @ label @ '' as executor via delegated execution.'') ''assignment''
            [(''handoff_contract_id'', JStr contractId), (''delegation_contract_id'', JStr contractId),
             (''old_assignee'', jstr_or_null (t_assignee_agent_id task)), (''new_assignee'', JStr (ag_id accepter)),
             (''delegated_by_agent_id'', jstr_or_null (t_assignee_agent_id task)),
             (''executor_agent_id'', JStr (ag_id accepter))]])"

definition announce_claim ::
  "string \<Rightarrow> agent_row \<Rightarrow> task_row \<Rightarrow> checkpoint_row option \<Rightarrow> run_row \<Rightarrow> unit prog" where
  "announce_claim contractId accepter task latest newRun = do {
     insert_comments (claim_comments contractId accepter task latest newRun);
     _ \<leftarrow> appendTaskActivityEvent (t_project_id task) (t_id task) (Some (ag_id accepter)) None ''handoff_claimed''
       (''Claimed delegated execution from contract '' @ contractId)
       [(''handoff_contract_id'', JStr contractId), (''resumed_run_id'', JStr (r_id newRun)),
        (''resumed_from_run_id'', jstr_or_null (active_run task)),
        (''resumed_from_checkpoint_id'', opt_json ck_id latest)];
     _ \<leftarrow> appendTaskActivityEvent (t_project_id task) (t_id task) (Some (ag_id accepter)) None ''assignment''
       (''Assigned to '' @ str_or (Some (ag_display_name accepter)) (ag_name accepter) @
        '' as executor via delegated execution'')
       [(''old_assignee'', jstr_or_null (t_assignee_agent_id task)), (''new_assignee'', JStr (ag_id accepter)),
        (''handoff_contract_id'', JStr contractId)];
     State_Monad.return ()
   }"

text \<open>The previous executor's run, when there is one, is marked as handed off; a failure is ignored.\<close>

definition release_previous :: "string \<Rightarrow> agent_row \<Rightarrow> task_row \<Rightarrow> checkpoint_row option \<Rightarrow> unit prog" where
  "release_previous contractId accepter task latest =
     (if truthy_str (active_run task) \<and> truthy_str (t_assignee_agent_id task) \<and>
         t_assignee_agent_id task \<noteq> Some (ag_id accepter) then do {
        _ \<leftarrow> updateTaskExecutionRun (the (active_run task)) (t_id task)
          \<lparr>ru_status = Some RHandoffNeeded,
           ru_summary = Some (Some (str_or (best_summary latest task)
             (''Execution delegated to '' @ str_or (Some (ag_display_name accepter)) (ag_name accepter)))),
           ru_errorMessage = None, ru_metadata = Some (release_metadata contractId accepter), ru_heartbeat = False\<rparr>;
        State_Monad.return ()
      }
      else State_Monad.return ())"

definition assign_task :: "string \<Rightarrow> task_row \<Rightarrow> unit prog" where
  "assign_task agentId task = do {
     now \<leftarrow> clock;
     _ \<leftarrow> call (q_update db_tasks db_tasks_update (\<lambda>t. t_id t = t_id task \<and> t_project_id t = t_project_id task)
       (\<lambda>t. t\<lparr>t_assignee_agent_id := Some agentId, t_updated_at := now\<rparr>));
     State_Monad.return ()
   }"

definition claim_run ::
  "string \<Rightarrow> agent_row \<Rightarrow> task_row \<Rightarrow> checkpoint_row option \<Rightarrow> (task_error + handoff_claim option) prog" where
  "claim_run contractId accepter task latest = do {
     now \<leftarrow> clock;
     created \<leftarrow> createTaskExecutionRun (t_id task) (t_project_id task) (ag_id accepter) (Some RStarting) None
       (Some (str_or (best_summary latest task) (''Claimed handoff contract '' @ contractId))) None
       (claim_metadata contractId task latest now);
     case created of
       Inl e \<Rightarrow> State_Monad.return (Inl e)
     | Inr newRun \<Rightarrow> do {
         now' \<leftarrow> clock;
         appended \<leftarrow> appendTaskCheckpoint (r_id newRun) (t_id task) (t_project_id task) (ag_id accepter)
           ''delegated-execution-claimed'' (Some (Some (''Claimed delegated execution from contract '' @ contractId)))
           (claim_payload contractId (ag_id accepter) task latest now')
           (case latest of Some c \<Rightarrow> ck_attachment_ids c | None \<Rightarrow> []);
         case appended of
           Inl e \<Rightarrow> State_Monad.return (Inl e)
         | Inr _ \<Rightarrow> do {
             assign_task (ag_id accepter) task;
             announce_claim contractId accepter task latest newRun;
             State_Monad.return (Inr (Some
               \<lparr>hc_taskId = t_id task, hc_projectId = t_project_id task, hc_priorAssignee = t_assignee_agent_id task,
                hc_previousRunId = active_run task, hc_resumedFrom = latest, hc_newRun = newRun\<rparr>))
           }
       }
   }"

definition claimAcceptedHandoff :: "contract_row \<Rightarrow> agent_row \<Rightarrow> (task_error + handoff_claim option) prog" where
  "claimAcceptedHandoff contract accepter = do {
     eligible \<leftarrow> isHandoffClaimEligible contract;
     if \<not> eligible then State_Monad.return (Inr None)
     else do {
       found \<leftarrow> getLinkedTaskForContract (c_id contract);
       case found of
         None \<Rightarrow> State_Monad.return (Inr None)
       | Some task \<Rightarrow> do {
           latest \<leftarrow> (if truthy_str (active_run task) then do {
               r \<leftarrow> getLatestTaskCheckpoint (t_id task) (active_run task);
               State_Monad.return (case r of Inl _ \<Rightarrow> None | Inr c \<Rightarrow> c)
             }
             else State_Monad.return None);
           release_previous (c_id contract) accepter task latest;
           claim_run (c_id contract) accepter task latest
         }
     }
   }"

section \<open>Engaging a broker\<close>

definition broker_fields :: "string \<Rightarrow> string \<Rightarrow> timestamp \<Rightarrow> content" where
  "broker_fields contractId agentId now =
     [(''broker_agent_id'', JStr agentId), (''broker_assigned_at'', jint now),
      (''escalation_contract_id'', JStr contractId), (''broker_contract_id'', JStr contractId),
      (''collaboration_mode'', JStr ''brokered-collaboration''), (''escalation_status'', JStr ''broker-engaged'')]"

definition BROKER_SEQUENCE :: int where
  "BROKER_SEQUENCE = 999999"

definition broker_checkpoint ::
  "contract_row \<Rightarrow> agent_row \<Rightarrow> task_row \<Rightarrow> string \<Rightarrow> timestamp \<Rightarrow> timestamp \<Rightarrow> string \<Rightarrow> checkpoint_row" where
  "broker_checkpoint contract accepter task runId now created fresh =
     \<lparr>ck_id = fresh, ck_run_id = runId, ck_task_id = t_id task, ck_project_id = t_project_id task,
      ck_agent_id = ag_id accepter, ck_sequence = BROKER_SEQUENCE, ck_key = ''broker-engaged'',
      ck_summary = Some (''Broker '' @ str_or (Some (ag_display_name accepter)) (ag_name accepter) @
        '' accepted escalation contract '' @ c_id contract),
      ck_payload = JObj (broker_fields (c_id contract) (ag_id accepter) now @
        [(''broker_note'', JStr (str_or (c_description contract) (c_title contract)))]),
      ck_attachment_ids = [], ck_created_at = created\<rparr>"

definition engage_run :: "contract_row \<Rightarrow> agent_row \<Rightarrow> task_row \<Rightarrow> string \<Rightarrow> unit prog" where
  "engage_run contract accepter task activeRunId = do {
     loaded \<leftarrow> call (shaped shape_single (q_select db_runs (\<lambda>r. r_id r = activeRunId)));
     now \<leftarrow> clock;
     (case data_of loaded of
        None \<Rightarrow> State_Monad.return ()
      | Some row \<Rightarrow> do {
          _ \<leftarrow> call (q_update db_runs db_runs_update (\<lambda>r. r_id r = activeRunId)
            (\<lambda>r. r\<lparr>r_metadata := obj_spread (r_metadata row) (broker_fields (c_id contract) (ag_id accepter) now),
                   r_heartbeat_at := Some now, r_updated_at := now\<rparr>));
          State_Monad.return ()
        });
     now' \<leftarrow> clock;
     _ \<leftarrow> call (with_fresh (\<lambda>fresh d. q_insert db_checkpoints db_checkpoints_update same_checkpoint
       [broker_checkpoint contract accepter task activeRunId now' (db_now d) fresh] d));
     State_Monad.return ()
   }"

record broker_activation =
  ba_projectId :: string
  ba_taskId :: string
  ba_runId :: "string option"

definition broker_comment :: "string \<Rightarrow> agent_row \<Rightarrow> task_row \<Rightarrow> comment_fields" where
  "broker_comment contractId accepter task =
     \<lparr>cm_task_id = t_id task, cm_project_id = t_project_id task, cm_author_agent_id = Some (ag_id accepter),
      cm_author_name = str_or (Some (ag_display_name accepter)) (ag_name accepter),
      cm_content = ''Accepted escalation contract `'' @ contractId @
        ''` as broker/mediator. Execution ownership stays explicit while broker intervention proceeds.'',
      cm_comment_type = ''system'',
      cm_metadata = [(''escalation_contract_id'', JStr contractId), (''broker_agent_id'', JStr (ag_id accepter)),
        (''collaboration_mode'', JStr ''brokered-collaboration''), (''escalation_status'', JStr ''broker-engaged'')]\<rparr>"

definition engage_broker :: "contract_row \<Rightarrow> agent_row \<Rightarrow> broker_activation option prog" where
  "engage_broker contract accepter = do {
     linked \<leftarrow> getLinkedTaskForContract (c_id contract);
     case linked of
       None \<Rightarrow> State_Monad.return None
     | Some task \<Rightarrow>
         if t_id task = [] \<or> t_project_id task = [] then State_Monad.return None
         else do {
           (if truthy_str (active_run task) then engage_run contract accepter task (the (active_run task))
            else State_Monad.return ());
           insert_comments [broker_comment (c_id contract) accepter task];
           State_Monad.return (Some \<lparr>ba_projectId = t_project_id task, ba_taskId = t_id task, ba_runId = active_run task\<rparr>)
         }
   }"

end
