(* ===== verification/AcceptRoute.thy ===== *)
theory AcceptRoute
  imports ContractRoutes HandoffResume Succession
begin

text \<open>
  Accepting a contract (\<open>src/app/api/v1/contracts/[id]/accept/route.ts\<close>): the participant's answer, the
  activation when it was the last one missing, and what the activation does to the task and announces.
\<close>

section \<open>Model\<close>

text \<open>Who opens an activated contract: the turn state of the active contract before any message.\<close>

definition opens_next :: "contract_row \<Rightarrow> string \<Rightarrow> participant_row list \<Rightarrow> string option" where
  "opens_next contract viewer ps =
     ts_awaiting_agent_id (deriveContractTurnState (ts_contract_of (contract\<lparr>c_status := SActive\<rparr>)) viewer
       (map (\<lambda>p. \<lparr>tp_agent_id = p_agent_id p, tp_role = p_role p, tp_status = p_status p, tp_name = None\<rparr>) ps)
       None [])"

definition accepted_event ::
  "string \<Rightarrow> string \<Rightarrow> string list \<Rightarrow> string option \<Rightarrow> string option \<Rightarrow> handoff_claim option \<Rightarrow>
   broker_activation option \<Rightarrow> webhook_event" where
  "accepted_event contractId accepterName targets opensNext openerName claim broker =
     \<lparr>we_targets = targets, we_event = ''contract.accepted'', we_contract_id = Some contractId,
      we_project_id = map_option hc_projectId claim, we_task_id = map_option hc_taskId claim, we_sprint_id = None, we_approval_id = None,
      we_data = [(''status'', JStr ''active''), (''accepted_by'', JStr accepterName),
        (''opens_next_agent_id'', jstr_or_null opensNext), (''opens_next'', jstr_or_null openerName),
        (''next_action'', JStr (acceptedNextAction contractId openerName)),
        (''handoff_claimed'', JBool (claim \<noteq> None)), (''broker_engaged'', JBool (broker \<noteq> None)),
        (''resumed_run_id'', (case claim of Some c \<Rightarrow> JStr (r_id (hc_newRun c))
           | None \<Rightarrow> jstr_or_null (Option.bind broker ba_runId))),
        (''resumed_from_run_id'', jstr_or_null (Option.bind claim hc_previousRunId)),
        (''resumed_from_checkpoint_id'', opt_json ck_id (Option.bind claim hc_resumedFrom))]\<rparr>"

definition accept_details :: "bool \<Rightarrow> handoff_claim option \<Rightarrow> broker_activation option \<Rightarrow> content" where
  "accept_details activated claim broker =
     [(''activated'', JBool activated), (''handoff_claimed'', JBool (claim \<noteq> None)),
      (''broker_engaged'', JBool (broker \<noteq> None)),
      (''task_id'', (case claim of Some c \<Rightarrow> JStr (hc_taskId c) | None \<Rightarrow> opt_json ba_taskId broker)),
      (''resumed_run_id'', (case claim of Some c \<Rightarrow> JStr (r_id (hc_newRun c))
         | None \<Rightarrow> jstr_or_null (Option.bind broker ba_runId))),
      (''resumed_from_run_id'', jstr_or_null (Option.bind claim hc_previousRunId))]"

definition announce_activation ::
  "request \<Rightarrow> string \<Rightarrow> contract_row \<Rightarrow> handoff_claim option \<Rightarrow> broker_activation option \<Rightarrow> unit prog" where
  "announce_activation req contractId contract claim broker = do {
     all_ps \<leftarrow> call (q_select db_participants (\<lambda>p. p_contract_id p = contractId));
     let opensNext = opens_next contract (ag_id (rq_agent req)) (rows_of all_ps);
     opener \<leftarrow> (if truthy_str opensNext then do {
         r \<leftarrow> call (shaped shape_maybe (q_select db_agents (\<lambda>a. ag_id a = the opensNext)));
         State_Monad.return (map_option ag_name (maybe_of r))
       }
       else State_Monad.return None);
     deliver (accepted_event contractId (ag_name (rq_agent req)) (map p_agent_id (rows_of all_ps)) opensNext opener
       claim broker)
   }"

text \<open>
  The task of an activated contract: a broker contract engages the broker, any other one may claim a
  handoff, whose failure is ignored.
\<close>

definition activate_task ::
  "request \<Rightarrow> contract_row \<Rightarrow> (handoff_claim option \<times> broker_activation option) prog" where
  "activate_task req checked =
     (if isLikelyBrokerContract (c_title checked) (c_description checked) then do {
        broker \<leftarrow> engage_broker checked (rq_agent req);
        State_Monad.return (None, broker)
      }
      else do {
        r \<leftarrow> claimAcceptedHandoff checked (rq_agent req);
        State_Monad.return (case r of Inl _ \<Rightarrow> None | Inr claim \<Rightarrow> claim, None)
      })"

definition accept_recorded :: "request \<Rightarrow> string \<Rightarrow> contract_row \<Rightarrow> contract_row \<Rightarrow> contract_response response prog" where
  "accept_recorded req contractId contract checked = do {
     activated \<leftarrow> activateIfAllAccepted contractId;
     engaged \<leftarrow> (if activated then do {
         e \<leftarrow> activate_task req checked;
         announce_activation req contractId contract (fst e) (snd e);
         State_Monad.return e
       }
       else State_Monad.return (None, None));
     audit_contract req ''contract.accept'' contractId (accept_details activated (fst engaged) (snd engaged));
     answer_contract req contractId
   }"

definition accept_post :: "request \<Rightarrow> string \<Rightarrow> contract_response response prog" where
  "accept_post req contractId = acting_on req contractId AAccept (\<lambda>contract. do {
     checked \<leftarrow> autoCloseIfExpired contract;
     if c_status checked \<noteq> SProposed then State_Monad.return (invalid_state checked '', cannot accept'')
     else do {
       updatedParticipant \<leftarrow> respond contractId (ag_id (rq_agent req)) PAccepted;
       case updatedParticipant of
         None \<Rightarrow> State_Monad.return
           (reply_error 409 ''Already responded to this contract'' ''ALREADY_RESPONDED'')
       | Some _ \<Rightarrow> accept_recorded req contractId contract checked
     }
   })"

section \<open>Lemmas\<close>

context contract_relation begin

lemma keeps_getDelegationMembers: "keeps R (getDelegationMembers ids)"
  unfolding getDelegationMembers_def by (intro keeps_rules keeps_read) simp

lemma keeps_sync: "keeps R (syncTaskExecutionSnapshot t s)"
  unfolding syncTaskExecutionSnapshot_def by (intro keeps_rules keeps_other) simp

lemma keeps_getLatestTaskCheckpoint: "keeps R (getLatestTaskCheckpoint t r)"
  unfolding getLatestTaskCheckpoint_def selectTaskExecutionCheckpoints_def
  by (intro keeps_rules keeps_read) simp_all

lemma keeps_with_fresh:
  "(\<And>f d. same_tracked d (snd (q f d))) \<Longrightarrow> keeps R (call (with_fresh q))"
  by (rule keeps_other, rule same_with_fresh)

lemma keeps_shaped_fresh:
  "(\<And>f d. same_tracked d (snd (q f d))) \<Longrightarrow> keeps R (call (shaped sh (with_fresh q)))"
  by (rule keeps_other, simp only: snd_shaped, rule same_with_fresh)

lemma keeps_createTaskExecutionRun: "keeps R (createTaskExecutionRun t p a s n x e m)"
  unfolding createTaskExecutionRun_def Let_def
  by (intro keeps_rules keeps_shaped_fresh keeps_sync) (simp add: q_insert_def)

lemma keeps_updateTaskExecutionRun: "keeps R (updateTaskExecutionRun r t u)"
  unfolding updateTaskExecutionRun_def
  by (intro keeps_rules keeps_getLatestTaskCheckpoint keeps_sync keeps_other) simp_all

lemma append_other_tables: "same_tracked d (snd (append_task_checkpoint_atomic r t p a k s b x i d))"
  by (simp add: append_task_checkpoint_atomic_def with_fresh_def Let_def split: option.splits)

lemma keeps_append_result:
  "(\<And>e m. x = AppendRefused e m \<Longrightarrow> keeps R (f e m)) \<Longrightarrow> (\<And>c. x = Appended c \<Longrightarrow> keeps R (g c)) \<Longrightarrow>
   keeps R (case x of AppendRefused e m \<Rightarrow> f e m | Appended c \<Rightarrow> g c)"
  by (cases x) simp_all

lemma keeps_appendTaskCheckpoint: "keeps R (appendTaskCheckpoint r t p a k s x i)"
  unfolding appendTaskCheckpoint_def
  by (intro keeps_rules keeps_append_result keeps_read keeps_sync keeps_other append_other_tables) simp

lemma keeps_appendTaskActivityEvent: "keeps R (appendTaskActivityEvent p t a u e s m)"
  unfolding appendTaskActivityEvent_def by (intro keeps_rules keeps_other) (simp add: q_insert_def)

lemma keeps_insert_comments: "keeps R (insert_comments rows)"
  unfolding insert_comments_def by (intro keeps_rules keeps_other) (simp add: q_insert_comments_def q_insert_def Let_def)

lemma keeps_getLinkedTaskForContract: "keeps R (getLinkedTaskForContract c)"
  unfolding getLinkedTaskForContract_def
  by (intro keeps_rules keeps_read) (simp add: q_linked_task_row_def limited_def)

lemmas keeps_tasks = keeps_getDelegationMembers keeps_getLatestTaskCheckpoint keeps_createTaskExecutionRun
  keeps_updateTaskExecutionRun keeps_appendTaskCheckpoint keeps_appendTaskActivityEvent keeps_insert_comments
  keeps_getLinkedTaskForContract

lemma keeps_claimAcceptedHandoff: "keeps R (claimAcceptedHandoff c a)"
  unfolding claimAcceptedHandoff_def isHandoffClaimEligible_def release_previous_def claim_run_def
    assign_task_def announce_claim_def
  by (intro keeps_rules keeps_tasks keeps_other) simp

lemma keeps_engage_broker: "keeps R (engage_broker c a)"
  unfolding engage_broker_def engage_run_def
  by (intro keeps_rules keeps_tasks keeps_read keeps_other keeps_with_fresh) (simp_all add: q_insert_def)

lemma keeps_activate_task: "keeps R (activate_task req c)"
  unfolding activate_task_def
  by (intro keeps_rules keeps_engage_broker keeps_claimAcceptedHandoff)

lemma keeps_announce_activation: "keeps R (announce_activation req i c x y)"
  unfolding announce_activation_def Let_def by (intro keeps_rules keeps_read) simp_all

end

lemma accept_post_holds: "valid orderly contracts_ok (accept_post req i) (\<lambda>_. contracts_ok)"
  unfolding accept_post_def accept_recorded_def
  by (intro holds_acting_on rows_forget orderly.holds_rules holds_helpers holds_respond holds_answer_contract
      orderly.keeps_holds [OF orderly.keeps_activate_task stable_contracts_ok]
      orderly.keeps_holds [OF orderly.keeps_announce_activation stable_contracts_ok]) simp

end
