(* ===== verification/SchemaValidator.thy ===== *)
theory SchemaValidator
  imports JsonText
begin

text \<open>
  A contract's message schema (\<open>src/lib/schema-validator.ts\<close>): the stored descriptor becomes a schema of
  the validation library, which then judges the content. The library is not part of the repository: a
  schema is the term built with its constructors, and \<open>safeParse\<close>, which returns the issues it finds
  (their paths and messages; none means success), is a parameter.
\<close>

datatype zod =
    ZString | ZNumber | ZBoolean | ZUnknown
  | ZEnum "json list"
  | ZArray zod
  | ZRecord
  | ZObject "(string \<times> zod) list"
  | ZOptional zod

text \<open>\<open>descriptor.type\<close> throws on \<open>null\<close>.\<close>

definition descriptor_type :: "json \<Rightarrow> string + jvalue" where
  "descriptor_type d =
     (if d = JNull then Inl ''Cannot read properties of null (reading 'type')''
      else Inr (jprop (Some d) ''type''))"

definition build_enum :: "jvalue \<Rightarrow> string + zod" where
  "build_enum values =
     (case values of
        Some (JArr (v # vs)) \<Rightarrow> Inr (ZEnum (v # vs))
      | _ \<Rightarrow> Inl ''Enum schema requires a non-empty \"values\" array'')"

definition unsupported :: "jvalue \<Rightarrow> string + zod" where
  "unsupported t = Inl (''Unsupported schema type: '' @ js_string_of t)"

lemma size_jprop: "jprop (Some d) k = Some j \<Longrightarrow> size j < size d"
proof (cases d)
  case (JObj kvs)
  assume "jprop (Some d) k = Some j"
  with JObj have "(k, j) \<in> set kvs" by (simp add: map_of_SomeD)
  then have "size j \<le> size_list (size_prod (\<lambda>_. 0) size) kvs"
    by (induction kvs) auto
  with JObj show ?thesis by simp
qed simp_all

definition entries_size :: "(string \<times> json) list \<Rightarrow> nat" where
  "entries_size ps = sum_list (map (\<lambda>(_, j). Suc (size j)) ps)"

lemma entries_size_object:
  assumes "\<forall>t. d \<noteq> JStr t" "object_entries d \<noteq> []"
  shows "entries_size (object_entries d) < size d"
proof (cases d)
  case (JObj kvs)
  have "entries_size kvs \<le> size_list (size_prod (\<lambda>_. 0) size) kvs"
    by (induction kvs) (auto simp: entries_size_def)
  with JObj show ?thesis by (simp add: object_entries_def)
next
  case (JArr xs)
  have "entries_size (map (\<lambda>(i, x). (show_nat i, x)) (enumerate n xs)) \<le> size_list size xs" for n
    by (induction xs arbitrary: n) (auto simp: entries_size_def)
  with JArr show ?thesis by (simp add: object_entries_def le_imp_less_Suc)
qed (use assms in \<open>simp_all add: object_entries_def\<close>)

definition is_type :: "jvalue \<Rightarrow> string \<Rightarrow> bool" where
  "is_type t name \<longleftrightarrow> t = Some (JStr name)"

text \<open>
  The schema of a descriptor, and of a list of properties in their order. Properties given as a
  non-empty text are its code units, none of which has a type.
\<close>

function (sequential) buildZodSchema :: "json \<Rightarrow> string + zod"
  and build_shape :: "(string \<times> json) list \<Rightarrow> string + (string \<times> zod) list" where
  "buildZodSchema d =
     (case descriptor_type d of
        Inl e \<Rightarrow> Inl e
      | Inr t \<Rightarrow>
          if is_type t ''string'' then Inr ZString
          else if is_type t ''number'' then Inr ZNumber
          else if is_type t ''boolean'' then Inr ZBoolean
          else if is_type t ''enum'' then build_enum (jprop (Some d) ''values'')
          else if is_type t ''array'' then
            (case jprop (Some d) ''items'' of
               None \<Rightarrow> Inr (ZArray ZUnknown)
             | Some items \<Rightarrow>
                 if falsy (Some items) then Inr (ZArray ZUnknown) else map_sum id ZArray (buildZodSchema items))
          else if is_type t ''object'' then
            (case jprop (Some d) ''properties'' of
               None \<Rightarrow> Inr ZRecord
             | Some props \<Rightarrow>
                 if falsy (Some props) \<or> object_entries props = [] then Inr ZRecord
                 else if as_string (Some props) \<noteq> None then unsupported None
                 else map_sum id ZObject (build_shape (object_entries props)))
          else unsupported t)"
| "build_shape [] = Inr []"
| "build_shape ((key, d) # rest) =
     (case buildZodSchema d of
        Inl e \<Rightarrow> Inl e
      | Inr z \<Rightarrow>
          (let field = (if falsy (jprop (Some d) ''optional'') then z else ZOptional z)
           in map_sum id (\<lambda>shape. (key, field) # shape) (build_shape rest)))"
  by pat_completeness auto

lemma json_size_props:
  assumes "jprop (Some d) k = Some props" "\<nexists>s. props = JStr s" "object_entries props \<noteq> []"
  shows "entries_size (object_entries props) < size d"
  using size_jprop [OF assms(1)] entries_size_object [of props] assms(2,3) by auto

termination buildZodSchema
proof (relation "measure (\<lambda>x. case x of Inl d \<Rightarrow> Suc (size d) | Inr ps \<Rightarrow> Suc (entries_size ps))", goal_cases)
  case 1
  then show ?case by simp
qed (auto simp: entries_size_def dest: size_jprop json_size_props)

text \<open>
  \<open>validateContent\<close>: \<open>None\<close> is success, otherwise the error and its issues. \<open>safeParse\<close> gives a path and a
  message for every issue.
\<close>

definition issue_field :: "string list \<Rightarrow> string" where
  "issue_field path = (if length path > 0 then join ''.'' path else ''root'')"

definition validateContent ::
  "(zod \<Rightarrow> json \<Rightarrow> (string list \<times> string) list) \<Rightarrow> jvalue \<Rightarrow> json \<Rightarrow> (string \<times> (string \<times> string) list) option" where
  "validateContent safeParse schemaJson body =
     (if \<not> is_object schemaJson \<or> falsy (jprop schemaJson ''type'') then
        Some (''Invalid schema descriptor: missing \"type\" field'', [(''schema'', ''missing \"type\" field'')])
      else case buildZodSchema (the schemaJson) of
        Inl message \<Rightarrow> Some (''Schema error: '' @ message, [(''schema'', message)])
      | Inr schema \<Rightarrow>
          (case safeParse schema body of
             [] \<Rightarrow> None
           | found \<Rightarrow>
               let issues = map (\<lambda>(path, message). (issue_field path, message)) found
               in Some (''Schema validation failed: '' @
                    join ''; '' (map (\<lambda>(field, message). ''at \"'' @ field @ ''\": '' @ message) issues), issues)))"

end
