(* ===== verification/MessageRoute.thy ===== *)
theory MessageRoute
  imports ContractRoutes RequestGuards Succession SchemaValidator
begin

text \<open>
  Sending a message (\<open>src/app/api/v1/contracts/[id]/messages/route.ts\<close>): the checks in their order, the
  atomic insert (with the question it may hand to a person, \<open>insertMessageWithQuestion\<close>), and what is
  announced. The hint that a message names a person without asking one decorates the answer and is not
  modelled.

  Two parameters: \<open>safeParse\<close> of the validation library, and \<open>to_bool\<close>, what the database makes of a value
  that is no boolean where it expects one (\<open>None\<close>: it rejects it).
\<close>

section \<open>The message and its question\<close>

text \<open>
  One transaction: the message and its question are stored together, or a refusal of the insert is
  passed on and nothing is.
\<close>

definition insert_message_question ::
  "string \<Rightarrow> string \<Rightarrow> message_type \<Rightarrow> content \<Rightarrow> bool \<Rightarrow> validated_question \<Rightarrow> (rpc_result \<times> string option) statement" where
  "insert_message_question contractId senderId messageType body approves question d =
     (case insert_message_atomic contractId senderId messageType body approves (Some False) d of
        (Inl e, _) \<Rightarrow> (Inl e, d)
      | (Inr (RpcError c m), _) \<Rightarrow> (Inr (RpcError c m, None), d)
      | (Inr (RpcOk ok), d1) \<Rightarrow>
          (let qid = db_ids d1 (db_next d1)
           in (Inr (RpcOk ok, Some qid),
               d1\<lparr>db_questions := db_questions d1 @
                    [new_question qid contractId senderId question (Some (ro_message_id ok)) (db_now d1)],
                  db_next := Suc (db_next d1)\<rparr>)))"

definition insertMessageWithQuestion ::
  "string \<Rightarrow> string \<Rightarrow> message_type \<Rightarrow> content \<Rightarrow> bool \<Rightarrow> validated_question \<Rightarrow>
   (refusal + rpc_result \<times> string option) prog" where
  "insertMessageWithQuestion contractId senderId messageType body approves question = do {
     r \<leftarrow> call (insert_message_question contractId senderId messageType body approves question);
     State_Monad.return (case r of
        Inr x \<Rightarrow> Inr x
      | Inl e \<Rightarrow>
          if de_code e = ''42703'' then Inl (refuse 500
            ''needs_human is not available yet: contract_questions.message_id is missing. Apply migrations/20260923120000_contract_question_message_link.sql. Nothing was sent; send without needs_human and use holloway ask meanwhile.''
            ''MIGRATION_MISSING'')
          else Inl (refuse_d 500 ''Could not send the message and open the question. Nothing was sent.''
            ''DB_ERROR'' (Some (de_message e))))
   }"

section \<open>The request\<close>

definition VALID_MESSAGE_TYPES :: "message_type list" where
  "VALID_MESSAGE_TYPES = [MMessage, MRequest, MResponse, MUpdate, MStatus, MReceipt, MApproval]"

definition message_type_of :: "jvalue \<Rightarrow> message_type option" where
  "message_type_of v =
     (if falsy v then Some MMessage
      else Option.bind (as_string v) (\<lambda>s. find (\<lambda>t. message_type_name t = s) VALID_MESSAGE_TYPES))"

text \<open>Values that say something, and keys that are more than the envelope.\<close>

definition meaningful :: "json \<Rightarrow> bool" where
  "meaningful v \<longleftrightarrow> v \<noteq> JNull \<and> (case v of JStr s \<Rightarrow> js_trim s \<noteq> [] | _ \<Rightarrow> True)"

definition substantiveKeys :: "content \<Rightarrow> string list" where
  "substantiveKeys body =
     filter (\<lambda>k. k \<noteq> ''from'' \<and> k \<noteq> ''type'') (map fst (filter (\<lambda>(_, v). meaningful v) body))"

record send_request =
  sr_content :: content
  sr_type :: message_type
  sr_needs_human :: jvalue
  sr_requires_action :: jvalue

definition parse_send :: "json \<Rightarrow> refusal + send_request" where
  "parse_send parsed =
     (case jprop (Some parsed) ''content'' of
        Some (JObj body) \<Rightarrow>
          if substantiveKeys body = [] then
            Inl (refuse 400 (''Message content is empty '' @ em_dash @
              '' must include substantive data beyond just \"from\" and \"type\"'') ''EMPTY_MESSAGE'')
          else (case message_type_of (jprop (Some parsed) ''message_type'') of
             None \<Rightarrow> Inl (refuse 400 (''Invalid message_type. Must be one of: '' @
               join '', '' (map message_type_name VALID_MESSAGE_TYPES)) ''VALIDATION_ERROR'')
           | Some t \<Rightarrow> Inr \<lparr>sr_content = body, sr_type = t, sr_needs_human = jprop (Some parsed) ''needs_human'',
               sr_requires_action = jprop (Some parsed) ''requires_action''\<rparr>)
      | _ \<Rightarrow> Inl (refuse 400 ''Missing required field: content (must be an object)'' ''VALIDATION_ERROR''))"

text \<open>The question of \<open>needs_human\<close>: validated before anything is written.\<close>

definition needs_human_of :: "send_request \<Rightarrow> string \<Rightarrow> string \<Rightarrow> (refusal + validated_question option) prog" where
  "needs_human_of m contractId agentId =
     (if is_nullish (sr_needs_human m) then State_Monad.return (Inr None)
      else case validateNeedsHuman (sr_needs_human m) of
        Inl r \<Rightarrow> State_Monad.return (Inl r)
      | Inr q \<Rightarrow>
          if sr_type m = MRequest then State_Monad.return (Inl (refuse 400
            ''needs_human cannot be sent on a request: a request always asks your peer for a reply, and needs_human says the move is a person's. Send it as message_type \"message\" or \"update\". Nothing was sent and no turn was spent.''
            ''VALIDATION_ERROR''))
          else do {
            refusal \<leftarrow> checkChannelWriteAccess contractId agentId;
            State_Monad.return (case refusal of Some r \<Rightarrow> Inl r | None \<Rightarrow> Inr (Some q))
          })"

text \<open>
  The reply the message asks for. A boolean, or nothing, is decided by \<open>resolveRequiresAction\<close>; another
  value is passed through to the database.
\<close>

definition requested_action :: "message_type \<Rightarrow> jvalue \<Rightarrow> json" where
  "requested_action t v =
     (if consumesTurn t \<and> t \<noteq> MRequest \<and> \<not> is_nullish v \<and> as_bool v = None then the v
      else JBool (resolveRequiresAction t (as_bool v)))"

definition sends_action :: "send_request \<Rightarrow> validated_question option \<Rightarrow> json" where
  "sends_action m needs =
     (if needs \<noteq> None then JBool False else requested_action (sr_type m) (sr_requires_action m))"

text \<open>The checks on the content against its type and the contract, in the order of the route.\<close>

definition control_error :: "send_request \<Rightarrow> string option" where
  "control_error m =
     (if sr_type m = MReceipt then validateReceiptContent (sr_content m)
      else if sr_type m = MApproval then validateCompletionApprovalContent (sr_content m)
      else None)"

definition schema_refusal ::
  "(zod \<Rightarrow> json \<Rightarrow> (string list \<times> string) list) \<Rightarrow> contract_row \<Rightarrow> send_request \<Rightarrow> refusal option" where
  "schema_refusal safeParse c m =
     (if falsy (c_message_schema c) \<or> \<not> consumesTurn (sr_type m) then None
      else case validateContent safeParse (c_message_schema c) (JObj (sr_content m)) of
        None \<Rightarrow> None
      | Some (err, issues) \<Rightarrow> Some \<lparr>rf_status = 400, rf_body = \<lparr>ae_error = err, ae_code = ''SCHEMA_VALIDATION_ERROR'',
          ae_details = Some (DetailIssues issues)\<rparr>\<rparr>)"

definition send_refusal ::
  "(zod \<Rightarrow> json \<Rightarrow> (string list \<times> string) list) \<Rightarrow> contract_row \<Rightarrow> string \<Rightarrow> send_request \<Rightarrow> refusal option" where
  "send_refusal safeParse c agentId m =
     (case control_error m of
        Some e \<Rightarrow> Some (refuse 400 e ''VALIDATION_ERROR'')
      | None \<Rightarrow>
          (case (if consumesTurn (sr_type m) then validateMessageStructure (sr_content m) else None) of
             Some r \<Rightarrow> Some r
           | None \<Rightarrow>
               if consumesTurn (sr_type m) \<and> c_current_turns c \<ge> c_max_turns c then
                 Some (refuse 409 ''Max turns reached'' ''MAX_TURNS'')
               else if sr_type m = MApproval \<and> agentId \<noteq> c_proposer_id c then
                 Some (refuse 403 ''Only the contract proposer can approve completion'' ''FORBIDDEN'')
               else schema_refusal safeParse c m))"

section \<open>Sending\<close>

text \<open>The insert, with its question when there is one.\<close>

definition store_message ::
  "(json \<Rightarrow> bool option) \<Rightarrow> string \<Rightarrow> string \<Rightarrow> send_request \<Rightarrow> validated_question option \<Rightarrow>
   (refusal + rpc_result \<times> string option) prog" where
  "store_message to_bool contractId agentId m needs =
     (case needs of
        Some q \<Rightarrow> insertMessageWithQuestion contractId agentId (sr_type m) (sr_content m) (sr_type m = MApproval) q
      | None \<Rightarrow> do {
          r \<leftarrow> call (case sends_action m needs of
              JBool b \<Rightarrow> insert_message_atomic contractId agentId (sr_type m) (sr_content m) (sr_type m = MApproval) (Some b)
            | j \<Rightarrow> (case to_bool j of
                Some b \<Rightarrow> insert_message_atomic contractId agentId (sr_type m) (sr_content m) (sr_type m = MApproval) (Some b)
              | None \<Rightarrow> (\<lambda>d. (Inl \<lparr>de_code = ''22P02'', de_message = ''invalid input syntax for type boolean''\<rparr>, d))));
          State_Monad.return (case r of
             Inl _ \<Rightarrow> Inl (refuse 500 ''Failed to send message'' ''DB_ERROR'')
           | Inr x \<Rightarrow> Inr (x, None))
        })"

definition rpc_status :: "string \<Rightarrow> nat" where
  "rpc_status code =
     (if code = ''CONTRACT_NOT_FOUND'' then 404
      else if code = ''INVALID_STATE'' \<or> code = ''MAX_TURNS'' then 409
      else if code = ''FORBIDDEN'' then 403 else 500)"

fun attention_name :: "attention \<Rightarrow> string" where
  "attention_name (AttSignal SigPendingApproval) = ''pending-approval''"
| "attention_name (AttSignal SigWaiting) = ''waiting''"
| "attention_name (AttSignal SigBlocked) = ''blocked''"
| "attention_name (AttSignal SigCompleted) = ''completed''"
| "attention_name AttActionRequired = ''action-required''"
| "attention_name AttInformational = ''informational''"
| "attention_name AttReceipt = ''receipt''"

definition message_event ::
  "request \<Rightarrow> string \<Rightarrow> string list \<Rightarrow> send_request \<Rightarrow> json \<Rightarrow> rpc_ok \<Rightarrow> string option \<Rightarrow> webhook_event" where
  "message_event req contractId recipientIds m action ok questionId =
     (let signals = extractSignals (sr_content m);
          attention = resolvePrimaryAttention (sr_type m) signals (\<not> falsy (Some action))
      in contract_event recipientIds ''message'' contractId
        ([(''message_id'', JStr (ro_message_id ok)), (''sender'', JStr (ag_name (rq_agent req))),
          (''message_type'', JStr (message_type_name (sr_type m))), (''turn'', jint (ro_new_turns ok)),
          (''turns_remaining'', jint (max 0 (ro_max_turns ok - ro_new_turns ok))),
          (''max_turns'', jint (ro_max_turns ok)), (''consumes_turn'', JBool (ro_consumes_turn ok)),
          (''requires_action'', JBool (ro_requires_action ok)), (''turn_number'', jint (ro_turn_number ok)),
          (''attention'', JStr (attention_name attention)),
          (''attention_signals'', JArr (map (\<lambda>s. JStr (attention_name (AttSignal s))) signals)),
          (''async_completion'', JBool (SigCompleted \<in> set signals)),
          (''awaiting_completion_approval'', JBool (ro_awaiting_completion_approval ok))] @
         (case questionId of
            None \<Rightarrow> []
          | Some q \<Rightarrow> [(''question_id'', JStr q), (''needs_human'', JBool True)])))"

text \<open>Whether the insert closed the contract, and the notice of it.\<close>

definition closed_by_turns :: "send_request \<Rightarrow> rpc_ok \<Rightarrow> bool" where
  "closed_by_turns m ok \<longleftrightarrow>
     ro_max_reached ok \<and> \<not> ro_awaiting_completion_approval ok \<and> consumesTurn (sr_type m)"

definition message_closure :: "string \<Rightarrow> rpc_ok \<Rightarrow> closure_notice" where
  "message_closure contractId ok =
     \<lparr>cn_contractId = contractId, cn_excludeAgentId = None, cn_status = SClosed,
      cn_closedBy = Some (if ro_completed ok then ''system:completion-approved'' else ''system:max-turns''),
      cn_closedByKind = Some BySystem,
      cn_reason = Some (if ro_completed ok then ''Completed with proposer approval'' else ''Max turns reached''),
      cn_currentTurns = Some (ro_new_turns ok), cn_maxTurns = Some (ro_max_turns ok),
      cn_completionApprovedAt = ro_completion_approved_at ok, cn_closedWithoutApproval = None\<rparr>"

record message_response =
  mr_id :: string
  mr_contract_id :: string
  mr_sender :: agent_brief
  mr_type :: message_type
  mr_content :: content
  mr_created_at :: timestamp
  mr_turn_number :: int
  mr_turns_remaining :: int
  mr_consumes_turn :: bool
  mr_requires_action :: bool
  mr_completion_approved_at :: "timestamp option"
  mr_question_id :: "string option"
  mr_next_steps :: "string list option"

definition turns_left :: "rpc_ok \<Rightarrow> int" where
  "turns_left ok = max 0 (ro_max_turns ok - ro_new_turns ok)"

definition message_answer ::
  "request \<Rightarrow> string \<Rightarrow> contract_row \<Rightarrow> send_request \<Rightarrow> rpc_ok \<Rightarrow> string option \<Rightarrow> message_response" where
  "message_answer req contractId checked m ok questionId =
     (let approvedAt = (case ro_completion_approved_at ok of Some t \<Rightarrow> Some t | None \<Rightarrow> c_completion_approved_at checked)
      in \<lparr>mr_id = ro_message_id ok, mr_contract_id = contractId, mr_sender = brief (rq_agent req),
          mr_type = sr_type m, mr_content = sr_content m, mr_created_at = ro_message_created_at ok,
          mr_turn_number = ro_new_turns ok, mr_turns_remaining = turns_left ok,
          mr_consumes_turn = ro_consumes_turn ok, mr_requires_action = ro_requires_action ok,
          mr_completion_approved_at = ro_completion_approved_at ok, mr_question_id = questionId,
          mr_next_steps = (if turns_left ok = 0 then
              Some (budgetExhaustedNextSteps contractId (ag_id (rq_agent req) = c_proposer_id checked)
                (c_completion_requires_approval checked \<and> approvedAt = None)
                (ro_completed ok \<or> closed_by_turns m ok \<and> approvedAt \<noteq> None))
            else None)\<rparr>)"

definition message_json :: "message_response \<Rightarrow> json" where
  "message_json r = JObj
     ([(''id'', JStr (mr_id r)), (''contract_id'', JStr (mr_contract_id r)), (''sender_id'', JStr (ab_id (mr_sender r))),
       (''message_type'', JStr (message_type_name (mr_type r))), (''content'', JObj (mr_content r)),
       (''created_at'', jint (mr_created_at r)),
       (''sender'', JObj [(''id'', JStr (ab_id (mr_sender r))), (''name'', JStr (ab_name (mr_sender r))),
         (''display_name'', JStr (ab_display_name (mr_sender r)))]),
       (''turn_number'', jint (mr_turn_number r)), (''turns_remaining'', jint (mr_turns_remaining r)),
       (''consumes_turn'', JBool (mr_consumes_turn r)), (''requires_action'', JBool (mr_requires_action r)),
       (''completion_approved_at'', jtime_or_null (mr_completion_approved_at r))] @
      (case mr_question_id r of None \<Rightarrow> [] | Some q \<Rightarrow> [(''question_id'', JStr q)]) @
      (case mr_next_steps r of None \<Rightarrow> []
       | Some steps \<Rightarrow> [(''budget_exhausted'', JBool True), (''next_steps'', JArr (map JStr steps))]))"

definition message_stored ::
  "request \<Rightarrow> string \<Rightarrow> string option \<Rightarrow> contract_row \<Rightarrow> send_request \<Rightarrow> validated_question option \<Rightarrow> rpc_ok \<Rightarrow>
   string option \<Rightarrow> message_response response prog" where
  "message_stored req contractId key checked m needs ok questionId = do {
     others \<leftarrow> call (q_select db_participants
       (\<lambda>p. p_contract_id p = contractId \<and> p_agent_id p \<noteq> ag_id (rq_agent req)));
     deliver (message_event req contractId (map p_agent_id (rows_of others)) m (sends_action m needs) ok questionId);
     (if closed_by_turns m ok \<or> ro_completed ok then emitContractClosed (message_closure contractId ok)
      else State_Monad.return ());
     (case (needs, questionId) of
        (Some q, Some qid) \<Rightarrow> announceContractQuestion contractId qid (rq_agent req) q (Some (ro_message_id ok))
          (Some (getClientIp req))
      | _ \<Rightarrow> State_Monad.return ());
     auditLog (ag_name (rq_agent req)) ''message.send'' (Some ''message'') (Some (ro_message_id ok))
       (Some ([(''contract_id'', JStr contractId), (''message_type'', JStr (message_type_name (sr_type m))),
               (''turn'', jint (ro_new_turns ok))] @
              (case questionId of None \<Rightarrow> [] | Some q \<Rightarrow> [(''question_id'', JStr q)])))
       (Some (getClientIp req));
     let response = message_answer req contractId checked m ok questionId;
     storeIdempotencyResponse key req (''POST /v1/contracts/'' @ contractId @ ''/messages'') 201 (message_json response);
     State_Monad.return (Answer 201 response)
   }"

definition message_checked ::
  "(zod \<Rightarrow> json \<Rightarrow> (string list \<times> string) list) \<Rightarrow> (json \<Rightarrow> bool option) \<Rightarrow> request \<Rightarrow> string \<Rightarrow> string option \<Rightarrow>
   contract_row \<Rightarrow> send_request \<Rightarrow> message_response response prog" where
  "message_checked safeParse to_bool req contractId key checked m = do {
     needs \<leftarrow> needs_human_of m contractId (ag_id (rq_agent req));
     case needs of
       Inl r \<Rightarrow> State_Monad.return (Refusal r)
     | Inr q \<Rightarrow>
         (case send_refusal safeParse checked (ag_id (rq_agent req)) m of
            Some r \<Rightarrow> State_Monad.return (Refusal r)
          | None \<Rightarrow> do {
              sent \<leftarrow> store_message to_bool contractId (ag_id (rq_agent req)) m q;
              case sent of
                Inl r \<Rightarrow> State_Monad.return (Refusal r)
              | Inr (RpcError code msg, _) \<Rightarrow> State_Monad.return (reply_error (rpc_status code) msg code)
              | Inr (RpcOk ok, questionId) \<Rightarrow> message_stored req contractId key checked m q ok questionId
            })
   }"

definition message_active ::
  "(zod \<Rightarrow> json \<Rightarrow> (string list \<times> string) list) \<Rightarrow> (json \<Rightarrow> bool option) \<Rightarrow> request \<Rightarrow> string \<Rightarrow> string option \<Rightarrow>
   participant_row \<Rightarrow> contract_row \<Rightarrow> message_response response prog" where
  "message_active safeParse to_bool req contractId key p contract = do {
     checked \<leftarrow> autoCloseIfExpired contract;
     if c_status checked \<noteq> SActive then
       State_Monad.return (invalid_state checked '', can only send messages to active contracts'')
     else case evaluateContractParticipantMutation ASendMessage (p_role p) (Some (p_status p)) of
       MayNot r \<Rightarrow> State_Monad.return (Refusal r)
     | MayProceed _ \<Rightarrow>
         (case rq_body req of
            Parsed j \<Rightarrow>
              if j = JNull then State_Monad.return (Thrown ''TypeError'')
              else (case parse_send j of
                Inl r \<Rightarrow> State_Monad.return (Refusal r)
              | Inr m \<Rightarrow> message_checked safeParse to_bool req contractId key checked m)
          | _ \<Rightarrow> State_Monad.return (reply_error 400 ''Invalid JSON body'' ''INVALID_BODY''))
   }"

definition message_post ::
  "(zod \<Rightarrow> json \<Rightarrow> (string list \<times> string) list) \<Rightarrow> (json \<Rightarrow> bool option) \<Rightarrow> request \<Rightarrow> string \<Rightarrow>
   message_response response prog" where
  "message_post safeParse to_bool req contractId =
     with_key req (''POST /v1/contracts/'' @ contractId @ ''/messages'') (\<lambda>key. do {
       limit \<leftarrow> checkRateLimit (''messages:'' @ ag_id (rq_agent req)) MESSAGES_LIMIT;
       if \<not> li_allowed limit then
         State_Monad.return (reply_error 429 ''Message rate limit exceeded (100/hour)'' ''RATE_LIMITED'')
       else do {
         participant \<leftarrow> getParticipant contractId (ag_id (rq_agent req));
         case participant of
           None \<Rightarrow> State_Monad.return not_a_participant
         | Some p \<Rightarrow> with_contract contractId (message_active safeParse to_bool req contractId key p)
       }
     })"

section \<open>Beside other requests\<close>

lemma orderly_insert_question:
  "orderly d (snd (insert_message_question i a t b ap q d))"
proof (cases "insert_message_atomic i a t b ap (Some False) d")
  case (Pair r d1)
  have "orderly d d1" using orderly_insert_message [of d i a t b ap "Some False"] Pair by simp
  moreover have "orderly d1 (d1\<lparr>db_questions := x, db_next := Suc (db_next d1)\<rparr>)" for x
    by (rule orderly_same) simp
  ultimately show ?thesis
    using Pair by (auto simp: insert_message_question_def Let_def orderly_refl intro: orderly_trans
        split: sum.split rpc_result.split)
qed

lemma holds_rpc:
  "(\<And>c m q. x = (RpcError c m, q) \<Longrightarrow> valid R P (f c m q) Q) \<Longrightarrow> (\<And>ok q. x = (RpcOk ok, q) \<Longrightarrow> valid R P (g ok q) Q) \<Longrightarrow>
   valid R P (case x of (RpcError c m, q) \<Rightarrow> f c m q | (RpcOk ok, q) \<Rightarrow> g ok q) Q"
  by (cases x; cases "fst x") auto

lemma holds_decision:
  "(\<And>r. x = MayNot r \<Longrightarrow> valid R P (f r) Q) \<Longrightarrow> (\<And>n. x = MayProceed n \<Longrightarrow> valid R P (g n) Q) \<Longrightarrow>
   valid R P (case x of MayNot r \<Rightarrow> f r | MayProceed n \<Rightarrow> g n) Q"
  by (cases x) auto

context contract_relation begin

lemma keeps_checkChannelWriteAccess: "keeps R (checkChannelWriteAccess c a)"
  unfolding checkChannelWriteAccess_def participantRole_def
  by (intro keeps_rules keeps_read) (simp add: limited_def)

lemma keeps_announceContractQuestion: "keeps R (announceContractQuestion c q a v m ip)"
  unfolding announceContractQuestion_def Let_def
  by (intro keeps_rules keeps_auditLog keeps_read) simp

lemma keeps_needs_human_of: "keeps R (needs_human_of m c a)"
  unfolding needs_human_of_def by (intro keeps_rules keeps_checkChannelWriteAccess)

lemma keeps_message_stored: "keeps R (message_stored req c k ch m n ok q)"
  unfolding message_stored_def Let_def
  by (intro keeps_rules keeps_pair_options keeps_read keeps_emitContractClosed keeps_announceContractQuestion
      keeps_auditLog keeps_storeIdempotencyResponse) simp

end

lemma orderly_store_message: "keeps orderly (store_message to_bool c a m n)"
proof -
  have "orderly d (snd ((case sends_action m n of
      JBool b \<Rightarrow> insert_message_atomic c a (sr_type m) (sr_content m) (sr_type m = MApproval) (Some b)
    | j \<Rightarrow> (case to_bool j of
        Some b \<Rightarrow> insert_message_atomic c a (sr_type m) (sr_content m) (sr_type m = MApproval) (Some b)
      | None \<Rightarrow> (\<lambda>d. (Inl \<lparr>de_code = ''22P02'', de_message = ''invalid input syntax for type boolean''\<rparr>, d)))) d))" for d
    by (auto simp: orderly_insert_message orderly_refl split: json.split option.split)
  then show ?thesis
    unfolding store_message_def insertMessageWithQuestion_def
    by (intro orderly.keeps_rules orderly.keeps_call orderly_insert_question)
qed

lemma keeps_message_checked: "keeps orderly (message_checked sp tb req c k ch m)"
proof -
  have "keeps orderly (case y of
      (RpcError code msg, _) \<Rightarrow> State_Monad.return (reply_error (rpc_status code) msg code)
    | (RpcOk ok, questionId) \<Rightarrow> message_stored req c k ch m q ok questionId)" for y q
    by (cases y; cases "fst y") (auto intro!: orderly.keeps_return orderly.keeps_message_stored)
  then show ?thesis
    unfolding message_checked_def
    by (intro orderly.keeps_rules orderly.keeps_needs_human_of orderly_store_message)
qed

lemma keeps_message_active: "keeps orderly (message_active sp tb req i k p c)"
proof -
  have "keeps orderly (case rq_body req of
      Parsed j \<Rightarrow>
        if j = JNull then State_Monad.return (Thrown ''TypeError'')
        else (case parse_send j of
          Inl r \<Rightarrow> State_Monad.return (Refusal r)
        | Inr m \<Rightarrow> message_checked sp tb req i k ch m)
    | _ \<Rightarrow> State_Monad.return (reply_error 400 ''Invalid JSON body'' ''INVALID_BODY''))" for ch
    by (auto intro!: orderly.keeps_return keeps_message_checked split: request_body.split sum.split)
  then show ?thesis
    unfolding message_active_def
    by (intro orderly.keeps_rules orderly_autoCloseIfExpired)
       (auto intro!: orderly.keeps_return split: participant_decision.split)
qed

lemma message_post_holds: "valid orderly contracts_ok (message_post sp tb req i) (\<lambda>_. contracts_ok)"
  unfolding message_post_def with_key_def
  by (intro orderly.holds_rules holds_idempotency holds_helpers holds_with_contract rows_forget
      orderly.keeps_holds [OF orderly.keeps_checkIdempotency stable_contracts_ok]
      orderly.keeps_holds [OF orderly.keeps_checkRateLimit stable_contracts_ok]
      orderly.keeps_holds [OF keeps_message_active stable_contracts_ok])

end
