(* ===== verification/System.thy ===== *)
theory System
  imports OperatorActions RunRoutes Proposals AcceptRoute MessageRoute
begin

text \<open>
  All routes together. A call of the API is served by the program of its route, interrupted between
  any two statements by other requests, which are served the same way. Every call moves the contracts
  only forward, decides an approval once and closes no cycle of links.
\<close>

section \<open>The routes that write other tables\<close>

context contract_relation begin

lemma keeps_checkChannelReadAccess: "keeps R (checkChannelReadAccess c a)"
  unfolding checkChannelReadAccess_def participantRole_def
  by (intro keeps_rules keeps_read) (simp add: limited_def)

lemma keeps_notes_get: "keeps R (notes_get req i)"
  unfolding notes_get_def by (intro keeps_rules keeps_checkChannelReadAccess keeps_getOperatorChannel)

lemma keeps_questions_get: "keeps R (questions_get req i)"
  unfolding questions_get_def by (intro keeps_rules keeps_checkChannelReadAccess keeps_getOperatorChannel)

lemma keeps_acknowledgeContractNotes: "keeps R (acknowledgeContractNotes c a ids)"
  unfolding acknowledgeContractNotes_def Let_def
  by (intro keeps_rules keeps_read keeps_other) (simp_all add: q_insert_def)

lemma keeps_notes_post_parsed: "keeps R (notes_post_parsed req i j)"
proof -
  have acked: "keeps R (case x of Inl r \<Rightarrow> State_Monad.return (Refusal r) | Inr (n, already) \<Rightarrow> k n already)"
    if "\<And>n already. keeps R (k n already)" for x :: "refusal + nat \<times> nat" and k
    using that by (cases x) (auto intro: keeps_return)
  show ?thesis
    unfolding notes_post_parsed_def
    by (intro keeps_rules acked keeps_checkChannelWriteAccess keeps_acknowledgeContractNotes keeps_audit_contract
        keeps_getOperatorChannel)
qed

lemma keeps_notes_post: "keeps R (notes_post req i)"
  unfolding notes_post_def by (cases "rq_body req") (simp_all add: keeps_return keeps_notes_post_parsed)

lemma keeps_ask_question: "keeps R (ask_question req i q)"
  unfolding ask_question_def createContractQuestion_def
  by (intro keeps_rules keeps_shaped_fresh keeps_announceContractQuestion keeps_getOperatorChannel)
    (simp add: q_insert_def)

lemma keeps_questions_post: "keeps R (questions_post req i)"
proof -
  have "keeps R (questions_post_valid req i q)" for q
    unfolding questions_post_valid_def
    by (intro keeps_rules keeps_checkChannelWriteAccess keeps_read keeps_ask_question) simp
  then show ?thesis
    unfolding questions_post_def Let_def
    by (cases "rq_body req") (auto intro!: keeps_return split: sum.split)
qed

lemma keeps_reading_project: "keeps R k \<Longrightarrow> keeps R (reading_project req p e k)"
  unfolding reading_project_def by (intro keeps_rules keeps_getProjectAccess)

lemma keeps_writing_project: "(\<And>a. keeps R (k a)) \<Longrightarrow> keeps R (writing_project req p e k)"
  unfolding writing_project_def by (intro keeps_rules keeps_getProjectAccess)

lemma keeps_getTaskContext: "keeps R (getTaskContext p t)"
  unfolding getTaskContext_def by (intro keeps_rules keeps_read) simp

lemma keeps_getTaskAndRun: "keeps R (getTaskAndRun p t r)"
  unfolding getTaskAndRun_def by (intro keeps_rules keeps_getTaskContext keeps_read) simp

lemma keeps_audit_task: "keeps R (audit_task req a t x)"
  unfolding audit_task_def by (rule keeps_auditLog)

lemma keeps_runs_get: "keeps R (runs_get req p t)"
  unfolding runs_get_def listTaskExecutionRuns_def
  by (intro keeps_reading_project keeps_rules keeps_getTaskContext keeps_read) simp

lemma keeps_run_get: "keeps R (run_get req p t r)"
  unfolding run_get_def by (intro keeps_reading_project keeps_rules keeps_getTaskAndRun)

lemma keeps_checkpoints_get: "keeps R (checkpoints_get req p t r)"
  unfolding checkpoints_get_def listTaskExecutionCheckpoints_def selectTaskExecutionCheckpoints_def
  by (intro keeps_reading_project keeps_rules keeps_pair_options keeps_getTaskAndRun keeps_read) simp_all

lemma keeps_runs_post: "keeps R (runs_post tt req p t)"
proof -
  have "keeps R (run_created req p t k e row)" for k e row
    unfolding run_created_def
    by (intro keeps_rules keeps_audit_task keeps_appendTaskActivityEvent keeps_storeIdempotencyResponse)
  then have parsed: "keeps R (runs_post_parsed tt req p t k e j)" for k e j
    unfolding runs_post_parsed_def latest_attempt_def Let_def
    by (intro keeps_rules keeps_read keeps_createTaskExecutionRun) simp_all
  have body: "keeps R (case rq_body req of
        BadJson \<Rightarrow> State_Monad.return (reply_error 400 ''Invalid JSON body'' ''INVALID_BODY'')
      | NoBody \<Rightarrow> runs_post_parsed tt req p t k e (JObj [])
      | Parsed j \<Rightarrow> runs_post_parsed tt req p t k e j)" for k e
    by (cases "rq_body req") (simp_all add: parsed keeps_return)
  show ?thesis
    unfolding runs_post_def Let_def
    by (intro keeps_with_key keeps_writing_project keeps_rules keeps_getTaskContext body)
qed

lemma keeps_run_patch: "keeps R (run_patch tt req p t r)"
proof -
  have "keeps R (run_patched req p t x j y)" for x j y
    unfolding run_patched_def by (intro keeps_rules keeps_audit_task keeps_appendTaskActivityEvent)
  then have parsed: "keeps R (run_patch_parsed tt req p t x j)" for x j
    unfolding run_patch_parsed_def Let_def by (intro keeps_rules keeps_updateTaskExecutionRun)
  have body: "keeps R (case rq_body req of
        Parsed j \<Rightarrow> run_patch_parsed tt req p t x j
      | _ \<Rightarrow> State_Monad.return (reply_error 400 ''Invalid JSON body'' ''INVALID_BODY''))" for x
    by (cases "rq_body req") (simp_all add: parsed keeps_return)
  show ?thesis
    unfolding run_patch_def
    by (intro keeps_writing_project keeps_rules keeps_getTaskAndRun keeps_pair_options body)
qed

lemma keeps_checkpoints_post: "keeps R (checkpoints_post tt req p t r)"
proof -
  have "keeps R (checkpoint_appended req p t k e c)" for k e c
    unfolding checkpoint_appended_def
    by (intro keeps_rules keeps_audit_task keeps_appendTaskActivityEvent keeps_storeIdempotencyResponse)
  then have parsed: "keeps R (checkpoints_post_parsed tt req p t r k e j)" for k e j
    unfolding checkpoints_post_parsed_def by (intro keeps_rules keeps_appendTaskCheckpoint)
  have body: "keeps R (case rq_body req of
        Parsed j \<Rightarrow> checkpoints_post_parsed tt req p t r k e j
      | _ \<Rightarrow> State_Monad.return (reply_error 400 ''Invalid JSON body'' ''INVALID_BODY''))" for k e
    by (cases "rq_body req") (simp_all add: parsed keeps_return)
  show ?thesis
    unfolding checkpoints_post_def Let_def
    by (intro keeps_with_key keeps_writing_project keeps_rules keeps_getTaskAndRun keeps_pair_options body)
qed

end

context link_relation begin

lemma keeps_links_get: "keeps R (links_get req i)"
  unfolding links_get_def checkContractLinkReadAccess_def participantRoles_def
  by (intro keeps_rules keeps_read keeps_getRelatedContracts) simp

lemma keeps_links_post: "keeps R (links_post req i)"
proof -
  have "keeps R (links_post_valid req i l)" for l
    unfolding links_post_valid_def
    by (intro keeps_rules keeps_checkContractLinkPermission linking keeps_audit_contract keeps_getRelatedContracts)
  then show ?thesis
    unfolding links_post_def Let_def
    by (cases "rq_body req") (auto intro!: keeps_return split: sum.split)
qed

lemma keeps_links_delete: "keeps R (links_delete req i t y)"
proof -
  have "keeps R (links_delete_parsed req i j t y)" for j
    unfolding links_delete_parsed_def Let_def
    by (intro keeps_rules keeps_checkContractLinkPermission unlinking keeps_audit_contract keeps_getRelatedContracts)
  then show ?thesis
    unfolding links_delete_def by (cases "rq_body req") (simp_all add: keeps_return)
qed

end

section \<open>Relations that do not look at the contracts\<close>

text \<open>To approvals and links, everything the routes of contracts do is another table.\<close>

locale contracts_unseen = link_relation +
  assumes blind: "db_approvals d' = db_approvals d \<Longrightarrow> db_links d' = db_links d \<Longrightarrow> R d d'"
    and dropping: "keeps R (call (q_delete_contract i))"
begin

lemma keeps_blind:
  "(\<And>d. db_approvals (snd (q d)) = db_approvals d \<and> db_links (snd (q d)) = db_links d) \<Longrightarrow> keeps R (call q)"
  by (rule keeps_call) (simp add: blind)

lemma keeps_autoCloseIfExpired: "keeps R (autoCloseIfExpired c)"
  unfolding autoCloseIfExpired_def Let_def
  by (intro keeps_rules keeps_blind keeps_emitContractClosed) simp

lemma keeps_activateIfAllAccepted: "keeps R (activateIfAllAccepted i)"
  unfolding activateIfAllAccepted_def Let_def by (intro keeps_rules keeps_blind) simp_all

lemma keeps_read_contract: "keeps R (read_contract i)"
  unfolding read_contract_def by (intro keeps_rules keeps_read) simp

lemma keeps_with_contract: "(\<And>c. keeps R (k c)) \<Longrightarrow> keeps R (with_contract i k)"
  unfolding with_contract_def by (intro keeps_rules keeps_read_contract)

lemma keeps_acting_on: "(\<And>c. keeps R (k c)) \<Longrightarrow> keeps R (acting_on req i a k)"
proof -
  assume k: "\<And>c. keeps R (k c)"
  have "keeps R (case x of MayNot r \<Rightarrow> State_Monad.return (Refusal r) | MayProceed _ \<Rightarrow> with_contract i k)" for x
    by (cases x) (simp_all add: keeps_return keeps_with_contract k)
  then show ?thesis
    unfolding acting_on_def by (intro keeps_rules keeps_getParticipant)
qed

lemma keeps_respond: "keeps R (respond i a s)"
  unfolding respond_def by (intro keeps_rules keeps_blind) simp

lemma keeps_answer_contract: "keeps R (answer_contract req i)"
  unfolding answer_contract_def by (intro keeps_rules keeps_read_contract keeps_enrichContract)

lemma keeps_contract_get: "keeps R (contract_get req i)"
  unfolding contract_get_def
  by (intro keeps_rules keeps_with_contract keeps_getParticipant keeps_autoCloseIfExpired keeps_enrichContract)

lemma keeps_contract_patch: "keeps R (contract_patch req i)"
proof -
  have desc: "keeps R (patch_description req i c x)" for c x
    unfolding patch_description_def
    by (intro keeps_rules keeps_blind keeps_audit_contract keeps_read keeps_enrichContract) simp_all
  have "keeps R (patch_parsed req i c j)" for c j
    unfolding patch_parsed_def
    by (intro keeps_rules, split description_check.split) (auto intro!: keeps_rules desc)
  then show ?thesis
    unfolding contract_patch_def
    by (cases "rq_body req"; simp only: request_body.case;
        intro keeps_rules keeps_getParticipant keeps_with_contract)
qed

lemma keeps_reject_post: "keeps R (reject_post req i)"
  unfolding reject_post_def reject_recorded_def
  by (intro keeps_acting_on keeps_rules keeps_autoCloseIfExpired keeps_respond keeps_read_contract keeps_blind
      keeps_audit_contract keeps_answer_contract) simp_all

lemma keeps_cancel_post: "keeps R (cancel_post req i)"
  unfolding cancel_post_def cancelled_def
  by (intro keeps_acting_on keeps_rules keeps_autoCloseIfExpired keeps_blind keeps_audit_contract
      keeps_answer_contract) simp_all

lemma keeps_close_post: "keeps R (close_post req i)"
proof -
  have allowed: "keeps R (close_allowed req i c r w)" for c r w
    unfolding close_allowed_def
    by (intro keeps_rules keeps_blind keeps_emitContractClosed keeps_audit_contract keeps_answer_contract) simp
  have "keeps R (close_parsed req i c j)" for c j
    unfolding close_parsed_def Let_def
    by (intro keeps_rules, split gated_close_decision.split) (auto intro!: keeps_rules allowed)
  then show ?thesis
    unfolding close_post_def
    by (intro keeps_acting_on, cases "rq_body req"; simp only: request_body.case; intro keeps_rules)
qed

lemma keeps_accept_post: "keeps R (accept_post req i)"
  unfolding accept_post_def accept_recorded_def
  by (intro keeps_acting_on keeps_rules keeps_autoCloseIfExpired keeps_respond keeps_audit_contract
      keeps_answer_contract keeps_activateIfAllAccepted keeps_activate_task keeps_announce_activation)

lemma keeps_store_message: "keeps R (store_message tb c a m n)"
proof -
  have q: "db_approvals (snd (insert_message_question i a t b ap q d)) = db_approvals d \<and>
      db_links (snd (insert_message_question i a t b ap q d)) = db_links d" for i a t b ap q d
    by (auto simp: insert_message_question_def insert_message_atomic_def Let_def
        split: option.splits sum.splits rpc_result.splits prod.splits)
  have plain: "db_approvals (snd (insert_message_atomic i a t b ap ra d)) = db_approvals d \<and>
      db_links (snd (insert_message_atomic i a t b ap ra d)) = db_links d" for i a t b ap ra d
    by (auto simp: insert_message_atomic_def Let_def split: option.splits)
  have act: "keeps R (call (case j of
      JBool b \<Rightarrow> insert_message_atomic c a (sr_type m) (sr_content m) (sr_type m = MApproval) (Some b)
    | j \<Rightarrow> (case tb j of
        Some b \<Rightarrow> insert_message_atomic c a (sr_type m) (sr_content m) (sr_type m = MApproval) (Some b)
      | None \<Rightarrow> (\<lambda>d. (Inl \<lparr>de_code = ''22P02'', de_message = ''invalid input syntax for type boolean''\<rparr>, d)))))" for j
    by (rule keeps_blind) (auto simp: plain split: json.split option.split)
  show ?thesis
    unfolding store_message_def insertMessageWithQuestion_def
    by (intro keeps_rules keeps_blind q act)
qed

lemma keeps_message_post: "keeps R (message_post sp tb req i)"
proof -
  have answered: "keeps R (case y of
      (RpcError code msg, _) \<Rightarrow> State_Monad.return (reply_error (rpc_status code) msg code)
    | (RpcOk ok, questionId) \<Rightarrow> message_stored req i k ch m q ok questionId)" for y k ch m q
    by (cases y; cases "fst y") (auto intro!: keeps_return keeps_message_stored)
  have checked: "keeps R (message_checked sp tb req i k ch m)" for k ch m
    unfolding message_checked_def
    by (intro keeps_rules keeps_needs_human_of keeps_store_message answered)
  have body: "keeps R (case rq_body req of
      Parsed j \<Rightarrow>
        if j = JNull then State_Monad.return (Thrown ''TypeError'')
        else (case parse_send j of
          Inl r \<Rightarrow> State_Monad.return (Refusal r)
        | Inr m \<Rightarrow> message_checked sp tb req i k ch m)
    | _ \<Rightarrow> State_Monad.return (reply_error 400 ''Invalid JSON body'' ''INVALID_BODY''))" for k ch
    by (auto intro!: keeps_return checked split: request_body.split sum.split)
  have "keeps R (message_active sp tb req i k p c)" for k p c
    unfolding message_active_def
    by (intro keeps_rules keeps_autoCloseIfExpired)
       (auto intro!: keeps_return body split: participant_decision.split)
  then show ?thesis
    unfolding message_post_def
    by (intro keeps_with_key keeps_rules keeps_checkRateLimit keeps_getParticipant keeps_with_contract)
qed

lemma keeps_createContractProposal: "keeps R (createContractProposal tt ti req j u)"
proof -
  have live: "keeps R (live_contracts_of a)" for a
    unfolding live_contracts_of_def by (intro keeps_rules keeps_read) simp_all
  have full: "keeps R (invitee_over_capacity xs)" for xs
    by (induction xs) (auto intro!: keeps_rules live)
  have insert: "keeps R (call (shaped shape_single (q_insert_contract tt ti a terms ur e)))" for a terms ur e
    by (rule keeps_blind) (simp add: q_insert_contract_def with_fresh_def q_insert_def split: option.split)
  have parts: "keeps R (call (q_insert_participants i ps))" for i ps
    by (rule keeps_blind) (simp add: q_insert_participants_def q_insert_def)
  have "keeps R (proposal_inserted req terms xs ys c)" for terms xs ys c
    unfolding proposal_inserted_def
    by (intro keeps_rules live dropping parts keeps_audit_contract keeps_enrichContract)
  then have allowed: "keeps R (proposal_allowed tt ti req terms u e xs ys)" for terms e xs ys
    unfolding proposal_allowed_def by (intro keeps_rules live full insert)
  have pair: "keeps R (case y of (xs, ys) \<Rightarrow> proposal_allowed tt ti req terms u e xs ys)" for y terms e
    by (cases y) (simp add: allowed)
  show ?thesis
    unfolding createContractProposal_def by (intro pair keeps_rules keeps_read) simp
qed

lemma keeps_contracts_post: "keeps R (contracts_post tt ti en req)"
proof -
  have created: "keeps R (case x of
      Inl (ProposalRefused r) \<Rightarrow> State_Monad.return (Refusal r)
    | Inl ProposalThrew \<Rightarrow> State_Monad.return (reply_error 500 ''Failed to create contract'' ''DB_ERROR'')
    | Inr pp \<Rightarrow> proposal_created tt en req key j plan pp)" for x key j plan
    by (auto intro!: keeps_return keeps_proposal_created split: sum.split proposal_error.split)
  have parsed: "keeps R (contracts_post_parsed tt ti en req key j)" for key j
    unfolding contracts_post_parsed_def
    by (intro keeps_rules keeps_createContractProposal created keeps_proposal_plan_of)
  have body: "keeps R (case rq_body req of
        Parsed j \<Rightarrow> contracts_post_parsed tt ti en req key j
      | _ \<Rightarrow> State_Monad.return (reply_error 400 ''Invalid JSON body'' ''INVALID_BODY''))" for key
    by (cases "rq_body req") (auto intro: keeps_return parsed)
  show ?thesis
    unfolding contracts_post_def by (intro keeps_with_key keeps_rules keeps_checkRateLimit body)
qed

lemma keeps_closeContract: "keeps R (closeContract session i opts)"
proof -
  have close: "keeps R (operator_close u i c opts w)" for u c w
    unfolding operator_close_def q_operator_close_def operator_announce_def
    by (intro keeps_rules keeps_blind keeps_emitContractClosed keeps_auditLog) simp
  have found: "keeps R (case x of None \<Rightarrow> State_Monad.return e | Some (c, p) \<Rightarrow> k c p)"
    if "\<And>c p. keeps R (k c p)" for x :: "(contract_row \<times> agent_row option) option" and e k
    using that by (cases x) (auto intro: keeps_return)
  show ?thesis
    unfolding closeContract_def close_refused_def Let_def
    by (intro keeps_rules found close keeps_read) (simp_all add: limited_def q_contract_with_proposer_def)
qed

lemma keeps_switch_off: "keeps R (call (switch_off s s' now))"
  unfolding switch_off_def by (rule keeps_blind) simp

end

section \<open>The three relations\<close>

lemma delete_contract_approvals: "db_approvals (snd (q_delete_contract i d)) = db_approvals d"
  by (simp add: q_delete_contract_def)

lemma insert_link_approvals: "db_approvals (snd (q_insert_link f t l n b d)) = db_approvals d"
  by (simp add: q_insert_link_def with_fresh_def Let_def q_insert_def)

interpretation approvals_wide: contracts_unseen approvals_step
proof
  show "keeps approvals_step (createContractLink f t l n b)" for f t l n b
    unfolding createContractLink_def
    by (intro approvals.keeps_rules approvals.keeps_call approvals_step_same insert_link_approvals)
  show "keeps approvals_step (deleteContractLink f t l)" for f t l
    unfolding deleteContractLink_def by (intro approvals.keeps_rules approvals.keeps_call approvals_step_same) simp
  show "keeps approvals_step (call (q_delete_contract i))" for i
    by (intro approvals.keeps_call approvals_step_same delete_contract_approvals)
qed (simp add: approvals_step_same)

interpretation approvals_operator: operator_relation approvals_step
  by unfold_locales
    (auto intro: approvals_wide.keeps_switch_off steps_consumeApprovalByAction steps_requestApproval
      keeps_approveDashboardRequest keeps_denyDashboardRequest)

lemma links_same: "db_links d' = db_links d \<Longrightarrow> inv_rel links_ok d d'"
  by (simp add: inv_rel_def links_ok_def)

interpretation links: contract_relation "inv_rel links_ok"
  by unfold_locales (simp add: links_same)

interpretation links_wide: contracts_unseen "inv_rel links_ok"
proof
  show "keeps (inv_rel links_ok) (call (q_delete_contract i))" for i
    by (rule links_inv.keeps_call) (simp add: inv_rel_def links_ok_def q_delete_contract_def no_short_cycle_filter)
qed (simp_all add: links_same links_createContractLink links_deleteContractLink)

interpretation links_approvals: approvals_unseen "inv_rel links_ok"
  by unfold_locales (simp add: links_same)

interpretation links_operator: operator_relation "inv_rel links_ok"
  by unfold_locales
    (auto intro: links_wide.keeps_switch_off links_approvals.keeps_consumeApprovalByAction
      links_approvals.keeps_requestApproval links_approvals.keeps_reviews)

text \<open>A request that respects the three relations, among requests that do.\<close>

definition sound :: "db \<Rightarrow> db \<Rightarrow> bool" where
  "sound d d' \<longleftrightarrow> orderly d d' \<and> approvals_step d d' \<and> inv_rel links_ok d d'"

lemma rely_sound: "rely sound env \<Longrightarrow> rely orderly env \<and> rely approvals_step env \<and> rely (inv_rel links_ok) env"
  by (auto simp: rely_def sound_def)

lemma sound_same: "same_tracked d d' \<Longrightarrow> sound d d'"
  by (simp add: sound_def orderly_same approvals_step_same links_same)

lemma sound_trans: "sound a b \<Longrightarrow> sound b c \<Longrightarrow> sound a c"
  unfolding sound_def using orderly_trans approvals_step_trans links_inv.trans by blast

lemma sound_final:
  assumes "valid orderly contracts_ok m (\<lambda>_. contracts_ok)" "keeps approvals_step m" "keeps (inv_rel links_ok) m"
    and env: "rely sound env"
  shows "sound d (final m env d)"
proof -
  from rely_sound [OF env] have r: "rely orderly env" "rely approvals_step env" "rely (inv_rel links_ok) env" by blast+
  have "orderly d (final m env d)"
  proof (cases "contracts_ok d")
    case True
    then show ?thesis using valid_run [OF assms(1) r(1)] by blast
  qed (simp add: orderly_def)
  with keeps_run [OF assms(2) r(2)] keeps_run [OF assms(3) r(3)] show ?thesis
    by (simp add: sound_def)
qed

lemma sound_final_keeps:
  assumes "keeps orderly m" "keeps approvals_step m" "keeps (inv_rel links_ok) m" "rely sound env"
  shows "sound d (final m env d)"
  by (rule sound_final [OF orderly.keeps_holds [OF assms(1) stable_contracts_ok] assms(2-4)])

section \<open>The system\<close>

text \<open>
  What the routes use of code outside the repository: the text, integer and boolean the driver makes of
  a JSON value, the schema validator, the encoding of a recorded answer, the reviewers in the
  environment, the fresh signing secret and its hash.
\<close>

record outside =
  ou_to_text :: "json \<Rightarrow> string"
  ou_to_int :: "json \<Rightarrow> int option"
  ou_to_bool :: "json \<Rightarrow> bool option"
  ou_safeParse :: "zod \<Rightarrow> json \<Rightarrow> (string list \<times> string) list"
  ou_encode :: "propose_response \<Rightarrow> json"
  ou_reviewers :: "string option"
  ou_secret :: string
  ou_sha256 :: "string \<Rightarrow> string"

text \<open>The calls of the API and of the dashboard.\<close>

datatype api_call =
  GetContract request string
| PatchContract request string
| RejectContract request string
| CancelContract request string
| CloseContract request string
| AcceptContract request string
| SendMessage request string
| ProposeContract request
| OperatorClose "auth_actor option" string close_options
| GetLinks request string
| PostLink request string
| DeleteLink request string "string option" "string option"
| GetNotes request string
| PostNotes request string
| GetQuestions request string
| PostQuestion request string
| GetRuns request string string
| PostRun request string string
| GetRun request string string string
| PatchRun request string string string
| GetCheckpoints request string string string
| PostCheckpoint request string string string
| RequestApproval request
| ApproveRequest request string
| DenyRequest request string
| RequestKillSwitch "auth_actor option"
| ActivateKillSwitch "auth_actor option"
| DeactivateKillSwitch "auth_actor option"
| ApproveOnDashboard "auth_actor option" string
| DenyOnDashboard "auth_actor option" string

text \<open>The database a call leaves behind.\<close>

fun serve :: "outside \<Rightarrow> api_call \<Rightarrow> env_step list \<Rightarrow> db \<Rightarrow> db" where
  "serve w (GetContract req i) = final (contract_get req i)"
| "serve w (PatchContract req i) = final (contract_patch req i)"
| "serve w (RejectContract req i) = final (reject_post req i)"
| "serve w (CancelContract req i) = final (cancel_post req i)"
| "serve w (CloseContract req i) = final (close_post req i)"
| "serve w (AcceptContract req i) = final (accept_post req i)"
| "serve w (SendMessage req i) = final (message_post (ou_safeParse w) (ou_to_bool w) req i)"
| "serve w (ProposeContract req) = final (contracts_post (ou_to_text w) (ou_to_int w) (ou_encode w) req)"
| "serve w (OperatorClose session i opts) = final (closeContract session i opts)"
| "serve w (GetLinks req i) = final (links_get req i)"
| "serve w (PostLink req i) = final (links_post req i)"
| "serve w (DeleteLink req i t y) = final (links_delete req i t y)"
| "serve w (GetNotes req i) = final (notes_get req i)"
| "serve w (PostNotes req i) = final (notes_post req i)"
| "serve w (GetQuestions req i) = final (questions_get req i)"
| "serve w (PostQuestion req i) = final (questions_post req i)"
| "serve w (GetRuns req p t) = final (runs_get req p t)"
| "serve w (PostRun req p t) = final (runs_post (ou_to_text w) req p t)"
| "serve w (GetRun req p t r) = final (run_get req p t r)"
| "serve w (PatchRun req p t r) = final (run_patch (ou_to_text w) req p t r)"
| "serve w (GetCheckpoints req p t r) = final (checkpoints_get req p t r)"
| "serve w (PostCheckpoint req p t r) = final (checkpoints_post (ou_to_text w) req p t r)"
| "serve w (RequestApproval req) = final (approvals_post (ou_to_text w) (ou_reviewers w) req)"
| "serve w (ApproveRequest req i) = final (approve_post (ou_to_text w) (ou_reviewers w) (ou_secret w) (ou_sha256 w) req i)"
| "serve w (DenyRequest req i) = final (deny_post (ou_reviewers w) req i)"
| "serve w (RequestKillSwitch session) = final (requestKillSwitchActivation (ou_to_text w) (ou_reviewers w) (ou_secret w) (ou_sha256 w) session)"
| "serve w (ActivateKillSwitch session) = final (executeKillSwitchActivation session)"
| "serve w (DeactivateKillSwitch session) = final (deactivateKillSwitch session)"
| "serve w (ApproveOnDashboard session i) = final (handleApprove (ou_to_text w) (ou_reviewers w) (ou_secret w) (ou_sha256 w) session i)"
| "serve w (DenyOnDashboard session i) = final (handleDeny (ou_reviewers w) session i)"

text \<open>
  Everything that can happen to the database between two statements of a request: statements that
  leave the followed tables alone (and the passing of time), further calls, and one thing after another.
\<close>

inductive concurrent :: "(db \<Rightarrow> db) \<Rightarrow> bool" where
  elsewhere: "(\<And>d. same_tracked d (f d)) \<Longrightarrow> concurrent f"
| afterwards: "concurrent f \<Longrightarrow> concurrent g \<Longrightarrow> concurrent (\<lambda>d. g (f d))"
| served: "(\<And>e. e \<in> set env \<Longrightarrow> concurrent (es_act e)) \<Longrightarrow> concurrent (serve w c env)"

text \<open>What each route was shown to keep, per relation.\<close>

lemmas orderly_routes =
  contract_get_holds contract_patch_holds reject_post_holds cancel_post_holds close_post_holds
  accept_post_holds message_post_holds contracts_post_holds closeContract_holds

lemmas orderly_keeping_routes =
  orderly_links.keeps_links_get orderly_links.keeps_links_post orderly_links.keeps_links_delete
  orderly.keeps_notes_get orderly.keeps_notes_post orderly.keeps_questions_get
  orderly.keeps_questions_post orderly.keeps_runs_get orderly.keeps_runs_post orderly.keeps_run_get
  orderly.keeps_run_patch orderly.keeps_checkpoints_get orderly.keeps_checkpoints_post
  contracts_only.keeps_approvals_post contracts_only.keeps_approve_post
  contracts_only.keeps_deny_post orderly_operator.keeps_requestKillSwitchActivation
  orderly_operator.keeps_executeKillSwitchActivation orderly_operator.keeps_deactivateKillSwitch
  orderly_operator.keeps_handleApprove orderly_operator.keeps_handleDeny

lemmas approvals_routes =
  approvals_wide.keeps_contract_get approvals_wide.keeps_contract_patch
  approvals_wide.keeps_reject_post approvals_wide.keeps_cancel_post approvals_wide.keeps_close_post
  approvals_wide.keeps_accept_post approvals_wide.keeps_message_post
  approvals_wide.keeps_contracts_post approvals_wide.keeps_closeContract
  approvals_wide.keeps_links_get approvals_wide.keeps_links_post approvals_wide.keeps_links_delete
  approvals.keeps_notes_get approvals.keeps_notes_post approvals.keeps_questions_get
  approvals.keeps_questions_post approvals.keeps_runs_get approvals.keeps_runs_post
  approvals.keeps_run_get approvals.keeps_run_patch approvals.keeps_checkpoints_get
  approvals.keeps_checkpoints_post steps_approvals_post steps_approve_post steps_deny_post
  approvals_operator.keeps_requestKillSwitchActivation
  approvals_operator.keeps_executeKillSwitchActivation approvals_operator.keeps_deactivateKillSwitch
  approvals_operator.keeps_handleApprove approvals_operator.keeps_handleDeny

lemmas links_routes =
  links_wide.keeps_contract_get links_wide.keeps_contract_patch links_wide.keeps_reject_post
  links_wide.keeps_cancel_post links_wide.keeps_close_post links_wide.keeps_accept_post
  links_wide.keeps_message_post links_wide.keeps_contracts_post links_wide.keeps_closeContract
  links_wide.keeps_links_get links_wide.keeps_links_post links_wide.keeps_links_delete
  links.keeps_notes_get links.keeps_notes_post links.keeps_questions_get links.keeps_questions_post
  links.keeps_runs_get links.keeps_runs_post links.keeps_run_get links.keeps_run_patch
  links.keeps_checkpoints_get links.keeps_checkpoints_post links_approvals.keeps_approvals_post
  links_approvals.keeps_approve_post links_approvals.keeps_deny_post
  links_operator.keeps_requestKillSwitchActivation links_operator.keeps_executeKillSwitchActivation
  links_operator.keeps_deactivateKillSwitch links_operator.keeps_handleApprove
  links_operator.keeps_handleDeny

lemmas holds_if_keeps = orderly.keeps_holds [OF _ stable_contracts_ok]

lemma serve_sound: "rely sound env \<Longrightarrow> sound d (serve w c env d)"
  by (cases c; simp only: serve.simps;
      intro sound_final orderly_routes holds_if_keeps orderly_keeping_routes approvals_routes links_routes)

lemma concurrent_sound: "concurrent f \<Longrightarrow> sound d (f d)"
proof (induction arbitrary: d rule: concurrent.induct)
  case (elsewhere f)
  then show ?case by (rule sound_same)
next
  case (afterwards f g)
  then show ?case using sound_trans by blast
next
  case (served env w c)
  then show ?case by (intro serve_sound) (simp add: rely_def)
qed

end
