(* ===== verification/LifecycleSpec.thy ===== *)
theory LifecycleSpec
  imports System
begin

text \<open>
  What the API promises about one contract, as a machine of its own: it is proposed, then activated,
  spends its turns one by one within the budget, may have its completion approved, and ends; an ended
  contract spends no turn and is never approved or opened again. (Which way it ended may still be
  overwritten: the expiry that is noticed on reading does not look at the status it replaces.) The
  rows of the database are shown to follow the machine, whatever requests run.
\<close>

record phase =
  ph_status :: contract_status
  ph_turns :: int
  ph_approved :: bool

inductive moves :: "int \<Rightarrow> phase \<Rightarrow> phase \<Rightarrow> bool" where
  activate: "ph_status p = SProposed \<Longrightarrow> moves budget p (p\<lparr>ph_status := SActive\<rparr>)"
| spend: "ph_status p = SActive \<Longrightarrow> ph_turns p < budget \<Longrightarrow> moves budget p (p\<lparr>ph_turns := ph_turns p + 1\<rparr>)"
| approve: "ph_status p = SActive \<Longrightarrow> moves budget p (p\<lparr>ph_approved := True\<rparr>)"
| finish: "\<not> is_live s \<Longrightarrow> moves budget p (p\<lparr>ph_status := s\<rparr>)"

inductive_cases moves_cases: "moves budget p p'"

definition phase_of :: "contract_row \<Rightarrow> phase" where
  "phase_of c = \<lparr>ph_status = c_status c, ph_turns = c_current_turns c, ph_approved = (c_completion_approved_at c \<noteq> None)\<rparr>"

section \<open>The machine\<close>

abbreviation moves_on :: "int \<Rightarrow> phase \<Rightarrow> phase \<Rightarrow> bool" where
  "moves_on budget \<equiv> (moves budget)\<^sup>*\<^sup>*"

lemma ended_stays: "moves_on budget p p' \<Longrightarrow> \<not> is_live (ph_status p) \<Longrightarrow>
    \<not> is_live (ph_status p') \<and> ph_turns p' = ph_turns p \<and> ph_approved p' = ph_approved p"
  by (induction rule: rtranclp_induct) (auto elim!: moves_cases simp: is_live_def)

lemma within_budget: "moves_on budget p p' \<Longrightarrow> ph_turns p \<le> max 0 budget \<Longrightarrow> ph_turns p' \<le> max 0 budget"
  by (induction rule: rtranclp_induct) (auto elim!: moves_cases)

lemma spend_some:
  assumes "ph_status p = SActive" "ph_turns p + int n \<le> budget"
  shows "moves_on budget p (p\<lparr>ph_turns := ph_turns p + int n\<rparr>)"
  using assms(2)
proof (induction n)
  case 0
  then show ?case by simp
next
  case (Suc n)
  let ?q = "p\<lparr>ph_turns := ph_turns p + int n\<rparr>"
  have "moves budget ?q (?q\<lparr>ph_turns := ph_turns ?q + 1\<rparr>)"
    by (rule spend) (use assms(1) Suc.prems in simp_all)
  moreover have "?q\<lparr>ph_turns := ph_turns ?q + 1\<rparr> = p\<lparr>ph_turns := ph_turns p + int (Suc n)\<rparr>" by simp
  ultimately have "moves budget ?q (p\<lparr>ph_turns := ph_turns p + int (Suc n)\<rparr>)" by (simp only:)
  moreover have "moves_on budget p ?q" using Suc by simp
  ultimately show ?case by (rule rtranclp.rtrancl_into_rtrancl [rotated])
qed

text \<open>An active phase reaches every later one within the budget.\<close>

lemma active_reaches:
  assumes "ph_status p = SActive" "ph_turns p \<le> ph_turns p'" "ph_turns p' = ph_turns p \<or> ph_turns p' \<le> budget"
    "ph_approved p \<longrightarrow> ph_approved p'" "ph_status p' \<noteq> SProposed"
  shows "moves_on budget p p'"
proof -
  let ?a = "p\<lparr>ph_turns := ph_turns p'\<rparr>"
  let ?b = "?a\<lparr>ph_approved := ph_approved p'\<rparr>"
  have a: "moves_on budget p ?a"
  proof (cases "ph_turns p' = ph_turns p")
    case False
    then show ?thesis
      using spend_some [OF assms(1), of "nat (ph_turns p' - ph_turns p)" budget] assms(2,3) by simp
  qed simp
  have b: "moves_on budget ?a ?b"
  proof (cases "ph_approved p' = ph_approved p")
    case False
    then have "moves budget ?a ?b"
      using approve [of ?a budget] assms(1,4) by simp
    then show ?thesis by blast
  qed simp
  have c: "moves_on budget ?b p'"
  proof (cases "is_live (ph_status p')")
    case True
    then have "ph_status p' = SActive" using assms(5) by (cases "ph_status p'") (simp_all add: is_live_def)
    then have "?b = p'" using assms(1) by (cases p; cases p') simp
    then show ?thesis by simp
  next
    case False
    then have "moves budget ?b (?b\<lparr>ph_status := ph_status p'\<rparr>)" by (rule finish)
    moreover have "?b\<lparr>ph_status := ph_status p'\<rparr> = p'" by (cases p; cases p') simp
    ultimately show ?thesis by auto
  qed
  from a b c show ?thesis by auto
qed

section \<open>The rows follow the machine\<close>

lemma evolves_moves:
  assumes ev: "evolves c c'" and bound: "turns_bounded c" "turns_bounded c'"
  shows "moves_on (c_max_turns c) (phase_of c) (phase_of c')"
proof -
  let ?p = "phase_of c" and ?p' = "phase_of c'"
  have turns: "ph_turns ?p \<le> ph_turns ?p'" "ph_turns ?p' = ph_turns ?p \<or> ph_turns ?p' \<le> c_max_turns c"
    and approved: "ph_approved ?p \<longrightarrow> ph_approved ?p'"
    using ev bound by (auto simp: evolves_def turns_bounded_def phase_of_def)
  show ?thesis
  proof (cases "c_status c")
    case SActive
    then show ?thesis
      using turns approved ev by (intro active_reaches) (auto simp: phase_of_def evolves_def)
  next
    case SProposed
    show ?thesis
    proof (cases "c_status c' = SProposed")
      case True
      then have "?p' = ?p" using ev SProposed by (simp add: phase_of_def evolves_def)
      then show ?thesis by simp
    next
      case False
      let ?a = "?p\<lparr>ph_status := SActive\<rparr>"
      have "moves (c_max_turns c) ?p ?a" using SProposed by (intro activate) (simp add: phase_of_def)
      moreover have "moves_on (c_max_turns c) ?a ?p'"
        using turns approved False by (intro active_reaches) (auto simp: phase_of_def)
      ultimately show ?thesis by (rule converse_rtranclp_into_rtranclp)
    qed
  qed (use ev finish [of "c_status c'" "c_max_turns c" ?p] in
      \<open>(cases "c_status c'"; force simp: phase_of_def evolves_def is_live_def)\<close>)+
qed

section \<open>What the relations say of single rows\<close>

lemma only_row:
  assumes "contracts_ok d" "c \<in> set (db_contracts d)"
  shows "crows d (c_id c) = [c]"
proof -
  have "filter (\<lambda>x. c_id x = c_id c) xs = [c]" if "distinct (map c_id xs)" "c \<in> set xs" for xs
    using that by (induction xs) (auto simp: filter_empty_conv rev_image_eqI)
  then show ?thesis using assms by (simp add: contracts_ok_def keys_ok_def crows_def)
qed

lemma row_evolves:
  assumes "concurrent f" "contracts_ok d" "c \<in> set (db_contracts d)" "c' \<in> set (db_contracts (f d))" "c_id c' = c_id c"
  shows "evolves c c'" and "row_ok d c" and "row_ok (f d) c'"
proof -
  have o: "lifecycle d (f d)" "contracts_ok (f d)"
    using concurrent_sound [OF assms(1), of d] assms(2) by (simp_all add: sound_def orderly_def)
  have r: "crows d (c_id c) = [c]" "crows (f d) (c_id c) = [c']"
    using only_row [OF assms(2,3)] only_row [OF o(2) assms(4)] assms(5) by simp_all
  have "crows d (c_id c) \<noteq> []" using r(1) by simp
  then have "list_all2 evolves (crows d (c_id c)) (crows (f d) (c_id c)) \<or> crows (f d) (c_id c) = []"
    using o(1) unfolding lifecycle_def by blast
  then show "evolves c c'" using r by simp
  show "row_ok d c" "row_ok (f d) c'" using assms(2-4) o(2) by (simp_all add: contracts_ok_def)
qed

lemma empty_ok: "inj ids \<Longrightarrow> contracts_ok (empty_db ids)"
  by (simp add: contracts_ok_def keys_ok_def empty_db_def)

lemma history_ok:
  assumes "concurrent f" "inj ids"
  shows "contracts_ok (f (empty_db ids))"
  using concurrent_sound [OF assms(1), of "empty_db ids"] empty_ok [OF assms(2)] by (simp add: sound_def orderly_def)

lemma approval_row_evolves:
  assumes "approvals_step d d'" "distinct (map ap_id (db_approvals d))"
    "a \<in> set (db_approvals d)" "a' \<in> set (db_approvals d')" "ap_id a' = ap_id a"
  shows "approval_evolves a a'"
proof -
  from assms(1) obtain old new where n: "db_approvals d' = old @ new" "list_all2 approval_evolves (db_approvals d) old"
    "ap_id ` set new \<inter> ap_id ` set (db_approvals d) = {}"
    by (auto simp: approvals_step_def)
  have "a' \<in> set old" using assms(3-5) n(1,3) by auto
  with n(2) assms(2,3,5) show ?thesis
  proof (induction rule: list_all2_induct)
    case (Cons x xs y ys)
    have ids: "map ap_id ys = map ap_id xs" using Cons(2) evolves_ids by blast
    have xy: "ap_id y = ap_id x" using Cons(1) by (simp add: approval_evolves_def)
    show ?case
    proof (cases "a = x")
      case True
      then have "a' \<notin> set ys"
        using Cons.prems ids by (metis distinct.simps(2) image_eqI list.set_map list.simps(9))
      with True Cons show ?thesis by auto
    next
      case False
      then have "a \<in> set xs" using Cons.prems by simp
      moreover have "a' \<noteq> y"
        using Cons.prems xy \<open>a \<in> set xs\<close> by (metis distinct.simps(2) image_eqI list.set_map list.simps(9))
      ultimately show ?thesis using Cons by auto
    qed
  qed simp
qed

end
