(* ===== verification/Sample.thy ===== *)
theory Sample
  imports LifecycleSpec
begin

text \<open>
  A small state on which the properties are shown to apply: two agents of different owners, their
  administrator, and a contract the second one has not answered yet.
\<close>

definition sample_agent :: "string \<Rightarrow> agent_row" where
  "sample_agent a = \<lparr>ag_id = a, ag_name = a @ ''-name'', ag_display_name = a, ag_owner = ''owner'', ag_owner_user_id = Some (''owner-'' @ a),
     ag_description = None, ag_capabilities = [], ag_protocols = [], ag_trust_notes = None,
     ag_trust_tier = ''partner'', ag_trust_policy = JObj [], ag_max_concurrent = None,
     ag_created_at = 0, ag_updated_at = 0\<rparr>"

definition sample_contract :: contract_row where
  "sample_contract = \<lparr>c_id = ''c'', c_title = ''Review'', c_description = None, c_status = SProposed,
     c_proposer_id = ''a'', c_max_turns = 3, c_current_turns = 0, c_message_schema = None, c_close_reason = None,
     c_closed_by = None, c_closed_by_kind = None, c_expires_at = None, c_closed_at = None,
     c_completion_requires_approval = True, c_completion_approved_at = None, c_completion_approved_by = None,
     c_closed_without_approval = False, c_unlinked_reason = None, c_created_at = 0, c_updated_at = 0\<rparr>"

definition sample_participant :: "string \<Rightarrow> participant_role \<Rightarrow> participant_status \<Rightarrow> participant_row" where
  "sample_participant a r s = \<lparr>p_id = a, p_contract_id = ''c'', p_agent_id = a, p_role = r, p_status = s, p_responded_at = None\<rparr>"

definition sample_approval :: approval_row where
  "sample_approval = \<lparr>ap_id = ''ap'', ap_action = ''key.rotate'', ap_actor = ''a-name'', ap_details = JObj [],
     ap_status = APending, ap_reviewed_by = None, ap_created_at = 0, ap_reviewed_at = None\<rparr>"

definition sample_ids :: "nat \<Rightarrow> string" where
  "sample_ids n = replicate (Suc n) CHR ''x''"

definition sample_db :: db where
  "sample_db = (empty_db sample_ids)\<lparr>
     db_contracts := [sample_contract],
     db_participants := [sample_participant ''a'' Proposer PAccepted, sample_participant ''b'' Invitee PPending],
     db_agents := [sample_agent ''a'', sample_agent ''b''],
     db_users := [\<lparr>u_id = ''owner-b'', u_display_name = ''Bea'', u_is_super_admin = True\<rparr>],
     db_approvals := [sample_approval]\<rparr>"

definition sample_request :: "string \<Rightarrow> request_body \<Rightarrow> request" where
  "sample_request a body = \<lparr>rq_agent = sample_agent a, rq_body = body, rq_forwarded_for = None, rq_real_ip = None,
     rq_idempotency_key = None\<rparr>"

definition sample_outside :: outside where
  "sample_outside = \<lparr>ou_to_text = (\<lambda>_. ''text''), ou_to_int = (\<lambda>_. None), ou_to_bool = (\<lambda>_. None),
     ou_safeParse = (\<lambda>_ _. []), ou_encode = (\<lambda>_. JNull), ou_reviewers = None, ou_secret = ''secret'',
     ou_sha256 = (\<lambda>s. s)\<rparr>"

text \<open>The second agent accepts; it asks to close the contract; it approves the request.\<close>

definition sample_accept :: "db \<Rightarrow> db" where
  "sample_accept = serve sample_outside (AcceptContract (sample_request ''b'' NoBody) ''c'') []"

definition sample_close :: "db \<Rightarrow> db" where
  "sample_close = serve sample_outside (CloseContract (sample_request ''b'' NoBody) ''c'') []"

definition sample_review :: "db \<Rightarrow> db" where
  "sample_review = serve sample_outside (ApproveRequest (sample_request ''b'' NoBody) ''ap'') []"

text \<open>
  From nothing: agents appear, the first proposes a gated contract to the second, which accepts; the
  first closes it without approval.
\<close>

definition sample_setup :: "db \<Rightarrow> db" where
  "sample_setup d = d\<lparr>db_agents := [sample_agent ''a'', sample_agent ''b''],
     db_users := [\<lparr>u_id = ''owner-b'', u_display_name = ''Bea'', u_is_super_admin = True\<rparr>]\<rparr>"

definition sample_propose :: "db \<Rightarrow> db" where
  "sample_propose = serve sample_outside (ProposeContract (sample_request ''a'' (Parsed (JObj
     [(''title'', JStr ''Review''), (''invitees'', JArr [JStr ''b-name'']), (''max_turns'', JNum (Fin 3)),
      (''completion_requires_approval'', JBool True),
      (''unlinked_reason'', JStr ''There is no task for this one yet.'')])))) []"

definition sample_agree :: "db \<Rightarrow> db" where
  "sample_agree = serve sample_outside (AcceptContract (sample_request ''b'' NoBody) (sample_ids 0)) []"

definition sample_refuse :: "db \<Rightarrow> db" where
  "sample_refuse = serve sample_outside (CloseContract (sample_request ''a'' (Parsed (JObj
     [(''without_approval'', JBool True), (''reason'', JStr ''The work was not delivered at all.'')]))) (sample_ids 0)) []"

definition sample_uuid :: "char \<Rightarrow> string" where
  "sample_uuid x = ''00000000-0000-4000-8000-00000000000'' @ [x]"

definition sample_link :: "char \<Rightarrow> char \<Rightarrow> db \<Rightarrow> db" where
  "sample_link x y = serve sample_outside (PostLink (sample_request ''a'' (Parsed (JObj
     [(''to_contract_id'', JStr (sample_uuid y)), (''link_type'', JStr ''continues'')]))) (sample_uuid x)) []"

definition sample_pair :: db where
  "sample_pair = (sample_db
     \<lparr>db_contracts := [sample_contract\<lparr>c_id := sample_uuid CHR ''1''\<rparr>, sample_contract\<lparr>c_id := sample_uuid CHR ''2''\<rparr>],
      db_participants := [(sample_participant ''a'' Proposer PAccepted)\<lparr>p_contract_id := sample_uuid CHR ''1''\<rparr>,
        (sample_participant ''a'' Proposer PAccepted)\<lparr>p_contract_id := sample_uuid CHR ''2''\<rparr>]\<rparr>)"

definition sample_ask :: "db \<Rightarrow> db" where
  "sample_ask = serve sample_outside (RequestApproval (sample_request ''a'' (Parsed (JObj
     [(''action'', JStr ''key.rotate'')])))) []"

definition sample_grant :: "db \<Rightarrow> db" where
  "sample_grant = serve sample_outside (ApproveRequest (sample_request ''b'' NoBody) (sample_ids 0)) []"

definition sample_agreed :: "db \<Rightarrow> db" where
  "sample_agreed d = sample_agree (sample_propose (sample_setup d))"

definition sample_refused :: "db \<Rightarrow> db" where
  "sample_refused d = sample_refuse (sample_agreed d)"

definition sample_linked :: "db \<Rightarrow> db" where
  "sample_linked d = sample_link CHR ''2'' CHR ''1'' (sample_link CHR ''1'' CHR ''2'' d)"

definition sample_granted :: "db \<Rightarrow> db" where
  "sample_granted d = sample_grant (sample_ask (sample_setup d))"

lemma sample_steps:
  "concurrent sample_setup" "concurrent sample_propose" "concurrent sample_accept" "concurrent sample_close"
  "concurrent sample_review" "concurrent sample_agree" "concurrent sample_refuse" "concurrent (sample_link x y)"
  "concurrent sample_ask" "concurrent sample_grant"
  unfolding sample_propose_def sample_accept_def sample_close_def sample_review_def sample_agree_def
    sample_refuse_def sample_link_def sample_ask_def sample_grant_def
  by (rule elsewhere, simp add: sample_setup_def) (rule served; simp)+

lemma sample_concurrent:
  "concurrent sample_agreed" "concurrent sample_refused" "concurrent sample_linked" "concurrent sample_granted"
proof -
  show agreed: "concurrent sample_agreed"
    unfolding sample_agreed_def
    using afterwards [OF afterwards [OF sample_steps(1,2)] sample_steps(6)] by simp
  show "concurrent sample_refused"
    unfolding sample_refused_def using afterwards [OF agreed sample_steps(7)] by simp
  show "concurrent sample_linked"
    unfolding sample_linked_def
    using afterwards [OF sample_steps(8) [of "CHR ''1''" "CHR ''2''"] sample_steps(8) [of "CHR ''2''" "CHR ''1''"]] by simp
  show "concurrent sample_granted"
    unfolding sample_granted_def
    using afterwards [OF afterwards [OF sample_steps(1,9)] sample_steps(10)] by simp
qed

lemma inj_sample_ids: "inj sample_ids"
  by (rule injI) (metis length_replicate old.nat.inject sample_ids_def)

lemma sample_ok: "contracts_ok sample_db"
  by (auto simp: contracts_ok_def keys_ok_def spent_def row_ok_def turns_bounded_def gate_respected_def turns_spent_def
      parts_def sample_db_def empty_db_def sample_contract_def sample_participant_def inj_sample_ids sample_ids_def)

lemma sample_accepted: "db_contracts (sample_accept sample_db) = [sample_contract\<lparr>c_status := SActive\<rparr>]"
  by code_simp

end
