(* ===== verification/AuthContext.thy ===== *)
theory AuthContext
  imports OperatorActions Sample
begin

text \<open>
  The signed-in user of the dashboard and the agent the user acts as (\<open>src/lib/auth-context.ts\<close>,
  \<open>src/lib/auth-actor-context.ts\<close>). What the session token resolves to (\<open>sessionUser\<close>: an id and an
  email) and the agent selected by cookie are parameters.
\<close>

section \<open>The user\<close>

record auth_agent =
  aa_id :: string
  aa_name :: string
  aa_displayName :: string
  aa_trustTier :: tier
  aa_trustPolicy :: trust_policy

record auth_user =
  us_id :: string
  us_email :: string
  us_isSuperAdmin :: bool
  us_displayName :: string
  us_agentIds :: "string list"
  us_agents :: "auth_agent list"
  us_trustTier :: tier
  us_trustPolicy :: trust_policy

text \<open>The position in \<open>TRUST_TIER_ORDER\<close>.\<close>

fun tier_order :: "tier \<Rightarrow> nat" where
  "tier_order External = 0"
| "tier_order Partner = 1"
| "tier_order Internal = 2"

definition selectMostRestrictiveTier :: "tier list \<Rightarrow> tier \<Rightarrow> tier" where
  "selectMostRestrictiveTier tiers fallback =
     foldl (\<lambda>current t. if tier_order t < tier_order current then t else current) fallback tiers"

definition selectLeastPrivilegeTier :: "tier list \<Rightarrow> tier" where
  "selectLeastPrivilegeTier tiers =
     foldl (\<lambda>current t. if tier_order t < tier_order current then t else current) Internal tiers"

definition buildLeastPrivilegeTrustPolicy :: "trust_policy list \<Rightarrow> trust_policy" where
  "buildLeastPrivilegeTrustPolicy policies =
     (let fallback = normalizeAgentTrustPolicy (Some JNull)
      in if policies = [] then fallback
         else \<lparr>tp_webhooks =
                \<lparr>wp_management = selectMostRestrictiveTier (map (\<lambda>p. wp_management (tp_webhooks p)) policies)
                  (wp_management (tp_webhooks fallback))\<rparr>,
              tp_observer_project_access =
                \<lparr>op_read = selectMostRestrictiveTier (map (\<lambda>p. op_read (tp_observer_project_access p)) policies)
                  (op_read (tp_observer_project_access fallback)),
                 op_download_project_attachments = selectMostRestrictiveTier
                  (map (\<lambda>p. op_download_project_attachments (tp_observer_project_access p)) policies)
                  (op_download_project_attachments (tp_observer_project_access fallback))\<rparr>,
              tp_project_participants =
                \<lparr>pp_list_members = selectMostRestrictiveTier (map (\<lambda>p. pp_list_members (tp_project_participants p)) policies)
                  (pp_list_members (tp_project_participants fallback)),
                 pp_list_observers = selectMostRestrictiveTier (map (\<lambda>p. pp_list_observers (tp_project_participants p)) policies)
                  (pp_list_observers (tp_project_participants fallback))\<rparr>,
              tp_project_invitations =
                \<lparr>ip_list_pending = selectMostRestrictiveTier (map (\<lambda>p. ip_list_pending (tp_project_invitations p)) policies)
                  (ip_list_pending (tp_project_invitations fallback))\<rparr>\<rparr>)"

definition auth_agent_of :: "agent_row \<Rightarrow> auth_agent" where
  "auth_agent_of a =
     (let name = (if js_trim (ag_name a) \<noteq> [] then ag_name a else ag_id a)
      in \<lparr>aa_id = ag_id a, aa_name = name,
          aa_displayName = (if js_trim (ag_display_name a) \<noteq> [] then ag_display_name a else name),
          aa_trustTier = normalizeAgentTrustTier (Some (JStr (ag_trust_tier a))),
          aa_trustPolicy = normalizeAgentTrustPolicy (Some (ag_trust_policy a))\<rparr>)"

definition display_name_of :: "user_row option \<Rightarrow> string option \<Rightarrow> string" where
  "display_name_of profile email =
     str_or (map_option u_display_name profile)
       (str_or (map_option (takeWhile (\<lambda>c. c \<noteq> CHR ''@'')) email) ''User'')"

definition auth_user_of :: "string \<Rightarrow> string option \<Rightarrow> user_row option \<Rightarrow> agent_row list \<Rightarrow> auth_user" where
  "auth_user_of userId email profile rows =
     (let agents = map auth_agent_of rows
      in \<lparr>us_id = userId, us_email = str_or email [],
          us_isSuperAdmin = (case profile of None \<Rightarrow> False | Some u \<Rightarrow> u_is_super_admin u),
          us_displayName = display_name_of profile email,
          us_agentIds = map aa_id agents, us_agents = agents,
          us_trustTier = (if agents \<noteq> [] then selectLeastPrivilegeTier (map aa_trustTier agents) else External),
          us_trustPolicy = buildLeastPrivilegeTrustPolicy (map aa_trustPolicy agents)\<rparr>)"

definition getAuthUser :: "(string \<times> string option) option \<Rightarrow> auth_user option prog" where
  "getAuthUser session =
     (case session of
        None \<Rightarrow> State_Monad.return None
      | Some (userId, email) \<Rightarrow> do {
          profileRes \<leftarrow> call (shaped shape_single (q_select db_users (\<lambda>u. u_id u = userId)));
          agentsRes \<leftarrow> call (q_select db_agents (\<lambda>a. ag_owner_user_id a = Some userId));
          State_Monad.return (Some (auth_user_of userId email (data_of profileRes) (rows_of agentsRes)))
        })"

section \<open>The agent the user acts as\<close>

datatype fallback_mode = SelectedAgent | LeastPrivilege

record actor_context =
  cx_user :: auth_user
  cx_actingAgent :: "auth_agent option"
  cx_trustTier :: tier
  cx_trustPolicy :: trust_policy
  cx_agentScope :: "string list"
  cx_fallbackMode :: fallback_mode

definition buildAgentScope :: "string list \<Rightarrow> string list" where
  "buildAgentScope agentIds = (if agentIds \<noteq> [] then agentIds else [EMPTY_UUID])"

definition actor_context_of :: "string option \<Rightarrow> auth_user \<Rightarrow> actor_context" where
  "actor_context_of selectedAgentId user =
     (case (if truthy_str selectedAgentId then find (\<lambda>a. aa_id a = the selectedAgentId) (us_agents user) else None) of
        Some agent \<Rightarrow>
          \<lparr>cx_user = user, cx_actingAgent = Some agent, cx_trustTier = aa_trustTier agent,
           cx_trustPolicy = aa_trustPolicy agent, cx_agentScope = [aa_id agent], cx_fallbackMode = SelectedAgent\<rparr>
      | None \<Rightarrow>
          \<lparr>cx_user = user, cx_actingAgent = None, cx_trustTier = us_trustTier user,
           cx_trustPolicy = buildLeastPrivilegeTrustPolicy (map aa_trustPolicy (us_agents user)),
           cx_agentScope = buildAgentScope (us_agentIds user), cx_fallbackMode = LeastPrivilege\<rparr>)"

definition getAuthActorContext ::
  "(string \<times> string option) option \<Rightarrow> string option \<Rightarrow> actor_context option prog" where
  "getAuthActorContext session selectedAgentId = do {
     user \<leftarrow> getAuthUser session;
     State_Monad.return (map_option (actor_context_of selectedAgentId) user)
   }"

text \<open>What the server actions take of it.\<close>

definition actor_of :: "actor_context \<Rightarrow> auth_actor" where
  "actor_of c =
     \<lparr>au_user_id = us_id (cx_user c), au_email = us_email (cx_user c), au_displayName = us_displayName (cx_user c),
      au_isSuperAdmin = us_isSuperAdmin (cx_user c), au_agentScope = cx_agentScope c,
      au_actingAgentId = map_option aa_id (cx_actingAgent c)\<rparr>"

section \<open>What the aggregate lets through\<close>

lemma tier_order_rank: "tier_order t = TIER_RANK t"
  by (cases t) simp_all

lemma foldl_lowest:
  "canAccessPolicyTier c (foldl (\<lambda>current t. if tier_order t < tier_order current then t else current) u ts) \<longleftrightarrow>
   canAccessPolicyTier c u \<or> (\<exists>t\<in>set ts. canAccessPolicyTier c t)"
  by (induction ts arbitrary: u) (auto simp: canAccessPolicyTier_def tier_order_rank)

lemma access_most_restrictive:
  "canAccessPolicyTier c (selectMostRestrictiveTier ts u) \<longleftrightarrow>
   canAccessPolicyTier c u \<or> (\<exists>t\<in>set ts. canAccessPolicyTier c t)"
  unfolding selectMostRestrictiveTier_def by (rule foldl_lowest)

lemma lowest_tier: "TIER_RANK (selectLeastPrivilegeTier ts) \<le> TIER_RANK t" if "t \<in> set ts"
  using that foldl_lowest [of t Internal ts] unfolding selectLeastPrivilegeTier_def canAccessPolicyTier_def by auto

text \<open>The aggregate policy of a user without an acting agent, named the least privileged one, lets a
  tier read a project, list its members or manage webhooks exactly when the default policy or the policy of some
  agent of the user does: it is the most permissive of them, the stricter policies have no effect.\<close>

theorem aggregate_policy_is_permissive:
  "\<forall>c. (let aggregate = buildLeastPrivilegeTrustPolicy ps; default = DEFAULT_AGENT_TRUST_POLICY in
      (canAccessPolicyTier c (op_read (tp_observer_project_access aggregate)) \<longleftrightarrow>
        (\<exists>p\<in>set (default # ps). canAccessPolicyTier c (op_read (tp_observer_project_access p)))) \<and>
      (canAccessPolicyTier c (pp_list_members (tp_project_participants aggregate)) \<longleftrightarrow>
        (\<exists>p\<in>set (default # ps). canAccessPolicyTier c (pp_list_members (tp_project_participants p)))) \<and>
      (canAccessPolicyTier c (wp_management (tp_webhooks aggregate)) \<longleftrightarrow>
        (\<exists>p\<in>set (default # ps). canAccessPolicyTier c (wp_management (tp_webhooks p)))))"
proof -
  have fallback: "normalizeAgentTrustPolicy (Some JNull) = DEFAULT_AGENT_TRUST_POLICY"
    by (simp add: normalizeAgentTrustPolicy_def DEFAULT_AGENT_TRUST_POLICY_def clampTier_def clampWebhookManagementTier_def
      clampAttachmentDownloadTier_def clampObserverListTier_def Let_def)
  show ?thesis
    by (auto simp: buildLeastPrivilegeTrustPolicy_def fallback access_most_restrictive Let_def)
qed

section \<open>Whose agents a session reaches\<close>

text \<open>The agents a user owns stay the same.\<close>

definition same_agents :: "db \<Rightarrow> db \<Rightarrow> bool" where
  "same_agents d d' \<longleftrightarrow> db_agents d' = db_agents d"

interpretation same_agents: rely_guarantee same_agents
  by unfold_locales (auto simp: same_agents_def)

definition owned_by :: "string \<Rightarrow> db \<Rightarrow> string set" where
  "owned_by userId d = ag_id ` {a \<in> set (db_agents d). ag_owner_user_id a = Some userId}"

lemma getAuthUser_owns:
  "valid same_agents (\<lambda>_. True) (getAuthUser (Some (userId, email)))
     (\<lambda>u d. \<forall>v. u = Some v \<longrightarrow> us_agentIds v = map aa_id (us_agents v) \<and> aa_id ` set (us_agents v) \<subseteq> owned_by userId d)"
  unfolding getAuthUser_def option.case prod.case
proof (rule same_agents.valid_bind)
  show "valid same_agents (\<lambda>_. True)
      (call (shaped shape_single (q_select db_users (\<lambda>u. u_id u = userId)))) (\<lambda>_ _. True)"
    by (rule same_agents.valid_call) (simp_all add: same_agents_def)
next
  fix p :: "user_row db_result"
  have rows: "valid same_agents (\<lambda>_. True) (call (q_select db_agents (\<lambda>a. ag_owner_user_id a = Some userId)))
      (\<lambda>r d. ag_id ` set (rows_of r) \<subseteq> owned_by userId d)"
    by (rule same_agents.valid_call) (auto simp: same_agents_def owned_by_def)
  show "valid same_agents (\<lambda>_. True) (call (q_select db_agents (\<lambda>a. ag_owner_user_id a = Some userId)) \<bind>
      (\<lambda>r. State_Monad.return (Some (auth_user_of userId email (data_of p) (rows_of r)))))
      (\<lambda>u d. \<forall>v. u = Some v \<longrightarrow> us_agentIds v = map aa_id (us_agents v) \<and> aa_id ` set (us_agents v) \<subseteq> owned_by userId d)"
    by (rule same_agents.valid_bind [OF rows], rule same_agents.valid_return)
      (auto simp: auth_user_of_def auth_agent_of_def Let_def)
qed

lemma scope_of_context:
  assumes "us_agentIds user = map aa_id (us_agents user)"
  shows "set (cx_agentScope (actor_context_of cookie user)) \<subseteq> insert EMPTY_UUID (aa_id ` set (us_agents user))"
proof (cases "if truthy_str cookie then find (\<lambda>a. aa_id a = the cookie) (us_agents user) else None")
  case None
  with assms show ?thesis by (auto simp: actor_context_of_def buildAgentScope_def)
next
  case (Some a)
  then have "a \<in> set (us_agents user)" by (auto simp: find_Some_iff split: if_splits)
  with Some show ?thesis by (auto simp: actor_context_of_def)
qed

lemma context_owns:
  "valid same_agents (\<lambda>_. True) (getAuthActorContext (Some (userId, email)) cookie)
     (\<lambda>c d. \<forall>x. c = Some x \<longrightarrow> set (cx_agentScope x) \<subseteq> insert EMPTY_UUID (owned_by userId d))"
proof -
  have "set (cx_agentScope x) \<subseteq> insert EMPTY_UUID (owned_by userId d)"
    if "\<forall>v. u = Some v \<longrightarrow> us_agentIds v = map aa_id (us_agents v) \<and> aa_id ` set (us_agents v) \<subseteq> owned_by userId d"
      and "map_option (actor_context_of cookie) u = Some x" for u x d
  proof -
    from that obtain v where "us_agentIds v = map aa_id (us_agents v)" "aa_id ` set (us_agents v) \<subseteq> owned_by userId d"
      "x = actor_context_of cookie v" by auto
    with scope_of_context [of v cookie] show ?thesis by auto
  qed
  then show ?thesis
    unfolding getAuthActorContext_def by (intro same_agents.valid_bind [OF getAuthUser_owns] same_agents.valid_return) blast
qed

text \<open>Property C24: whatever agent a cookie selects, a session acts only for agents its user owns.\<close>

theorem session_acts_for_own_agents:
  assumes "rely same_agents env"
    and "result (getAuthActorContext (Some (userId, email)) cookie) env d = Some c"
  shows "set (au_agentScope (actor_of c)) \<subseteq> insert EMPTY_UUID (owned_by userId d)"
proof -
  let ?m = "getAuthActorContext (Some (userId, email)) cookie"
  have "same_agents d (final ?m env d)"
    by (rule valid_run(1) [OF context_owns assms(1)]) simp
  moreover have "\<forall>x. result ?m env d = Some x \<longrightarrow>
      set (cx_agentScope x) \<subseteq> insert EMPTY_UUID (owned_by userId (final ?m env d))"
    by (rule valid_run(2) [OF context_owns assms(1)]) simp
  ultimately show ?thesis using assms(2) by (simp add: actor_of_def same_agents_def owned_by_def)
qed

definition sample_owner :: db where
  "sample_owner = (empty_db (\<lambda>n. ''id'' @ show_nat n))\<lparr>db_agents := [sample_agent ''a'', sample_agent ''b'']\<rparr>"

theorem session_acts_for_own_agents_witness:
  "\<exists>c. result (getAuthActorContext (Some (''owner-a'', None)) (Some ''b'')) [] sample_owner = Some c \<and>
     set (au_agentScope (actor_of c)) \<subseteq> insert EMPTY_UUID (owned_by ''owner-a'' sample_owner)"
proof -
  have "\<exists>c. result (getAuthActorContext (Some (''owner-a'', None)) (Some ''b'')) [] sample_owner = Some c"
    by (simp add: result_def run_def getAuthActorContext_def getAuthUser_def State_Monad.bind_def State_Monad.return_def
      call_def shaped_def q_select_def split: prod.splits sum.splits)
  then obtain c where c: "result (getAuthActorContext (Some (''owner-a'', None)) (Some ''b'')) [] sample_owner = Some c" ..
  then have "set (au_agentScope (actor_of c)) \<subseteq> insert EMPTY_UUID (owned_by ''owner-a'' sample_owner)"
    by (rule session_acts_for_own_agents [OF rely_Nil])
  with c show ?thesis by blast
qed

end
