(* ===== verification/SideTables.thy ===== *)
theory SideTables
  imports Idempotency RunRoutes
begin

text \<open>
  What almost every handler does besides its own work: it reads, takes the time, announces an event, writes the
  audit log, looks up and records an idempotency key, appends to a task's history. A relation between databases
  that only depends on a \<open>view\<close> those tables are no part of is kept by all of it.
\<close>

locale side_work = rely_guarantee R
  for R :: "db \<Rightarrow> db \<Rightarrow> bool" +
  fixes view :: "db \<Rightarrow> 'v"
  assumes later_view: "view d' = view d \<Longrightarrow> db_ids d' = db_ids d \<Longrightarrow> db_next d \<le> db_next d' \<Longrightarrow> R d d'"
    and view_audit: "view (db_audit_update f d) = view d"
    and view_idempotency: "view (db_idempotency_update g d) = view d"
    and view_activity: "view (db_activity_update h d) = view d"
    and view_comments: "view (db_comments_update k d) = view d"
    and view_next: "view (db_next_update n d) = view d"
begin

lemmas views = view_audit view_idempotency view_activity view_comments view_next

lemma keeps_later:
  "(\<And>d. view (snd (q d)) = view d) \<Longrightarrow> (\<And>d. db_ids (snd (q d)) = db_ids d) \<Longrightarrow> (\<And>d. db_next d \<le> db_next (snd (q d))) \<Longrightarrow>
   keeps R (call q)"
  by (intro keeps_call later_view)

lemma keeps_reading: "(\<And>d. snd (q d) = d) \<Longrightarrow> keeps R (call q)"
  by (intro keeps_later) simp_all

lemma keeps_audit: "keeps R (auditLog a b c d e f)"
  unfolding auditLog_def by (intro keeps_rules keeps_later) (simp_all add: q_insert_def views)

lemma keeps_audit_task: "keeps R (audit_task req a t c)"
  unfolding audit_task_def by (rule keeps_audit)

lemma keeps_activity: "keeps R (appendTaskActivityEvent p t a u e s m)"
  unfolding appendTaskActivityEvent_def by (intro keeps_rules keeps_later) (simp_all add: q_insert_def views)

lemma keeps_upsert_key: "keeps R (call (q_upsert_key b k a e s r x))"
  by (rule keeps_later) (simp_all add: q_upsert_key_def Let_def views split: option.split)

lemma keeps_delete_key: "keeps R (call (q_delete db_idempotency db_idempotency_update P))"
  by (rule keeps_later) (simp_all add: views)

lemma keeps_record_key: "keeps R (storeIdempotencyResponse k req e s b)"
  unfolding storeIdempotencyResponse_def by (intro keeps_rules keeps_upsert_key)

lemma keeps_look_up_key: "keeps R (checkIdempotency req e)"
  unfolding checkIdempotency_def Let_def
  by (intro keeps_rules keeps_later) (simp_all add: q_upsert_key_def Let_def views split: option.split)

lemma keeps_keyed:
  assumes "\<And>key. keeps R (k key)"
  shows "keeps R (with_key req e k)"
proof -
  have "keeps R (case x of
      Replay s b \<Rightarrow> State_Monad.return (Replayed s b)
    | KeyRefused s b \<Rightarrow> State_Monad.return (Refusal \<lparr>rf_status = s, rf_body = b\<rparr>)
    | Proceed key \<Rightarrow> k key)" for x
    by (cases x) (simp_all add: assms keeps_return)
  then show ?thesis
    unfolding with_key_def by (intro keeps_bind keeps_look_up_key)
qed

lemma keeps_access: "keeps R (getProjectAccess p a)"
  unfolding getProjectAccess_def by (intro keeps_rules keeps_reading) simp_all

lemma keeps_task_context: "keeps R (getTaskContext p t)"
  unfolding getTaskContext_def by (intro keeps_rules keeps_reading) simp_all

lemma keeps_read_project: "keeps R k \<Longrightarrow> keeps R (reading_project req p b k)"
  unfolding reading_project_def by (intro keeps_rules keeps_access)

lemma keeps_write_project: "(\<And>a. keeps R (k a)) \<Longrightarrow> keeps R (writing_project req p e k)"
  unfolding writing_project_def by (intro keeps_rules keeps_access)

lemmas keeps_side = keeps_audit keeps_audit_task keeps_activity keeps_upsert_key keeps_delete_key keeps_record_key keeps_look_up_key keeps_access
  keeps_task_context

end

text \<open>The usual case: the view says all, whatever identifiers are given out.\<close>

locale side_tables = rely_guarantee R
  for R :: "db \<Rightarrow> db \<Rightarrow> bool" +
  fixes view :: "db \<Rightarrow> 'v"
  assumes same_view: "view d' = view d \<Longrightarrow> R d d'"
    and aside_audit: "view (db_audit_update f d) = view d"
    and aside_idempotency: "view (db_idempotency_update g d) = view d"
    and aside_activity: "view (db_activity_update h d) = view d"
    and aside_comments: "view (db_comments_update k d) = view d"
    and aside_next: "view (db_next_update n d) = view d"

sublocale side_tables \<subseteq> side_work
  by unfold_locales (auto intro: same_view simp: aside_audit aside_idempotency aside_activity aside_comments aside_next)

context side_tables begin

lemma keeps_aside: "(\<And>d. view (snd (q d)) = view d) \<Longrightarrow> keeps R (call q)"
  by (intro keeps_call same_view)

end

end
