(* ===== verification/Agents.thy ===== *)
theory Agents
  imports HmacAuth AuthContext SideTables
begin

text \<open>
  Agents: who is an admin (\<open>src/lib/admin.ts\<close>), creating an agent with its first key, changing and
  deactivating one (\<open>src/lib/agent-lifecycle.ts\<close>), the routes under \<open>src/app/api/v1/agents\<close> (list, register,
  read, patch, card, rotation of a key) and the operator's actions on the page of an agent
  (\<open>src/app/(dashboard)/agents/[id]/actions.ts\<close>).

  Parameters: the environment; \<open>driver\<close>, what the database driver makes of a JSON value in a column of type
  text, list of texts or integer; the random secret and \<open>sha256\<close>. Reputation is not modelled.
\<close>

section \<open>Admins\<close>

definition readEnv :: "(string \<Rightarrow> string option) \<Rightarrow> string \<Rightarrow> string option" where
  "readEnv env suffix =
     (if truthy_str (env (''HOLLOWAY_'' @ suffix)) then env (''HOLLOWAY_'' @ suffix)
      else truthy_or_null (env (''A2A_'' @ suffix)))"

definition configured_admin_ids :: "(string \<Rightarrow> string option) \<Rightarrow> string list" where
  "configured_admin_ids env =
     js_set (filter (\<lambda>s. s \<noteq> []) (map js_trim (split_at CHR '','' (str_or (readEnv env ''ADMIN_AGENT_IDS'') []))))"

definition isAdminAgent :: "(string \<Rightarrow> string option) \<Rightarrow> string \<Rightarrow> string \<Rightarrow> bool" where
  "isAdminAgent env agentId agentName =
     (if configured_admin_ids env \<noteq> [] then agentId \<in> set (configured_admin_ids env)
      else case readEnv env ''ADMIN_AGENT'' of
        Some name \<Rightarrow> agentName \<noteq> [] \<and> agentName = name
      | None \<Rightarrow> False)"

definition getReservedNames :: "(string \<Rightarrow> string option) \<Rightarrow> string list" where
  "getReservedNames env =
     (let reserved = [''admin'', ''system'', ''platform'']
      in case readEnv env ''ADMIN_AGENT'' of
           Some name \<Rightarrow> if name \<notin> set reserved then reserved @ [name] else reserved
         | None \<Rightarrow> reserved)"

section \<open>Creating and changing agents\<close>

record agent_error =
  ge_message :: string
  ge_code :: string
  ge_status :: nat

definition agent_failure :: "string \<Rightarrow> string \<Rightarrow> nat \<Rightarrow> agent_error" where
  "agent_failure m c s = \<lparr>ge_message = m, ge_code = c, ge_status = s\<rparr>"

record driver =
  dv_text :: "json \<Rightarrow> string"
  dv_list :: "json \<Rightarrow> string list option"
  dv_int :: "json \<Rightarrow> int option"

text \<open>The pattern \<open>/^[a-z0-9][a-z0-9_-]*$/\<close>.\<close>

definition slug_char :: "char \<Rightarrow> bool" where
  "slug_char c \<longleftrightarrow> c \<in> set ''abcdefghijklmnopqrstuvwxyz0123456789''"

definition is_slug :: "string \<Rightarrow> bool" where
  "is_slug s = (case s of [] \<Rightarrow> False
     | c # cs \<Rightarrow> slug_char c \<and> list_all (\<lambda>x. slug_char x \<or> x = CHR ''_'' \<or> x = CHR ''-'') cs)"

definition validateAgentIdentity :: "(string \<Rightarrow> string option) \<Rightarrow> json \<Rightarrow> agent_error option" where
  "validateAgentIdentity env input =
     (let name = jprop (Some input) ''name''
      in if falsy name \<or> falsy (jprop (Some input) ''display_name'') \<or> falsy (jprop (Some input) ''owner'') then
           Some (agent_failure ''Missing required fields: name, display_name, owner'' ''VALIDATION_ERROR'' 400)
         else if \<not> is_slug (js_string_of name) then
           Some (agent_failure ''Agent name must be a slug (lowercase letters, numbers, hyphens, underscores)'' ''VALIDATION_ERROR'' 400)
         else if name \<in> Some ` JStr ` set (getReservedNames env) then
           Some (agent_failure (''Agent name \"'' @ js_string_of name @ ''\" is reserved and cannot be registered'') ''RESERVED_NAME'' 403)
         else None)"

text \<open>\<open>input.protocols && input.protocols.length > 0\<close>.\<close>

fun has_length :: "jvalue \<Rightarrow> bool" where
  "has_length (Some (JArr xs)) = (xs \<noteq> [])"
| "has_length (Some (JStr s)) = (s \<noteq> [])"
| "has_length (Some (JObj kvs)) = (case map_of kvs ''length'' of Some (JNum (Fin r)) \<Rightarrow> r > 0 | Some (JNum PosInf) \<Rightarrow> True | _ \<Rightarrow> False)"
| "has_length _ = False"

definition or_default :: "jvalue \<Rightarrow> json \<Rightarrow> json" where
  "or_default v j = (if is_nullish v then j else the v)"

text \<open>The row of a new agent; \<open>None\<close> when the driver cannot write it.\<close>

definition normalizeCreatePayload :: "driver \<Rightarrow> json \<Rightarrow> string \<Rightarrow> timestamp \<Rightarrow> agent_row option" where
  "normalizeCreatePayload dv input fresh created =
     (let trustTier = normalizeAgentTrustTier (jprop (Some input) ''trust_tier'');
          protocols = (if has_length (jprop (Some input) ''protocols'') then the (jprop (Some input) ''protocols'')
            else JArr [JStr ''a2a-comms-v1'']);
          policy = jprop (Some input) ''trust_policy'';
          text = (\<lambda>k. column_text (dv_text dv) (jprop (Some input) k))
      in case (dv_list dv (or_default (jprop (Some input) ''capabilities'') (JArr [])), dv_list dv protocols,
               dv_int dv (or_default (jprop (Some input) ''max_concurrent_contracts'') (jint 10))) of
           (Some caps, Some prots, Some n) \<Rightarrow> Some
             \<lparr>ag_id = fresh, ag_name = the (text ''name''), ag_display_name = the (text ''display_name''),
              ag_owner = the (text ''owner''), ag_owner_user_id = text ''owner_user_id'', ag_description = text ''description'',
              ag_capabilities = caps, ag_protocols = prots, ag_trust_notes = text ''trust_notes'',
              ag_trust_tier = tier_name trustTier,
              ag_trust_policy = policy_json (if \<not> falsy policy then normalizeAgentTrustPolicy policy
                else buildDefaultAgentTrustPolicyForTier trustTier),
              ag_max_concurrent = Some n, ag_created_at = created, ag_updated_at = created\<rparr>
         | _ \<Rightarrow> None)"

definition invalid_input :: db_error where
  "invalid_input = \<lparr>de_code = ''22P02'', de_message = ''invalid input syntax''\<rparr>"

definition q_insert_agent :: "driver \<Rightarrow> json \<Rightarrow> agent_row list statement" where
  "q_insert_agent dv input = with_fresh (\<lambda>fresh d.
     case normalizeCreatePayload dv input fresh (db_now d) of
       None \<Rightarrow> (Inl invalid_input, d)
     | Some a \<Rightarrow> q_insert db_agents db_agents_update (\<lambda>n r. ag_name n = ag_name r) [a] d)"

record new_key =
  nk_key_id :: "string option"
  nk_label :: "string option"
  nk_signing_secret :: "string option"
  nk_human_owner :: "string option"

definition first_key ::
  "string \<Rightarrow> (string \<Rightarrow> string) \<Rightarrow> new_key option \<Rightarrow> string \<Rightarrow> agent_row \<Rightarrow> string \<Rightarrow> timestamp \<Rightarrow> service_key_row" where
  "first_key random sha256 key keyId agent fresh created =
     (let secret = str_or (Option.bind key nk_signing_secret) random
      in \<lparr>sk_id = fresh, sk_key_id = keyId, sk_signing_secret = secret, sk_agent_id = Some (ag_id agent), sk_is_active = True,
          sk_expires_at = None, sk_key_hash = sha256 secret,
          sk_human_owner = (case Option.bind key nk_human_owner of Some o' \<Rightarrow> Some o' | None \<Rightarrow> Some (ag_owner agent)),
          sk_label = (case Option.bind key nk_label of Some l \<Rightarrow> Some l
            | None \<Rightarrow> Some (ag_display_name agent @ '' production key'')),
          sk_rotated_at = None, sk_created_at = created\<rparr>)"

definition drop_agent :: "agent_row \<Rightarrow> agent_error \<Rightarrow> (agent_error + 'a) prog" where
  "drop_agent agent e = do {
     _ \<leftarrow> call (q_delete db_agents db_agents_update (\<lambda>a. ag_id a = ag_id agent));
     State_Monad.return (Inl e)
   }"

definition createAgentWithServiceKey ::
  "(string \<Rightarrow> string option) \<Rightarrow> driver \<Rightarrow> string \<Rightarrow> (string \<Rightarrow> string) \<Rightarrow> json \<Rightarrow> new_key option \<Rightarrow>
   (agent_error + agent_row \<times> service_key_row) prog" where
  "createAgentWithServiceKey env dv random sha256 input key =
     (case validateAgentIdentity env input of
        Some e \<Rightarrow> State_Monad.return (Inl e)
      | None \<Rightarrow> do {
          let name = the (column_text (dv_text dv) (jprop (Some input) ''name''));
          existing \<leftarrow> call (shaped shape_maybe (q_select db_agents (\<lambda>a. ag_name a = name)));
          if maybe_of existing \<noteq> None then
            State_Monad.return (Inl (agent_failure (''Agent with name \"'' @ name @ ''\" already exists'') ''DUPLICATE'' 409))
          else do {
            inserted \<leftarrow> call (shaped shape_single (q_insert_agent dv input));
            case inserted of
              Inl e \<Rightarrow> State_Monad.return (Inl (agent_failure (str_or (Some (de_message e)) ''Failed to create agent'') ''DB_ERROR'' 500))
            | Inr agent \<Rightarrow> do {
                let keyId = str_or (Option.bind key nk_key_id) (name @ ''-prod'');
                existingKey \<leftarrow> call (shaped shape_maybe (q_select db_service_keys (\<lambda>k. sk_key_id k = keyId)));
                if maybe_of existingKey \<noteq> None then
                  drop_agent agent (agent_failure (''Service key \"'' @ keyId @ ''\" already exists'') ''DUPLICATE_KEY'' 409)
                else do {
                  insertedKey \<leftarrow> call (shaped shape_single (with_fresh (\<lambda>fresh d.
                    q_insert db_service_keys db_service_keys_update (\<lambda>n r. sk_key_id n = sk_key_id r)
                      [first_key random sha256 key keyId agent fresh (db_now d)] d)));
                  case insertedKey of
                    Inl e \<Rightarrow> drop_agent agent (agent_failure (str_or (Some (de_message e)) ''Failed to create service key'') ''DB_ERROR'' 500)
                  | Inr k \<Rightarrow> State_Monad.return (Inr (agent, k))
                }
              }
          }
        })"

text \<open>
  The columns an update sets. \<open>None\<close> is a column it leaves alone; a list or number the driver cannot write
  makes the whole update fail.
\<close>

definition agent_fields :: "string list" where
  "agent_fields = [''capabilities'', ''protocols'', ''max_concurrent_contracts'', ''description'', ''trust_tier'',
     ''trust_notes'', ''trust_policy'']"

definition list_column :: "driver \<Rightarrow> json \<Rightarrow> string \<Rightarrow> string list \<Rightarrow> string list option" where
  "list_column dv input k old =
     (case jprop (Some input) k of None \<Rightarrow> Some old | Some j \<Rightarrow> if j = JNull then Some [] else dv_list dv j)"

definition buildAgentUpdateFields :: "driver \<Rightarrow> json \<Rightarrow> agent_row \<Rightarrow> agent_row option" where
  "buildAgentUpdateFields dv input a =
     (case (list_column dv input ''capabilities'' (ag_capabilities a), list_column dv input ''protocols'' (ag_protocols a),
            case jprop (Some input) ''max_concurrent_contracts'' of None \<Rightarrow> Some (ag_max_concurrent a)
              | Some j \<Rightarrow> if j = JNull then Some None else map_option Some (dv_int dv j)) of
        (Some caps, Some prots, Some n) \<Rightarrow> Some (a\<lparr>
          ag_capabilities := caps, ag_protocols := prots, ag_max_concurrent := n,
          ag_description := (case jprop (Some input) ''description'' of None \<Rightarrow> ag_description a
            | Some j \<Rightarrow> column_text (dv_text dv) (Some j)),
          ag_trust_tier := (case jprop (Some input) ''trust_tier'' of None \<Rightarrow> ag_trust_tier a
            | Some j \<Rightarrow> tier_name (normalizeAgentTrustTier (Some j))),
          ag_trust_notes := (case jprop (Some input) ''trust_notes'' of None \<Rightarrow> ag_trust_notes a
            | Some j \<Rightarrow> column_text (dv_text dv) (Some j)),
          ag_trust_policy := (case jprop (Some input) ''trust_policy'' of None \<Rightarrow> ag_trust_policy a
            | Some j \<Rightarrow> policy_json (normalizeAgentTrustPolicy (Some j)))\<rparr>)
      | _ \<Rightarrow> None)"

text \<open>What deactivating an agent writes instead, computed from the row read before.\<close>

definition deactivated :: "string \<Rightarrow> agent_row \<Rightarrow> agent_row \<Rightarrow> agent_row" where
  "deactivated reason old a = a\<lparr>
     ag_description := ag_description old,
     ag_capabilities := filter (\<lambda>c. c \<noteq> ''active'') (ag_capabilities old),
     ag_trust_notes := Some (join (nl @ nl) (filter (\<lambda>s. s \<noteq> []) [str_or (ag_trust_notes old) [], reason]))\<rparr>"

text \<open>The columns that a deactivation overrides are not taken from the request.\<close>

definition overridden :: "json \<Rightarrow> json" where
  "overridden input = (case input of
     JObj kvs \<Rightarrow> JObj (filter (\<lambda>kv. fst kv \<notin> {''capabilities'', ''description'', ''trust_notes''}) kvs)
   | _ \<Rightarrow> input)"

text \<open>\<open>deactivate_reason?.trim() || 'Agent deactivated'\<close>; a reason that is no text has no \<open>trim\<close>.\<close>

definition deactivate_reason :: "json \<Rightarrow> string option" where
  "deactivate_reason input =
     (let v = jprop (Some input) ''deactivate_reason''
      in if is_nullish v then Some ''Agent deactivated''
         else map_option (\<lambda>s. if js_trim s \<noteq> [] then js_trim s else ''Agent deactivated'') (as_string v))"

definition q_update_agent :: "driver \<Rightarrow> string \<Rightarrow> json \<Rightarrow> (agent_row \<Rightarrow> agent_row) \<Rightarrow> timestamp \<Rightarrow> agent_row list statement" where
  "q_update_agent dv agentId input finish now d =
     (if \<exists>a\<in>set (db_agents d). ag_id a = agentId \<and> buildAgentUpdateFields dv input a = None then (Inl invalid_input, d)
      else q_update db_agents db_agents_update (\<lambda>a. ag_id a = agentId)
        (\<lambda>a. (finish (the (buildAgentUpdateFields dv input a)))\<lparr>ag_updated_at := now\<rparr>) d)"

definition revoked :: "timestamp \<Rightarrow> service_key_row \<Rightarrow> service_key_row" where
  "revoked now k = k\<lparr>sk_is_active := False, sk_expires_at := Some now, sk_rotated_at := Some now\<rparr>"

text \<open>Deleting webhooks deletes their deliveries with them.\<close>

definition q_delete_webhooks :: "string \<Rightarrow> webhook_row list statement" where
  "q_delete_webhooks agentId d =
     (case q_delete db_webhooks db_webhooks_update (\<lambda>w. wh_agent_id w = agentId) d of
        (r, d') \<Rightarrow> (r, db_deliveries_update (filter (\<lambda>x. dl_webhook_id x \<notin> wh_id ` set (rows_of r))) d'))"

definition switch_off_agent :: "string \<Rightarrow> agent_row \<Rightarrow> (agent_error + agent_row) prog" where
  "switch_off_agent agentId updated = do {
     now \<leftarrow> clock;
     r \<leftarrow> call (q_update db_service_keys db_service_keys_update (\<lambda>k. sk_agent_id k = Some agentId \<and> sk_is_active k) (revoked now));
     case r of
       Inl e \<Rightarrow> State_Monad.return (Inl (agent_failure (de_message e) ''DB_ERROR'' 500))
     | Inr _ \<Rightarrow> do {
         _ \<leftarrow> call (q_delete_webhooks agentId);
         State_Monad.return (Inr updated)
       }
   }"

text \<open>The outer sum is the exception that is no \<open>AgentLifecycleError\<close>.\<close>

definition updateAgentLifecycle :: "driver \<Rightarrow> string \<Rightarrow> json \<Rightarrow> (string + agent_error + agent_row) prog" where
  "updateAgentLifecycle dv agentId input = do {
     found \<leftarrow> call (shaped shape_single (q_select db_agents (\<lambda>a. ag_id a = agentId)));
     case data_of found of
       None \<Rightarrow> State_Monad.return (Inr (Inl (agent_failure ''Agent not found'' ''NOT_FOUND'' 404)))
     | Some agent \<Rightarrow> do {
         let isDeactivating = (\<not> falsy (jprop (Some input) ''deactivate''));
         if isDeactivating \<and> deactivate_reason input = None then State_Monad.return (Inl ''TypeError'')
         else if \<not> isDeactivating \<and> (\<forall>k\<in>set agent_fields. jprop (Some input) k = None) then
           State_Monad.return (Inr (Inl (agent_failure ''No valid fields to update'' ''VALIDATION_ERROR'' 400)))
         else do {
           now \<leftarrow> clock;
           r \<leftarrow> call (shaped shape_single (q_update_agent dv agentId (if isDeactivating then overridden input else input)
             (if isDeactivating then deactivated (the (deactivate_reason input)) agent else id) now));
           case r of
             Inl e \<Rightarrow> State_Monad.return (Inr (Inl (agent_failure (str_or (Some (de_message e)) ''Failed to update agent'') ''DB_ERROR'' 500)))
           | Inr updated \<Rightarrow>
               if isDeactivating then do { x \<leftarrow> switch_off_agent agentId updated; State_Monad.return (Inr x) }
               else State_Monad.return (Inr (Inr updated))
         }
       }
   }"

section \<open>Routes\<close>

definition is_admin :: "(string \<Rightarrow> string option) \<Rightarrow> request \<Rightarrow> bool" where
  "is_admin env req = isAdminAgent env (ag_id (rq_agent req)) (ag_name (rq_agent req))"

definition agent_reply :: "agent_error \<Rightarrow> 'b response" where
  "agent_reply e = reply_error (ge_status e) (ge_message e) (ge_code e)"

text \<open>An agent as others see it: without its notes and its policy.\<close>

record agent_view =
  gv_agent :: agent_row
  gv_redacted :: bool

definition redactSensitiveFields :: "agent_row \<Rightarrow> agent_view" where
  "redactSensitiveFields a = \<lparr>gv_agent = a\<lparr>ag_trust_notes := None, ag_trust_policy := JNull\<rparr>, gv_redacted = True\<rparr>"

definition shown_to :: "(string \<Rightarrow> string option) \<Rightarrow> request \<Rightarrow> agent_row \<Rightarrow> agent_view" where
  "shown_to env req a =
     (if is_admin env req \<or> ag_id a = ag_id (rq_agent req) then \<lparr>gv_agent = a, gv_redacted = False\<rparr> else redactSensitiveFields a)"

definition agents_get :: "(string \<Rightarrow> string option) \<Rightarrow> request \<Rightarrow> agent_view list response prog" where
  "agents_get env req = do {
     r \<leftarrow> call (\<lambda>d. (Inr (sort_key ag_created_at (db_agents d)), d));
     State_Monad.return (case r of
         Inl _ \<Rightarrow> reply_error 500 ''Failed to fetch agents'' ''DB_ERROR''
       | Inr rows \<Rightarrow> Answer 200 (map (shown_to env req) rows))
   }"

definition agents_post ::
  "(string \<Rightarrow> string option) \<Rightarrow> driver \<Rightarrow> string \<Rightarrow> (string \<Rightarrow> string) \<Rightarrow> request \<Rightarrow> (agent_row \<times> service_key_row) response prog" where
  "agents_post env dv random sha256 req =
     (if \<not> is_admin env req then State_Monad.return (forbidden ''Only the admin agent can register agents via API'')
      else case rq_body req of
        Parsed j \<Rightarrow>
          if j = JNull then State_Monad.return (Thrown ''TypeError'')
          else if jprop (Some j) ''name'' \<in> Some ` JStr ` set (getReservedNames env) then
            State_Monad.return (reply_error 403 (''Agent name \"'' @ js_string_of (jprop (Some j) ''name'') @
              ''\" is reserved and cannot be registered'') ''RESERVED_NAME'')
          else do {
            created \<leftarrow> createAgentWithServiceKey env dv random sha256 j
              (Some \<lparr>nk_key_id = None, nk_label = None, nk_signing_secret = None,
                     nk_human_owner = column_text (dv_text dv) (jprop (Some j) ''owner'')\<rparr>);
            case created of
              Inl e \<Rightarrow> State_Monad.return (agent_reply e)
            | Inr ak \<Rightarrow> do {
                auditLog (ag_name (rq_agent req)) ''agent.register'' (Some ''agent'') (Some (ag_id (fst ak)))
                  (Some [(''name'', or_default (jprop (Some j) ''name'') JNull), (''owner'', or_default (jprop (Some j) ''owner'') JNull)])
                  (Some (getClientIp req));
                State_Monad.return (Answer 201 ak)
              }
          }
      | _ \<Rightarrow> State_Monad.return (reply_error 400 ''Invalid JSON body'' ''INVALID_BODY''))"

definition agent_get :: "(string \<Rightarrow> string option) \<Rightarrow> request \<Rightarrow> string \<Rightarrow> agent_view response prog" where
  "agent_get env req i = do {
     r \<leftarrow> call (shaped shape_single (q_select db_agents (\<lambda>a. ag_id a = i)));
     State_Monad.return (case data_of r of
         None \<Rightarrow> reply_error 404 ''Agent not found'' ''NOT_FOUND''
       | Some a \<Rightarrow> Answer 200 (if ag_id (rq_agent req) = i \<or> is_admin env req then \<lparr>gv_agent = a, gv_redacted = False\<rparr>
                             else redactSensitiveFields a))
   }"

definition patched_fields :: "json \<Rightarrow> string list" where
  "patched_fields j = filter (\<lambda>k. jprop (Some j) k \<noteq> None) (agent_fields @ [''deactivate'', ''deactivate_reason''])"

definition agent_patch :: "(string \<Rightarrow> string option) \<Rightarrow> driver \<Rightarrow> request \<Rightarrow> string \<Rightarrow> agent_row response prog" where
  "agent_patch env dv req i =
     (if ag_id (rq_agent req) \<noteq> i \<and> \<not> is_admin env req then
        State_Monad.return (forbidden ''Not authorized to update this agent'')
      else case rq_body req of
        Parsed j \<Rightarrow>
          (let trustTier = jprop (Some j) ''trust_tier''
           in if j = JNull then State_Monad.return (Thrown ''TypeError'')
              else if trustTier \<noteq> None \<and> \<not> isAgentTrustTier trustTier then
                State_Monad.return (reply_error 400 ''Invalid trust_tier. Must be one of: internal, partner, external'' ''VALIDATION_ERROR'')
              else if trustTier \<noteq> None \<and> \<not> is_admin env req then
                State_Monad.return (forbidden (''An agent cannot set its own trust tier. A super admin can change it from the '' @
                  ''agent page in the dashboard.''))
              else do {
                r \<leftarrow> updateAgentLifecycle dv i j;
                case r of
                  Inl e \<Rightarrow> State_Monad.return (Thrown e)
                | Inr s \<Rightarrow> (case s of
                    Inl e \<Rightarrow> State_Monad.return (agent_reply e)
                  | Inr a \<Rightarrow> do {
                      auditLog (ag_name (rq_agent req)) ''agent.update'' (Some ''agent'') (Some i)
                        (Some [(''updated_fields'', JArr (map JStr (patched_fields j)))]) (Some (getClientIp req));
                      State_Monad.return (Answer 200 a)
                    })
              })
      | _ \<Rightarrow> State_Monad.return (reply_error 400 ''Invalid JSON body'' ''INVALID_BODY''))"

text \<open>The public card of an agent.\<close>

record agent_card =
  ca_name :: string
  ca_display_name :: string
  ca_description :: string
  ca_capabilities :: "string list"
  ca_protocols :: "string list"
  ca_max_concurrent_contracts :: "int option"
  ca_endpoint :: string
  ca_created_at :: timestamp

definition agent_card_of :: "agent_row \<Rightarrow> agent_card" where
  "agent_card_of a =
     \<lparr>ca_name = ag_name a, ca_display_name = ag_display_name a,
      ca_description = str_or (ag_description a) (ag_display_name a @ '' agent on Holloway''),
      ca_capabilities = ag_capabilities a, ca_protocols = ag_protocols a,
      ca_max_concurrent_contracts = ag_max_concurrent a,
      ca_endpoint = ''/api/v1/agents/'' @ ag_id a @ ''/card'', ca_created_at = ag_created_at a\<rparr>"

definition agent_card_get :: "string \<Rightarrow> agent_card response prog" where
  "agent_card_get i = do {
     r \<leftarrow> call (shaped shape_single (q_select db_agents (\<lambda>a. ag_id a = i)));
     State_Monad.return (case data_of r of
         None \<Rightarrow> reply_error 404 ''Agent not found'' ''NOT_FOUND''
       | Some a \<Rightarrow> Answer 200 (agent_card_of a))
   }"

section \<open>Rotating a key\<close>

definition q_current_key :: "string \<Rightarrow> service_key_row list statement" where
  "q_current_key agentId d =
     (Inr (take 1 (sort_key (\<lambda>k. - sk_created_at k)
        (filter (\<lambda>k. sk_agent_id k = Some agentId \<and> sk_is_active k \<and> sk_expires_at k = None) (db_service_keys d)))), d)"

text \<open>\<open>key_id.split('-rotated-')[0]\<close>.\<close>

fun before_rotated :: "string \<Rightarrow> string" where
  "before_rotated [] = []"
| "before_rotated (c # cs) = (if take 9 (c # cs) = ''-rotated-'' then [] else c # before_rotated cs)"

definition set_expiry :: "string \<Rightarrow> timestamp option \<Rightarrow> timestamp option \<Rightarrow> service_key_row list statement" where
  "set_expiry i expires rotated = q_update db_service_keys db_service_keys_update (\<lambda>k. sk_id k = i)
     (\<lambda>k. k\<lparr>sk_expires_at := expires, sk_rotated_at := rotated\<rparr>)"

text \<open>The hash column takes the hash of the key's id here, of its secret everywhere else.\<close>

definition next_key :: "string \<Rightarrow> (string \<Rightarrow> string) \<Rightarrow> service_key_row \<Rightarrow> string \<Rightarrow> string \<Rightarrow> string \<Rightarrow> timestamp \<Rightarrow> service_key_row" where
  "next_key secret sha256 current newKeyId agentId fresh created =
     \<lparr>sk_id = fresh, sk_key_id = newKeyId, sk_signing_secret = secret, sk_agent_id = Some agentId, sk_is_active = True,
      sk_expires_at = None, sk_key_hash = sha256 newKeyId, sk_human_owner = sk_human_owner current,
      sk_label = (if truthy_str (sk_label current) then Some (the (sk_label current) @ '' (rotated)'') else Some ''rotated''),
      sk_rotated_at = None, sk_created_at = created\<rparr>"

record rotation =
  ro_key_id :: string
  ro_signing_secret :: string
  ro_old_key_expires_at :: timestamp

definition rotated_details :: "agent_row \<Rightarrow> string \<Rightarrow> service_key_row \<Rightarrow> string \<Rightarrow> timestamp \<Rightarrow> content" where
  "rotated_details target agentId current newKeyId expires =
     [(''agent_id'', JStr agentId), (''agent_name'', JStr (ag_name target)), (''old_key_id'', JStr (sk_key_id current)),
      (''new_key_id'', JStr newKeyId), (''old_key_expires_at'', jint expires)]"

definition rotate_current ::
  "string \<Rightarrow> (string \<Rightarrow> string) \<Rightarrow> request \<Rightarrow> string \<Rightarrow> agent_row \<Rightarrow> service_key_row \<Rightarrow> rotation response prog" where
  "rotate_current random sha256 req agentId target current = do {
     timestamp \<leftarrow> clock;
     let newKeyId = before_rotated (sk_key_id current) @ ''-rotated-'' @ show_int timestamp;
     now \<leftarrow> clock;
     let expires = now + 3600000;
     rotated \<leftarrow> clock;
     r \<leftarrow> call (set_expiry (sk_id current) (Some expires) (Some rotated));
     case r of
       Inl _ \<Rightarrow> State_Monad.return (reply_error 500 ''Failed to update old key'' ''DB_ERROR'')
     | Inr _ \<Rightarrow> do {
         inserted \<leftarrow> call (shaped shape_single (with_fresh (\<lambda>fresh d.
           q_insert db_service_keys db_service_keys_update (\<lambda>n k. sk_key_id n = sk_key_id k)
             [next_key random sha256 current newKeyId agentId fresh (db_now d)] d)));
         case inserted of
           Inl _ \<Rightarrow> do {
             _ \<leftarrow> call (set_expiry (sk_id current) None None);
             State_Monad.return (reply_error 500 ''Failed to create new key'' ''DB_ERROR'')
           }
         | Inr newKey \<Rightarrow> do {
             auditLog (ag_name (rq_agent req)) ''key.rotate'' (Some ''service_key'') (Some (sk_id newKey))
               (Some (rotated_details target agentId current newKeyId expires)) (Some (getClientIp req));
             State_Monad.return (Answer 200
               \<lparr>ro_key_id = newKeyId, ro_signing_secret = random, ro_old_key_expires_at = expires\<rparr>)
           }
       }
   }"

definition keys_rotate_post ::
  "(string \<Rightarrow> string option) \<Rightarrow> string \<Rightarrow> (string \<Rightarrow> string) \<Rightarrow> request \<Rightarrow> string \<Rightarrow> rotation response prog" where
  "keys_rotate_post env random sha256 req agentId = do {
     found \<leftarrow> call (shaped shape_single (q_select db_agents (\<lambda>a. ag_id a = agentId)));
     case data_of found of
       None \<Rightarrow> State_Monad.return (reply_error 404 ''Agent not found'' ''NOT_FOUND'')
     | Some target \<Rightarrow>
         if ag_id (rq_agent req) \<noteq> ag_id target \<and> \<not> is_admin env req then
           State_Monad.return (forbidden ''Not authorized to rotate keys for this agent'')
         else do {
           key \<leftarrow> call (shaped shape_single (q_current_key agentId));
           case data_of key of
             None \<Rightarrow> State_Monad.return (reply_error 404 ''No active service key found for this agent'' ''NO_KEY'')
           | Some current \<Rightarrow> rotate_current random sha256 req agentId target current
         }
   }"

section \<open>Operator actions\<close>

text \<open>The agent, when the user may edit it.\<close>

definition own_agent :: "auth_user \<Rightarrow> string \<Rightarrow> string \<Rightarrow> (string + agent_row) prog" where
  "own_agent user agentId refusal = do {
     r \<leftarrow> call (shaped shape_single (q_select db_agents (\<lambda>a. ag_id a = agentId)));
     State_Monad.return (case data_of r of
         None \<Rightarrow> Inl ''Agent not found''
       | Some a \<Rightarrow> if \<not> us_isSuperAdmin user \<and> ag_owner_user_id a \<noteq> Some (us_id user) then Inl refusal else Inr a)
   }"

definition only_own_keys :: string where
  "only_own_keys = ''You can only rotate keys for your own agents''"

definition requestKeyRotation :: "string option \<Rightarrow> auth_user option \<Rightarrow> string \<Rightarrow> (string + string) prog" where
  "requestKeyRotation reviewers signed agentId =
     (case signed of
        None \<Rightarrow> State_Monad.return (Inl ''Not authenticated'')
      | Some user \<Rightarrow> do {
          target \<leftarrow> own_agent user agentId only_own_keys;
          case target of
            Inl e \<Rightarrow> State_Monad.return (Inl e)
          | Inr a \<Rightarrow> requestApproval reviewers ''key.rotate'' (us_displayName user)
              [(''agent_id'', JStr agentId), (''agent_name'', JStr (ag_name a)), (''user_id'', JStr (us_id user))]
        })"

definition rotateAgentKey :: "string option \<Rightarrow> auth_user option \<Rightarrow> string \<Rightarrow> (string + string) prog" where
  "rotateAgentKey reviewers signed agentId = requestKeyRotation reviewers signed agentId"

definition dashboard_key :: "string \<Rightarrow> (string \<Rightarrow> string) \<Rightarrow> agent_row \<Rightarrow> string \<Rightarrow> string \<Rightarrow> timestamp \<Rightarrow> service_key_row" where
  "dashboard_key secret sha256 agent keyId fresh created =
     \<lparr>sk_id = fresh, sk_key_id = keyId, sk_signing_secret = secret, sk_agent_id = Some (ag_id agent), sk_is_active = True,
      sk_expires_at = None, sk_key_hash = sha256 secret, sk_human_owner = None,
      sk_label = Some (ag_display_name agent @ '' production key (rotated)''), sk_rotated_at = None, sk_created_at = created\<rparr>"

definition expire_current :: "service_key_row list \<Rightarrow> unit prog" where
  "expire_current keys =
     (if keys = [] then State_Monad.return () else do { now \<leftarrow> clock; expire_keys keys (now + 3600000) })"

definition executeKeyRotation ::
  "string \<Rightarrow> (string \<Rightarrow> string) \<Rightarrow> auth_user option \<Rightarrow> string \<Rightarrow> string \<Rightarrow> (string + string \<times> string) prog" where
  "executeKeyRotation secret sha256 signed agentId approvalId =
     (case signed of
        None \<Rightarrow> State_Monad.return (Inl ''Not authenticated'')
      | Some user \<Rightarrow> do {
          approval \<leftarrow> consumeApproval approvalId (us_displayName user);
          case approval of
            None \<Rightarrow> State_Monad.return (Inl ''No approved key rotation request found (may have been already used)'')
          | Some a \<Rightarrow>
              if ap_action a \<noteq> ''key.rotate'' then State_Monad.return (Inl ''Approval is not for key rotation'')
              else do {
                target \<leftarrow> own_agent user agentId only_own_keys;
                case target of
                  Inl e \<Rightarrow> State_Monad.return (Inl e)
                | Inr agent \<Rightarrow> do {
                    current \<leftarrow> call (q_select db_service_keys (\<lambda>k. sk_agent_id k = Some agentId \<and> sk_is_active k));
                    expire_current (rows_of current);
                    now \<leftarrow> clock;
                    let keyId = ag_name agent @ ''-'' @ base36 now;
                    inserted \<leftarrow> call (with_fresh (\<lambda>fresh d. q_insert db_service_keys db_service_keys_update
                      (\<lambda>n k. sk_key_id n = sk_key_id k) [dashboard_key secret sha256 agent keyId fresh (db_now d)] d));
                    case inserted of
                      Inl e \<Rightarrow> State_Monad.return (Inl (''Failed to create new key: '' @ de_message e))
                    | Inr _ \<Rightarrow> do {
                        auditLog (us_id user) ''key.rotate'' (Some ''agent'') (Some agentId)
                          (Some [(''actor_name'', JStr (us_displayName user)), (''agent_name'', JStr (ag_name agent)),
                            (''new_key_id'', JStr keyId),
                            (''old_keys_expiring'', JArr (map (\<lambda>k. JStr (sk_key_id k)) (rows_of current))),
                            (''approval_id'', JStr approvalId)]) None;
                        State_Monad.return (Inr (keyId, secret))
                      }
                  }
              }
        })"

text \<open>\<open>requireAgentEditor\<close> throws; both callers turn what is thrown into an error.\<close>

definition requireAgentEditor :: "auth_user option \<Rightarrow> string \<Rightarrow> (string + auth_user \<times> agent_row) prog" where
  "requireAgentEditor signed agentId =
     (case signed of
        None \<Rightarrow> State_Monad.return (Inl ''Not authenticated'')
      | Some user \<Rightarrow> do {
          r \<leftarrow> own_agent user agentId ''Only the agent owner or a super admin can change this'';
          State_Monad.return (map_sum id (Pair user) r)
        })"

definition edit_agent :: "driver \<Rightarrow> auth_user \<Rightarrow> string \<Rightarrow> string \<Rightarrow> json \<Rightarrow> content \<Rightarrow> (string + unit) prog" where
  "edit_agent dv user agentId action input details = do {
     r \<leftarrow> updateAgentLifecycle dv agentId input;
     case r of
       Inl e \<Rightarrow> State_Monad.return (Inl e)
     | Inr s \<Rightarrow> (case s of
         Inl e \<Rightarrow> State_Monad.return (Inl (ge_message e))
       | Inr _ \<Rightarrow> do {
           auditLog (us_displayName user) action (Some ''agent'') (Some agentId) (Some details) None;
           State_Monad.return (Inr ())
         })
   }"

definition updateAgentTrustControls ::
  "driver \<Rightarrow> auth_user option \<Rightarrow> string \<Rightarrow> json \<Rightarrow> json \<Rightarrow> (string + unit) prog" where
  "updateAgentTrustControls dv signed agentId trust_tier trust_notes = do {
     editor \<leftarrow> requireAgentEditor signed agentId;
     case editor of
       Inl e \<Rightarrow> State_Monad.return (Inl e)
     | Inr ua \<Rightarrow>
         if \<not> isAgentTrustTier (Some trust_tier) then
           State_Monad.return (Inl ''Invalid trust tier. Must be one of: internal, partner, external'')
         else edit_agent dv (fst ua) agentId ''agent.trust_tier_change''
           (JObj [(''trust_tier'', trust_tier), (''trust_notes'', trust_notes)])
           [(''trust_tier'', trust_tier), (''changed_by_user'', JStr (us_id (fst ua)))]
   }"

definition updateAgentTrustPolicy :: "driver \<Rightarrow> auth_user option \<Rightarrow> string \<Rightarrow> jvalue \<Rightarrow> (string + unit) prog" where
  "updateAgentTrustPolicy dv signed agentId trustPolicy = do {
     editor \<leftarrow> requireAgentEditor signed agentId;
     case editor of
       Inl e \<Rightarrow> State_Monad.return (Inl e)
     | Inr ua \<Rightarrow> edit_agent dv (fst ua) agentId ''agent.trust_policy_change''
         (JObj (case trustPolicy of None \<Rightarrow> [] | Some j \<Rightarrow> [(''trust_policy'', j)]))
         [(''changed_by_user'', JStr (us_id (fst ua)))]
   }"

section \<open>Deactivated agents\<close>

definition no_live_keys :: "string \<Rightarrow> db \<Rightarrow> bool" where
  "no_live_keys agentId d \<longleftrightarrow> (\<forall>k\<in>set (db_service_keys d). sk_agent_id k = Some agentId \<longrightarrow> \<not> sk_is_active k)"

interpretation dead: side_tables "inv_rel (no_live_keys i)" db_service_keys for i
  by (intro side_tables.intro rely_guarantee_inv side_tables_axioms.intro) (simp_all add: inv_rel_def no_live_keys_def)

lemma stable_no_live_keys: "stable (inv_rel (no_live_keys i)) (no_live_keys i)"
  by (auto simp: stable_def inv_rel_def)

lemma dead_delete_webhooks: "keeps (inv_rel (no_live_keys i)) (call (q_delete_webhooks j))"
  by (intro dead.keeps_aside) (simp add: q_delete_webhooks_def q_delete_def)

lemma switch_off_kills:
  "valid (inv_rel (no_live_keys i)) (\<lambda>_. True) (switch_off_agent i u)
     (\<lambda>r d. \<forall>a. r = Inr a \<longrightarrow> no_live_keys i d)"
proof -
  have off: "valid (inv_rel (no_live_keys i)) (\<lambda>_. True)
     (call (q_update db_service_keys db_service_keys_update (\<lambda>k. sk_agent_id k = Some i \<and> sk_is_active k) (revoked now)))
     (\<lambda>r d. \<forall>x. r = Inr x \<longrightarrow> no_live_keys i d)" for now
    by (intro dead.valid_call) (auto simp: inv_rel_def no_live_keys_def revoked_def)
  have rest: "valid (inv_rel (no_live_keys i)) (\<lambda>d. \<forall>x. r = Inr x \<longrightarrow> no_live_keys i d)
     (case r of Inl e \<Rightarrow> State_Monad.return (Inl (agent_failure (de_message e) ''DB_ERROR'' 500))
      | Inr _ \<Rightarrow> do { _ \<leftarrow> call (q_delete_webhooks i); State_Monad.return (Inr u) })
     (\<lambda>r d. \<forall>a. r = Inr a \<longrightarrow> no_live_keys i d)" for r :: "service_key_row list db_result"
  proof (cases r)
    case (Inr x)
    then show ?thesis
      by simp (intro dead.valid_bind [OF dead.keeps_holds [OF dead_delete_webhooks stable_no_live_keys]] dead.valid_return; simp)
  qed (auto intro: dead.valid_return)
  show ?thesis
    unfolding switch_off_agent_def by (intro dead.valid_clock_bind dead.valid_bind [OF off] rest)
qed

lemma dead_update_agent: "keeps (inv_rel (no_live_keys i)) (call (shaped sh (q_update_agent dv j input f now)))"
  by (intro dead.keeps_aside) (simp add: q_update_agent_def)

lemma deactivation_kills:
  assumes "\<not> falsy (jprop (Some input) ''deactivate'')"
  shows "valid (inv_rel (no_live_keys i)) (\<lambda>_. True) (updateAgentLifecycle dv i input)
     (\<lambda>r d. \<forall>a. r = Inr (Inr a) \<longrightarrow> no_live_keys i d)"
proof -
  let ?I = "inv_rel (no_live_keys i)" and ?Q = "\<lambda>r d. \<forall>a. r = Inr (Inr a) \<longrightarrow> no_live_keys i d"
  have off: "valid ?I (\<lambda>_. True) (do { x \<leftarrow> switch_off_agent i u; State_Monad.return (Inr x) }) ?Q" for u
    by (intro dead.valid_bind [OF switch_off_kills] dead.valid_return) simp
  have any: "valid ?I (\<lambda>_. True) (call (shaped sh q)) (\<lambda>_ _. True)"
    if "\<And>d. db_service_keys (snd (q d)) = db_service_keys d" for sh :: "'b list \<Rightarrow> 'c db_result" and q
    using that by (intro dead.valid_call) (simp_all add: inv_rel_def no_live_keys_def)
  show ?thesis
    unfolding updateAgentLifecycle_def Let_def
    by (intro dead.valid_bind [where Q = "\<lambda>_ _. True"] dead.valid_option dead.valid_if dead.valid_sum dead.valid_clock_bind
        dead.valid_return any off)
      (simp_all add: q_update_agent_def assms)
qed

text \<open>Property C26: once an agent is deactivated no request of it is accepted again, however it is signed, as long as
  nobody gives a key back to the agent.\<close>

theorem deactivated_agent_is_refused:
  assumes "rely (inv_rel (no_live_keys i)) env" "\<not> falsy (jprop (Some input) ''deactivate'')"
    and "result (updateAgentLifecycle dv i input) env d = Inr (Inr a)"
    and "inv_rel (no_live_keys i) (final (updateAgentLifecycle dv i input) env d) d'"
    and "rely key_step env'" "sh_nonce headers = Some n"
    and "result (validateHmac parse pathname hmac httpMethod path body headers) env' d' = Inr who"
  shows "hi_agentId who \<noteq> Some i"
proof -
  have "no_live_keys i (final (updateAgentLifecycle dv i input) env d)"
    using valid_run(2) [OF deactivation_kills [OF assms(2)] assms(1), of dv d] assms(3) by simp
  with assms(4) have dead: "no_live_keys i d'" by (simp add: inv_rel_def)
  obtain k where k: "signed_with parse pathname hmac httpMethod path body headers n (db_now d') (db_service_keys d') who k"
    using valid_run(2) [OF validate_signed [OF assms(6), of "db_service_keys d'" "db_now d'"] assms(5), of d'] assms(7) by blast
  then have "k \<in> set (filter (\<lambda>k. sk_key_id k = the (sh_apiKey headers)) (db_service_keys d'))"
    by (simp add: signed_with_def)
  then have "k \<in> set (db_service_keys d')" by simp
  with k dead show ?thesis by (auto simp: signed_with_def no_live_keys_def)
qed

text \<open>Two agents, a key of each, an administrator who owns both, and an approved rotation.\<close>

definition sample_driver :: driver where
  "sample_driver = \<lparr>dv_text = (\<lambda>_. ''text''), dv_list = (\<lambda>_. None), dv_int = (\<lambda>_. None)\<rparr>"

definition sample_agents :: "timestamp option \<Rightarrow> db" where
  "sample_agents expires = (sample_keys 1000000)\<lparr>
     db_agents := [sample_agent ''a'', sample_agent ''b''],
     db_service_keys := [sample_key\<lparr>sk_expires_at := expires\<rparr>,
       sample_key\<lparr>sk_id := ''k2'', sk_key_id := ''key2'', sk_agent_id := Some ''b''\<rparr>],
     db_approvals := [sample_approval\<lparr>ap_status := AApproved\<rparr>]\<rparr>"

definition switch_off_b :: json where
  "switch_off_b = JObj [(''deactivate'', JBool True)]"

definition without_b :: db where
  "without_b = final (updateAgentLifecycle sample_driver ''b'' switch_off_b) [] (sample_agents None)"

theorem deactivated_agent_is_refused_witness:
  "hi_agentId sample_identity \<noteq> Some ''b'' \<and> result (sample_validate ''0999'') [] without_b = Inr sample_identity"
proof
  show accepted: "result (sample_validate ''0999'') [] without_b = Inr sample_identity"
    by code_simp
  let ?r = "result (updateAgentLifecycle sample_driver ''b'' switch_off_b) [] (sample_agents None)"
  have "\<not> isl ?r \<and> \<not> isl (projr ?r)" by code_simp
  then have a: "?r = Inr (Inr (projr (projr ?r)))" by (cases ?r; cases "projr ?r") auto
  show "hi_agentId sample_identity \<noteq> Some ''b''"
  proof (rule deactivated_agent_is_refused [OF rely_Nil _ a _ rely_Nil _ accepted [unfolded sample_validate_def]])
    show "\<not> falsy (jprop (Some switch_off_b) ''deactivate'')" by code_simp
    show "inv_rel (no_live_keys ''b'') (final (updateAgentLifecycle sample_driver ''b'' switch_off_b) [] (sample_agents None)) without_b"
      by (simp add: without_b_def inv_rel_def)
    show "sh_nonce (sample_headers ''0999'') = Some ''nonce''" by (simp add: sample_headers_def)
  qed
qed

section \<open>Keys that expired\<close>

definition sample_admin :: auth_user where
  "sample_admin = \<lparr>us_id = ''u'', us_email = [], us_isSuperAdmin = True, us_displayName = ''Una'', us_agentIds = [],
     us_agents = [], us_trustTier = External, us_trustPolicy = DEFAULT_AGENT_TRUST_POLICY\<rparr>"

text \<open>Rotating the keys of an agent revives a key that has expired: refused before, it is accepted again
  afterwards, because every key still marked active gets a new grace hour.\<close>

theorem rotation_revives_expired_key:
  "result (sample_validate ''0999'') [] (sample_agents (Some 5000)) = Inl (api_err ''API key has expired'' ''KEY_EXPIRED'') \<and>
   result (sample_validate ''0999'') []
     (final (executeKeyRotation ''secret'' (\<lambda>_. ''hash'') (Some sample_admin) ''a'' ''ap'') [] (sample_agents (Some 5000))) =
     Inr sample_identity"
  by code_simp

section \<open>What an agent may not change of itself\<close>

text \<open>The trust tiers and owners of all agents.\<close>

definition standing :: "db \<Rightarrow> (string \<times> string \<times> string option) list" where
  "standing d = map (\<lambda>a. (ag_id a, ag_trust_tier a, ag_owner_user_id a)) (db_agents d)"

definition same_standing :: "db \<Rightarrow> db \<Rightarrow> bool" where
  "same_standing d d' \<longleftrightarrow> standing d' = standing d"

interpretation ranks: side_tables same_standing standing
  by unfold_locales (simp_all add: same_standing_def standing_def)

lemma standing_map:
  assumes "\<And>a. P a \<Longrightarrow> a \<in> set as' \<Longrightarrow> ag_id (f a) = ag_id a \<and> ag_trust_tier (f a) = ag_trust_tier a \<and> ag_owner_user_id (f a) = ag_owner_user_id a"
  shows "map (\<lambda>a. (ag_id a, ag_trust_tier a, ag_owner_user_id a)) (map (\<lambda>a. if P a then f a else a) as') =
    map (\<lambda>a. (ag_id a, ag_trust_tier a, ag_owner_user_id a)) as'"
  using assms by (induction as') auto

lemma updated_standing:
  assumes "buildAgentUpdateFields dv input a = Some b" "jprop (Some input) ''trust_tier'' = None"
  shows "ag_id b = ag_id a" "ag_trust_tier b = ag_trust_tier a" "ag_owner_user_id b = ag_owner_user_id a"
  using assms by (auto simp: buildAgentUpdateFields_def split: option.splits if_splits)

lemma ranks_update_agent:
  assumes "jprop (Some input) ''trust_tier'' = None"
    and "\<And>a. ag_id (f a) = ag_id a" "\<And>a. ag_trust_tier (f a) = ag_trust_tier a" "\<And>a. ag_owner_user_id (f a) = ag_owner_user_id a"
  shows "keeps same_standing (call (shaped sh (q_update_agent dv i input f now)))"
proof (intro ranks.keeps_call)
  fix d :: db
  show "same_standing d (snd (shaped sh (q_update_agent dv i input f now) d))"
  proof (cases "\<exists>a\<in>set (db_agents d). ag_id a = i \<and> buildAgentUpdateFields dv input a = None")
    case False
    have "ag_id (f (the (buildAgentUpdateFields dv input a))) = ag_id a \<and>
        ag_trust_tier (f (the (buildAgentUpdateFields dv input a))) = ag_trust_tier a \<and>
        ag_owner_user_id (f (the (buildAgentUpdateFields dv input a))) = ag_owner_user_id a"
      if "a \<in> set (db_agents d)" "ag_id a = i" for a
    proof -
      from False that obtain b where "buildAgentUpdateFields dv input a = Some b"
        by (cases "buildAgentUpdateFields dv input a") auto
      with updated_standing [OF this assms(1)] assms(2-) show ?thesis by simp
    qed
    then have "standing (snd (shaped sh (q_update_agent dv i input f now) d)) = standing d"
      unfolding standing_def snd_shaped q_update_agent_def if_not_P [OF False] snd_q_update
      by (simp del: map_map) (rule standing_map, simp)
    then show ?thesis by (simp add: same_standing_def)
  qed (simp add: same_standing_def q_update_agent_def)
qed

lemma overridden_tier: "jprop (Some (overridden input)) ''trust_tier'' = jprop (Some input) ''trust_tier''"
proof -
  have "map_of (filter (\<lambda>kv. fst kv \<notin> {''capabilities'', ''description'', ''trust_notes''}) kvs) ''trust_tier'' =
      map_of kvs ''trust_tier''" for kvs :: "(string \<times> json) list"
    by (induction kvs) auto
  then show ?thesis by (cases input) (simp_all add: overridden_def)
qed

lemma ranks_update: "keeps same_standing (updateAgentLifecycle dv i input)" if "jprop (Some input) ''trust_tier'' = None"
proof -
  have off: "keeps same_standing (switch_off_agent i a)" for a
    unfolding switch_off_agent_def
    by (intro ranks.keeps_rules ranks.keeps_aside) (simp_all add: standing_def q_delete_webhooks_def q_delete_def)
  show ?thesis
    unfolding updateAgentLifecycle_def Let_def
    by (intro ranks.keeps_rules ranks.keeps_reading off ranks_update_agent) (simp_all add: deactivated_def overridden_tier that)
qed

text \<open>Property C27: a request that is not an admin's changes no agent's trust tier and no agent's owner, whatever its
  body.\<close>

theorem patch_keeps_trust_tiers:
  assumes "rely same_standing env" "\<not> is_admin vars req"
  shows "standing (final (agent_patch vars dv req i) env d) = standing d"
proof -
  have body: "keeps same_standing (agent_patch vars dv req i)"
  proof (cases "rq_body req")
    case (Parsed j)
    show ?thesis
    proof (cases "jprop (Some j) ''trust_tier'' = None")
      case True
      with Parsed show ?thesis
        unfolding agent_patch_def Let_def
        by (auto intro!: ranks.keeps_rules ranks_update ranks.keeps_audit)
    next
      case False
      with Parsed assms(2) show ?thesis
        unfolding agent_patch_def Let_def by (auto intro!: ranks.keeps_rules)
    qed
  qed (auto simp: agent_patch_def intro!: ranks.keeps_return)
  show ?thesis
    using keeps_run [OF body assms(1), of d] by (simp add: same_standing_def)
qed

definition sample_patch :: "string \<Rightarrow> request" where
  "sample_patch tier = sample_request ''a'' (Parsed (JObj
     [(''trust_policy'', JObj [(''observer_project_access'', JObj [(''read'', JStr tier)])])]))"

theorem patch_keeps_trust_tiers_witness:
  "standing (final (agent_patch (\<lambda>_. None) sample_driver (sample_patch ''external'') ''a'') [] (sample_agents None)) =
     standing (sample_agents None)"
proof (rule patch_keeps_trust_tiers)
  show "\<not> is_admin (\<lambda>_. None) (sample_patch ''external'')" by code_simp
qed simp

section \<open>An agent and its own gates\<close>

definition reads_as_observer :: "agent_row \<Rightarrow> bool" where
  "reads_as_observer a = (case evaluateObserverProjectReadPolicyAccess (access_context_of a) of Inr p \<Rightarrow> pd_allowed p | Inl _ \<Rightarrow> False)"

definition outsider :: agent_row where
  "outsider = (sample_agent ''a'')\<lparr>ag_trust_tier := ''external''\<rparr>"

definition outsider_db :: db where
  "outsider_db = (sample_agents None)\<lparr>db_agents := [outsider]\<rparr>"

text \<open>An agent of the external tier cannot read a project it observes, until it patches its own trust
  policy, which no other tier than its own guards.\<close>

theorem agent_opens_own_gate:
  "\<not> reads_as_observer outsider \<and>
   (case result (agent_patch (\<lambda>_. None) sample_driver ((sample_patch ''external'')\<lparr>rq_agent := outsider\<rparr>) ''a'') [] outsider_db of
      Answer status a \<Rightarrow> status = 200 \<and> ag_trust_tier a = ''external'' \<and> reads_as_observer a | _ \<Rightarrow> False)"
  by code_simp

end
