(* ===== verification/TaskBlockers.thy ===== *)
theory TaskBlockers
  imports RunRoutes HandoffResume JsonText
begin

text \<open>
  What blocks a task: its dependencies (\<open>src/app/api/v1/projects/[id]/tasks/[tid]/dependencies/route.ts\<close>),
  the flag that is refreshed from them and the plan to unblock it (\<open>src/lib/task-blocker-actions.ts\<close>,
  \<open>blocker-actions/route.ts\<close>), how a blocked task is presented (\<open>src/lib/task-blocker-notifications.ts\<close>),
  and the sweep that escalates what stays blocked (\<open>scripts/stale-blocker-sweep.ts\<close>).
\<close>

section \<open>Whom a project's events go to\<close>

definition getProjectMemberAgentIds :: "string \<Rightarrow> string list prog" where
  "getProjectMemberAgentIds projectId = do {
     r \<leftarrow> call (q_select db_members (\<lambda>m. pm_project_id m = projectId));
     State_Monad.return (map pm_agent_id (rows_of r))
   }"

definition getProjectVisibleAgentIds :: "string \<Rightarrow> string list prog" where
  "getProjectVisibleAgentIds projectId = do {
     members \<leftarrow> getProjectMemberAgentIds projectId;
     observers \<leftarrow> listProjectObserverAgentIds projectId;
     State_Monad.return (js_set (members @ observers))
   }"

definition task_event :: "string list \<Rightarrow> string \<Rightarrow> string option \<Rightarrow> string \<Rightarrow> string \<Rightarrow> content \<Rightarrow> webhook_event" where
  "task_event targets event contractId projectId taskId data =
     \<lparr>we_targets = targets, we_event = event, we_contract_id = contractId, we_project_id = Some projectId,
      we_task_id = Some taskId, we_sprint_id = None, we_approval_id = None, we_data = data\<rparr>"

section \<open>Active blockers\<close>

definition is_open :: "task_row \<Rightarrow> bool" where
  "is_open t \<longleftrightarrow> t_status t \<noteq> Some ''done'' \<and> t_status t \<noteq> Some ''cancelled''"

text \<open>The dependencies that block a task, each with the task it waits for.\<close>

definition blocking_rows :: "(string \<Rightarrow> bool) \<Rightarrow> string \<Rightarrow> db \<Rightarrow> task_row embed list" where
  "blocking_rows kind taskId d =
     map (\<lambda>p. embed_find (\<lambda>t. t_id t = dp_blocking_task_id p) (db_tasks d) id)
       (filter (\<lambda>p. dp_blocked_task_id p = taskId \<and> kind (dp_type p)) (db_dependencies d))"

definition q_blocking :: "string \<Rightarrow> task_row embed list statement" where
  "q_blocking taskId d = (Inr (blocking_rows (\<lambda>k. k = ''blocks'') taskId d), d)"

definition active_blockers :: "task_row embed list \<Rightarrow> task_row list" where
  "active_blockers rows = filter is_open (List.map_filter embed_one rows)"

definition blocker_titles :: "task_row list \<Rightarrow> string list" where
  "blocker_titles bs = map (\<lambda>b. case t_title b of None \<Rightarrow> [] | Some s \<Rightarrow> s) bs"

definition named_or :: "string list \<Rightarrow> string \<Rightarrow> string" where
  "named_or titles fallback = str_or (Some (join '', '' titles)) fallback"

section \<open>The flag\<close>

definition q_flag_blocked :: "string \<Rightarrow> timestamp \<Rightarrow> task_row list statement" where
  "q_flag_blocked taskId now d = q_update db_tasks db_tasks_update (\<lambda>t. t_id t = taskId \<and> tb_blocked_at (t_blocker t) = None)
     (\<lambda>t. t\<lparr>t_blocker := (t_blocker t)\<lparr>tb_blocked_at := Some now\<rparr>, t_updated_at := db_now d\<rparr>) d"

definition q_clear_blocked :: "string \<Rightarrow> task_row list statement" where
  "q_clear_blocked taskId d = q_update db_tasks db_tasks_update (\<lambda>t. t_id t = taskId)
     (\<lambda>t. t\<lparr>t_blocker := not_blocked, t_updated_at := db_now d\<rparr>) d"

definition refreshTaskBlockedState :: "string \<Rightarrow> unit prog" where
  "refreshTaskBlockedState taskId = do {
     deps \<leftarrow> call (q_blocking taskId);
     if active_blockers (rows_of deps) \<noteq> [] then do {
       now \<leftarrow> clock;
       _ \<leftarrow> call (q_flag_blocked taskId now);
       State_Monad.return ()
     }
     else do {
       _ \<leftarrow> call (q_clear_blocked taskId);
       State_Monad.return ()
     }
   }"

section \<open>The plan to unblock\<close>

text \<open>Input that is no text makes \<open>trim\<close> throw; \<open>dates\<close> is what \<open>new Date\<close> makes of a text.\<close>

datatype blocker_failure = BlockerRefused string | BlockerThrew string

datatype blocker_action = FollowUp | Escalate

fun blocker_action_name :: "blocker_action \<Rightarrow> string" where
  "blocker_action_name FollowUp = ''follow-up''"
| "blocker_action_name Escalate = ''escalate''"

text \<open>\<open>dueAtIso\<close> is kept as the time it denotes.\<close>

record blocker_workflow =
  bw_nextAction :: string
  bw_owner :: string
  bw_dueAtIso :: timestamp

definition trimmed_input :: "jvalue \<Rightarrow> string \<Rightarrow> blocker_failure + string" where
  "trimmed_input v field =
     (if falsy v then Inr []
      else case as_string v of
        Some s \<Rightarrow> Inr (js_trim s)
      | None \<Rightarrow> Inl (BlockerThrew (''input.'' @ field @ ''.trim is not a function'')))"

definition normalizeBlockerWorkflowInput ::
  "(string \<Rightarrow> timestamp option) \<Rightarrow> jvalue \<Rightarrow> jvalue \<Rightarrow> jvalue \<Rightarrow> blocker_failure + blocker_workflow" where
  "normalizeBlockerWorkflowInput dates nextAction owner dueAt =
     (case trimmed_input nextAction ''nextAction'' of Inl e \<Rightarrow> Inl e | Inr a \<Rightarrow>
      case trimmed_input owner ''owner'' of Inl e \<Rightarrow> Inl e | Inr w \<Rightarrow>
      case trimmed_input dueAt ''dueAt'' of Inl e \<Rightarrow> Inl e | Inr due \<Rightarrow>
        if a = [] then Inl (BlockerRefused ''Next action is required'')
        else if w = [] then Inl (BlockerRefused ''Unblock owner is required'')
        else if due = [] then Inl (BlockerRefused ''Expected follow-up time is required'')
        else case dates due of
          None \<Rightarrow> Inl (BlockerRefused ''Expected follow-up time is invalid'')
        | Some t \<Rightarrow> Inr \<lparr>bw_nextAction = a, bw_owner = w, bw_dueAtIso = t\<rparr>)"

record blocker_context =
  bx_actionAt :: timestamp
  bx_task :: task_row
  bx_project_title :: "string option"
  bx_activeBlockers :: "task_row list"

definition resolveBlockerActionContext :: "string \<Rightarrow> string \<Rightarrow> blocker_context option prog" where
  "resolveBlockerActionContext projectId taskId = do {
     actionAt \<leftarrow> clock;
     task \<leftarrow> getTaskContext projectId taskId;
     project \<leftarrow> call (shaped shape_single (q_select db_projects (\<lambda>p. pj_id p = projectId)));
     blockedBy \<leftarrow> call (q_blocking taskId);
     State_Monad.return (case task of None \<Rightarrow> None
       | Some t \<Rightarrow> Some \<lparr>bx_actionAt = actionAt, bx_task = t,
           bx_project_title = (case data_of project of None \<Rightarrow> None | Some p \<Rightarrow> pj_title p),
           bx_activeBlockers = active_blockers (rows_of blockedBy)\<rparr>)
   }"

definition planned_task :: "blocker_action \<Rightarrow> blocker_workflow \<Rightarrow> timestamp \<Rightarrow> task_row \<Rightarrow> task_row" where
  "planned_task action w actionAt t =
     t\<lparr>t_blocker := (t_blocker t)\<lparr>tb_follow_up_at := Some actionAt, tb_followed_through_at := Some actionAt,
         tb_resolution_action := Some (bw_nextAction w), tb_resolution_owner := Some (bw_owner w),
         tb_resolution_due_at := Some (bw_dueAtIso w), tb_resolution_status := Some (blocker_action_name action),
         tb_escalated_at := (if action = Escalate then Some actionAt else tb_escalated_at (t_blocker t))\<rparr>,
       t_updated_at := actionAt\<rparr>"

text \<open>Who acts: an agent or a user, with the name it goes by and its place in the project.\<close>

record blocker_actor =
  bc_agentId :: "string option"
  bc_userId :: "string option"
  bc_name :: string
  bc_participantRole :: "string option"
  bc_participantAccessKind :: "string option"

definition action_metadata :: "blocker_action \<Rightarrow> blocker_workflow \<Rightarrow> blocker_actor \<Rightarrow> timestamp \<Rightarrow> task_row list \<Rightarrow> content" where
  "action_metadata action w actor actionAt blockers =
     [(''action'', JStr (if action = Escalate then ''blocker_escalation'' else ''blocker_follow_up'')),
      (''blocker_titles'', JArr (map JStr (blocker_titles blockers))),
      (''acted_at'', JStr (iso_string actionAt)), (''actor_agent_id'', jstr_or_null (bc_agentId actor)),
      (''blocker_resolution_action'', JStr (bw_nextAction w)), (''blocker_resolution_owner'', JStr (bw_owner w)),
      (''blocker_resolution_due_at'', JStr (iso_string (bw_dueAtIso w))),
      (''blocker_resolution_status'', JStr (blocker_action_name action)),
      (''participant_role'', jstr_or_null (bc_participantRole actor)),
      (''participant_access_kind'', jstr_or_null (bc_participantAccessKind actor))]"

definition action_comment ::
  "string \<Rightarrow> string \<Rightarrow> blocker_action \<Rightarrow> blocker_workflow \<Rightarrow> blocker_actor \<Rightarrow> timestamp \<Rightarrow> task_row list \<Rightarrow> comment_fields" where
  "action_comment projectId taskId action w actor actionAt blockers =
     \<lparr>cm_task_id = taskId, cm_project_id = projectId, cm_author_agent_id = bc_agentId actor, cm_author_name = bc_name actor,
      cm_content = (if action = Escalate then ''Escalated blocker on '' else ''Logged blocker follow-up on '') @
        named_or (blocker_titles blockers) ''current blockers'' @ '': '' @ bw_nextAction w @
        '' (owner: '' @ bw_owner w @ '', due: '' @ iso_string (bw_dueAtIso w) @ '')'',
      cm_comment_type = ''system'', cm_metadata = action_metadata action w actor actionAt blockers\<rparr>"

text \<open>The mail to the owner of the assignee, the only notice of these two actions, is not modelled.\<close>

definition runBlockerWorkflowAction ::
  "(string \<Rightarrow> timestamp option) \<Rightarrow> string \<Rightarrow> string \<Rightarrow> blocker_action \<Rightarrow> jvalue \<Rightarrow> jvalue \<Rightarrow> jvalue \<Rightarrow> blocker_actor \<Rightarrow>
   (blocker_failure + blocker_context \<times> blocker_workflow) prog" where
  "runBlockerWorkflowAction dates projectId taskId action nextAction owner dueAt actor =
     (case normalizeBlockerWorkflowInput dates nextAction owner dueAt of
        Inl e \<Rightarrow> State_Monad.return (Inl e)
      | Inr w \<Rightarrow> do {
          context \<leftarrow> resolveBlockerActionContext projectId taskId;
          case context of
            None \<Rightarrow> State_Monad.return (Inl (BlockerThrew ''Task not found''))
          | Some x \<Rightarrow> do {
              updated \<leftarrow> call (q_update db_tasks db_tasks_update (\<lambda>t. t_id t = taskId \<and> t_project_id t = projectId)
                (planned_task action w (bx_actionAt x)));
              case updated of
                Inl e \<Rightarrow> State_Monad.return (Inl (BlockerThrew (''Failed to '' @
                  (if action = Escalate then ''escalate blocked task'' else ''log blocker follow-up'') @ '': '' @ de_message e)))
              | Inr _ \<Rightarrow> do {
                  commented \<leftarrow> call (q_insert_comments
                    [action_comment projectId taskId action w actor (bx_actionAt x) (bx_activeBlockers x)]);
                  case commented of
                    Inl e \<Rightarrow> State_Monad.return (Inl (BlockerThrew (''Failed to log blocker '' @
                      (if action = Escalate then ''escalation'' else ''comment'') @ '' comment: '' @ de_message e)))
                  | Inr _ \<Rightarrow> do {
                      _ \<leftarrow> appendTaskActivityEvent projectId taskId (bc_agentId actor) (bc_userId actor)
                        (if action = Escalate then ''blocker_escalation'' else ''blocker_follow_up'')
                        ((if action = Escalate then ''Escalated blocker on '' else ''Logged blocker follow-up on '') @
                          named_or (blocker_titles (bx_activeBlockers x)) ''current blockers'')
                        (action_metadata action w actor (bx_actionAt x) (bx_activeBlockers x));
                      State_Monad.return (Inr (x, w))
                    }
                }
            }
        })"

definition access_role_name :: "access_role \<Rightarrow> string" where
  "access_role_name r = (case r of AccessOwner \<Rightarrow> ''owner'' | AccessMember \<Rightarrow> ''member'' | AccessObserver \<Rightarrow> ''observer'')"

definition access_kind_name :: "access_kind \<Rightarrow> string" where
  "access_kind_name k = (case k of Membership \<Rightarrow> ''membership'' | ObserverKind \<Rightarrow> ''observer'')"

definition agent_actor :: "request \<Rightarrow> project_access \<Rightarrow> blocker_actor" where
  "agent_actor req a =
     \<lparr>bc_agentId = Some (ag_id (rq_agent req)), bc_userId = None,
      bc_name = str_or (Some (ag_display_name (rq_agent req))) (ag_name (rq_agent req)),
      bc_participantRole = Some (access_role_name (pac_role a)),
      bc_participantAccessKind = Some (access_kind_name (pac_accessKind a))\<rparr>"

definition blocker_failed :: "blocker_failure \<Rightarrow> 'b response" where
  "blocker_failed e =
     (case e of
        BlockerRefused msg \<Rightarrow> reply_error 400 msg ''VALIDATION_ERROR''
      | BlockerThrew msg \<Rightarrow> if msg = ''Task not found'' then reply_error 404 ''Task not found'' ''NOT_FOUND''
          else reply_error 500 msg ''DB_ERROR'')"

definition blocker_action_of :: "jvalue \<Rightarrow> blocker_action option" where
  "blocker_action_of v =
     (if v = Some (JStr ''follow-up'') then Some FollowUp else if v = Some (JStr ''escalate'') then Some Escalate else None)"

text \<open>The answer is the row as it is now, or what was written when it is gone.\<close>

datatype blocker_answer = BlockedTask task_row | BlockerDone string blocker_workflow timestamp

definition blocker_actions_post ::
  "(string \<Rightarrow> timestamp option) \<Rightarrow> request \<Rightarrow> string \<Rightarrow> string \<Rightarrow> blocker_answer response prog" where
  "blocker_actions_post dates req projectId taskId =
     writing_project req projectId ''Observers may inspect blocker workflow but cannot mutate it'' (\<lambda>a.
       case rq_body req of
         Parsed j \<Rightarrow>
           if j = JNull then State_Monad.return (Thrown ''TypeError'')
           else (case blocker_action_of (jprop (Some j) ''action'') of
             None \<Rightarrow> State_Monad.return (reply_error 400 ''action must be one of: follow-up, escalate'' ''VALIDATION_ERROR'')
           | Some action \<Rightarrow> do {
               r \<leftarrow> runBlockerWorkflowAction dates projectId taskId action (jprop (Some j) ''next_action'')
                 (jprop (Some j) ''owner'') (jprop (Some j) ''due_at'') (agent_actor req a);
               case r of
                 Inl e \<Rightarrow> State_Monad.return (blocker_failed e)
               | Inr (x, w) \<Rightarrow> do {
                   audit_task req (if action = Escalate then ''task.blocker.escalate'' else ''task.blocker.follow_up'') taskId
                     [(''project_id'', JStr projectId), (''blocker_resolution_action'', JStr (bw_nextAction w)),
                      (''blocker_resolution_owner'', JStr (bw_owner w)), (''blocker_resolution_due_at'', JStr (iso_string (bw_dueAtIso w))),
                      (''blocker_resolution_status'', JStr (blocker_action_name action)),
                      (''blocker_titles'', JArr (map JStr (blocker_titles (bx_activeBlockers x)))),
                      (''participant_role'', JStr (access_role_name (pac_role a))),
                      (''participant_access_kind'', JStr (access_kind_name (pac_accessKind a)))];
                   task \<leftarrow> getTaskContext projectId taskId;
                   State_Monad.return (Answer 200 (case task of Some t \<Rightarrow> BlockedTask t
                     | None \<Rightarrow> BlockerDone (blocker_action_name action) w (bx_actionAt x)))
                 }
             })
       | _ \<Rightarrow> State_Monad.return (reply_error 400 ''Invalid JSON body'' ''INVALID_BODY''))"

end
