(* ===== verification/ProjectInvitations.thy ===== *)
theory ProjectInvitations
  imports Agents TaskBlockers
begin

text \<open>
  Invitations to a project: their expiry and reminder (\<open>src/lib/project-invitations.ts\<close>,
  \<open>src/app/api/v1/projects/_helpers.ts\<close>), the sweep (\<open>scripts/project-invitation-sweep.ts\<close>), the routes under
  \<open>projects/[id]/invitations\<close> and the operator's actions on them (\<open>src/app/(dashboard)/projects/[id]/actions.ts\<close>).
  Mails are not modelled. Reconciling several invitations at once is modelled one after the other.
\<close>

section \<open>The state of an invitation\<close>

definition PROJECT_INVITATION_TTL_DAYS :: int where
  "PROJECT_INVITATION_TTL_DAYS = 7"

definition PROJECT_INVITATION_REMINDER_HOURS :: int where
  "PROJECT_INVITATION_REMINDER_HOURS = 72"

definition getProjectInvitationExpiry :: "timestamp \<Rightarrow> timestamp" where
  "getProjectInvitationExpiry created = created + PROJECT_INVITATION_TTL_DAYS * 86400000"

definition getProjectInvitationReminderThreshold :: "timestamp \<Rightarrow> timestamp" where
  "getProjectInvitationReminderThreshold created = created + PROJECT_INVITATION_REMINDER_HOURS * 3600000"

definition expiry_of :: "invitation_row \<Rightarrow> timestamp" where
  "expiry_of i = (case iv_expires_at i of Some t \<Rightarrow> t | None \<Rightarrow> getProjectInvitationExpiry (iv_created_at i))"

definition isProjectInvitationExpired :: "invitation_row \<Rightarrow> timestamp \<Rightarrow> bool" where
  "isProjectInvitationExpired i now \<longleftrightarrow> iv_status i = IPending \<and> expiry_of i \<le> now"

definition isProjectInvitationReminderDue :: "invitation_row \<Rightarrow> timestamp \<Rightarrow> bool" where
  "isProjectInvitationReminderDue i now \<longleftrightarrow>
     iv_status i = IPending \<and> iv_reminder_sent_at i = None \<and> \<not> isProjectInvitationExpired i now \<and>
     getProjectInvitationReminderThreshold (iv_created_at i) \<le> now"

definition normalizeProjectInvitation :: "timestamp \<Rightarrow> invitation_row \<Rightarrow> invitation_row" where
  "normalizeProjectInvitation now i =
     (let j = i\<lparr>iv_expires_at := Some (expiry_of i)\<rparr>
      in if isProjectInvitationExpired j now then j\<lparr>iv_status := IExpired\<rparr> else j)"

text \<open>A row with the rows it refers to, as far as they were selected with it.\<close>

record invitation_entry =
  ie_row :: invitation_row
  ie_agent :: "agent_row option"
  ie_invited_by :: "agent_row option"
  ie_project :: "project_row option"

definition entry_of :: "bool \<Rightarrow> db \<Rightarrow> invitation_row \<Rightarrow> invitation_entry" where
  "entry_of withProject d i =
     \<lparr>ie_row = i, ie_agent = find (\<lambda>a. ag_id a = iv_agent_id i) (db_agents d),
      ie_invited_by = find (\<lambda>a. ag_id a = iv_invited_by_agent_id i) (db_agents d),
      ie_project = (if withProject then find (\<lambda>p. pj_id p = iv_project_id i) (db_projects d) else None)\<rparr>"

text \<open>An update or insert returns its row without the rows it refers to.\<close>

definition bare :: "invitation_row \<Rightarrow> invitation_entry" where
  "bare i = \<lparr>ie_row = i, ie_agent = None, ie_invited_by = None, ie_project = None\<rparr>"

definition q_entries :: "bool \<Rightarrow> (invitation_row \<Rightarrow> bool) \<Rightarrow> invitation_entry list statement" where
  "q_entries withProject P d = (Inr (map (entry_of withProject d) (filter P (db_invitations d))), d)"

definition normalized :: "timestamp \<Rightarrow> invitation_entry \<Rightarrow> invitation_entry" where
  "normalized now e = e\<lparr>ie_row := normalizeProjectInvitation now (ie_row e)\<rparr>"

definition agent_label :: "agent_row option \<Rightarrow> string" where
  "agent_label a = str_or (map_option ag_display_name a) (str_or (map_option ag_name a) ''Unknown Agent'')"

definition project_label :: "project_row option \<Rightarrow> string" where
  "project_label p = str_or (Option.bind p pj_title) ''Unknown Project''"

fun invitation_status_name :: "Store.invitation_status \<Rightarrow> string" where
  "invitation_status_name IPending = ''pending''"
| "invitation_status_name IAccepted = ''accepted''"
| "invitation_status_name IDeclined = ''declined''"
| "invitation_status_name ICancelled = ''cancelled''"
| "invitation_status_name IExpired = ''expired''"

definition invitation_json :: "invitation_row \<Rightarrow> json" where
  "invitation_json i = JObj
     [(''id'', JStr (iv_id i)), (''project_id'', JStr (iv_project_id i)), (''agent_id'', JStr (iv_agent_id i)),
      (''invited_by_agent_id'', JStr (iv_invited_by_agent_id i)), (''role'', JStr (iv_role i)),
      (''status'', JStr (invitation_status_name (iv_status i))), (''responded_at'', jtime_or_null (iv_responded_at i)),
      (''reminder_sent_at'', jtime_or_null (iv_reminder_sent_at i)), (''expires_at'', jtime_or_null (iv_expires_at i)),
      (''created_at'', jint (iv_created_at i)), (''updated_at'', jint (iv_updated_at i))]"

section \<open>Announcements\<close>

definition project_event :: "string list \<Rightarrow> string \<Rightarrow> string \<Rightarrow> content \<Rightarrow> webhook_event" where
  "project_event targets event projectId data =
     \<lparr>we_targets = targets, we_event = event, we_contract_id = None, we_project_id = Some projectId, we_task_id = None,
      we_sprint_id = None, we_approval_id = None, we_data = data\<rparr>"

definition invitation_data :: "string \<Rightarrow> string \<Rightarrow> string \<Rightarrow> string \<Rightarrow> string \<Rightarrow> content" where
  "invitation_data agentId agentName byId byName title =
     [(''agent_id'', JStr agentId), (''agent_name'', JStr agentName), (''invited_by'', JStr byName),
      (''invited_by_agent_id'', JStr byId), (''project_title'', JStr title)]"

definition notifyProjectInvitationCreated :: "string \<Rightarrow> string \<Rightarrow> string \<Rightarrow> string \<Rightarrow> string \<Rightarrow> string \<Rightarrow> unit prog" where
  "notifyProjectInvitationCreated projectId agentId agentName byId byName title = do {
     memberIds \<leftarrow> getProjectMemberAgentIds projectId;
     deliver (project_event (js_set (memberIds @ [agentId])) ''project.member_invited'' projectId
       (invitation_data agentId agentName byId byName title))
   }"

definition notifyProjectInvitationResponded :: "invitation_entry \<Rightarrow> Store.invitation_status \<Rightarrow> unit prog" where
  "notifyProjectInvitationResponded e status =
     (let i = ie_row e in do {
       memberIds \<leftarrow> getProjectMemberAgentIds (iv_project_id i);
       deliver (project_event (js_set (memberIds @ [iv_invited_by_agent_id i, iv_agent_id i]))
         (''project.member_'' @ invitation_status_name status) (iv_project_id i)
         (invitation_data (iv_agent_id i) (agent_label (ie_agent e)) (iv_invited_by_agent_id i)
           (agent_label (ie_invited_by e)) (project_label (ie_project e))))
     })"

definition notifyProjectInvitationReminder :: "invitation_entry \<Rightarrow> timestamp \<Rightarrow> unit prog" where
  "notifyProjectInvitationReminder e expiresAt =
     (let i = ie_row e in do {
       memberIds \<leftarrow> getProjectMemberAgentIds (iv_project_id i);
       deliver (project_event (js_set (memberIds @ [iv_invited_by_agent_id i, iv_agent_id i])) ''project.member_invited''
         (iv_project_id i)
         (invitation_data (iv_agent_id i) (agent_label (ie_agent e)) (iv_invited_by_agent_id i)
            (agent_label (ie_invited_by e)) (project_label (ie_project e)) @
          [(''invitation_id'', JStr (iv_id i)), (''reminder'', JBool True), (''expires_at'', jint expiresAt)]))
     })"

section \<open>Expiry and reminders\<close>

definition expired_at :: "timestamp \<Rightarrow> invitation_row \<Rightarrow> invitation_row" where
  "expired_at now i = i\<lparr>iv_status := IExpired, iv_responded_at := Some now, iv_updated_at := now\<rparr>"

definition q_expire :: "string \<Rightarrow> timestamp \<Rightarrow> invitation_row list statement" where
  "q_expire invitationId now = q_update db_invitations db_invitations_update
     (\<lambda>i. iv_id i = invitationId \<and> iv_status i = IPending) (expired_at now)"

definition q_remind :: "string \<Rightarrow> timestamp \<Rightarrow> invitation_row list statement" where
  "q_remind invitationId now = q_update db_invitations db_invitations_update
     (\<lambda>i. iv_id i = invitationId \<and> iv_status i = IPending \<and> iv_reminder_sent_at i = None)
     (\<lambda>i. i\<lparr>iv_reminder_sent_at := Some now, iv_updated_at := now\<rparr>)"

definition expireProjectInvitationIfNeeded :: "invitation_entry \<Rightarrow> invitation_entry prog" where
  "expireProjectInvitationIfNeeded e = do {
     now \<leftarrow> clock;
     if \<not> isProjectInvitationExpired (ie_row e) now then State_Monad.return e
     else do {
       written \<leftarrow> clock;
       r \<leftarrow> call (shaped shape_single (q_expire (iv_id (ie_row e)) written));
       case r of
         Inl _ \<Rightarrow> State_Monad.return (e\<lparr>ie_row := expired_at written (ie_row e)\<rparr>)
       | Inr updated \<Rightarrow> do {
           notifyProjectInvitationResponded (bare updated) IExpired;
           State_Monad.return (bare updated)
         }
     }
   }"

definition sendProjectInvitationReminderIfDue :: "invitation_entry \<Rightarrow> invitation_entry prog" where
  "sendProjectInvitationReminderIfDue e = do {
     now \<leftarrow> clock;
     if \<not> isProjectInvitationReminderDue (ie_row e) now then State_Monad.return e
     else do {
       written \<leftarrow> clock;
       r \<leftarrow> call (shaped shape_single (q_remind (iv_id (ie_row e)) written));
       case r of
         Inl _ \<Rightarrow> State_Monad.return e
       | Inr updated \<Rightarrow> do {
           notifyProjectInvitationReminder (bare updated) (expiry_of (ie_row e));
           State_Monad.return (bare updated)
         }
     }
   }"

definition reconcileProjectInvitationState :: "invitation_entry \<Rightarrow> invitation_entry prog" where
  "reconcileProjectInvitationState e = do {
     expired \<leftarrow> expireProjectInvitationIfNeeded e;
     if iv_status (ie_row expired) \<noteq> IPending then State_Monad.return expired
     else sendProjectInvitationReminderIfDue expired
   }"

fun reconcile_all :: "invitation_entry list \<Rightarrow> invitation_entry list prog" where
  "reconcile_all [] = State_Monad.return []"
| "reconcile_all (e # es) = do {
     x \<leftarrow> reconcileProjectInvitationState e;
     xs \<leftarrow> reconcile_all es;
     State_Monad.return (x # xs)
   }"

definition hydrateProjectInvitations :: "invitation_entry list \<Rightarrow> invitation_entry list prog" where
  "hydrateProjectInvitations es = do { now \<leftarrow> clock; reconcile_all (map (normalized now) es) }"

definition getProjectPendingInvitation :: "string \<Rightarrow> string \<Rightarrow> invitation_row option prog" where
  "getProjectPendingInvitation projectId agentId = do {
     r \<leftarrow> call (shaped shape_maybe (q_select db_invitations
       (\<lambda>i. iv_project_id i = projectId \<and> iv_agent_id i = agentId \<and> iv_status i = IPending)));
     now \<leftarrow> clock;
     State_Monad.return (map_option (normalizeProjectInvitation now) (maybe_of r))
   }"

section \<open>The sweep\<close>

datatype sweep_outcome = SweptExpired | SweptReminded | SweptNoop

definition fetchPendingInvitations :: "nat \<Rightarrow> invitation_entry list db_result prog" where
  "fetchPendingInvitations batchSize = call (\<lambda>d. (Inr (map (entry_of True d)
     (take batchSize (sort_key iv_created_at (filter (\<lambda>i. iv_status i = IPending) (db_invitations d))))), d))"

definition markExpired :: "bool \<Rightarrow> invitation_entry \<Rightarrow> sweep_outcome prog" where
  "markExpired dryRun e = do {
     now \<leftarrow> clock;
     if dryRun then State_Monad.return SweptExpired
     else do {
       r \<leftarrow> call (shaped shape_single (q_expire (iv_id (ie_row e)) now));
       case r of
         Inl _ \<Rightarrow> State_Monad.return SweptNoop
       | Inr updated \<Rightarrow> do {
           notifyProjectInvitationResponded (bare updated) IExpired;
           State_Monad.return SweptExpired
         }
     }
   }"

definition markReminderSent :: "bool \<Rightarrow> invitation_entry \<Rightarrow> sweep_outcome prog" where
  "markReminderSent dryRun e = do {
     now \<leftarrow> clock;
     if dryRun then State_Monad.return SweptReminded
     else do {
       r \<leftarrow> call (shaped shape_single (q_remind (iv_id (ie_row e)) now));
       case r of
         Inl _ \<Rightarrow> State_Monad.return SweptNoop
       | Inr updated \<Rightarrow> do {
           notifyProjectInvitationReminder (bare updated) (expiry_of (ie_row e));
           State_Monad.return SweptReminded
         }
     }
   }"

definition processInvitation :: "bool \<Rightarrow> invitation_entry \<Rightarrow> sweep_outcome prog" where
  "processInvitation dryRun e = do {
     now \<leftarrow> clock;
     if isProjectInvitationExpired (ie_row e) now then markExpired dryRun e
     else do {
       now' \<leftarrow> clock;
       if isProjectInvitationReminderDue (ie_row e) now' then markReminderSent dryRun e
       else State_Monad.return SweptNoop
     }
   }"

fun process_all :: "bool \<Rightarrow> invitation_entry list \<Rightarrow> sweep_outcome list prog" where
  "process_all dryRun [] = State_Monad.return []"
| "process_all dryRun (e # es) = do {
     x \<leftarrow> processInvitation dryRun e;
     xs \<leftarrow> process_all dryRun es;
     State_Monad.return (x # xs)
   }"

text \<open>One cycle; a failed read ends it.\<close>

definition sweep_cycle :: "nat \<Rightarrow> bool \<Rightarrow> sweep_outcome list prog" where
  "sweep_cycle batchSize dryRun = do {
     r \<leftarrow> fetchPendingInvitations batchSize;
     process_all dryRun (rows_of r)
   }"

section \<open>Routes\<close>

text \<open>What an observer may see is decided by a gate of its own policy.\<close>

definition observer_gate ::
  "(access_context \<Rightarrow> string + policy_decision) \<Rightarrow> request \<Rightarrow> project_access \<Rightarrow> string \<Rightarrow> 'b response prog \<Rightarrow> 'b response prog" where
  "observer_gate evaluate req access blocked k =
     (if pac_accessKind access \<noteq> ObserverKind then k
      else case evaluate (access_context_of (rq_agent req)) of
        Inl e \<Rightarrow> State_Monad.return (Thrown e)
      | Inr d \<Rightarrow>
          if pd_allowed d then k
          else State_Monad.return (Refusal
            \<lparr>rf_status = (case pd_status d of Some n \<Rightarrow> n | None \<Rightarrow> 403),
             rf_body = (case pd_body d of Some b \<Rightarrow> b | None \<Rightarrow> api_err blocked ''TRUST_TIER_BLOCKED'')\<rparr>))"

definition newest_entries :: "invitation_entry list \<Rightarrow> invitation_entry list" where
  "newest_entries es = sort_key (\<lambda>e. - iv_created_at (ie_row e)) es"

definition q_project_invitations :: "string \<Rightarrow> invitation_entry list statement" where
  "q_project_invitations projectId d =
     (Inr (newest_entries (map (entry_of False d) (filter (\<lambda>i. iv_project_id i = projectId) (db_invitations d)))), d)"

definition not_participating :: "'b response" where
  "not_participating = forbidden ''Not a participant in this project''"

definition invitations_get :: "request \<Rightarrow> string \<Rightarrow> invitation_entry list response prog" where
  "invitations_get req projectId = do {
     access \<leftarrow> getProjectAccess projectId (ag_id (rq_agent req));
     case access of
       None \<Rightarrow> do {
         own \<leftarrow> call (shaped shape_single (q_entries False
           (\<lambda>i. iv_project_id i = projectId \<and> iv_agent_id i = ag_id (rq_agent req) \<and> iv_status i = IPending)));
         case data_of own of
           Some e \<Rightarrow> do { h \<leftarrow> hydrateProjectInvitations [e]; State_Monad.return (Answer 200 h) }
         | None \<Rightarrow> State_Monad.return not_participating
       }
     | Some a \<Rightarrow>
         observer_gate evaluateProjectInvitationListPolicyAccess req a
           ''Observer project invitation visibility blocked by trust policy'' (do {
             r \<leftarrow> call (q_project_invitations projectId);
             case r of
               Inl _ \<Rightarrow> State_Monad.return (reply_error 500 ''Failed to fetch invitations'' ''DB_ERROR'')
             | Inr es \<Rightarrow> do { h \<leftarrow> hydrateProjectInvitations es; State_Monad.return (Answer 200 h) }
           })
   }"

text \<open>Inviting an agent again reuses its row; \<open>created\<close> is \<open>None\<close> where the column is not written.\<close>

definition q_upsert_invitation :: "timestamp option \<Rightarrow> invitation_row \<Rightarrow> invitation_row list statement" where
  "q_upsert_invitation created new d =
     (let same = (\<lambda>i. iv_project_id i = iv_project_id new \<and> iv_agent_id i = iv_agent_id new)
      in if \<exists>i\<in>set (db_invitations d). same i then
           q_update db_invitations db_invitations_update same
             (\<lambda>i. new\<lparr>iv_id := iv_id i, iv_created_at := (case created of Some t \<Rightarrow> t | None \<Rightarrow> iv_created_at i)\<rparr>) d
         else with_fresh (\<lambda>fresh d. q_insert db_invitations db_invitations_update
             (\<lambda>n i. iv_project_id n = iv_project_id i \<and> iv_agent_id n = iv_agent_id i)
             [new\<lparr>iv_id := fresh, iv_created_at := (case created of Some t \<Rightarrow> t | None \<Rightarrow> db_now d)\<rparr>] d) d)"

definition new_invitation :: "string \<Rightarrow> string \<Rightarrow> string \<Rightarrow> timestamp \<Rightarrow> timestamp \<Rightarrow> invitation_row" where
  "new_invitation projectId agentId byId expires updated =
     \<lparr>iv_id = [], iv_project_id = projectId, iv_agent_id = agentId, iv_invited_by_agent_id = byId, iv_role = ''member'',
      iv_status = IPending, iv_responded_at = None, iv_reminder_sent_at = None, iv_expires_at = Some expires,
      iv_created_at = updated, iv_updated_at = updated\<rparr>"

definition read_project :: "string \<Rightarrow> project_row option prog" where
  "read_project i = do { r \<leftarrow> call (shaped shape_single (q_select db_projects (\<lambda>p. pj_id p = i))); State_Monad.return (data_of r) }"

definition read_member :: "string \<Rightarrow> string \<Rightarrow> member_row option prog" where
  "read_member projectId agentId = do {
     r \<leftarrow> call (shaped shape_single (q_select db_members (\<lambda>m. pm_project_id m = projectId \<and> pm_agent_id m = agentId)));
     State_Monad.return (data_of r)
   }"

definition read_invitation :: "string \<Rightarrow> string \<Rightarrow> invitation_row option prog" where
  "read_invitation projectId agentId = do {
     r \<leftarrow> call (shaped shape_single (q_select db_invitations (\<lambda>i. iv_project_id i = projectId \<and> iv_agent_id i = agentId)));
     State_Monad.return (data_of r)
   }"

definition is_pending :: "invitation_row option \<Rightarrow> bool" where
  "is_pending i = (case i of None \<Rightarrow> False | Some x \<Rightarrow> iv_status x = IPending)"

definition invitation_stored ::
  "request \<Rightarrow> string \<Rightarrow> string option \<Rightarrow> string \<Rightarrow> string \<Rightarrow> agent_row \<Rightarrow> project_row \<Rightarrow> invitation_row response prog" where
  "invitation_stored req projectId key endpoint agentId agent project = do {
     created \<leftarrow> clock;
     expires \<leftarrow> clock;
     updated \<leftarrow> clock;
     r \<leftarrow> call (shaped shape_single (q_upsert_invitation (Some created)
       (new_invitation projectId agentId (ag_id (rq_agent req)) (getProjectInvitationExpiry expires) updated)));
     case r of
       Inl _ \<Rightarrow> State_Monad.return (reply_error 500 ''Failed to create invitation'' ''DB_ERROR'')
     | Inr invitation \<Rightarrow> do {
         auditLog (ag_name (rq_agent req)) ''project.member_invite'' (Some ''project'') (Some projectId)
           (Some [(''agent_id'', JStr agentId), (''role'', JStr ''member'')]) (Some (getClientIp req));
         notifyProjectInvitationCreated projectId agentId (str_or (Some (ag_display_name agent)) (ag_name agent))
           (ag_id (rq_agent req)) (str_or (Some (ag_display_name (rq_agent req))) (ag_name (rq_agent req)))
           (case pj_title project of Some t \<Rightarrow> t | None \<Rightarrow> []);
         storeIdempotencyResponse key req endpoint 201 (invitation_json invitation);
         State_Monad.return (Answer 201 invitation)
       }
   }"

definition invitation_checked ::
  "request \<Rightarrow> string \<Rightarrow> string option \<Rightarrow> string \<Rightarrow> string \<Rightarrow> bool \<Rightarrow> invitation_row response prog" where
  "invitation_checked req projectId key endpoint agentId isSelf = do {
     project \<leftarrow> read_project projectId;
     agent \<leftarrow> agent_with_id agentId;
     existingMember \<leftarrow> read_member projectId agentId;
     existingInvite \<leftarrow> read_invitation projectId agentId;
     case project of
       None \<Rightarrow> State_Monad.return (reply_error 404 ''Project not found'' ''NOT_FOUND'')
     | Some p \<Rightarrow> (case agent of
         None \<Rightarrow> State_Monad.return (reply_error 404 ''Agent not found'' ''NOT_FOUND'')
       | Some a \<Rightarrow>
           if isSelf then State_Monad.return (reply_error 400 ''Owner is already part of the project'' ''VALIDATION_ERROR'')
           else if existingMember \<noteq> None then
             State_Monad.return (reply_error 409 ''Agent is already a member of this project'' ''DUPLICATE'')
           else if is_pending existingInvite then
             State_Monad.return (reply_error 409 ''Agent already has a pending invitation'' ''DUPLICATE'')
           else (case evaluateProjectMemberInvite (policy_agent_of (rq_agent req)) (policy_agent_of a) of
               Inl e \<Rightarrow> State_Monad.return (Thrown e)
             | Inr g \<Rightarrow>
                 if \<not> gr_allowed g then State_Monad.return (reply_error 403
                   (str_or (gr_reason g) ''Target agent is not trusted enough for project membership'') ''TRUST_TIER_BLOCKED'')
                 else invitation_stored req projectId key endpoint agentId a p))
   }"

definition invitations_post :: "(json \<Rightarrow> string) \<Rightarrow> request \<Rightarrow> string \<Rightarrow> invitation_row response prog" where
  "invitations_post to_text req projectId =
     (let endpoint = ''POST /v1/projects/'' @ projectId @ ''/invitations''
      in with_key req endpoint (\<lambda>key. do {
        access \<leftarrow> getProjectAccess projectId (ag_id (rq_agent req));
        case access of
          None \<Rightarrow> State_Monad.return not_participating
        | Some m \<Rightarrow>
            if pac_role m \<noteq> AccessOwner then State_Monad.return (forbidden ''Only project owners can invite members'')
            else (case rq_body req of
              Parsed j \<Rightarrow>
                (let agentId = jprop (Some j) ''agent_id''; role = jprop (Some j) ''role''
                 in if j = JNull then State_Monad.return (Thrown ''TypeError'')
                    else if falsy agentId then
                      State_Monad.return (reply_error 400 ''Missing required field: agent_id'' ''VALIDATION_ERROR'')
                    else if \<not> falsy role \<and> role \<noteq> Some (JStr ''member'') then
                      State_Monad.return (reply_error 400 ''Only member invitations are supported'' ''VALIDATION_ERROR'')
                    else invitation_checked req projectId key endpoint (the (column_text to_text agentId))
                      (agentId = Some (JStr (ag_id (rq_agent req)))))
            | _ \<Rightarrow> State_Monad.return (reply_error 400 ''Invalid JSON body'' ''INVALID_BODY''))
      }))"

subsection \<open>Answering an invitation\<close>

datatype invitation_action = AcceptInvitation | DeclineInvitation | CancelInvitation

fun invitation_action_name :: "invitation_action \<Rightarrow> string" where
  "invitation_action_name AcceptInvitation = ''accept''"
| "invitation_action_name DeclineInvitation = ''decline''"
| "invitation_action_name CancelInvitation = ''cancel''"

fun next_status :: "invitation_action \<Rightarrow> Store.invitation_status" where
  "next_status AcceptInvitation = IAccepted"
| "next_status DeclineInvitation = IDeclined"
| "next_status CancelInvitation = ICancelled"

definition invitation_action_of :: "jvalue \<Rightarrow> invitation_action option" where
  "invitation_action_of v =
     find (\<lambda>a. v = Some (JStr (invitation_action_name a))) [AcceptInvitation, DeclineInvitation, CancelInvitation]"

text \<open>The trust gate between inviter and invitee; when one of them is gone there is none.\<close>

definition accept_gate :: "invitation_row \<Rightarrow> (string + gate_result option) prog" where
  "accept_gate i = do {
     inviter \<leftarrow> agent_with_id (iv_invited_by_agent_id i);
     invitee \<leftarrow> agent_with_id (iv_agent_id i);
     State_Monad.return (case (inviter, invitee) of
         (Some a, Some b) \<Rightarrow> map_sum id Some (evaluateProjectMemberInvite (policy_agent_of a) (policy_agent_of b))
       | _ \<Rightarrow> Inr None)
   }"

definition answered :: "invitation_action \<Rightarrow> timestamp \<Rightarrow> invitation_row \<Rightarrow> invitation_row" where
  "answered action now i = i\<lparr>iv_status := next_status action, iv_responded_at := Some now, iv_updated_at := now\<rparr>"

definition q_answer :: "string \<Rightarrow> string \<Rightarrow> invitation_action \<Rightarrow> timestamp \<Rightarrow> invitation_row list statement" where
  "q_answer projectId invitationId action now = q_update db_invitations db_invitations_update
     (\<lambda>i. iv_id i = invitationId \<and> iv_project_id i = projectId \<and> iv_status i = IPending) (answered action now)"

definition q_add_member :: "string \<Rightarrow> string \<Rightarrow> string \<Rightarrow> member_row list statement" where
  "q_add_member projectId agentId role = with_fresh (\<lambda>fresh d. q_insert db_members db_members_update
     (\<lambda>n m. pm_project_id n = pm_project_id m \<and> pm_agent_id n = pm_agent_id m)
     [\<lparr>pm_id = fresh, pm_project_id = projectId, pm_agent_id = agentId, pm_role = role, pm_joined_at = db_now d\<rparr>] d)"

definition q_reopen :: "string \<Rightarrow> timestamp \<Rightarrow> invitation_row list statement" where
  "q_reopen invitationId now = q_update db_invitations db_invitations_update (\<lambda>i. iv_id i = invitationId)
     (\<lambda>i. i\<lparr>iv_status := IPending, iv_responded_at := None, iv_updated_at := now\<rparr>)"

text \<open>Joining; a membership that exists already is no error.\<close>

definition join_project :: "invitation_row \<Rightarrow> bool prog" where
  "join_project i = do {
     r \<leftarrow> call (q_add_member (iv_project_id i) (iv_agent_id i) (iv_role i));
     State_Monad.return (case r of Inl e \<Rightarrow> de_code e = ''23505'' | Inr _ \<Rightarrow> True)
   }"

definition answer_noted :: "request \<Rightarrow> invitation_action \<Rightarrow> invitation_entry \<Rightarrow> invitation_row \<Rightarrow> invitation_row response prog" where
  "answer_noted req action e updated =
     (let i = ie_row e in do {
       auditLog (ag_name (rq_agent req)) (''project.member_invitation.'' @ invitation_action_name action) (Some ''project'')
         (Some (iv_project_id i)) (Some [(''invitation_id'', JStr (iv_id i)), (''agent_id'', JStr (iv_agent_id i))])
         (Some (getClientIp req));
       (if action = AcceptInvitation then
          auditLog (ag_name (rq_agent req)) ''project.member_add'' (Some ''project'') (Some (iv_project_id i))
            (Some [(''agent_id'', JStr (iv_agent_id i)), (''role'', JStr (iv_role i)), (''via'', JStr ''invitation'')])
            (Some (getClientIp req))
        else State_Monad.return ());
       notifyProjectInvitationResponded e (next_status action);
       State_Monad.return (Answer 200 updated)
     })"

definition answer_written :: "request \<Rightarrow> invitation_action \<Rightarrow> invitation_entry \<Rightarrow> invitation_row response prog" where
  "answer_written req action e = do {
     now \<leftarrow> clock;
     r \<leftarrow> call (shaped shape_single (q_answer (iv_project_id (ie_row e)) (iv_id (ie_row e)) action now));
     case r of
       Inl _ \<Rightarrow> State_Monad.return (reply_error 500 ''Failed to update invitation'' ''DB_ERROR'')
     | Inr updated \<Rightarrow> do {
         joined \<leftarrow> (if action = AcceptInvitation then join_project (ie_row e) else State_Monad.return True);
         if joined then answer_noted req action e updated
         else do {
           now' \<leftarrow> clock;
           _ \<leftarrow> call (q_reopen (iv_id (ie_row e)) now');
           State_Monad.return (reply_error 500 ''Failed to add invited agent to project'' ''DB_ERROR'')
         }
       }
   }"

definition may_answer :: "request \<Rightarrow> project_access option \<Rightarrow> invitation_action \<Rightarrow> invitation_row \<Rightarrow> string option" where
  "may_answer req access action i =
     (let isOwner = (case access of None \<Rightarrow> False | Some a \<Rightarrow> pac_role a = AccessOwner)
      in if action = CancelInvitation then
           (if \<not> isOwner \<and> ag_id (rq_agent req) \<noteq> iv_invited_by_agent_id i then
              Some ''Only project owners or the original inviter can cancel invitations'' else None)
         else if iv_agent_id i \<noteq> ag_id (rq_agent req) then Some ''Only the invited agent can respond to this invitation''
         else None)"

definition answer_invitation :: "request \<Rightarrow> invitation_action \<Rightarrow> invitation_entry \<Rightarrow> invitation_row response prog" where
  "answer_invitation req action e = do {
     access \<leftarrow> getProjectAccess (iv_project_id (ie_row e)) (ag_id (rq_agent req));
     gate \<leftarrow> (if action = AcceptInvitation then accept_gate (ie_row e) else State_Monad.return (Inr None));
     case gate of
       Inl t \<Rightarrow> State_Monad.return (Thrown t)
     | Inr g \<Rightarrow>
         if (case g of None \<Rightarrow> False | Some x \<Rightarrow> \<not> gr_allowed x) then State_Monad.return (reply_error 403
           (str_or (gr_reason (the g)) ''Trust policy blocks this agent from joining the project'') ''TRUST_TIER_BLOCKED'')
         else (case may_answer req access action (ie_row e) of
             Some refusal \<Rightarrow> State_Monad.return (forbidden refusal)
           | None \<Rightarrow> answer_written req action e)
   }"

definition answer_found :: "request \<Rightarrow> invitation_action \<Rightarrow> invitation_entry \<Rightarrow> invitation_row response prog" where
  "answer_found req action raw = do {
     now \<leftarrow> clock;
     let e = normalized now raw;
     if iv_status (ie_row e) \<noteq> IPending then
       State_Monad.return (reply_error 409 (if iv_status (ie_row e) = IExpired then ''Invitation has expired''
         else ''Invitation has already been resolved'') ''VALIDATION_ERROR'')
     else do {
       now' \<leftarrow> clock;
       if isProjectInvitationExpired (ie_row e) now' then
         State_Monad.return (reply_error 409 ''Invitation has expired'' ''VALIDATION_ERROR'')
       else answer_invitation req action e
     }
   }"

definition invitation_patch :: "request \<Rightarrow> string \<Rightarrow> string \<Rightarrow> invitation_row response prog" where
  "invitation_patch req projectId invitationId =
     (case rq_body req of
        Parsed j \<Rightarrow>
          if j = JNull then State_Monad.return (Thrown ''TypeError'')
          else (case invitation_action_of (jprop (Some j) ''action'') of
            None \<Rightarrow> State_Monad.return (reply_error 400 ''Action must be one of: accept, decline, cancel'' ''VALIDATION_ERROR'')
          | Some action \<Rightarrow> do {
              r \<leftarrow> call (shaped shape_single (q_entries True (\<lambda>i. iv_id i = invitationId \<and> iv_project_id i = projectId)));
              case data_of r of
                None \<Rightarrow> State_Monad.return (reply_error 404 ''Invitation not found'' ''NOT_FOUND'')
              | Some raw \<Rightarrow> answer_found req action raw
            })
      | _ \<Rightarrow> State_Monad.return (reply_error 400 ''Invalid JSON body'' ''INVALID_BODY''))"

end
