(* ===== verification/Projects.thy ===== *)
theory Projects
  imports ProjectInvitations
begin

text \<open>
  Projects, their members, observers and sprints: the routes under \<open>src/app/api/v1/projects\<close> that are not about
  tasks or invitations. Parameters: \<open>driver\<close> (what the database driver makes of a JSON value in a column) and the
  query parameters as texts.
\<close>

section \<open>Projects\<close>

definition privacy_json :: "privacy_metadata \<Rightarrow> json" where
  "privacy_json p = JObj [(''version'', jint (int (pm_version p))),
     (''allow_observer_access'', JBool (pm_allow_observer_access p))]"

definition stored_privacy :: "jvalue \<Rightarrow> json" where
  "stored_privacy v = privacy_json (normalizeProjectPrivacyMetadata v)"

text \<open>\<open>Math.max(1, parseInt(text || fallback))\<close>; \<open>None\<close> is \<open>NaN\<close>.\<close>

definition page_param :: "string option \<Rightarrow> string \<Rightarrow> int option" where
  "page_param text fallback = map_option (max 1) (parse_int (str_or text fallback))"

record project_page =
  jp_data :: "project_row list"
  jp_total :: nat
  jp_page :: "int option"
  jp_per_page :: "int option"

definition shown_project :: "project_row \<Rightarrow> project_row" where
  "shown_project p = p\<lparr>pj_privacy_metadata := stored_privacy (Some (pj_privacy_metadata p))\<rparr>"

definition newest_projects :: "project_row list \<Rightarrow> project_row list" where
  "newest_projects ps = sort_key (\<lambda>p. - pj_created_at p) ps"

definition syntax_error :: db_error where
  "syntax_error = \<lparr>de_code = ''42601'', de_message = ''syntax error''\<rparr>"

text \<open>A page of the projects, with the number of all; a page that is no number is no SQL.\<close>

definition q_project_page :: "(project_row \<Rightarrow> bool) \<Rightarrow> int option \<Rightarrow> int option \<Rightarrow> (project_row list \<times> nat) statement" where
  "q_project_page P page perPage d =
     (case (page, perPage) of
        (Some k, Some n) \<Rightarrow>
          (let rows = newest_projects (filter P (db_projects d))
           in (Inr (take (nat n) (drop (nat ((k - 1) * n)) rows), length rows), d))
      | _ \<Rightarrow> (Inl syntax_error, d))"

definition projects_get :: "request \<Rightarrow> string option \<Rightarrow> string option \<Rightarrow> string option \<Rightarrow> project_page response prog" where
  "projects_get req status page_text per_page_text =
     (let page = page_param page_text ''1''; perPage = map_option (min 100) (page_param per_page_text ''20'')
      in do {
        members \<leftarrow> call (q_select db_members (\<lambda>m. pm_agent_id m = ag_id (rq_agent req)));
        observed \<leftarrow> listObservedProjectIds (ag_id (rq_agent req));
        case members of
          Inl _ \<Rightarrow> State_Monad.return (reply_error 500 ''Failed to fetch projects'' ''DB_ERROR'')
        | Inr ms \<Rightarrow>
            (let projectIds = js_set (map pm_project_id ms @ observed)
             in if projectIds = [] then State_Monad.return (Answer 200
                  \<lparr>jp_data = [], jp_total = 0, jp_page = page, jp_per_page = perPage\<rparr>)
                else do {
                  r \<leftarrow> call (q_project_page (\<lambda>p. pj_id p \<in> set projectIds \<and> (truthy_str status \<longrightarrow> status = Some (pj_status p))) page perPage);
                  State_Monad.return (case r of
                      Inl _ \<Rightarrow> reply_error 500 ''Failed to fetch projects'' ''DB_ERROR''
                    | Inr (rows, count) \<Rightarrow> Answer 200 \<lparr>jp_data = map shown_project rows, jp_total = count,
                        jp_page = page, jp_per_page = perPage\<rparr>)
                })
      })"

subsection \<open>Creating a project\<close>

definition text_or_null :: "driver \<Rightarrow> jvalue \<Rightarrow> string option" where
  "text_or_null dv v = (if falsy v then None else column_text (dv_text dv) v)"

definition q_insert_project :: "driver \<Rightarrow> string \<Rightarrow> json \<Rightarrow> project_row list statement" where
  "q_insert_project dv agentId j = with_fresh (\<lambda>fresh d. q_insert db_projects db_projects_update (\<lambda>n p. pj_id n = pj_id p)
     [\<lparr>pj_id = fresh, pj_title = column_text (dv_text dv) (jprop (Some j) ''title''),
       pj_description = text_or_null dv (jprop (Some j) ''description''), pj_status = ''planning'',
       pj_created_by_agent_id = Some agentId, pj_privacy_metadata = stored_privacy (jprop (Some j) ''privacy_metadata''),
       pj_created_at = db_now d, pj_updated_at = db_now d\<rparr>] d)"

text \<open>The ids to invite, all but the caller's; \<open>None\<close> when \<open>members\<close> is given and is no array.\<close>

definition invited_ids :: "string \<Rightarrow> jvalue \<Rightarrow> json list option" where
  "invited_ids agentId v =
     (case v of
        None \<Rightarrow> Some []
      | Some (JArr xs) \<Rightarrow> Some (filter (\<lambda>x. x \<noteq> JStr agentId) xs)
      | Some _ \<Rightarrow> None)"

definition drop_project :: "string \<Rightarrow> unit prog" where
  "drop_project i = do {
     _ \<leftarrow> call (q_delete db_projects db_projects_update (\<lambda>p. pj_id p = i));
     State_Monad.return ()
   }"

definition drop_project_and_members :: "string \<Rightarrow> unit prog" where
  "drop_project_and_members i = do {
     _ \<leftarrow> call (q_delete db_members db_members_update (\<lambda>m. pm_project_id m = i));
     drop_project i
   }"

fun with_ids :: "nat \<Rightarrow> (string list \<Rightarrow> 'a statement) \<Rightarrow> 'a statement" where
  "with_ids 0 q = q []"
| "with_ids (Suc n) q = with_fresh (\<lambda>fresh. with_ids n (\<lambda>ids. q (fresh # ids)))"

text \<open>The rows violate the unique index among themselves or with stored ones, or all are inserted.\<close>

definition q_insert_invitations :: "string \<Rightarrow> string \<Rightarrow> string list \<Rightarrow> invitation_row list statement" where
  "q_insert_invitations projectId byId agentIds = with_ids (length agentIds) (\<lambda>ids d.
     if \<not> distinct agentIds then (Inl unique_violation, d)
     else q_insert db_invitations db_invitations_update (\<lambda>n i. iv_project_id n = iv_project_id i \<and> iv_agent_id n = iv_agent_id i)
       (map2 (\<lambda>i a. (new_invitation projectId a byId (getProjectInvitationExpiry (db_now d)) (db_now d))\<lparr>iv_id := i\<rparr>)
         ids agentIds) d)"

fun announce_invited :: "request \<Rightarrow> project_row \<Rightarrow> agent_row list \<Rightarrow> unit prog" where
  "announce_invited req project [] = State_Monad.return ()"
| "announce_invited req project (a # rest) = do {
     notifyProjectInvitationCreated (pj_id project) (ag_id a) (str_or (Some (ag_display_name a)) (ag_name a))
       (ag_id (rq_agent req)) (str_or (Some (ag_display_name (rq_agent req))) (ag_name (rq_agent req)))
       (case pj_title project of Some t \<Rightarrow> t | None \<Rightarrow> []);
     announce_invited req project rest
   }"

text \<open>An id that is null is nobody's, so it is refused before anything is inserted.\<close>

definition invite_first :: "driver \<Rightarrow> request \<Rightarrow> project_row \<Rightarrow> json list \<Rightarrow> (project_row response + unit) prog" where
  "invite_first dv req project xs =
     (if xs = [] then State_Monad.return (Inr ())
      else do {
        let ids = map (\<lambda>x. column_text (dv_text dv) (Some x)) xs;
        agents \<leftarrow> call (q_select db_agents (\<lambda>a. Some (ag_id a) \<in> set ids));
        if (case agents of Inl _ \<Rightarrow> True | Inr rows \<Rightarrow> length rows \<noteq> length ids) then do {
          drop_project_and_members (pj_id project);
          State_Monad.return (Inl (reply_error 400 ''Failed to resolve invited agents'' ''VALIDATION_ERROR''))
        }
        else do {
          r \<leftarrow> call (q_insert_invitations (pj_id project) (ag_id (rq_agent req)) (List.map_filter id ids));
          case r of
            Inl _ \<Rightarrow> do {
              drop_project_and_members (pj_id project);
              State_Monad.return (Inl (reply_error 500 ''Failed to create project invitations'' ''DB_ERROR''))
            }
          | Inr _ \<Rightarrow> do { announce_invited req project (rows_of agents); State_Monad.return (Inr ()) }
        }
      })"

definition project_created :: "driver \<Rightarrow> request \<Rightarrow> json \<Rightarrow> project_row \<Rightarrow> json list \<Rightarrow> project_row response prog" where
  "project_created dv req j project ids = do {
     r \<leftarrow> call (q_add_member (pj_id project) (ag_id (rq_agent req)) ''owner'');
     case r of
       Inl _ \<Rightarrow> do {
         drop_project (pj_id project);
         State_Monad.return (reply_error 500 ''Failed to add project members'' ''DB_ERROR'')
       }
     | Inr _ \<Rightarrow> do {
         invited \<leftarrow> invite_first dv req project ids;
         case invited of
           Inl refusal \<Rightarrow> State_Monad.return refusal
         | Inr _ \<Rightarrow> do {
             auditLog (ag_name (rq_agent req)) ''project.create'' (Some ''project'') (Some (pj_id project))
               (Some [(''title'', or_default (jprop (Some j) ''title'') JNull), (''members'', JArr [JStr (ag_id (rq_agent req))]),
                 (''invited_members'', JArr ids)]) (Some (getClientIp req));
             State_Monad.return (Answer 201 project)
           }
       }
   }"

definition projects_post :: "driver \<Rightarrow> request \<Rightarrow> project_row response prog" where
  "projects_post dv req =
     (case rq_body req of
        Parsed j \<Rightarrow>
          if j = JNull then State_Monad.return (Thrown ''TypeError'')
          else if falsy (jprop (Some j) ''title'') then
            State_Monad.return (reply_error 400 ''Missing required field: title'' ''VALIDATION_ERROR'')
          else do {
            r \<leftarrow> call (shaped shape_single (q_insert_project dv (ag_id (rq_agent req)) j));
            case r of
              Inl _ \<Rightarrow> State_Monad.return (reply_error 500 ''Failed to create project'' ''DB_ERROR'')
            | Inr project \<Rightarrow> (case invited_ids (ag_id (rq_agent req)) (jprop (Some j) ''members'') of
                None \<Rightarrow> State_Monad.return (reply_error 400 ''members must be an array of agent IDs'' ''VALIDATION_ERROR'')
              | Some ids \<Rightarrow> project_created dv req j project ids)
          }
      | _ \<Rightarrow> State_Monad.return (reply_error 400 ''Invalid JSON body'' ''INVALID_BODY''))"

subsection \<open>Reading and changing a project\<close>

record observer_entry =
  oe_row :: observer_row
  oe_agent :: "agent_row option"
  oe_invited_by :: "agent_row option"

definition observer_entry_of :: "db \<Rightarrow> observer_row \<Rightarrow> observer_entry" where
  "observer_entry_of d ob = \<lparr>oe_row = ob, oe_agent = find (\<lambda>a. ag_id a = ob_agent_id ob) (db_agents d),
     oe_invited_by = find (\<lambda>a. Some (ag_id a) = ob_invited_by_agent_id ob) (db_agents d)\<rparr>"

definition q_observer_entries :: "string \<Rightarrow> observer_entry list statement" where
  "q_observer_entries projectId d = (Inr (map (observer_entry_of d)
     (sort_key (\<lambda>x. - ob_created_at x) (filter (\<lambda>x. ob_project_id x = projectId) (db_observers d)))), d)"

definition member_with_agent :: "db \<Rightarrow> member_row \<Rightarrow> member_row \<times> agent_row option" where
  "member_with_agent d m = (m, find (\<lambda>a. ag_id a = pm_agent_id m) (db_agents d))"

definition q_member_entries :: "(member_row list \<Rightarrow> member_row list) \<Rightarrow> string \<Rightarrow> (member_row \<times> agent_row option) list statement" where
  "q_member_entries order projectId d =
     (Inr (map (member_with_agent d) (order (filter (\<lambda>m. pm_project_id m = projectId) (db_members d)))), d)"

definition q_sprints :: "string \<Rightarrow> sprint_row list statement" where
  "q_sprints projectId d = (Inr (sort_key sp_position (filter (\<lambda>s. sp_project_id s = projectId) (db_sprints d))), d)"

definition q_project_runs :: "string \<Rightarrow> run_row list statement" where
  "q_project_runs projectId d =
     (Inr (sort_key (\<lambda>r. - r_created_at r) (filter (\<lambda>r. r_project_id r = projectId) (db_runs d))), d)"

record project_detail =
  jd_project :: project_row
  jd_members :: "(member_row \<times> agent_row option) list"
  jd_observers :: "observer_entry list"
  jd_invitations :: "invitation_entry list"
  jd_pending_hidden_count :: nat
  jd_can_list_pending :: bool
  jd_can_see_summary :: bool
  jd_sprints :: "sprint_row list"
  jd_tasks_total :: nat
  jd_tasks_done :: nat
  jd_execution_runs :: "run_row list"

fun visibility_status :: "Store.invitation_status \<Rightarrow> TrustPolicy.invitation_status" where
  "visibility_status IPending = InvPending"
| "visibility_status IAccepted = InvAccepted"
| "visibility_status IDeclined = InvDeclined"
| "visibility_status ICancelled = InvCancelled"
| "visibility_status IExpired = InvExpired"

definition project_detailed :: "request \<Rightarrow> string \<Rightarrow> project_row \<Rightarrow> bool \<Rightarrow> project_detail response prog" where
  "project_detailed req projectId project observing = do {
     members \<leftarrow> call (q_member_entries id projectId);
     observers \<leftarrow> (if observing then State_Monad.return (Inr []) else call (q_observer_entries projectId));
     tasks \<leftarrow> call (q_select db_tasks (\<lambda>t. t_project_id t = projectId));
     sprints \<leftarrow> call (q_sprints projectId);
     invitations \<leftarrow> call (q_project_invitations projectId);
     runs \<leftarrow> call (q_project_runs projectId);
     case (members, tasks, sprints, invitations, runs) of
       (Inr ms, Inr ts, Inr ss, Inr es, Inr rs) \<Rightarrow> do {
         hydrated \<leftarrow> hydrateProjectInvitations es;
         State_Monad.return (case applyProjectInvitationVisibility (\<lambda>e. visibility_status (iv_status (ie_row e))) hydrated
             (access_context_of (rq_agent req)) observing True of
             Inl e \<Rightarrow> Thrown e
           | Inr v \<Rightarrow> Answer 200
               \<lparr>jd_project = shown_project project, jd_members = ms, jd_observers = rows_of observers,
                jd_invitations = iv_visibleInvitations v,
                jd_pending_hidden_count = (if observing then iv_hiddenPendingCount v else 0),
                jd_can_list_pending = (if observing then iv_canListPending v else True),
                jd_can_see_summary = (if observing then iv_canSeeSummary v else True),
                jd_sprints = ss, jd_tasks_total = length ts,
                jd_tasks_done = length (filter (\<lambda>t. t_status t = Some ''done'') ts), jd_execution_runs = rs\<rparr>)
       }
     | _ \<Rightarrow> State_Monad.return (reply_error 500 ''Failed to load project details'' ''DB_ERROR'')
   }"

definition project_get :: "request \<Rightarrow> string \<Rightarrow> project_detail response prog" where
  "project_get req projectId = do {
     access \<leftarrow> getProjectAccess projectId (ag_id (rq_agent req));
     case access of
       None \<Rightarrow> State_Monad.return not_participating
     | Some a \<Rightarrow>
         observer_gate evaluateObserverProjectReadPolicyAccess req a ''Observer project visibility blocked by trust policy'' (do {
           found \<leftarrow> read_project projectId;
           case found of
             None \<Rightarrow> State_Monad.return (reply_error 404 ''Project not found'' ''NOT_FOUND'')
           | Some project \<Rightarrow>
               if pac_accessKind a = ObserverKind \<and>
                  \<not> pm_allow_observer_access (normalizeProjectPrivacyMetadata (Some (pj_privacy_metadata project))) then
                 State_Monad.return (reply_error 403 ''Observer access is disabled by this project privacy policy'' ''PRIVACY_POLICY_BLOCKED'')
               else project_detailed req projectId project (pac_accessKind a = ObserverKind)
         })
   }"

text \<open>Members of a JSON object that are given, in the order of the columns.\<close>

definition given :: "json \<Rightarrow> string list \<Rightarrow> content" where
  "given j ks = map (\<lambda>k. (k, the (jprop (Some j) k))) (filter (\<lambda>k. jprop (Some j) k \<noteq> None) ks)"

definition project_statuses :: "string list" where
  "project_statuses = [''planning'', ''active'', ''completed'', ''archived'']"

definition project_changes :: "json \<Rightarrow> content" where
  "project_changes j = given j [''title'', ''description'', ''status''] @
     (case jprop (Some j) ''privacy_metadata'' of None \<Rightarrow> [] | Some v \<Rightarrow> [(''privacy_metadata'', stored_privacy (Some v))])"

definition changed_text :: "driver \<Rightarrow> json \<Rightarrow> string \<Rightarrow> string option \<Rightarrow> string option" where
  "changed_text dv j k old = (case jprop (Some j) k of None \<Rightarrow> old | Some v \<Rightarrow> column_text (dv_text dv) (Some v))"

definition changed_project :: "driver \<Rightarrow> json \<Rightarrow> timestamp \<Rightarrow> project_row \<Rightarrow> project_row" where
  "changed_project dv j now p =
     p\<lparr>pj_title := changed_text dv j ''title'' (pj_title p),
       pj_description := changed_text dv j ''description'' (pj_description p),
       pj_status := (case jprop (Some j) ''status'' of Some (JStr s) \<Rightarrow> s | _ \<Rightarrow> pj_status p),
       pj_privacy_metadata := (case jprop (Some j) ''privacy_metadata'' of None \<Rightarrow> pj_privacy_metadata p
         | Some v \<Rightarrow> stored_privacy (Some v)),
       pj_updated_at := now\<rparr>"

text \<open>The title must not be null.\<close>

definition q_update_project :: "driver \<Rightarrow> string \<Rightarrow> json \<Rightarrow> project_row list statement" where
  "q_update_project dv projectId j d =
     (if jprop (Some j) ''title'' = Some JNull \<and> (\<exists>p\<in>set (db_projects d). pj_id p = projectId) then (Inl not_null_violation, d)
      else q_update db_projects db_projects_update (\<lambda>p. pj_id p = projectId) (changed_project dv j (db_now d)) d)"

definition invalid_choice :: "string \<Rightarrow> string list \<Rightarrow> 'b response" where
  "invalid_choice what choices =
     reply_error 400 (''Invalid '' @ what @ ''. Must be one of: '' @ join '', '' choices) ''VALIDATION_ERROR''"

definition owning_project :: "request \<Rightarrow> string \<Rightarrow> string \<Rightarrow> 'b response prog \<Rightarrow> 'b response prog" where
  "owning_project req projectId refusal k = do {
     access \<leftarrow> getProjectAccess projectId (ag_id (rq_agent req));
     case access of
       None \<Rightarrow> State_Monad.return not_participating
     | Some a \<Rightarrow> if pac_role a \<noteq> AccessOwner then State_Monad.return (forbidden refusal) else k
   }"

definition project_patch_parsed :: "driver \<Rightarrow> request \<Rightarrow> string \<Rightarrow> json \<Rightarrow> project_row response prog" where
  "project_patch_parsed dv req projectId j =
     (if j = JNull then State_Monad.return (Thrown ''TypeError'')
      else if jprop (Some j) ''status'' \<noteq> None \<and> jprop (Some j) ''status'' \<notin> Some ` JStr ` set project_statuses then
        State_Monad.return (invalid_choice ''status'' project_statuses)
      else if project_changes j = [] then State_Monad.return (reply_error 400 ''No fields to update'' ''VALIDATION_ERROR'')
      else do {
        r \<leftarrow> call (shaped shape_single (q_update_project dv projectId j));
        case r of
          Inl _ \<Rightarrow> State_Monad.return (reply_error 500 ''Failed to update project'' ''DB_ERROR'')
        | Inr project \<Rightarrow> do {
            auditLog (ag_name (rq_agent req)) ''project.update'' (Some ''project'') (Some projectId)
              (Some (project_changes j)) (Some (getClientIp req));
            State_Monad.return (Answer 200 project)
          }
      })"

definition project_patch :: "driver \<Rightarrow> request \<Rightarrow> string \<Rightarrow> project_row response prog" where
  "project_patch dv req projectId =
     owning_project req projectId ''Only project owners can update project settings''
       (case rq_body req of
          Parsed j \<Rightarrow> project_patch_parsed dv req projectId j
        | _ \<Rightarrow> State_Monad.return (reply_error 400 ''Invalid JSON body'' ''INVALID_BODY''))"

section \<open>Members\<close>

definition members_get :: "request \<Rightarrow> string \<Rightarrow> (member_row \<times> agent_row option) list response prog" where
  "members_get req projectId = do {
     access \<leftarrow> getProjectAccess projectId (ag_id (rq_agent req));
     case access of
       None \<Rightarrow> State_Monad.return not_participating
     | Some a \<Rightarrow>
         observer_gate evaluateProjectMemberListPolicyAccess req a
           ''Observer project member visibility blocked by trust policy'' (do {
             r \<leftarrow> call (q_member_entries (sort_key pm_joined_at) projectId);
             State_Monad.return (case r of
                 Inl _ \<Rightarrow> reply_error 500 ''Failed to fetch members'' ''DB_ERROR''
               | Inr rows \<Rightarrow> Answer 200 rows)
           })
   }"

definition members_post :: "request \<Rightarrow> string \<Rightarrow> unit response prog" where
  "members_post req projectId = do {
     access \<leftarrow> getProjectAccess projectId (ag_id (rq_agent req));
     State_Monad.return (case access of
         None \<Rightarrow> not_participating
       | Some a \<Rightarrow>
           if pac_accessKind a = ObserverKind then
             forbidden ''Observers may inspect project members but cannot invite new ones directly''
           else if pac_role a \<noteq> AccessOwner then forbidden ''Only project owners can add members''
           else reply_error 409 (''Direct member insertion is no longer supported. Create an invitation via '' @
             ''POST /api/v1/projects/:id/invitations instead.'') ''USE_INVITATION_FLOW'')
   }"

section \<open>Observers\<close>

definition observers_get :: "request \<Rightarrow> string \<Rightarrow> observer_entry list response prog" where
  "observers_get req projectId = do {
     access \<leftarrow> getProjectAccess projectId (ag_id (rq_agent req));
     case access of
       None \<Rightarrow> State_Monad.return not_participating
     | Some a \<Rightarrow>
         observer_gate evaluateProjectObserverListPolicyAccess req a
           ''Observer project observer visibility blocked by trust policy'' (do {
             r \<leftarrow> call (q_observer_entries projectId);
             State_Monad.return (case r of
                 Inl _ \<Rightarrow> reply_error 500 ''Failed to fetch observers'' ''DB_ERROR''
               | Inr rows \<Rightarrow> Answer 200 rows)
           })
   }"

definition note_refusal :: "jvalue \<Rightarrow> 'b response option" where
  "note_refusal v =
     (if is_nullish v then None
      else case as_string v of
        None \<Rightarrow> Some (reply_error 400 ''note must be a string'' ''VALIDATION_ERROR'')
      | Some s \<Rightarrow> if length s > 2000 then Some (reply_error 400 ''note must be 2000 characters or fewer'' ''VALIDATION_ERROR'') else None)"

text \<open>\<open>note?.trim() || null\<close>.\<close>

definition note_column :: "jvalue \<Rightarrow> string option" where
  "note_column v = truthy_or_null (map_option js_trim (as_string v))"

definition q_insert_observer :: "string \<Rightarrow> string \<Rightarrow> string \<Rightarrow> string option \<Rightarrow> observer_row list statement" where
  "q_insert_observer projectId agentId byId note = with_fresh (\<lambda>fresh d. q_insert db_observers db_observers_update
     (\<lambda>n x. ob_project_id n = ob_project_id x \<and> ob_agent_id n = ob_agent_id x)
     [\<lparr>ob_id = fresh, ob_project_id = projectId, ob_agent_id = agentId, ob_invited_by_agent_id = Some byId, ob_note = note,
       ob_created_at = db_now d\<rparr>] d)"

definition read_observer :: "string \<Rightarrow> string \<Rightarrow> observer_row option prog" where
  "read_observer projectId agentId = do {
     r \<leftarrow> call (shaped shape_single (q_select db_observers (\<lambda>x. ob_project_id x = projectId \<and> ob_agent_id x = agentId)));
     State_Monad.return (data_of r)
   }"

definition observer_added :: "request \<Rightarrow> string \<Rightarrow> string \<Rightarrow> string option \<Rightarrow> project_row \<Rightarrow> observer_row response prog" where
  "observer_added req projectId agentId note project = do {
     r \<leftarrow> call (shaped shape_single (q_insert_observer projectId agentId (ag_id (rq_agent req)) note));
     case r of
       Inl e \<Rightarrow> State_Monad.return
         (if de_code e = ''23505'' then reply_error 409 ''Agent is already an observer on this project'' ''DUPLICATE''
          else reply_error 500 ''Failed to add observer'' ''DB_ERROR'')
     | Inr observer \<Rightarrow> do {
         auditLog (ag_name (rq_agent req)) ''project.observer_add'' (Some ''project'') (Some projectId)
           (Some [(''project_title'', jstr_or_null (pj_title project)), (''agent_id'', JStr agentId), (''note'', jstr_or_null note)])
           (Some (getClientIp req));
         State_Monad.return (Answer 201 observer)
       }
   }"

definition observer_checked :: "request \<Rightarrow> string \<Rightarrow> string \<Rightarrow> bool \<Rightarrow> string option \<Rightarrow> observer_row response prog" where
  "observer_checked req projectId agentId isSelf note = do {
     project \<leftarrow> read_project projectId;
     agent \<leftarrow> agent_with_id agentId;
     existingMember \<leftarrow> read_member projectId agentId;
     existingObserver \<leftarrow> read_observer projectId agentId;
     case project of
       None \<Rightarrow> State_Monad.return (reply_error 404 ''Project not found'' ''NOT_FOUND'')
     | Some p \<Rightarrow> (case agent of
         None \<Rightarrow> State_Monad.return (reply_error 404 ''Agent not found'' ''NOT_FOUND'')
       | Some a \<Rightarrow>
           if isSelf then State_Monad.return (reply_error 400 ''Project owner is already covered by membership'' ''VALIDATION_ERROR'')
           else (case evaluateObserverAccess (policy_agent_of (rq_agent req)) (policy_agent_of a) of
               Inl e \<Rightarrow> State_Monad.return (Thrown e)
             | Inr g \<Rightarrow>
                 if \<not> gr_allowed g then State_Monad.return (reply_error 403
                   (str_or (gr_reason g) ''Target agent is not trusted enough for observer access'') ''TRUST_TIER_BLOCKED'')
                 else if existingMember \<noteq> None then
                   State_Monad.return (reply_error 409 ''Agent is already a project member'' ''DUPLICATE'')
                 else if existingObserver \<noteq> None then
                   State_Monad.return (reply_error 409 ''Agent is already an observer on this project'' ''DUPLICATE'')
                 else observer_added req projectId agentId note p))
   }"

definition observers_post :: "(json \<Rightarrow> string) \<Rightarrow> request \<Rightarrow> string \<Rightarrow> observer_row response prog" where
  "observers_post to_text req projectId =
     owning_project req projectId ''Only project owners can manage observers''
       (case rq_body req of
          Parsed (JObj kvs) \<Rightarrow>
            (let agentId = jprop (Some (JObj kvs)) ''agent_id''; note = jprop (Some (JObj kvs)) ''note''
             in if falsy agentId then State_Monad.return (reply_error 400 ''Missing required field: agent_id'' ''VALIDATION_ERROR'')
                else case note_refusal note of
                  Some refusal \<Rightarrow> State_Monad.return refusal
                | None \<Rightarrow> observer_checked req projectId (the (column_text to_text agentId))
                    (agentId = Some (JStr (ag_id (rq_agent req)))) (note_column note))
        | Parsed _ \<Rightarrow> State_Monad.return (reply_error 400 ''Request body must be a JSON object'' ''INVALID_BODY'')
        | _ \<Rightarrow> State_Monad.return (reply_error 400 ''Invalid JSON body'' ''INVALID_BODY''))"

definition q_observer :: "string \<Rightarrow> string \<Rightarrow> observer_row \<Rightarrow> bool" where
  "q_observer projectId observerId x \<longleftrightarrow> ob_id x = observerId \<and> ob_project_id x = projectId"

definition observer_patch :: "request \<Rightarrow> string \<Rightarrow> string \<Rightarrow> observer_row response prog" where
  "observer_patch req projectId observerId =
     owning_project req projectId ''Only project owners can manage observers''
       (case rq_body req of
          Parsed j \<Rightarrow>
            (let note = jprop (Some j) ''note''
             in if j = JNull then State_Monad.return (Thrown ''TypeError'')
                else case note_refusal note of
                  Some refusal \<Rightarrow> State_Monad.return refusal
                | None \<Rightarrow> do {
                    r \<leftarrow> call (shaped shape_single (q_update db_observers db_observers_update (q_observer projectId observerId)
                      (\<lambda>x. x\<lparr>ob_note := note_column note\<rparr>)));
                    case r of
                      Inl _ \<Rightarrow> State_Monad.return (reply_error 500 ''Failed to update observer'' ''DB_ERROR'')
                    | Inr observer \<Rightarrow> do {
                        auditLog (ag_name (rq_agent req)) ''project.observer_update'' (Some ''project'') (Some projectId)
                          (Some [(''observer_id'', JStr observerId), (''note'', jstr_or_null (note_column note))])
                          (Some (getClientIp req));
                        State_Monad.return (Answer 200 observer)
                      }
                  })
        | _ \<Rightarrow> State_Monad.return (reply_error 400 ''Invalid JSON body'' ''INVALID_BODY''))"

definition observer_delete :: "request \<Rightarrow> string \<Rightarrow> string \<Rightarrow> unit response prog" where
  "observer_delete req projectId observerId =
     owning_project req projectId ''Only project owners can manage observers'' (do {
       r \<leftarrow> call (shaped shape_maybe (q_delete db_observers db_observers_update (q_observer projectId observerId)));
       case r of
         Inl _ \<Rightarrow> State_Monad.return (reply_error 500 ''Failed to remove observer'' ''DB_ERROR'')
       | Inr deleted \<Rightarrow> (case deleted of
           None \<Rightarrow> State_Monad.return (reply_error 404 ''Observer not found'' ''NOT_FOUND'')
         | Some x \<Rightarrow> do {
             auditLog (ag_name (rq_agent req)) ''project.observer_remove'' (Some ''project'') (Some projectId)
               (Some [(''observer_id'', JStr observerId), (''agent_id'', JStr (ob_agent_id x))]) (Some (getClientIp req));
             State_Monad.return (Answer 200 ())
           })
     })"

section \<open>Sprints\<close>

definition participating :: "request \<Rightarrow> string \<Rightarrow> 'b response prog \<Rightarrow> 'b response prog" where
  "participating req projectId k = do {
     access \<leftarrow> getProjectAccess projectId (ag_id (rq_agent req));
     case access of None \<Rightarrow> State_Monad.return not_participating | Some _ \<Rightarrow> k
   }"

definition sprints_get :: "request \<Rightarrow> string \<Rightarrow> sprint_row list response prog" where
  "sprints_get req projectId = participating req projectId (do {
     r \<leftarrow> call (q_sprints projectId);
     State_Monad.return (case r of
         Inl _ \<Rightarrow> reply_error 500 ''Failed to fetch sprints'' ''DB_ERROR''
       | Inr rows \<Rightarrow> Answer 200 rows)
   })"

definition q_insert_sprint ::
  "string \<Rightarrow> string \<Rightarrow> string option \<Rightarrow> string option \<Rightarrow> string option \<Rightarrow> int \<Rightarrow> sprint_row list statement" where
  "q_insert_sprint projectId title goal start_date end_date position = with_fresh (\<lambda>fresh d.
     q_insert db_sprints db_sprints_update (\<lambda>n x. sp_id n = sp_id x)
     [\<lparr>sp_id = fresh, sp_project_id = projectId, sp_title = title, sp_goal = goal, sp_status = ''planned'',
       sp_start_date = start_date, sp_end_date = end_date, sp_position = position, sp_created_at = db_now d,
       sp_updated_at = db_now d\<rparr>] d)"

definition sprint_event :: "string list \<Rightarrow> string \<Rightarrow> string \<Rightarrow> string \<Rightarrow> content \<Rightarrow> webhook_event" where
  "sprint_event targets event projectId sprintId data =
     (project_event targets event projectId data)\<lparr>we_sprint_id := Some sprintId\<rparr>"

definition announce_sprint :: "string \<Rightarrow> string \<Rightarrow> string \<Rightarrow> content \<Rightarrow> unit prog" where
  "announce_sprint event projectId sprintId data = do {
     memberIds \<leftarrow> getProjectMemberAgentIds projectId;
     deliver (sprint_event memberIds event projectId sprintId data)
   }"

definition sprints_post_parsed :: "driver \<Rightarrow> request \<Rightarrow> string \<Rightarrow> json \<Rightarrow> sprint_row response prog" where
  "sprints_post_parsed dv req projectId j =
     (let title = jprop (Some j) ''title''; column = (\<lambda>k. text_or_null dv (jprop (Some j) k))
      in if j = JNull then State_Monad.return (Thrown ''TypeError'')
         else if falsy title then State_Monad.return (reply_error 400 ''Missing required field: title'' ''VALIDATION_ERROR'')
         else do {
           counted \<leftarrow> call (q_select db_sprints (\<lambda>s. sp_project_id s = projectId));
           r \<leftarrow> call (shaped shape_single (q_insert_sprint projectId (the (column_text (dv_text dv) title))
             (column ''goal'') (column ''start_date'') (column ''end_date'') (int (length (rows_of counted)))));
           case r of
             Inl _ \<Rightarrow> State_Monad.return (reply_error 500 ''Failed to create sprint'' ''DB_ERROR'')
           | Inr sprint \<Rightarrow> do {
               auditLog (ag_name (rq_agent req)) ''sprint.create'' (Some ''sprint'') (Some (sp_id sprint))
                 (Some [(''project_id'', JStr projectId), (''title'', the title)]) (Some (getClientIp req));
               announce_sprint ''sprint.created'' projectId (sp_id sprint)
                 [(''title'', the title), (''created_by'', JStr (ag_name (rq_agent req)))];
               State_Monad.return (Answer 201 sprint)
             }
         })"

definition sprints_post :: "driver \<Rightarrow> request \<Rightarrow> string \<Rightarrow> sprint_row response prog" where
  "sprints_post dv req projectId =
     writing_project req projectId ''Observers may inspect sprints but cannot create them'' (\<lambda>_.
       case rq_body req of
         Parsed j \<Rightarrow> sprints_post_parsed dv req projectId j
       | _ \<Rightarrow> State_Monad.return (reply_error 400 ''Invalid JSON body'' ''INVALID_BODY''))"

record sprint_detail =
  sd_sprint :: sprint_row
  sd_total :: nat
  sd_done :: nat
  sd_in_progress :: nat

definition sprint_get :: "request \<Rightarrow> string \<Rightarrow> string \<Rightarrow> sprint_detail response prog" where
  "sprint_get req projectId sprintId = participating req projectId (do {
     found \<leftarrow> call (shaped shape_single (q_select db_sprints (\<lambda>s. sp_id s = sprintId \<and> sp_project_id s = projectId)));
     case data_of found of
       None \<Rightarrow> State_Monad.return (reply_error 404 ''Sprint not found'' ''NOT_FOUND'')
     | Some sprint \<Rightarrow> do {
         r \<leftarrow> call (q_select db_tasks (\<lambda>t. t_sprint_id t = Some sprintId));
         State_Monad.return (case r of
             Inl _ \<Rightarrow> reply_error 500 ''Failed to fetch task stats'' ''DB_ERROR''
           | Inr ts \<Rightarrow> Answer 200 \<lparr>sd_sprint = sprint, sd_total = length ts,
               sd_done = length (filter (\<lambda>t. t_status t = Some ''done'') ts),
               sd_in_progress = length (filter (\<lambda>t. t_status t = Some ''in-progress'') ts)\<rparr>)
       }
   })"

definition sprint_statuses :: "string list" where
  "sprint_statuses = [''planned'', ''active'', ''completed'']"

definition sprint_changes :: "json \<Rightarrow> content" where
  "sprint_changes j = given j [''title'', ''goal'', ''status'', ''start_date'', ''end_date'', ''position'']"

definition changed_sprint :: "driver \<Rightarrow> json \<Rightarrow> timestamp \<Rightarrow> sprint_row \<Rightarrow> sprint_row" where
  "changed_sprint dv j now s =
     s\<lparr>sp_title := (case changed_text dv j ''title'' (Some (sp_title s)) of Some t \<Rightarrow> t | None \<Rightarrow> sp_title s),
       sp_goal := changed_text dv j ''goal'' (sp_goal s),
       sp_status := (case jprop (Some j) ''status'' of Some (JStr x) \<Rightarrow> x | _ \<Rightarrow> sp_status s),
       sp_start_date := changed_text dv j ''start_date'' (sp_start_date s),
       sp_end_date := changed_text dv j ''end_date'' (sp_end_date s),
       sp_position := (case jprop (Some j) ''position'' of None \<Rightarrow> sp_position s
         | Some v \<Rightarrow> (case dv_int dv v of Some n \<Rightarrow> n | None \<Rightarrow> sp_position s)),
       sp_updated_at := now\<rparr>"

text \<open>Title and position must not be null; a position must be an integer.\<close>

definition q_update_sprint :: "driver \<Rightarrow> string \<Rightarrow> string \<Rightarrow> json \<Rightarrow> sprint_row list statement" where
  "q_update_sprint dv projectId sprintId j d =
     (let mine = (\<lambda>s. sp_id s = sprintId \<and> sp_project_id s = projectId); position = jprop (Some j) ''position''
      in if position \<noteq> None \<and> position \<noteq> Some JNull \<and> dv_int dv (the position) = None then (Inl invalid_input, d)
         else if (jprop (Some j) ''title'' = Some JNull \<or> position = Some JNull) \<and> (\<exists>s\<in>set (db_sprints d). mine s) then
           (Inl not_null_violation, d)
         else q_update db_sprints db_sprints_update mine (changed_sprint dv j (db_now d)) d)"

text \<open>The function of the database that is to shift the siblings exists in no migration.\<close>

definition undefined_function :: db_error where
  "undefined_function = \<lparr>de_code = ''42883'', de_message = ''function shift_sprint_positions does not exist''\<rparr>"

definition rpc_shift_sprint_positions :: "unit statement" where
  "rpc_shift_sprint_positions d = (Inl undefined_function, d)"

definition reorder_sprints :: "string \<Rightarrow> string \<Rightarrow> jvalue \<Rightarrow> sprint_row response option prog" where
  "reorder_sprints projectId sprintId position =
     (if position = None then State_Monad.return None
      else do {
        current \<leftarrow> call (shaped shape_single (q_select db_sprints (\<lambda>s. sp_id s = sprintId \<and> sp_project_id s = projectId)));
        case data_of current of
          None \<Rightarrow> State_Monad.return None
        | Some s \<Rightarrow>
            if position = Some (jint (sp_position s)) then State_Monad.return None
            else do {
              r \<leftarrow> call rpc_shift_sprint_positions;
              State_Monad.return (case r of
                  Inl _ \<Rightarrow> Some (reply_error 500 ''Failed to reorder sprint positions'' ''REORDER_ERROR'')
                | Inr _ \<Rightarrow> None)
            }
      })"

definition sprint_patch_parsed :: "driver \<Rightarrow> request \<Rightarrow> string \<Rightarrow> string \<Rightarrow> json \<Rightarrow> sprint_row response prog" where
  "sprint_patch_parsed dv req projectId sprintId j =
     (if j = JNull then State_Monad.return (Thrown ''TypeError'')
      else if jprop (Some j) ''status'' \<noteq> None \<and> jprop (Some j) ''status'' \<notin> Some ` JStr ` set sprint_statuses then
        State_Monad.return (invalid_choice ''status'' sprint_statuses)
      else if sprint_changes j = [] then State_Monad.return (reply_error 400 ''No fields to update'' ''VALIDATION_ERROR'')
      else do {
        refused \<leftarrow> reorder_sprints projectId sprintId (jprop (Some j) ''position'');
        case refused of
          Some answer \<Rightarrow> State_Monad.return answer
        | None \<Rightarrow> do {
            r \<leftarrow> call (shaped shape_single (q_update_sprint dv projectId sprintId j));
            case r of
              Inl _ \<Rightarrow> State_Monad.return (reply_error 500 ''Failed to update sprint'' ''DB_ERROR'')
            | Inr sprint \<Rightarrow> do {
                auditLog (ag_name (rq_agent req)) ''sprint.update'' (Some ''sprint'') (Some sprintId)
                  (Some ([(''project_id'', JStr projectId)] @ sprint_changes j)) (Some (getClientIp req));
                announce_sprint ''sprint.updated'' projectId sprintId
                  [(''title'', JStr (sp_title sprint)), (''updated_by'', JStr (ag_name (rq_agent req))),
                   (''changes'', JObj (sprint_changes j))];
                State_Monad.return (Answer 200 sprint)
              }
          }
      })"

definition sprint_patch :: "driver \<Rightarrow> request \<Rightarrow> string \<Rightarrow> string \<Rightarrow> sprint_row response prog" where
  "sprint_patch dv req projectId sprintId =
     writing_project req projectId ''Observers may inspect sprints but cannot update them'' (\<lambda>_.
       case rq_body req of
         Parsed j \<Rightarrow> sprint_patch_parsed dv req projectId sprintId j
       | _ \<Rightarrow> State_Monad.return (reply_error 400 ''Invalid JSON body'' ''INVALID_BODY''))"

end
