(* ===== verification/ProjectActions.thy ===== *)
theory ProjectActions
  imports Projects
begin

text \<open>
  What an operator does on the page of a project (\<open>src/app/(dashboard)/projects/[id]/actions.ts\<close>,
  \<open>src/lib/dashboard-actor-helpers.ts\<close>), all but its tasks. Every action throws an error text, \<open>Inl\<close>, or ends.
\<close>

section \<open>Access\<close>

record project_actor =
  pu_user :: auth_user
  pu_memberAgentId :: "string option"
  pu_role :: access_role
  pu_kind :: access_kind

fun first_access :: "string \<Rightarrow> string list \<Rightarrow> project_access option prog" where
  "first_access projectId [] = State_Monad.return None"
| "first_access projectId (a # rest) = do {
     access \<leftarrow> getProjectAccess projectId a;
     case access of Some x \<Rightarrow> State_Monad.return (Some x) | None \<Rightarrow> first_access projectId rest
   }"

definition acting_agent_id :: "actor_context \<Rightarrow> string option" where
  "acting_agent_id auth = map_option aa_id (cx_actingAgent auth)"

definition resolveProjectActorAccess ::
  "actor_context \<Rightarrow> string \<Rightarrow> access_role option \<Rightarrow> bool \<Rightarrow> (string + project_actor) prog" where
  "resolveProjectActorAccess auth projectId requireRole allowObserverCommentary =
     (if us_isSuperAdmin (cx_user auth) then State_Monad.return (Inr
        \<lparr>pu_user = cx_user auth, pu_memberAgentId = acting_agent_id auth, pu_role = AccessOwner, pu_kind = Membership\<rparr>)
      else do {
        access \<leftarrow> first_access projectId (if cx_agentScope auth \<noteq> [] then cx_agentScope auth else [EMPTY_UUID]);
        State_Monad.return (case access of
            None \<Rightarrow> Inl ''Forbidden''
          | Some a \<Rightarrow>
              if (case requireRole of None \<Rightarrow> False | Some r \<Rightarrow> pac_role a \<noteq> r) then Inl ''Forbidden''
              else if pac_accessKind a = ObserverKind \<and> \<not> allowObserverCommentary then Inl ''Forbidden''
              else Inr \<lparr>pu_user = cx_user auth, pu_memberAgentId = Some (pac_agentId a), pu_role = pac_role a,
                       pu_kind = pac_accessKind a\<rparr>)
      })"

definition requireProjectMembership ::
  "actor_context option \<Rightarrow> string \<Rightarrow> access_role option \<Rightarrow> (actor_context \<Rightarrow> project_actor \<Rightarrow> (string + 'a) prog) \<Rightarrow>
   (string + 'a) prog" where
  "requireProjectMembership session projectId requireRole k =
     (case session of
        None \<Rightarrow> State_Monad.return (Inl ''Unauthorized'')
      | Some auth \<Rightarrow> do {
          r \<leftarrow> resolveProjectActorAccess auth projectId requireRole False;
          case r of Inl e \<Rightarrow> State_Monad.return (Inl e) | Inr actor \<Rightarrow> k auth actor
        })"

text \<open>A write whose failure is thrown.\<close>

definition written :: "string \<Rightarrow> 'a statement \<Rightarrow> (string + unit) prog" where
  "written what q = do {
     r \<leftarrow> call q;
     State_Monad.return (case r of Inl e \<Rightarrow> Inl (what @ '': '' @ de_message e) | Inr _ \<Rightarrow> Inr ())
   }"

section \<open>The project and its sprints\<close>

definition check_violation :: db_error where
  "check_violation = \<lparr>de_code = ''23514'', de_message = ''new row violates check constraint''\<rparr>"

text \<open>A status the table does not know violates its check.\<close>

definition checked_update :: "bool \<Rightarrow> (db \<Rightarrow> bool) \<Rightarrow> 'a statement \<Rightarrow> 'a statement" where
  "checked_update ok hit q d = (if \<not> ok \<and> hit d then (Inl check_violation, d) else q d)"

definition updateProjectStatus :: "actor_context option \<Rightarrow> string \<Rightarrow> string \<Rightarrow> (string + unit) prog" where
  "updateProjectStatus session projectId status =
     requireProjectMembership session projectId (Some AccessOwner) (\<lambda>_ _. do {
       now \<leftarrow> clock;
       written ''Failed to update project status'' (checked_update (status \<in> set project_statuses)
         (\<lambda>d. \<exists>p\<in>set (db_projects d). pj_id p = projectId)
         (q_update db_projects db_projects_update (\<lambda>p. pj_id p = projectId) (\<lambda>p. p\<lparr>pj_status := status, pj_updated_at := now\<rparr>)))
     })"

definition my_sprint :: "string \<Rightarrow> string \<Rightarrow> sprint_row \<Rightarrow> bool" where
  "my_sprint projectId sprintId s \<longleftrightarrow> sp_id s = sprintId \<and> sp_project_id s = projectId"

definition updateSprintStatus :: "actor_context option \<Rightarrow> string \<Rightarrow> string \<Rightarrow> string \<Rightarrow> (string + unit) prog" where
  "updateSprintStatus session projectId sprintId status =
     requireProjectMembership session projectId None (\<lambda>_ _. do {
       now \<leftarrow> clock;
       written ''Failed to update sprint status'' (checked_update (status \<in> set sprint_statuses)
         (\<lambda>d. \<exists>s\<in>set (db_sprints d). my_sprint projectId sprintId s)
         (q_update db_sprints db_sprints_update (my_sprint projectId sprintId)
           (\<lambda>s. s\<lparr>sp_status := status, sp_updated_at := now\<rparr>)))
     })"

definition createSprint ::
  "actor_context option \<Rightarrow> string \<Rightarrow> string \<Rightarrow> string option \<Rightarrow> string option \<Rightarrow> string option \<Rightarrow> (string + unit) prog" where
  "createSprint session projectId title startDate endDate goal =
     requireProjectMembership session projectId None (\<lambda>_ _. do {
       r \<leftarrow> call (\<lambda>d. (Inr (take 1 (sort_key (\<lambda>s. - sp_position s) (filter (\<lambda>s. sp_project_id s = projectId) (db_sprints d)))), d));
       let nextPosition = (case rows_of r of [] \<Rightarrow> 0 | s # _ \<Rightarrow> sp_position s + 1);
       written ''Failed to create sprint'' (q_insert_sprint projectId title (truthy_or_null goal) (truthy_or_null startDate)
         (truthy_or_null endDate) nextPosition)
     })"

record sprint_data =
  su_title :: "string option"
  su_startDate :: "string option"
  su_endDate :: "string option"
  su_goal :: "string option"

definition edited_sprint :: "sprint_data \<Rightarrow> timestamp \<Rightarrow> sprint_row \<Rightarrow> sprint_row" where
  "edited_sprint u now s =
     s\<lparr>sp_title := (case su_title u of None \<Rightarrow> sp_title s | Some t \<Rightarrow> t),
       sp_start_date := (if su_startDate u = None then sp_start_date s else truthy_or_null (su_startDate u)),
       sp_end_date := (if su_endDate u = None then sp_end_date s else truthy_or_null (su_endDate u)),
       sp_goal := (if su_goal u = None then sp_goal s else truthy_or_null (su_goal u)),
       sp_updated_at := now\<rparr>"

definition updateSprint :: "actor_context option \<Rightarrow> string \<Rightarrow> string \<Rightarrow> sprint_data \<Rightarrow> (string + unit) prog" where
  "updateSprint session projectId sprintId u =
     requireProjectMembership session projectId None (\<lambda>_ _. do {
       now \<leftarrow> clock;
       written ''Failed to update sprint''
         (q_update db_sprints db_sprints_update (my_sprint projectId sprintId) (edited_sprint u now))
     })"

text \<open>A description given as \<open>null\<close> is \<open>Some None\<close>.\<close>

definition updateProject ::
  "actor_context option \<Rightarrow> string \<Rightarrow> string option \<Rightarrow> string option option \<Rightarrow> (string + unit) prog" where
  "updateProject session projectId title description =
     requireProjectMembership session projectId (Some AccessOwner) (\<lambda>_ _. do {
       now \<leftarrow> clock;
       written ''Failed to update project'' (q_update db_projects db_projects_update (\<lambda>p. pj_id p = projectId)
         (\<lambda>p. p\<lparr>pj_title := (case title of None \<Rightarrow> pj_title p | Some t \<Rightarrow> Some t),
               pj_description := (case description of None \<Rightarrow> pj_description p | Some x \<Rightarrow> x), pj_updated_at := now\<rparr>))
     })"

definition updateProjectPrivacy :: "actor_context option \<Rightarrow> string \<Rightarrow> json \<Rightarrow> (string + unit) prog" where
  "updateProjectPrivacy session projectId privacyMetadata =
     requireProjectMembership session projectId (Some AccessOwner) (\<lambda>_ _. do {
       now \<leftarrow> clock;
       written ''Failed to update project privacy controls'' (q_update db_projects db_projects_update (\<lambda>p. pj_id p = projectId)
         (\<lambda>p. p\<lparr>pj_privacy_metadata := stored_privacy (Some privacyMetadata), pj_updated_at := now\<rparr>))
     })"

section \<open>Members and observers\<close>

definition read_agent_maybe :: "string option \<Rightarrow> agent_row option prog" where
  "read_agent_maybe i = do {
     r \<leftarrow> call (shaped shape_maybe (q_select db_agents (\<lambda>a. ag_id a = str_or i EMPTY_UUID)));
     State_Monad.return (maybe_of r)
   }"

definition inviter_of :: "actor_context \<Rightarrow> project_actor \<Rightarrow> string option" where
  "inviter_of auth actor =
     (if truthy_str (pu_memberAgentId actor) then pu_memberAgentId actor else acting_agent_id auth)"

text \<open>The trust gate, where there is an inviting agent to compare with.\<close>

definition gate_error ::
  "(policy_agent \<Rightarrow> policy_agent \<Rightarrow> string + gate_result) \<Rightarrow> agent_row option \<Rightarrow> agent_row \<Rightarrow> string \<Rightarrow> string option" where
  "gate_error evaluate inviter agent blocked =
     (case inviter of
        None \<Rightarrow> None
      | Some i \<Rightarrow> (case evaluate (policy_agent_of i) (policy_agent_of agent) of
            Inl e \<Rightarrow> Some e
          | Inr g \<Rightarrow> if gr_allowed g then None else Some (str_or (gr_reason g) blocked)))"

definition inviteProjectMember :: "actor_context option \<Rightarrow> string \<Rightarrow> string \<Rightarrow> (string + unit) prog" where
  "inviteProjectMember session projectId agentId =
     requireProjectMembership session projectId (Some AccessOwner) (\<lambda>auth actor. do {
       project \<leftarrow> read_project projectId;
       existing \<leftarrow> read_member projectId agentId;
       existingInvite \<leftarrow> read_invitation projectId agentId;
       agent \<leftarrow> agent_with_id agentId;
       inviterAgent \<leftarrow> read_agent_maybe (inviter_of auth actor);
       case (project, agent) of
         (None, _) \<Rightarrow> State_Monad.return (Inl ''Project not found'')
       | (_, None) \<Rightarrow> State_Monad.return (Inl ''Agent not found'')
       | (Some p, Some a) \<Rightarrow>
           if existing \<noteq> None then State_Monad.return (Inl ''Agent is already a member of this project'')
           else if is_pending existingInvite then State_Monad.return (Inl ''Agent already has a pending invitation'')
           else (case gate_error evaluateProjectMemberInvite inviterAgent a ''Agent trust tier blocks project membership'' of
               Some e \<Rightarrow> State_Monad.return (Inl e)
             | None \<Rightarrow>
                 if \<not> truthy_str (inviter_of auth actor) then
                   State_Monad.return (Inl ''No acting agent available to send invitation'')
                 else do {
                   expires \<leftarrow> clock;
                   updated \<leftarrow> clock;
                   r \<leftarrow> call (q_upsert_invitation None (new_invitation projectId agentId (the (inviter_of auth actor))
                     (getProjectInvitationExpiry expires) updated));
                   case r of
                     Inl e \<Rightarrow> State_Monad.return (Inl (''Failed to invite member: '' @ de_message e))
                   | Inr _ \<Rightarrow> do {
                       notifyProjectInvitationCreated projectId agentId (str_or (Some (ag_display_name a)) (ag_name a))
                         (the (inviter_of auth actor)) (us_displayName (pu_user actor))
                         (case pj_title p of Some t \<Rightarrow> t | None \<Rightarrow> []);
                       State_Monad.return (Inr ())
                     }
                 })
     })"

text \<open>Does some agent of the session own the project? The scope is never empty.\<close>

definition session_owns :: "actor_context \<Rightarrow> string \<Rightarrow> bool prog" where
  "session_owns auth projectId =
     (if us_isSuperAdmin (cx_user auth) then State_Monad.return True
      else do {
        r \<leftarrow> call (\<lambda>d. (Inr (take 1 (filter (\<lambda>m. pm_project_id m = projectId \<and> pm_role m = ''owner'' \<and>
          pm_agent_id m \<in> set (if cx_agentScope auth \<noteq> [] then cx_agentScope auth else [EMPTY_UUID])) (db_members d))), d));
        State_Monad.return (rows_of r \<noteq> [])
      })"

text \<open>An update that matches no row is no error here, and neither expiry nor trust tier are looked at.\<close>

definition invitation_answered :: "invitation_entry \<Rightarrow> invitation_action \<Rightarrow> (string + unit) prog" where
  "invitation_answered e action = do {
     now \<leftarrow> clock;
     r \<leftarrow> call (q_answer (iv_project_id (ie_row e)) (iv_id (ie_row e)) action now);
     case r of
       Inl x \<Rightarrow> State_Monad.return (Inl (''Failed to update invitation: '' @ de_message x))
     | Inr _ \<Rightarrow> do {
         added \<leftarrow> (if action = AcceptInvitation then
             call (q_add_member (iv_project_id (ie_row e)) (iv_agent_id (ie_row e)) (iv_role (ie_row e)))
           else State_Monad.return (Inr []));
         case added of
           Inl x \<Rightarrow>
             if de_code x \<noteq> ''23505'' then State_Monad.return (Inl (''Failed to add member: '' @ de_message x))
             else do { notifyProjectInvitationResponded e (next_status action); State_Monad.return (Inr ()) }
         | Inr _ \<Rightarrow> do { notifyProjectInvitationResponded e (next_status action); State_Monad.return (Inr ()) }
       }
   }"

definition answer_refused :: "actor_context \<Rightarrow> bool \<Rightarrow> invitation_row \<Rightarrow> invitation_action \<Rightarrow> string option" where
  "answer_refused auth isOwner i action =
     (if action = CancelInvitation then (if \<not> isOwner then Some ''Only project owners can cancel invitations'' else None)
      else if iv_agent_id i \<notin> set (cx_agentScope auth) \<and> \<not> us_isSuperAdmin (cx_user auth) then
        Some ''Only the invited agent can respond to this invitation''
      else None)"

definition respondToProjectInvitation ::
  "actor_context option \<Rightarrow> string \<Rightarrow> string \<Rightarrow> invitation_action \<Rightarrow> (string + unit) prog" where
  "respondToProjectInvitation session projectId invitationId action =
     (case session of
        None \<Rightarrow> State_Monad.return (Inl ''Unauthorized'')
      | Some auth \<Rightarrow> do {
          r \<leftarrow> call (shaped shape_single (q_entries True (\<lambda>i. iv_id i = invitationId \<and> iv_project_id i = projectId)));
          case data_of r of
            None \<Rightarrow> State_Monad.return (Inl ''Invitation not found'')
          | Some e \<Rightarrow>
              if iv_status (ie_row e) \<noteq> IPending then State_Monad.return (Inl
                (if iv_status (ie_row e) = IExpired then ''Invitation has expired'' else ''Invitation has already been resolved''))
              else do {
                isOwner \<leftarrow> session_owns auth projectId;
                case answer_refused auth isOwner (ie_row e) action of
                  Some refusal \<Rightarrow> State_Monad.return (Inl refusal)
                | None \<Rightarrow> invitation_answered e action
              }
        })"

definition addProjectObserver :: "actor_context option \<Rightarrow> string \<Rightarrow> string \<Rightarrow> string option \<Rightarrow> (string + unit) prog" where
  "addProjectObserver session projectId agentId note =
     requireProjectMembership session projectId (Some AccessOwner) (\<lambda>auth actor. do {
       project \<leftarrow> read_project projectId;
       existingMember \<leftarrow> read_member projectId agentId;
       existingObserver \<leftarrow> read_observer projectId agentId;
       agent \<leftarrow> agent_with_id agentId;
       inviterAgent \<leftarrow> read_agent_maybe (inviter_of auth actor);
       case (project, agent) of
         (None, _) \<Rightarrow> State_Monad.return (Inl ''Project not found'')
       | (_, None) \<Rightarrow> State_Monad.return (Inl ''Agent not found'')
       | (Some _, Some a) \<Rightarrow>
           if existingMember \<noteq> None then State_Monad.return (Inl ''Agent is already a member of this project'')
           else if existingObserver \<noteq> None then State_Monad.return (Inl ''Agent is already an observer on this project'')
           else (case gate_error evaluateObserverAccess inviterAgent a ''Agent trust tier blocks observer access'' of
               Some e \<Rightarrow> State_Monad.return (Inl e)
             | None \<Rightarrow>
                 if \<not> truthy_str (inviter_of auth actor) then
                   State_Monad.return (Inl ''No acting agent available to add observer'')
                 else written ''Failed to add observer'' (q_insert_observer projectId agentId (the (inviter_of auth actor))
                   (truthy_or_null (map_option js_trim note))))
     })"

text \<open>The table \<open>project_observers\<close> has no column \<open>updated_at\<close>.\<close>

definition undefined_column :: db_error where
  "undefined_column = \<lparr>de_code = ''42703'',
     de_message = ''column \"updated_at\" of relation \"project_observers\" does not exist''\<rparr>"

definition q_update_observer_note :: "unit statement" where
  "q_update_observer_note d = (Inl undefined_column, d)"

definition updateProjectObserver :: "actor_context option \<Rightarrow> string \<Rightarrow> string \<Rightarrow> string option \<Rightarrow> (string + unit) prog" where
  "updateProjectObserver session projectId observerId note =
     requireProjectMembership session projectId (Some AccessOwner) (\<lambda>_ _.
       written ''Failed to update observer'' q_update_observer_note)"

definition removeProjectObserver :: "actor_context option \<Rightarrow> string \<Rightarrow> string \<Rightarrow> (string + unit) prog" where
  "removeProjectObserver session projectId observerId =
     requireProjectMembership session projectId (Some AccessOwner) (\<lambda>_ _.
       written ''Failed to remove observer'' (q_delete db_observers db_observers_update (q_observer projectId observerId)))"

definition removeProjectMember :: "actor_context option \<Rightarrow> string \<Rightarrow> string \<Rightarrow> (string + unit) prog" where
  "removeProjectMember session projectId memberId =
     requireProjectMembership session projectId (Some AccessOwner) (\<lambda>_ _. do {
       let mine = (\<lambda>m. pm_id m = memberId \<and> pm_project_id m = projectId);
       r \<leftarrow> call (shaped shape_single (q_select db_members mine));
       case data_of r of
         None \<Rightarrow> State_Monad.return (Inl ''Member not found'')
       | Some m \<Rightarrow>
           if pm_role m = ''owner'' then State_Monad.return (Inl ''Cannot remove the project owner'')
           else written ''Failed to remove member'' (q_delete db_members db_members_update mine)
     })"

definition getAvailableAgents :: "actor_context option \<Rightarrow> string \<Rightarrow> (string + agent_row list) prog" where
  "getAvailableAgents session projectId =
     requireProjectMembership session projectId (Some AccessOwner) (\<lambda>_ _. do {
       agents \<leftarrow> call (\<lambda>d. (Inr (sort_key (\<lambda>a. map code_unit (ag_name a)) (db_agents d)), d));
       members \<leftarrow> call (q_select db_members (\<lambda>m. pm_project_id m = projectId));
       State_Monad.return (Inr (filter (\<lambda>a. ag_id a \<notin> pm_agent_id ` set (rows_of members)) (rows_of agents)))
     })"

end
