(* ===== verification/ProjectSafety.thy ===== *)
theory ProjectSafety
  imports ProjectActions
begin

text \<open>
  Who becomes a member of a project: every call of the routes, of the operator's actions and of the sweep keeps the
  table of members sound, whatever happens beside it, and an answer to an invitation adds nobody but the one who
  answers. What the sweep is sure to do, and three calls that do not do what they are for.
\<close>

section \<open>All calls\<close>

datatype project_call =
    ListProjects request "string option" "string option" "string option"
  | CreateProject request
  | ShowProject request string
  | ChangeProject request string
  | ListMembers request string
  | PostMember request string
  | ListObservers request string
  | PostObserver request string
  | ChangeObserver request string string
  | DropObserver request string string
  | ListSprints request string
  | CreateSprint request string
  | ShowSprint request string string
  | ChangeSprint request string string
  | ListInvitations request string
  | Invite request string
  | AnswerInvitation request string string
  | OpStatus "actor_context option" string string
  | OpSprintStatus "actor_context option" string string string
  | OpCreateSprint "actor_context option" string string "string option" "string option" "string option"
  | OpUpdateSprint "actor_context option" string string sprint_data
  | OpUpdate "actor_context option" string "string option" "string option option"
  | OpPrivacy "actor_context option" string json
  | OpInvite "actor_context option" string string
  | OpAnswer "actor_context option" string string invitation_action
  | OpAddObserver "actor_context option" string string "string option"
  | OpChangeObserver "actor_context option" string string "string option"
  | OpRemoveObserver "actor_context option" string string
  | OpRemoveMember "actor_context option" string string
  | OpAgents "actor_context option" string
  | Sweep nat bool

definition ignoring :: "'a prog \<Rightarrow> unit prog" where
  "ignoring m = do { _ \<leftarrow> m; State_Monad.return () }"

fun perform_project :: "driver \<Rightarrow> project_call \<Rightarrow> unit prog" where
  "perform_project dv (ListProjects r s p n) = ignoring (projects_get r s p n)"
| "perform_project dv (CreateProject r) = ignoring (projects_post dv r)"
| "perform_project dv (ShowProject r p) = ignoring (project_get r p)"
| "perform_project dv (ChangeProject r p) = ignoring (project_patch dv r p)"
| "perform_project dv (ListMembers r p) = ignoring (members_get r p)"
| "perform_project dv (PostMember r p) = ignoring (members_post r p)"
| "perform_project dv (ListObservers r p) = ignoring (observers_get r p)"
| "perform_project dv (PostObserver r p) = ignoring (observers_post (dv_text dv) r p)"
| "perform_project dv (ChangeObserver r p i) = ignoring (observer_patch r p i)"
| "perform_project dv (DropObserver r p i) = ignoring (observer_delete r p i)"
| "perform_project dv (ListSprints r p) = ignoring (sprints_get r p)"
| "perform_project dv (CreateSprint r p) = ignoring (sprints_post dv r p)"
| "perform_project dv (ShowSprint r p s) = ignoring (sprint_get r p s)"
| "perform_project dv (ChangeSprint r p s) = ignoring (sprint_patch dv r p s)"
| "perform_project dv (ListInvitations r p) = ignoring (invitations_get r p)"
| "perform_project dv (Invite r p) = ignoring (invitations_post (dv_text dv) r p)"
| "perform_project dv (AnswerInvitation r p i) = ignoring (invitation_patch r p i)"
| "perform_project dv (OpStatus s p x) = ignoring (updateProjectStatus s p x)"
| "perform_project dv (OpSprintStatus s p i x) = ignoring (updateSprintStatus s p i x)"
| "perform_project dv (OpCreateSprint s p t a b g) = ignoring (createSprint s p t a b g)"
| "perform_project dv (OpUpdateSprint s p i u) = ignoring (updateSprint s p i u)"
| "perform_project dv (OpUpdate s p t x) = ignoring (updateProject s p t x)"
| "perform_project dv (OpPrivacy s p j) = ignoring (updateProjectPrivacy s p j)"
| "perform_project dv (OpInvite s p a) = ignoring (inviteProjectMember s p a)"
| "perform_project dv (OpAnswer s p i x) = ignoring (respondToProjectInvitation s p i x)"
| "perform_project dv (OpAddObserver s p a n) = ignoring (addProjectObserver s p a n)"
| "perform_project dv (OpChangeObserver s p i n) = ignoring (updateProjectObserver s p i n)"
| "perform_project dv (OpRemoveObserver s p i) = ignoring (removeProjectObserver s p i)"
| "perform_project dv (OpRemoveMember s p i) = ignoring (removeProjectMember s p i)"
| "perform_project dv (OpAgents s p) = ignoring (getAvailableAgents s p)"
| "perform_project dv (Sweep n dry) = ignoring (sweep_cycle n dry)"

section \<open>Members and invitations\<close>

definition member_key :: "member_row \<Rightarrow> string \<times> string" where
  "member_key m = (pm_project_id m, pm_agent_id m)"

definition invitation_key :: "invitation_row \<Rightarrow> string \<times> string" where
  "invitation_key i = (iv_project_id i, iv_agent_id i)"

definition invited :: "db \<Rightarrow> (string \<times> string) set" where
  "invited d = invitation_key ` set (db_invitations d)"

text \<open>One membership and one invitation per project and agent; every member that is no owner was invited.\<close>

definition memberships_ok :: "db \<Rightarrow> bool" where
  "memberships_ok d \<longleftrightarrow> distinct (map member_key (db_members d)) \<and> distinct (map invitation_key (db_invitations d)) \<and>
     (\<forall>m\<in>set (db_members d). pm_role m = ''owner'' \<or> member_key m \<in> invited d)"

definition membership_step :: "db \<Rightarrow> db \<Rightarrow> bool" where
  "membership_step d d' \<longleftrightarrow> (memberships_ok d \<longrightarrow> memberships_ok d') \<and> invited d \<subseteq> invited d'"

interpretation joins: side_tables membership_step "\<lambda>d. (db_members d, db_invitations d)"
  by unfold_locales (auto simp: membership_step_def memberships_ok_def invited_def)

lemma stable_invited: "stable membership_step (\<lambda>d. k \<in> invited d)"
  by (auto simp: stable_def membership_step_def)

text \<open>Statements on the two tables.\<close>

lemma joins_update_invitations:
  assumes "\<And>i. P i \<Longrightarrow> invitation_key (f i) = invitation_key i"
  shows "membership_step d (db_invitations_update (map (\<lambda>i. if P i then f i else i)) d)"
proof -
  have "map invitation_key (map (\<lambda>i. if P i then f i else i) is') = map invitation_key is'" for is'
    using assms by (induction is') auto
  moreover have "invitation_key ` set (map (\<lambda>i. if P i then f i else i) is') = invitation_key ` set is'" for is'
    using assms by (induction is') auto
  ultimately show ?thesis
    by (simp add: membership_step_def memberships_ok_def invited_def del: map_map)
qed

lemma joins_change:
  assumes "\<And>i. invitation_key (f i) = invitation_key i"
  shows "keeps membership_step (call (shaped sh (q_update db_invitations db_invitations_update P f)))"
    and "keeps membership_step (call (q_update db_invitations db_invitations_update P f))"
  by (intro joins.keeps_call; simp add: joins_update_invitations assms)+

lemma joins_answers:
  "keeps membership_step (call (shaped sh (q_expire i t)))" "keeps membership_step (call (shaped sh (q_remind i t)))"
  "keeps membership_step (call (shaped sh (q_answer p i a t)))" "keeps membership_step (call (q_answer p i a t))"
  "keeps membership_step (call (q_reopen i t))"
  unfolding q_expire_def q_remind_def q_answer_def q_reopen_def
  by (intro joins_change; simp add: invitation_key_def expired_at_def answered_def)+

lemma joins_more_invitations:
  assumes "distinct (map invitation_key new)" "invitation_key ` set new \<inter> invited d = {}"
  shows "membership_step d (db_invitations_update (\<lambda>rs. rs @ new) d)"
  using assms by (auto simp: membership_step_def memberships_ok_def invited_def)

lemma joins_upsert: "membership_step d (snd (q_upsert_invitation c new d))"
proof -
  let ?same = "\<lambda>i. iv_project_id i = iv_project_id new \<and> iv_agent_id i = iv_agent_id new"
  show ?thesis
  proof (cases "\<exists>i\<in>set (db_invitations d). ?same i")
    case True
    then show ?thesis
      by (simp add: q_upsert_invitation_def) (rule joins_update_invitations, simp add: invitation_key_def)
  next
    case False
    then have "membership_step (d\<lparr>db_next := Suc (db_next d)\<rparr>)
        (db_invitations_update (\<lambda>rs. rs @ [new\<lparr>iv_id := x, iv_created_at := t\<rparr>]) (d\<lparr>db_next := Suc (db_next d)\<rparr>))" for x t
      by (intro joins_more_invitations) (auto simp: invitation_key_def invited_def)
    moreover have "membership_step d (d\<lparr>db_next := Suc (db_next d)\<rparr>)"
      by (rule joins.same_view) simp
    ultimately show ?thesis
      using False by (auto simp: q_upsert_invitation_def with_fresh_def q_insert_def Let_def intro: joins.trans)
  qed
qed

text \<open>Adding an owner, or somebody who was invited.\<close>

lemma joins_add_member:
  assumes "role = ''owner'' \<or> (p, a) \<in> invited d"
  shows "membership_step d (snd (q_add_member p a role d))"
  using assms
  by (auto simp: q_add_member_def with_fresh_def q_insert_def membership_step_def memberships_ok_def invited_def member_key_def)

lemma joins_add_owner: "keeps membership_step (call (q_add_member p a ''owner''))"
  by (intro joins.keeps_call joins_add_member) simp

lemma joins_add_invited:
  "valid membership_step (\<lambda>d. (p, a) \<in> invited d) (call (q_add_member p a role)) (\<lambda>_ d. (p, a) \<in> invited d)"
proof (rule joins.valid_call [OF stable_invited])
  fix d :: db assume "(p, a) \<in> invited d"
  then have "membership_step d (snd (q_add_member p a role d))" by (intro joins_add_member) simp
  with \<open>(p, a) \<in> invited d\<close>
  show "membership_step d (snd (q_add_member p a role d)) \<and> (p, a) \<in> invited (snd (q_add_member p a role d))"
    by (auto simp: membership_step_def)
qed

lemma joins_delete_members:
  "keeps membership_step (call (shaped sh (q_delete db_members db_members_update P)))"
  "keeps membership_step (call (q_delete db_members db_members_update P))"
  by (intro joins.keeps_call; simp add: membership_step_def memberships_ok_def invited_def distinct_map_filter)+

text \<open>What the handlers are made of.\<close>

lemma joins_reads:
  "keeps membership_step (getProjectMemberAgentIds p)" "keeps membership_step (listProjectObserverAgentIds p)"
  "keeps membership_step (listObservedProjectIds a)" "keeps membership_step (read_project p)"
  "keeps membership_step (read_member p a)" "keeps membership_step (read_invitation p a)"
  "keeps membership_step (read_observer p a)" "keeps membership_step (agent_with_id a)"
  "keeps membership_step (read_agent_maybe x)"
  unfolding getProjectMemberAgentIds_def listProjectObserverAgentIds_def listObservedProjectIds_def read_project_def
    read_member_def read_invitation_def read_observer_def agent_with_id_def read_agent_maybe_def
  by (intro joins.keeps_rules joins.keeps_reading; simp)+

lemma joins_notify:
  "keeps membership_step (notifyProjectInvitationCreated p a n b m t)"
  "keeps membership_step (notifyProjectInvitationResponded e st)"
  "keeps membership_step (notifyProjectInvitationReminder e x)"
  "keeps membership_step (announce_sprint ev p sp c)"
  unfolding notifyProjectInvitationCreated_def notifyProjectInvitationResponded_def notifyProjectInvitationReminder_def
    announce_sprint_def Let_def
  by (intro joins.keeps_rules joins_reads)+

lemma joins_reconcile: "keeps membership_step (reconcileProjectInvitationState e)"
  unfolding reconcileProjectInvitationState_def expireProjectInvitationIfNeeded_def sendProjectInvitationReminderIfDue_def
  by (intro joins.keeps_rules joins_answers joins_notify)

lemma joins_hydrate: "keeps membership_step (hydrateProjectInvitations es)"
proof -
  have "keeps membership_step (reconcile_all es)" for es
    by (induction es) (auto intro!: joins.keeps_rules joins_reconcile)
  then show ?thesis unfolding hydrateProjectInvitations_def by (intro joins.keeps_rules)
qed

lemma joins_sweep: "keeps membership_step (sweep_cycle n dry)"
proof -
  have one: "keeps membership_step (processInvitation dry e)" for e
    unfolding processInvitation_def markExpired_def markReminderSent_def
    by (intro joins.keeps_rules joins_answers joins_notify)
  have "keeps membership_step (process_all dry es)" for es
    by (induction es) (auto intro!: joins.keeps_rules one)
  then show ?thesis
    unfolding sweep_cycle_def fetchPendingInvitations_def by (intro joins.keeps_rules joins.keeps_reading) simp_all
qed

lemma joins_gate: "keeps membership_step k \<Longrightarrow> keeps membership_step (observer_gate f req a b k)"
  unfolding observer_gate_def by (intro joins.keeps_rules)

lemma joins_owning: "keeps membership_step k \<Longrightarrow> keeps membership_step (owning_project req p e k)"
  unfolding owning_project_def by (intro joins.keeps_rules joins.keeps_access)

lemma joins_participating: "keeps membership_step k \<Longrightarrow> keeps membership_step (participating req p k)"
  unfolding participating_def by (intro joins.keeps_rules joins.keeps_access)

lemma joins_first_access: "keeps membership_step (first_access p as')"
  by (induction as') (auto intro!: joins.keeps_rules joins.keeps_access)

lemma joins_operator:
  "(\<And>a u. keeps membership_step (k a u)) \<Longrightarrow> keeps membership_step (requireProjectMembership s p role k)"
  unfolding requireProjectMembership_def resolveProjectActorAccess_def
  by (intro joins.keeps_rules joins_first_access)

lemma joins_written: "keeps membership_step (call q) \<Longrightarrow> keeps membership_step (written w q)"
  unfolding written_def by (intro joins.keeps_rules)

text \<open>An observer's note is no business of the two tables; nor is a project's row or a sprint's.\<close>

lemma joins_other_tables:
  "(\<And>d. db_members (snd (q d)) = db_members d) \<Longrightarrow> (\<And>d. db_invitations (snd (q d)) = db_invitations d) \<Longrightarrow>
   keeps membership_step (call q)"
  by (intro joins.keeps_aside) simp

lemma snd_checked_update [simp]:
  "snd (checked_update ok hit q d) = (if \<not> ok \<and> hit d then d else snd (q d))"
  by (simp add: checked_update_def)

lemma with_ids_runs: "\<exists>ids k. length ids = n \<and> with_ids n q d = q ids (d\<lparr>db_next := k\<rparr>)"
proof (induction n arbitrary: q d)
  case 0
  have "d = d\<lparr>db_next := db_next d\<rparr>" by simp
  then show ?case by (metis list.size(3) with_ids.simps(1))
next
  case (Suc n)
  obtain ids k where "length ids = n" and
    "with_ids n (\<lambda>ids. q (db_ids d (db_next d) # ids)) (d\<lparr>db_next := Suc (db_next d)\<rparr>) =
       q (db_ids d (db_next d) # ids) (d\<lparr>db_next := Suc (db_next d), db_next := k\<rparr>)"
    using Suc.IH by blast
  then have "length (db_ids d (db_next d) # ids) = Suc n"
    "with_ids (Suc n) q d = q (db_ids d (db_next d) # ids) (d\<lparr>db_next := k\<rparr>)"
    by (simp_all add: with_fresh_def)
  then show ?case by blast
qed

lemma joins_insert_invitations: "keeps membership_step (call (q_insert_invitations p b as'))"
proof (intro joins.keeps_call)
  fix d :: db
  let ?q = "\<lambda>ids d. if \<not> distinct as' then (Inl unique_violation, d)
     else q_insert db_invitations db_invitations_update (\<lambda>n i. iv_project_id n = iv_project_id i \<and> iv_agent_id n = iv_agent_id i)
       (map2 (\<lambda>i a. (new_invitation p a b (getProjectInvitationExpiry (db_now d)) (db_now d))\<lparr>iv_id := i\<rparr>) ids as') d"
  obtain ids k where ids: "length ids = length as'" and q: "with_ids (length as') ?q d = ?q ids (d\<lparr>db_next := k\<rparr>)"
    using with_ids_runs [of "length as'" ?q d] by blast
  let ?d = "d\<lparr>db_next := k\<rparr>"
  let ?new = "map2 (\<lambda>i a. (new_invitation p a b (getProjectInvitationExpiry (db_now ?d)) (db_now ?d))\<lparr>iv_id := i\<rparr>) ids as'"
  have keys: "map invitation_key ?new = map (Pair p) as'"
    using ids by (induction ids as' rule: list_induct2) (simp_all add: invitation_key_def new_invitation_def)
  have step: "membership_step ?d (snd (?q ids ?d))"
  proof (cases "distinct as' \<and> \<not> (\<exists>n\<in>set ?new. \<exists>i\<in>set (db_invitations ?d). iv_project_id n = iv_project_id i \<and> iv_agent_id n = iv_agent_id i)")
    case True
    have "distinct (map invitation_key ?new)" using True unfolding keys by (simp add: distinct_map inj_on_def)
    moreover have "invitation_key ` set ?new \<inter> invited ?d = {}"
      using True by (auto simp: invited_def invitation_key_def)
    ultimately have "membership_step ?d (db_invitations_update (\<lambda>rs. rs @ ?new) ?d)" by (rule joins_more_invitations)
    moreover have "snd (?q ids ?d) = db_invitations_update (\<lambda>rs. rs @ ?new) ?d"
    proof -
      have d1: "distinct as'" and d2: "\<not> (\<exists>n\<in>set ?new. \<exists>i\<in>set (db_invitations ?d).
          iv_project_id n = iv_project_id i \<and> iv_agent_id n = iv_agent_id i)"
        using True by blast+
      show ?thesis unfolding q_insert_def by (simp only: d1 d2 not_True_eq_False if_False snd_conv)
    qed
    ultimately show ?thesis by simp
  next
    case False
    then have "snd (?q ids ?d) = ?d" by (auto simp: q_insert_def)
    then show ?thesis by (simp add: joins.refl)
  qed
  have "membership_step d ?d" by (rule joins.same_view) simp
  with step show "membership_step d (snd (q_insert_invitations p b as' d))"
    unfolding q_insert_invitations_def q by (rule joins.trans [rotated])
qed

lemma joins_drop_project:
  "keeps membership_step (drop_project p)" "keeps membership_step (drop_project_and_members p)"
  unfolding drop_project_def drop_project_and_members_def
  by (intro joins.keeps_rules joins_delete_members joins_other_tables; simp)+

lemma joins_announce_invited: "keeps membership_step (announce_invited req p as')"
  by (induction as') (auto intro!: joins.keeps_rules joins_notify)

lemma joins_projects_post: "keeps membership_step (projects_post dv req)"
proof -
  have "keeps membership_step (project_created dv req j p ids)" for j p ids
    unfolding project_created_def invite_first_def Let_def
    by (intro joins.keeps_rules joins.keeps_side joins_add_owner joins_drop_project joins_announce_invited
      joins_insert_invitations joins.keeps_reading) simp
  moreover have "keeps membership_step (call (shaped shape_single (q_insert_project dv a j)))" for a j
    by (intro joins_other_tables) (simp_all add: q_insert_project_def with_fresh_def q_insert_def)
  ultimately show ?thesis
    unfolding projects_post_def
    by (cases "rq_body req") (auto intro!: joins.keeps_rules)
qed

lemma joins_project_routes:
  "keeps membership_step (projects_get r s p n)" "keeps membership_step (project_get r q)"
  "keeps membership_step (members_get r q)" "keeps membership_step (members_post r q)"
proof -
  have "keeps membership_step (project_detailed r q p b)" for p b
  proof -
    have reads: "keeps membership_step (call (q_member_entries id q))" "keeps membership_step (call (q_observer_entries q))"
      "keeps membership_step (call (q_sprints q))" "keeps membership_step (call (q_project_invitations q))"
      "keeps membership_step (call (q_project_runs q))"
      by (intro joins.keeps_reading; simp add: q_member_entries_def q_observer_entries_def q_sprints_def
        q_project_invitations_def q_project_runs_def)+
    show ?thesis
      unfolding project_detailed_def
      by (intro joins.keeps_bind reads joins.keeps_if joins.keeps_return joins.keeps_reading)
        (auto intro!: joins.keeps_rules joins_hydrate split: sum.split)
  qed
  then show "keeps membership_step (project_get r q)"
    unfolding project_get_def by (intro joins.keeps_rules joins.keeps_access joins_gate joins_reads)
  show "keeps membership_step (projects_get r s p n)"
    unfolding projects_get_def Let_def
    by (intro joins.keeps_rules joins.keeps_reading joins_reads) (simp_all add: q_project_page_def split: option.split)
  show "keeps membership_step (members_get r q)" "keeps membership_step (members_post r q)"
    unfolding members_get_def members_post_def
    by (intro joins.keeps_rules joins.keeps_access joins_gate joins.keeps_reading; simp add: q_member_entries_def)+
qed

lemma joins_project_patch: "keeps membership_step (project_patch dv r p)"
proof -
  have "keeps membership_step (call (shaped shape_single (q_update_project dv p j)))" for j
    by (intro joins_other_tables) (simp_all add: q_update_project_def)
  then have "keeps membership_step (project_patch_parsed dv r p j)" for j
    unfolding project_patch_parsed_def by (intro joins.keeps_rules joins.keeps_side)
  then show ?thesis
    unfolding project_patch_def by (cases "rq_body r") (auto intro!: joins_owning joins.keeps_rules)
qed

lemma joins_insert_observer: "keeps membership_step (call (shaped sh (q_insert_observer p a b n)))"
  "keeps membership_step (call (q_insert_observer p a b n))"
  by (intro joins_other_tables; simp add: q_insert_observer_def with_fresh_def q_insert_def)+

lemma joins_observer_routes:
  "keeps membership_step (observers_get r p)" "keeps membership_step (observers_post f r p)"
  "keeps membership_step (observer_patch r p i)" "keeps membership_step (observer_delete r p i)"
proof -
  show "keeps membership_step (observers_get r p)"
    unfolding observers_get_def
    by (intro joins.keeps_rules joins.keeps_access joins_gate joins.keeps_reading) (simp add: q_observer_entries_def)
  have "keeps membership_step (observer_checked r p a b n)" for a b n
    unfolding observer_checked_def observer_added_def
    by (intro joins.keeps_rules joins_reads joins_insert_observer joins.keeps_side)
  then show "keeps membership_step (observers_post f r p)"
    unfolding observers_post_def Let_def
    by (intro joins_owning) (auto intro!: joins.keeps_rules split: request_body.split json.split)
  have "keeps membership_step (call (shaped shape_single (q_update db_observers db_observers_update P g)))" for P g
    by (intro joins_other_tables) simp_all
  then show "keeps membership_step (observer_patch r p i)"
    unfolding observer_patch_def Let_def
    by (intro joins_owning) (auto intro!: joins.keeps_rules joins.keeps_side split: request_body.split)
  show "keeps membership_step (observer_delete r p i)"
    unfolding observer_delete_def
    by (intro joins_owning joins.keeps_rules joins.keeps_side joins_other_tables) simp_all
qed

lemma joins_sprint_routes:
  "keeps membership_step (sprints_get r p)" "keeps membership_step (sprints_post dv r p)"
  "keeps membership_step (sprint_get r p i)" "keeps membership_step (sprint_patch dv r p i)"
proof -
  show "keeps membership_step (sprints_get r p)" "keeps membership_step (sprint_get r p i)"
    unfolding sprints_get_def sprint_get_def
    by (intro joins.keeps_rules joins_participating joins.keeps_reading; simp add: q_sprints_def)+
  have insert: "keeps membership_step (call (shaped shape_single (q_insert_sprint p t g a b n)))" for t g a b n
    by (intro joins_other_tables) (simp_all add: q_insert_sprint_def with_fresh_def q_insert_def)
  have "keeps membership_step (sprints_post_parsed dv r p j)" for j
    unfolding sprints_post_parsed_def Let_def
    by (intro joins.keeps_rules joins.keeps_side insert joins_notify joins.keeps_reading) simp
  then show "keeps membership_step (sprints_post dv r p)"
    unfolding sprints_post_def
    by (intro joins.keeps_write_project) (auto intro!: joins.keeps_rules split: request_body.split)
  have "keeps membership_step (reorder_sprints p i v)" for v
    unfolding reorder_sprints_def
    by (intro joins.keeps_rules joins.keeps_reading) (simp_all add: rpc_shift_sprint_positions_def)
  moreover have "keeps membership_step (call (shaped shape_single (q_update_sprint dv p i j)))" for j
    by (intro joins_other_tables) (simp_all add: q_update_sprint_def Let_def)
  ultimately have "keeps membership_step (sprint_patch_parsed dv r p i j)" for j
    unfolding sprint_patch_parsed_def by (intro joins.keeps_rules joins.keeps_side joins_notify)
  then show "keeps membership_step (sprint_patch dv r p i)"
    unfolding sprint_patch_def
    by (intro joins.keeps_write_project) (auto intro!: joins.keeps_rules split: request_body.split)
qed

lemma joins_invitations_get: "keeps membership_step (invitations_get r p)"
  unfolding invitations_get_def
  by (intro joins.keeps_rules joins.keeps_access joins_gate joins_hydrate joins.keeps_reading)
    (simp_all add: q_entries_def q_project_invitations_def)

lemma joins_upserts:
  "keeps membership_step (call (shaped sh (q_upsert_invitation c new)))"
  "keeps membership_step (call (q_upsert_invitation c new))"
  by (intro joins.keeps_call; simp add: joins_upsert)+

lemma joins_invitations_post: "keeps membership_step (invitations_post f r p)"
proof -
  have "keeps membership_step (invitation_checked r p k e a b)" for k e a b
    unfolding invitation_checked_def invitation_stored_def
    by (intro joins.keeps_rules joins_reads joins_upserts joins.keeps_side joins_notify)
  then show ?thesis
    unfolding invitations_post_def Let_def
    by (intro joins.keeps_keyed joins.keeps_rules joins.keeps_access)
      (auto intro!: joins.keeps_rules split: request_body.split)
qed

section \<open>Answering\<close>

text \<open>An invitation that was read stays there, in whatever state.\<close>

definition known :: "invitation_entry \<Rightarrow> db \<Rightarrow> bool" where
  "known e d \<longleftrightarrow> invitation_key (ie_row e) \<in> invited d"

lemma stable_known: "stable membership_step (known e)"
  unfolding known_def by (rule stable_invited)

lemma holds_known: "keeps membership_step m \<Longrightarrow> valid membership_step (known e) m (\<lambda>_. known e)"
  by (rule joins.keeps_holds [OF _ stable_known])

lemma read_known:
  "valid membership_step (\<lambda>_. True) (call (shaped shape_single (q_entries True P)))
     (\<lambda>r d. \<forall>e. data_of r = Some e \<longrightarrow> known e d \<and> P (ie_row e))"
proof (rule joins.valid_call)
  fix d :: db
  have "known e d \<and> P (ie_row e)" if "fst (shaped shape_single (q_entries True P) d) = Inr e" for e
  proof -
    have "fst (q_entries True P d) = Inr (map (entry_of True d) (filter P (db_invitations d)))" by (simp add: q_entries_def)
    with that have "map (entry_of True d) (filter P (db_invitations d)) = [e]" by (simp add: shape_single_Inr)
    then have "e \<in> set (map (entry_of True d) (filter P (db_invitations d)))" by simp
    then show ?thesis by (auto simp: known_def entry_of_def invited_def)
  qed
  then show "membership_step d (snd (shaped shape_single (q_entries True P) d)) \<and>
      (\<forall>e. data_of (fst (shaped shape_single (q_entries True P) d)) = Some e \<longrightarrow>
         known e (snd (shaped shape_single (q_entries True P) d)) \<and> P (ie_row e))"
    by (cases "fst (shaped shape_single (q_entries True P) d)") (simp_all add: q_entries_def joins.refl)
qed simp_all

lemma known_add_member:
  "valid membership_step (known e) (call (q_add_member (iv_project_id (ie_row e)) (iv_agent_id (ie_row e)) role)) (\<lambda>_. known e)"
  unfolding known_def [abs_def] invitation_key_def by (rule joins_add_invited)

lemma known_answer_written: "valid membership_step (known e) (answer_written r a e) (\<lambda>_. known e)"
proof -
  have join: "valid membership_step (known e) (join_project (ie_row e)) (\<lambda>_. known e)"
    unfolding join_project_def by (intro joins.holds_rules known_add_member)
  have noted: "keeps membership_step (answer_noted r a e u)" for u
    unfolding answer_noted_def Let_def by (intro joins.keeps_rules joins.keeps_side joins_notify)
  show ?thesis
    unfolding answer_written_def
    by (intro joins.holds_rules join holds_known [OF noted] holds_known [OF joins_answers(3)]
      holds_known [OF joins_answers(5)] holds_known [OF joins.keeps_clock])
qed

lemma joins_invitation_patch: "valid membership_step (\<lambda>_. True) (invitation_patch r p i) (\<lambda>_ _. True)"
proof -
  have gate: "keeps membership_step (accept_gate x)" for x
    unfolding accept_gate_def by (intro joins.keeps_rules joins_reads)
  have known: "valid membership_step (known e) (answer_invitation r a e) (\<lambda>_. known e)" for e a
    unfolding answer_invitation_def
    by (intro joins.holds_rules holds_known joins.keeps_access gate known_answer_written joins.keeps_return)
  have answer: "valid membership_step (known e) (answer_invitation r a (normalized t e)) (\<lambda>_ _. True)" for e a t
    using known [of "normalized t e" a]
    by (rule valid_conseq)
      (simp_all add: known_def normalized_def normalizeProjectInvitation_def invitation_key_def Let_def)
  have "valid membership_step (known e) (answer_found r a e) (\<lambda>_ _. True)" for e a
    unfolding answer_found_def Let_def by (intro joins.valid_clock_bind joins.valid_if joins.valid_return answer) simp_all
  then have found: "valid membership_step (\<lambda>d. \<forall>e. x = Some e \<longrightarrow> known e d \<and> Q e)
      (case x of None \<Rightarrow> State_Monad.return n | Some raw \<Rightarrow> answer_found r a raw) (\<lambda>_ _. True)" for x n a Q
    by (cases x) (auto intro: joins.valid_return valid_conseq)
  show ?thesis
    unfolding invitation_patch_def
    by (cases "rq_body r")
      (auto intro!: joins.valid_if joins.valid_return joins.valid_bind [OF read_known] found split: option.split)
qed

lemma joins_answer_operator: "valid membership_step (\<lambda>_. True) (respondToProjectInvitation s p i a) (\<lambda>_ _. True)"
proof -
  have noted: "keeps membership_step (do { notifyProjectInvitationResponded e x; State_Monad.return (Inr ()) })" for e x
    by (intro joins.keeps_rules joins_notify)
  have owns: "keeps membership_step (session_owns x p)" for x
    unfolding session_owns_def by (intro joins.keeps_rules joins.keeps_reading) simp
  have "valid membership_step (known e) (invitation_answered e a) (\<lambda>_. known e)" for e
    unfolding invitation_answered_def
    by (intro joins.holds_rules known_add_member holds_known [OF noted] holds_known [OF joins_answers(4)]
      holds_known [OF joins.keeps_clock])
  then have "valid membership_step (known e) (do {
      isOwner \<leftarrow> session_owns x p;
      case answer_refused x isOwner (ie_row e) a of
        Some refusal \<Rightarrow> State_Monad.return (Inl refusal)
      | None \<Rightarrow> invitation_answered e a }) (\<lambda>_. known e)" for e x
    by (intro joins.holds_rules holds_known [OF owns]) auto
  then have found: "valid membership_step (\<lambda>d. \<forall>e. y = Some e \<longrightarrow> known e d \<and> Q e)
      (case y of None \<Rightarrow> State_Monad.return (Inl n)
       | Some e \<Rightarrow> if iv_status (ie_row e) \<noteq> IPending then State_Monad.return (Inl (m e))
                  else do {
                    isOwner \<leftarrow> session_owns x p;
                    case answer_refused x isOwner (ie_row e) a of
                      Some refusal \<Rightarrow> State_Monad.return (Inl refusal)
                    | None \<Rightarrow> invitation_answered e a }) (\<lambda>_ _. True)" for y n m x Q
    by (cases y) (auto intro: joins.valid_return valid_conseq)
  show ?thesis
    unfolding respondToProjectInvitation_def
    by (cases s) (auto intro!: joins.valid_return joins.valid_bind [OF read_known] found)
qed

section \<open>The operator's other actions\<close>

lemma joins_checked_update:
  "(\<And>d. db_members (snd (q d)) = db_members d) \<Longrightarrow> (\<And>d. db_invitations (snd (q d)) = db_invitations d) \<Longrightarrow>
   keeps membership_step (call (checked_update ok hit q))"
  by (intro joins_other_tables) simp_all

lemma joins_actions:
  "keeps membership_step (updateProjectStatus s p x)" "keeps membership_step (updateSprintStatus s p i x)"
  "keeps membership_step (createSprint s p t a b g)" "keeps membership_step (updateSprint s p i u)"
  "keeps membership_step (updateProject s p y z)" "keeps membership_step (updateProjectPrivacy s p j)"
  "keeps membership_step (updateProjectObserver s p i n)" "keeps membership_step (removeProjectObserver s p i)"
  unfolding updateProjectStatus_def updateSprintStatus_def createSprint_def updateSprint_def updateProject_def
    updateProjectPrivacy_def updateProjectObserver_def removeProjectObserver_def Let_def
  by (intro joins_operator joins.keeps_rules joins_written joins_checked_update joins_other_tables;
      simp add: q_insert_sprint_def with_fresh_def q_insert_def q_update_observer_note_def)+

lemma joins_member_actions:
  "keeps membership_step (removeProjectMember s p i)" "keeps membership_step (getAvailableAgents s p)"
  unfolding removeProjectMember_def getAvailableAgents_def Let_def
  by (intro joins_operator joins.keeps_rules joins_written joins_delete_members joins.keeps_reading; simp)+

lemma joins_inviting_actions:
  "keeps membership_step (inviteProjectMember s p a)" "keeps membership_step (addProjectObserver s p a n)"
proof -
  have pairs: "keeps membership_step (case (x, y) of (None, _) \<Rightarrow> k | (_, None) \<Rightarrow> l | (Some u, Some v) \<Rightarrow> f u v)"
    if "keeps membership_step k" "keeps membership_step l" "\<And>u v. keeps membership_step (f u v)"
    for x :: "project_row option" and y :: "agent_row option" and k l :: "(string + unit) prog" and f
    using that by (cases x; cases y) simp_all
  show "keeps membership_step (inviteProjectMember s p a)" "keeps membership_step (addProjectObserver s p a n)"
    unfolding inviteProjectMember_def addProjectObserver_def
    by (intro joins_operator joins.keeps_bind pairs joins.keeps_rules joins_reads joins_upserts joins_notify joins_written
        joins_insert_observer)+
qed

lemma joins_ignoring: "keeps membership_step m \<Longrightarrow> keeps membership_step (ignoring m)"
  unfolding ignoring_def by (intro joins.keeps_rules)

lemma joins_perform: "keeps membership_step (perform_project dv c)"
  by (cases c)
    (simp_all add: joins_ignoring joins_project_routes joins_projects_post joins_project_patch joins_observer_routes
      joins_sprint_routes joins_invitations_get joins_invitations_post joins_invitation_patch [folded keeps_def]
      joins_answer_operator [folded keeps_def] joins_actions joins_member_actions joins_inviting_actions joins_sweep)


text \<open>A project of the first agent with a sprint, and an invitation of the second.\<close>

definition sample_invitation :: "timestamp \<Rightarrow> invitation_row" where
  "sample_invitation expires = \<lparr>iv_id = ''i'', iv_project_id = ''p'', iv_agent_id = ''b'', iv_invited_by_agent_id = ''a'',
     iv_role = ''member'', iv_status = IPending, iv_responded_at = None, iv_reminder_sent_at = None,
     iv_expires_at = Some expires, iv_created_at = 0, iv_updated_at = 0\<rparr>"

definition sample_sprint :: "string \<Rightarrow> int \<Rightarrow> sprint_row" where
  "sample_sprint i n = \<lparr>sp_id = i, sp_project_id = ''p'', sp_title = i, sp_goal = None, sp_status = ''planned'', sp_start_date = None,
     sp_end_date = None, sp_position = n, sp_created_at = 0, sp_updated_at = 0\<rparr>"

definition sample_project :: "timestamp \<Rightarrow> db" where
  "sample_project expires = (empty_db sample_ids)\<lparr>
     db_agents := [sample_agent ''a'', sample_agent ''b''],
     db_projects := [\<lparr>pj_id = ''p'', pj_title = Some ''Project'', pj_description = None, pj_status = ''active'',
       pj_created_by_agent_id = Some ''a'', pj_privacy_metadata = JNull, pj_created_at = 0, pj_updated_at = 0\<rparr>],
     db_members := [\<lparr>pm_id = ''m'', pm_project_id = ''p'', pm_agent_id = ''a'', pm_role = ''owner'', pm_joined_at = 0\<rparr>],
     db_invitations := [sample_invitation expires], db_sprints := [sample_sprint ''s'' 0, sample_sprint ''t'' 1],
     db_now := 1000\<rparr>"

definition sample_answer :: request where
  "sample_answer = sample_request ''b'' (Parsed (JObj [(''action'', JStr ''accept'')]))"

definition sample_joined :: db where
  "sample_joined = final (perform_project sample_driver (AnswerInvitation sample_answer ''p'' ''i'')) [] (sample_project 5000)"


section \<open>Whom an answer adds\<close>

text \<open>The memberships of \<open>d'\<close> are those of \<open>d\<close> and \<open>k\<close>.\<close>

definition adds_only :: "string \<times> string \<Rightarrow> db \<Rightarrow> db \<Rightarrow> bool" where
  "adds_only k d d' \<longleftrightarrow> member_key ` set (db_members d') \<subseteq> insert k (member_key ` set (db_members d))"

interpretation adding: side_tables "adds_only k" db_members for k
proof unfold_locales
  show "adds_only k a c" if "adds_only k a b" "adds_only k b c" for a b c
    using that unfolding adds_only_def by blast
qed (simp_all add: adds_only_def subset_insertI)

lemma adding_invitations:
  "keeps (adds_only k) (call (shaped sh (q_answer p i a t)))" "keeps (adds_only k) (call (q_reopen i t))"
  by (intro adding.keeps_aside; simp add: q_answer_def q_reopen_def)+

lemma adding_notify: "keeps (adds_only k) (notifyProjectInvitationResponded e st)"
  unfolding notifyProjectInvitationResponded_def getProjectMemberAgentIds_def Let_def
  by (intro adding.keeps_rules adding.keeps_reading) simp

lemma adding_written: "keeps (adds_only (iv_project_id (ie_row e), iv_agent_id (ie_row e))) (answer_written r a e)"
proof -
  have "keeps (adds_only (iv_project_id (ie_row e), iv_agent_id (ie_row e))) (join_project (ie_row e))"
    unfolding join_project_def
    by (intro adding.keeps_rules adding.keeps_call)
      (auto simp: adds_only_def member_key_def q_add_member_def with_fresh_def q_insert_def)
  moreover have "keeps (adds_only k) (answer_noted r a e u)" for u k
    unfolding answer_noted_def Let_def by (intro adding.keeps_rules adding.keeps_side adding_notify)
  ultimately show ?thesis
    unfolding answer_written_def by (intro adding.keeps_rules adding_invitations)
qed

lemma adding_answer:
  "keeps (adds_only (iv_project_id (ie_row e), ag_id (rq_agent r))) (answer_invitation r a e)"
proof -
  let ?R = "adds_only (iv_project_id (ie_row e), ag_id (rq_agent r))"
  have gate: "keeps ?R (accept_gate x)" for x
    unfolding accept_gate_def agent_with_id_def by (intro adding.keeps_rules adding.keeps_reading) simp_all
  have "keeps ?R (answer_written r a e)" if "may_answer r access a (ie_row e) = None" for access
  proof (cases "a = CancelInvitation")
    case True
    then show ?thesis
      unfolding answer_written_def answer_noted_def Let_def
      by simp (intro adding.keeps_rules adding_invitations adding.keeps_side adding_notify)
  next
    case False
    with that have "iv_agent_id (ie_row e) = ag_id (rq_agent r)" by (auto simp: may_answer_def split: if_splits)
    with adding_written [of e r a] show ?thesis by simp
  qed
  then show ?thesis
    unfolding answer_invitation_def by (intro adding.keeps_rules adding.keeps_access gate)
qed

lemma valid_when: "(p \<Longrightarrow> valid R (\<lambda>_. True) m Q) \<Longrightarrow> valid R (\<lambda>_. p) m Q"
  by (simp add: valid_def)

lemma normalized_project [simp]: "iv_project_id (ie_row (normalized t e)) = iv_project_id (ie_row e)"
  by (simp add: normalized_def normalizeProjectInvitation_def Let_def)

text \<open>Property C29: a PATCH of an invitation adds nobody to a project but the agent that sends it, and to no other
  project than that of the request.\<close>

theorem patch_adds_only_caller:
  assumes "rely (adds_only (projectId, ag_id (rq_agent req))) env"
  shows "adds_only (projectId, ag_id (rq_agent req)) d (final (invitation_patch req projectId invitationId) env d)"
proof -
  let ?R = "adds_only (projectId, ag_id (rq_agent req))"
  have read: "valid ?R (\<lambda>_. True) (call (shaped shape_single (q_entries True (\<lambda>i. iv_id i = invitationId \<and> iv_project_id i = projectId))))
      (\<lambda>r _. \<forall>e. data_of r = Some e \<longrightarrow> iv_project_id (ie_row e) = projectId)"
  proof (rule adding.valid_call)
    fix d :: db
    let ?q = "q_entries True (\<lambda>i. iv_id i = invitationId \<and> iv_project_id i = projectId)"
    have "iv_project_id (ie_row e) = projectId" if "fst (shaped shape_single ?q d) = Inr e" for e
    proof -
      have "e \<in> set (map (entry_of True d) (filter (\<lambda>i. iv_id i = invitationId \<and> iv_project_id i = projectId) (db_invitations d)))"
        using that by (auto simp: q_entries_def shaped_def shape_single_Inr split: prod.splits)
      then show ?thesis by (auto simp: entry_of_def)
    qed
    then show "?R d (snd (shaped shape_single ?q d)) \<and>
        (\<forall>e. data_of (fst (shaped shape_single ?q d)) = Some e \<longrightarrow> iv_project_id (ie_row e) = projectId)"
      by (cases "fst (shaped shape_single ?q d)") (simp_all add: q_entries_def adding.refl)
  qed simp_all
  have "keeps ?R (answer_invitation req a (normalized t e))" if "iv_project_id (ie_row e) = projectId" for a e t
    using adding_answer [of "normalized t e" req a] that by (simp add: normalized_project)
  then have "keeps ?R (answer_found req a e)" if "iv_project_id (ie_row e) = projectId" for a e
    using that unfolding answer_found_def Let_def by (intro adding.keeps_rules)
  then have found: "valid ?R (\<lambda>_. \<forall>e. x = Some e \<longrightarrow> iv_project_id (ie_row e) = projectId)
      (case x of None \<Rightarrow> State_Monad.return n | Some raw \<Rightarrow> answer_found req a raw) (\<lambda>_ _. True)" for x n a
  proof (cases x)
    case (Some e)
    show ?thesis
      unfolding Some option.case option.inject
      by (rule valid_when) (simp add: keeps_def [symmetric] \<open>\<And>e a. iv_project_id (ie_row e) = projectId \<Longrightarrow> keeps ?R (answer_found req a e)\<close>)
  qed (simp add: adding.valid_return)
  have "valid ?R (\<lambda>_. True) (invitation_patch req projectId invitationId) (\<lambda>_ _. True)"
    unfolding invitation_patch_def
    by (cases "rq_body req")
      (auto intro!: adding.valid_if adding.valid_return adding.valid_bind [OF read] found split: option.split)
  from valid_run(1) [OF this assms, of d] show ?thesis by simp
qed

theorem patch_adds_only_caller_witness:
  "adds_only (''p'', ag_id (rq_agent sample_answer)) (sample_project 5000) (final (invitation_patch sample_answer ''p'' ''i'') [] (sample_project 5000))"
  by (rule patch_adds_only_caller [OF rely_Nil])

end
