(* ===== verification/ProjectOutcomes.thy ===== *)
theory ProjectOutcomes
  imports ProjectSafety CalmRuns
begin

text \<open>
  What calls of the project routes are sure to do: the sweep expires every invitation that is due, and three calls
  miss their purpose (a sprint is never moved, an expired invitation is still accepted by an operator, a rejected
  request leaves a project behind).
\<close>

section \<open>The sweep\<close>

text \<open>The invitations that are pending, with their expiry.\<close>

definition pending :: "db \<Rightarrow> (string \<times> timestamp) set" where
  "pending d = (\<lambda>i. (iv_id i, expiry_of i)) ` {i \<in> set (db_invitations d). iv_status i = IPending}"

text \<open>Time does not run backwards; while the sweep is at work no invitation is made or deleted, none becomes pending and
  none gets another expiry.\<close>

definition due_step :: "db \<Rightarrow> db \<Rightarrow> bool" where
  "due_step d d' \<longleftrightarrow> db_now d \<le> db_now d' \<and> pending d' \<subseteq> pending d \<and>
     map iv_id (db_invitations d') = map iv_id (db_invitations d)"

interpretation due: rely_guarantee due_step
  by unfold_locales (auto simp: due_step_def)

text \<open>No pending invitation of this id is past its expiry at time \<open>t\<close>.\<close>

definition settled :: "timestamp \<Rightarrow> string \<Rightarrow> db \<Rightarrow> bool" where
  "settled t x d \<longleftrightarrow> (\<forall>y. (x, y) \<in> pending d \<longrightarrow> t < y)"

definition as_read :: "timestamp \<Rightarrow> invitation_entry \<Rightarrow> db \<Rightarrow> bool" where
  "as_read t e d \<longleftrightarrow> t \<le> db_now d \<and> iv_status (ie_row e) = IPending \<and>
     (\<forall>y. (iv_id (ie_row e), y) \<in> pending d \<longrightarrow> y = expiry_of (ie_row e))"

lemma stable_due: "stable due_step (settled t x)" "stable due_step (as_read t e)" "stable due_step (due_step d)"
  by (auto simp: stable_def settled_def as_read_def due_step_def)

lemma pending_update:
  assumes "\<And>i. P i \<Longrightarrow> iv_status (f i) = IPending \<Longrightarrow> iv_status i = IPending \<and> iv_id (f i) = iv_id i \<and> expiry_of (f i) = expiry_of i"
  shows "pending (snd (q_update db_invitations db_invitations_update P f d)) \<subseteq> pending d"
proof
  fix x assume "x \<in> pending (snd (q_update db_invitations db_invitations_update P f d))"
  then obtain i where i: "i \<in> set (db_invitations d)" and "iv_status (if P i then f i else i) = IPending"
    "x = (iv_id (if P i then f i else i), expiry_of (if P i then f i else i))"
    by (auto simp: pending_def)
  with assms [of i] have "iv_status i = IPending \<and> x = (iv_id i, expiry_of i)" by (auto split: if_splits)
  with i show "x \<in> pending d" by (auto simp: pending_def)
qed

lemma ids_update: "(\<And>i. iv_id (f i) = iv_id i) \<Longrightarrow> map iv_id (map (\<lambda>i. if P i then f i else i) is') = map iv_id is'"
  by (induction is') auto

lemma expired_at_simps [simp]: "iv_status (expired_at t i) = IExpired" "iv_id (expired_at t i) = iv_id i"
  by (simp_all add: expired_at_def)

lemma due_expire: "due_step d (snd (q_expire x t d))"
  unfolding due_step_def q_expire_def by (intro conjI pending_update) (simp_all add: ids_update del: map_map)

lemma due_remind: "due_step d (snd (q_remind x t d))"
  unfolding due_step_def q_remind_def by (intro conjI pending_update) (auto simp: expiry_of_def ids_update simp del: map_map split: option.split)

lemma due_notify:
  "calmly due_step P (notifyProjectInvitationResponded e st) (\<lambda>_. P)"
  "calmly due_step P (notifyProjectInvitationReminder e y) (\<lambda>_. P)" if "stable due_step P"
  unfolding notifyProjectInvitationResponded_def notifyProjectInvitationReminder_def getProjectMemberAgentIds_def Let_def
  by (rule due.calmly_bind [where Q = "\<lambda>_. P"], rule due.calmly_bind [where Q = "\<lambda>_. P"], rule due.calmly_call [OF that],
      simp add: due.refl, rule due.calmly_return, assumption, rule due.calmly_deliver, assumption)+

lemma expire_settles: "settled t x (snd (q_expire x w d))"
proof -
  have False if "(x, y) \<in> pending (snd (q_expire x w d))" for y
  proof -
    let ?g = "\<lambda>i. if iv_id i = x \<and> iv_status i = IPending then expired_at w i else i"
    from that have "(x, y) \<in> (\<lambda>i. (iv_id i, expiry_of i)) ` {i \<in> set (map ?g (db_invitations d)). iv_status i = IPending}"
      by (simp add: pending_def q_expire_def)
    then obtain j where "j \<in> set (map ?g (db_invitations d))" and j: "iv_status j = IPending" "iv_id j = x" by blast
    then obtain i where "j = ?g i" unfolding set_map by blast
    with j show False by (cases "iv_id i = x \<and> iv_status i = IPending") simp_all
  qed
  then show ?thesis by (auto simp: settled_def)
qed

text \<open>One invitation: expired when it is due, and left alone or reminded when it is not.\<close>

lemma sweep_one:
  "calmly due_step (as_read t e) (processInvitation False e) (\<lambda>_. settled t (iv_id (ie_row e)))"
proof -
  let ?S = "settled t (iv_id (ie_row e))"
  have expire: "calmly due_step (as_read t e) (markExpired False e) (\<lambda>_. ?S)"
    unfolding markExpired_def if_False
    by (intro due.calmly_bind [where Q = "\<lambda>_. as_read t e"] due.calmly_clock due.calmly_bind [where Q = "\<lambda>_. ?S"]
        due.calmly_call due.calmly_sum due.calmly_return due_notify stable_due)
      (simp_all add: due_expire expire_settles)
  have remind: "calmly due_step ?S (markReminderSent False e) (\<lambda>_. ?S)"
    unfolding markReminderSent_def if_False
    by (intro due.calmly_bind [where Q = "\<lambda>_. ?S"] due.calmly_clock
        due.calmly_call due.calmly_sum due.calmly_return due_notify stable_due)
      (auto simp: due_remind intro: stable_due [unfolded stable_def, rule_format])
  have "calmly due_step (\<lambda>d. as_read t e d \<and> t \<le> now) (if isProjectInvitationExpired (ie_row e) now then markExpired False e
      else do { now' \<leftarrow> clock;
        if isProjectInvitationReminderDue (ie_row e) now' then markReminderSent False e else State_Monad.return SweptNoop })
      (\<lambda>_. ?S)" for now
  proof (cases "isProjectInvitationExpired (ie_row e) now")
    case True
    then show ?thesis by simp (rule calmly_conseq [OF expire], simp_all)
  next
    case False
    have "calmly due_step ?S (do { now' \<leftarrow> clock;
        if isProjectInvitationReminderDue (ie_row e) now' then markReminderSent False e else State_Monad.return SweptNoop }) (\<lambda>_. ?S)"
      by (intro due.calmly_bind [where Q = "\<lambda>_. ?S"] due.calmly_clock due.calmly_if remind due.calmly_return)
    with False show ?thesis
      by simp (erule calmly_conseq, auto simp: as_read_def settled_def isProjectInvitationExpired_def)
  qed
  then show ?thesis
    unfolding processInvitation_def
    by (intro due.calmly_bind [where Q = "\<lambda>now d. as_read t e d \<and> t \<le> now"] due.calmly_clock) (auto simp: as_read_def)
qed

lemma due_keep:
  "stable due_step P \<Longrightarrow> calmly due_step Q m S \<Longrightarrow> calmly due_step (\<lambda>d. P d \<and> Q d) m (\<lambda>x d. P d \<and> S x d)"
  unfolding calmly_def stable_def by (fastforce split: prod.splits)

lemma sweep_all:
  "calmly due_step (\<lambda>d. \<forall>e\<in>set es. as_read t e d) (process_all False es)
     (\<lambda>_ d. \<forall>e\<in>set es. settled t (iv_id (ie_row e)) d)"
proof (induction es)
  case Nil
  show ?case by simp (rule due.calmly_return, simp)
next
  case (Cons e es)
  have st: "stable due_step (\<lambda>d. \<forall>e\<in>set es. as_read t e d)" using stable_due(2) unfolding stable_def by blast
  have "calmly due_step (\<lambda>d. (\<forall>e\<in>set es. as_read t e d) \<and> as_read t e d) (processInvitation False e)
      (\<lambda>_ d. (\<forall>e\<in>set es. as_read t e d) \<and> settled t (iv_id (ie_row e)) d)"
    by (rule due_keep [OF st sweep_one])
  moreover have "calmly due_step (\<lambda>d. settled t (iv_id (ie_row e)) d \<and> (\<forall>e\<in>set es. as_read t e d)) (process_all False es)
      (\<lambda>_ d. settled t (iv_id (ie_row e)) d \<and> (\<forall>e\<in>set es. settled t (iv_id (ie_row e)) d))"
    by (rule due_keep [OF stable_due(1) Cons.IH])
  ultimately show ?case
    unfolding process_all.simps
    by (intro due.calmly_bind [where Q = "\<lambda>_ d. settled t (iv_id (ie_row e)) d \<and> (\<forall>e\<in>set es. as_read t e d)"]
        due.calmly_bind [where Q = "\<lambda>_ d. settled t (iv_id (ie_row e)) d \<and> (\<forall>e\<in>set es. settled t (iv_id (ie_row e)) d)"]
        due.calmly_return)
      (auto elim: calmly_conseq)
qed

definition fetched :: "nat \<Rightarrow> db \<Rightarrow> invitation_entry list" where
  "fetched n d = map (entry_of True d) (take n (sort_key iv_created_at (filter (\<lambda>i. iv_status i = IPending) (db_invitations d))))"

lemma sweep_fetches:
  assumes "length (filter (\<lambda>i. iv_status i = IPending) (db_invitations d)) \<le> n" "distinct (map iv_id (db_invitations d))"
  shows "(\<lambda>e. iv_id (ie_row e)) ` set (fetched n d) = fst ` pending d" and "e \<in> set (fetched n d) \<Longrightarrow> as_read (db_now d) e d"
proof -
  have rows: "ie_row ` set (fetched n d) = {i \<in> set (db_invitations d). iv_status i = IPending}"
    using assms(1) by (simp add: fetched_def entry_of_def image_image)
  then have "iv_id ` ie_row ` set (fetched n d) = iv_id ` {i \<in> set (db_invitations d). iv_status i = IPending}" by simp
  then show "(\<lambda>e. iv_id (ie_row e)) ` set (fetched n d) = fst ` pending d"
    by (simp add: pending_def image_image)
  assume "e \<in> set (fetched n d)"
  then have "ie_row e \<in> {i \<in> set (db_invitations d). iv_status i = IPending}" unfolding rows [symmetric] by simp
  then have e: "ie_row e \<in> set (db_invitations d)" "iv_status (ie_row e) = IPending" by auto
  have "y = expiry_of (ie_row e)" if y: "(iv_id (ie_row e), y) \<in> pending d" for y
  proof -
    from y obtain i where i: "i \<in> set (db_invitations d)" "iv_id i = iv_id (ie_row e)" "y = expiry_of i"
      unfolding pending_def by (auto simp only: image_iff mem_Collect_eq prod.inject)
    have "inj_on iv_id (set (db_invitations d))" using assms(2) by (simp add: distinct_map)
    from inj_onD [OF this i(2,1) e(1)] i(3) show ?thesis by simp
  qed
  with e show "as_read (db_now d) e d" unfolding as_read_def by blast
qed

lemma pending_count:
  assumes "due_step d d'" "distinct (map iv_id (db_invitations d))"
  shows "length (filter (\<lambda>i. iv_status i = IPending) (db_invitations d')) \<le>
    length (filter (\<lambda>i. iv_status i = IPending) (db_invitations d))"
proof -
  have count: "length (filter (\<lambda>i. iv_status i = IPending) (db_invitations x)) = card (fst ` pending x)"
    if "distinct (map iv_id (db_invitations x))" for x
  proof -
    have "distinct (map iv_id (filter (\<lambda>i. iv_status i = IPending) (db_invitations x)))" using that by (rule distinct_map_filter)
    from distinct_card [OF this] show ?thesis by (simp add: pending_def image_image)
  qed
  have "distinct (map iv_id (db_invitations d'))" using assms by (simp add: due_step_def)
  moreover have "fst ` pending d' \<subseteq> fst ` pending d" using assms(1) by (auto simp: due_step_def)
  moreover have "finite (fst ` pending d)" by (simp add: pending_def)
  ultimately show ?thesis using count count [OF assms(2)] by (simp add: card_mono)
qed

text \<open>A batch that holds what is pending, before and after it is processed.\<close>

definition batch_read :: "timestamp \<Rightarrow> invitation_entry list \<Rightarrow> db \<Rightarrow> bool" where
  "batch_read t es d \<longleftrightarrow> fst ` pending d \<subseteq> (\<lambda>e. iv_id (ie_row e)) ` set es \<and> (\<forall>e\<in>set es. as_read t e d)"

definition batch_settled :: "timestamp \<Rightarrow> invitation_entry list \<Rightarrow> db \<Rightarrow> bool" where
  "batch_settled t es d \<longleftrightarrow> fst ` pending d \<subseteq> (\<lambda>e. iv_id (ie_row e)) ` set es \<and> (\<forall>e\<in>set es. settled t (iv_id (ie_row e)) d)"

lemma sweep_batch: "calmly due_step (batch_read t es) (process_all False es) (\<lambda>_. batch_settled t es)"
proof -
  have "stable due_step (\<lambda>d. fst ` pending d \<subseteq> (\<lambda>e. iv_id (ie_row e)) ` set es)"
    by (auto simp: stable_def due_step_def)
  from due_keep [OF this sweep_all] show ?thesis unfolding batch_read_def [abs_def] batch_settled_def [abs_def] .
qed

lemma batch_settled_none:
  assumes "batch_settled t es d"
  shows "filter (\<lambda>i. isProjectInvitationExpired i t) (db_invitations d) = []"
proof -
  have "t < expiry_of i" if "i \<in> set (db_invitations d)" "iv_status i = IPending" for i
  proof -
    from that have p: "(iv_id i, expiry_of i) \<in> pending d" by (auto simp: pending_def)
    then have "iv_id i \<in> fst ` pending d" by force
    with assms obtain e where "e \<in> set es" "iv_id i = iv_id (ie_row e)" by (auto simp: batch_settled_def)
    with assms p show ?thesis by (auto simp: batch_settled_def settled_def)
  qed
  then show ?thesis by (force simp: filter_empty_conv isProjectInvitationExpired_def)
qed

lemma sweep_fetch:
  assumes "distinct (map iv_id (db_invitations d))"
    and "length (filter (\<lambda>i. iv_status i = IPending) (db_invitations d)) \<le> n"
  shows "calmly due_step (due_step d) (fetchPendingInvitations n) (\<lambda>r. batch_read (db_now d) (rows_of r))"
  unfolding fetchPendingInvitations_def fetched_def [symmetric]
proof (rule due.calmly_call [OF stable_due(3)])
  fix x assume x: "due_step d x"
  then have "distinct (map iv_id (db_invitations x))" using assms(1) by (simp add: due_step_def)
  moreover have "length (filter (\<lambda>i. iv_status i = IPending) (db_invitations x)) \<le> n"
    using pending_count [OF x assms(1)] assms(2) by simp
  ultimately have "batch_read (db_now d) (fetched n x) x"
    using x sweep_fetches [of x n] by (auto simp: as_read_def due_step_def batch_read_def)
  then show "due_step x (snd (Inr (fetched n x), x)) \<and>
      batch_read (db_now d) (rows_of (fst (Inr (fetched n x), x))) (snd (Inr (fetched n x), x))"
    by (simp add: due.refl)
qed



section \<open>Two doors to one project\<close>

definition sample_session :: actor_context where
  "sample_session = actor_context_of None (auth_user_of ''owner-b'' None None [sample_agent ''b''])"

text \<open>An invitation past its expiry is refused to the agent that answers it over the API, and accepted from
  its operator on the page of the project, who becomes a member.\<close>

theorem operator_accepts_expired_invitation:
  "result (invitation_patch sample_answer ''p'' ''i'') [] (sample_project 500) =
     reply_error 409 ''Invitation has expired'' ''VALIDATION_ERROR'' \<and>
   result (respondToProjectInvitation (Some sample_session) ''p'' ''i'' AcceptInvitation) [] (sample_project 500) = Inr () \<and>
   map pm_agent_id (db_members (final (respondToProjectInvitation (Some sample_session) ''p'' ''i'' AcceptInvitation) []
     (sample_project 500))) = [''a'', ''b'']"
  by code_simp

section \<open>Sprints\<close>

text \<open>Where every sprint stands.\<close>

definition positions :: "db \<Rightarrow> ((string \<times> string) \<times> int) list" where
  "positions d = map (\<lambda>s. ((sp_id s, sp_project_id s), sp_position s)) (db_sprints d)"

definition same_positions :: "db \<Rightarrow> db \<Rightarrow> bool" where
  "same_positions d d' \<longleftrightarrow> positions d' = positions d"

interpretation fixed: side_tables same_positions positions
  by unfold_locales (simp_all add: same_positions_def positions_def)

lemma stable_positions: "stable same_positions (\<lambda>d. Q (positions d))"
  by (simp add: stable_def same_positions_def)

definition one_position :: "db \<Rightarrow> bool" where
  "one_position d \<longleftrightarrow> distinct (map fst (positions d))"

text \<open>The position a request asks for is the one the sprint has.\<close>

definition unmoved :: "driver \<Rightarrow> string \<Rightarrow> string \<Rightarrow> jvalue \<Rightarrow> db \<Rightarrow> bool" where
  "unmoved dv p i v d \<longleftrightarrow>
     (\<forall>n x y. v = Some x \<and> dv_int dv x = Some n \<and> ((i, p), y) \<in> set (positions d) \<longrightarrow> y = n)"

lemma stable_unmoved: "stable same_positions (unmoved dv p i v)" "stable same_positions one_position"
  unfolding unmoved_def one_position_def by (rule stable_positions)+

lemma fixed_update:
  assumes "unmoved dv p i (jprop (Some j) ''position'') d"
  shows "same_positions d (snd (shaped sh (q_update_sprint dv p i j) d))"
proof -
  have "sp_position (changed_sprint dv j now s) = sp_position s" if "s \<in> set (db_sprints d)" "sp_id s = i" "sp_project_id s = p" for s now
  proof -
    have "((i, p), sp_position s) \<in> set (positions d)" using that by (auto simp: positions_def)
    with assms show ?thesis by (auto simp: changed_sprint_def unmoved_def split: option.split)
  qed
  moreover have "sp_id (changed_sprint dv j now s) = sp_id s" "sp_project_id (changed_sprint dv j now s) = sp_project_id s" for s now
    by (simp_all add: changed_sprint_def)
  ultimately show ?thesis
    by (auto simp: same_positions_def positions_def q_update_sprint_def Let_def)
qed

lemma one_of:
  "distinct (map f xs) \<Longrightarrow> x \<in> set xs \<Longrightarrow> filter (\<lambda>y. f y = f x) xs = [x]"
  by (induction xs) (auto simp: filter_empty_conv image_iff)

definition read_sprint :: "string \<Rightarrow> string \<Rightarrow> sprint_row statement" where
  "read_sprint p i = shaped shape_single (q_select db_sprints (\<lambda>s. sp_id s = i \<and> sp_project_id s = p))"

lemma fixed_read:
  assumes "one_position d" "((i, p), y) \<in> set (positions d)"
  shows "\<exists>s. fst (read_sprint p i d) = Inr s \<and> y = sp_position s"
proof -
  from assms(2) obtain s where s: "s \<in> set (db_sprints d)" "sp_id s = i" "sp_project_id s = p" "y = sp_position s"
    by (auto simp: positions_def)
  have "distinct (map (\<lambda>s. (sp_id s, sp_project_id s)) (db_sprints d))"
    using assms(1) by (simp add: one_position_def positions_def comp_def)
  from one_of [OF this s(1)] s(2,3) have "filter (\<lambda>s. sp_id s = i \<and> sp_project_id s = p) (db_sprints d) = [s]" by simp
  then show ?thesis using s(4) by (simp add: read_sprint_def shape_single_def)
qed

lemma fixed_reorder:
  assumes "\<forall>n. dv_int dv (jint n) = Some n"
  shows "calmly same_positions one_position (reorder_sprints p i v) (\<lambda>r d. r = None \<longrightarrow> unmoved dv p i v d)"
proof (cases "v = None")
  case True
  then show ?thesis unfolding reorder_sprints_def by simp (rule fixed.calmly_return, simp add: unmoved_def)
next
  case False
  let ?at = "\<lambda>r d. \<forall>y. ((i, p), y) \<in> set (positions d) \<longrightarrow> (\<exists>s. r = Inr s \<and> y = sp_position s)"
  have read: "calmly same_positions one_position (call (read_sprint p i)) ?at"
    by (rule fixed.calmly_call [OF stable_unmoved(2)]) (use fixed_read in \<open>auto simp: fixed.refl read_sprint_def\<close>)
  have rpc: "calmly same_positions P (call rpc_shift_sprint_positions) (\<lambda>r _. \<exists>e. r = Inl e)" if "stable same_positions P" for P
    by (rule fixed.calmly_call [OF that]) (simp add: rpc_shift_sprint_positions_def fixed.refl)
  have "calmly same_positions (?at r) (case data_of r of None \<Rightarrow> State_Monad.return None
      | Some s \<Rightarrow> if v = Some (jint (sp_position s)) then State_Monad.return None
          else do { x \<leftarrow> call rpc_shift_sprint_positions;
            State_Monad.return (case x of Inl _ \<Rightarrow> Some (reply_error 500 ''Failed to reorder sprint positions'' ''REORDER_ERROR'')
              | Inr _ \<Rightarrow> None) })
      (\<lambda>r d. r = None \<longrightarrow> unmoved dv p i v d)" for r
  proof (cases r)
    case (Inr s)
    show ?thesis
    proof (cases "v = Some (jint (sp_position s))")
      case True
      with Inr assms show ?thesis by simp (rule fixed.calmly_return, auto simp: unmoved_def)
    next
      case False
      have "stable same_positions (?at r)" by (rule stable_positions)
      from rpc [OF this] False Inr show ?thesis
        by simp (rule fixed.calmly_bind, assumption, rule fixed.calmly_return, auto)
    qed
  qed (simp, rule fixed.calmly_return, auto simp: unmoved_def)
  then show ?thesis
    unfolding reorder_sprints_def read_sprint_def [symmetric] if_not_P [OF False] by (rule fixed.calmly_bind [OF read])
qed

lemma fixed_calm:
  "calmly same_positions P (auditLog a b c e f g) (\<lambda>_. P)"
  "calmly same_positions P (announce_sprint ev q x y) (\<lambda>_. P)"
  "calmly same_positions P (getProjectAccess q a) (\<lambda>_. P)" if "stable same_positions P"
proof -
  have aside: "calmly same_positions P (call q) (\<lambda>_. P)" if "\<And>d. positions (snd (q d)) = positions d" for q
  proof (rule fixed.calmly_call [OF \<open>stable same_positions P\<close>])
    fix d assume "P d"
    moreover have "same_positions d (snd (q d))" using that by (simp add: same_positions_def)
    ultimately show "same_positions d (snd (q d)) \<and> P (snd (q d))"
      using \<open>stable same_positions P\<close> unfolding stable_def by blast
  qed
  show "calmly same_positions P (auditLog a b c e f g) (\<lambda>_. P)"
    unfolding auditLog_def
    by (intro fixed.calmly_bind [where Q = "\<lambda>_. P"] aside fixed.calmly_return fixed.calmly_clock)
      (simp_all add: q_insert_def positions_def)
  show "calmly same_positions P (announce_sprint ev q x y) (\<lambda>_. P)"
    unfolding announce_sprint_def getProjectMemberAgentIds_def
    by (intro fixed.calmly_bind [where Q = "\<lambda>_. P"] aside fixed.calmly_return fixed.calmly_deliver) simp_all
  show "calmly same_positions P (getProjectAccess q a) (\<lambda>_. P)"
    unfolding getProjectAccess_def
    by (intro fixed.calmly_bind [where Q = "\<lambda>_. P"] aside fixed.calmly_return fixed.calmly_option) simp_all
qed

lemma fixed_patch:
  assumes "\<forall>n. dv_int dv (jint n) = Some n"
  shows "calmly same_positions one_position (sprint_patch dv req p i) (\<lambda>_ _. True)"
proof -
  note stable = stable_True
  let ?v = "\<lambda>j. jprop (Some j) ''position''"
  have update: "calmly same_positions (unmoved dv p i (?v j)) (call (shaped shape_single (q_update_sprint dv p i j))) (\<lambda>_ _. True)" for j
    by (rule fixed.calmly_call [OF stable_unmoved(1)]) (use fixed_update [of dv p i j _ shape_single] in simp)
  have noted: "calmly same_positions (\<lambda>_. True) (do { auditLog a b c e f g; announce_sprint ev q x y; State_Monad.return z }) (\<lambda>_ _. True)"
    for a b c e f g ev q x y and z :: "sprint_row response"
    by (intro fixed.calmly_bind [where Q = "\<lambda>_ _. True"] fixed_calm stable fixed.calmly_return) simp
  have written: "calmly same_positions (\<lambda>d. r = None \<longrightarrow> unmoved dv p i (?v j) d)
      (case r of Some answer \<Rightarrow> State_Monad.return answer | None \<Rightarrow> do {
         x \<leftarrow> call (shaped shape_single (q_update_sprint dv p i j));
         case x of Inl _ \<Rightarrow> State_Monad.return m
         | Inr sprint \<Rightarrow> do { auditLog a b c e (f sprint) g; announce_sprint ev q h (y sprint); State_Monad.return (Answer 200 sprint) } })
      (\<lambda>_ _. True)" for r j m a b c e f g ev q h y
  proof (cases r)
    case None
    then show ?thesis
      by simp (intro fixed.calmly_bind [OF update] fixed.calmly_sum noted fixed.calmly_return; simp)
  qed (simp, rule fixed.calmly_return, simp)
  have parsed: "calmly same_positions one_position (sprint_patch_parsed dv req p i j) (\<lambda>_ _. True)" for j
    unfolding sprint_patch_parsed_def
    by (intro fixed.calmly_if fixed.calmly_return fixed.calmly_bind [OF fixed_reorder [OF assms]] written) simp_all
  have body: "calmly same_positions one_position (case rq_body req of
         Parsed j \<Rightarrow> sprint_patch_parsed dv req p i j
       | _ \<Rightarrow> State_Monad.return (reply_error 400 ''Invalid JSON body'' ''INVALID_BODY'')) (\<lambda>_ _. True)"
    by (cases "rq_body req") (auto intro: parsed fixed.calmly_return)
  show ?thesis
    unfolding sprint_patch_def writing_project_def
    by (intro fixed.calmly_bind [OF fixed_calm(3) [OF stable_unmoved(2)]] fixed.calmly_option fixed.calmly_if fixed.calmly_return body) simp_all
qed

text \<open>No request moves a sprint: while the database answers, a PATCH leaves every sprint at its position,
  whatever position it asks for. (The function that shifts the other sprints does not exist.)\<close>

theorem sprint_is_never_moved:
  assumes "calm same_positions env" "\<forall>n. dv_int dv (jint n) = Some n" "distinct (map sp_id (db_sprints d))"
  shows "positions (final (sprint_patch dv req p i) env d) = positions d"
proof -
  have "one_position d"
    using assms(3) by (auto simp: one_position_def positions_def comp_def distinct_map inj_on_def)
  from calmly_run(1) [OF fixed_patch [OF assms(2)] assms(1) this] show ?thesis by (simp add: same_positions_def)
qed

definition counting_driver :: driver where
  "counting_driver = \<lparr>dv_text = (\<lambda>_. ''text''), dv_list = (\<lambda>_. None),
     dv_int = (\<lambda>j. case j of JNum (Fin r) \<Rightarrow> Some \<lfloor>r\<rfloor> | _ \<Rightarrow> None)\<rparr>"

definition sample_move :: request where
  "sample_move = sample_request ''a'' (Parsed (JObj [(''position'', JNum (Fin 1))]))"

theorem sprint_is_never_moved_witness:
  "positions (final (sprint_patch counting_driver sample_move ''p'' ''s'') [] (sample_project 500)) = positions (sample_project 500)"
  by (rule sprint_is_never_moved [OF calm_Nil])
    (simp_all add: counting_driver_def jint_def sample_project_def sample_sprint_def)

section \<open>A project nobody belongs to\<close>

text \<open>A request for a project whose \<open>members\<close> are no array is answered with 400, and the project is there
  all the same, without any member.\<close>

theorem refused_request_leaves_project:
  assumes "rq_body req = Parsed j" "\<not> falsy (jprop (Some j) ''title'')"
    and "jprop (Some j) ''members'' = Some v" "\<not> (\<exists>xs. v = JArr xs)"
    and "db_ids d (db_next d) \<notin> pj_id ` set (db_projects d)"
  shows "result (projects_post dv req) [] d = reply_error 400 ''members must be an array of agent IDs'' ''VALIDATION_ERROR'' \<and>
    (\<exists>p. db_projects (final (projects_post dv req) [] d) = db_projects d @ [p] \<and> pj_id p = db_ids d (db_next d) \<and>
       db_members (final (projects_post dv req) [] d) = db_members d)"
proof -
  have j: "j \<noteq> JNull" using assms(2) by (auto simp: falsy_def)
  have none: "invited_ids a (Some v) = None" for a using assms(4) by (cases v) (auto simp: invited_ids_def)
  have clash: "\<not> (\<exists>p\<in>set (db_projects d). db_ids d (db_next d) = pj_id p)" using assms(5) by auto
  show ?thesis
    using assms(1-3) j none clash
    by (simp add: projects_post_def result_def final_def run_def State_Monad.bind_def State_Monad.return_def call_def shaped_def
      q_insert_project_def with_fresh_def q_insert_def shape_single_def Let_def)
qed

definition sample_careless :: request where
  "sample_careless = sample_request ''a'' (Parsed (JObj [(''title'', JStr ''New''), (''members'', JStr ''b'')]))"

theorem refused_request_leaves_project_witness:
  "result (projects_post sample_driver sample_careless) [] (sample_project 500) =
     reply_error 400 ''members must be an array of agent IDs'' ''VALIDATION_ERROR'' \<and>
   (\<exists>p. db_projects (final (projects_post sample_driver sample_careless) [] (sample_project 500)) = db_projects (sample_project 500) @ [p] \<and>
      pj_id p = db_ids (sample_project 500) (db_next (sample_project 500)) \<and>
      db_members (final (projects_post sample_driver sample_careless) [] (sample_project 500)) = db_members (sample_project 500))"
proof (rule refused_request_leaves_project [where j = "JObj [(''title'', JStr ''New''), (''members'', JStr ''b'')]" and v = "JStr ''b''"])
  show "rq_body sample_careless = Parsed (JObj [(''title'', JStr ''New''), (''members'', JStr ''b'')])"
    by (simp add: sample_careless_def sample_request_def)
  show "db_ids (sample_project 500) (db_next (sample_project 500)) \<notin> pj_id ` set (db_projects (sample_project 500))"
    by code_simp
qed (simp_all add: falsy_def)

end
