(* ===== verification/UrlValidator.thy ===== *)
theory UrlValidator
  imports Prelude
begin

text \<open>
  Which URLs a webhook may be sent to (\<open>src/lib/url-validator.ts\<close>): the static check of a URL and the
  check of the addresses its host resolves to. Parameters: \<open>parse_url\<close> is the platform's \<open>new URL(s)\<close>
  with its \<open>protocol\<close> and \<open>hostname\<close>, \<open>resolve4\<close> and \<open>resolve6\<close> its DNS resolver, which answers no
  address where it fails.
\<close>

section \<open>Model\<close>

record parsed_url =
  url_protocol :: string
  url_hostname :: string

text \<open>The pattern of a dotted quad, with the numbers of its first two groups.\<close>

definition is_octet :: "string \<Rightarrow> bool" where
  "is_octet p \<longleftrightarrow> 1 \<le> length p \<and> length p \<le> 3 \<and> list_all is_digit p"

definition v4_match :: "string \<Rightarrow> (int \<times> int) option" where
  "v4_match s =
     (let ps = split_at CHR ''.'' s
      in if length ps = 4 \<and> list_all is_octet ps then Some (decimal_value (ps ! 0), decimal_value (ps ! 1)) else None)"

definition private_v6 :: "string \<Rightarrow> bool" where
  "private_v6 s \<longleftrightarrow> starts_with s ''fc'' \<or> starts_with s ''fd'' \<or> starts_with s ''fe80''"

definition isPrivateIP :: "string \<Rightarrow> bool" where
  "isPrivateIP ip =
     (case v4_match ip of
        Some (a, b) \<Rightarrow>
          if a = 10 then True
          else if a = 172 \<and> b \<ge> 16 \<and> b \<le> 31 then True
          else if a = 192 \<and> b = 168 then True
          else if a = 169 \<and> b = 254 then True
          else if a = 127 then True
          else if a = 0 then True
          else if a \<ge> 224 then True
          else False
      | None \<Rightarrow> to_lower ip = ''::1'' \<or> private_v6 (to_lower ip))"

definition ends_with :: "string \<Rightarrow> string \<Rightarrow> bool" where
  "ends_with s suffix \<longleftrightarrow> starts_with (rev s) (rev suffix)"

text \<open>The refusal of a dotted quad; \<open>None\<close> is none.\<close>

definition v4_refusal :: "int \<Rightarrow> int \<Rightarrow> string option" where
  "v4_refusal a b =
     (if a = 10 then Some ''Webhook URL cannot target private IP ranges''
      else if a = 172 \<and> b \<ge> 16 \<and> b \<le> 31 then Some ''Webhook URL cannot target private IP ranges''
      else if a = 192 \<and> b = 168 then Some ''Webhook URL cannot target private IP ranges''
      else if a = 169 \<and> b = 254 then Some ''Webhook URL cannot target link-local addresses''
      else if a = 127 then Some ''Webhook URL cannot target loopback addresses''
      else if a = 0 then Some ''Webhook URL cannot target reserved addresses''
      else if a \<ge> 224 \<and> a \<le> 239 then Some ''Webhook URL cannot target multicast addresses''
      else if a \<ge> 240 then Some ''Webhook URL cannot target reserved addresses''
      else None)"

text \<open>The refusal of a bracketed address: \<open>hostname.slice(1, -1)\<close>, in lower case already.\<close>

definition v6_refusal :: "string \<Rightarrow> string option" where
  "v6_refusal hostname =
     (let inner = to_lower (butlast (tl hostname))
      in if inner = ''::1'' \<or> inner = ''0:0:0:0:0:0:0:1'' then Some ''Webhook URL cannot target loopback addresses''
         else if inner = ''::'' \<or> inner = ''0:0:0:0:0:0:0:0'' then Some ''Webhook URL cannot target reserved addresses''
         else if private_v6 inner then Some ''Webhook URL cannot target private IPv6 ranges''
         else None)"

definition localhost_names :: "string list" where
  "localhost_names = [''localhost'', ''127.0.0.1'', ''::1'', ''0.0.0.0'']"

text \<open>\<open>{ valid: true }\<close> is \<open>None\<close>, otherwise the error.\<close>

definition validateWebhookUrl :: "(string \<Rightarrow> parsed_url option) \<Rightarrow> string \<Rightarrow> string option" where
  "validateWebhookUrl parse_url urlString =
     (case parse_url urlString of
        None \<Rightarrow> Some ''Invalid URL format''
      | Some url \<Rightarrow>
          if url_protocol url \<noteq> ''https:'' then Some ''Webhook URL must use HTTPS''
          else
            let hostname = to_lower (url_hostname url)
            in if hostname \<in> set localhost_names \<or> ends_with hostname ''.local'' \<or> ends_with hostname ''.localhost'' then
                 Some ''Webhook URL cannot target localhost''
               else
                 case (case v4_match hostname of Some (a, b) \<Rightarrow> v4_refusal a b | None \<Rightarrow> None) of
                   Some e \<Rightarrow> Some e
                 | None \<Rightarrow>
                     case (if starts_with hostname ''['' then v6_refusal hostname else None) of
                       Some e \<Rightarrow> Some e
                     | None \<Rightarrow>
                         if hostname = ''169.254.169.254'' \<or> hostname = ''metadata.google.internal'' then
                           Some ''Webhook URL cannot target cloud metadata endpoints''
                         else None)"

definition resolveAndValidateHost ::
  "(string \<Rightarrow> parsed_url option) \<Rightarrow> (string \<Rightarrow> string list) \<Rightarrow> (string \<Rightarrow> string list) \<Rightarrow> string \<Rightarrow> string option" where
  "resolveAndValidateHost parse_url resolve4 resolve6 urlString =
     (case parse_url urlString of
        None \<Rightarrow> Some ''Invalid URL''
      | Some url \<Rightarrow>
          case validateWebhookUrl parse_url urlString of
            Some e \<Rightarrow> Some e
          | None \<Rightarrow>
              let allAddresses = resolve4 (url_hostname url) @ resolve6 (url_hostname url)
              in if allAddresses = [] then Some ''Could not resolve hostname''
                 else map_option (\<lambda>addr. ''Resolved IP '' @ addr @ '' is in a private/reserved range'')
                   (find isPrivateIP allAddresses))"

section \<open>Properties\<close>

lemma v4_refusal_iff: "v4_match s = Some (a, b) \<Longrightarrow> v4_refusal a b \<noteq> None \<longleftrightarrow> isPrivateIP s"
  by (auto simp: v4_refusal_def isPrivateIP_def)

lemma lower_char_id: "c \<noteq> CHR ''.'' \<Longrightarrow> lower_char c \<noteq> CHR ''.''"
  by (auto simp: lower_char_def Let_def char_of_eq_iff take_bit_eq_mod split: if_splits)

text \<open>A quad that is refused by name is private too.\<close>

lemma localhost_private: "hostname \<in> {''127.0.0.1'', ''0.0.0.0'', ''169.254.169.254''} \<Longrightarrow> isPrivateIP hostname"
  by (elim insertE emptyE; simp only:) (code_simp+)

lemma quad_no_dash: "v4_match s = Some q \<Longrightarrow> list_all (\<lambda>c. is_digit c \<or> c = CHR ''.'') s"
proof -
  have split: "list_all (\<lambda>c. is_digit c \<or> c = x) s" if "list_all (list_all is_digit) (split_at x s)" for x s
    using that
  proof (induction s)
    case (Cons c cs)
    have "split_at x cs \<noteq> []" by (cases cs) (simp_all add: Let_def)
    then show ?case using Cons by (cases "split_at x cs") (auto simp: Let_def split: if_splits)
  qed simp
  assume "v4_match s = Some q"
  then have "list_all is_octet (split_at CHR ''.'' s)" by (auto simp: v4_match_def Let_def split: if_splits)
  then have "list_all (list_all is_digit) (split_at CHR ''.'' s)" by (auto simp: list_all_iff is_octet_def)
  then show ?thesis by (rule split)
qed

text \<open>For a host written as a dotted quad the static check of an HTTPS URL refuses exactly the addresses that
  the check of resolved addresses takes for private.\<close>
theorem quad_checks_agree:
  assumes "parse_url u = Some url" "url_protocol url = ''https:''" "v4_match (to_lower (url_hostname url)) = Some q"
  shows "validateWebhookUrl parse_url u = None \<longleftrightarrow> \<not> isPrivateIP (to_lower (url_hostname url))"
proof -
  let ?h = "to_lower (url_hostname url)"
  obtain a b where q: "v4_match ?h = Some (a, b)" using assms(3) by (cases q) auto
  have chars: "list_all (\<lambda>c. is_digit c \<or> c = CHR ''.'') ?h" by (rule quad_no_dash [OF q])
  have letters: "\<not> starts_with ?h ''[''" "?h \<noteq> ''localhost''" "?h \<noteq> ''::1''" "?h \<noteq> ''metadata.google.internal''"
    "\<not> ends_with ?h ''.local''" "\<not> ends_with ?h ''.localhost''"
    using chars by (auto simp: starts_with_iff ends_with_def is_digit_def list_all_iff)
  have named: "isPrivateIP ?h" if "?h \<in> {''127.0.0.1'', ''0.0.0.0'', ''169.254.169.254''}" using that by (rule localhost_private)
  show ?thesis
    using assms(1,2) letters named v4_refusal_iff [OF q]
    by (auto simp: validateWebhookUrl_def localhost_names_def Let_def q split: option.splits)
qed

theorem quad_checks_agree_witness:
  "validateWebhookUrl (\<lambda>_. Some \<lparr>url_protocol = ''https:'', url_hostname = ''172.31.0.9''\<rparr>) [] \<noteq> None"
proof -
  have "v4_match (to_lower ''172.31.0.9'') = Some (172, 31)" "isPrivateIP (to_lower ''172.31.0.9'')" by code_simp+
  then show ?thesis
    using quad_checks_agree [of "\<lambda>_. Some \<lparr>url_protocol = ''https:'', url_hostname = ''172.31.0.9''\<rparr>" "[]"
        "\<lparr>url_protocol = ''https:'', url_hostname = ''172.31.0.9''\<rparr>" "(172, 31)"] by simp
qed



text \<open>The loopback address in its IPv4-mapped form passes both checks: the static one as the host of a URL,
  and the one at delivery as an address a host resolves to.\<close>
theorem mapped_loopback_accepted:
  "validateWebhookUrl (\<lambda>_. Some \<lparr>url_protocol = ''https:'', url_hostname = ''[::ffff:7f00:1]''\<rparr>) [] = None \<and>
   resolveAndValidateHost (\<lambda>_. Some \<lparr>url_protocol = ''https:'', url_hostname = ''example.org''\<rparr>)
     (\<lambda>_. []) (\<lambda>_. [''::ffff:127.0.0.1'']) [] = None"
  by code_simp

end
