(* ===== verification/Webhooks.thy ===== *)
theory Webhooks
  imports ApiHelpers JsonText UrlValidator CalmRuns
begin

text \<open>
  The delivery of webhooks: the first attempt (\<open>deliverWebhooks\<close> of \<open>src/lib/webhooks.ts\<close> with the
  helpers of \<open>src/lib/webhook-helpers.ts\<close>) and the worker that retries the failed ones
  (\<open>scripts/webhook-retry-worker.ts\<close>). The deliveries of one event, which the code starts together, run
  one after another here; other requests come in between all the same. A delivery is sent by \<open>network\<close>,
  which records the request and asks the parameter \<open>send\<close> for the status of the answer; \<open>None\<close> is a
  network error. The security log is not modelled.
\<close>

section \<open>Model\<close>

text \<open>What lies outside: the URL parser, the DNS resolver, the network and the keyed hash.\<close>

record internet =
  in_parse_url :: "string \<Rightarrow> parsed_url option"
  in_resolve4 :: "string \<Rightarrow> string list"
  in_resolve6 :: "string \<Rightarrow> string list"
  in_send :: "sent_request \<Rightarrow> int option"
  in_hmac :: "string \<Rightarrow> string \<Rightarrow> string"

definition host_refusal :: "internet \<Rightarrow> string \<Rightarrow> string option" where
  "host_refusal w url = resolveAndValidateHost (in_parse_url w) (in_resolve4 w) (in_resolve6 w) url"

definition MAX_RETRIES :: int where
  "MAX_RETRIES = 5"

definition RETRY_DELAY_MS :: int where
  "RETRY_DELAY_MS = 5000"

subsection \<open>Helpers\<close>

text \<open>A request and the result of sending it; the answer to a redirect is not followed.\<close>

definition network :: "internet \<Rightarrow> sent_request \<Rightarrow> int option prog" where
  "network w req = memory (\<lambda>d. (in_send w req, db_sent_update (\<lambda>rs. rs @ [req]) d))"

record send_result =
  sd_ok :: bool
  sd_responseStatus :: int
  sd_reason :: "string option"

definition sendWebhookRequest :: "internet \<Rightarrow> sent_request \<Rightarrow> send_result prog" where
  "sendWebhookRequest w params = do {
     resp \<leftarrow> network w params;
     State_Monad.return (case resp of
         None \<Rightarrow> \<lparr>sd_ok = False, sd_responseStatus = 0, sd_reason = Some ''Network error''\<rparr>
       | Some status \<Rightarrow>
           if status \<ge> 300 \<and> status < 400 then
             \<lparr>sd_ok = False, sd_responseStatus = status, sd_reason = Some (''Redirect '' @ show_int status)\<rparr>
           else if status \<ge> 200 \<and> status < 300 then \<lparr>sd_ok = True, sd_responseStatus = status, sd_reason = None\<rparr>
           else \<lparr>sd_ok = False, sd_responseStatus = status, sd_reason = Some (''HTTP '' @ show_int status)\<rparr>)
   }"

definition update_delivery :: "string \<Rightarrow> (delivery_row \<Rightarrow> delivery_row) \<Rightarrow> delivery_row list db_result prog" where
  "update_delivery i f = call (q_update db_deliveries db_deliveries_update (\<lambda>r. dl_id r = i) f)"

definition update_webhook :: "string \<Rightarrow> (webhook_row \<Rightarrow> webhook_row) \<Rightarrow> webhook_row list db_result prog" where
  "update_webhook i f = call (q_update db_webhooks db_webhooks_update (\<lambda>r. wh_id r = i) f)"

text \<open>\<open>status || null\<close>.\<close>

definition status_or_null :: "int \<Rightarrow> int option" where
  "status_or_null status = (if status = 0 then None else Some status)"

definition incrementFailure :: "webhook_row \<Rightarrow> unit prog" where
  "incrementFailure wh = do {
     now \<leftarrow> clock;
     _ \<leftarrow> update_webhook (wh_id wh) (\<lambda>r. r\<lparr>wh_failure_count := wh_failure_count wh + 1,
       wh_is_active := \<not> wh_failure_count wh + 1 \<ge> 10, wh_updated_at := now\<rparr>);
     State_Monad.return ()
   }"

definition resetWebhookFailureState :: "string \<Rightarrow> unit prog" where
  "resetWebhookFailureState webhookId = do {
     now \<leftarrow> clock;
     _ \<leftarrow> update_webhook webhookId (\<lambda>r. r\<lparr>wh_last_delivery_at := Some now, wh_failure_count := 0\<rparr>);
     State_Monad.return ()
   }"

definition markDeliverySuccess :: "string \<Rightarrow> int \<Rightarrow> unit prog" where
  "markDeliverySuccess deliveryId responseStatus = do {
     now \<leftarrow> clock;
     _ \<leftarrow> update_delivery deliveryId (\<lambda>r. r\<lparr>dl_status := DSuccess, dl_response_status := Some responseStatus,
       dl_delivered_at := Some now\<rparr>);
     State_Monad.return ()
   }"

definition markDeliveryFailed :: "string \<Rightarrow> int \<Rightarrow> unit prog" where
  "markDeliveryFailed deliveryId responseStatus = do {
     now \<leftarrow> clock;
     _ \<leftarrow> update_delivery deliveryId (\<lambda>r. r\<lparr>dl_status := DFailed, dl_response_status := status_or_null responseStatus,
       dl_delivered_at := Some now\<rparr>);
     State_Monad.return ()
   }"

subsection \<open>The first attempt\<close>

text \<open>An event as it is sent: its name, its time, and the whole of it as JSON.\<close>

record outgoing_event =
  oe_event :: string
  oe_timestamp :: string
  oe_json :: json

text \<open>The subscribed webhooks, and those with the legacy event of contracts, each once.\<close>

definition subscribed :: "string list \<Rightarrow> string \<Rightarrow> webhook_row \<Rightarrow> bool" where
  "subscribed targetAgentIds event wh \<longleftrightarrow>
     wh_agent_id wh \<in> set targetAgentIds \<and> wh_is_active wh \<and> event \<in> set (wh_events wh)"

fun merge_by_id :: "webhook_row list \<Rightarrow> webhook_row list \<Rightarrow> webhook_row list" where
  "merge_by_id acc [] = acc"
| "merge_by_id acc (wh # whs) =
     merge_by_id (if wh_id wh \<in> wh_id ` set acc then map (\<lambda>a. if wh_id a = wh_id wh then wh else a) acc else acc @ [wh]) whs"

definition webhooks_for :: "string list \<Rightarrow> string \<Rightarrow> webhook_row list prog" where
  "webhooks_for targetAgentIds event = do {
     webhooks \<leftarrow> call (q_select db_webhooks (subscribed targetAgentIds event));
     legacy \<leftarrow> (if starts_with event ''contract.'' then do {
         r \<leftarrow> call (q_select db_webhooks (subscribed targetAgentIds ''contract_state''));
         State_Monad.return (rows_of r)
       } else State_Monad.return []);
     State_Monad.return (merge_by_id [] (rows_of webhooks @ legacy))
   }"

definition q_insert_delivery :: "webhook_row \<Rightarrow> outgoing_event \<Rightarrow> delivery_row list statement" where
  "q_insert_delivery wh event = with_fresh (\<lambda>fresh d.
     q_insert db_deliveries db_deliveries_update (\<lambda>n r. dl_id n = dl_id r)
       [\<lparr>dl_id = fresh, dl_webhook_id = wh_id wh, dl_event = oe_event event, dl_status = DPending, dl_attempts = 0,
         dl_max_retries = MAX_RETRIES, dl_retry_delay_ms = RETRY_DELAY_MS, dl_last_retry_at = None,
         dl_response_status = None, dl_delivered_at = None, dl_payload = JObj [(''event'', oe_json event)],
         dl_created_at = db_now d\<rparr>] d)"

definition first_attempt :: "internet \<Rightarrow> webhook_row \<Rightarrow> outgoing_event \<Rightarrow> string \<Rightarrow> unit prog" where
  "first_attempt w wh event deliveryId = do {
     _ \<leftarrow> update_delivery deliveryId (\<lambda>r. r\<lparr>dl_status := DPending, dl_attempts := 1\<rparr>);
     let payload = stringify (oe_json event);
     result \<leftarrow> sendWebhookRequest w \<lparr>sr_delivery_id = deliveryId, sr_url = wh_url wh, sr_event = oe_event event,
       sr_timestamp = oe_timestamp event, sr_signature = in_hmac w (wh_secret wh) payload, sr_body = payload\<rparr>;
     if sd_ok result then do {
       markDeliverySuccess deliveryId (sd_responseStatus result);
       resetWebhookFailureState (wh_id wh)
     }
     else do {
       _ \<leftarrow> update_delivery deliveryId (\<lambda>r. r\<lparr>dl_status := DPendingRetry,
         dl_response_status := status_or_null (sd_responseStatus result), dl_last_retry_at := None\<rparr>);
       State_Monad.return ()
     }
   }"

definition deliver_one :: "internet \<Rightarrow> outgoing_event \<Rightarrow> webhook_row \<Rightarrow> unit prog" where
  "deliver_one w event wh = do {
     inserted \<leftarrow> call (q_insert_delivery wh event);
     case inserted of
       Inr (delivery # _) \<Rightarrow>
         if host_refusal w (wh_url wh) \<noteq> None then do {
           _ \<leftarrow> update_delivery (dl_id delivery) (\<lambda>r. r\<lparr>dl_status := DPendingRetry, dl_attempts := 1,
             dl_response_status := None, dl_last_retry_at := None\<rparr>);
           State_Monad.return ()
         }
         else first_attempt w wh event (dl_id delivery)
     | _ \<Rightarrow> State_Monad.return ()
   }"

fun each :: "('a \<Rightarrow> unit prog) \<Rightarrow> 'a list \<Rightarrow> unit prog" where
  "each f [] = State_Monad.return ()"
| "each f (x # xs) = do { f x; each f xs }"

definition deliverWebhooks :: "internet \<Rightarrow> string list \<Rightarrow> outgoing_event \<Rightarrow> unit prog" where
  "deliverWebhooks w targetAgentIds event = do {
     allWebhooks \<leftarrow> webhooks_for targetAgentIds (oe_event event);
     each (deliver_one w event) allWebhooks
   }"

subsection \<open>The retry worker\<close>

definition MAX_DELIVERIES_PER_CYCLE :: nat where
  "MAX_DELIVERIES_PER_CYCLE = 10"

definition shouldRetry :: "timestamp \<Rightarrow> delivery_row \<Rightarrow> bool" where
  "shouldRetry now d =
     (if dl_attempts d \<ge> dl_max_retries d then False
      else case dl_last_retry_at d of
        None \<Rightarrow> True
      | Some t \<Rightarrow> now - t \<ge> dl_retry_delay_ms d)"

text \<open>Deliveries under retry, those never retried first and then the longest waiting, with their webhooks.\<close>

definition oldest_first :: "delivery_row list \<Rightarrow> delivery_row list" where
  "oldest_first ds = filter (\<lambda>d. dl_last_retry_at d = None) ds @
     sort_key (\<lambda>d. the (dl_last_retry_at d)) (filter (\<lambda>d. dl_last_retry_at d \<noteq> None) ds)"

definition q_pending :: "(delivery_row \<times> webhook_row option) list statement" where
  "q_pending d = (Inr (map (\<lambda>r. (r, find (\<lambda>wh. wh_id wh = dl_webhook_id r) (db_webhooks d)))
     (take MAX_DELIVERIES_PER_CYCLE (oldest_first (filter (\<lambda>r. dl_status r = DPendingRetry \<or> dl_status r = DRetrying)
        (db_deliveries d))))), d)"

definition fetchPending :: "(string + (delivery_row \<times> webhook_row option) list) prog" where
  "fetchPending = do {
     r \<leftarrow> call q_pending;
     case r of
       Inl e \<Rightarrow> State_Monad.return (Inl (de_message e))
     | Inr pending \<Rightarrow> do {
         now \<leftarrow> clock;
         State_Monad.return (Inr (filter (\<lambda>p. shouldRetry now (fst p)) pending))
       }
   }"

text \<open>What the stored payload says: the event, its time as header text, and its name.\<close>

definition stored_event :: "delivery_row \<Rightarrow> jvalue" where
  "stored_event d = jprop (Some (dl_payload d)) ''event''"

definition event_name :: "delivery_row \<Rightarrow> string" where
  "event_name d = (let n = jprop (stored_event d) ''event'' in if falsy n then dl_event d else js_string (the n))"

definition url_of :: "delivery_row \<Rightarrow> webhook_row \<Rightarrow> string option" where
  "url_of d wh = (if wh_url wh \<noteq> [] then Some (wh_url wh)
     else let u = jprop (Some (dl_payload d)) ''url'' in if falsy u then None else Some (js_string (the u)))"

definition complete_payload :: "delivery_row \<Rightarrow> webhook_row \<Rightarrow> bool" where
  "complete_payload d wh \<longleftrightarrow> url_of d wh \<noteq> None \<and> \<not> falsy (jprop (stored_event d) ''timestamp'') \<and> \<not> falsy (stored_event d)"

definition claim_delivery :: "delivery_row \<Rightarrow> timestamp \<Rightarrow> delivery_row option db_result prog" where
  "claim_delivery d now = call (shaped shape_maybe (q_update db_deliveries db_deliveries_update
     (\<lambda>r. dl_id r = dl_id d \<and> dl_status r = DPendingRetry \<and> dl_attempts r = dl_attempts d)
     (\<lambda>r. r\<lparr>dl_status := DRetrying, dl_attempts := dl_attempts d + 1, dl_last_retry_at := Some now\<rparr>)))"

definition retry_request :: "internet \<Rightarrow> delivery_row \<Rightarrow> webhook_row \<Rightarrow> sent_request" where
  "retry_request w d wh =
     (let payload = stringify (the (stored_event d))
      in \<lparr>sr_delivery_id = dl_id d, sr_url = the (url_of d wh), sr_event = event_name d,
          sr_timestamp = js_string (the (jprop (stored_event d) ''timestamp'')),
          sr_signature = in_hmac w (wh_secret wh) payload, sr_body = payload\<rparr>)"

definition retried :: "internet \<Rightarrow> delivery_row \<Rightarrow> webhook_row \<Rightarrow> timestamp \<Rightarrow> unit prog" where
  "retried w d wh now = do {
     result \<leftarrow> sendWebhookRequest w (retry_request w d wh);
     if sd_ok result then do {
       markDeliverySuccess (dl_id d) (sd_responseStatus result);
       resetWebhookFailureState (dl_webhook_id d)
     }
     else if dl_attempts d + 1 \<ge> dl_max_retries d then do {
       markDeliveryFailed (dl_id d) (sd_responseStatus result);
       incrementFailure wh
     }
     else do {
       _ \<leftarrow> update_delivery (dl_id d) (\<lambda>r. r\<lparr>dl_status := DPendingRetry,
         dl_response_status := status_or_null (sd_responseStatus result), dl_last_retry_at := Some now\<rparr>);
       State_Monad.return ()
     }
   }"

definition processDelivery :: "internet \<Rightarrow> delivery_row \<times> webhook_row option \<Rightarrow> unit prog" where
  "processDelivery w p =
     (case p of (d, webhook) \<Rightarrow>
        case webhook of
          None \<Rightarrow> markDeliveryFailed (dl_id d) 0
        | Some wh \<Rightarrow>
            if \<not> complete_payload d wh then do {
              markDeliveryFailed (dl_id d) 0;
              incrementFailure wh
            }
            else do {
              now \<leftarrow> clock;
              claimed \<leftarrow> claim_delivery d now;
              case maybe_of claimed of
                None \<Rightarrow> State_Monad.return ()
              | Some _ \<Rightarrow> retried w d wh now
            })"

definition runCycle :: "internet \<Rightarrow> unit prog" where
  "runCycle w = do {
     pending \<leftarrow> fetchPending;
     case pending of
       Inl _ \<Rightarrow> State_Monad.return ()
     | Inr deliveries \<Rightarrow> each (processDelivery w) deliveries
   }"

section \<open>Attempts\<close>

text \<open>A delivery is attempted five times at most, and its limit is never changed.\<close>

definition delivery_ok :: "delivery_row \<Rightarrow> bool" where
  "delivery_ok r \<longleftrightarrow> dl_max_retries r = MAX_RETRIES \<and> dl_attempts r \<le> MAX_RETRIES"

definition attempts_bounded :: "db \<Rightarrow> bool" where
  "attempts_bounded d \<longleftrightarrow> (\<forall>r\<in>set (db_deliveries d). delivery_ok r)"

interpretation attempts: rely_guarantee "inv_rel attempts_bounded"
  by (rule rely_guarantee_inv)

lemma attempts_update:
  assumes "\<And>r. P r \<Longrightarrow> delivery_ok r \<Longrightarrow> delivery_ok (f r)"
  shows "keeps (inv_rel attempts_bounded) (call (shaped sh (q_update db_deliveries db_deliveries_update P f)))"
  using assms by (intro attempts.keeps_call) (auto simp: inv_rel_def attempts_bounded_def)

lemma attempts_update_delivery:
  "(\<And>r. delivery_ok r \<Longrightarrow> delivery_ok (f r)) \<Longrightarrow> keeps (inv_rel attempts_bounded) (update_delivery i f)"
  unfolding update_delivery_def
  by (intro attempts.keeps_call) (auto simp: inv_rel_def attempts_bounded_def)

lemma attempts_update_webhook: "keeps (inv_rel attempts_bounded) (update_webhook i f)"
  unfolding update_webhook_def by (intro attempts.keeps_call) (simp add: inv_rel_def attempts_bounded_def)

lemma attempts_send: "keeps (inv_rel attempts_bounded) (sendWebhookRequest w q)"
  unfolding sendWebhookRequest_def network_def
  by (intro attempts.keeps_rules attempts.keeps_memory) (simp add: inv_rel_def attempts_bounded_def)

lemma attempts_helpers:
  "keeps (inv_rel attempts_bounded) (incrementFailure wh)" "keeps (inv_rel attempts_bounded) (resetWebhookFailureState i)"
  "keeps (inv_rel attempts_bounded) (markDeliverySuccess i st)" "keeps (inv_rel attempts_bounded) (markDeliveryFailed i st)"
  unfolding incrementFailure_def resetWebhookFailureState_def markDeliverySuccess_def markDeliveryFailed_def
  by (intro attempts.keeps_rules attempts_update_webhook attempts_update_delivery; simp add: delivery_ok_def)+

lemma attempts_first_attempt: "keeps (inv_rel attempts_bounded) (first_attempt w wh event i)"
  unfolding first_attempt_def Let_def
  by (intro attempts.keeps_rules attempts_send attempts_helpers attempts_update_delivery) (simp_all add: delivery_ok_def MAX_RETRIES_def)

lemma attempts_insert: "keeps (inv_rel attempts_bounded) (call (q_insert_delivery wh event))"
  by (intro attempts.keeps_call)
    (auto simp: inv_rel_def attempts_bounded_def q_insert_delivery_def with_fresh_def q_insert_def delivery_ok_def MAX_RETRIES_def)

lemma keeps_each: "rely_guarantee R \<Longrightarrow> (\<And>x. x \<in> set xs \<Longrightarrow> keeps R (f x)) \<Longrightarrow> keeps R (each f xs)"
  by (induction xs) (auto intro: rely_guarantee.keeps_return rely_guarantee.keeps_bind)

lemma attempts_deliver_one: "keeps (inv_rel attempts_bounded) (deliver_one w event wh)"
proof -
  have "keeps (inv_rel attempts_bounded) (case r of
       Inr (delivery # _) \<Rightarrow>
         if host_refusal w (wh_url wh) \<noteq> None then do {
           _ \<leftarrow> update_delivery (dl_id delivery) (\<lambda>r. r\<lparr>dl_status := DPendingRetry, dl_attempts := 1,
             dl_response_status := None, dl_last_retry_at := None\<rparr>);
           State_Monad.return ()
         }
         else first_attempt w wh event (dl_id delivery)
     | _ \<Rightarrow> State_Monad.return ())" for r :: "delivery_row list db_result"
    by (cases r; cases "projr r")
      (auto intro!: attempts.keeps_rules attempts_first_attempt attempts_update_delivery simp: delivery_ok_def MAX_RETRIES_def)
  then show ?thesis unfolding deliver_one_def by (intro attempts.keeps_bind attempts_insert)
qed

lemma attempts_webhooks_for: "keeps (inv_rel attempts_bounded) (webhooks_for targets event)"
  unfolding webhooks_for_def by (intro attempts.keeps_rules attempts.keeps_call) (simp_all add: inv_rel_def)

lemma attempts_deliverWebhooks: "keeps (inv_rel attempts_bounded) (deliverWebhooks w targets event)"
  unfolding deliverWebhooks_def
  by (intro attempts.keeps_bind attempts_webhooks_for keeps_each rely_guarantee_inv attempts_deliver_one)

lemma attempts_claim:
  assumes "delivery_ok d" "dl_attempts d < dl_max_retries d"
  shows "keeps (inv_rel attempts_bounded) (claim_delivery d now)"
  unfolding claim_delivery_def using assms by (intro attempts_update) (simp add: delivery_ok_def)

lemma attempts_retried: "keeps (inv_rel attempts_bounded) (retried w d wh now)"
  unfolding retried_def
  by (intro attempts.keeps_rules attempts_send attempts_helpers attempts_update_delivery) (simp_all add: delivery_ok_def)

lemma attempts_processDelivery:
  assumes "delivery_ok (fst p)" "dl_attempts (fst p) < dl_max_retries (fst p)"
  shows "keeps (inv_rel attempts_bounded) (processDelivery w p)"
proof (cases p)
  case (Pair d webhook)
  then show ?thesis
    unfolding processDelivery_def
    using attempts_claim assms
    by (cases webhook) (auto intro!: attempts.keeps_rules attempts_helpers attempts_retried)
qed

lemma shouldRetry_limit: "shouldRetry now d \<Longrightarrow> dl_attempts d < dl_max_retries d"
  by (simp add: shouldRetry_def split: if_splits)

lemma set_q_pending: "p \<in> set (projr (fst (q_pending d))) \<Longrightarrow> fst p \<in> set (db_deliveries d)"
  by (auto simp: q_pending_def oldest_first_def dest!: in_set_takeD)

lemma attempts_fetchPending:
  "valid (inv_rel attempts_bounded) attempts_bounded fetchPending
     (\<lambda>r d. attempts_bounded d \<and> (\<forall>ps. r = Inr ps \<longrightarrow> (\<forall>p\<in>set ps. delivery_ok (fst p) \<and> dl_attempts (fst p) < dl_max_retries (fst p))))"
  unfolding fetchPending_def
proof (rule attempts.valid_bind [where Q = "\<lambda>r d. attempts_bounded d \<and> (\<forall>ps. r = Inr ps \<longrightarrow> (\<forall>p\<in>set ps. delivery_ok (fst p)))"])
  have "fst p \<in> set (db_deliveries d)" if "fst (q_pending d) = Inr ps" "p \<in> set ps" for d ps p
    using set_q_pending [of p d] that by simp
  then show "valid (inv_rel attempts_bounded) attempts_bounded (call q_pending)
      (\<lambda>r d. attempts_bounded d \<and> (\<forall>ps. r = Inr ps \<longrightarrow> (\<forall>p\<in>set ps. delivery_ok (fst p))))"
    by (intro attempts.valid_call stable_inv_rel) (auto simp: inv_rel_def q_pending_def attempts_bounded_def)
next
  fix r :: "(delivery_row \<times> webhook_row option) list db_result"
  show "valid (inv_rel attempts_bounded) (\<lambda>d. attempts_bounded d \<and> (\<forall>ps. r = Inr ps \<longrightarrow> (\<forall>p\<in>set ps. delivery_ok (fst p))))
      (case r of
         Inl e \<Rightarrow> State_Monad.return (Inl (de_message e))
       | Inr pending \<Rightarrow> do { now \<leftarrow> clock; State_Monad.return (Inr (filter (\<lambda>p. shouldRetry now (fst p)) pending)) })
      (\<lambda>r d. attempts_bounded d \<and> (\<forall>ps. r = Inr ps \<longrightarrow> (\<forall>p\<in>set ps. delivery_ok (fst p) \<and> dl_attempts (fst p) < dl_max_retries (fst p))))"
    by (intro attempts.valid_sum attempts.valid_return attempts.valid_clock_bind) (auto dest: shouldRetry_limit)
qed

lemma attempts_runCycle: "valid (inv_rel attempts_bounded) attempts_bounded (runCycle w) (\<lambda>_. attempts_bounded)"
  unfolding runCycle_def
proof (rule attempts.valid_bind [OF attempts_fetchPending])
  fix r :: "string + (delivery_row \<times> webhook_row option) list"
  show "valid (inv_rel attempts_bounded)
      (\<lambda>d. attempts_bounded d \<and> (\<forall>ps. r = Inr ps \<longrightarrow> (\<forall>p\<in>set ps. delivery_ok (fst p) \<and> dl_attempts (fst p) < dl_max_retries (fst p))))
      (case r of Inl _ \<Rightarrow> State_Monad.return () | Inr deliveries \<Rightarrow> each (processDelivery w) deliveries) (\<lambda>_. attempts_bounded)"
  proof (cases "\<forall>ps. r = Inr ps \<longrightarrow> (\<forall>p\<in>set ps. delivery_ok (fst p) \<and> dl_attempts (fst p) < dl_max_retries (fst p))")
    case True
    then have "keeps (inv_rel attempts_bounded) (case r of Inl _ \<Rightarrow> State_Monad.return () | Inr deliveries \<Rightarrow> each (processDelivery w) deliveries)"
      by (intro attempts.keeps_sum attempts.keeps_return keeps_each rely_guarantee_inv attempts_processDelivery) blast+
    from attempts.keeps_holds [OF this stable_inv_rel] show ?thesis by (rule valid_conseq) simp_all
  qed (auto simp: valid_def)
qed

section \<open>Where the requests go\<close>

text \<open>Requests are only added, and the added ones go to URLs that pass the check.\<close>

definition sends_checked :: "internet \<Rightarrow> db \<Rightarrow> db \<Rightarrow> bool" where
  "sends_checked w d d' \<longleftrightarrow>
     (\<exists>new. db_sent d' = db_sent d @ new \<and> list_all (\<lambda>r. host_refusal w (sr_url r) = None) new)"

lemma sends_checked_same: "db_sent d' = db_sent d \<Longrightarrow> sends_checked w d d'"
  by (simp add: sends_checked_def)

interpretation checked: rely_guarantee "sends_checked w" for w
  by unfold_locales (auto simp: sends_checked_def)

lemma checked_update_delivery: "keeps (sends_checked w) (update_delivery i f)"
  unfolding update_delivery_def by (intro checked.keeps_call sends_checked_same) simp

lemma checked_update_webhook: "keeps (sends_checked w) (update_webhook i f)"
  unfolding update_webhook_def by (intro checked.keeps_call sends_checked_same) simp

lemma checked_send: "host_refusal w (sr_url q) = None \<Longrightarrow> keeps (sends_checked w) (sendWebhookRequest w q)"
  unfolding sendWebhookRequest_def network_def
  by (intro checked.keeps_bind checked.keeps_return checked.keeps_memory) (simp add: sends_checked_def)

lemma checked_first_attempt: "host_refusal w (wh_url wh) = None \<Longrightarrow> keeps (sends_checked w) (first_attempt w wh event i)"
  unfolding first_attempt_def Let_def markDeliverySuccess_def resetWebhookFailureState_def
  by (intro checked.keeps_rules checked_send checked_update_delivery checked_update_webhook) simp

lemma checked_deliver_one: "keeps (sends_checked w) (deliver_one w event wh)"
proof -
  have "keeps (sends_checked w) (case r of
       Inr (delivery # _) \<Rightarrow>
         if host_refusal w (wh_url wh) \<noteq> None then do {
           _ \<leftarrow> update_delivery (dl_id delivery) (\<lambda>r. r\<lparr>dl_status := DPendingRetry, dl_attempts := 1,
             dl_response_status := None, dl_last_retry_at := None\<rparr>);
           State_Monad.return ()
         }
         else first_attempt w wh event (dl_id delivery)
     | _ \<Rightarrow> State_Monad.return ())" for r :: "delivery_row list db_result"
    by (cases r; cases "projr r")
      (auto intro!: checked.keeps_rules checked_first_attempt checked_update_delivery)
  moreover have "keeps (sends_checked w) (call (q_insert_delivery wh event))"
    by (intro checked.keeps_call sends_checked_same) (simp add: q_insert_delivery_def with_fresh_def q_insert_def)
  ultimately show ?thesis unfolding deliver_one_def by (intro checked.keeps_bind)
qed

lemma checked_deliverWebhooks: "keeps (sends_checked w) (deliverWebhooks w targets event)"
  unfolding deliverWebhooks_def webhooks_for_def
  by (intro checked.keeps_rules checked.keeps_call keeps_each checked.rely_guarantee_axioms checked_deliver_one sends_checked_same)
    simp_all

section \<open>Claimed deliveries\<close>

text \<open>
  A delivery under retry whose worker died: nobody else's row has its id, and its webhook is still
  there with a URL.
\<close>

definition under_retry :: "delivery_row \<Rightarrow> db \<Rightarrow> bool" where
  "under_retry r d \<longleftrightarrow> dl_status r = DRetrying \<and> filter (\<lambda>x. dl_id x = dl_id r) (db_deliveries d) = [r] \<and>
     \<not> falsy (jprop (stored_event r) ''timestamp'') \<and> \<not> falsy (stored_event r) \<and>
     (\<exists>wh. find (\<lambda>wh. wh_id wh = dl_webhook_id r) (db_webhooks d) = Some wh \<and> wh_url wh \<noteq> [])"

interpretation retrying: rely_guarantee "inv_rel (under_retry r)" for r
  by (rule rely_guarantee_inv)

lemma under_retry_same: "db_deliveries d' = db_deliveries d \<Longrightarrow> db_webhooks d' = db_webhooks d \<Longrightarrow> inv_rel (under_retry r) d d'"
  by (simp add: inv_rel_def under_retry_def)

lemma filter_map_other:
  "i \<noteq> j \<Longrightarrow> (\<And>x. dl_id (f x) = dl_id x) \<Longrightarrow>
   filter (\<lambda>x. dl_id x = j) (map (\<lambda>x. if dl_id x = i then f x else x) xs) = filter (\<lambda>x. dl_id x = j) xs"
  by (induction xs) auto

lemma filter_map_rows:
  "(\<And>x. dl_id (f x) = dl_id x) \<Longrightarrow>
   filter (\<lambda>x. dl_id x = j) (map (\<lambda>x. if P x then f x else x) xs) =
   map (\<lambda>x. if P x then f x else x) (filter (\<lambda>x. dl_id x = j) xs)"
  by (induction xs) auto

lemma the_row_under_retry:
  assumes "under_retry r d" "x \<in> set (db_deliveries d)" "dl_id x = dl_id r"
  shows "x = r"
proof -
  have "filter (\<lambda>x. dl_id x = dl_id r) (db_deliveries d) = [r]" using assms(1) unfolding under_retry_def by blast
  moreover have "x \<in> set (filter (\<lambda>x. dl_id x = dl_id r) (db_deliveries d))" using assms(2,3) by simp
  ultimately show ?thesis by (simp only: list.set empty_iff insert_iff simp_thms)
qed

lemma retrying_update_delivery:
  assumes "i \<noteq> dl_id r" "\<And>x. dl_id (f x) = dl_id x"
  shows "keeps (inv_rel (under_retry r)) (update_delivery i f)"
  unfolding update_delivery_def
  by (intro retrying.keeps_call) (use assms in \<open>simp add: inv_rel_def under_retry_def filter_map_other\<close>)

lemma find_map_same:
  assumes "\<And>x. wh_id (f x) = wh_id x \<and> wh_url (f x) = wh_url x"
  shows "(\<exists>wh. find (\<lambda>x. wh_id x = j) (map (\<lambda>x. if wh_id x = i then f x else x) xs) = Some wh \<and> wh_url wh \<noteq> []) \<longleftrightarrow>
    (\<exists>wh. find (\<lambda>x. wh_id x = j) xs = Some wh \<and> wh_url wh \<noteq> [])"
  by (induction xs) (auto simp: assms)

lemma retrying_update_webhook:
  assumes "\<And>x. wh_id (f x) = wh_id x \<and> wh_url (f x) = wh_url x"
  shows "keeps (inv_rel (under_retry r)) (update_webhook i f)"
  unfolding update_webhook_def by (intro retrying.keeps_call) (simp add: inv_rel_def under_retry_def find_map_same [OF assms])

lemma retrying_helpers:
  "keeps (inv_rel (under_retry r)) (incrementFailure wh)" "keeps (inv_rel (under_retry r)) (resetWebhookFailureState j)"
  "i \<noteq> dl_id r \<Longrightarrow> keeps (inv_rel (under_retry r)) (markDeliverySuccess i st)"
  "i \<noteq> dl_id r \<Longrightarrow> keeps (inv_rel (under_retry r)) (markDeliveryFailed i st)"
  unfolding incrementFailure_def resetWebhookFailureState_def markDeliverySuccess_def markDeliveryFailed_def
  by (intro retrying.keeps_rules retrying_update_webhook retrying_update_delivery; simp)+

lemma retrying_retried: "dl_id d \<noteq> dl_id r \<Longrightarrow> keeps (inv_rel (under_retry r)) (retried w d wh now)"
  unfolding retried_def sendWebhookRequest_def network_def
  by (intro retrying.keeps_rules retrying_helpers retrying_update_delivery retrying.keeps_memory under_retry_same) simp_all

lemma retrying_claim: "keeps (inv_rel (under_retry r)) (claim_delivery d now)"
  unfolding claim_delivery_def
  by (intro retrying.keeps_call) (auto simp: inv_rel_def under_retry_def filter_map_rows)

lemma claim_refused:
  "valid (inv_rel (under_retry r)) (under_retry r) (claim_delivery r now) (\<lambda>c d. maybe_of c = None \<and> under_retry r d)"
proof -
  have none: "\<not> (dl_id x = dl_id r \<and> dl_status x = DPendingRetry \<and> dl_attempts x = dl_attempts r)"
    if u: "under_retry r d" and x: "x \<in> set (db_deliveries d)" for d x
    using the_row_under_retry [OF u x] u by (auto simp: under_retry_def)
  then have gone: "filter (\<lambda>x. dl_id x = dl_id r \<and> dl_status x = DPendingRetry \<and> dl_attempts x = dl_attempts r) (db_deliveries d) = []"
    "map (\<lambda>x. if dl_id x = dl_id r \<and> dl_status x = DPendingRetry \<and> dl_attempts x = dl_attempts r then f x else x) (db_deliveries d) =
      db_deliveries d" if u: "under_retry r d" for d f
    using none [OF u] by (auto simp: filter_empty_conv intro!: map_idI)
  have stays: "under_retry r (db_deliveries_update (map (\<lambda>x. if dl_id x = dl_id r \<and> dl_status x = DPendingRetry \<and>
      dl_attempts x = dl_attempts r then f x else x)) d)" if u: "under_retry r d" for d f
    using u gone(2) [OF u] unfolding under_retry_def by simp
  show ?thesis
    unfolding claim_delivery_def
    by (intro retrying.valid_call stable_inv_rel) (auto simp: inv_rel_def gone(1) stays shape_maybe_def)
qed

text \<open>What a cycle fetched of it: the row itself, with its webhook.\<close>

definition fetched_as :: "delivery_row \<Rightarrow> delivery_row \<times> webhook_row option \<Rightarrow> bool" where
  "fetched_as r p \<longleftrightarrow> dl_id (fst p) = dl_id r \<longrightarrow> fst p = r \<and> (\<exists>wh. snd p = Some wh \<and> wh_url wh \<noteq> [])"

lemma retrying_process:
  assumes "fetched_as r p" "\<not> falsy (jprop (stored_event r) ''timestamp'')" "\<not> falsy (stored_event r)"
  shows "valid (inv_rel (under_retry r)) (under_retry r) (processDelivery w p) (\<lambda>_. under_retry r)"
proof (cases p)
  case (Pair d webhook)
  show ?thesis
  proof (cases "dl_id d = dl_id r")
    case True
    with assms(1) Pair obtain wh where d: "d = r" "webhook = Some wh" "wh_url wh \<noteq> []" by (auto simp: fetched_as_def)
    then have "complete_payload r wh" using assms(2,3) by (simp add: complete_payload_def url_of_def)
    then show ?thesis
      unfolding processDelivery_def Pair d
      by (simp only: prod.case option.case not_True_eq_False if_False)
        (intro retrying.valid_clock_bind retrying.valid_bind [OF claim_refused] retrying.valid_option retrying.valid_return, auto simp: valid_def)
  next
    case False
    then have "keeps (inv_rel (under_retry r)) (processDelivery w p)"
      unfolding processDelivery_def Pair
      by (cases webhook) (auto intro!: retrying.keeps_rules retrying_helpers retrying_claim retrying_retried)
    from retrying.keeps_holds [OF this stable_inv_rel] show ?thesis .
  qed
qed

lemma retrying_each:
  "(\<And>x. x \<in> set xs \<Longrightarrow> valid (inv_rel (under_retry r)) (under_retry r) (f x) (\<lambda>_. under_retry r)) \<Longrightarrow>
   valid (inv_rel (under_retry r)) (under_retry r) (each f xs) (\<lambda>_. under_retry r)"
  by (induction xs) (auto intro!: retrying.valid_return retrying.valid_bind)

lemma retrying_fetch:
  "valid (inv_rel (under_retry r)) (under_retry r) fetchPending
     (\<lambda>ps d. under_retry r d \<and> (\<forall>xs. ps = Inr xs \<longrightarrow> list_all (fetched_as r) xs))"
  unfolding fetchPending_def
proof (rule retrying.valid_bind [where Q = "\<lambda>ps d. under_retry r d \<and> (\<forall>xs. ps = Inr xs \<longrightarrow> list_all (fetched_as r) xs)"])
  have "fetched_as r p" if u: "under_retry r d" and p: "p \<in> set (projr (fst (q_pending d)))" for d p
  proof -
    obtain wh where wh: "find (\<lambda>wh. wh_id wh = dl_webhook_id r) (db_webhooks d) = Some wh" "wh_url wh \<noteq> []"
      using u by (auto simp: under_retry_def)
    have "fst p \<in> set (db_deliveries d)" "snd p = find (\<lambda>wh. wh_id wh = dl_webhook_id (fst p)) (db_webhooks d)"
      using set_q_pending [OF p] p by (auto simp: q_pending_def)
    then show ?thesis using wh the_row_under_retry [OF u] by (auto simp: fetched_as_def)
  qed
  then show "valid (inv_rel (under_retry r)) (under_retry r) (call q_pending)
      (\<lambda>ps d. under_retry r d \<and> (\<forall>xs. ps = Inr xs \<longrightarrow> list_all (fetched_as r) xs))"
    by (intro retrying.valid_call stable_inv_rel) (auto simp: inv_rel_def q_pending_def list_all_iff)
next
  fix ps :: "(delivery_row \<times> webhook_row option) list db_result"
  show "valid (inv_rel (under_retry r)) (\<lambda>d. under_retry r d \<and> (\<forall>xs. ps = Inr xs \<longrightarrow> list_all (fetched_as r) xs))
      (case ps of
         Inl e \<Rightarrow> State_Monad.return (Inl (de_message e))
       | Inr pending \<Rightarrow> do { now \<leftarrow> clock; State_Monad.return (Inr (filter (\<lambda>p. shouldRetry now (fst p)) pending)) })
      (\<lambda>ps d. under_retry r d \<and> (\<forall>xs. ps = Inr xs \<longrightarrow> list_all (fetched_as r) xs))"
    by (intro retrying.valid_sum retrying.valid_return retrying.valid_clock_bind) (auto simp: list_all_iff)
qed

lemma retrying_cycle: "valid (inv_rel (under_retry r)) (under_retry r) (runCycle w) (\<lambda>_. under_retry r)"
  unfolding runCycle_def
proof (rule retrying.valid_bind [OF retrying_fetch])
  fix ps :: "string + (delivery_row \<times> webhook_row option) list"
  show "valid (inv_rel (under_retry r)) (\<lambda>d. under_retry r d \<and> (\<forall>xs. ps = Inr xs \<longrightarrow> list_all (fetched_as r) xs))
      (case ps of Inl _ \<Rightarrow> State_Monad.return () | Inr deliveries \<Rightarrow> each (processDelivery w) deliveries) (\<lambda>_. under_retry r)"
  proof (cases "(\<forall>xs. ps = Inr xs \<longrightarrow> list_all (fetched_as r) xs) \<and> (\<exists>d. under_retry r d)")
    case True
    then have e: "\<not> falsy (jprop (stored_event r) ''timestamp'')" "\<not> falsy (stored_event r)" by (auto simp: under_retry_def)
    have "valid (inv_rel (under_retry r)) (under_retry r)
        (case ps of Inl _ \<Rightarrow> State_Monad.return () | Inr deliveries \<Rightarrow> each (processDelivery w) deliveries) (\<lambda>_. under_retry r)"
      using True by (intro retrying.valid_sum retrying.valid_return retrying_each retrying_process e) (auto simp: list_all_iff)
    then show ?thesis by (rule valid_conseq) simp_all
  qed (auto simp: valid_def)
qed

section \<open>Properties\<close>

text \<open>An agent's webhook, an event for it, and an internet in which its host has turned private.\<close>

definition sample_hook :: webhook_row where
  "sample_hook = \<lparr>wh_id = ''w'', wh_agent_id = ''a'', wh_url = ''https://example.org/'', wh_secret = ''secret'',
     wh_events = [''message''], wh_is_active = True, wh_failure_count = 0, wh_last_delivery_at = None,
     wh_created_at = 0, wh_updated_at = 0\<rparr>"

definition sample_event :: outgoing_event where
  "sample_event = \<lparr>oe_event = ''message'', oe_timestamp = ''now'',
     oe_json = JObj [(''event'', JStr ''message''), (''timestamp'', JStr ''now'')]\<rparr>"

definition sample_internet :: "string list \<Rightarrow> int option \<Rightarrow> internet" where
  "sample_internet addresses status = \<lparr>in_parse_url = (\<lambda>_. Some \<lparr>url_protocol = ''https:'', url_hostname = ''example.org''\<rparr>),
     in_resolve4 = (\<lambda>_. addresses), in_resolve6 = (\<lambda>_. []), in_send = (\<lambda>_. status), in_hmac = (\<lambda>_ _. ''sig'')\<rparr>"

definition sample_hooks :: db where
  "sample_hooks = (empty_db (\<lambda>n. replicate (Suc n) CHR ''x''))\<lparr>db_webhooks := [sample_hook]\<rparr>"

text \<open>Property C22: whatever else runs beside it, a delivery or a cycle of the retry worker never lets a delivery be attempted
  more than five times, and leaves its limit alone.\<close>
theorem attempts_never_exceed_limit:
  assumes "rely (inv_rel attempts_bounded) env" "attempts_bounded d"
  shows "attempts_bounded (final (runCycle w) env d) \<and> attempts_bounded (final (deliverWebhooks w targets event) env d)"
  using valid_run(2) [OF attempts_runCycle assms] keeps_run [OF attempts_deliverWebhooks assms(1), of d] assms(2)
  by (simp add: inv_rel_def)

theorem attempts_never_exceed_limit_witness:
  "attempts_bounded (final (runCycle (sample_internet [] None)) [] sample_hooks) \<and>
   attempts_bounded (final (deliverWebhooks (sample_internet [] None) [''a''] sample_event) [] sample_hooks)"
  by (rule attempts_never_exceed_limit) (simp_all add: attempts_bounded_def sample_hooks_def empty_db_def)

text \<open>The first attempts of an event send requests only to URLs whose host resolves to public addresses.\<close>
theorem first_attempts_are_checked:
  assumes "rely (sends_checked w) env"
  shows "sends_checked w d (final (deliverWebhooks w targets event) env d)"
  by (rule keeps_run [OF checked_deliverWebhooks assms])

theorem first_attempts_are_checked_witness:
  "sends_checked (sample_internet [''93.184.216.34''] (Some 200)) sample_hooks
     (final (deliverWebhooks (sample_internet [''93.184.216.34''] (Some 200)) [''a''] sample_event) [] sample_hooks)"
  by (rule first_attempts_are_checked) simp


text \<open>A delivery that was claimed for a retry and not finished, because the worker died or the statement that
  records its outcome failed, is claimed by no later cycle: it stays under retry however often the worker runs.\<close>
theorem claimed_delivery_is_stuck:
  assumes "under_retry r d"
  shows "under_retry r (((\<lambda>d. final (runCycle w) [] d) ^^ n) d)"
proof (induction n)
  case (Suc n)
  then show ?case using valid_run(2) [OF retrying_cycle rely_Nil Suc] by simp
qed (use assms in simp)

text \<open>The worker's fourth statement, which records the outcome, fails.\<close>

definition sample_claimed :: db where
  "sample_claimed = final (runCycle (sample_internet [] None))
     [\<lparr>es_act = id, es_fault = None\<rparr>, \<lparr>es_act = id, es_fault = None\<rparr>,
      \<lparr>es_act = id, es_fault = Some \<lparr>de_code = ''57P01'', de_message = ''terminating connection''\<rparr>\<rparr>]
     (final (deliverWebhooks (sample_internet [''93.184.216.34''] None) [''a''] sample_event) [] sample_hooks)"

theorem claimed_delivery_is_stuck_witness:
  "dl_status (hd (db_deliveries sample_claimed)) = DRetrying \<and>
   under_retry (hd (db_deliveries sample_claimed))
     (((\<lambda>d. final (runCycle (sample_internet [''93.184.216.34''] (Some 200))) [] d) ^^ 3) sample_claimed)"
proof
  show "dl_status (hd (db_deliveries sample_claimed)) = DRetrying" by code_simp
  have "under_retry (hd (db_deliveries sample_claimed)) sample_claimed"
    unfolding under_retry_def by (intro conjI exI [of _ sample_hook]; code_simp)
  then show "under_retry (hd (db_deliveries sample_claimed))
     (((\<lambda>d. final (runCycle (sample_internet [''93.184.216.34''] (Some 200))) [] d) ^^ 3) sample_claimed)"
    by (rule claimed_delivery_is_stuck)
qed

text \<open>Recording a failed delivery sets the activity of a webhook by the count of its failures alone: a webhook
  deactivated in the meantime is active again unless this was at least its tenth failure.\<close>
theorem failure_overrides_deactivation:
  assumes "wh \<in> set (db_webhooks (final (incrementFailure seen) [] d))" "wh_id wh = wh_id seen"
  shows "wh_is_active wh = (wh_failure_count seen < 9) \<and> wh_failure_count wh = wh_failure_count seen + 1"
  using assms
  by (auto simp: incrementFailure_def update_webhook_def final_def run_def State_Monad.bind_def State_Monad.return_def
      clock_def call_def q_update_def)

theorem failure_overrides_deactivation_witness:
  "wh_is_active (hd (db_webhooks (final (incrementFailure sample_hook) []
     (sample_hooks\<lparr>db_webhooks := [sample_hook\<lparr>wh_is_active := False, wh_url := []\<rparr>]\<rparr>))))"
proof -
  let ?d = "final (incrementFailure sample_hook) [] (sample_hooks\<lparr>db_webhooks := [sample_hook\<lparr>wh_is_active := False, wh_url := []\<rparr>]\<rparr>)"
  have "hd (db_webhooks ?d) \<in> set (db_webhooks ?d)" "wh_id (hd (db_webhooks ?d)) = wh_id sample_hook" by code_simp+
  from failure_overrides_deactivation [OF this] show ?thesis by (simp add: sample_hook_def)
qed

end
