(* ===== verification/WebhookRoutes.thy ===== *)
theory WebhookRoutes
  imports Webhooks AuthContext SideTables Sample
begin

text \<open>
  Managing webhooks: an agent registers, lists and deletes its own
  (\<open>src/app/api/v1/agents/[id]/webhook/route.ts\<close>), an operator edits and deletes those of the agents in
  reach (\<open>src/app/(dashboard)/webhooks/actions.ts\<close>). The URL parser is a parameter. Deleting a webhook
  keeps its row: it is deactivated and its URL emptied.
\<close>

section \<open>The events a webhook may subscribe to\<close>

definition LEGACY_WEBHOOK_EVENT_ALIASES :: "string list" where
  "LEGACY_WEBHOOK_EVENT_ALIASES = [''contract_state'']"

definition CANONICAL_WEBHOOK_EVENTS :: "string list" where
  "CANONICAL_WEBHOOK_EVENTS =
     [''invitation'', ''message'', ''contract.accepted'', ''contract.rejected'', ''contract.cancelled'', ''contract.closed'',
      ''contract.expired'', ''contract.question_asked'', ''contract.question_answered'', ''contract.note_added'',
      ''task.created'', ''task.updated'', ''task.blocker_stale'', ''task.run_stale'', ''sprint.created'', ''sprint.updated'',
      ''project.member_invited'', ''project.member_accepted'', ''project.member_declined'', ''project.member_cancelled'',
      ''project.member_expired'', ''approval.requested'', ''approval.approved'', ''approval.denied'']"

definition ACCEPTED_WEBHOOK_EVENTS :: "string list" where
  "ACCEPTED_WEBHOOK_EVENTS = CANONICAL_WEBHOOK_EVENTS @ LEGACY_WEBHOOK_EVENT_ALIASES"

definition isAcceptedWebhookEvent :: "json \<Rightarrow> bool" where
  "isAcceptedWebhookEvent event \<longleftrightarrow> event \<in> JStr ` set ACCEPTED_WEBHOOK_EVENTS"

section \<open>Statements\<close>

text \<open>The columns an answer shows: all but the secret.\<close>

record webhook_view =
  wv_id :: string
  wv_agent_id :: string
  wv_url :: string
  wv_events :: "string list"
  wv_is_active :: bool
  wv_created_at :: timestamp
  wv_updated_at :: timestamp
  wv_last_delivery_at :: "timestamp option"
  wv_failure_count :: int

definition view_of :: "webhook_row \<Rightarrow> webhook_view" where
  "view_of w =
     \<lparr>wv_id = wh_id w, wv_agent_id = wh_agent_id w, wv_url = wh_url w, wv_events = wh_events w,
      wv_is_active = wh_is_active w, wv_created_at = wh_created_at w, wv_updated_at = wh_updated_at w,
      wv_last_delivery_at = wh_last_delivery_at w, wv_failure_count = wh_failure_count w\<rparr>"

definition view_json :: "webhook_view \<Rightarrow> json" where
  "view_json w = JObj
     [(''id'', JStr (wv_id w)), (''agent_id'', JStr (wv_agent_id w)), (''url'', JStr (wv_url w)),
      (''events'', JArr (map JStr (wv_events w))), (''is_active'', JBool (wv_is_active w)),
      (''created_at'', jint (wv_created_at w)), (''updated_at'', jint (wv_updated_at w)),
      (''last_delivery_at'', jtime_or_null (wv_last_delivery_at w)), (''failure_count'', jint (wv_failure_count w))]"

text \<open>The unique index of the table: one webhook per agent and URL.\<close>

definition webhook_key :: "webhook_row \<Rightarrow> string \<times> string" where
  "webhook_key w = (wh_agent_id w, wh_url w)"

definition q_register :: "string \<Rightarrow> string \<Rightarrow> string \<Rightarrow> string list \<Rightarrow> timestamp \<Rightarrow> webhook_row list statement" where
  "q_register agentId url secret events now = with_fresh (\<lambda>i d.
     let again = (\<lambda>w. w\<lparr>wh_secret := secret, wh_events := events, wh_is_active := True, wh_failure_count := 0,
           wh_updated_at := now\<rparr>);
         new = \<lparr>wh_id = i, wh_agent_id = agentId, wh_url = url, wh_secret = secret, wh_events = events,
           wh_is_active = True, wh_failure_count = 0, wh_last_delivery_at = None, wh_created_at = db_now d,
           wh_updated_at = now\<rparr>
     in if \<exists>w\<in>set (db_webhooks d). webhook_key w = (agentId, url)
        then q_update db_webhooks db_webhooks_update (\<lambda>w. webhook_key w = (agentId, url)) again d
        else q_insert db_webhooks db_webhooks_update (\<lambda>_ _. False) [new] d)"

text \<open>An update that may move a row in the unique index.\<close>

definition q_change_webhook :: "string \<Rightarrow> (webhook_row \<Rightarrow> webhook_row) \<Rightarrow> webhook_row list statement" where
  "q_change_webhook i f d =
     (if distinct (map webhook_key (map (\<lambda>w. if wh_id w = i then f w else w) (db_webhooks d)))
      then q_update db_webhooks db_webhooks_update (\<lambda>w. wh_id w = i) f d
      else (Inl unique_violation, d))"

definition deleted_webhook :: "timestamp \<Rightarrow> webhook_row \<Rightarrow> webhook_row" where
  "deleted_webhook now w = w\<lparr>wh_is_active := False, wh_url := [], wh_updated_at := now\<rparr>"

definition newest_webhooks :: "webhook_row list \<Rightarrow> webhook_row list" where
  "newest_webhooks ws = descending wh_created_at ws"

section \<open>The agent's own webhooks\<close>

text \<open>\<open>trustGate\<close>: what a refusal answers.\<close>

definition managing :: "webhook_action \<Rightarrow> request \<Rightarrow> 'b response prog \<Rightarrow> 'b response prog" where
  "managing action req k =
     (case evaluateWebhookManagementAccess action (access_context_of (rq_agent req)) of
        Inl e \<Rightarrow> State_Monad.return (Thrown e)
      | Inr g \<Rightarrow> (case g of
          WebhookForbidden _ r \<Rightarrow> State_Monad.return (Refusal r)
        | WebhookAllowed _ \<Rightarrow> k))"

text \<open>The events of the body: the default, the given list, or the error of one that is no list.\<close>

definition events_of_body :: "json \<Rightarrow> json list option" where
  "events_of_body parsed =
     (case jprop (Some parsed) ''events'' of
        None \<Rightarrow> Some (map JStr CANONICAL_WEBHOOK_EVENTS)
      | Some (JArr xs) \<Rightarrow> Some xs
      | Some _ \<Rightarrow> None)"

definition joined_names :: "json list \<Rightarrow> string" where
  "joined_names xs = join '', '' (map (\<lambda>j. if j = JNull then [] else js_string j) xs)"

definition webhook_stored ::
  "(json \<Rightarrow> string) \<Rightarrow> request \<Rightarrow> string option \<Rightarrow> string \<Rightarrow> json \<Rightarrow> json list \<Rightarrow> webhook_view response prog" where
  "webhook_stored to_text req key agentId parsed events = do {
     now \<leftarrow> clock;
     r \<leftarrow> call (shaped shape_single (q_register agentId
       (the (column_text to_text (jprop (Some parsed) ''url''))) (the (column_text to_text (jprop (Some parsed) ''secret'')))
       (map (\<lambda>e. the (as_string (Some e))) events) now));
     case r of
       Inl _ \<Rightarrow> State_Monad.return (reply_error 500 ''Failed to register webhook'' ''DB_ERROR'')
     | Inr w \<Rightarrow> do {
         storeIdempotencyResponse key req (''POST /v1/agents/'' @ agentId @ ''/webhook'') 201 (view_json (view_of w));
         State_Monad.return (Answer 201 (view_of w))
       }
   }"

definition webhook_parsed ::
  "(json \<Rightarrow> string) \<Rightarrow> (string \<Rightarrow> parsed_url option) \<Rightarrow> request \<Rightarrow> string option \<Rightarrow> string \<Rightarrow> json \<Rightarrow> webhook_view response prog" where
  "webhook_parsed to_text parse_url req key agentId parsed =
     (if parsed = JNull then State_Monad.return (Thrown ''TypeError'')
      else if falsy (jprop (Some parsed) ''url'') \<or> falsy (jprop (Some parsed) ''secret'') then
        State_Monad.return (reply_error 400 ''Missing required fields: url, secret'' ''VALIDATION_ERROR'')
      else (case validateWebhookUrl parse_url (js_string_of (jprop (Some parsed) ''url'')) of
          Some e \<Rightarrow> State_Monad.return (reply_error 400 e ''VALIDATION_ERROR'')
        | None \<Rightarrow> (case events_of_body parsed of
            None \<Rightarrow> State_Monad.return
              (reply_error 400 ''Field \"events\" must be an array of strings'' ''VALIDATION_ERROR'')
          | Some events \<Rightarrow>
              (case filter (\<lambda>e. \<not> isAcceptedWebhookEvent e) events of
                 [] \<Rightarrow> webhook_stored to_text req key agentId parsed events
               | invalid \<Rightarrow> State_Monad.return (reply_error 400
                   (''Invalid event(s): '' @ joined_names invalid @ ''. Valid: '' @ join '', '' ACCEPTED_WEBHOOK_EVENTS)
                   ''VALIDATION_ERROR'')))))"

definition webhook_post ::
  "(json \<Rightarrow> string) \<Rightarrow> (string \<Rightarrow> parsed_url option) \<Rightarrow> request \<Rightarrow> string \<Rightarrow> webhook_view response prog" where
  "webhook_post to_text parse_url req agentId =
     with_key req (''POST /v1/agents/'' @ agentId @ ''/webhook'') (\<lambda>key.
       if ag_id (rq_agent req) \<noteq> agentId then
         State_Monad.return (forbidden ''You can only manage webhooks for your own agent'')
       else managing WRegister req (case rq_body req of
           Parsed j \<Rightarrow> webhook_parsed to_text parse_url req key agentId j
         | _ \<Rightarrow> State_Monad.return (reply_error 400 ''Invalid JSON body'' ''INVALID_BODY'')))"

definition webhook_get :: "request \<Rightarrow> string \<Rightarrow> webhook_view list response prog" where
  "webhook_get req agentId =
     (if ag_id (rq_agent req) \<noteq> agentId then
        State_Monad.return (forbidden ''You can only view webhooks for your own agent'')
      else managing WList req (do {
        r \<leftarrow> call (q_select db_webhooks (\<lambda>w. wh_agent_id w = agentId));
        State_Monad.return (case r of
            Inl _ \<Rightarrow> reply_error 500 ''Failed to fetch webhooks'' ''DB_ERROR''
          | Inr ws \<Rightarrow> Answer 200 (map view_of (newest_webhooks ws)))
      }))"

text \<open>The URL comes from the query, or else from the body, whatever it holds.\<close>

definition url_to_delete :: "(json \<Rightarrow> string) \<Rightarrow> string option \<Rightarrow> request \<Rightarrow> string option" where
  "url_to_delete to_text query_url req =
     (if truthy_str query_url then query_url
      else case rq_body req of
        Parsed j \<Rightarrow>
          (let u = jprop (Some j) ''url'' in if falsy u then None else column_text to_text u)
      | _ \<Rightarrow> None)"

definition webhook_delete ::
  "(json \<Rightarrow> string) \<Rightarrow> request \<Rightarrow> string option \<Rightarrow> string \<Rightarrow> unit response prog" where
  "webhook_delete to_text req query_url agentId =
     (if ag_id (rq_agent req) \<noteq> agentId then
        State_Monad.return (forbidden ''You can only delete webhooks for your own agent'')
      else managing WDelete req (case url_to_delete to_text query_url req of
          None \<Rightarrow> State_Monad.return (reply_error 400 ''Missing webhook URL in body or query param'' ''VALIDATION_ERROR'')
        | Some url \<Rightarrow> do {
            existing \<leftarrow> call (shaped shape_maybe (q_select db_webhooks
              (\<lambda>w. wh_agent_id w = agentId \<and> wh_url w = url \<and> wh_is_active w)));
            case existing of
              Inl _ \<Rightarrow> State_Monad.return (reply_error 500 ''Failed to look up webhook'' ''DB_ERROR'')
            | Inr found \<Rightarrow> (case found of
                None \<Rightarrow> State_Monad.return (reply_error 404 ''Webhook not found'' ''NOT_FOUND'')
              | Some w \<Rightarrow> do {
                  now \<leftarrow> clock;
                  r \<leftarrow> call (q_change_webhook (wh_id w) (deleted_webhook now));
                  State_Monad.return (case r of
                      Inl _ \<Rightarrow> reply_error 500 ''Failed to delete webhook'' ''DB_ERROR''
                    | Inr _ \<Rightarrow> Answer 200 ())
                })
          }))"

section \<open>The operator's actions\<close>

text \<open>A server action returns its result or an error text, or it throws.\<close>

datatype 'a outcome = Done 'a | Failed string | Raised string

definition resolveWebhookManagementActor :: "actor_context \<Rightarrow> agent_row option \<Rightarrow> access_context" where
  "resolveWebhookManagementActor auth webhookAgent =
     (case (cx_actingAgent auth, webhookAgent) of
        (Some acting, Some agent) \<Rightarrow>
          if ag_id agent \<noteq> [] \<and> aa_id acting = ag_id agent then
            \<lparr>ac_trust_tier = Some (JStr (tier_name (cx_trustTier auth))),
             ac_trust_policy = Some (policy_json (cx_trustPolicy auth))\<rparr>
          else access_context_of agent
      | (None, Some agent) \<Rightarrow> access_context_of agent
      | (_, None) \<Rightarrow> \<lparr>ac_trust_tier = None, ac_trust_policy = None\<rparr>)"

text \<open>What the four actions start with: the session, the webhook, its agent's owner, the trust gate.\<close>

definition on_webhook ::
  "webhook_action \<Rightarrow> string \<Rightarrow> actor_context option \<Rightarrow> string \<Rightarrow>
   (actor_context \<Rightarrow> webhook_row \<Rightarrow> 'a outcome prog) \<Rightarrow> 'a outcome prog" where
  "on_webhook action notYours session webhookId k =
     (case session of
        None \<Rightarrow> State_Monad.return (Failed ''Not authenticated'')
      | Some auth \<Rightarrow> do {
          found \<leftarrow> call (shaped shape_single (q_select db_webhooks (\<lambda>w. wh_id w = webhookId)));
          case data_of found of
            None \<Rightarrow> State_Monad.return (Failed ''Webhook not found'')
          | Some webhook \<Rightarrow> do {
              owner \<leftarrow> call (shaped shape_single (q_select db_agents (\<lambda>a. ag_id a = wh_agent_id webhook)));
              if \<not> us_isSuperAdmin (cx_user auth) \<and>
                 (case data_of owner of None \<Rightarrow> True | Some a \<Rightarrow> ag_owner_user_id a \<noteq> Some (us_id (cx_user auth))) then
                State_Monad.return (Failed notYours)
              else (case evaluateWebhookManagementAccess action (resolveWebhookManagementActor auth (data_of owner)) of
                  Inl e \<Rightarrow> State_Monad.return (Raised e)
                | Inr g \<Rightarrow> (case g of
                    WebhookForbidden _ r \<Rightarrow> State_Monad.return (Failed (ae_error (rf_body r)))
                  | WebhookAllowed _ \<Rightarrow> k auth webhook))
            }
        })"

record webhook_updates =
  wu_url :: "string option"
  wu_events :: "string list option"
  wu_is_active :: "bool option"

definition patched_webhook :: "webhook_updates \<Rightarrow> timestamp \<Rightarrow> webhook_row \<Rightarrow> webhook_row" where
  "patched_webhook u now w =
     w\<lparr>wh_url := (case wu_url u of None \<Rightarrow> wh_url w | Some x \<Rightarrow> x),
       wh_events := (case wu_events u of None \<Rightarrow> wh_events w | Some x \<Rightarrow> x),
       wh_is_active := (case wu_is_active u of None \<Rightarrow> wh_is_active w | Some x \<Rightarrow> x),
       wh_failure_count := (if wu_is_active u = Some True then 0 else wh_failure_count w),
       wh_updated_at := now\<rparr>"

definition updates_json :: "webhook_updates \<Rightarrow> json" where
  "updates_json u = JObj
     ((case wu_url u of None \<Rightarrow> [] | Some x \<Rightarrow> [(''url'', JStr x)]) @
      (case wu_events u of None \<Rightarrow> [] | Some x \<Rightarrow> [(''events'', JArr (map JStr x))]) @
      (case wu_is_active u of None \<Rightarrow> [] | Some x \<Rightarrow> [(''is_active'', JBool x)]))"

definition updateWebhook ::
  "(string \<Rightarrow> parsed_url option) \<Rightarrow> actor_context option \<Rightarrow> string \<Rightarrow> webhook_updates \<Rightarrow> unit outcome prog" where
  "updateWebhook parse_url session webhookId updates =
     on_webhook WUpdate ''You can only edit webhooks for your own agents'' session webhookId (\<lambda>auth _.
       case (if truthy_str (wu_url updates) then validateWebhookUrl parse_url (the (wu_url updates)) else None) of
         Some e \<Rightarrow> State_Monad.return (Failed e)
       | None \<Rightarrow> do {
           now \<leftarrow> clock;
           r \<leftarrow> call (q_change_webhook webhookId (patched_webhook updates now));
           case r of
             Inl e \<Rightarrow> State_Monad.return (Failed (de_message e))
           | Inr _ \<Rightarrow> do {
               auditLog (us_id (cx_user auth)) ''webhook.update'' (Some ''webhook'') (Some webhookId)
                 (Some [(''actor_name'', JStr (us_displayName (cx_user auth))), (''updates'', updates_json updates)]) None;
               State_Monad.return (Done ())
             }
         })"

definition deleteWebhook :: "actor_context option \<Rightarrow> string \<Rightarrow> unit outcome prog" where
  "deleteWebhook session webhookId =
     on_webhook WDelete ''You can only delete webhooks for your own agents'' session webhookId (\<lambda>auth webhook. do {
       now \<leftarrow> clock;
       r \<leftarrow> call (q_change_webhook webhookId (deleted_webhook now));
       case r of
         Inl e \<Rightarrow> State_Monad.return (Failed (de_message e))
       | Inr _ \<Rightarrow> do {
           auditLog (us_id (cx_user auth)) ''webhook.delete'' (Some ''webhook'') (Some webhookId)
             (Some [(''actor_name'', JStr (us_displayName (cx_user auth))), (''url'', JStr (wh_url webhook))]) None;
           State_Monad.return (Done ())
         }
     })"

definition getDeliveries :: "actor_context option \<Rightarrow> string \<Rightarrow> delivery_row list outcome prog" where
  "getDeliveries session webhookId =
     on_webhook WList ''Access denied'' session webhookId (\<lambda>_ _. do {
       r \<leftarrow> call (\<lambda>d. (Inr (take 20 (descending dl_created_at
         (filter (\<lambda>x. dl_webhook_id x = webhookId) (db_deliveries d)))), d));
       State_Monad.return (case r of Inl e \<Rightarrow> Failed (de_message e) | Inr rows \<Rightarrow> Done rows)
     })"

text \<open>
  A test ping. A network error carries a text of its own, the parameter \<open>network_error\<close>; how long the
  answer took is not modelled.
\<close>

record webhook_test =
  wt_success :: bool
  wt_status :: "int option"
  wt_error :: "string option"

definition test_payload :: "timestamp \<Rightarrow> string" where
  "test_payload now = stringify (JObj [(''event'', JStr ''test''), (''timestamp'', JStr (iso_string now)),
     (''data'', JObj [(''message'', JStr ''Test ping from Holloway dashboard'')])])"

definition test_sent :: "internet \<Rightarrow> string \<Rightarrow> webhook_row \<Rightarrow> string \<Rightarrow> webhook_test prog" where
  "test_sent w network_error webhook payload = do {
     i \<leftarrow> memory (\<lambda>d. (db_ids d (db_next d), d\<lparr>db_next := Suc (db_next d)\<rparr>));
     now \<leftarrow> clock;
     response \<leftarrow> network w \<lparr>sr_delivery_id = ''test-'' @ i, sr_url = wh_url webhook, sr_event = ''test'',
       sr_timestamp = show_int (now div 1000), sr_signature = in_hmac w (wh_secret webhook) payload, sr_body = payload\<rparr>;
     State_Monad.return (case response of
         None \<Rightarrow> \<lparr>wt_success = False, wt_status = None,
           wt_error = Some (if str_includes network_error ''timeout'' then ''Request timed out (10s)'' else network_error)\<rparr>
       | Some status \<Rightarrow> \<lparr>wt_success = (200 \<le> status \<and> status < 300), wt_status = Some status, wt_error = None\<rparr>)
   }"

definition testWebhook :: "internet \<Rightarrow> string \<Rightarrow> actor_context option \<Rightarrow> string \<Rightarrow> webhook_test outcome prog" where
  "testWebhook w network_error session webhookId =
     on_webhook WTest ''You can only test webhooks for your own agents'' session webhookId (\<lambda>_ webhook. do {
       now \<leftarrow> clock;
       case host_refusal w (wh_url webhook) of
         Some e \<Rightarrow> State_Monad.return (Failed (''URL validation failed: '' @ e))
       | None \<Rightarrow> do {
           t \<leftarrow> test_sent w network_error webhook (test_payload now);
           State_Monad.return (Done t)
         }
     })"

section \<open>The registry\<close>

text \<open>At most one webhook per agent and URL, and every URL in the table passed the static check or is empty.\<close>

definition webhooks_ok :: "(string \<Rightarrow> parsed_url option) \<Rightarrow> db \<Rightarrow> bool" where
  "webhooks_ok parse_url d \<longleftrightarrow> distinct (map webhook_key (db_webhooks d)) \<and>
     (\<forall>w\<in>set (db_webhooks d). wh_url w = [] \<or> validateWebhookUrl parse_url (wh_url w) = None)"

interpretation registry: side_tables "inv_rel (webhooks_ok p)" db_webhooks for p
  by (intro side_tables.intro rely_guarantee_inv side_tables_axioms.intro) (simp_all add: inv_rel_def webhooks_ok_def)

lemma webhook_key_map:
  "(\<And>w. webhook_key (f w) = webhook_key w) \<Longrightarrow>
   map webhook_key (map (\<lambda>w. if P w then f w else w) ws) = map webhook_key ws"
  by (simp add: fun_eq_iff)

lemma registry_update_webhook:
  assumes "\<And>w. wh_agent_id (f w) = wh_agent_id w \<and> wh_url (f w) = wh_url w"
  shows "keeps (inv_rel (webhooks_ok p)) (update_webhook i f)"
proof -
  have key: "webhook_key (f w) = webhook_key w" for w using assms by (simp add: webhook_key_def)
  show ?thesis
    unfolding update_webhook_def
    by (intro registry.keeps_call) (auto simp: inv_rel_def webhooks_ok_def webhook_key_map [OF key] assms simp del: map_map)
qed

lemma registry_update_delivery: "keeps (inv_rel (webhooks_ok p)) (update_delivery i f)"
  unfolding update_delivery_def by (intro registry.keeps_aside) simp

lemma registry_send: "keeps (inv_rel (webhooks_ok p)) (sendWebhookRequest w q)"
  unfolding sendWebhookRequest_def network_def
  by (intro registry.keeps_rules registry.keeps_memory) (simp add: inv_rel_def webhooks_ok_def)

lemma registry_helpers:
  "keeps (inv_rel (webhooks_ok p)) (incrementFailure wh)" "keeps (inv_rel (webhooks_ok p)) (resetWebhookFailureState j)"
  "keeps (inv_rel (webhooks_ok p)) (markDeliverySuccess i st)" "keeps (inv_rel (webhooks_ok p)) (markDeliveryFailed i st)"
  unfolding incrementFailure_def resetWebhookFailureState_def markDeliverySuccess_def markDeliveryFailed_def
  by (intro registry.keeps_rules registry_update_webhook registry_update_delivery; simp)+

lemma registry_deliver_one: "keeps (inv_rel (webhooks_ok p)) (deliver_one w event wh)"
proof -
  have "keeps (inv_rel (webhooks_ok p)) (case r of
       Inr (delivery # _) \<Rightarrow>
         if host_refusal w (wh_url wh) \<noteq> None then do {
           _ \<leftarrow> update_delivery (dl_id delivery) (\<lambda>r. r\<lparr>dl_status := DPendingRetry, dl_attempts := 1,
             dl_response_status := None, dl_last_retry_at := None\<rparr>);
           State_Monad.return ()
         }
         else first_attempt w wh event (dl_id delivery)
     | _ \<Rightarrow> State_Monad.return ())" for r :: "delivery_row list db_result"
    unfolding first_attempt_def Let_def
    by (cases r; cases "projr r") (auto intro!: registry.keeps_rules registry_helpers registry_send registry_update_delivery)
  moreover have "keeps (inv_rel (webhooks_ok p)) (call (q_insert_delivery wh event))"
    by (intro registry.keeps_aside) (simp add: q_insert_delivery_def with_fresh_def q_insert_def)
  ultimately show ?thesis unfolding deliver_one_def by (intro registry.keeps_bind)
qed

lemma registry_deliverWebhooks: "keeps (inv_rel (webhooks_ok p)) (deliverWebhooks w targets event)"
  unfolding deliverWebhooks_def webhooks_for_def
  by (intro registry.keeps_rules registry.keeps_reading keeps_each registry.rely_guarantee_axioms registry_deliver_one) simp_all

lemma registry_processDelivery: "keeps (inv_rel (webhooks_ok p)) (processDelivery w x)"
proof -
  have "keeps (inv_rel (webhooks_ok p)) (retried w d wh now)" for d wh now
    unfolding retried_def by (intro registry.keeps_rules registry_helpers registry_send registry_update_delivery)
  moreover have "keeps (inv_rel (webhooks_ok p)) (claim_delivery d now)" for d now
    unfolding claim_delivery_def by (intro registry.keeps_aside) simp
  ultimately show ?thesis
    unfolding processDelivery_def by (cases x) (auto intro!: registry.keeps_rules registry_helpers)
qed

lemma registry_runCycle: "keeps (inv_rel (webhooks_ok p)) (runCycle w)"
proof -
  have "keeps (inv_rel (webhooks_ok p)) fetchPending"
    unfolding fetchPending_def by (intro registry.keeps_rules registry.keeps_reading) (simp add: q_pending_def)
  then show ?thesis
    unfolding runCycle_def
    by (intro registry.keeps_rules keeps_each registry.rely_guarantee_axioms registry_processDelivery)
qed

subsection \<open>Registering, editing and deleting\<close>

lemma registry_register:
  assumes "validateWebhookUrl p url = None"
  shows "keeps (inv_rel (webhooks_ok p)) (call (shaped sh (q_register agentId url secret events now)))"
proof (intro registry.keeps_call)
  fix d :: db
  let ?again = "\<lambda>w. w\<lparr>wh_secret := secret, wh_events := events, wh_is_active := True, wh_failure_count := 0, wh_updated_at := now\<rparr>"
  have "map webhook_key (map (\<lambda>w. if webhook_key w = (agentId, url) then ?again w else w) (db_webhooks d)) =
      map webhook_key (db_webhooks d)"
    by (rule webhook_key_map) (simp add: webhook_key_def)
  then show "inv_rel (webhooks_ok p) d (snd (shaped sh (q_register agentId url secret events now) d))"
    using assms
    by (auto simp: inv_rel_def webhooks_ok_def q_register_def with_fresh_def q_insert_def webhook_key_def Let_def simp del: map_map)
qed

lemma registry_change:
  assumes "\<And>w. wh_url (f w) = wh_url w \<or> wh_url (f w) = [] \<or> validateWebhookUrl p (wh_url (f w)) = None"
  shows "keeps (inv_rel (webhooks_ok p)) (call (q_change_webhook i f))"
proof (intro registry.keeps_call)
  fix d :: db
  have step: "wh_url (f w) = []" if "wh_url w = [] \<or> validateWebhookUrl p (wh_url w) = None" "validateWebhookUrl p (wh_url (f w)) = Some e" for w e
    using assms [of w] that by auto
  then show "inv_rel (webhooks_ok p) d (snd (q_change_webhook i f d))"
    by (auto simp: inv_rel_def webhooks_ok_def q_change_webhook_def)
qed

lemma registry_on_webhook:
  "(\<And>a w. keeps (inv_rel (webhooks_ok p)) (k a w)) \<Longrightarrow> keeps (inv_rel (webhooks_ok p)) (on_webhook action e session i k)"
  unfolding on_webhook_def
  by (intro registry.keeps_rules registry.keeps_reading) (auto intro!: registry.keeps_rules split: webhook_decision.split)

lemma registry_managing:
  "keeps (inv_rel (webhooks_ok p)) k \<Longrightarrow> keeps (inv_rel (webhooks_ok p)) (managing action req k)"
  unfolding managing_def
  by (intro registry.keeps_rules) (auto intro!: registry.keeps_rules split: webhook_decision.split)

section \<open>The registry stays sound\<close>

text \<open>Everything that touches a webhook: the routes, the operator's actions, deliveries and a cycle of the worker.\<close>

datatype webhook_call =
    RegisterWebhook request string
  | ListWebhooks request string
  | DropWebhook request "string option" string
  | EditWebhook "actor_context option" string webhook_updates
  | RemoveWebhook "actor_context option" string
  | PingWebhook string "actor_context option" string
  | ShowDeliveries "actor_context option" string
  | AnnounceEvent "string list" outgoing_event
  | RetryFailed

definition perform :: "(json \<Rightarrow> string) \<Rightarrow> internet \<Rightarrow> webhook_call \<Rightarrow> unit prog" where
  "perform to_text w c = (case c of
       RegisterWebhook req i \<Rightarrow> do { _ \<leftarrow> webhook_post to_text (in_parse_url w) req i; State_Monad.return () }
     | ListWebhooks req i \<Rightarrow> do { _ \<leftarrow> webhook_get req i; State_Monad.return () }
     | DropWebhook req u i \<Rightarrow> do { _ \<leftarrow> webhook_delete to_text req u i; State_Monad.return () }
     | EditWebhook s i u \<Rightarrow> do { _ \<leftarrow> updateWebhook (in_parse_url w) s i u; State_Monad.return () }
     | RemoveWebhook s i \<Rightarrow> do { _ \<leftarrow> deleteWebhook s i; State_Monad.return () }
     | PingWebhook e s i \<Rightarrow> do { _ \<leftarrow> testWebhook w e s i; State_Monad.return () }
     | ShowDeliveries s i \<Rightarrow> do { _ \<leftarrow> getDeliveries s i; State_Monad.return () }
     | AnnounceEvent ts e \<Rightarrow> deliverWebhooks w ts e
     | RetryFailed \<Rightarrow> runCycle w)"

text \<open>The URL to register, where there is one, is a text.\<close>

definition url_is_text :: "webhook_call \<Rightarrow> bool" where
  "url_is_text c = (case c of
       RegisterWebhook req _ \<Rightarrow>
         (case rq_body req of Parsed j \<Rightarrow> falsy (jprop (Some j) ''url'') \<or> as_string (jprop (Some j) ''url'') \<noteq> None | _ \<Rightarrow> True)
     | _ \<Rightarrow> True)"

lemma registry_webhook_post:
  assumes "url_is_text (RegisterWebhook req i)"
  shows "keeps (inv_rel (webhooks_ok p)) (webhook_post to_text p req i)"
proof -
  have stored: "keeps (inv_rel (webhooks_ok p)) (webhook_stored to_text req key i j events)"
    if "as_string (jprop (Some j) ''url'') = Some u" "validateWebhookUrl p u = None" for key j events u
  proof -
    have "the (column_text to_text (jprop (Some j) ''url'')) = u"
      using that(1) by (cases "jprop (Some j) ''url''") (auto simp: column_text_def is_nullish_def)
    with that(2) show ?thesis
      unfolding webhook_stored_def
      by (intro registry.keeps_rules registry.keeps_side registry_register) simp_all
  qed
  have "keeps (inv_rel (webhooks_ok p)) (webhook_parsed to_text p req key i j)" if "rq_body req = Parsed j" for key j
  proof -
    have "keeps (inv_rel (webhooks_ok p)) (case filter (\<lambda>e. \<not> isAcceptedWebhookEvent e) events of
         [] \<Rightarrow> webhook_stored to_text req key i j events
       | x # xs \<Rightarrow> State_Monad.return (reply_error 400 (msg (x # xs)) ''VALIDATION_ERROR''))"
      if "\<not> falsy (jprop (Some j) ''url'')" "validateWebhookUrl p (js_string_of (jprop (Some j) ''url'')) = None" for events msg
    proof -
      from that(1) assms \<open>rq_body req = Parsed j\<close> obtain u where u: "as_string (jprop (Some j) ''url'') = Some u"
        by (auto simp: url_is_text_def)
      then have "js_string_of (jprop (Some j) ''url'') = u"
        by (cases "jprop (Some j) ''url''"; cases "the (jprop (Some j) ''url'')") (auto simp: js_string_of_def)
      with u that(2) stored show ?thesis by (auto intro: registry.keeps_return split: list.split)
    qed
    then show ?thesis
      unfolding webhook_parsed_def by (intro registry.keeps_rules) auto
  qed
  then show ?thesis
    unfolding webhook_post_def
    by (intro registry.keeps_keyed registry.keeps_rules registry_managing)
      (auto intro: registry.keeps_return split: request_body.split)
qed

lemma registry_other_routes:
  "keeps (inv_rel (webhooks_ok p)) (webhook_get req i)"
  "keeps (inv_rel (webhooks_ok p)) (webhook_delete to_text req u i)"
  unfolding webhook_get_def webhook_delete_def deleted_webhook_def
  by (intro registry.keeps_rules registry_managing registry.keeps_reading registry_change; simp)+

lemma registry_actions:
  "keeps (inv_rel (webhooks_ok p)) (updateWebhook p s i up)"
  "keeps (inv_rel (webhooks_ok p)) (deleteWebhook s i)"
  "keeps (inv_rel (webhooks_ok p)) (testWebhook w e s i)"
  "keeps (inv_rel (webhooks_ok p)) (getDeliveries s i)"
proof -
  have "keeps (inv_rel (webhooks_ok p)) (call (q_change_webhook i (patched_webhook up now)))"
    if "(if truthy_str (wu_url up) then validateWebhookUrl p (the (wu_url up)) else None) = None" for now
    using that by (intro registry_change) (cases "wu_url up"; auto simp: patched_webhook_def truthy_str_def split: if_splits)
  then show "keeps (inv_rel (webhooks_ok p)) (updateWebhook p s i up)"
    unfolding updateWebhook_def by (intro registry_on_webhook registry.keeps_rules registry.keeps_side)
  show "keeps (inv_rel (webhooks_ok p)) (deleteWebhook s i)"
    unfolding deleteWebhook_def deleted_webhook_def
    by (intro registry_on_webhook registry.keeps_rules registry.keeps_side registry_change) simp
  show "keeps (inv_rel (webhooks_ok p)) (testWebhook w e s i)"
    unfolding testWebhook_def test_sent_def network_def
    by (intro registry_on_webhook registry.keeps_rules registry.keeps_memory) (simp_all add: inv_rel_def webhooks_ok_def)
  show "keeps (inv_rel (webhooks_ok p)) (getDeliveries s i)"
    unfolding getDeliveries_def by (intro registry_on_webhook registry.keeps_rules registry.keeps_reading) simp
qed


section \<open>Deleting twice\<close>

text \<open>Nobody else registers, deletes or moves a webhook; deliveries go on.\<close>

definition same_registry :: "db \<Rightarrow> db \<Rightarrow> bool" where
  "same_registry d d' \<longleftrightarrow>
     map (\<lambda>w. (wh_id w, webhook_key w)) (db_webhooks d') = map (\<lambda>w. (wh_id w, webhook_key w)) (db_webhooks d)"

interpretation same_registry: rely_guarantee same_registry
  by unfold_locales (auto simp: same_registry_def)

definition listed :: "string \<Rightarrow> string \<Rightarrow> string \<Rightarrow> db \<Rightarrow> bool" where
  "listed i agentId url d \<longleftrightarrow> (i, agentId, url) \<in> set (map (\<lambda>w. (wh_id w, webhook_key w)) (db_webhooks d))"

definition one_deleted :: "string \<Rightarrow> db \<Rightarrow> bool" where
  "one_deleted agentId d \<longleftrightarrow> (agentId, []) \<in> set (map webhook_key (db_webhooks d))"

lemma stable_listed: "stable same_registry (listed i a u)"
  by (simp add: stable_def same_registry_def listed_def del: set_map)

lemma one_deleted_iff: "one_deleted a d \<longleftrightarrow> (\<exists>i. listed i a [] d)"
  by (force simp: one_deleted_def listed_def)

lemma stable_one_deleted: "stable same_registry (one_deleted a)"
  using stable_listed unfolding stable_def one_deleted_iff by blast

lemma deletion_clashes:
  assumes "one_deleted a d" "listed i a u d" "u \<noteq> []"
  shows "q_change_webhook i (deleted_webhook now) d = (Inl unique_violation, d)"
proof -
  let ?f = "\<lambda>w. if wh_id w = i then deleted_webhook now w else w"
  from assms(1) obtain m where m: "m < length (db_webhooks d)" "webhook_key (db_webhooks d ! m) = (a, [])"
    by (auto simp: one_deleted_def in_set_conv_nth)
  from assms(2) obtain n where n: "n < length (db_webhooks d)" "webhook_key (db_webhooks d ! n) = (a, u)" "wh_id (db_webhooks d ! n) = i"
    by (auto simp: listed_def in_set_conv_nth)
  have "webhook_key (?f (db_webhooks d ! m)) = (a, [])" "webhook_key (?f (db_webhooks d ! n)) = (a, [])"
    using m n by (auto simp: webhook_key_def deleted_webhook_def)
  moreover have "m \<noteq> n" using m n assms(3) by auto
  ultimately have "\<not> distinct (map webhook_key (map ?f (db_webhooks d)))"
    using m(1) n(1) nth_eq_iff_index_eq [of "map webhook_key (map ?f (db_webhooks d))" m n] by auto
  then show ?thesis unfolding q_change_webhook_def by (simp only: if_False)
qed

lemma second_deletion:
  assumes "url_to_delete to_text query_url req \<noteq> Some []"
  shows "valid same_registry (one_deleted agentId) (webhook_delete to_text req query_url agentId) (\<lambda>r _. turned_away r)"
proof -
  have found: "valid same_registry (one_deleted agentId)
      (call (shaped shape_maybe (q_select db_webhooks (\<lambda>w. wh_agent_id w = agentId \<and> wh_url w = url \<and> wh_is_active w))))
      (\<lambda>r d. one_deleted agentId d \<and> (\<forall>w. r = Inr (Some w) \<longrightarrow> listed (wh_id w) agentId url d))" for url
    by (rule same_registry.valid_call [OF stable_one_deleted])
      (auto simp: same_registry.refl shape_maybe_Inr_Some listed_def webhook_key_def image_iff filter_eq_Cons_iff)
  have gone: "valid same_registry (\<lambda>d. one_deleted agentId d \<and> listed i agentId url d)
      (call (q_change_webhook i (deleted_webhook now))) (\<lambda>r _. \<exists>e. r = Inl e)" if "url \<noteq> []" for i now url
    by (rule same_registry.valid_call [OF stable_conj [OF stable_one_deleted stable_listed]])
      (auto simp: deletion_clashes that same_registry.refl)
  have change: "valid same_registry (\<lambda>d. one_deleted agentId d \<and> listed i agentId url d)
      (do { now \<leftarrow> clock; r \<leftarrow> call (q_change_webhook i (deleted_webhook now));
            State_Monad.return (case r of
                Inl _ \<Rightarrow> reply_error 500 ''Failed to delete webhook'' ''DB_ERROR''
              | Inr _ \<Rightarrow> Answer 200 ()) }) (\<lambda>r _. turned_away r)" if "url \<noteq> []" for i url
    by (intro same_registry.valid_clock_bind same_registry.valid_bind [OF gone [OF that]] same_registry.valid_return) auto
  have "valid same_registry (one_deleted agentId)
      (call (shaped shape_maybe (q_select db_webhooks (\<lambda>w. wh_agent_id w = agentId \<and> wh_url w = url \<and> wh_is_active w))) \<bind>
       (\<lambda>existing. case existing of
            Inl _ \<Rightarrow> State_Monad.return (reply_error 500 ''Failed to look up webhook'' ''DB_ERROR'')
          | Inr found \<Rightarrow> (case found of
              None \<Rightarrow> State_Monad.return (reply_error 404 ''Webhook not found'' ''NOT_FOUND'')
            | Some w \<Rightarrow> do {
                now \<leftarrow> clock;
                r \<leftarrow> call (q_change_webhook (wh_id w) (deleted_webhook now));
                State_Monad.return (case r of
                    Inl _ \<Rightarrow> reply_error 500 ''Failed to delete webhook'' ''DB_ERROR''
                  | Inr _ \<Rightarrow> Answer 200 ())
              }))) (\<lambda>r _. turned_away r)" if "url \<noteq> []" for url
    by (rule same_registry.valid_bind [OF found], intro same_registry.valid_sum same_registry.valid_option)
      (auto intro: same_registry.valid_return valid_conseq [OF change [OF that]])
  then show ?thesis
    unfolding webhook_delete_def managing_def using assms
    by (intro same_registry.valid_if same_registry.valid_sum)
      (auto intro!: same_registry.valid_return same_registry.valid_option simp: forbidden_def split: webhook_decision.split)
qed

text \<open>After an agent has deleted one webhook, its row with the empty URL blocks the next deletion: while
  nobody else changes the registry, no further webhook of the agent can be deleted.\<close>

theorem only_one_webhook_deleted:
  assumes "one_deleted agentId d" "rely same_registry env" "url_to_delete to_text query_url req \<noteq> Some []"
  shows "turned_away (result (webhook_delete to_text req query_url agentId) env d)"
  by (rule valid_run(2) [OF second_deletion [OF assms(3)] assms(2,1)])

definition sample_registry :: db where
  "sample_registry = (empty_db (\<lambda>n. ''id'' @ show_nat n))\<lparr>
     db_webhooks := [\<lparr>wh_id = ''w1'', wh_agent_id = ''a'', wh_url = [], wh_secret = ''s'', wh_events = [''message''],
         wh_is_active = False, wh_failure_count = 0, wh_last_delivery_at = None, wh_created_at = 0, wh_updated_at = 0\<rparr>,
       \<lparr>wh_id = ''w2'', wh_agent_id = ''a'', wh_url = ''https://a.example'', wh_secret = ''s'', wh_events = [''message''],
         wh_is_active = True, wh_failure_count = 0, wh_last_delivery_at = None, wh_created_at = 0, wh_updated_at = 0\<rparr>]\<rparr>"

definition sample_drop :: request where
  "sample_drop = \<lparr>rq_agent = sample_agent ''a'', rq_body = NoBody, rq_forwarded_for = None, rq_real_ip = None,
     rq_idempotency_key = None\<rparr>"

theorem only_one_webhook_deleted_witness:
  "turned_away (result (webhook_delete (\<lambda>_. []) sample_drop (Some ''https://a.example'') ''a'') [] sample_registry)"
  by (rule only_one_webhook_deleted)
    (simp_all add: one_deleted_def sample_registry_def webhook_key_def url_to_delete_def truthy_str_def)


end
