(* ===== verification/BlockedTasks.thy ===== *)
theory BlockedTasks
  imports TaskBlockers
begin

text \<open>
  How a blocked task is presented (\<open>src/lib/task-blocker-notifications.ts\<close>) and the sweep that escalates
  what stays blocked for two days (\<open>scripts/stale-blocker-sweep.ts\<close>, with the notice of
  \<open>src/lib/task-blocker-actions.ts\<close>).
\<close>

section \<open>The state of a blocked task\<close>

definition BLOCKED_TASK_STALE_HOURS :: int where
  "BLOCKED_TASK_STALE_HOURS = 48"

definition BLOCKED_TASK_FOLLOW_THROUGH_HOURS :: int where
  "BLOCKED_TASK_FOLLOW_THROUGH_HOURS = 24"

datatype blocker_tone = ToneBlocked | ToneStale | ToneFollowThrough

datatype due_state = DueNone | DueScheduled | DueSoon | Overdue

record blocked_context =
  bn_updatedAt :: timestamp
  bn_blockedAt :: "timestamp option"
  bn_blockedByCount :: nat
  bn_blockingTaskTitles :: "string list"
  bn_followUpAt :: "timestamp option"
  bn_followedThroughAt :: "timestamp option"
  bn_escalatedAt :: "timestamp option"
  bn_resolutionAction :: "string option"
  bn_resolutionOwner :: "string option"
  bn_resolutionDueAt :: "timestamp option"
  bn_resolutionStatus :: "string option"

record blocked_state =
  bz_tone :: blocker_tone
  bz_stale :: bool
  bz_hoursBlocked :: int
  bz_followThroughDue :: bool
  bz_meta :: string
  bz_blockedSince :: timestamp
  bz_followUpAt :: "timestamp option"
  bz_followedThroughAt :: "timestamp option"
  bz_escalatedAt :: "timestamp option"
  bz_resolutionAction :: "string option"
  bz_resolutionOwner :: "string option"
  bz_resolutionDueAt :: "timestamp option"
  bz_resolutionStatus :: "string option"
  bz_dueState :: due_state
  bz_dueStateLabel :: "string option"
  bz_statusLabel :: string
  bz_escalationLabel :: "string option"
  bz_planSummary :: string

definition getDueState :: "timestamp option \<Rightarrow> timestamp \<Rightarrow> due_state \<times> string option" where
  "getDueState dueAt now =
     (case dueAt of
        None \<Rightarrow> (DueNone, None)
      | Some t \<Rightarrow>
          if t - now < 0 then (Overdue, Some ''Follow-up overdue'')
          else if t - now \<le> 1000 * 60 * 60 * 6 then (DueSoon, Some ''Follow-up due soon'')
          else (DueScheduled, Some ''Follow-up scheduled''))"

definition dotted :: "string option list \<Rightarrow> string" where
  "dotted parts = join ('' '' @ middle_dot @ '' '') (filter (\<lambda>s. s \<noteq> []) (List.map_filter id parts))"

definition formatPlanSummary :: "string option \<Rightarrow> string option \<Rightarrow> string option \<Rightarrow> string" where
  "formatPlanSummary action owner dueLabel =
     str_or (Some (dotted [action, if truthy_str owner then map_option (\<lambda>w. ''owner '' @ w) owner else None, dueLabel]))
       ''No unblock plan logged yet''"

definition resolveBlockedSince :: "timestamp option \<Rightarrow> timestamp \<Rightarrow> timestamp" where
  "resolveBlockedSince blockedAt updatedAt = (case blockedAt of Some t \<Rightarrow> t | None \<Rightarrow> updatedAt)"

definition getBlockedTaskAgeHours :: "timestamp \<Rightarrow> timestamp \<Rightarrow> int" where
  "getBlockedTaskAgeHours blockedSince now = max 0 ((now - blockedSince) div (1000 * 60 * 60))"

definition summarizeBlockingTasks :: "string list \<Rightarrow> nat \<Rightarrow> string" where
  "summarizeBlockingTasks titles count =
     (let clean = filter (\<lambda>s. s \<noteq> []) (map js_trim titles)
      in if clean = [] then (if count = 1 then ''1 dependency'' else show_nat count @ '' dependencies'')
         else if length clean = 1 \<or> count \<le> 1 then hd clean
         else hd clean @ '' +'' @ show_nat (count - 1) @ '' more'')"

definition trimmed_or_null :: "string option \<Rightarrow> string option" where
  "trimmed_or_null s = truthy_or_null (map_option js_trim s)"

text \<open>What is said of the task, by its tone.\<close>

definition blocked_tone :: "blocked_context \<Rightarrow> timestamp \<Rightarrow> blocker_tone" where
  "blocked_tone b now =
     (let hours = getBlockedTaskAgeHours (resolveBlockedSince (bn_blockedAt b) (bn_updatedAt b)) now
      in if hours \<ge> BLOCKED_TASK_STALE_HOURS then ToneStale
         else if bn_followedThroughAt b = None \<and> hours \<ge> BLOCKED_TASK_FOLLOW_THROUGH_HOURS then ToneFollowThrough
         else ToneBlocked)"

definition blocked_meta :: "blocked_context \<Rightarrow> blocker_tone \<Rightarrow> int \<Rightarrow> string" where
  "blocked_meta b tone hours =
     (let summary = summarizeBlockingTasks (bn_blockingTaskTitles b) (bn_blockedByCount b);
          sep = '' '' @ middle_dot @ '' ''; aged = ''Blocked '' @ show_int hours @ ''h'' @ sep
      in case tone of
           ToneStale \<Rightarrow>
             if bn_escalatedAt b \<noteq> None then aged @ ''escalated after follow-through on '' @ summary
             else aged @ ''stale blocker'' @ sep @ ''escalate '' @ summary
         | ToneFollowThrough \<Rightarrow>
             if bn_followUpAt b \<noteq> None then aged @ ''follow through again on '' @ summary
             else aged @ ''follow through on '' @ summary
         | ToneBlocked \<Rightarrow>
             if bn_followedThroughAt b \<noteq> None then ''Blocked'' @ sep @ ''follow-through logged for '' @ summary
             else ''Blocked'' @ sep @ ''waiting on '' @ summary)"

definition getBlockedTaskNotificationState :: "blocked_context \<Rightarrow> timestamp \<Rightarrow> blocked_state" where
  "getBlockedTaskNotificationState b now =
     (let since = resolveBlockedSince (bn_blockedAt b) (bn_updatedAt b);
          hours = getBlockedTaskAgeHours since now;
          stale = hours \<ge> BLOCKED_TASK_STALE_HOURS;
          followThroughDue = bn_followedThroughAt b = None \<and> hours \<ge> BLOCKED_TASK_FOLLOW_THROUGH_HOURS;
          action = trimmed_or_null (bn_resolutionAction b); owner = trimmed_or_null (bn_resolutionOwner b);
          status = trimmed_or_null (bn_resolutionStatus b);
          due = getDueState (bn_resolutionDueAt b) now;
          tone = blocked_tone b now
      in \<lparr>bz_tone = tone, bz_stale = stale, bz_hoursBlocked = hours,
          bz_followThroughDue = followThroughDue,
          bz_meta = blocked_meta b tone hours, bz_blockedSince = since,
          bz_followUpAt = bn_followUpAt b, bz_followedThroughAt = bn_followedThroughAt b,
          bz_escalatedAt = bn_escalatedAt b, bz_resolutionAction = action, bz_resolutionOwner = owner,
          bz_resolutionDueAt = bn_resolutionDueAt b, bz_resolutionStatus = status,
          bz_dueState = fst due, bz_dueStateLabel = snd due,
          bz_statusLabel = (if status = Some ''escalate'' \<or> bn_escalatedAt b \<noteq> None then ''Escalated plan''
            else if status = Some ''follow-up'' then ''Follow-up plan'' else ''Blocked''),
          bz_escalationLabel = (if bn_escalatedAt b \<noteq> None then Some ''Escalated''
            else if stale then Some ''Escalate now'' else None),
          bz_planSummary = formatPlanSummary action owner (map_option
            (\<lambda>t. (if fst due = Overdue then ''due '' else ''by '') @ iso_string t) (bn_resolutionDueAt b))\<rparr>)"

section \<open>The sweep\<close>

definition blocked_context_of :: "task_row \<Rightarrow> string list \<Rightarrow> blocked_context" where
  "blocked_context_of t titles =
     \<lparr>bn_updatedAt = t_updated_at t, bn_blockedAt = tb_blocked_at (t_blocker t), bn_blockedByCount = length titles,
      bn_blockingTaskTitles = titles, bn_followUpAt = tb_follow_up_at (t_blocker t),
      bn_followedThroughAt = tb_followed_through_at (t_blocker t), bn_escalatedAt = tb_escalated_at (t_blocker t),
      bn_resolutionAction = None, bn_resolutionOwner = None, bn_resolutionDueAt = None, bn_resolutionStatus = None\<rparr>"

definition staleBlockerNeedsEscalation :: "task_row \<Rightarrow> string list \<Rightarrow> timestamp \<Rightarrow> bool" where
  "staleBlockerNeedsEscalation t titles now =
     (let state = getBlockedTaskNotificationState (blocked_context_of t titles) now
      in bz_stale state \<and> bz_escalatedAt state = None)"

text \<open>A candidate of the sweep: the row, its project's title, and the tasks all its dependencies name.\<close>

record sweep_candidate =
  sc_task :: task_row
  sc_project_title :: "string option"
  sc_blockers :: "task_row list"

definition sweep_due :: "task_row \<Rightarrow> bool" where
  "sweep_due t \<longleftrightarrow> t_status t \<in> {Some ''todo'', Some ''in-progress'', Some ''in-review''} \<and>
     tb_blocked_at (t_blocker t) \<noteq> None \<and> tb_escalated_at (t_blocker t) = None"

definition sweep_candidate_of :: "db \<Rightarrow> task_row \<Rightarrow> sweep_candidate" where
  "sweep_candidate_of d t =
     \<lparr>sc_task = t,
      sc_project_title = (case find (\<lambda>p. pj_id p = t_project_id t) (db_projects d) of None \<Rightarrow> None | Some p \<Rightarrow> pj_title p),
      sc_blockers = active_blockers (blocking_rows (\<lambda>_. True) (t_id t) d)\<rparr>"

definition blocked_time :: "task_row \<Rightarrow> timestamp" where
  "blocked_time t = (case tb_blocked_at (t_blocker t) of Some b \<Rightarrow> b | None \<Rightarrow> 0)"

definition q_sweep_candidates :: "sweep_candidate list statement" where
  "q_sweep_candidates d =
     (Inr (map (sweep_candidate_of d) (take 200 (sort_key blocked_time (filter sweep_due (db_tasks d))))), d)"

definition q_escalate :: "string \<Rightarrow> timestamp \<Rightarrow> task_row list statement" where
  "q_escalate taskId now = q_update db_tasks db_tasks_update
     (\<lambda>t. t_id t = taskId \<and> tb_escalated_at (t_blocker t) = None)
     (\<lambda>t. t\<lparr>t_blocker := (t_blocker t)\<lparr>tb_escalated_at := Some now\<rparr>, t_updated_at := now\<rparr>)"

definition sweep_actor :: string where
  "sweep_actor = ''Stale blocker sweep''"

definition sweep_comment :: "task_row \<Rightarrow> string list \<Rightarrow> timestamp \<Rightarrow> comment_fields" where
  "sweep_comment t titles now =
     \<lparr>cm_task_id = t_id t, cm_project_id = t_project_id t, cm_author_agent_id = None, cm_author_name = sweep_actor,
      cm_content = ''Auto-escalated stale blocker on '' @ join '', '' titles, cm_comment_type = ''system'',
      cm_metadata = [(''action'', JStr ''blocker_stale_escalation''), (''blocker_titles'', JArr (map JStr titles)),
        (''acted_at'', JStr (iso_string now)), (''automated'', JBool True)]\<rparr>"

text \<open>The plan, in a line; and the notice to the project's members.\<close>

definition blocker_plan :: "task_blocker \<Rightarrow> string option" where
  "blocker_plan b =
     truthy_or_null (Some (dotted [trimmed_or_null (tb_resolution_action b),
       map_option (\<lambda>w. ''owner: '' @ w) (trimmed_or_null (tb_resolution_owner b)),
       map_option (\<lambda>t. ''follow-up: '' @ iso_string t) (tb_resolution_due_at b)]))"

definition escalation_reason :: "int option \<Rightarrow> string" where
  "escalation_reason hours =
     (case hours of
        Some h \<Rightarrow> if h = 0 then ''The task crossed the stale-blocker escalation threshold.''
          else ''The task has been blocked for '' @ show_int h @ ''h and crossed the stale-blocker escalation threshold.''
      | None \<Rightarrow> ''The task crossed the stale-blocker escalation threshold.'')"

definition jiso :: "timestamp option \<Rightarrow> json" where
  "jiso t = (case t of None \<Rightarrow> JNull | Some x \<Rightarrow> JStr (iso_string x))"

definition stale_data :: "(string \<Rightarrow> string) \<Rightarrow> sweep_candidate \<Rightarrow> string list \<Rightarrow> int option \<Rightarrow> timestamp \<Rightarrow> content" where
  "stale_data url c titles hours now =
     (let t = sc_task c; b = t_blocker t
      in [(''title'', jstr_or_null (t_title t)), (''project_title'', JStr (str_or (sc_project_title c) ''Unknown Project'')),
          (''blocker_titles'', JArr (map JStr titles)),
          (''blocker_summary'', JStr (named_or (filter (\<lambda>s. s \<noteq> []) titles) ''task dependencies'')),
          (''escalated_by'', JStr sweep_actor), (''escalation_reason'', JStr (escalation_reason hours)),
          (''hours_blocked'', (case hours of None \<Rightarrow> JNull | Some h \<Rightarrow> jint h)),
          (''blocked_at'', jiso (tb_blocked_at b)), (''blocker_follow_up_at'', jiso (tb_follow_up_at b)),
          (''blocker_followed_through_at'', jiso (tb_followed_through_at b)), (''blocker_escalated_at'', jiso (Some now)),
          (''blocker_resolution_action'', jstr_or_null (tb_resolution_action b)),
          (''blocker_resolution_owner'', jstr_or_null (tb_resolution_owner b)),
          (''blocker_resolution_due_at'', jiso (tb_resolution_due_at b)),
          (''blocker_resolution_status'', jstr_or_null (tb_resolution_status b)),
          (''blocker_plan'', jstr_or_null (blocker_plan b)),
          (''task_url'', JStr (url (''/projects/'' @ t_project_id t @ ''/tasks/'' @ t_id t)))])"

definition notify_stale :: "(string \<Rightarrow> string) \<Rightarrow> sweep_candidate \<Rightarrow> string list \<Rightarrow> int option \<Rightarrow> timestamp \<Rightarrow> unit prog" where
  "notify_stale url c titles hours now = do {
     memberIds \<leftarrow> getProjectMemberAgentIds (t_project_id (sc_task c));
     (if memberIds \<noteq> [] then deliver (task_event memberIds ''task.blocker_stale'' None (t_project_id (sc_task c))
         (t_id (sc_task c)) (stale_data url c titles hours now))
      else State_Monad.return ())
   }"

datatype sweep_result = SweepSkipped | SweepEscalated

definition sweep_task :: "(string \<Rightarrow> string) \<Rightarrow> bool \<Rightarrow> timestamp \<Rightarrow> sweep_candidate \<Rightarrow> sweep_result prog" where
  "sweep_task url dryRun now c = do {
     let titles = blocker_titles (sc_blockers c);
     moment \<leftarrow> clock;
     if titles = [] \<or> \<not> staleBlockerNeedsEscalation (sc_task c) titles moment then State_Monad.return SweepSkipped
     else if dryRun then State_Monad.return SweepEscalated
     else do {
       updated \<leftarrow> call (q_escalate (t_id (sc_task c)) now);
       if rows_of updated = [] then State_Monad.return SweepEscalated
       else do {
         insert_comments [sweep_comment (sc_task c) titles now];
         notify_stale url c titles (map_option (\<lambda>b. max 0 ((now - b) div (1000 * 60 * 60))) (tb_blocked_at (t_blocker (sc_task c)))) now;
         State_Monad.return SweepEscalated
       }
     }
   }"

fun sweep_tasks :: "(string \<Rightarrow> string) \<Rightarrow> bool \<Rightarrow> timestamp \<Rightarrow> sweep_candidate list \<Rightarrow> sweep_result list prog" where
  "sweep_tasks url dryRun now [] = State_Monad.return []"
| "sweep_tasks url dryRun now (c # cs) = do {
     r \<leftarrow> sweep_task url dryRun now c;
     rs \<leftarrow> sweep_tasks url dryRun now cs;
     State_Monad.return (r # rs)
   }"

text \<open>A failed read ends the sweep.\<close>

definition blocker_sweep :: "(string \<Rightarrow> string) \<Rightarrow> bool \<Rightarrow> sweep_result list option prog" where
  "blocker_sweep url dryRun = do {
     now \<leftarrow> clock;
     rows \<leftarrow> call q_sweep_candidates;
     case rows of
       Inl _ \<Rightarrow> State_Monad.return None
     | Inr cs \<Rightarrow> do { rs \<leftarrow> sweep_tasks url dryRun now cs; State_Monad.return (Some rs) }
   }"

end
