(* ===== verification/StaleRuns.thy ===== *)
theory StaleRuns
  imports TaskBlockers
begin

text \<open>
  Runs that stopped reporting: the database function that cancels them and releases their tasks
  (\<open>migrations/20260917210000_reap_stale_execution_runs.sql\<close>), and the script that calls it and tells the project
  (\<open>scripts/stale-run-sweep.ts\<close>). The two settings of the script are parameters.
\<close>

definition heard_of :: "run_row \<Rightarrow> timestamp" where
  "heard_of r = (case r_heartbeat_at r of Some t \<Rightarrow> t | None \<Rightarrow> (case r_started_at r of Some t \<Rightarrow> t | None \<Rightarrow> r_created_at r))"

definition is_stale :: "int \<Rightarrow> timestamp \<Rightarrow> run_row \<Rightarrow> bool" where
  "is_stale minutes now r \<longleftrightarrow> \<not> finished (r_status r) \<and> heard_of r < now - minutes * 60000"

text \<open>The conversion to an integer rounds.\<close>

definition silent_minutes :: "timestamp \<Rightarrow> run_row \<Rightarrow> int" where
  "silent_minutes now r = (2 * max 0 (now - heard_of r) + 60000) div 120000"

record reaped_run =
  rp_run_id :: string
  rp_task_id :: string
  rp_project_id :: string
  rp_agent_id :: string
  rp_previous_status :: run_status
  rp_heartbeat_at :: "timestamp option"
  rp_silent_minutes :: int

definition reaped_of :: "timestamp \<Rightarrow> run_row \<Rightarrow> reaped_run" where
  "reaped_of now r = \<lparr>rp_run_id = r_id r, rp_task_id = r_task_id r, rp_project_id = r_project_id r, rp_agent_id = r_agent_id r,
     rp_previous_status = r_status r, rp_heartbeat_at = r_heartbeat_at r, rp_silent_minutes = silent_minutes now r\<rparr>"

definition stale_runs :: "int \<Rightarrow> nat \<Rightarrow> db \<Rightarrow> run_row list" where
  "stale_runs minutes limit d = take limit (sort_key heard_of (filter (is_stale minutes (db_now d)) (db_runs d)))"

definition cancelled_run :: "timestamp \<Rightarrow> run_row \<Rightarrow> run_row" where
  "cancelled_run now r = r\<lparr>r_status := RCancelled, r_completed_at := Some now, r_updated_at := now,
     r_error_message := (case r_error_message r of Some e \<Rightarrow> Some e
       | None \<Rightarrow> Some (''No heartbeat for '' @ show_int (silent_minutes now r) @
           '' minutes; cancelled by the stale-run sweep. This records that the run stopped reporting, not that its work failed.''))\<rparr>"

definition released_task :: "timestamp \<Rightarrow> task_row \<Rightarrow> task_row" where
  "released_task now t = t\<lparr>t_snapshot := (t_snapshot t)\<lparr>ts_active_run_id := None, ts_execution_status := EIdle,
     ts_completed_at := Some now\<rparr>, t_updated_at := now\<rparr>"

definition holds_task :: "run_row list \<Rightarrow> task_row \<Rightarrow> bool" where
  "holds_task rs t \<longleftrightarrow> (\<exists>r\<in>set rs. r_task_id r = t_id t \<and> active_run t = Some (r_id r))"

definition reap_stale_execution_runs :: "int \<Rightarrow> nat \<Rightarrow> bool \<Rightarrow> reaped_run list statement" where
  "reap_stale_execution_runs minutes limit dryRun d =
     (let rs = stale_runs minutes limit d; now = db_now d
      in (Inr (map (reaped_of now) rs),
          if dryRun then d
          else d\<lparr>db_runs := map (\<lambda>r. if r_id r \<in> r_id ` set rs then cancelled_run now r else r) (db_runs d),
                 db_tasks := map (\<lambda>t. if holds_task rs t then released_task now t else t) (db_tasks d)\<rparr>))"

definition stale_run_data :: "int \<Rightarrow> reaped_run \<Rightarrow> content" where
  "stale_run_data minutes r =
     [(''run_id'', JStr (rp_run_id r)), (''task_id'', JStr (rp_task_id r)), (''project_id'', JStr (rp_project_id r)),
      (''agent_id'', JStr (rp_agent_id r)), (''previous_status'', JStr (run_status_name (rp_previous_status r))),
      (''status'', JStr ''cancelled''),
      (''heartbeat_at'', case rp_heartbeat_at r of None \<Rightarrow> JNull | Some t \<Rightarrow> JStr (iso_string t)),
      (''silent_minutes'', jint (rp_silent_minutes r)), (''stale_after_minutes'', jint minutes),
      (''task_released'', JBool True), (''work_failed'', JBool False),
      (''reason'', JStr ''run stopped heartbeating; it was cancelled and its task released'')]"

text \<open>The task's id goes where the contract's belongs.\<close>

definition stale_run_event :: "string list \<Rightarrow> int \<Rightarrow> reaped_run \<Rightarrow> webhook_event" where
  "stale_run_event targets minutes r =
     \<lparr>we_targets = targets, we_event = ''task.run_stale'', we_contract_id = Some (rp_task_id r), we_project_id = None,
      we_task_id = None, we_sprint_id = None, we_approval_id = None, we_data = stale_run_data minutes r\<rparr>"

fun tell_of_runs :: "int \<Rightarrow> reaped_run list \<Rightarrow> unit prog" where
  "tell_of_runs minutes [] = State_Monad.return ()"
| "tell_of_runs minutes (r # rs) = do {
     members \<leftarrow> getProjectMemberAgentIds (rp_project_id r);
     let recipients = js_set (filter (\<lambda>a. a \<noteq> []) (rp_agent_id r # members));
     (if recipients = [] then State_Monad.return () else deliver (stale_run_event recipients minutes r));
     tell_of_runs minutes rs
   }"

text \<open>\<open>None\<close>: the function failed, and the script ends with an error.\<close>

definition stale_run_sweep :: "int \<Rightarrow> nat \<Rightarrow> bool \<Rightarrow> reaped_run list option prog" where
  "stale_run_sweep minutes limit dryRun = do {
     r \<leftarrow> call (reap_stale_execution_runs minutes limit dryRun);
     case r of
       Inl _ \<Rightarrow> State_Monad.return None
     | Inr reaped \<Rightarrow> do {
         (if dryRun then State_Monad.return () else tell_of_runs minutes reaped);
         State_Monad.return (Some reaped)
       }
   }"

section \<open>What the function leaves\<close>

text \<open>When it may take them all, no run is stale afterwards and no task is held by one that was.\<close>

lemma all_stale_taken:
  assumes "length (filter (is_stale minutes (db_now d)) (db_runs d)) \<le> limit"
  shows "set (stale_runs minutes limit d) = {r \<in> set (db_runs d). is_stale minutes (db_now d) r}"
  using assms by (simp add: stale_runs_def)

lemma cancelled_not_stale: "\<not> is_stale m now (cancelled_run t r)"
  by (simp add: is_stale_def cancelled_run_def finished_def)

lemma reap_leaves_none:
  assumes "length (filter (is_stale minutes (db_now d)) (db_runs d)) \<le> limit"
  shows "filter (is_stale minutes (db_now d)) (db_runs (snd (reap_stale_execution_runs minutes limit False d))) = []"
  using all_stale_taken [OF assms] cancelled_not_stale
  by (auto simp: reap_stale_execution_runs_def Let_def filter_empty_conv)

lemma reap_keeps_time: "db_now (snd (reap_stale_execution_runs minutes limit dry d)) = db_now d"
  by (simp add: reap_stale_execution_runs_def Let_def)

lemma reap_releases:
  assumes "r \<in> set (stale_runs minutes limit d)" "t \<in> set (db_tasks (snd (reap_stale_execution_runs minutes limit False d)))"
    "t_id t = r_task_id r"
  shows "active_run t \<noteq> Some (r_id r)"
  using assms by (auto simp: reap_stale_execution_runs_def Let_def holds_task_def released_task_def active_run_def split: if_splits)

end
