(* ===== verification/TaskBriefs.thy ===== *)
theory TaskBriefs
  imports HandoffResume JsonText
begin

text \<open>
  What a contract about a task says: the title and the description of a handoff
  (\<open>src/lib/handoff-contracts.ts\<close>) and of an escalation to a broker (\<open>src/lib/escalation-brokerage.ts\<close>),
  built from the task, its run, its checkpoints, its attachments and the contracts before it; and the
  provenance a run's metadata tells of an escalation.
\<close>

record contract_summary =
  hs_contractId :: string
  hs_title :: string
  hs_status :: string
  hs_linkedTaskId :: "string option"
  hs_linkedTaskTitle :: "string option"

text \<open>\<open>null\<close> in a template.\<close>

definition shown :: "string option \<Rightarrow> string" where
  "shown s = (case s of None \<Rightarrow> ''null'' | Some x \<Rightarrow> x)"

definition ticked :: "string \<Rightarrow> string" where
  "ticked s = ''`'' @ s @ ''`''"

definition bold :: "string \<Rightarrow> string" where
  "bold s = ''**'' @ s @ ''**''"

definition jsonFence :: "json \<Rightarrow> string" where
  "jsonFence v = nl @ nl @ ''```json'' @ nl @ pretty 0 (if v = JNull then JObj [] else v) @ nl @ ''```''"

section \<open>Parts both descriptions have\<close>

definition delivery_context :: "task_row \<Rightarrow> run_row option \<Rightarrow> string list" where
  "delivery_context task rn =
     [''## Delivery context'', [],
      ''- Task ID: '' @ ticked (t_id task), ''- Task status: '' @ ticked (shown (t_status task)),
      ''- Task priority: '' @ ticked (t_priority task),
      ''- Execution status: '' @ ticked (exec_status_name (ts_execution_status (t_snapshot task)))] @
     (if truthy_str (active_run task) then [''- Active run ID: '' @ ticked (shown (active_run task))] else []) @
     (case rn of None \<Rightarrow> []
      | Some r \<Rightarrow> [''- Current run attempt: '' @ ticked (show_int (r_attempt r)),
                    ''- Current run status: '' @ ticked (run_status_name (r_status r))]) @
     (if truthy_str (t_due_date task) then [''- Due date: '' @ shown (t_due_date task)] else []) @
     (if t_labels task \<noteq> [] then [''- Labels: '' @ join '', '' (map ticked (t_labels task))] else [])"

definition task_description :: "task_row \<Rightarrow> string list" where
  "task_description task =
     (if truthy_str (t_description task) then [[], ''## Task description'', [], shown (t_description task)] else [])"

definition latest_summary :: "task_row \<Rightarrow> run_row option \<Rightarrow> string \<Rightarrow> string" where
  "latest_summary task rn fallback =
     (if truthy_str (ts_last_checkpoint_summary (t_snapshot task)) then
        ''Latest checkpoint summary: '' @ bold (shown (ts_last_checkpoint_summary (t_snapshot task)))
      else if truthy_str (Option.bind rn r_summary) then
        ''Latest run summary: '' @ bold (shown (Option.bind rn r_summary))
      else fallback)"

definition run_note :: "run_row option \<Rightarrow> string list" where
  "run_note rn =
     (if truthy_str (Option.bind rn r_error_message)
      then [[], ''Current run note/error: '' @ shown (Option.bind rn r_error_message)] else [])"

text \<open>\<open>payload && Object.keys(payload).length > 0\<close>.\<close>

definition latest_payload :: "task_row \<Rightarrow> string list" where
  "latest_payload task =
     (let payload = ts_last_checkpoint_payload (t_snapshot task)
      in if object_entries payload \<noteq> [] then [[], ''### Latest checkpoint payload'', jsonFence payload] else [])"

definition checkpoint_line :: "checkpoint_row \<Rightarrow> string" where
  "checkpoint_line c =
     ''- #'' @ show_int (ck_sequence c) @ '' '' @ ticked (ck_key c) @ '' '' @ em_dash @ '' '' @
     str_or (ck_summary c) ''No summary'' @ '' ('' @ iso_string (ck_created_at c) @ '')'' @
     (if ck_attachment_ids c \<noteq> []
      then '' '' @ middle_dot @ '' '' @ show_nat (length (ck_attachment_ids c)) @ '' attachment(s)'' else [])"

definition recent_checkpoints :: "checkpoint_row list \<Rightarrow> string list" where
  "recent_checkpoints cs =
     (if cs = [] then [] else [[], ''## Recent checkpoints'', []] @ map checkpoint_line (take 5 cs))"

definition attachment_line :: "attachment_row \<Rightarrow> string" where
  "attachment_line a =
     ''- '' @ ticked (at_id a) @ '' '' @ em_dash @ '' '' @ bold (str_or (Some (at_original_name a)) (at_filename a)) @
     '' ('' @ at_mime_type a @ '', '' @ show_nat (at_size_bytes a) @ '' bytes, uploaded '' @ iso_string (at_created_at a) @ '')''"

definition task_artifacts :: "attachment_row list \<Rightarrow> string list \<Rightarrow> string list" where
  "task_artifacts as' note =
     (if as' = [] then []
      else [[], ''## Available task artifacts'', []] @ map attachment_line (take 10 as') @ note)"

definition prior_line :: "contract_summary \<Rightarrow> string" where
  "prior_line h =
     ''- '' @ ticked (hs_contractId h) @ '' '' @ em_dash @ '' '' @ bold (hs_title h) @ '' ['' @ hs_status h @ '']'' @
     (if truthy_str (hs_linkedTaskId h) then '' linked task '' @ ticked (shown (hs_linkedTaskId h)) else [])"

definition convenience_copy :: string where
  "convenience_copy =
     ''This list is a convenience copy, capped at five and written once. The chain itself is recorded as `delegates_to` contract links '' @
     em_dash @ '' read it with `holloway contract-relations <contract-id>`, which stays correct if this description is later edited.''"

definition prior_contracts :: "string \<Rightarrow> contract_summary list \<Rightarrow> string list" where
  "prior_contracts heading hs =
     (if hs = [] then [] else [[], heading, []] @ map prior_line (take 5 hs) @ [[], convenience_copy])"

section \<open>Handoffs\<close>

definition buildHandoffContractTitle :: "string option \<Rightarrow> string" where
  "buildHandoffContractTitle taskTitle = ''Handoff '' @ middle_dot @ '' '' @ shown taskTitle"

definition buildHandoffContractDescription ::
  "task_row \<Rightarrow> run_row option \<Rightarrow> checkpoint_row list \<Rightarrow> attachment_row list \<Rightarrow> contract_summary list \<Rightarrow> string" where
  "buildHandoffContractDescription task rn checkpoints attachments priorHandoffs = join nl (
     [''## Task handoff'', [],
      ''This contract is the formal handoff surface for task '' @ bold (shown (t_title task)) @ ''.'',
      ''The task remains the execution source of truth; this contract carries the transfer brief, latest checkpoint context, and artifact pointers needed for the next agent/operator to take over cleanly.'',
      []] @
     delivery_context task rn @ task_description task @
     [[], ''## Handoff brief'', [],
      latest_summary task rn ''No checkpoint summary was recorded yet. Inspect the linked task and active run before resuming.''] @
     run_note rn @ latest_payload task @ recent_checkpoints checkpoints @
     task_artifacts attachments
       [[], ''Use the linked task/contract attachment endpoints to inspect or extend artifacts during the handoff.''] @
     prior_contracts ''## Prior handoff contracts'' priorHandoffs @
     [[], ''## Acceptance expectations'', [],
      ''- Accept this contract only if you are taking ownership of the next execution step.'',
      ''- Once accepted, continue the task through the linked project task execution run/checkpoint surfaces.'',
      ''- If new artifacts are needed, upload them against the linked task or this contract after the handoff is active.''])"

section \<open>Escalations\<close>

definition buildBrokeredCollaborationTitle :: "string option \<Rightarrow> string" where
  "buildBrokeredCollaborationTitle taskTitle = ''Escalation '' @ middle_dot @ '' '' @ shown taskTitle"

text \<open>The reason and the intervention are what a request says, any JSON value.\<close>

definition text_or :: "jvalue \<Rightarrow> string \<Rightarrow> string" where
  "text_or v fallback = (if falsy v then fallback else js_string_of v)"

definition escalation_request :: "jvalue \<Rightarrow> jvalue \<Rightarrow> string list \<Rightarrow> string list" where
  "escalation_request reason intervention brokerNames =
     [''## Escalation request'', [],
      ''- Escalation reason: '' @ text_or reason ''No explicit reason captured; inspect the linked task/checkpoints.'',
      ''- Requested intervention: '' @ text_or intervention ''Broker to inspect blockers/risks and coordinate the next safe step.'',
      ''- Desired collaboration mode: `brokered-collaboration`''] @
     (if brokerNames \<noteq> [] then [''- Requested broker(s): '' @ join '', '' (map ticked brokerNames)] else [])"

definition buildBrokeredCollaborationDescription ::
  "task_row \<Rightarrow> run_row option \<Rightarrow> checkpoint_row list \<Rightarrow> attachment_row list \<Rightarrow> contract_summary list \<Rightarrow>
   jvalue \<Rightarrow> jvalue \<Rightarrow> string list \<Rightarrow> string" where
  "buildBrokeredCollaborationDescription task rn checkpoints attachments prior reason intervention brokerNames = join nl (
     [''## Task escalation'', [],
      ''This contract is the formal escalation / brokered collaboration surface for task '' @ bold (shown (t_title task)) @ ''.'',
      ''The task remains the execution source of truth. This contract exists so a broker/mediator can intervene intentionally without muddling executor ownership, observer analysis, or task provenance.'',
      []] @
     delivery_context task rn @ [[]] @ escalation_request reason intervention brokerNames @ task_description task @
     [[], ''## Latest execution context'', [],
      latest_summary task rn ''No checkpoint summary was recorded yet. Inspect the linked task and active run before brokering a resolution.''] @
     run_note rn @ latest_payload task @ recent_checkpoints checkpoints @ task_artifacts attachments [] @
     prior_contracts ''## Prior escalation / broker contracts'' prior @
     [[], ''## Collaboration expectations'', [],
      ''- Accept this contract only if you are intentionally entering as a broker / mediator for this escalation.'',
      ''- The current executor/owner provenance must remain visible; brokering should coordinate or de-risk, not silently seize authorship.'',
      ''- Use task comments, execution run metadata, checkpoints, and contract messages to record blockers, intervention, and next-step decisions explicitly.'',
      ''- If execution ownership later transfers, that should still happen through the task execution surfaces with durable provenance.''])"

section \<open>What metadata tells of an escalation\<close>

record brokerage =
  eb_escalationRequestedByAgentId :: "string option"
  eb_escalationRequestedAt :: "string option"
  eb_escalationReason :: "string option"
  eb_requestedIntervention :: "string option"
  eb_brokerAgentId :: "string option"
  eb_brokerAssignedAt :: "string option"
  eb_brokeredFromRunId :: "string option"
  eb_brokeredFromCheckpointId :: "string option"
  eb_brokeredFromCheckpointKey :: "string option"
  eb_brokeredFromSummary :: "string option"
  eb_brokerContractId :: "string option"
  eb_collaborationMode :: "string option"
  eb_escalationStatus :: "string option"

definition pickString :: "jvalue \<Rightarrow> string option" where
  "pickString v = (case as_string v of Some s \<Rightarrow> if js_trim s \<noteq> [] then Some s else None | None \<Rightarrow> None)"

definition getEscalationBrokerageProvenance :: "jvalue \<Rightarrow> brokerage option" where
  "getEscalationBrokerageProvenance metadata =
     (if \<not> is_object metadata then None
      else let pick = (\<lambda>k. pickString (jprop metadata k));
               contractId = (case pick ''broker_contract_id'' of Some s \<Rightarrow> Some s | None \<Rightarrow> pick ''escalation_contract_id'')
           in if pick ''escalation_requested_by_agent_id'' = None \<and> pick ''escalation_reason'' = None \<and>
                 pick ''requested_intervention'' = None \<and> pick ''broker_agent_id'' = None \<and> contractId = None \<and>
                 pick ''collaboration_mode'' \<noteq> Some ''brokered-collaboration''
              then None
              else Some
                \<lparr>eb_escalationRequestedByAgentId = pick ''escalation_requested_by_agent_id'',
                 eb_escalationRequestedAt = pick ''escalation_requested_at'',
                 eb_escalationReason = pick ''escalation_reason'',
                 eb_requestedIntervention = pick ''requested_intervention'',
                 eb_brokerAgentId = pick ''broker_agent_id'', eb_brokerAssignedAt = pick ''broker_assigned_at'',
                 eb_brokeredFromRunId = pick ''brokered_from_run_id'',
                 eb_brokeredFromCheckpointId = pick ''brokered_from_checkpoint_id'',
                 eb_brokeredFromCheckpointKey = pick ''brokered_from_checkpoint_key'',
                 eb_brokeredFromSummary = pick ''brokered_from_summary'', eb_brokerContractId = contractId,
                 eb_collaborationMode = pick ''collaboration_mode'', eb_escalationStatus = pick ''escalation_status''\<rparr>)"

text \<open>
  A description written here is recognised as the kind it is, whatever the caller calls the contract.
\<close>

lemma to_lower_append: "to_lower (a @ b) = to_lower a @ to_lower b"
  by (simp add: to_lower_def)

lemma recognised_by_opening:
  assumes "d = opening @ rest" "to_lower opening = mark"
  shows "str_includes (to_lower d) mark"
  using assms by (auto simp: to_lower_append str_includes_iff intro: exI [where x = "[]"])

lemma handoff_opening: "to_lower ''## Task handoff'' = ''## task handoff''"
  by code_simp

lemma escalation_opening: "to_lower ''## Task escalation'' = ''## task escalation''"
  by code_simp

lemma text_itself: "str_or (Some d) [] = d"
  by (simp add: str_or_def)

lemma join_opening: "\<exists>rest. join sep ((x # xs) @ ys) = x @ rest"
  by (cases "xs @ ys") auto

lemma handoff_description_recognised:
  "isLikelyHandoffContract title (Some (buildHandoffContractDescription t r cs as' hs))"
proof -
  have "\<exists>rest. buildHandoffContractDescription t r cs as' hs = ''## Task handoff'' @ rest"
    unfolding buildHandoffContractDescription_def by (rule join_opening)
  then obtain rest where "buildHandoffContractDescription t r cs as' hs = ''## Task handoff'' @ rest" ..
  from recognised_by_opening [OF this handoff_opening] show ?thesis
    by (simp only: isLikelyHandoffContract_def text_itself) blast
qed

lemma escalation_description_recognised:
  "isLikelyBrokerContract title (Some (buildBrokeredCollaborationDescription t r cs as' hs re i ns))"
proof -
  have "\<exists>rest. buildBrokeredCollaborationDescription t r cs as' hs re i ns = ''## Task escalation'' @ rest"
    unfolding buildBrokeredCollaborationDescription_def by (rule join_opening)
  then obtain rest where "buildBrokeredCollaborationDescription t r cs as' hs re i ns = ''## Task escalation'' @ rest" ..
  from recognised_by_opening [OF this escalation_opening] show ?thesis
    by (simp only: isLikelyBrokerContract_def text_itself) blast
qed

end
