(* ===== verification/TaskContracts.thy ===== *)
theory TaskContracts
  imports Agents Proposals TaskBriefs TaskBlockers
begin

text \<open>
  The contracts a task is created or changed with: a handoff to invitees, an escalation to brokers (the blocks that
  \<open>src/app/api/v1/projects/[id]/tasks/route.ts\<close> and \<open>tasks/[tid]/route.ts\<close> have twice each). Who may be asked, the
  rows that are inserted and taken back when one fails, the contracts before it, and what is written on the task's run.
\<close>

datatype task_contract_kind = ForHandoff | ForEscalation

fun kind_name :: "task_contract_kind \<Rightarrow> string" where
  "kind_name ForHandoff = ''handoff''"
| "kind_name ForEscalation = ''escalation''"

fun contract_key :: "task_contract_kind \<Rightarrow> string" where
  "contract_key ForHandoff = ''handoff_contract''"
| "contract_key ForEscalation = ''escalation_contract''"

fun names_key :: "task_contract_kind \<Rightarrow> string" where
  "names_key ForHandoff = ''invitees''"
| "names_key ForEscalation = ''brokers''"

fun contract_id_key :: "task_contract_kind \<Rightarrow> string" where
  "contract_id_key ForHandoff = ''handoff_contract_id''"
| "contract_id_key ForEscalation = ''escalation_contract_id''"

section \<open>What is asked for\<close>

definition asked_contract :: "task_contract_kind \<Rightarrow> json \<Rightarrow> json option" where
  "asked_contract k j = (let v = jprop (Some j) (contract_key k) in if falsy v then None else v)"

definition asked_names :: "task_contract_kind \<Rightarrow> json \<Rightarrow> json list" where
  "asked_names k c = (case jprop (Some c) (names_key k) of Some (JArr xs) \<Rightarrow> xs | _ \<Rightarrow> [])"

definition names_refusal :: "task_contract_kind \<Rightarrow> json \<Rightarrow> 'b response option" where
  "names_refusal k j =
     (case asked_contract k j of
        None \<Rightarrow> None
      | Some c \<Rightarrow> if asked_names k c = [] then
            Some (reply_error 400 (contract_key k @ ''.'' @ names_key k @ '' must be a non-empty array'') ''VALIDATION_ERROR'')
          else None)"

definition asked_hours :: "task_contract_kind \<Rightarrow> json \<Rightarrow> expiry_check" where
  "asked_hours k j = validateExpiresInHours (jprop (jprop (Some j) (contract_key k)) ''expires_in_hours'')
     (contract_key k @ ''.expires_in_hours'')"

text \<open>\<open>[...new Set(names.map(n => n.trim()).filter(Boolean))]\<close>; what is no text has no \<open>trim\<close>.\<close>

definition trimmed_names :: "json list \<Rightarrow> string list option" where
  "trimmed_names xs =
     (if list_all (\<lambda>x. as_string (Some x) \<noteq> None) xs
      then Some (js_set (filter (\<lambda>s. s \<noteq> []) (map js_trim (List.map_filter (\<lambda>x. as_string (Some x)) xs))))
      else None)"

section \<open>Who may be asked\<close>

fun self_error :: "task_contract_kind \<Rightarrow> string" where
  "self_error ForHandoff = ''Cannot invite yourself to a handoff contract''"
| "self_error ForEscalation = ''Cannot broker-escalate to yourself''"

fun people_of :: "task_contract_kind \<Rightarrow> string" where
  "people_of ForHandoff = ''handoff invitees''"
| "people_of ForEscalation = ''escalation brokers''"

fun unknown_people :: "task_contract_kind \<Rightarrow> string" where
  "unknown_people ForHandoff = ''Unknown handoff invitee(s): ''"
| "unknown_people ForEscalation = ''Unknown escalation broker(s): ''"

fun gate_of :: "task_contract_kind \<Rightarrow> policy_agent \<Rightarrow> policy_agent \<Rightarrow> string + gate_result" where
  "gate_of ForHandoff = evaluateHandoffInvite"
| "gate_of ForEscalation = evaluateEscalationBroker"

definition agents_named :: "task_contract_kind \<Rightarrow> request \<Rightarrow> string list \<Rightarrow> ('b response + agent_row list) prog" where
  "agents_named k req names =
     (if ag_name (rq_agent req) \<in> set names then State_Monad.return (Inl (reply_error 400 (self_error k) ''VALIDATION_ERROR''))
      else do {
        r \<leftarrow> call (q_select db_agents (\<lambda>a. ag_name a \<in> set names));
        State_Monad.return (case r of
            Inl _ \<Rightarrow> Inl (reply_error 500 (''Failed to validate '' @ people_of k) ''DB_ERROR'')
          | Inr found \<Rightarrow>
              (let missing = filter (\<lambda>n. n \<notin> ag_name ` set found) names
               in if missing \<noteq> [] then Inl (reply_error 400 (unknown_people k @ join '', '' missing) ''INVALID_INVITEES'')
                  else Inr found))
      })"

fun trust_refusal :: "task_contract_kind \<Rightarrow> agent_row \<Rightarrow> agent_row list \<Rightarrow> 'b response option" where
  "trust_refusal k caller [] = None"
| "trust_refusal k caller (a # rest) =
     (case gate_of k (policy_agent_of caller) (policy_agent_of a) of
        Inl e \<Rightarrow> Some (Thrown e)
      | Inr g \<Rightarrow> if gr_allowed g then trust_refusal k caller rest
          else Some (reply_error 403 (ag_name a @ '': '' @ (case gr_reason g of Some s \<Rightarrow> s | None \<Rightarrow> ''undefined'')) ''TRUST_TIER_BLOCKED''))"

text \<open>The names alone, and the names with the trust gate. The result names whom is asked.\<close>

definition check_names :: "task_contract_kind \<Rightarrow> request \<Rightarrow> json \<Rightarrow> ('b response + string list \<times> agent_row list) prog" where
  "check_names k req j =
     (case asked_contract k j of
        None \<Rightarrow> State_Monad.return (Inr ([], []))
      | Some c \<Rightarrow> (case trimmed_names (asked_names k c) of
          None \<Rightarrow> State_Monad.return (Inl (Thrown ''TypeError''))
        | Some names \<Rightarrow> do {
            r \<leftarrow> agents_named k req names;
            State_Monad.return (map_sum id (\<lambda>found. (names, found)) r)
          }))"

definition check_agents :: "task_contract_kind \<Rightarrow> request \<Rightarrow> json \<Rightarrow> ('b response + string list \<times> agent_row list) prog" where
  "check_agents k req j = do {
     r \<leftarrow> check_names k req j;
     State_Monad.return (case r of
         Inl e \<Rightarrow> Inl e
       | Inr (names, found) \<Rightarrow> (case trust_refusal k (rq_agent req) found of
           Some e \<Rightarrow> Inl e
         | None \<Rightarrow> Inr (names, found)))
   }"

section \<open>The rows\<close>

definition asked_terms :: "driver \<Rightarrow> json \<Rightarrow> string \<Rightarrow> string \<Rightarrow> rat \<Rightarrow> proposal_terms" where
  "asked_terms dv c title description hours =
     \<lparr>pt_title = (if falsy (jprop (Some c) ''title'') then JStr title else the (jprop (Some c) ''title'')),
      pt_invitees = [], pt_observers = [],
      pt_description = (if falsy (jprop (Some c) ''description'') then Some description
        else column_text (dv_text dv) (jprop (Some c) ''description'')),
      pt_hours = hours, pt_max_turns = json_or (jprop (Some c) ''max_turns'') (jint 30), pt_schema = None, pt_approval = False\<rparr>"

definition q_link_task :: "string \<Rightarrow> string \<Rightarrow> task_contract_row list statement" where
  "q_link_task taskId contractId d =
     (if taskId \<notin> t_id ` set (db_tasks d) \<or> contractId \<notin> c_id ` set (db_contracts d) then (Inl foreign_key_violation, d)
      else q_insert db_task_contracts db_task_contracts_update
        (\<lambda>n r. tk_task_id n = tk_task_id r \<and> tk_contract_id n = tk_contract_id r)
        [\<lparr>tk_task_id = taskId, tk_contract_id = contractId\<rparr>] d)"

definition drop_contract :: "string \<Rightarrow> unit prog" where
  "drop_contract contractId = do {
     _ \<leftarrow> call (q_delete_contract contractId);
     State_Monad.return ()
   }"

definition drop_participants :: "string \<Rightarrow> unit prog" where
  "drop_participants contractId = do {
     _ \<leftarrow> call (q_delete db_participants db_participants_update (\<lambda>p. p_contract_id p = contractId));
     State_Monad.return ()
   }"

text \<open>\<open>undo\<close> is what else is taken back: the new task when it is being created, nothing when it is changed.\<close>

definition could_not :: "unit prog \<Rightarrow> string \<Rightarrow> ('b response + 'c) prog" where
  "could_not undo msg = do {
     undo;
     State_Monad.return (Inl (reply_error 500 msg ''DB_ERROR''))
   }"

definition contract_linked ::
  "task_contract_kind \<Rightarrow> string \<Rightarrow> unit prog \<Rightarrow> contract_row \<Rightarrow> timestamp \<Rightarrow> ('b response + contract_row \<times> timestamp) prog" where
  "contract_linked k taskId undo contract expiresAt = do {
     linked \<leftarrow> call (q_link_task taskId (c_id contract));
     case linked of
       Inl _ \<Rightarrow> could_not (do { drop_participants (c_id contract); drop_contract (c_id contract); undo })
         (''Failed to link '' @ kind_name k @ '' contract to task'')
     | Inr _ \<Rightarrow> State_Monad.return (Inr (contract, expiresAt))
   }"

definition propose_for_task ::
  "driver \<Rightarrow> task_contract_kind \<Rightarrow> request \<Rightarrow> string \<Rightarrow> unit prog \<Rightarrow> proposal_terms \<Rightarrow> agent_row list \<Rightarrow>
   ('b response + contract_row \<times> timestamp) prog" where
  "propose_for_task dv k req taskId undo terms invited = do {
     now \<leftarrow> clock;
     let expiresAt = expires_at_of now (pt_hours terms);
     r \<leftarrow> call (shaped shape_single (q_insert_contract (dv_text dv) (dv_int dv) (ag_id (rq_agent req)) terms None expiresAt));
     case data_of r of
       None \<Rightarrow> could_not undo (''Failed to create '' @ kind_name k @ '' contract'')
     | Some contract \<Rightarrow> do {
         responded \<leftarrow> clock;
         inserted \<leftarrow> call (q_insert_participants (c_id contract)
           (proposed_participants (c_id contract) (ag_id (rq_agent req)) invited [] responded));
         case inserted of
           Inl _ \<Rightarrow> could_not (do { drop_contract (c_id contract); undo })
             (''Failed to create '' @ kind_name k @ '' contract participants'')
         | Inr _ \<Rightarrow> contract_linked k taskId undo contract expiresAt
       }
   }"

section \<open>What is said of it\<close>

definition handoff_data :: "request \<Rightarrow> contract_row \<Rightarrow> timestamp \<Rightarrow> content" where
  "handoff_data req c expiresAt =
     [(''title'', JStr (c_title c)), (''proposer'', JStr (ag_name (rq_agent req))),
      (''expires_at'', JStr (iso_string expiresAt)), (''handoff'', JBool True)] @ invitationGuidance (c_id c)"

definition escalation_data :: "request \<Rightarrow> contract_row \<Rightarrow> timestamp \<Rightarrow> json \<Rightarrow> json \<Rightarrow> content" where
  "escalation_data req c expiresAt reason intervention =
     [(''title'', JStr (c_title c)), (''proposer'', JStr (ag_name (rq_agent req))),
      (''expires_at'', JStr (iso_string expiresAt)), (''escalation'', JBool True), (''brokered_collaboration'', JBool True),
      (''escalation_reason'', reason), (''requested_intervention'', intervention)] @ invitationGuidance (c_id c)"

definition invite_to_task :: "string \<Rightarrow> string \<Rightarrow> contract_row \<Rightarrow> agent_row list \<Rightarrow> content \<Rightarrow> unit prog" where
  "invite_to_task projectId taskId c invited data =
     deliver (task_event (map ag_id invited) ''invitation'' (Some (c_id c)) projectId taskId data)"

definition agent_title :: "agent_row \<Rightarrow> string" where
  "agent_title a = str_or (Some (ag_display_name a)) (ag_name a)"

definition system_comment :: "request \<Rightarrow> string \<Rightarrow> string \<Rightarrow> string \<Rightarrow> content \<Rightarrow> comment_fields" where
  "system_comment req projectId taskId text metadata =
     \<lparr>cm_task_id = taskId, cm_project_id = projectId, cm_author_agent_id = Some (ag_id (rq_agent req)),
      cm_author_name = agent_title (rq_agent req), cm_content = text, cm_comment_type = ''system'', cm_metadata = metadata\<rparr>"

definition names_json :: "string list \<Rightarrow> json" where
  "names_json names = JArr (map JStr names)"

definition escalation_comment ::
  "request \<Rightarrow> string \<Rightarrow> string \<Rightarrow> contract_row \<Rightarrow> string list \<Rightarrow> agent_row list \<Rightarrow> content \<Rightarrow> comment_fields" where
  "escalation_comment req projectId taskId c names brokers facts = system_comment req projectId taskId
     (''Requested brokered escalation via contract '' @ ticked (c_id c) @ '' for '' @ join '', '' names @ ''.'')
     ([(''escalation_contract_id'', JStr (c_id c)), (''broker_agent_ids'', names_json (map ag_id brokers)),
       (''broker_names'', names_json names), (''escalation_requested_by_agent_id'', JStr (ag_id (rq_agent req)))] @ facts)"

definition escalation_facts :: "timestamp option \<Rightarrow> json \<Rightarrow> json \<Rightarrow> content" where
  "escalation_facts requestedAt reason intervention =
     (case requestedAt of None \<Rightarrow> [] | Some t \<Rightarrow> [(''escalation_requested_at'', JStr (iso_string t))]) @
     [(''escalation_reason'', reason), (''requested_intervention'', intervention),
      (''collaboration_mode'', JStr ''brokered-collaboration''), (''escalation_status'', JStr ''requested'')]"

section \<open>While a task is created\<close>

text \<open>\<open>undo\<close> deletes the task. The result is the contract, when one was asked for.\<close>

definition new_task_handoff ::
  "driver \<Rightarrow> request \<Rightarrow> task_row \<Rightarrow> unit prog \<Rightarrow> json \<Rightarrow> rat \<Rightarrow> agent_row list \<Rightarrow> ('b response + contract_row option) prog" where
  "new_task_handoff dv req task undo j hours invited =
     (case asked_contract ForHandoff j of
        None \<Rightarrow> State_Monad.return (Inr None)
      | Some c \<Rightarrow> do {
          r \<leftarrow> propose_for_task dv ForHandoff req (t_id task) undo
            (asked_terms dv c (buildHandoffContractTitle (t_title task)) (buildHandoffContractDescription task None [] [] []) hours)
            invited;
          case r of
            Inl e \<Rightarrow> State_Monad.return (Inl e)
          | Inr (contract, expiresAt) \<Rightarrow> do {
              invite_to_task (t_project_id task) (t_id task) contract invited (handoff_data req contract expiresAt);
              State_Monad.return (Inr (Some contract))
            }
        })"

definition new_task_escalation ::
  "driver \<Rightarrow> request \<Rightarrow> task_row \<Rightarrow> unit prog \<Rightarrow> json \<Rightarrow> rat \<Rightarrow> agent_row list \<Rightarrow> ('b response + contract_row option) prog" where
  "new_task_escalation dv req task undo j hours brokers =
     (case asked_contract ForEscalation j of
        None \<Rightarrow> State_Monad.return (Inr None)
      | Some c \<Rightarrow> do {
          let reason = json_or (jprop (Some c) ''escalation_reason'') (JStr ''Escalation requested during task creation'');
          let intervention = json_or (jprop (Some c) ''requested_intervention'')
            (JStr ''Broker intervention requested to coordinate next steps safely.'');
          r \<leftarrow> propose_for_task dv ForEscalation req (t_id task) undo
            (asked_terms dv c (buildBrokeredCollaborationTitle (t_title task))
              (buildBrokeredCollaborationDescription task None [] [] [] (Some reason) (Some intervention) (map ag_name brokers)) hours)
            brokers;
          case r of
            Inl e \<Rightarrow> State_Monad.return (Inl e)
          | Inr (contract, expiresAt) \<Rightarrow> do {
              now \<leftarrow> clock;
              insert_comments [escalation_comment req (t_project_id task) (t_id task) contract (map ag_name brokers) brokers
                (escalation_facts (Some now) reason intervention)];
              invite_to_task (t_project_id task) (t_id task) contract brokers
                (escalation_data req contract expiresAt reason intervention);
              State_Monad.return (Inr (Some contract))
            }
        })"

section \<open>While a task is changed\<close>

text \<open>What the brief is made of; a failed read counts as nothing.\<close>

record task_context =
  kx_run :: "run_row option"
  kx_checkpoints :: "checkpoint_row list"
  kx_attachments :: "attachment_row list"
  kx_chain :: "chain_candidate list"

definition or_none :: "'e + 'a list \<Rightarrow> 'a list" where
  "or_none r = (case r of Inl _ \<Rightarrow> [] | Inr xs \<Rightarrow> xs)"

definition candidate_of :: "contract_row \<Rightarrow> chain_candidate" where
  "candidate_of c = \<lparr>ch_id = c_id c, ch_title = c_title c, ch_status = status_name (c_status c),
     ch_description = c_description c, ch_created_at = Some (c_created_at c)\<rparr>"

definition q_task_contracts :: "string \<Rightarrow> contract_row list statement" where
  "q_task_contracts taskId d = (Inr (List.map_filter (\<lambda>k. find (\<lambda>c. c_id c = tk_contract_id k) (db_contracts d))
     (filter (\<lambda>k. tk_task_id k = taskId) (db_task_contracts d))), d)"

definition current_run :: "task_row \<Rightarrow> run_row list \<Rightarrow> run_row option" where
  "current_run task runs =
     (if truthy_str (active_run task) then find (\<lambda>r. Some (r_id r) = active_run task) runs
      else case runs of [] \<Rightarrow> None | r # _ \<Rightarrow> Some r)"

fun is_likely :: "task_contract_kind \<Rightarrow> string \<Rightarrow> string option \<Rightarrow> bool" where
  "is_likely ForHandoff = isLikelyHandoffContract"
| "is_likely ForEscalation = isLikelyBrokerContract"

definition task_context_of :: "task_contract_kind \<Rightarrow> string \<Rightarrow> task_row \<Rightarrow> task_context prog" where
  "task_context_of k projectId task = do {
     runs \<leftarrow> listTaskExecutionRuns (t_id task);
     attachments \<leftarrow> listAttachmentsForScope projectId (Some (t_id task)) None;
     contracts \<leftarrow> call (q_task_contracts (t_id task));
     let activeRun = current_run task (or_none runs);
     checkpoints \<leftarrow> (case activeRun of
         None \<Rightarrow> State_Monad.return (Inr [])
       | Some r \<Rightarrow> listTaskExecutionCheckpoints (r_id r));
     chain \<leftarrow> resolveChainPredecessors (map candidate_of (rows_of contracts)) (is_likely k);
     State_Monad.return \<lparr>kx_run = activeRun, kx_checkpoints = or_none checkpoints, kx_attachments = rows_of attachments,
       kx_chain = chain\<rparr>
   }"

definition prior_of :: "task_row \<Rightarrow> task_context \<Rightarrow> contract_summary list" where
  "prior_of task x = map (\<lambda>c. \<lparr>hs_contractId = ch_id c, hs_title = ch_title c, hs_status = ch_status c,
     hs_linkedTaskId = Some (t_id task), hs_linkedTaskTitle = t_title task\<rparr>) (kx_chain x)"

definition last_of_chain :: "task_context \<Rightarrow> chain_candidate option" where
  "last_of_chain x = (if kx_chain x = [] then None else Some (last (kx_chain x)))"

text \<open>\<open>a ?? b\<close> on texts that may be null.\<close>

definition first_text :: "string option \<Rightarrow> string option \<Rightarrow> string option" where
  "first_text a b = (case a of Some _ \<Rightarrow> a | None \<Rightarrow> b)"

definition mark_run ::
  "request \<Rightarrow> string \<Rightarrow> task_row \<Rightarrow> run_row option \<Rightarrow> run_status \<Rightarrow> string \<Rightarrow> (timestamp \<Rightarrow> content) \<Rightarrow>
   string \<Rightarrow> string \<Rightarrow> (timestamp \<Rightarrow> content) \<Rightarrow> unit prog" where
  "mark_run req projectId task activeRun status fallback metadata key summary payload =
     (case activeRun of
        None \<Rightarrow> State_Monad.return ()
      | Some r \<Rightarrow> do {
          now \<leftarrow> clock;
          _ \<leftarrow> updateTaskExecutionRun (r_id r) (t_id task)
            \<lparr>ru_status = Some status,
             ru_summary = Some (first_text (r_summary r) (first_text (ts_last_checkpoint_summary (t_snapshot task)) (Some fallback))),
             ru_errorMessage = None, ru_metadata = Some (obj_spread (r_metadata r) (metadata now)), ru_heartbeat = False\<rparr>;
          again \<leftarrow> clock;
          _ \<leftarrow> appendTaskCheckpoint (r_id r) (t_id task) projectId (ag_id (rq_agent req)) key (Some (Some summary))
            (JObj (payload again)) [];
          State_Monad.return ()
        })"

definition proposed_text :: "task_contract_kind \<Rightarrow> contract_row \<Rightarrow> string" where
  "proposed_text k c = (case k of ForHandoff \<Rightarrow> ''Handoff'' | ForEscalation \<Rightarrow> ''Escalation'') @ '' contract '' @ c_id c @ '' proposed''"

definition handoff_noted ::
  "request \<Rightarrow> string \<Rightarrow> task_row \<Rightarrow> task_context \<Rightarrow> contract_row \<Rightarrow> timestamp \<Rightarrow> string list \<Rightarrow> agent_row list \<Rightarrow> unit prog" where
  "handoff_noted req projectId task x c expiresAt names invited = do {
     from \<leftarrow> recordDelegation (last_of_chain x) (c_id c) (t_id task) (ag_id (rq_agent req));
     mark_run req projectId task (kx_run x) RHandoffNeeded ''Handoff contract proposed''
       (\<lambda>_. [(''handoff_contract_id'', JStr (c_id c)), (''handoff_invitees'', names_json names)])
       ''handoff-contract'' (proposed_text ForHandoff c)
       (\<lambda>_. [(''handoff_contract_id'', JStr (c_id c)), (''invitees'', names_json names), (''contract_title'', JStr (c_title c)),
         (''delegated_from_contract_id'', jstr_or_null from)]);
     insert_comments [system_comment req projectId (t_id task)
       (''Proposed handoff contract '' @ ticked (c_id c) @ '' for '' @ join '', '' names @ ''.'')
       [(''handoff_contract_id'', JStr (c_id c)), (''invitees'', names_json names), (''delegated_from_contract_id'', jstr_or_null from)]];
     invite_to_task projectId (t_id task) c invited (handoff_data req c expiresAt)
   }"

definition escalation_run_facts ::
  "request \<Rightarrow> contract_row \<Rightarrow> string option \<Rightarrow> string list \<Rightarrow> agent_row list \<Rightarrow> json \<Rightarrow> json \<Rightarrow> timestamp \<Rightarrow> content" where
  "escalation_run_facts req c from names brokers reason intervention now =
     [(''escalation_contract_id'', JStr (c_id c)), (''delegated_from_contract_id'', jstr_or_null from),
      (''broker_agent_id'', case brokers of [] \<Rightarrow> JNull | b # _ \<Rightarrow> JStr (ag_id b)), (''broker_agent_ids'', names_json names),
      (''escalation_requested_by_agent_id'', JStr (ag_id (rq_agent req)))] @ escalation_facts (Some now) reason intervention"

definition escalation_reason_of :: "json \<Rightarrow> task_row \<Rightarrow> task_context \<Rightarrow> jvalue" where
  "escalation_reason_of c task x =
     (if is_nullish (jprop (Some c) ''escalation_reason'')
      then map_option JStr (first_text (ts_last_checkpoint_summary (t_snapshot task)) (Option.bind (kx_run x) r_summary))
      else jprop (Some c) ''escalation_reason'')"

definition escalation_noted ::
  "request \<Rightarrow> string \<Rightarrow> task_row \<Rightarrow> task_context \<Rightarrow> json \<Rightarrow> contract_row \<Rightarrow> timestamp \<Rightarrow> string list \<Rightarrow> agent_row list \<Rightarrow> unit prog" where
  "escalation_noted req projectId task x asked c expiresAt names brokers = do {
     from \<leftarrow> recordDelegation (last_of_chain x) (c_id c) (t_id task) (ag_id (rq_agent req));
     let reason = json_or (escalation_reason_of asked task x) (JStr ''Escalation requested'');
     let intervention = json_or (jprop (Some asked) ''requested_intervention'') (JStr ''Broker intervention requested'');
     mark_run req projectId task (kx_run x) RBlocked ''Escalation requested''
       (escalation_run_facts req c from names brokers reason intervention)
       ''broker-escalation'' (proposed_text ForEscalation c)
       (escalation_run_facts req c from names brokers reason intervention);
     insert_comments [escalation_comment req projectId (t_id task) c names brokers (escalation_facts None reason intervention)];
     invite_to_task projectId (t_id task) c brokers (escalation_data req c expiresAt reason intervention)
   }"

definition changed_task_handoff ::
  "driver \<Rightarrow> request \<Rightarrow> string \<Rightarrow> task_row \<Rightarrow> json \<Rightarrow> rat \<Rightarrow> ('b response + contract_row option) prog" where
  "changed_task_handoff dv req projectId task j hours =
     (case asked_contract ForHandoff j of
        None \<Rightarrow> State_Monad.return (Inr None)
      | Some c \<Rightarrow> do {
          who \<leftarrow> check_agents ForHandoff req j;
          case who of
            Inl e \<Rightarrow> State_Monad.return (Inl e)
          | Inr (names, invited) \<Rightarrow> do {
              x \<leftarrow> task_context_of ForHandoff projectId task;
              r \<leftarrow> propose_for_task dv ForHandoff req (t_id task) (State_Monad.return ())
                (asked_terms dv c (buildHandoffContractTitle (t_title task))
                  (buildHandoffContractDescription task (kx_run x) (kx_checkpoints x) (kx_attachments x) (prior_of task x)) hours)
                invited;
              case r of
                Inl e \<Rightarrow> State_Monad.return (Inl e)
              | Inr (contract, expiresAt) \<Rightarrow> do {
                  handoff_noted req projectId task x contract expiresAt names invited;
                  State_Monad.return (Inr (Some contract))
                }
            }
        })"

definition changed_task_escalation ::
  "driver \<Rightarrow> request \<Rightarrow> string \<Rightarrow> task_row \<Rightarrow> json \<Rightarrow> rat \<Rightarrow> ('b response + contract_row option) prog" where
  "changed_task_escalation dv req projectId task j hours =
     (case asked_contract ForEscalation j of
        None \<Rightarrow> State_Monad.return (Inr None)
      | Some c \<Rightarrow> do {
          who \<leftarrow> check_agents ForEscalation req j;
          case who of
            Inl e \<Rightarrow> State_Monad.return (Inl e)
          | Inr (names, brokers) \<Rightarrow> do {
              x \<leftarrow> task_context_of ForEscalation projectId task;
              r \<leftarrow> propose_for_task dv ForEscalation req (t_id task) (State_Monad.return ())
                (asked_terms dv c (buildBrokeredCollaborationTitle (t_title task))
                  (buildBrokeredCollaborationDescription task (kx_run x) (kx_checkpoints x) (kx_attachments x) (prior_of task x)
                    (escalation_reason_of c task x)
                    (Some (json_or (jprop (Some c) ''requested_intervention'')
                      (JStr ''Broker intervention requested to resolve a blocker/risk without losing executor provenance.'')))
                    names) hours)
                brokers;
              case r of
                Inl e \<Rightarrow> State_Monad.return (Inl e)
              | Inr (contract, expiresAt) \<Rightarrow> do {
                  escalation_noted req projectId task x c contract expiresAt names brokers;
                  State_Monad.return (Inr (Some contract))
                }
            }
        })"

end
