(* ===== verification/Tasks.thy ===== *)
theory Tasks
  imports TaskContracts Projects
begin

text \<open>
  The tasks of a project: list and create (\<open>src/app/api/v1/projects/[id]/tasks/route.ts\<close>), read and change one
  (\<open>tasks/[tid]/route.ts\<close>), with the execution that follows its status. Parameters: \<open>driver\<close>, and \<open>encode\<close>, the JSON of
  an answer that is recorded under an idempotency key.
\<close>

section \<open>Listing\<close>

record task_query =
  tq_status :: "string option"
  tq_sprint_id :: "string option"
  tq_assignee :: "string option"
  tq_assignee_agent_id :: "string option"
  tq_priority :: "string option"
  tq_page :: "string option"
  tq_per_page :: "string option"

definition finite_param :: "string option \<Rightarrow> string \<Rightarrow> int \<Rightarrow> int" where
  "finite_param text fallback n = max 1 (case parse_int (str_or text fallback) of Some i \<Rightarrow> i | None \<Rightarrow> n)"

definition task_matches :: "task_query \<Rightarrow> task_row \<Rightarrow> bool" where
  "task_matches q t \<longleftrightarrow>
     (truthy_str (tq_status q) \<longrightarrow> t_status t = tq_status q) \<and>
     (truthy_str (tq_sprint_id q) \<longrightarrow> t_sprint_id t = (if tq_sprint_id q = Some ''null'' then None else tq_sprint_id q)) \<and>
     (let who = (if truthy_str (tq_assignee q) then tq_assignee q else tq_assignee_agent_id q)
      in truthy_str who \<longrightarrow> t_assignee_agent_id t = who) \<and>
     (truthy_str (tq_priority q) \<longrightarrow> Some (t_priority t) = tq_priority q)"

definition board_order :: "task_row list \<Rightarrow> task_row list" where
  "board_order ts = sort_key t_position (sort_key (\<lambda>t. - t_created_at t) ts)"

definition q_task_page :: "string \<Rightarrow> task_query \<Rightarrow> int \<Rightarrow> int \<Rightarrow> (task_row list \<times> nat) statement" where
  "q_task_page projectId q page perPage d =
     (let rows = board_order (filter (\<lambda>t. t_project_id t = projectId \<and> task_matches q t) (db_tasks d))
      in (Inr (take (nat perPage) (drop (nat ((page - 1) * perPage)) rows), length rows), d))"

record task_page =
  gp_data :: "task_row list"
  gp_total :: nat
  gp_page :: int
  gp_per_page :: int

definition tasks_get :: "request \<Rightarrow> string \<Rightarrow> task_query \<Rightarrow> task_page response prog" where
  "tasks_get req projectId q = do {
     access \<leftarrow> getProjectAccess projectId (ag_id (rq_agent req));
     case access of
       None \<Rightarrow> State_Monad.return not_participating
     | Some a \<Rightarrow>
         observer_gate evaluateObserverProjectReadPolicyAccess req a ''Observer task visibility blocked by trust policy''
           (let page = finite_param (tq_page q) ''1'' 1; perPage = min 100 (finite_param (tq_per_page q) ''50'' 50)
            in do {
              r \<leftarrow> call (q_task_page projectId q page perPage);
              State_Monad.return (case r of
                  Inl _ \<Rightarrow> reply_error 500 ''Failed to fetch tasks'' ''DB_ERROR''
                | Inr (rows, count) \<Rightarrow> Answer 200 \<lparr>gp_data = rows, gp_total = count, gp_page = page, gp_per_page = perPage\<rparr>)
            })
   }"

section \<open>Checks both writing routes make\<close>

definition task_priorities :: "string list" where
  "task_priorities = [''urgent'', ''high'', ''medium'', ''low'']"

definition task_statuses :: "string list" where
  "task_statuses = [''backlog'', ''todo'', ''in-progress'', ''in-review'', ''done'', ''cancelled'']"

text \<open>A sprint or an assignee that is given must be one of the project's.\<close>

definition sprint_refusal :: "driver \<Rightarrow> string \<Rightarrow> jvalue \<Rightarrow> 'b response option prog" where
  "sprint_refusal dv projectId v =
     (if falsy v then State_Monad.return None
      else do {
        sprint \<leftarrow> call (shaped shape_single (q_select db_sprints
          (\<lambda>s. Some (sp_id s) = column_text (dv_text dv) v \<and> sp_project_id s = projectId)));
        State_Monad.return (if data_of sprint = None then
            Some (reply_error 400 ''Sprint not found in this project'' ''VALIDATION_ERROR'') else None)
      })"

definition assignee_refusal :: "driver \<Rightarrow> string \<Rightarrow> jvalue \<Rightarrow> 'b response option prog" where
  "assignee_refusal dv projectId v =
     (if falsy v then State_Monad.return None
      else do {
        member \<leftarrow> call (shaped shape_single (q_select db_members
          (\<lambda>m. pm_project_id m = projectId \<and> Some (pm_agent_id m) = column_text (dv_text dv) v)));
        State_Monad.return (if data_of member = None then
            Some (reply_error 400 ''Assignee must be a member of this project'' ''VALIDATION_ERROR'') else None)
      })"

text \<open>Run the check; go on when there is no refusal.\<close>

definition unless :: "'b response option prog \<Rightarrow> 'b response prog \<Rightarrow> 'b response prog" where
  "unless check k = do {
     refusal \<leftarrow> check;
     case refusal of Some r \<Rightarrow> State_Monad.return r | None \<Rightarrow> k
   }"

definition accepting :: "('b response + 'c) prog \<Rightarrow> ('c \<Rightarrow> 'b response prog) \<Rightarrow> 'b response prog" where
  "accepting check k = do {
     r \<leftarrow> check;
     case r of Inl e \<Rightarrow> State_Monad.return e | Inr x \<Rightarrow> k x
   }"

section \<open>Creating\<close>

definition q_top_task :: "string \<Rightarrow> task_row list statement" where
  "q_top_task projectId d =
     (Inr (take 1 (sort_key (\<lambda>t. - t_position t) (filter (\<lambda>t. t_project_id t = projectId) (db_tasks d)))), d)"

definition next_position :: "task_row list \<Rightarrow> int" where
  "next_position ts = (case ts of [] \<Rightarrow> 0 | t # _ \<Rightarrow> t_position t + 1)"

definition idle_snapshot :: task_snapshot where
  "idle_snapshot = deriveTaskExecutionSnapshot None None None None None None None (JObj [])"

definition new_task :: "driver \<Rightarrow> string \<Rightarrow> string \<Rightarrow> json \<Rightarrow> int \<Rightarrow> string list \<Rightarrow> string \<Rightarrow> timestamp \<Rightarrow> task_row" where
  "new_task dv projectId agentId j position labels fresh now =
     (let text = (\<lambda>k. text_or_null dv (jprop (Some j) k))
      in \<lparr>t_id = fresh, t_title = column_text (dv_text dv) (jprop (Some j) ''title''), t_status = Some ''backlog'',
          t_project_id = projectId, t_assignee_agent_id = text ''assignee_agent_id'', t_description = text ''description'',
          t_priority = (case jprop (Some j) ''priority'' of Some (JStr p) \<Rightarrow> str_or (Some p) ''medium'' | _ \<Rightarrow> ''medium''),
          t_labels = labels, t_due_date = text ''due_date'', t_sprint_id = text ''sprint_id'',
          t_reporter_agent_id = Some agentId, t_position = position, t_created_at = now, t_blocker = not_blocked,
          t_snapshot = idle_snapshot, t_updated_at = now\<rparr>)"

definition q_insert_task :: "driver \<Rightarrow> string \<Rightarrow> string \<Rightarrow> json \<Rightarrow> int \<Rightarrow> task_row list statement" where
  "q_insert_task dv projectId agentId j position =
     (case dv_list dv (if falsy (jprop (Some j) ''labels'') then JArr [] else the (jprop (Some j) ''labels'')) of
        None \<Rightarrow> (\<lambda>d. (Inl invalid_input, d))
      | Some labels \<Rightarrow>
          if \<not> int4 position then (\<lambda>d. (Inl invalid_integer, d))
          else with_fresh (\<lambda>fresh d. q_insert db_tasks db_tasks_update (\<lambda>n t. t_id n = t_id t)
            [new_task dv projectId agentId j position labels fresh (db_now d)] d))"

text \<open>Deleting a task deletes what refers to it (\<open>ON DELETE CASCADE\<close>).\<close>

definition without_task :: "string \<Rightarrow> db \<Rightarrow> db" where
  "without_task i d = d\<lparr>
     db_tasks := filter (\<lambda>t. t_id t \<noteq> i) (db_tasks d),
     db_dependencies := filter (\<lambda>p. dp_blocking_task_id p \<noteq> i \<and> dp_blocked_task_id p \<noteq> i) (db_dependencies d),
     db_task_contracts := filter (\<lambda>k. tk_task_id k \<noteq> i) (db_task_contracts d),
     db_comments := filter (\<lambda>c. cm_task_id c \<noteq> i) (db_comments d),
     db_runs := filter (\<lambda>r. r_task_id r \<noteq> i) (db_runs d),
     db_checkpoints := filter (\<lambda>c. ck_task_id c \<noteq> i \<and> \<not> (\<exists>r\<in>set (db_runs d). r_task_id r = i \<and> r_id r = ck_run_id c)) (db_checkpoints d),
     db_activity := filter (\<lambda>a. av_task_id a \<noteq> i) (db_activity d),
     db_attachments := filter (\<lambda>a. at_task_id a \<noteq> Some i) (db_attachments d)\<rparr>"

definition q_delete_task :: "string \<Rightarrow> string \<Rightarrow> unit statement" where
  "q_delete_task taskId projectId d =
     (Inr (), if \<exists>t\<in>set (db_tasks d). t_id t = taskId \<and> t_project_id t = projectId then without_task taskId d else d)"

definition drop_task :: "task_row \<Rightarrow> unit prog" where
  "drop_task t = do {
     _ \<leftarrow> call (q_delete_task (t_id t) (t_project_id t));
     State_Monad.return ()
   }"

record task_answer =
  ta_task :: task_row
  ta_handoff :: "contract_row option"
  ta_escalation :: "contract_row option"

definition jid_or_null :: "contract_row option \<Rightarrow> json" where
  "jid_or_null c = jstr_or_null (map_option c_id c)"

definition note_activity :: "request \<Rightarrow> string \<Rightarrow> string \<Rightarrow> string \<Rightarrow> string \<Rightarrow> content \<Rightarrow> unit prog" where
  "note_activity req projectId taskId event summary metadata = do {
     _ \<leftarrow> appendTaskActivityEvent projectId taskId (Some (ag_id (rq_agent req))) None event summary metadata;
     State_Monad.return ()
   }"

definition note_contract :: "request \<Rightarrow> string \<Rightarrow> string \<Rightarrow> task_contract_kind \<Rightarrow> contract_row option \<Rightarrow> unit prog" where
  "note_contract req projectId taskId k contract =
     (case contract of
        None \<Rightarrow> State_Monad.return ()
      | Some c \<Rightarrow> note_activity req projectId taskId (contract_key k) (proposed_text k c) [(contract_id_key k, JStr (c_id c))])"

text \<open>The assignee's name is known only when it is one of those asked.\<close>

definition name_among :: "string option \<Rightarrow> agent_row list \<Rightarrow> string option" where
  "name_among i as' = truthy_or_null (map_option agent_title (find (\<lambda>a. Some (ag_id a) = i) as'))"

definition note_assignment :: "request \<Rightarrow> task_row \<Rightarrow> agent_row list \<Rightarrow> unit prog" where
  "note_assignment req task asked =
     (if \<not> truthy_str (t_assignee_agent_id task) then State_Monad.return ()
      else note_activity req (t_project_id task) (t_id task) ''assignment''
        (case name_among (t_assignee_agent_id task) asked of Some n \<Rightarrow> ''Assigned to '' @ n | None \<Rightarrow> ''Task assigned'')
        [(''old_assignee'', JNull), (''new_assignee'', jstr_or_null (t_assignee_agent_id task))])"

definition shown_priority :: "json \<Rightarrow> json" where
  "shown_priority j = (if falsy (jprop (Some j) ''priority'') then JStr ''medium'' else the (jprop (Some j) ''priority''))"

definition task_announced :: "request \<Rightarrow> json \<Rightarrow> task_row \<Rightarrow> unit prog" where
  "task_announced req j task = do {
     memberIds \<leftarrow> getProjectMemberAgentIds (t_project_id task);
     deliver (task_event memberIds ''task.created'' None (t_project_id task) (t_id task)
       [(''title'', or_default (jprop (Some j) ''title'') JNull), (''priority'', shown_priority j),
        (''created_by'', JStr (ag_name (rq_agent req)))])
   }"

definition task_recorded ::
  "request \<Rightarrow> json \<Rightarrow> task_row \<Rightarrow> contract_row option \<Rightarrow> contract_row option \<Rightarrow> agent_row list \<Rightarrow> unit prog" where
  "task_recorded req j task handoff escalation asked = do {
     audit_task req ''task.create'' (t_id task)
       [(''project_id'', JStr (t_project_id task)), (''title'', or_default (jprop (Some j) ''title'') JNull),
        (''priority'', shown_priority j), (''handoff_contract_id'', jid_or_null handoff),
        (''escalation_contract_id'', jid_or_null escalation)];
     note_activity req (t_project_id task) (t_id task) ''task_created''
       (''Task created'' @ (if truthy_str (t_title task) then '': '' @ shown (t_title task) else []))
       [(''priority'', JStr (str_or (Some (t_priority task)) ''medium'')), (''reporter_agent_id'', JStr (ag_id (rq_agent req))),
        (''assignee_agent_id'', jstr_or_null (t_assignee_agent_id task))];
     note_assignment req task asked;
     note_contract req (t_project_id task) (t_id task) ForHandoff handoff;
     note_contract req (t_project_id task) (t_id task) ForEscalation escalation;
     task_announced req j task
   }"

definition task_created ::
  "driver \<Rightarrow> (task_answer \<Rightarrow> json) \<Rightarrow> request \<Rightarrow> string option \<Rightarrow> string \<Rightarrow> json \<Rightarrow> rat \<Rightarrow> rat \<Rightarrow> agent_row list \<Rightarrow> agent_row list \<Rightarrow>
   task_row \<Rightarrow> task_answer response prog" where
  "task_created dv encode req key endpoint j handoffHours escalationHours invited brokers task =
     accepting (new_task_handoff dv req task (drop_task task) j handoffHours invited) (\<lambda>handoff.
     accepting (new_task_escalation dv req task (drop_task task) j escalationHours brokers) (\<lambda>escalation. do {
       task_recorded req j task handoff escalation (invited @ brokers);
       let answer = \<lparr>ta_task = task, ta_handoff = handoff, ta_escalation = escalation\<rparr>;
       storeIdempotencyResponse key req endpoint 201 (encode answer);
       State_Monad.return (Answer 201 answer)
     }))"

definition task_inserted ::
  "driver \<Rightarrow> (task_answer \<Rightarrow> json) \<Rightarrow> request \<Rightarrow> string option \<Rightarrow> string \<Rightarrow> string \<Rightarrow> json \<Rightarrow> rat \<Rightarrow> rat \<Rightarrow>
   agent_row list \<Rightarrow> agent_row list \<Rightarrow> task_answer response prog" where
  "task_inserted dv encode req key endpoint projectId j handoffHours escalationHours invited brokers = do {
     top \<leftarrow> call (q_top_task projectId);
     r \<leftarrow> call (shaped shape_single
       (q_insert_task dv projectId (ag_id (rq_agent req)) j (next_position (rows_of top))));
     case r of
       Inl _ \<Rightarrow> State_Monad.return (reply_error 500 ''Failed to create task'' ''DB_ERROR'')
     | Inr task \<Rightarrow> task_created dv encode req key endpoint j handoffHours escalationHours invited brokers task
   }"

definition task_checked ::
  "driver \<Rightarrow> (task_answer \<Rightarrow> json) \<Rightarrow> request \<Rightarrow> string option \<Rightarrow> string \<Rightarrow> string \<Rightarrow> json \<Rightarrow> rat \<Rightarrow> rat \<Rightarrow> task_answer response prog" where
  "task_checked dv encode req key endpoint projectId j handoffHours escalationHours =
     (if \<not> falsy (jprop (Some j) ''priority'') \<and> jprop (Some j) ''priority'' \<notin> Some ` JStr ` set task_priorities then
        State_Monad.return (invalid_choice ''priority'' task_priorities)
      else
        accepting (check_agents ForHandoff req j) (\<lambda>(names, invited).
        accepting (check_agents ForEscalation req j) (\<lambda>(names', brokers).
        unless (sprint_refusal dv projectId (jprop (Some j) ''sprint_id''))
        (unless (assignee_refusal dv projectId (jprop (Some j) ''assignee_agent_id''))
          (task_inserted dv encode req key endpoint projectId j handoffHours escalationHours invited brokers)))))"

text \<open>What both routes check of the contracts asked for, before anything else is read.\<close>

definition with_windows :: "json \<Rightarrow> (rat \<Rightarrow> rat \<Rightarrow> 'b response prog) \<Rightarrow> 'b response prog" where
  "with_windows j k =
     (case asked_hours ForHandoff j of
        ExpiryBad r \<Rightarrow> State_Monad.return (Refusal r)
      | ExpiryOk handoffHours \<Rightarrow> (case asked_hours ForEscalation j of
          ExpiryBad r \<Rightarrow> State_Monad.return (Refusal r)
        | ExpiryOk escalationHours \<Rightarrow> k handoffHours escalationHours))"

definition with_people :: "json \<Rightarrow> 'b response prog \<Rightarrow> 'b response prog" where
  "with_people j k =
     (case names_refusal ForHandoff j of
        Some r \<Rightarrow> State_Monad.return r
      | None \<Rightarrow> (case names_refusal ForEscalation j of Some r \<Rightarrow> State_Monad.return r | None \<Rightarrow> k))"

definition tasks_post_parsed ::
  "driver \<Rightarrow> (task_answer \<Rightarrow> json) \<Rightarrow> request \<Rightarrow> string option \<Rightarrow> string \<Rightarrow> string \<Rightarrow> json \<Rightarrow> task_answer response prog" where
  "tasks_post_parsed dv encode req key endpoint projectId j =
     (if j = JNull then State_Monad.return (Thrown ''TypeError'')
      else if falsy (jprop (Some j) ''title'') then
        State_Monad.return (reply_error 400 ''Missing required field: title'' ''VALIDATION_ERROR'')
      else with_people j (with_windows j (task_checked dv encode req key endpoint projectId j)))"

definition tasks_post :: "driver \<Rightarrow> (task_answer \<Rightarrow> json) \<Rightarrow> request \<Rightarrow> string \<Rightarrow> task_answer response prog" where
  "tasks_post dv encode req projectId =
     (let endpoint = ''POST /v1/projects/'' @ projectId @ ''/tasks''
      in with_key req endpoint (\<lambda>key.
        writing_project req projectId ''Observers may inspect project tasks but cannot create new ones'' (\<lambda>_.
          case rq_body req of
            Parsed j \<Rightarrow> tasks_post_parsed dv encode req key endpoint projectId j
          | _ \<Rightarrow> State_Monad.return (reply_error 400 ''Invalid JSON body'' ''INVALID_BODY''))))"

section \<open>The execution behind a status\<close>

definition isTerminalRunStatus :: "run_status \<Rightarrow> bool" where
  "isTerminalRunStatus s \<longleftrightarrow> s \<in> {RSucceeded, RFailed, RCancelled}"

definition mapTaskStatusToRunStatus :: "string \<Rightarrow> run_status" where
  "mapTaskStatusToRunStatus s =
     (if s = ''in-review'' then RWaiting else if s = ''done'' then RSucceeded
      else if s = ''cancelled'' then RCancelled else RRunning)"

definition buildStatusCheckpoint :: "string \<Rightarrow> string \<times> string" where
  "buildStatusCheckpoint s =
     (if s = ''in-progress'' then (''task-status-in-progress'', ''Task moved to in-progress'')
      else if s = ''in-review'' then (''task-status-in-review'', ''Task moved to in-review'')
      else if s = ''done'' then (''task-status-done'', ''Task marked done'')
      else if s = ''cancelled'' then (''task-status-cancelled'', ''Task cancelled'')
      else (''task-status-updated'', ''Task status updated to '' @ s))"

definition run_to_follow :: "run_row list \<Rightarrow> task_row \<Rightarrow> task_row option \<Rightarrow> run_row option" where
  "run_to_follow runs task oldTask =
     (let old = Option.bind oldTask active_run;
          preferred = (if truthy_str (active_run task) then active_run task else if truthy_str old then old else None)
      in case (if preferred = None then None else find (\<lambda>r. Some (r_id r) = preferred) runs) of
           Some r \<Rightarrow> Some r
         | None \<Rightarrow> find (\<lambda>r. \<not> isTerminalRunStatus (r_status r)) runs)"

definition transition_facts :: "string option \<Rightarrow> string \<Rightarrow> content" where
  "transition_facts previous next = [(''source'', JStr ''task.patch''),
     (''status_transition'', JObj [(''from'', jstr_or_null previous), (''to'', JStr next)])]"

definition next_attempt :: "run_row list \<Rightarrow> int" where
  "next_attempt runs = foldr max (map r_attempt runs) 0 + 1"

definition run_moved :: "string \<Rightarrow> run_row \<Rightarrow> run_status \<Rightarrow> string \<Rightarrow> content \<Rightarrow> run_row prog" where
  "run_moved taskId r status summary facts = do {
     moved \<leftarrow> updateTaskExecutionRun (r_id r) taskId
       \<lparr>ru_status = Some status, ru_summary = Some (Some summary), ru_errorMessage = None,
        ru_metadata = Some (obj_spread (r_metadata r) facts), ru_heartbeat = False\<rparr>;
     State_Monad.return (case moved of Inl _ \<Rightarrow> r | Inr r' \<Rightarrow> r')
   }"

definition run_followed ::
  "request \<Rightarrow> string \<Rightarrow> string \<Rightarrow> string option \<Rightarrow> string \<Rightarrow> run_row list \<Rightarrow> run_row option \<Rightarrow> run_row option prog" where
  "run_followed req projectId taskId previous next runs activeRun =
     (let summary = snd (buildStatusCheckpoint next); facts = transition_facts previous next
      in if next = ''in-progress'' \<and> (case activeRun of None \<Rightarrow> True | Some r \<Rightarrow> isTerminalRunStatus (r_status r)) then do {
           created \<leftarrow> createTaskExecutionRun taskId projectId (ag_id (rq_agent req)) (Some RRunning) (Some (next_attempt runs))
             (Some summary) None (JObj facts);
           State_Monad.return (case created of Inl _ \<Rightarrow> None | Inr r \<Rightarrow> Some r)
         }
         else case activeRun of
           None \<Rightarrow> State_Monad.return None
         | Some r \<Rightarrow>
             if isTerminalRunStatus (r_status r) \<or> next = ''in-progress'' \<and> r_status r = RRunning then State_Monad.return (Some r)
             else do {
               moved \<leftarrow> run_moved taskId r (mapTaskStatusToRunStatus next) summary facts;
               State_Monad.return (Some moved)
             })"

definition syncTaskExecutionForStatusChange ::
  "request \<Rightarrow> string \<Rightarrow> string \<Rightarrow> task_row option \<Rightarrow> task_row \<Rightarrow> unit prog" where
  "syncTaskExecutionForStatusChange req projectId taskId oldTask task =
     (let previous = Option.bind oldTask t_status; next = shown (t_status task)
      in if \<not> truthy_str (t_status task) \<or> previous = t_status task \<or>
            next \<notin> {''in-progress'', ''in-review'', ''done'', ''cancelled''} then State_Monad.return ()
         else do {
           listed \<leftarrow> listTaskExecutionRuns taskId;
           let runs = or_none listed;
           activeRun \<leftarrow> run_followed req projectId taskId previous next runs (run_to_follow runs task oldTask);
           case activeRun of
             None \<Rightarrow> State_Monad.return ()
           | Some r \<Rightarrow> do {
               _ \<leftarrow> appendTaskCheckpoint (r_id r) taskId projectId (ag_id (rq_agent req)) (fst (buildStatusCheckpoint next))
                 (Some (Some (snd (buildStatusCheckpoint next))))
                 (JObj [(''old_status'', jstr_or_null previous), (''new_status'', JStr next), (''source'', JStr ''task.patch''),
                   (''task_title'', jstr_or_null (t_title task))]) [];
               State_Monad.return ()
             }
         })"

end
