(* ===== verification/TaskActions.thy ===== *)
theory TaskActions
  imports ProjectActions Tasks
begin

text \<open>
  What an operator does to the tasks of a project (\<open>src/app/(dashboard)/projects/[id]/actions.ts\<close>). Every action throws
  an error text, \<open>Inl\<close>, or ends.
\<close>

definition q_set_task_status :: "string \<Rightarrow> string \<Rightarrow> string \<Rightarrow> task_row list statement" where
  "q_set_task_status projectId taskId status d =
     checked_update (status \<in> set task_statuses) (\<lambda>d. \<exists>t\<in>set (db_tasks d). t_id t = taskId \<and> t_project_id t = projectId)
       (\<lambda>d. q_update db_tasks db_tasks_update (\<lambda>t. t_id t = taskId \<and> t_project_id t = projectId)
         (\<lambda>t. t\<lparr>t_status := Some status, t_updated_at := db_now d\<rparr>) d) d"

definition updateTaskStatus :: "actor_context option \<Rightarrow> string \<Rightarrow> string \<Rightarrow> string \<Rightarrow> (string + unit) prog" where
  "updateTaskStatus session projectId taskId status =
     requireProjectMembership session projectId None (\<lambda>_ _. do {
       r \<leftarrow> written ''Failed to update task status'' (q_set_task_status projectId taskId status);
       case r of
         Inl e \<Rightarrow> State_Monad.return (Inl e)
       | Inr _ \<Rightarrow> do { refreshTaskBlockedState taskId; State_Monad.return (Inr ()) }
     })"

record task_form =
  fm_title :: string
  fm_status :: string
  fm_priority :: string
  fm_sprintId :: "string option"
  fm_assigneeAgentId :: "string option"
  fm_labels :: "string list"
  fm_dueDate :: "string option"
  fm_description :: "string option"

definition task_of_form :: "string \<Rightarrow> task_form \<Rightarrow> string \<Rightarrow> timestamp \<Rightarrow> task_row" where
  "task_of_form projectId f fresh now =
     \<lparr>t_id = fresh, t_title = Some (fm_title f), t_status = Some (fm_status f), t_project_id = projectId,
      t_assignee_agent_id = truthy_or_null (fm_assigneeAgentId f), t_description = truthy_or_null (fm_description f),
      t_priority = fm_priority f, t_labels = fm_labels f, t_due_date = truthy_or_null (fm_dueDate f),
      t_sprint_id = truthy_or_null (fm_sprintId f), t_reporter_agent_id = None, t_position = 0, t_created_at = now,
      t_blocker = not_blocked, t_snapshot = idle_snapshot, t_updated_at = now\<rparr>"

definition q_insert_form :: "string \<Rightarrow> task_form \<Rightarrow> task_row list statement" where
  "q_insert_form projectId f =
     (if fm_status f \<notin> set task_statuses \<or> fm_priority f \<notin> set task_priorities then (\<lambda>d. (Inl check_violation, d))
      else with_fresh (\<lambda>fresh d. q_insert db_tasks db_tasks_update (\<lambda>n t. t_id n = t_id t)
        [task_of_form projectId f fresh (db_now d)] d))"

text \<open>The assignee is not checked to be a member; who reports the task is not recorded.\<close>

definition createTask :: "actor_context option \<Rightarrow> string \<Rightarrow> task_form \<Rightarrow> (string + unit) prog" where
  "createTask session projectId f =
     requireProjectMembership session projectId None (\<lambda>_ _. do {
       known \<leftarrow> (if truthy_str (fm_sprintId f) then do {
           sprint \<leftarrow> call (shaped shape_single (q_select db_sprints
             (\<lambda>s. Some (sp_id s) = fm_sprintId f \<and> sp_project_id s = projectId)));
           State_Monad.return (data_of sprint \<noteq> None)
         } else State_Monad.return True);
       if \<not> known then State_Monad.return (Inl ''Sprint not found in this project'')
       else written ''Failed to create task'' (q_insert_form projectId f)
     })"

end
