(* ===== verification/AttachmentFiles.thy ===== *)
theory AttachmentFiles
  imports Attachments ExpiryWindow
begin

text \<open>
  The files behind the attachments and the signed links to them (\<open>src/lib/attachments.ts\<close>,
  \<open>src/app/api/files/route.ts\<close>). The files below the attachment directory are \<open>db_files\<close>, by their absolute path; the
  HMAC and the base64url decoder are parameters. A link is what \<open>URLSearchParams\<close> holds: names with values.
\<close>

section \<open>Where a file is\<close>

text \<open>\<open>resolve(root, path)\<close>: segments are appended one by one, \<open>..\<close> takes the last one back.\<close>

definition resolve_step :: "string list \<Rightarrow> string \<Rightarrow> string list" where
  "resolve_step acc s = (if s = [] \<or> s = ''.'' then acc else if s = ''..'' then butlast acc else acc @ [s])"

definition path_resolve :: "string \<Rightarrow> string \<Rightarrow> string" where
  "path_resolve dir path =
     (let start = (if starts_with path ''/'' then path else dir @ ''/'' @ path)
      in ''/'' @ join ''/'' (foldl resolve_step [] (split_at CHR ''/'' start)))"

definition attachmentRoot :: "string \<Rightarrow> string option \<Rightarrow> string" where
  "attachmentRoot cwd setting = path_resolve cwd (str_or setting ''/data/attachments'')"

definition absolutePath :: "string \<Rightarrow> string \<Rightarrow> string + string" where
  "absolutePath dir storagePath =
     (let target = path_resolve dir storagePath
      in if target \<noteq> dir \<and> \<not> starts_with target (dir @ ''/'') then Inl ''Invalid attachment path'' else Inr target)"

section \<open>Files\<close>

text \<open>The flag \<open>wx\<close>: a file that exists is not written.\<close>

definition q_write_file :: "string \<Rightarrow> string \<Rightarrow> unit statement" where
  "q_write_file target content d =
     (if db_files d target \<noteq> None
      then (Inl \<lparr>de_code = ''EEXIST'', de_message = ''EEXIST: file already exists, open '' @ target\<rparr>, d)
      else (Inr (), d\<lparr>db_files := (db_files d)(target \<mapsto> content)\<rparr>))"

definition no_such_file :: "string \<Rightarrow> db_error" where
  "no_such_file target = \<lparr>de_code = ''ENOENT'', de_message = ''ENOENT: no such file or directory, '' @ target\<rparr>"

definition q_unlink :: "string \<Rightarrow> unit statement" where
  "q_unlink target d =
     (if db_files d target = None then (Inl (no_such_file target), d)
      else (Inr (), d\<lparr>db_files := (db_files d)(target := None)\<rparr>))"

definition q_read_file :: "string \<Rightarrow> string statement" where
  "q_read_file target d = (case db_files d target of None \<Rightarrow> (Inl (no_such_file target), d) | Some bytes \<Rightarrow> (Inr bytes, d))"

definition uploadAttachmentBinary :: "string \<Rightarrow> string \<Rightarrow> string \<Rightarrow> (string + unit) prog" where
  "uploadAttachmentBinary dir path content =
     (case absolutePath dir path of
        Inl e \<Rightarrow> State_Monad.return (Inl e)
      | Inr target \<Rightarrow> do {
          r \<leftarrow> call (q_write_file target content);
          State_Monad.return (case r of Inl e \<Rightarrow> Inl (de_message e) | Inr _ \<Rightarrow> Inr ())
        })"

definition removeAttachmentBinary :: "string \<Rightarrow> string \<Rightarrow> (string + unit) prog" where
  "removeAttachmentBinary dir path =
     (case absolutePath dir path of
        Inl e \<Rightarrow> State_Monad.return (Inl e)
      | Inr target \<Rightarrow> do {
          r \<leftarrow> call (q_unlink target);
          State_Monad.return (case r of Inl e \<Rightarrow> if de_code e = ''ENOENT'' then Inr () else Inl (de_message e) | Inr _ \<Rightarrow> Inr ())
        })"

definition readAttachmentBinary :: "string \<Rightarrow> string \<Rightarrow> (string + string) prog" where
  "readAttachmentBinary dir path =
     (case absolutePath dir path of
        Inl e \<Rightarrow> State_Monad.return (Inl e)
      | Inr target \<Rightarrow> do {
          r \<leftarrow> call (q_read_file target);
          State_Monad.return (case r of Inl e \<Rightarrow> Inl (de_message e) | Inr bytes \<Rightarrow> Inr bytes)
        })"

section \<open>Signed links\<close>

type_synonym query = "(string \<times> string) list"

definition param :: "query \<Rightarrow> string \<Rightarrow> string \<Rightarrow> string" where
  "param q key fallback = str_or (map_of q key) fallback"

definition signed_value :: "string \<Rightarrow> int \<Rightarrow> string \<Rightarrow> string \<Rightarrow> string" where
  "signed_value path expires download mimeType = path @ nl @ show_int expires @ nl @ download @ nl @ mimeType"

definition signingKey :: "string option \<Rightarrow> string + string" where
  "signingKey key = (if truthy_str key then Inr (the key)
     else Inl ''HOLLOWAY_ATTACHMENT_SIGNING_KEY (or legacy A2A_ATTACHMENT_SIGNING_KEY) is required'')"

datatype url_mode = InlineUrl | DownloadUrl

text \<open>\<open>hmac key text\<close> is the HMAC-SHA256 in base64url.\<close>

definition signed_query :: "(string \<Rightarrow> string \<Rightarrow> string) \<Rightarrow> string \<Rightarrow> string \<Rightarrow> int \<Rightarrow> string \<Rightarrow> string \<Rightarrow> query" where
  "signed_query hmac key path expires download mimeType =
     [(''path'', path), (''expires'', show_int expires), (''mime'', mimeType),
      (''signature'', hmac key (signed_value path expires download mimeType))] @
     (if download \<noteq> [] then [(''download'', download)] else [])"

definition createSignedAttachmentUrl ::
  "(string \<Rightarrow> string \<Rightarrow> string) \<Rightarrow> string option \<Rightarrow> string \<Rightarrow> int \<Rightarrow> url_mode \<Rightarrow> string \<Rightarrow> string \<Rightarrow> (string + query) prog" where
  "createSignedAttachmentUrl hmac setting path expiresIn mode originalName mimeType = do {
     now \<leftarrow> clock;
     let expires = now div 1000 + expiresIn;
     let download = (if mode = DownloadUrl then originalName else []);
     State_Monad.return (case signingKey setting of Inl e \<Rightarrow> Inl e
       | Inr key \<Rightarrow> Inr (signed_query hmac key path expires download mimeType))
   }"

record signed_urls =
  preview_url :: query
  download_url :: query

definition createSignedAttachmentUrls ::
  "(string \<Rightarrow> string \<Rightarrow> string) \<Rightarrow> string option \<Rightarrow> string \<Rightarrow> int \<Rightarrow> string \<Rightarrow> string \<Rightarrow> (string + signed_urls) prog" where
  "createSignedAttachmentUrls hmac setting path expiresIn originalName mimeType = do {
     previewUrl \<leftarrow> createSignedAttachmentUrl hmac setting path expiresIn InlineUrl originalName mimeType;
     downloadUrl \<leftarrow> createSignedAttachmentUrl hmac setting path expiresIn DownloadUrl originalName mimeType;
     State_Monad.return (case (previewUrl, downloadUrl) of
         (Inr p, Inr d) \<Rightarrow> Inr \<lparr>preview_url = p, download_url = d\<rparr>
       | (Inl e, _) \<Rightarrow> Inl e
       | (_, Inl e) \<Rightarrow> Inl e)
   }"

text \<open>A safe integer; its text is its decimal digits.\<close>

definition safe_integer :: "js_num \<Rightarrow> int option" where
  "safe_integer x =
     (case x of Fin r \<Rightarrow> if r = of_int \<lfloor>r\<rfloor> \<and> \<bar>\<lfloor>r\<rfloor>\<bar> \<le> 9007199254740991 then Some \<lfloor>r\<rfloor> else None | _ \<Rightarrow> None)"

text \<open>\<open>bytes\<close> is what base64url text decodes to.\<close>

definition verifyAttachmentToken ::
  "(string \<Rightarrow> string \<Rightarrow> string) \<Rightarrow> (string \<Rightarrow> string) \<Rightarrow> string option \<Rightarrow> timestamp \<Rightarrow> string \<Rightarrow> js_num \<Rightarrow> string \<Rightarrow> string \<Rightarrow> string \<Rightarrow>
   string + bool" where
  "verifyAttachmentToken hmac bytes setting now path expires download mimeType signature =
     (case safe_integer expires of
        None \<Rightarrow> Inr False
      | Some e \<Rightarrow>
          if e < now div 1000 then Inr False
          else case signingKey setting of Inl err \<Rightarrow> Inl err
            | Inr key \<Rightarrow> Inr (bytes signature = bytes (hmac key (signed_value path e download mimeType))))"

section \<open>Listing with links\<close>

text \<open>What the process is set up with: the directory, the key, and the functions of its crypto module.\<close>

record storage =
  so_root :: string
  so_key :: "string option"
  so_hmac :: "string \<Rightarrow> string \<Rightarrow> string"
  so_bytes :: "string \<Rightarrow> string"
  so_sha256 :: "string \<Rightarrow> string"

record signed_attachment =
  sg_row :: attachment_row
  sg_urls :: signed_urls

fun sign_rows :: "storage \<Rightarrow> attachment_row list \<Rightarrow> (string + signed_attachment list) prog" where
  "sign_rows so [] = State_Monad.return (Inr [])"
| "sign_rows so (a # rest) = do {
     r \<leftarrow> createSignedAttachmentUrls (so_hmac so) (so_key so) (at_storage_path a) 3600 (at_original_name a) (at_mime_type a);
     case r of
       Inl e \<Rightarrow> State_Monad.return (Inl e)
     | Inr urls \<Rightarrow> do {
         others \<leftarrow> sign_rows so rest;
         State_Monad.return (case others of Inl e \<Rightarrow> Inl e | Inr xs \<Rightarrow> Inr (\<lparr>sg_row = a, sg_urls = urls\<rparr> # xs))
       }
   }"

definition listSignedAttachments ::
  "storage \<Rightarrow> string \<Rightarrow> string option \<Rightarrow> string option \<Rightarrow> (string + signed_attachment list) prog" where
  "listSignedAttachments so projectId taskId contractId = do {
     rows \<leftarrow> listAttachmentsForScope projectId taskId contractId;
     case rows of
       Inl e \<Rightarrow> State_Monad.return (Inl (de_message e))
     | Inr xs \<Rightarrow> sign_rows so xs
   }"

section \<open>Opening a link\<close>

text \<open>A header value loses the white space around it and must hold no zero and no line end.\<close>

definition header_value :: "string \<Rightarrow> string option" where
  "header_value v =
     (let trim = dropWhile (\<lambda>c. c \<in> {CHR 0x09, CHR 0x0A, CHR 0x0D, CHR '' ''});
          t = rev (trim (rev (trim v)))
      in if {CHR 0x00, CHR 0x0A, CHR 0x0D} \<inter> set t = {} then Some t else None)"

text \<open>The name under which a browser saves the file, which the header carries percent-encoded.\<close>

record served_file =
  sf_bytes :: string
  sf_type :: string
  sf_filename :: "string option"

datatype file_response = FileServed served_file | FileRefused nat string

text \<open>Whether the link of a request holds; an error is thrown when it cannot be told.\<close>

definition link_verified ::
  "(string \<Rightarrow> string \<Rightarrow> string) \<Rightarrow> (string \<Rightarrow> string) \<Rightarrow> string option \<Rightarrow> timestamp \<Rightarrow> query \<Rightarrow> string + bool" where
  "link_verified hmac bytes setting now q =
     (let expires = (case map_of q ''expires'' of None \<Rightarrow> Fin 0 | Some s \<Rightarrow> Number s)
      in if param q ''path'' [] = [] then Inr False
         else verifyAttachmentToken hmac bytes setting now (param q ''path'' []) expires (param q ''download'' [])
           (param q ''mime'' ''application/octet-stream'') (param q ''signature'' []))"

definition served :: "query \<Rightarrow> string + string \<Rightarrow> file_response" where
  "served q r =
     (case (r, header_value (param q ''mime'' ''application/octet-stream'')) of
        (Inr content, Some t) \<Rightarrow> FileServed \<lparr>sf_bytes = content, sf_type = t,
          sf_filename = (if param q ''download'' [] \<noteq> [] then Some (param q ''download'' []) else None)\<rparr>
      | _ \<Rightarrow> FileRefused 404 ''Attachment not found.'')"

definition files_get ::
  "(string \<Rightarrow> string \<Rightarrow> string) \<Rightarrow> (string \<Rightarrow> string) \<Rightarrow> string option \<Rightarrow> string \<Rightarrow> query \<Rightarrow> file_response prog" where
  "files_get hmac bytes setting dir q = do {
     now \<leftarrow> clock;
     (case link_verified hmac bytes setting now q of
        Inl _ \<Rightarrow> State_Monad.return (FileRefused 503
          ''Attachment links are unavailable: this server is missing HOLLOWAY_ATTACHMENT_SIGNING_KEY.'')
      | Inr verified \<Rightarrow>
          if \<not> verified then State_Monad.return (FileRefused 403 ''Invalid or expired attachment link.'')
          else do {
            r \<leftarrow> readAttachmentBinary dir (param q ''path'' []);
            State_Monad.return (served q r)
          })
   }"

end
