(* ===== verification/TaskDependencies.thy ===== *)
theory TaskDependencies
  imports TaskBlockers
begin

text \<open>
  The dependencies between tasks
  (\<open>src/app/api/v1/projects/[id]/tasks/[tid]/dependencies/route.ts\<close>, \<open>src/lib/task-dependency-schema.ts\<close>).
\<close>

section \<open>Reading\<close>

definition isMissingDependencyTypeColumn :: "db_error \<Rightarrow> bool" where
  "isMissingDependencyTypeColumn error \<longleftrightarrow>
     de_code error = ''PGRST204'' \<or> str_includes (to_lower (de_message error)) ''dependency_type''"

definition verifyTaskInProject :: "string \<Rightarrow> string \<Rightarrow> bool prog" where
  "verifyTaskInProject taskId projectId = do {
     found \<leftarrow> getTaskContext projectId taskId;
     State_Monad.return (found \<noteq> None)
   }"

text \<open>A dependency with the task at its other end.\<close>

record dependency_entry =
  de_row :: dependency_row
  de_other :: "task_row option"

definition dependency_entry_of :: "(dependency_row \<Rightarrow> string) \<Rightarrow> db \<Rightarrow> dependency_row \<Rightarrow> dependency_entry" where
  "dependency_entry_of other d p = \<lparr>de_row = p, de_other = find (\<lambda>t. t_id t = other p) (db_tasks d)\<rparr>"

definition q_incoming :: "string \<Rightarrow> dependency_entry list statement" where
  "q_incoming taskId d = (Inr (map (dependency_entry_of dp_blocking_task_id d)
     (filter (\<lambda>p. dp_blocked_task_id p = taskId) (db_dependencies d))), d)"

definition q_outgoing :: "string \<Rightarrow> dependency_entry list statement" where
  "q_outgoing taskId d = (Inr (map (dependency_entry_of dp_blocked_task_id d)
     (filter (\<lambda>p. dp_blocking_task_id p = taskId) (db_dependencies d))), d)"

definition in_project :: "string \<Rightarrow> dependency_entry list \<Rightarrow> dependency_entry list" where
  "in_project projectId es = filter (\<lambda>e. map_option t_project_id (de_other e) = Some projectId) es"

definition of_type :: "string \<Rightarrow> dependency_entry list \<Rightarrow> dependency_entry list" where
  "of_type kind es = filter (\<lambda>e. dp_type (de_row e) = kind) es"

record dependency_lists =
  dq_blocked_by :: "dependency_entry list"
  dq_blocks :: "dependency_entry list"
  dq_sequence_after :: "dependency_entry list"
  dq_sequence_before :: "dependency_entry list"
  dq_relates_to :: "dependency_entry list"

definition dependency_lists_of :: "string \<Rightarrow> dependency_entry list \<Rightarrow> dependency_entry list \<Rightarrow> dependency_lists" where
  "dependency_lists_of projectId incoming outgoing =
     (let i = in_project projectId incoming; o' = in_project projectId outgoing
      in \<lparr>dq_blocked_by = of_type ''blocks'' i, dq_blocks = of_type ''blocks'' o',
          dq_sequence_after = of_type ''sequence_after'' i, dq_sequence_before = of_type ''sequence_after'' o',
          dq_relates_to = of_type ''relates_to'' i @ of_type ''relates_to'' o'\<rparr>)"

definition task_not_found_here :: "'b response" where
  "task_not_found_here = reply_error 404 ''Task not found in this project'' ''NOT_FOUND''"

definition dependencies_get :: "request \<Rightarrow> string \<Rightarrow> string \<Rightarrow> dependency_lists response prog" where
  "dependencies_get req projectId taskId = do {
     access \<leftarrow> getProjectAccess projectId (ag_id (rq_agent req));
     case access of
       None \<Rightarrow> State_Monad.return (forbidden ''Not a participant in this project'')
     | Some _ \<Rightarrow> do {
         there \<leftarrow> verifyTaskInProject taskId projectId;
         if \<not> there then State_Monad.return task_not_found_here
         else do {
           incoming \<leftarrow> call (q_incoming taskId);
           outgoing \<leftarrow> call (q_outgoing taskId);
           State_Monad.return (Answer 200 (dependency_lists_of projectId (rows_of incoming) (rows_of outgoing)))
         }
       }
   }"

section \<open>Adding\<close>

definition DEPENDENCY_TYPES :: "string list" where
  "DEPENDENCY_TYPES = [''blocks'', ''relates_to'', ''sequence_after'']"

text \<open>The two unique indexes: a directed pair per type, and one row per pair that is related.\<close>

definition same_dependency :: "dependency_row \<Rightarrow> dependency_row \<Rightarrow> bool" where
  "same_dependency n p \<longleftrightarrow> dp_type n = dp_type p \<and>
     (dp_blocking_task_id n = dp_blocking_task_id p \<and> dp_blocked_task_id n = dp_blocked_task_id p \<or>
      dp_type n = ''relates_to'' \<and> dp_blocking_task_id n = dp_blocked_task_id p \<and> dp_blocked_task_id n = dp_blocking_task_id p)"

definition check_violation_of :: "string \<Rightarrow> db_error" where
  "check_violation_of name = \<lparr>de_code = ''23514'', de_message = ''new row violates check constraint '' @ name\<rparr>"

definition fk_violation :: db_error where
  "fk_violation = \<lparr>de_code = ''23503'', de_message = ''insert or update violates foreign key constraint''\<rparr>"

definition q_insert_dependency :: "string \<Rightarrow> string \<Rightarrow> string \<Rightarrow> dependency_row list statement" where
  "q_insert_dependency blockingId blockedId kind = with_fresh (\<lambda>fresh d.
     if blockingId = blockedId then (Inl (check_violation_of ''task_dependencies_check''), d)
     else if \<not> {blockingId, blockedId} \<subseteq> t_id ` set (db_tasks d) then (Inl fk_violation, d)
     else q_insert db_dependencies db_dependencies_update same_dependency
       [\<lparr>dp_id = fresh, dp_blocking_task_id = blockingId, dp_blocked_task_id = blockedId, dp_type = kind,
         dp_created_at = db_now d\<rparr>] d)"

text \<open>A database without the types is asked again for the only type it has.\<close>

definition dependency_inserted ::
  "request \<Rightarrow> string \<Rightarrow> string \<Rightarrow> string \<Rightarrow> string \<Rightarrow> dependency_row response prog" where
  "dependency_inserted req taskId blockingId blockedId kind = do {
     first \<leftarrow> call (shaped shape_single (q_insert_dependency blockingId blockedId kind));
     let missing = (case first of Inl e \<Rightarrow> isMissingDependencyTypeColumn e | Inr _ \<Rightarrow> False);
     if missing \<and> kind \<noteq> ''blocks'' then State_Monad.return (reply_error 503
       ''Typed task dependencies require the latest database migration before relates_to or sequence_after can be created''
       ''FEATURE_NOT_READY'')
     else do {
       inserted \<leftarrow> (if missing then call (shaped shape_single (q_insert_dependency blockingId blockedId ''blocks''))
         else State_Monad.return first);
       case inserted of
         Inl e \<Rightarrow> State_Monad.return (if de_code e = ''23505'' then reply_error 409 ''This dependency already exists'' ''DUPLICATE''
           else reply_error 500 ''Failed to create dependency'' ''DB_ERROR'')
       | Inr dep \<Rightarrow> do {
           audit_task req ''task.dependency_add'' taskId
             [(''blocking_task_id'', JStr blockingId), (''blocked_task_id'', JStr blockedId), (''dependency_type'', JStr kind)];
           State_Monad.return (Answer 201 dep)
         }
     }
   }"

text \<open>Which task waits for which; the other task's id is any JSON value.\<close>

definition dependency_ends :: "json \<Rightarrow> string \<Rightarrow> (json \<times> json \<times> json) option" where
  "dependency_ends j taskId =
     (let blocking = jprop (Some j) ''blocking_task_id''; blocked = jprop (Some j) ''blocked_task_id''
      in if \<not> falsy blocking then Some (the blocking, JStr taskId, the blocking)
         else if \<not> falsy blocked then Some (JStr taskId, the blocked, the blocked)
         else None)"

definition dependencies_post_parsed ::
  "(json \<Rightarrow> string) \<Rightarrow> request \<Rightarrow> string \<Rightarrow> string \<Rightarrow> json \<Rightarrow> dependency_row response prog" where
  "dependencies_post_parsed to_text req projectId taskId j =
     (let kind = (if falsy (jprop (Some j) ''dependency_type'') then JStr ''blocks'' else the (jprop (Some j) ''dependency_type''))
      in if j = JNull then State_Monad.return (Thrown ''TypeError'')
         else if kind \<notin> JStr ` set DEPENDENCY_TYPES then State_Monad.return (reply_error 400
           ''Invalid dependency_type. Must be one of: blocks, relates_to, sequence_after'' ''VALIDATION_ERROR'')
         else case dependency_ends j taskId of
           None \<Rightarrow> State_Monad.return (reply_error 400 ''Must provide blocking_task_id or blocked_task_id'' ''VALIDATION_ERROR'')
         | Some (blocking, blocked, other) \<Rightarrow>
             if blocking = blocked then
               State_Monad.return (reply_error 400 ''A task cannot depend on itself'' ''VALIDATION_ERROR'')
             else do {
               let id_of = (\<lambda>v. case column_text to_text (Some v) of Some s \<Rightarrow> s | None \<Rightarrow> []);
               taskValid \<leftarrow> verifyTaskInProject taskId projectId;
               otherTaskValid \<leftarrow> verifyTaskInProject (id_of other) projectId;
               if \<not> taskValid \<or> \<not> otherTaskValid then
                 State_Monad.return (reply_error 404 ''Both tasks must belong to this project'' ''NOT_FOUND'')
               else dependency_inserted req taskId (id_of blocking) (id_of blocked)
                 (case kind of JStr k \<Rightarrow> k | _ \<Rightarrow> [])
             })"

definition dependencies_post ::
  "(json \<Rightarrow> string) \<Rightarrow> request \<Rightarrow> string \<Rightarrow> string \<Rightarrow> dependency_row response prog" where
  "dependencies_post to_text req projectId taskId =
     writing_project req projectId ''Observers may inspect task dependencies but cannot edit them'' (\<lambda>_.
       case rq_body req of
         Parsed j \<Rightarrow> dependencies_post_parsed to_text req projectId taskId j
       | _ \<Rightarrow> State_Monad.return (reply_error 400 ''Invalid JSON body'' ''INVALID_BODY''))"

section \<open>Removing\<close>

definition dependency_removed :: "request \<Rightarrow> string \<Rightarrow> string \<Rightarrow> string \<Rightarrow> json \<Rightarrow> unit response prog" where
  "dependency_removed req projectId taskId depId given = do {
     there \<leftarrow> verifyTaskInProject taskId projectId;
     if \<not> there then State_Monad.return task_not_found_here
     else do {
       found \<leftarrow> call (shaped shape_single (q_select db_dependencies (\<lambda>p. dp_id p = depId)));
       case data_of found of
         None \<Rightarrow> State_Monad.return (reply_error 404 ''Dependency not found'' ''NOT_FOUND'')
       | Some dep \<Rightarrow> do {
           blockingInProject \<leftarrow> verifyTaskInProject (dp_blocking_task_id dep) projectId;
           blockedInProject \<leftarrow> verifyTaskInProject (dp_blocked_task_id dep) projectId;
           if \<not> blockingInProject \<or> \<not> blockedInProject then
             State_Monad.return (forbidden ''Dependency does not belong to this project'')
           else do {
             deleted \<leftarrow> call (q_delete db_dependencies db_dependencies_update (\<lambda>p. dp_id p = depId));
             case deleted of
               Inl _ \<Rightarrow> State_Monad.return (reply_error 500 ''Failed to remove dependency'' ''DB_ERROR'')
             | Inr _ \<Rightarrow> do {
                 audit_task req ''task.dependency_remove'' taskId [(''dependency_id'', given)];
                 State_Monad.return (Answer 200 ())
               }
           }
         }
     }
   }"

definition dependencies_delete :: "(json \<Rightarrow> string) \<Rightarrow> request \<Rightarrow> string \<Rightarrow> string \<Rightarrow> unit response prog" where
  "dependencies_delete to_text req projectId taskId =
     writing_project req projectId ''Observers may inspect task dependencies but cannot edit them'' (\<lambda>_.
       case rq_body req of
         Parsed j \<Rightarrow>
           if j = JNull then State_Monad.return (Thrown ''TypeError'')
           else if falsy (jprop (Some j) ''dependency_id'') then
             State_Monad.return (reply_error 400 ''Missing required field: dependency_id'' ''VALIDATION_ERROR'')
           else dependency_removed req projectId taskId
             (case column_text to_text (jprop (Some j) ''dependency_id'') of Some s \<Rightarrow> s | None \<Rightarrow> [])
             (the (jprop (Some j) ''dependency_id''))
       | _ \<Rightarrow> State_Monad.return (reply_error 400 ''Invalid JSON body'' ''INVALID_BODY''))"

end
