(* ===== verification/TaskRoutes.thy ===== *)
theory TaskRoutes
  imports Tasks TaskDependencies AttachmentFiles
begin

text \<open>
  One task: read it with all that belongs to it, and change it
  (\<open>src/app/api/v1/projects/[id]/tasks/[tid]/route.ts\<close>; the events of \<open>src/lib/task-activity.ts\<close>).
\<close>

section \<open>Reading\<close>

text \<open>A run or a checkpoint with the agents its metadata names.\<close>

record 'r hydrated =
  hy_row :: 'r
  hy_agent :: "agent_row option"
  hy_delegated_by :: "agent_row option"
  hy_observer :: "agent_row option"
  hy_broker :: "agent_row option"

definition agent_with :: "agent_row list \<Rightarrow> string option \<Rightarrow> agent_row option" where
  "agent_with as' i = (if truthy_str i then find (\<lambda>a. Some (ag_id a) = i) as' else None)"

definition hydrateDelegationAgent :: "agent_row list \<Rightarrow> json \<Rightarrow> agent_row option" where
  "hydrateDelegationAgent as' record =
     agent_with as' (first_text (as_string (jprop (Some record) ''delegated_by_agent_id''))
       (as_string (jprop (Some record) ''claimed_from_agent_id'')))"

definition hydrateBrokerAgent :: "agent_row list \<Rightarrow> json \<Rightarrow> agent_row option" where
  "hydrateBrokerAgent as' record =
     agent_with as' (Option.bind (getEscalationBrokerageProvenance (Some record)) eb_brokerAgentId)"

definition hydrated_of :: "agent_row list \<Rightarrow> string \<Rightarrow> json \<Rightarrow> 'r \<Rightarrow> 'r hydrated" where
  "hydrated_of as' agentId record row =
     \<lparr>hy_row = row, hy_agent = find (\<lambda>a. ag_id a = agentId) as', hy_delegated_by = hydrateDelegationAgent as' record,
      hy_observer = agent_with as' (as_string (jprop (Some record) ''observer_agent_id'')),
      hy_broker = hydrateBrokerAgent as' record\<rparr>"

record activity_entry =
  ae_row :: activity_row
  ae_actor_agent :: "agent_row option"
  ae_actor_user :: "user_row option"

definition activity_entry_of :: "db \<Rightarrow> activity_row \<Rightarrow> activity_entry" where
  "activity_entry_of d e =
     \<lparr>ae_row = e, ae_actor_agent = find (\<lambda>a. Some (ag_id a) = av_actor_agent_id e) (db_agents d),
      ae_actor_user = find (\<lambda>u. Some (u_id u) = av_actor_user_id e) (db_users d)\<rparr>"

text \<open>A database without the table has no events; any other failure is caught by the only caller.\<close>

definition q_activity :: "string \<Rightarrow> nat \<Rightarrow> activity_entry list statement" where
  "q_activity taskId limit d = (Inr (map (activity_entry_of d)
     (take limit (descending av_created_at (filter (\<lambda>e. av_task_id e = taskId) (db_activity d))))), d)"

definition listTaskActivityEvents :: "string \<Rightarrow> nat \<Rightarrow> (db_error + activity_entry list) prog" where
  "listTaskActivityEvents taskId limit = do {
     r \<leftarrow> call (q_activity taskId limit);
     State_Monad.return (case r of Inr es \<Rightarrow> Inr es | Inl e \<Rightarrow> if isMissingTaskActivityTable e then Inr [] else Inl e)
   }"

fun checkpoints_of_runs :: "run_row list \<Rightarrow> checkpoint_row list prog" where
  "checkpoints_of_runs [] = State_Monad.return []"
| "checkpoints_of_runs (r # rs) = do {
     listed \<leftarrow> listTaskExecutionCheckpoints (r_id r);
     rest \<leftarrow> checkpoints_of_runs rs;
     State_Monad.return (or_none listed @ rest)
   }"

definition newest_checkpoints :: "checkpoint_row list \<Rightarrow> checkpoint_row list" where
  "newest_checkpoints cs = descending ck_created_at (descending ck_sequence cs)"

definition maybe_row :: "(db \<Rightarrow> 'r list) \<Rightarrow> ('r \<Rightarrow> string) \<Rightarrow> string option \<Rightarrow> 'r option prog" where
  "maybe_row rows key i =
     (if \<not> truthy_str i then State_Monad.return None
      else do {
        r \<leftarrow> call (shaped shape_single (q_select rows (\<lambda>x. Some (key x) = i)));
        State_Monad.return (data_of r)
      })"

text \<open>The linked contracts the caller takes part in.\<close>

definition visible_contracts :: "string \<Rightarrow> contract_row list \<Rightarrow> contract_row list prog" where
  "visible_contracts agentId cs =
     (if cs = [] then State_Monad.return []
      else do {
        ps \<leftarrow> call (q_select db_participants (\<lambda>p. p_agent_id p = agentId \<and> p_contract_id p \<in> c_id ` set cs));
        State_Monad.return (filter (\<lambda>c. c_id c \<in> p_contract_id ` set (rows_of ps)) cs)
      })"

record task_detail =
  td_task :: task_row
  td_dependencies :: dependency_lists
  td_linked_contracts :: "contract_row list"
  td_assignee :: "agent_row option"
  td_reporter :: "agent_row option"
  td_sprint :: "sprint_row option"
  td_runs :: "run_row hydrated list"
  td_checkpoints :: "checkpoint_row hydrated list"
  td_activity :: "activity_entry list"
  td_attachments :: "signed_attachment list"

definition task_detailed :: "storage \<Rightarrow> request \<Rightarrow> string \<Rightarrow> task_row \<Rightarrow> task_detail response prog" where
  "task_detailed so req projectId task = do {
     incoming \<leftarrow> call (q_incoming (t_id task));
     outgoing \<leftarrow> call (q_outgoing (t_id task));
     contracts \<leftarrow> call (q_task_contracts (t_id task));
     assignee \<leftarrow> maybe_row db_agents ag_id (t_assignee_agent_id task);
     reporter \<leftarrow> maybe_row db_agents ag_id (t_reporter_agent_id task);
     sprint \<leftarrow> maybe_row db_sprints sp_id (t_sprint_id task);
     runs \<leftarrow> listTaskExecutionRuns (t_id task);
     again \<leftarrow> listTaskExecutionRuns (t_id task);
     checkpoints \<leftarrow> checkpoints_of_runs (or_none again);
     attachments \<leftarrow> listSignedAttachments so projectId (Some (t_id task)) None;
     agents \<leftarrow> call (q_select db_agents (\<lambda>_. True));
     visible \<leftarrow> visible_contracts (ag_id (rq_agent req)) (rows_of contracts);
     activity \<leftarrow> listTaskActivityEvents (t_id task) 50;
     State_Monad.return (Answer 200
       \<lparr>td_task = task, td_dependencies = dependency_lists_of projectId (rows_of incoming) (rows_of outgoing),
        td_linked_contracts = visible, td_assignee = assignee, td_reporter = reporter, td_sprint = sprint,
        td_runs = map (\<lambda>r. hydrated_of (rows_of agents) (r_agent_id r) (r_metadata r) r) (or_none runs),
        td_checkpoints = map (\<lambda>c. hydrated_of (rows_of agents) (ck_agent_id c) (ck_payload c) c) (newest_checkpoints checkpoints),
        td_activity = or_none activity, td_attachments = or_none attachments\<rparr>)
   }"

definition task_get :: "storage \<Rightarrow> request \<Rightarrow> string \<Rightarrow> string \<Rightarrow> task_detail response prog" where
  "task_get so req projectId taskId =
     reading_project req projectId ''Observer task visibility blocked by trust policy'' (do {
       found \<leftarrow> getTaskContext projectId taskId;
       case found of
         None \<Rightarrow> State_Monad.return (reply_error 404 ''Task not found'' ''NOT_FOUND'')
       | Some task \<Rightarrow> task_detailed so req projectId task
     })"

section \<open>Changing\<close>

definition task_columns :: "string list" where
  "task_columns = [''title'', ''description'', ''status'', ''priority'', ''sprint_id'', ''assignee_agent_id'', ''labels'',
     ''due_date'', ''position'']"

definition task_changes :: "json \<Rightarrow> content" where
  "task_changes j = given j task_columns"

definition choice_refusal :: "json \<Rightarrow> string \<Rightarrow> string list \<Rightarrow> 'b response option" where
  "choice_refusal j k choices =
     (if jprop (Some j) k \<noteq> None \<and> jprop (Some j) k \<notin> Some ` JStr ` set choices then Some (invalid_choice k choices) else None)"

definition chosen :: "json \<Rightarrow> string \<Rightarrow> string \<Rightarrow> string" where
  "chosen j k old = (case jprop (Some j) k of Some (JStr s) \<Rightarrow> s | _ \<Rightarrow> old)"

text \<open>Labels and position as the driver writes them; \<open>None\<close>: it cannot.\<close>

definition new_labels :: "driver \<Rightarrow> json \<Rightarrow> string list option option" where
  "new_labels dv j = (case jprop (Some j) ''labels'' of None \<Rightarrow> Some None | Some v \<Rightarrow> map_option Some (dv_list dv v))"

definition new_position :: "driver \<Rightarrow> json \<Rightarrow> int option option" where
  "new_position dv j = (case jprop (Some j) ''position'' of None \<Rightarrow> Some None
     | Some v \<Rightarrow> if v = JNull then Some None else map_option Some (turns_column (dv_int dv) v))"

definition changed_task :: "driver \<Rightarrow> json \<Rightarrow> string list option \<Rightarrow> int option \<Rightarrow> timestamp \<Rightarrow> task_row \<Rightarrow> task_row" where
  "changed_task dv j labels position now t =
     t\<lparr>t_title := changed_text dv j ''title'' (t_title t), t_description := changed_text dv j ''description'' (t_description t),
       t_status := map_option (chosen j ''status'') (t_status t), t_priority := chosen j ''priority'' (t_priority t),
       t_sprint_id := changed_text dv j ''sprint_id'' (t_sprint_id t),
       t_assignee_agent_id := changed_text dv j ''assignee_agent_id'' (t_assignee_agent_id t),
       t_labels := (case labels of None \<Rightarrow> t_labels t | Some ls \<Rightarrow> ls),
       t_due_date := changed_text dv j ''due_date'' (t_due_date t),
       t_position := (case position of None \<Rightarrow> t_position t | Some n \<Rightarrow> n), t_updated_at := now\<rparr>"

text \<open>Title and position must not be null.\<close>

definition q_update_task :: "driver \<Rightarrow> string \<Rightarrow> string \<Rightarrow> json \<Rightarrow> task_row list statement" where
  "q_update_task dv projectId taskId j d =
     (case (new_labels dv j, new_position dv j) of
        (Some labels, Some position) \<Rightarrow>
          if (jprop (Some j) ''title'' = Some JNull \<or> jprop (Some j) ''position'' = Some JNull) \<and>
             (\<exists>t\<in>set (db_tasks d). t_id t = taskId \<and> t_project_id t = projectId) then (Inl not_null_violation, d)
          else q_update db_tasks db_tasks_update (\<lambda>t. t_id t = taskId \<and> t_project_id t = projectId)
            (changed_task dv j labels position (db_now d)) d
      | _ \<Rightarrow> (Inl invalid_input, d))"

text \<open>The status is never null (\<open>NOT NULL\<close>), so \<open>changed_task\<close> may leave a missing one alone.\<close>

subsection \<open>What is noted of a change\<close>

record change_note =
  cn_type :: string
  cn_text :: string
  cn_event :: string
  cn_summary :: string
  cn_metadata :: content

definition status_note :: "task_row \<Rightarrow> json \<Rightarrow> change_note list" where
  "status_note old j =
     (case jprop (Some j) ''status'' of
        Some (JStr s) \<Rightarrow>
          if s = [] \<or> Some s = t_status old then []
          else [\<lparr>cn_type = ''status_change'',
                 cn_text = ''Status changed from '' @ [CHR 0x27] @ shown (t_status old) @ [CHR 0x27] @ '' to '' @ [CHR 0x27] @ s @ [CHR 0x27],
                 cn_event = ''status_change'', cn_summary = ''Status changed from '' @ shown (t_status old) @ '' to '' @ s,
                 cn_metadata = [(''old_status'', jstr_or_null (t_status old)), (''new_status'', JStr s)]\<rparr>]
      | _ \<Rightarrow> [])"

definition priority_note :: "task_row \<Rightarrow> json \<Rightarrow> change_note list" where
  "priority_note old j =
     (case jprop (Some j) ''priority'' of
        Some (JStr s) \<Rightarrow>
          if s = [] \<or> s = t_priority old then []
          else [\<lparr>cn_type = ''system'', cn_text = ''Priority changed to '' @ s, cn_event = ''priority_change'',
                 cn_summary = ''Priority changed to '' @ s,
                 cn_metadata = [(''old_priority'', JStr (t_priority old)), (''new_priority'', JStr s)]\<rparr>]
      | _ \<Rightarrow> [])"

definition reassigned :: "string option \<Rightarrow> json \<Rightarrow> bool" where
  "reassigned old j \<longleftrightarrow>
     jprop (Some j) ''assignee_agent_id'' \<noteq> None \<and> jprop (Some j) ''assignee_agent_id'' \<noteq> Some (jstr_or_null old)"

definition assignment_note :: "string \<Rightarrow> task_row \<Rightarrow> json \<Rightarrow> change_note" where
  "assignment_note text old new =
     \<lparr>cn_type = ''assignment'', cn_text = text, cn_event = ''assignment'', cn_summary = text,
      cn_metadata = [(''old_assignee'', jstr_or_null (t_assignee_agent_id old)), (''new_assignee'', new)]\<rparr>"

definition assignee_note :: "driver \<Rightarrow> task_row \<Rightarrow> json \<Rightarrow> change_note list prog" where
  "assignee_note dv old j =
     (let v = jprop (Some j) ''assignee_agent_id''
      in if \<not> reassigned (t_assignee_agent_id old) j then State_Monad.return []
         else if falsy v then State_Monad.return [assignment_note ''Assignee removed'' old JNull]
         else do {
           r \<leftarrow> call (shaped shape_single (q_select db_agents (\<lambda>a. Some (ag_id a) = column_text (dv_text dv) v)));
           State_Monad.return [assignment_note (''Assigned to '' @ str_or (map_option agent_title (data_of r)) ''Unknown'') old (the v)]
         })"

fun log_changes :: "request \<Rightarrow> string \<Rightarrow> string \<Rightarrow> change_note list \<Rightarrow> unit prog" where
  "log_changes req projectId taskId [] = State_Monad.return ()"
| "log_changes req projectId taskId (n # ns) = do {
     note_activity req projectId taskId (cn_event n) (cn_summary n) (cn_metadata n);
     log_changes req projectId taskId ns
   }"

definition change_comment :: "request \<Rightarrow> string \<Rightarrow> string \<Rightarrow> change_note \<Rightarrow> comment_fields" where
  "change_comment req projectId taskId n =
     \<lparr>cm_task_id = taskId, cm_project_id = projectId, cm_author_agent_id = Some (ag_id (rq_agent req)),
      cm_author_name = agent_title (rq_agent req), cm_content = cn_text n, cm_comment_type = cn_type n, cm_metadata = cn_metadata n\<rparr>"

definition changes_noted :: "driver \<Rightarrow> request \<Rightarrow> string \<Rightarrow> string \<Rightarrow> task_row option \<Rightarrow> json \<Rightarrow> unit prog" where
  "changes_noted dv req projectId taskId oldTask j =
     (case oldTask of
        None \<Rightarrow> State_Monad.return ()
      | Some old \<Rightarrow> do {
          log_changes req projectId taskId (status_note old j);
          who \<leftarrow> assignee_note dv old j;
          log_changes req projectId taskId (who @ priority_note old j);
          let notes = status_note old j @ who @ priority_note old j;
          if notes = [] then State_Monad.return ()
          else insert_comments (map (change_comment req projectId taskId) notes)
        })"

definition change_announced :: "request \<Rightarrow> string \<Rightarrow> task_row \<Rightarrow> json \<Rightarrow> unit prog" where
  "change_announced req projectId task j = do {
     memberIds \<leftarrow> getProjectVisibleAgentIds projectId;
     deliver (task_event memberIds ''task.updated'' None projectId (t_id task)
       [(''title'', jstr_or_null (t_title task)), (''updated_by'', JStr (ag_name (rq_agent req))),
        (''changes'', JObj (task_changes j))])
   }"

subsection \<open>The route\<close>

text \<open>After the update and the contracts.\<close>

definition patch_finished ::
  "driver \<Rightarrow> request \<Rightarrow> string \<Rightarrow> json \<Rightarrow> task_row option \<Rightarrow> task_row \<Rightarrow> contract_row option \<Rightarrow> contract_row option \<Rightarrow>
   task_answer response prog" where
  "patch_finished dv req projectId j oldTask task handoff escalation = do {
     syncTaskExecutionForStatusChange req projectId (t_id task) oldTask task;
     audit_task req ''task.update'' (t_id task)
       ([(''project_id'', JStr projectId)] @ task_changes j @
        [(''handoff_contract_id'', jid_or_null handoff), (''escalation_contract_id'', jid_or_null escalation)]);
     changes_noted dv req projectId (t_id task) oldTask j;
     note_contract req projectId (t_id task) ForHandoff handoff;
     note_contract req projectId (t_id task) ForEscalation escalation;
     change_announced req projectId task j;
     refreshTaskBlockedState (t_id task);
     refreshed \<leftarrow> getTaskContext projectId (t_id task);
     State_Monad.return (Answer 200
       \<lparr>ta_task = (case refreshed of Some t \<Rightarrow> t | None \<Rightarrow> task), ta_handoff = handoff, ta_escalation = escalation\<rparr>)
   }"

definition patch_updated ::
  "driver \<Rightarrow> request \<Rightarrow> string \<Rightarrow> json \<Rightarrow> rat \<Rightarrow> rat \<Rightarrow> task_row option \<Rightarrow> task_row \<Rightarrow> task_answer response prog" where
  "patch_updated dv req projectId j handoffHours escalationHours oldTask task =
     accepting (changed_task_handoff dv req projectId task j handoffHours) (\<lambda>handoff.
     accepting (changed_task_escalation dv req projectId task j escalationHours) (\<lambda>escalation.
       patch_finished dv req projectId j oldTask task handoff escalation))"

text \<open>\<open>single()\<close> reports a missing row as an error, so the branch that answers 404 is never taken.\<close>

definition patch_written ::
  "driver \<Rightarrow> request \<Rightarrow> string \<Rightarrow> string \<Rightarrow> json \<Rightarrow> rat \<Rightarrow> rat \<Rightarrow> task_row option \<Rightarrow> task_answer response prog" where
  "patch_written dv req projectId taskId j handoffHours escalationHours oldTask = do {
     r \<leftarrow> call (shaped shape_single (if task_changes j \<noteq> [] then q_update_task dv projectId taskId j
       else q_select db_tasks (\<lambda>t. t_id t = taskId \<and> t_project_id t = projectId)));
     case r of
       Inl _ \<Rightarrow> State_Monad.return (reply_error 500 ''Failed to update task'' ''DB_ERROR'')
     | Inr task \<Rightarrow> patch_updated dv req projectId j handoffHours escalationHours oldTask task
   }"

definition patch_people ::
  "driver \<Rightarrow> request \<Rightarrow> string \<Rightarrow> string \<Rightarrow> json \<Rightarrow> rat \<Rightarrow> rat \<Rightarrow> task_answer response prog" where
  "patch_people dv req projectId taskId j handoffHours escalationHours =
     accepting (check_names ForHandoff req j) (\<lambda>_.
     accepting (check_names ForEscalation req j) (\<lambda>_. do {
       oldTask \<leftarrow> getTaskContext projectId taskId;
       unless (sprint_refusal dv projectId (jprop (Some j) ''sprint_id''))
         (patch_written dv req projectId taskId j handoffHours escalationHours oldTask)
     }))"

text \<open>\<open>'sprint_id' in parsed\<close> throws when the body is a number, a text or a truth value.\<close>

definition has_members :: "json \<Rightarrow> bool" where
  "has_members j = (case j of JObj _ \<Rightarrow> True | JArr _ \<Rightarrow> True | _ \<Rightarrow> False)"

definition task_patch_parsed :: "driver \<Rightarrow> request \<Rightarrow> string \<Rightarrow> string \<Rightarrow> json \<Rightarrow> task_answer response prog" where
  "task_patch_parsed dv req projectId taskId j =
     (case choice_refusal j ''status'' task_statuses of
        Some r \<Rightarrow> State_Monad.return r
      | None \<Rightarrow> (case choice_refusal j ''priority'' task_priorities of
          Some r \<Rightarrow> State_Monad.return r
        | None \<Rightarrow>
            if \<not> has_members j then State_Monad.return (Thrown ''TypeError'')
            else with_people j (
              if task_changes j = [] \<and> asked_contract ForHandoff j = None \<and> asked_contract ForEscalation j = None then
                State_Monad.return (reply_error 400 ''No fields to update'' ''VALIDATION_ERROR'')
              else unless (assignee_refusal dv projectId (jprop (Some j) ''assignee_agent_id''))
                (with_windows j (patch_people dv req projectId taskId j)))))"

definition task_patch :: "driver \<Rightarrow> request \<Rightarrow> string \<Rightarrow> string \<Rightarrow> task_answer response prog" where
  "task_patch dv req projectId taskId =
     writing_project req projectId ''Observers may not mutate task state'' (\<lambda>_.
       case rq_body req of
         Parsed j \<Rightarrow> task_patch_parsed dv req projectId taskId j
       | _ \<Rightarrow> State_Monad.return (reply_error 400 ''Invalid JSON body'' ''INVALID_BODY''))"

end
