(* ===== verification/TaskComments.thy ===== *)
theory TaskComments
  imports TaskRoutes
begin

text \<open>
  The comments on a task (\<open>src/app/api/v1/projects/[id]/tasks/[tid]/comments/route.ts\<close>, \<open>src/lib/observer-mode.ts\<close>) and
  the contracts linked to it (\<open>tasks/[tid]/contracts/route.ts\<close>).
\<close>

section \<open>What observers may say\<close>

definition normalizeObserverCommentType :: "string \<Rightarrow> string" where
  "normalizeObserverCommentType t = (if t = ''analysis'' then ''analysis'' else ''comment'')"

definition isObserverCommentTypeAllowed :: "string option \<Rightarrow> bool" where
  "isObserverCommentTypeAllowed t \<longleftrightarrow> t = None \<or> t = Some ''comment'' \<or> t = Some ''analysis''"

definition buildObserverCommentMetadata :: "json \<Rightarrow> json" where
  "buildObserverCommentMetadata metadata =
     obj_spread metadata [(''observer_note'', JBool True), (''observer_read_only'', JBool True)]"

section \<open>Comments\<close>

record comment_entry =
  ce_row :: comment_row
  ce_author :: "agent_row option"

definition comment_entry_of :: "db \<Rightarrow> comment_row \<Rightarrow> comment_entry" where
  "comment_entry_of d c = \<lparr>ce_row = c, ce_author = find (\<lambda>a. Some (ag_id a) = cm_author_agent_id c) (db_agents d)\<rparr>"

text \<open>A page that is no number is no SQL.\<close>

definition q_comments :: "string \<Rightarrow> string \<Rightarrow> int option \<Rightarrow> int option \<Rightarrow> (comment_entry list \<times> nat) statement" where
  "q_comments projectId taskId page perPage d =
     (case (page, perPage) of
        (Some k, Some n) \<Rightarrow>
          (let rows = descending cm_created_at
             (filter (\<lambda>c. cm_task_id c = taskId \<and> cm_project_id c = projectId) (db_comments d))
           in (Inr (map (comment_entry_of d) (take (nat n) (drop (nat ((k - 1) * n)) rows)), length rows), d))
      | _ \<Rightarrow> (Inl Projects.syntax_error, d))"

record comment_page =
  cp_comments :: "comment_entry list"
  cp_page :: "int option"
  cp_per_page :: "int option"
  cp_total :: nat
  cp_total_pages :: int

definition comments_get ::
  "request \<Rightarrow> string \<Rightarrow> string \<Rightarrow> string option \<Rightarrow> string option \<Rightarrow> comment_page response prog" where
  "comments_get req projectId taskId page_text per_page_text = do {
     access \<leftarrow> getProjectAccess projectId (ag_id (rq_agent req));
     case access of
       None \<Rightarrow> State_Monad.return not_participating
     | Some _ \<Rightarrow> do {
         task \<leftarrow> getTaskContext projectId taskId;
         if task = None then State_Monad.return (reply_error 404 ''Task not found'' ''NOT_FOUND'')
         else do {
           let page = page_param page_text ''1'';
           let perPage = map_option (min 100) (page_param per_page_text ''20'');
           r \<leftarrow> call (q_comments projectId taskId page perPage);
           State_Monad.return (case r of
               Inl _ \<Rightarrow> reply_error 500 ''Failed to fetch comments'' ''DB_ERROR''
             | Inr (rows, count) \<Rightarrow> Answer 200 \<lparr>cp_comments = rows, cp_page = page, cp_per_page = perPage, cp_total = count,
                 cp_total_pages = - ((- int count) div (case perPage of Some n \<Rightarrow> n | None \<Rightarrow> 1))\<rparr>)
         }
       }
   }"

definition comment_types :: "string list" where
  "comment_types = [''comment'', ''status_change'', ''assignment'', ''system'', ''analysis'']"

text \<open>The type a comment is stored with: an observer's is a comment or an analysis.\<close>

definition stored_type :: "project_access \<Rightarrow> string \<Rightarrow> string" where
  "stored_type a t = (if pac_accessKind a = ObserverKind then normalizeObserverCommentType t else t)"

definition access_facts :: "project_access \<Rightarrow> content" where
  "access_facts a = [(''participant_role'', JStr (access_role_name (pac_role a))),
     (''participant_access_kind'', JStr (access_kind_name (pac_accessKind a)))]"

definition comment_metadata :: "project_access \<Rightarrow> json \<Rightarrow> json" where
  "comment_metadata a given' = obj_spread
     (if pac_accessKind a = ObserverKind then buildObserverCommentMetadata given' else given') (access_facts a)"

definition new_comment :: "request \<Rightarrow> string \<Rightarrow> string \<Rightarrow> project_access \<Rightarrow> string \<Rightarrow> string \<Rightarrow> json \<Rightarrow> comment_fields" where
  "new_comment req projectId taskId a text kind metadata =
     \<lparr>cm_task_id = taskId, cm_project_id = projectId, cm_author_agent_id = Some (ag_id (rq_agent req)),
      cm_author_name = agent_title (rq_agent req), cm_content = js_trim text, cm_comment_type = stored_type a kind,
      cm_metadata = object_entries (comment_metadata a metadata)\<rparr>"

definition comment_added ::
  "request \<Rightarrow> string \<Rightarrow> string \<Rightarrow> project_access \<Rightarrow> string \<Rightarrow> string \<Rightarrow> json \<Rightarrow> comment_row response prog" where
  "comment_added req projectId taskId a text kind metadata = do {
     task \<leftarrow> getTaskContext projectId taskId;
     if task = None then State_Monad.return (reply_error 404 ''Task not found'' ''NOT_FOUND'')
     else do {
       r \<leftarrow> call (shaped shape_single (q_insert_comments [new_comment req projectId taskId a text kind metadata]));
       case r of
         Inl _ \<Rightarrow> State_Monad.return (reply_error 500 ''Failed to create comment'' ''DB_ERROR'')
       | Inr comment \<Rightarrow> do {
           audit_task req ''task_comment.create'' taskId
             [(''project_id'', JStr projectId), (''comment_type'', JStr (stored_type a kind)),
              (''participant_role'', JStr (access_role_name (pac_role a)))];
           note_activity req projectId taskId (stored_type a kind)
             (if stored_type a kind = ''analysis'' then ''Analysis note added'' else ''Comment added'')
             ([(''comment_id'', JStr (cm_id comment)), (''comment_type'', JStr (stored_type a kind))] @ access_facts a);
           State_Monad.return (Answer 201 comment)
         }
     }
   }"

definition comments_post_parsed ::
  "request \<Rightarrow> string \<Rightarrow> string \<Rightarrow> project_access \<Rightarrow> json \<Rightarrow> comment_row response prog" where
  "comments_post_parsed req projectId taskId a j =
     (let kind = (if falsy (jprop (Some j) ''comment_type'') then JStr ''comment'' else the (jprop (Some j) ''comment_type''))
      in if j = JNull then State_Monad.return (Thrown ''TypeError'')
         else case as_string (jprop (Some j) ''content'') of
           None \<Rightarrow> State_Monad.return (reply_error 400 ''content is required and must be a non-empty string'' ''VALIDATION_ERROR'')
         | Some text \<Rightarrow>
             if js_trim text = [] then
               State_Monad.return (reply_error 400 ''content is required and must be a non-empty string'' ''VALIDATION_ERROR'')
             else if kind \<notin> JStr ` set comment_types then State_Monad.return (invalid_choice ''comment_type'' comment_types)
             else if pac_accessKind a = ObserverKind \<and> \<not> isObserverCommentTypeAllowed (as_string (Some kind)) then
               State_Monad.return (forbidden ''Observers may only leave commentary/analysis notes'')
             else comment_added req projectId taskId a text (case kind of JStr s \<Rightarrow> s | _ \<Rightarrow> [])
               (if falsy (jprop (Some j) ''metadata'') then JObj [] else the (jprop (Some j) ''metadata'')))"

definition comments_post :: "request \<Rightarrow> string \<Rightarrow> string \<Rightarrow> comment_row response prog" where
  "comments_post req projectId taskId = do {
     access \<leftarrow> getProjectAccess projectId (ag_id (rq_agent req));
     case access of
       None \<Rightarrow> State_Monad.return not_participating
     | Some a \<Rightarrow> (case rq_body req of
         Parsed j \<Rightarrow> comments_post_parsed req projectId taskId a j
       | _ \<Rightarrow> State_Monad.return (reply_error 400 ''Invalid JSON body'' ''INVALID_BODY''))
   }"

section \<open>Linked contracts\<close>

definition linked_get :: "request \<Rightarrow> string \<Rightarrow> string \<Rightarrow> contract_row list response prog" where
  "linked_get req projectId taskId = do {
     access \<leftarrow> getProjectAccess projectId (ag_id (rq_agent req));
     case access of
       None \<Rightarrow> State_Monad.return not_participating
     | Some _ \<Rightarrow> do {
         there \<leftarrow> verifyTaskInProject taskId projectId;
         if \<not> there then State_Monad.return task_not_found_here
         else do {
           links \<leftarrow> call (q_task_contracts taskId);
           case links of
             Inl _ \<Rightarrow> State_Monad.return (reply_error 500 ''Failed to fetch linked contracts'' ''DB_ERROR'')
           | Inr cs \<Rightarrow> do {
               visible \<leftarrow> visible_contracts (ag_id (rq_agent req)) cs;
               State_Monad.return (Answer 200 visible)
             }
         }
       }
   }"

definition given_contract_id :: "(json \<Rightarrow> string) \<Rightarrow> json \<Rightarrow> string" where
  "given_contract_id to_text j = (case column_text to_text (jprop (Some j) ''contract_id'') of Some s \<Rightarrow> s | None \<Rightarrow> [])"

definition audit_link :: "request \<Rightarrow> string \<Rightarrow> string \<Rightarrow> json \<Rightarrow> unit prog" where
  "audit_link req action taskId j = audit_task req action taskId [(''contract_id'', or_default (jprop (Some j) ''contract_id'') JNull)]"

definition linked_post_parsed :: "(json \<Rightarrow> string) \<Rightarrow> request \<Rightarrow> string \<Rightarrow> json \<Rightarrow> task_contract_row response prog" where
  "linked_post_parsed to_text req taskId j = do {
     let contractId = given_contract_id to_text j;
     contract \<leftarrow> call (shaped shape_single (q_select db_contracts (\<lambda>c. c_id c = contractId)));
     if data_of contract = None then State_Monad.return (reply_error 404 ''Contract not found'' ''NOT_FOUND'')
     else do {
       participation \<leftarrow> call (shaped shape_single (q_select db_participants
         (\<lambda>p. p_contract_id p = contractId \<and> p_agent_id p = ag_id (rq_agent req))));
       if data_of participation = None then
         State_Monad.return (forbidden ''You must be a participant in the contract to link it'')
       else do {
         r \<leftarrow> call (shaped shape_single (q_link_task taskId contractId));
         case r of
           Inl e \<Rightarrow> State_Monad.return (if de_code e = ''23505''
             then reply_error 409 ''This contract is already linked to this task'' ''DUPLICATE''
             else reply_error 500 ''Failed to link contract'' ''DB_ERROR'')
         | Inr link \<Rightarrow> do {
             audit_link req ''task.contract_link'' taskId j;
             State_Monad.return (Answer 201 link)
           }
       }
     }
   }"

definition with_contract_id :: "request \<Rightarrow> (json \<Rightarrow> 'b response prog) \<Rightarrow> 'b response prog" where
  "with_contract_id req k =
     (case rq_body req of
        Parsed j \<Rightarrow>
          if j = JNull then State_Monad.return (Thrown ''TypeError'')
          else if falsy (jprop (Some j) ''contract_id'') then
            State_Monad.return (reply_error 400 ''Missing required field: contract_id'' ''VALIDATION_ERROR'')
          else k j
      | _ \<Rightarrow> State_Monad.return (reply_error 400 ''Invalid JSON body'' ''INVALID_BODY''))"

definition linked_post :: "(json \<Rightarrow> string) \<Rightarrow> request \<Rightarrow> string \<Rightarrow> string \<Rightarrow> task_contract_row response prog" where
  "linked_post to_text req projectId taskId = do {
     refusal \<leftarrow> checkLinkPermission projectId taskId (ag_id (rq_agent req));
     case refusal of
       Some r \<Rightarrow> State_Monad.return (Refusal r)
     | None \<Rightarrow> with_contract_id req (linked_post_parsed to_text req taskId)
   }"

definition linked_delete_parsed :: "(json \<Rightarrow> string) \<Rightarrow> request \<Rightarrow> string \<Rightarrow> json \<Rightarrow> unit response prog" where
  "linked_delete_parsed to_text req taskId j = do {
     let contractId = given_contract_id to_text j;
     participation \<leftarrow> call (shaped shape_maybe (q_select db_participants
       (\<lambda>p. p_contract_id p = contractId \<and> p_agent_id p = ag_id (rq_agent req))));
     if maybe_of participation = None then
       State_Monad.return (forbidden ''You must be a participant in the contract to unlink it'')
     else do {
       r \<leftarrow> call (q_delete db_task_contracts db_task_contracts_update
         (\<lambda>k. tk_task_id k = taskId \<and> tk_contract_id k = contractId));
       case r of
         Inl _ \<Rightarrow> State_Monad.return (reply_error 500 ''Failed to unlink contract'' ''DB_ERROR'')
       | Inr _ \<Rightarrow> do {
           audit_link req ''task.contract_unlink'' taskId j;
           State_Monad.return (Answer 200 ())
         }
     }
   }"

definition linked_delete :: "(json \<Rightarrow> string) \<Rightarrow> request \<Rightarrow> string \<Rightarrow> string \<Rightarrow> unit response prog" where
  "linked_delete to_text req projectId taskId =
     writing_project req projectId ''Observers may inspect linked contracts but cannot change task-contract links'' (\<lambda>_. do {
       there \<leftarrow> verifyTaskInProject taskId projectId;
       if \<not> there then State_Monad.return task_not_found_here
       else with_contract_id req (linked_delete_parsed to_text req taskId)
     })"

end
