(* ===== verification/AttachmentRoutes.thy ===== *)
theory AttachmentRoutes
  imports AttachmentFiles TaskComments
begin

text \<open>
  The routes that list, upload and download attachments:
  \<open>src/app/api/v1/projects/[id]/tasks/[tid]/attachments/route.ts\<close>, \<open>contracts/[id]/attachments/route.ts\<close> and
  \<open>attachments/[aid]/download/route.ts\<close>.
\<close>

section \<open>Rows\<close>

definition raised :: "string \<Rightarrow> db_error option" where
  "raised msg = Some \<lparr>de_code = ''P0001'', de_message = msg\<rparr>"

text \<open>The trigger \<open>task_attachments_validate_links\<close>.\<close>

definition task_link_error :: "db \<Rightarrow> attachment_row \<Rightarrow> db_error option" where
  "task_link_error d a =
     (case at_task_id a of
        None \<Rightarrow> None
      | Some t \<Rightarrow>
          (case find (\<lambda>r. t_id r = t) (db_tasks d) of
             None \<Rightarrow> raised (''task '' @ t @ '' not found for attachment'')
           | Some r \<Rightarrow> if t_project_id r \<noteq> at_project_id a
               then raised (''attachment project_id '' @ at_project_id a @ '' does not match task project_id '' @ t_project_id r)
               else None))"

definition run_link_error :: "db \<Rightarrow> attachment_row \<Rightarrow> db_error option" where
  "run_link_error d a =
     (case at_run_id a of
        None \<Rightarrow> None
      | Some i \<Rightarrow>
          (case find (\<lambda>r. r_id r = i) (db_runs d) of
             None \<Rightarrow> raised (''run '' @ i @ '' not found for attachment'')
           | Some r \<Rightarrow>
               if at_task_id a \<noteq> Some (r_task_id r) then
                 raised (''attachment run '' @ i @ '' does not belong to task '' @ (case at_task_id a of None \<Rightarrow> ''<NULL>'' | Some t \<Rightarrow> t))
               else if r_project_id r \<noteq> at_project_id a then
                 raised (''attachment run '' @ i @ '' does not belong to project '' @ at_project_id a)
               else None))"

definition checkpoint_link_error :: "db \<Rightarrow> attachment_row \<Rightarrow> db_error option" where
  "checkpoint_link_error d a =
     (case at_checkpoint_id a of
        None \<Rightarrow> None
      | Some i \<Rightarrow>
          (case find (\<lambda>c. ck_id c = i) (db_checkpoints d) of
             None \<Rightarrow> raised (''checkpoint '' @ i @ '' not found for attachment'')
           | Some c \<Rightarrow>
               if at_run_id a \<noteq> Some (ck_run_id c) then
                 raised (''attachment checkpoint '' @ i @ '' does not belong to run '' @ (case at_run_id a of None \<Rightarrow> ''<NULL>'' | Some r \<Rightarrow> r))
               else if at_task_id a \<noteq> Some (ck_task_id c) then
                 raised (''attachment checkpoint '' @ i @ '' does not belong to task '' @ (case at_task_id a of None \<Rightarrow> ''<NULL>'' | Some t \<Rightarrow> t))
               else if ck_project_id c \<noteq> at_project_id a then
                 raised (''attachment checkpoint '' @ i @ '' does not belong to project '' @ at_project_id a)
               else None))"

fun first_error :: "db_error option list \<Rightarrow> db_error option" where
  "first_error [] = None"
| "first_error (Some e # es) = Some e"
| "first_error (None # es) = first_error es"

definition validate_task_attachment_links :: "db \<Rightarrow> attachment_row \<Rightarrow> db_error option" where
  "validate_task_attachment_links d a =
     first_error [task_link_error d a, run_link_error d a, checkpoint_link_error d a]"

definition q_insert_attachment :: "(string \<Rightarrow> timestamp \<Rightarrow> attachment_row) \<Rightarrow> attachment_row list statement" where
  "q_insert_attachment new =
     with_fresh (\<lambda>fresh d.
       case validate_task_attachment_links d (new fresh (db_now d)) of
         Some e \<Rightarrow> (Inl e, d)
       | None \<Rightarrow> q_insert db_attachments db_attachments_update (\<lambda>n a. at_id n = at_id a \<or> at_storage_path n = at_storage_path a)
           [new fresh (db_now d)] d)"

text \<open>The form of an upload: \<open>None\<close> for an entry that is no file, or no text. A file may break off while it is read.\<close>

record upload_file =
  uf_name :: string
  uf_type :: string
  uf_content :: "string option"

record upload_fields =
  ud_file :: "upload_file option"
  ud_checkpoint_id :: "string option"
  ud_run_id :: "string option"
  ud_note :: "string option"

datatype upload_form = BrokenForm | UploadForm upload_fields

definition note_metadata :: "string option \<Rightarrow> content" where
  "note_metadata note = (if truthy_str note then [(''note'', JStr (the note))] else [])"

text \<open>A row as the routes insert it: its place, who uploads it, what was validated, where the file is.\<close>

record place =
  pl_project :: string
  pl_task :: "string option"
  pl_contract :: "string option"
  pl_run :: "string option"
  pl_checkpoint :: "string option"
  pl_agent :: "string option"
  pl_user :: "string option"

definition attachment_of ::
  "storage \<Rightarrow> place \<Rightarrow> string \<Rightarrow> string \<Rightarrow> string \<Rightarrow> string \<Rightarrow> string \<Rightarrow> string option \<Rightarrow> string \<Rightarrow> timestamp \<Rightarrow> attachment_row" where
  "attachment_of so p filename originalName mimeType content path note fresh now =
     \<lparr>at_id = fresh, at_project_id = pl_project p, at_task_id = pl_task p, at_contract_id = pl_contract p, at_run_id = pl_run p,
      at_checkpoint_id = pl_checkpoint p, at_uploader_agent_id = pl_agent p, at_uploader_user_id = pl_user p,
      at_filename = filename, at_original_name = originalName, at_mime_type = mimeType, at_size_bytes = length content,
      at_storage_path = path, at_sha256 = Some (so_sha256 so content), at_metadata = note_metadata note, at_created_at = now\<rparr>"

definition random_uuid :: "string prog" where
  "random_uuid = memory (\<lambda>d. (db_ids d (db_next d), d\<lparr>db_next := Suc (db_next d)\<rparr>))"

section \<open>Listing\<close>

definition listed ::
  "storage \<Rightarrow> string \<Rightarrow> string option \<Rightarrow> string option \<Rightarrow> signed_attachment list response prog" where
  "listed so projectId taskId contractId = do {
     r \<leftarrow> listSignedAttachments so projectId taskId contractId;
     State_Monad.return (case r of Inl e \<Rightarrow> Thrown e | Inr xs \<Rightarrow> Answer 200 xs)
   }"

definition verifyTask :: "string \<Rightarrow> string \<Rightarrow> (string + task_row option) prog" where
  "verifyTask projectId taskId = do {
     r \<leftarrow> call (shaped shape_single (q_select db_tasks (\<lambda>t. t_id t = taskId \<and> t_project_id t = projectId)));
     State_Monad.return (case r of
         Inl e \<Rightarrow> if de_code e \<noteq> ''PGRST116'' then Inl (de_message e) else Inr None
       | Inr t \<Rightarrow> Inr (Some t))
   }"

definition with_verified_task :: "string \<Rightarrow> string \<Rightarrow> 'b response prog \<Rightarrow> 'b response prog" where
  "with_verified_task projectId taskId k = do {
     task \<leftarrow> verifyTask projectId taskId;
     case task of
       Inl e \<Rightarrow> if e \<noteq> [] then State_Monad.return (reply_error 500 ''Failed to verify task'' ''INTERNAL_ERROR'')
         else State_Monad.return (reply_error 404 ''Task not found'' ''NOT_FOUND'')
     | Inr None \<Rightarrow> State_Monad.return (reply_error 404 ''Task not found'' ''NOT_FOUND'')
     | Inr (Some _) \<Rightarrow> k
   }"

definition task_attachments_get ::
  "storage \<Rightarrow> request \<Rightarrow> string \<Rightarrow> string \<Rightarrow> signed_attachment list response prog" where
  "task_attachments_get so req projectId taskId = do {
     access \<leftarrow> getProjectAccess projectId (ag_id (rq_agent req));
     case access of
       None \<Rightarrow> State_Monad.return (forbidden ''Not a participant in this project'')
     | Some a \<Rightarrow> with_verified_task projectId taskId
         (case evaluateAttachmentDownloadAccess (access_context_of (rq_agent req)) (Some a) (Some JNull) of
            Inl e \<Rightarrow> State_Monad.return (Thrown e)
          | Inr dd \<Rightarrow>
              if \<not> dd_allowed dd then State_Monad.return (Refusal \<lparr>rf_status = dd_status dd,
                rf_body = (case dd_body dd of Some b \<Rightarrow> b
                  | None \<Rightarrow> api_err ''Attachment download blocked by trust policy'' ''TRUST_TIER_BLOCKED'')\<rparr>)
              else listed so projectId (Some taskId) None)
   }"

definition contract_attachments_get :: "storage \<Rightarrow> request \<Rightarrow> string \<Rightarrow> signed_attachment list response prog" where
  "contract_attachments_get so req contractId = do {
     participation \<leftarrow> getParticipant contractId (ag_id (rq_agent req));
     if participation = None then State_Monad.return (forbidden ''Not a participant in this contract'')
     else do {
       task \<leftarrow> getLinkedTaskForContract contractId;
       case truthy_or_null (map_option t_project_id task) of
         None \<Rightarrow> State_Monad.return (Answer 200 [])
       | Some projectId \<Rightarrow> listed so projectId None (Some contractId)
     }
   }"

section \<open>Uploading\<close>

text \<open>The part both routes share: the form, the file, the checks on it, and the file written. Then \<open>k\<close> has the name,
  the name sent, the type, the content, the path and the other fields.\<close>

definition with_upload ::
  "storage \<Rightarrow> string \<Rightarrow> string option \<Rightarrow> string option \<Rightarrow> upload_form \<Rightarrow>
   (string \<Rightarrow> string \<Rightarrow> string \<Rightarrow> string \<Rightarrow> string \<Rightarrow> upload_fields \<Rightarrow> 'b response prog) \<Rightarrow> 'b response prog" where
  "with_upload so projectId taskId contractId form k =
     (case form of
        BrokenForm \<Rightarrow> State_Monad.return (reply_error 400
          ''Could not read multipart form body. Send the file as multipart/form-data with a \"file\" part.'' ''VALIDATION_ERROR'')
      | UploadForm u \<Rightarrow>
          (case ud_file u of
             None \<Rightarrow> State_Monad.return (reply_error 400 ''file is required'' ''VALIDATION_ERROR'')
           | Some f \<Rightarrow>
               (case uf_content f of
                  None \<Rightarrow> State_Monad.return (reply_error 400
                    ''Upload did not complete; the file body could not be read in full.'' ''VALIDATION_ERROR'')
                | Some content \<Rightarrow>
                    (case validateAttachmentInput (Some (uf_name f)) (Some (uf_type f)) (Fin (of_nat (length content))) of
                       Inl e \<Rightarrow> State_Monad.return (reply_error 400 e ''VALIDATION_ERROR'')
                     | Inr (filename, mimeType) \<Rightarrow> do {
                         uuid \<leftarrow> random_uuid;
                         let path = buildAttachmentStoragePath projectId taskId contractId filename uuid;
                         written \<leftarrow> uploadAttachmentBinary (so_root so) path content;
                         case written of
                           Inl e \<Rightarrow> State_Monad.return (Thrown e)
                         | Inr _ \<Rightarrow> k filename (uf_name f) mimeType content path u
                       }))))"

definition isMissingAttachmentIdsColumn :: "db_error \<Rightarrow> bool" where
  "isMissingAttachmentIdsColumn e \<longleftrightarrow> str_includes (to_lower (de_message e)) ''attachment_ids''"

text \<open>The checkpoint notes the attachment; a failed read of it counts as a checkpoint without any.\<close>

definition note_checkpoint :: "string option \<Rightarrow> string \<Rightarrow> (db_error + unit) prog" where
  "note_checkpoint checkpointId attachmentId =
     (if \<not> truthy_str checkpointId then State_Monad.return (Inr ())
      else do {
        found \<leftarrow> call (shaped shape_single (q_select db_checkpoints (\<lambda>c. Some (ck_id c) = checkpointId)));
        if (case found of Inl e \<Rightarrow> isMissingAttachmentIdsColumn e | Inr _ \<Rightarrow> False) then State_Monad.return (Inr ())
        else do {
          let ids = (case found of Inl _ \<Rightarrow> [] | Inr c \<Rightarrow> ck_attachment_ids c);
          r \<leftarrow> call (q_update db_checkpoints db_checkpoints_update (\<lambda>c. Some (ck_id c) = checkpointId)
            (\<lambda>c. c\<lparr>ck_attachment_ids := ids @ [attachmentId]\<rparr>));
          State_Monad.return (case r of Inl e \<Rightarrow> Inl e | Inr _ \<Rightarrow> Inr ())
        }
      })"

definition upload_facts :: "attachment_row \<Rightarrow> content" where
  "upload_facts a =
     [(''project_id'', JStr (at_project_id a)), (''attachment_id'', JStr (at_id a)), (''filename'', JStr (at_original_name a)),
      (''mime_type'', JStr (at_mime_type a)), (''size_bytes'', jint (int (at_size_bytes a)))]"

definition upload_activity :: "attachment_row \<Rightarrow> content" where
  "upload_activity a =
     [(''attachment_id'', JStr (at_id a)), (''filename'', JStr (at_filename a)), (''original_name'', JStr (at_original_name a)),
      (''mime_type'', JStr (at_mime_type a)), (''size_bytes'', jint (int (at_size_bytes a))),
      (''run_id'', jstr_or_null (at_run_id a)), (''checkpoint_id'', jstr_or_null (at_checkpoint_id a))]"

definition undo_task_upload :: "storage \<Rightarrow> string \<Rightarrow> unit prog" where
  "undo_task_upload so path = do {
     _ \<leftarrow> call (q_delete db_attachments db_attachments_update (\<lambda>a. at_storage_path a = path));
     _ \<leftarrow> removeAttachmentBinary (so_root so) path;
     State_Monad.return ()
   }"

definition task_upload_saved ::
  "storage \<Rightarrow> request \<Rightarrow> string \<Rightarrow> string \<Rightarrow> string \<Rightarrow> string \<Rightarrow> string \<Rightarrow> string \<Rightarrow> string \<Rightarrow> upload_fields \<Rightarrow>
   attachment_row response prog" where
  "task_upload_saved so req projectId taskId filename originalName mimeType content path u = do {
     r \<leftarrow> call (shaped shape_single (q_insert_attachment (attachment_of so
       \<lparr>pl_project = projectId, pl_task = Some taskId, pl_contract = None, pl_run = ud_run_id u, pl_checkpoint = ud_checkpoint_id u,
        pl_agent = Some (ag_id (rq_agent req)), pl_user = None\<rparr> filename originalName mimeType content path (ud_note u))));
     case r of
       Inl e \<Rightarrow> do { undo_task_upload so path; State_Monad.return (Thrown (de_message e)) }
     | Inr a \<Rightarrow> do {
         noted \<leftarrow> note_checkpoint (ud_checkpoint_id u) (at_id a);
         case noted of
           Inl e \<Rightarrow> do { undo_task_upload so path; State_Monad.return (Thrown (de_message e)) }
         | Inr _ \<Rightarrow> do {
             audit_task req ''attachment.upload'' taskId (upload_facts a);
             _ \<leftarrow> appendTaskActivityEvent projectId taskId (Some (ag_id (rq_agent req))) None ''attachment_uploaded''
               (''Attachment uploaded: '' @ str_or (Some (at_original_name a)) (at_filename a)) (upload_activity a);
             State_Monad.return (Answer 201 a)
           }
       }
   }"

definition task_attachments_post ::
  "storage \<Rightarrow> request \<Rightarrow> string \<Rightarrow> string \<Rightarrow> upload_form \<Rightarrow> attachment_row response prog" where
  "task_attachments_post so req projectId taskId form =
     writing_project req projectId ''Observers may inspect attachments but cannot upload new artifacts'' (\<lambda>_.
       with_verified_task projectId taskId
         (with_upload so projectId (Some taskId) None form (task_upload_saved so req projectId taskId)))"

definition contract_upload_saved ::
  "storage \<Rightarrow> request \<Rightarrow> string \<Rightarrow> string \<Rightarrow> string \<Rightarrow> string \<Rightarrow> string \<Rightarrow> string \<Rightarrow> string \<Rightarrow> upload_fields \<Rightarrow>
   attachment_row response prog" where
  "contract_upload_saved so req projectId contractId filename originalName mimeType content path u = do {
     r \<leftarrow> call (shaped shape_single (q_insert_attachment (attachment_of so
       \<lparr>pl_project = projectId, pl_task = None, pl_contract = Some contractId, pl_run = None, pl_checkpoint = None,
        pl_agent = Some (ag_id (rq_agent req)), pl_user = None\<rparr> filename originalName mimeType content path (ud_note u))));
     case r of
       Inl e \<Rightarrow> do {
         _ \<leftarrow> removeAttachmentBinary (so_root so) path;
         State_Monad.return (Thrown (de_message e))
       }
     | Inr a \<Rightarrow> do {
         auditLog (ag_name (rq_agent req)) ''attachment.upload'' (Some ''contract'') (Some contractId) (Some (upload_facts a))
           (Some (getClientIp req));
         State_Monad.return (Answer 201 a)
       }
   }"

definition contract_attachments_post ::
  "storage \<Rightarrow> request \<Rightarrow> string \<Rightarrow> upload_form \<Rightarrow> attachment_row response prog" where
  "contract_attachments_post so req contractId form = do {
     participation \<leftarrow> getParticipant contractId (ag_id (rq_agent req));
     case participation of
       None \<Rightarrow> State_Monad.return (forbidden ''Not a participant in this contract'')
     | Some p \<Rightarrow>
         (case evaluateContractParticipantMutation AUploadAttachment (p_role p) (Some (p_status p)) of
            MayNot r \<Rightarrow> State_Monad.return (Refusal r)
          | MayProceed _ \<Rightarrow> do {
              task \<leftarrow> getLinkedTaskForContract contractId;
              case truthy_or_null (map_option t_project_id task) of
                None \<Rightarrow> State_Monad.return (reply_error 400
                  (''Contract is not linked to a project task yet, so it cannot hold attachments. '' @
                   ''Link it first: holloway contract-link <contract_id> --project <project_id> --task <task_id>. '' @
                   ''Do not publish the file anywhere outside this platform.'') ''CONTRACT_NOT_LINKED'')
              | Some projectId \<Rightarrow> with_upload so projectId None (Some contractId) form
                  (contract_upload_saved so req projectId contractId)
            })
   }"

section \<open>Downloading\<close>

record download_answer =
  dw_id :: string
  dw_url :: query
  dw_filename :: string

definition download_url_of :: "storage \<Rightarrow> attachment_row \<Rightarrow> download_answer response prog" where
  "download_url_of so a = do {
     url \<leftarrow> createSignedAttachmentUrl (so_hmac so) (so_key so) (at_storage_path a) 3600 DownloadUrl (at_original_name a) (at_mime_type a);
     State_Monad.return (case url of
         Inl _ \<Rightarrow> reply_error 503 ''Attachment downloads are unavailable: this server is missing HOLLOWAY_ATTACHMENT_SIGNING_KEY.''
           ''SERVICE_MISCONFIGURED''
       | Inr q \<Rightarrow> Answer 200 \<lparr>dw_id = at_id a, dw_url = q, dw_filename = at_original_name a\<rparr>)
   }"

text \<open>Whether a participant of the contract may download what its place in the project does not let it.\<close>

definition contract_download :: "request \<Rightarrow> project_access option \<Rightarrow> attachment_row \<Rightarrow> bool prog" where
  "contract_download req access a =
     (case truthy_or_null (at_contract_id a) of
        None \<Rightarrow> State_Monad.return False
      | Some contractId \<Rightarrow> do {
          participation \<leftarrow> verifyContractParticipation contractId (ag_id (rq_agent req));
          State_Monad.return (participation \<noteq> None \<and>
            (case access of None \<Rightarrow> True | Some pa \<Rightarrow> pac_accessKind pa \<noteq> ObserverKind))
        })"

definition attachment_download :: "storage \<Rightarrow> request \<Rightarrow> string \<Rightarrow> download_answer response prog" where
  "attachment_download so req aid = do {
     found \<leftarrow> getAttachmentById aid;
     case found of
       Inl _ \<Rightarrow> State_Monad.return (reply_error 500 ''Failed to look up attachment'' ''INTERNAL_ERROR'')
     | Inr a \<Rightarrow> do {
         access \<leftarrow> (if truthy_str (at_task_id a) then getProjectAccess (at_project_id a) (ag_id (rq_agent req))
           else State_Monad.return None);
         (case evaluateAttachmentDownloadAccess (access_context_of (rq_agent req)) access (Some JNull) of
            Inl e \<Rightarrow> State_Monad.return (Thrown e)
          | Inr dd \<Rightarrow> do {
              allowed \<leftarrow> (if dd_allowed dd then State_Monad.return True else contract_download req access a);
              if \<not> allowed then State_Monad.return (Refusal
                \<lparr>rf_status = (if dd_status dd = 0 then 403 else dd_status dd),
                 rf_body = (case dd_body dd of Some b \<Rightarrow> b | None \<Rightarrow> api_err ''Forbidden'' ''FORBIDDEN'')\<rparr>)
              else download_url_of so a
            })
       }
   }"

end
