(* ===== verification/TaskPage.thy ===== *)
theory TaskPage
  imports TaskActions AttachmentRoutes
begin

text \<open>
  What an operator does on the page of a task (\<open>src/app/(dashboard)/projects/[id]/tasks/[tid]/actions.ts\<close>): change it,
  comment on it, plan how to unblock it, attach a file, delete it. Every action throws an error text, \<open>Inl\<close>, or ends.
\<close>

definition requireTaskMembership ::
  "actor_context option \<Rightarrow> string \<Rightarrow> bool \<Rightarrow> (project_actor \<Rightarrow> (string + 'a) prog) \<Rightarrow> (string + 'a) prog" where
  "requireTaskMembership session projectId allowObserverCommentary k =
     (case session of
        None \<Rightarrow> State_Monad.return (Inl ''Unauthorized'')
      | Some auth \<Rightarrow> do {
          r \<leftarrow> resolveProjectActorAccess auth projectId None allowObserverCommentary;
          case r of Inl e \<Rightarrow> State_Monad.return (Inl e) | Inr actor \<Rightarrow> k actor
        })"

definition place_facts :: "project_actor \<Rightarrow> content" where
  "place_facts u = [(''participant_role'', JStr (access_role_name (pu_role u))),
     (''participant_access_kind'', JStr (access_kind_name (pu_kind u)))]"

definition operator_activity :: "project_actor \<Rightarrow> string \<Rightarrow> string \<Rightarrow> string \<Rightarrow> string \<Rightarrow> content \<Rightarrow> unit prog" where
  "operator_activity u projectId taskId eventType summary metadata = do {
     _ \<leftarrow> appendTaskActivityEvent projectId taskId (pu_memberAgentId u) (Some (us_id (pu_user u))) eventType summary metadata;
     State_Monad.return ()
   }"

section \<open>Changing\<close>

text \<open>\<open>None\<close>: not given; \<open>Some None\<close>: given as \<open>null\<close>.\<close>

record task_edit =
  te_title :: "string option"
  te_description :: "string option option"
  te_priority :: "string option"
  te_assignee :: "string option option"
  te_labels :: "string list option"
  te_due_date :: "string option option"
  te_sprint :: "string option option"

definition edited_or :: "'a option \<Rightarrow> 'a \<Rightarrow> 'a" where
  "edited_or new old = (case new of None \<Rightarrow> old | Some x \<Rightarrow> x)"

definition edited_task :: "task_edit \<Rightarrow> timestamp \<Rightarrow> task_row \<Rightarrow> task_row" where
  "edited_task e now t =
     t\<lparr>t_title := (case te_title e of None \<Rightarrow> t_title t | Some x \<Rightarrow> Some x), t_description := edited_or (te_description e) (t_description t),
       t_priority := edited_or (te_priority e) (t_priority t), t_assignee_agent_id := edited_or (te_assignee e) (t_assignee_agent_id t),
       t_labels := edited_or (te_labels e) (t_labels t), t_due_date := edited_or (te_due_date e) (t_due_date t),
       t_sprint_id := edited_or (te_sprint e) (t_sprint_id t), t_updated_at := now\<rparr>"

definition my_task :: "string \<Rightarrow> string \<Rightarrow> task_row \<Rightarrow> bool" where
  "my_task projectId taskId t \<longleftrightarrow> t_id t = taskId \<and> t_project_id t = projectId"

definition q_edit_task :: "string \<Rightarrow> string \<Rightarrow> task_edit \<Rightarrow> timestamp \<Rightarrow> task_row list statement" where
  "q_edit_task projectId taskId e now =
     checked_update (case te_priority e of None \<Rightarrow> True | Some p \<Rightarrow> p \<in> set task_priorities)
       (\<lambda>d. \<exists>t\<in>set (db_tasks d). my_task projectId taskId t)
       (q_update db_tasks db_tasks_update (my_task projectId taskId) (edited_task e now))"

text \<open>What is noted of one column: its event when it was given and is not what it was. A row that was not read has no
  values, so everything given is noted.\<close>

definition differs :: "'a option \<Rightarrow> (task_row \<Rightarrow> 'a) \<Rightarrow> task_row option \<Rightarrow> bool" where
  "differs new old previous \<longleftrightarrow> (case new of None \<Rightarrow> False | Some x \<Rightarrow> (case previous of None \<Rightarrow> True | Some t \<Rightarrow> old t \<noteq> x))"

definition old_or_null :: "(task_row \<Rightarrow> string option) \<Rightarrow> task_row option \<Rightarrow> json" where
  "old_or_null f previous = jstr_or_null (Option.bind previous f)"

definition given_or_null :: "string option option \<Rightarrow> json" where
  "given_or_null x = jstr_or_null (Option.bind x id)"

definition edit_notes :: "task_edit \<Rightarrow> task_row option \<Rightarrow> (string \<times> string \<times> content) list" where
  "edit_notes e previous =
     (if differs (map_option Some (te_title e)) t_title previous then [(''title_updated'', ''Task title updated'',
        [(''old_title'', old_or_null t_title previous), (''new_title'', jstr_or_null (te_title e))])] else []) @
     (if differs (te_description e) t_description previous then [(''description_updated'', ''Task description updated'',
        [(''had_description'', JBool (truthy_str (Option.bind previous t_description))),
         (''has_description'', JBool (truthy_str (Option.bind (te_description e) id)))])] else []) @
     (if differs (te_priority e) t_priority previous then [(''priority_change'', ''Priority changed to '' @ edited_or (te_priority e) [],
        [(''old_priority'', old_or_null (Some \<circ> t_priority) previous), (''new_priority'', jstr_or_null (te_priority e))])] else []) @
     (if differs (te_assignee e) t_assignee_agent_id previous then [(''assignment'',
        if truthy_str (Option.bind (te_assignee e) id) then ''Task reassigned'' else ''Assignee removed'',
        [(''old_assignee'', old_or_null t_assignee_agent_id previous), (''new_assignee'', given_or_null (te_assignee e))])] else []) @
     (if te_labels e \<noteq> None \<and> edited_or (te_labels e) [] \<noteq> (case previous of None \<Rightarrow> [] | Some t \<Rightarrow> t_labels t)
      then [(''labels_updated'', ''Task labels updated'',
        [(''old_labels'', JArr (map JStr (case previous of None \<Rightarrow> [] | Some t \<Rightarrow> t_labels t))),
         (''new_labels'', JArr (map JStr (edited_or (te_labels e) [])))])] else []) @
     (if differs (te_due_date e) t_due_date previous then [(''due_date_updated'',
        if truthy_str (Option.bind (te_due_date e) id) then ''Due date updated'' else ''Due date cleared'',
        [(''old_due_date'', old_or_null t_due_date previous), (''new_due_date'', given_or_null (te_due_date e))])] else []) @
     (if differs (te_sprint e) t_sprint_id previous then [(''sprint_updated'',
        if truthy_str (Option.bind (te_sprint e) id) then ''Task moved to sprint'' else ''Task removed from sprint'',
        [(''old_sprint_id'', old_or_null t_sprint_id previous), (''new_sprint_id'', given_or_null (te_sprint e))])] else [])"

text \<open>The events are written side by side; a failure of one is dropped.\<close>

fun note_edits :: "project_actor \<Rightarrow> string \<Rightarrow> string \<Rightarrow> (string \<times> string \<times> content) list \<Rightarrow> unit prog" where
  "note_edits u projectId taskId [] = State_Monad.return ()"
| "note_edits u projectId taskId ((event, summary, facts) # rest) = do {
     operator_activity u projectId taskId event summary facts;
     note_edits u projectId taskId rest
   }"

definition updateTask :: "actor_context option \<Rightarrow> string \<Rightarrow> string \<Rightarrow> task_edit \<Rightarrow> (string + unit) prog" where
  "updateTask session projectId taskId e =
     requireTaskMembership session projectId False (\<lambda>u. do {
       previous \<leftarrow> call (shaped shape_single (q_select db_tasks (my_task projectId taskId)));
       now \<leftarrow> clock;
       r \<leftarrow> written ''Failed to update task'' (q_edit_task projectId taskId e now);
       case r of
         Inl err \<Rightarrow> State_Monad.return (Inl err)
       | Inr _ \<Rightarrow> do {
           note_edits u projectId taskId (edit_notes e (data_of previous));
           State_Monad.return (Inr ())
         }
     })"

section \<open>Commenting\<close>

definition member_name :: "project_actor \<Rightarrow> string option prog" where
  "member_name u =
     (case truthy_or_null (pu_memberAgentId u) of
        None \<Rightarrow> State_Monad.return None
      | Some i \<Rightarrow> do {
          agent \<leftarrow> call (shaped shape_single (q_select db_agents (\<lambda>a. ag_id a = i)));
          State_Monad.return (map_option agent_title (data_of agent))
        })"

definition operator_comment :: "project_actor \<Rightarrow> string \<Rightarrow> string \<Rightarrow> string \<Rightarrow> string \<Rightarrow> comment_fields" where
  "operator_comment u projectId taskId authorName text =
     \<lparr>cm_task_id = taskId, cm_project_id = projectId, cm_author_agent_id = pu_memberAgentId u, cm_author_name = authorName,
      cm_content = js_trim text,
      cm_comment_type = (if pu_kind u = ObserverKind then normalizeObserverCommentType ''analysis'' else ''comment''),
      cm_metadata = (if pu_kind u = ObserverKind then object_entries (buildObserverCommentMetadata (JObj [])) else []) @ place_facts u\<rparr>"

definition addComment :: "actor_context option \<Rightarrow> string \<Rightarrow> string \<Rightarrow> string \<Rightarrow> (string + unit) prog" where
  "addComment session projectId taskId text =
     requireTaskMembership session projectId True (\<lambda>u. do {
       name \<leftarrow> member_name u;
       r \<leftarrow> written ''Failed to add comment''
         (q_insert_comments [operator_comment u projectId taskId (case name of None \<Rightarrow> ''Dashboard User'' | Some n \<Rightarrow> n) text]);
       case r of
         Inl err \<Rightarrow> State_Monad.return (Inl err)
       | Inr _ \<Rightarrow> do {
           operator_activity u projectId taskId (if pu_kind u = ObserverKind then ''analysis'' else ''comment'')
             (if pu_kind u = ObserverKind then ''Analysis note added'' else ''Comment added'') (place_facts u);
           State_Monad.return (Inr ())
         }
     })"

section \<open>Unblocking\<close>

definition failure_text :: "blocker_failure \<Rightarrow> string" where
  "failure_text e = (case e of BlockerRefused msg \<Rightarrow> msg | BlockerThrew msg \<Rightarrow> msg)"

definition operator_actor :: "project_actor \<Rightarrow> string option \<Rightarrow> blocker_actor" where
  "operator_actor u name =
     \<lparr>bc_agentId = pu_memberAgentId u, bc_userId = Some (us_id (pu_user u)),
      bc_name = (if truthy_str name then the name else str_or (Some (us_displayName (pu_user u))) ''Dashboard User''),
      bc_participantRole = Some (access_role_name (pu_role u)), bc_participantAccessKind = Some (access_kind_name (pu_kind u))\<rparr>"

definition runDashboardBlockerWorkflowAction ::
  "(string \<Rightarrow> timestamp option) \<Rightarrow> actor_context option \<Rightarrow> string \<Rightarrow> string \<Rightarrow> blocker_action \<Rightarrow> jvalue \<Rightarrow> jvalue \<Rightarrow> jvalue \<Rightarrow>
   (string + unit) prog" where
  "runDashboardBlockerWorkflowAction dates session projectId taskId action nextAction owner dueAt =
     requireTaskMembership session projectId False (\<lambda>u. do {
       name \<leftarrow> member_name u;
       r \<leftarrow> runBlockerWorkflowAction dates projectId taskId action nextAction owner dueAt (operator_actor u name);
       State_Monad.return (case r of Inl e \<Rightarrow> Inl (failure_text e) | Inr _ \<Rightarrow> Inr ())
     })"

definition logBlockerFollowUp where
  "logBlockerFollowUp dates session projectId taskId = runDashboardBlockerWorkflowAction dates session projectId taskId FollowUp"

definition escalateBlockedTask where
  "escalateBlockedTask dates session projectId taskId = runDashboardBlockerWorkflowAction dates session projectId taskId Escalate"

section \<open>Attaching a file\<close>

definition operator_upload_facts :: "project_actor \<Rightarrow> string \<Rightarrow> string \<Rightarrow> string \<Rightarrow> string \<Rightarrow> content" where
  "operator_upload_facts u projectId originalName mimeType content =
     [(''project_id'', JStr projectId), (''filename'', JStr originalName), (''mime_type'', JStr mimeType),
      (''size_bytes'', jint (int (length content))), (''actor_agent_id'', jstr_or_null (pu_memberAgentId u))] @ place_facts u"

definition operator_upload_saved ::
  "storage \<Rightarrow> project_actor \<Rightarrow> string \<Rightarrow> string \<Rightarrow> string \<Rightarrow> string \<Rightarrow> string \<Rightarrow> string \<Rightarrow> string \<Rightarrow> string option \<Rightarrow> (string + unit) prog" where
  "operator_upload_saved so u projectId taskId filename originalName mimeType content path note = do {
     r \<leftarrow> written ''Failed to save attachment'' (q_insert_attachment (attachment_of so
       \<lparr>pl_project = projectId, pl_task = Some taskId, pl_contract = None, pl_run = None, pl_checkpoint = None,
        pl_agent = pu_memberAgentId u, pl_user = Some (us_id (pu_user u))\<rparr> filename originalName mimeType content path note));
     case r of
       Inl err \<Rightarrow> State_Monad.return (Inl err)
     | Inr _ \<Rightarrow> do {
         _ \<leftarrow> call (q_insert db_audit db_audit_update (\<lambda>_ _. False)
           [\<lparr>au_actor = str_or (Some (us_displayName (pu_user u))) (us_email (pu_user u)), au_action = ''attachment.upload'',
             au_resource_type = Some ''task'', au_resource_id = Some taskId,
             au_details = Some (operator_upload_facts u projectId originalName mimeType content), au_ip_address = None\<rparr>]);
         operator_activity u projectId taskId ''attachment_uploaded'' (''Attachment uploaded: '' @ originalName)
           ([(''filename'', JStr originalName), (''mime_type'', JStr mimeType), (''size_bytes'', jint (int (length content)))] @ place_facts u);
         State_Monad.return (Inr ())
       }
   }"

text \<open>The file has arrived when an action starts: its name, its type, its content.\<close>

definition uploadTaskAttachment ::
  "storage \<Rightarrow> actor_context option \<Rightarrow> string \<Rightarrow> string \<Rightarrow> (string \<times> string \<times> string) option \<Rightarrow> string option \<Rightarrow>
   (string + unit) prog" where
  "uploadTaskAttachment so session projectId taskId file note =
     requireTaskMembership session projectId False (\<lambda>u.
       case file of
         None \<Rightarrow> State_Monad.return (Inl ''File is required'')
       | Some (name, kind, content) \<Rightarrow>
           (case validateAttachmentInput (Some name) (Some kind) (Fin (of_nat (length content))) of
              Inl e \<Rightarrow> State_Monad.return (Inl e)
            | Inr (filename, mimeType) \<Rightarrow> do {
                uuid \<leftarrow> random_uuid;
                let path = buildAttachmentStoragePath projectId (Some taskId) None filename uuid;
                stored \<leftarrow> uploadAttachmentBinary (so_root so) path content;
                case stored of
                  Inl e \<Rightarrow> State_Monad.return (Inl e)
                | Inr _ \<Rightarrow> operator_upload_saved so u projectId taskId filename name mimeType content path note
              }))"

section \<open>Deleting\<close>

definition drop_dependencies :: "string \<Rightarrow> string list \<Rightarrow> unit prog" where
  "drop_dependencies taskId projectTaskIds =
     (if projectTaskIds = [] then State_Monad.return ()
      else do {
        _ \<leftarrow> call (q_delete db_dependencies db_dependencies_update
          (\<lambda>p. dp_blocked_task_id p = taskId \<and> dp_blocking_task_id p \<in> set projectTaskIds));
        _ \<leftarrow> call (q_delete db_dependencies db_dependencies_update
          (\<lambda>p. dp_blocking_task_id p = taskId \<and> dp_blocked_task_id p \<in> set projectTaskIds));
        State_Monad.return ()
      })"

definition deleteTask :: "actor_context option \<Rightarrow> string \<Rightarrow> string \<Rightarrow> (string + unit) prog" where
  "deleteTask session projectId taskId =
     requireTaskMembership session projectId False (\<lambda>_. do {
       tasks \<leftarrow> call (q_select db_tasks (\<lambda>t. t_project_id t = projectId));
       drop_dependencies taskId (map t_id (rows_of tasks));
       _ \<leftarrow> call (q_delete db_task_contracts db_task_contracts_update (\<lambda>k. tk_task_id k = taskId));
       written ''Failed to delete task'' (q_delete_task taskId projectId)
     })"

end
