(* ===== verification/TaskSafety.thy ===== *)
theory TaskSafety
  imports BlockedTasks StaleRuns TaskPage ContractLifecycle ProjectSafety Sample
begin

text \<open>
  What every call on the tasks of a project keeps, whatever happens beside it: the ids of tasks are never used twice,
  a dependency is between two tasks of the same project, and what is attached to a task belongs to its project.
\<close>

section \<open>Tasks and dependencies\<close>

definition task_home :: "task_row \<Rightarrow> string \<times> string" where
  "task_home t = (t_id t, t_project_id t)"

definition homes :: "db \<Rightarrow> (string \<times> string) set" where
  "homes d = task_home ` set (db_tasks d)"

definition dependency_ok :: "db \<Rightarrow> dependency_row \<Rightarrow> bool" where
  "dependency_ok d p \<longleftrightarrow> dp_blocking_task_id p \<noteq> dp_blocked_task_id p \<and>
     (\<exists>project. (dp_blocking_task_id p, project) \<in> homes d \<and> (dp_blocked_task_id p, project) \<in> homes d)"

definition attachment_ok :: "db \<Rightarrow> string option \<times> string \<Rightarrow> bool" where
  "attachment_ok d a \<longleftrightarrow> (case fst a of None \<Rightarrow> True | Some t \<Rightarrow> (t, snd a) \<in> homes d)"

definition attached_to :: "attachment_row \<Rightarrow> string option \<times> string" where
  "attached_to a = (at_task_id a, at_project_id a)"

text \<open>The database gives no identifier twice, and those of the tasks are given.\<close>

definition tasks_ok :: "db \<Rightarrow> bool" where
  "tasks_ok d \<longleftrightarrow> inj (db_ids d) \<and> distinct (map t_id (db_tasks d)) \<and> (\<forall>t\<in>set (db_tasks d). spent d (t_id t)) \<and>
     (\<forall>p\<in>set (db_dependencies d). dependency_ok d p) \<and> (\<forall>a\<in>set (db_attachments d). attachment_ok d (attached_to a))"

text \<open>No task that was deleted comes back, and none moves to another project.\<close>

definition tasks_step :: "db \<Rightarrow> db \<Rightarrow> bool" where
  "tasks_step d d' \<longleftrightarrow> (tasks_ok d \<longrightarrow> tasks_ok d' \<and> db_ids d' = db_ids d \<and> db_next d \<le> db_next d' \<and>
     (\<forall>h\<in>homes d'. spent d (fst h) \<longrightarrow> h \<in> homes d))"

lemma homes_map: "homes d = set (map task_home (db_tasks d))"
  by (simp add: homes_def)

lemma spent_later: "spent d i \<Longrightarrow> db_ids d' = db_ids d \<Longrightarrow> db_next d \<le> db_next d' \<Longrightarrow> spent d' i"
  by (auto simp: spent_def)

lemma ids_of_homes: "map t_id ts = map fst (map task_home ts)"
  by (simp add: task_home_def)

lemma tasks_ok_homes: "(\<forall>t\<in>set (db_tasks d). spent d (t_id t)) \<longleftrightarrow> (\<forall>h\<in>homes d. spent d (fst h))"
  by (simp add: homes_def task_home_def)

lemma attachment_same:
  assumes "homes d' = homes d"
  shows "attachment_ok d' = attachment_ok d"
  unfolding attachment_ok_def [abs_def] assms ..

lemma attachments_map: "(\<forall>a\<in>set (db_attachments d). P (attached_to a)) \<longleftrightarrow> (\<forall>x\<in>set (map attached_to (db_attachments d)). P x)"
  by simp

interpretation boards: side_work tasks_step "\<lambda>d. (map task_home (db_tasks d), db_dependencies d, map attached_to (db_attachments d))"
proof unfold_locales
  fix d d' :: db
  assume same: "(map task_home (db_tasks d'), db_dependencies d', map attached_to (db_attachments d')) =
      (map task_home (db_tasks d), db_dependencies d, map attached_to (db_attachments d))"
    and ids: "db_ids d' = db_ids d" and n: "db_next d \<le> db_next d'"
  have homes: "homes d' = homes d" using same by (simp only: homes_map prod.inject)
  have "distinct (map t_id (db_tasks d'))" if "distinct (map t_id (db_tasks d))"
    using that same unfolding ids_of_homes by (simp only: prod.inject)
  moreover have "\<forall>h\<in>homes d'. spent d' (fst h)" if "\<forall>h\<in>homes d. spent d (fst h)"
    using that homes spent_later [OF _ ids n] by blast
  moreover have "\<forall>a\<in>set (db_attachments d'). attachment_ok d' (attached_to a)"
    if "\<forall>a\<in>set (db_attachments d). attachment_ok d (attached_to a)"
    using that same unfolding attachment_same [OF homes] attachments_map by (simp only: prod.inject)
  ultimately show "tasks_step d d'"
    using same ids n homes unfolding tasks_step_def tasks_ok_def tasks_ok_homes dependency_ok_def by auto
next
  fix a b c :: db
  assume ab: "tasks_step a b" and bc: "tasks_step b c"
  show "tasks_step a c"
    unfolding tasks_step_def
  proof (intro impI)
    assume a: "tasks_ok a"
    with ab have b: "tasks_ok b" "db_ids b = db_ids a" "db_next a \<le> db_next b" "\<forall>h\<in>homes b. spent a (fst h) \<longrightarrow> h \<in> homes a"
      by (auto simp: tasks_step_def)
    with bc have c: "tasks_ok c" "db_ids c = db_ids b" "db_next b \<le> db_next c" "\<forall>h\<in>homes c. spent b (fst h) \<longrightarrow> h \<in> homes b"
      by (auto simp: tasks_step_def)
    show "tasks_ok c \<and> db_ids c = db_ids a \<and> db_next a \<le> db_next c \<and> (\<forall>h\<in>homes c. spent a (fst h) \<longrightarrow> h \<in> homes a)"
      using b c spent_later [OF _ b(2,3)] by auto
  qed
qed (simp_all add: tasks_step_def)

section \<open>Statements\<close>

text \<open>A task is only ever updated where it is.\<close>

lemma boards_update:
  assumes "\<And>d t. task_home (f d t) = task_home t"
  shows "keeps tasks_step (call (\<lambda>d. q_update db_tasks db_tasks_update (P d) (f d) d))"
  by (rule boards.keeps_later) (simp_all add: assms o_def if_distrib cong: if_cong)

lemma boards_insert:
  assumes "\<And>i d. t_id (new i d) = i"
  shows "keeps tasks_step (call (with_fresh (\<lambda>i d. q_insert db_tasks db_tasks_update (\<lambda>n t. t_id n = t_id t) [new i d] d)))"
proof (rule boards.keeps_call)
  fix d :: db
  let ?i = "db_ids d (db_next d)" and ?d = "d\<lparr>db_next := Suc (db_next d)\<rparr>"
  let ?d' = "snd (with_fresh (\<lambda>i d. q_insert db_tasks db_tasks_update (\<lambda>n t. t_id n = t_id t) [new i d] d) d)"
  show "tasks_step d ?d'"
  proof (cases "\<exists>t\<in>set (db_tasks d). t_id t = ?i")
    case True
    then have "?d' = ?d" by (auto simp: with_fresh_def q_insert_def assms)
    then show ?thesis by (simp add: boards.later_view)
  next
    case False
    then have d': "?d' = ?d\<lparr>db_tasks := db_tasks d @ [new ?i ?d]\<rparr>" by (auto simp: with_fresh_def q_insert_def assms)
    have "\<not> spent d ?i" by (auto simp: spent_def)
    have later: "spent ?d' j" if "spent d j" for j using that by (auto simp: d' spent_def)
    have given: "spent ?d' ?i" if "inj (db_ids d)" using that by (auto simp: d' spent_def inj_eq)
    have homes: "homes ?d' = insert (task_home (new ?i ?d)) (homes d)" by (simp add: d' homes_def)
    then have "dependency_ok d p \<Longrightarrow> dependency_ok ?d' p" "attachment_ok d a \<Longrightarrow> attachment_ok ?d' a" for p a
      by (auto simp: dependency_ok_def attachment_ok_def split: option.splits)
    moreover have "db_tasks ?d' = db_tasks d @ [new ?i ?d]" "db_dependencies ?d' = db_dependencies d" "db_attachments ?d' = db_attachments d"
      "db_ids ?d' = db_ids d" "db_next ?d' = Suc (db_next d)" by (simp_all add: d')
    ultimately show ?thesis
      using False given later homes \<open>\<not> spent d ?i\<close>
      unfolding tasks_step_def tasks_ok_def by (auto simp: assms task_home_def)
  qed
qed

lemma boards_delete_task: "keeps tasks_step (call (q_delete_task i p))"
proof (rule boards.keeps_call)
  fix d :: db
  have "tasks_step d (without_task i d)"
    unfolding tasks_step_def
  proof (intro impI)
    assume ok: "tasks_ok d"
    have homes: "h \<in> homes (without_task i d) \<longleftrightarrow> h \<in> homes d \<and> fst h \<noteq> i" for h
      by (auto simp: homes_def without_task_def task_home_def)
    have spent: "spent (without_task i d) j = spent d j" for j by (simp add: spent_def without_task_def)
    have "dependency_ok (without_task i d) p" if "p \<in> set (db_dependencies (without_task i d))" for p
      using that ok homes by (auto simp: tasks_ok_def dependency_ok_def without_task_def)
    moreover have "attachment_ok (without_task i d) (attached_to a)" if "a \<in> set (db_attachments (without_task i d))" for a
      using that ok homes by (auto simp: tasks_ok_def attachment_ok_def attached_to_def without_task_def split: option.splits)
    moreover have "distinct (map t_id (db_tasks (without_task i d)))"
      using ok by (simp add: tasks_ok_def without_task_def distinct_map_filter)
    ultimately show "tasks_ok (without_task i d) \<and> db_ids (without_task i d) = db_ids d \<and>
        db_next d \<le> db_next (without_task i d) \<and> (\<forall>h\<in>homes (without_task i d). spent d (fst h) \<longrightarrow> h \<in> homes d)"
      using ok homes spent unfolding tasks_ok_def tasks_ok_homes by (auto simp: without_task_def)
  qed
  then show "tasks_step d (snd (q_delete_task i p d))" by (simp add: q_delete_task_def boards.refl)
qed

lemma boards_delete_dependencies: "keeps tasks_step (call (q_delete db_dependencies db_dependencies_update P))"
  by (rule boards.keeps_call) (auto simp: tasks_step_def tasks_ok_def dependency_ok_def attachment_ok_def homes_def spent_def split: option.splits)

text \<open>What is attached may go, and a row may come whose links the trigger let pass.\<close>

lemma step_fewer_attachments:
  assumes "db_tasks d' = db_tasks d" "db_dependencies d' = db_dependencies d" "db_ids d' = db_ids d" "db_next d \<le> db_next d'"
    and "tasks_ok d \<Longrightarrow> \<forall>a\<in>set (db_attachments d'). attachment_ok d (attached_to a)"
  shows "tasks_step d d'"
proof -
  have homes: "homes d' = homes d" using assms(1) by (simp add: homes_def)
  show ?thesis
    unfolding tasks_step_def
  proof (intro impI)
    assume ok: "tasks_ok d"
    moreover have "\<forall>t\<in>set (db_tasks d'). spent d' (t_id t)"
      using ok assms(1) spent_later [OF _ assms(3,4)] by (auto simp: tasks_ok_def)
    ultimately show "tasks_ok d' \<and> db_ids d' = db_ids d \<and> db_next d \<le> db_next d' \<and> (\<forall>h\<in>homes d'. spent d (fst h) \<longrightarrow> h \<in> homes d)"
      using assms homes by (auto simp: tasks_ok_def dependency_ok_def attachment_ok_def split: option.splits)
  qed
qed

lemma insert_attachment_cases:
  fixes d :: db
  defines "a \<equiv> \<lambda>new. new (db_ids d (db_next d)) (db_now d)"
  shows "snd (q_insert_attachment new d) = d\<lparr>db_next := Suc (db_next d)\<rparr> \<or>
    task_link_error (d\<lparr>db_next := Suc (db_next d)\<rparr>) (a new) = None \<and>
    snd (q_insert_attachment new d) = d\<lparr>db_next := Suc (db_next d), db_attachments := db_attachments d @ [a new]\<rparr>"
proof (cases "validate_task_attachment_links (d\<lparr>db_next := Suc (db_next d)\<rparr>) (a new)")
  case None
  then have "task_link_error (d\<lparr>db_next := Suc (db_next d)\<rparr>) (a new) = None"
    by (cases "task_link_error (d\<lparr>db_next := Suc (db_next d)\<rparr>) (a new)") (simp_all add: validate_task_attachment_links_def)
  with None show ?thesis by (simp add: q_insert_attachment_def with_fresh_def q_insert_def a_def)
qed (simp add: q_insert_attachment_def with_fresh_def a_def)

lemma linked_attachment_ok:
  assumes "task_link_error d a = None"
  shows "attachment_ok d (attached_to a)"
proof (cases "at_task_id a")
  case (Some t)
  then obtain r where "find (\<lambda>r. t_id r = t) (db_tasks d) = Some r" "t_project_id r = at_project_id a"
    using assms by (auto simp: task_link_error_def raised_def split: option.splits if_splits)
  then have "r \<in> set (db_tasks d)" "t_id r = t" "t_project_id r = at_project_id a" by (auto simp: find_Some_iff)
  then show ?thesis using Some by (auto simp: attachment_ok_def attached_to_def homes_def task_home_def)
qed (simp add: attachment_ok_def attached_to_def)

lemma boards_insert_attachment: "keeps tasks_step (call (q_insert_attachment new))"
proof (rule boards.keeps_call)
  fix d :: db
  let ?d = "d\<lparr>db_next := Suc (db_next d)\<rparr>" and ?a = "new (db_ids d (db_next d)) (db_now d)"
  show "tasks_step d (snd (q_insert_attachment new d))"
    using insert_attachment_cases [of new d]
  proof (elim disjE conjE)
    assume "task_link_error ?d ?a = None"
    then have "attachment_ok ?d (attached_to ?a)" by (rule linked_attachment_ok)
    then have "attachment_ok d (attached_to ?a)" using attachment_same [of ?d d] by (simp add: homes_def)
    then have "tasks_step d (d\<lparr>db_next := Suc (db_next d), db_attachments := db_attachments d @ [?a]\<rparr>)"
      by (intro step_fewer_attachments) (simp_all add: tasks_ok_def)
    moreover assume "snd (q_insert_attachment new d) = d\<lparr>db_next := Suc (db_next d), db_attachments := db_attachments d @ [?a]\<rparr>"
    ultimately show ?thesis by simp
  qed (simp add: boards.later_view)
qed

named_theorems boards_keep \<open>programs that make only steps of the tasks\<close>

lemma boards_select [boards_keep]:
  "keeps tasks_step (call (shaped sh (q_select rows P)))" "keeps tasks_step (call (q_select rows P))"
  by (rule boards.keeps_reading; simp)+

lemma boards_read [boards_keep]:
  "keeps tasks_step (call (q_blocking t))" "keeps tasks_step (call (q_incoming t))" "keeps tasks_step (call (q_outgoing t))"
  "keeps tasks_step (call (q_task_page p q k' l'))" "keeps tasks_step (call (q_top_task p))"
  "keeps tasks_step (call (q_task_contracts t))" "keeps tasks_step (call (q_activity t n))"
  "keeps tasks_step (call (q_comments p t k'' n'))" "keeps tasks_step (call q_sweep_candidates)"
  "keeps tasks_step (call (q_attachments P))"
  by (rule boards.keeps_reading;
    simp add: q_blocking_def q_incoming_def q_outgoing_def q_task_page_def q_top_task_def q_task_contracts_def q_activity_def
      q_comments_def q_sweep_candidates_def q_attachments_def Let_def split: option.split)+

lemma boards_update_task [boards_keep]:
  "(\<And>t. task_home (f t) = task_home t) \<Longrightarrow> keeps tasks_step (call (q_update db_tasks db_tasks_update P f))"
  using boards_update [of "\<lambda>_. f" "\<lambda>_. P"] by simp

lemma boards_flags [boards_keep]:
  "keeps tasks_step (call (q_flag_blocked t now))" "keeps tasks_step (call (q_clear_blocked t))"
  "keeps tasks_step (call (q_escalate t now))"
  unfolding q_flag_blocked_def [abs_def] q_clear_blocked_def [abs_def] q_escalate_def
  by (intro boards_update boards_update_task; simp add: task_home_def)+

lemma boards_others [boards_keep]:
  "keeps tasks_step (call (q_insert_comments cs))" "keeps tasks_step (call (q_insert_link a b l n i))"
  "keeps tasks_step (call (q_link_task t c))"
  "keeps tasks_step (call (q_delete db_participants db_participants_update P))"
  "keeps tasks_step (call (q_delete db_task_contracts db_task_contracts_update P'))"
  "keeps tasks_step (call (q_insert_participants c ps))"
  "keeps tasks_step (call (append_task_checkpoint_atomic r t p a k s pv j is'))"
  by (rule boards.keeps_later; simp add: q_insert_comments_def q_insert_link_def q_link_task_def
    q_insert_participants_def append_task_checkpoint_atomic_def q_insert_def with_fresh_def Let_def split: option.split)+

lemma boards_delete_contract [boards_keep]: "keeps tasks_step (call (q_delete_contract c))"
  by (intro boards.keeps_call step_fewer_attachments) (auto simp: q_delete_contract_def tasks_ok_def)

lemma boards_insert_contract [boards_keep]:
  "keeps tasks_step (call (shaped sh (q_insert_contract tt ti a terms u e)))"
  by (rule boards.keeps_later; simp add: q_insert_contract_def q_insert_def with_fresh_def split: option.split)

lemma boards_run_statements [boards_keep]:
  "keeps tasks_step (call (shaped sh (\<lambda>d. q_update db_runs db_runs_update P (f d) d)))"
  "keeps tasks_step (call (shaped sh (with_fresh (\<lambda>i d. q_insert db_runs db_runs_update c (new i d) d))))"
  by (rule boards.keeps_later; simp add: q_insert_def with_fresh_def)+

lemma boards_reap [boards_keep]: "keeps tasks_step (call (reap_stale_execution_runs m n dry))"
  by (rule boards.keeps_later)
    (auto simp: reap_stale_execution_runs_def released_task_def task_home_def Let_def)

section \<open>What the handlers share\<close>

lemmas boards_rules = boards.keeps_rules boards.keeps_side

lemma boards_snapshot [boards_keep]: "keeps tasks_step (syncTaskExecutionSnapshot t s)"
  unfolding syncTaskExecutionSnapshot_def by (intro boards.keeps_rules boards_update) (simp add: task_home_def)

lemma boards_lists [boards_keep]:
  "keeps tasks_step (listTaskExecutionRuns t)" "keeps tasks_step (listTaskExecutionCheckpoints r)"
  "keeps tasks_step (getLatestTaskCheckpoint t r')" "keeps tasks_step (latest_attempt t)"
  unfolding listTaskExecutionRuns_def listTaskExecutionCheckpoints_def getLatestTaskCheckpoint_def latest_attempt_def
    selectTaskExecutionCheckpoints_def
  by (intro boards.keeps_rules boards.keeps_reading; simp)+

lemma boards_runs [boards_keep]:
  "keeps tasks_step (createTaskExecutionRun t p a st n s e m)" "keeps tasks_step (updateTaskExecutionRun r t u)"
  "keeps tasks_step (appendTaskCheckpoint r t p a k s' j is')"
proof -
  show "keeps tasks_step (createTaskExecutionRun t p a st n s e m)"
    unfolding createTaskExecutionRun_def Let_def by (intro boards_rules boards_keep)
  have save: "keeps tasks_step (call (if sets_nothing u then (\<lambda>d. (Inl TaskExecution.syntax_error, d))
      else shaped shape_single (\<lambda>d. q_update db_runs db_runs_update P (f d) d)))" for f P
    by (cases "sets_nothing u") (auto intro: boards_run_statements boards.keeps_reading)
  show "keeps tasks_step (updateTaskExecutionRun r t u)"
    unfolding updateTaskExecutionRun_def by (intro boards_rules boards_keep save)
  show "keeps tasks_step (appendTaskCheckpoint r t p a k s' j is')"
    unfolding appendTaskCheckpoint_def
    by (intro boards_rules boards_keep) (auto intro!: boards_rules boards_keep split: append_result.split)
qed

lemma boards_small [boards_keep]:
  "keeps tasks_step (getTaskAndRun p t r)" "keeps tasks_step (verifyTaskInProject t p)"
  "keeps tasks_step (getProjectMemberAgentIds p)" "keeps tasks_step (getProjectVisibleAgentIds p)"
  "keeps tasks_step (insert_comments cs)" "keeps tasks_step (refreshTaskBlockedState t)"
  "keeps tasks_step (checkLinkPermission p t a)" "keeps tasks_step (visible_contracts a cs')"
  "keeps tasks_step (note_activity req p t ev su me)" "keeps tasks_step (maybe_row rows key i)"
  unfolding getTaskAndRun_def verifyTaskInProject_def getProjectVisibleAgentIds_def getProjectMemberAgentIds_def
    listProjectObserverAgentIds_def insert_comments_def refreshTaskBlockedState_def checkLinkPermission_def
    visible_contracts_def note_activity_def maybe_row_def
  by (intro boards_rules boards_keep)+

lemma boards_scopes [boards_keep]:
  "keeps tasks_step (listAttachmentsForScope p t c)" "keeps tasks_step (listTaskActivityEvents t' n)"
  "keeps tasks_step (recordDelegation pr c' t' a)" "keeps tasks_step (resolveChainPredecessors cs f)"
  "keeps tasks_step (checkpoints_of_runs rs)"
proof -
  show "keeps tasks_step (checkpoints_of_runs rs)" by (induction rs) (auto intro!: boards_rules boards_keep)
qed (unfold listAttachmentsForScope_def listTaskActivityEvents_def recordDelegation_def createContractLink_def
    resolveChainPredecessors_def getDelegationMembers_def; intro boards_rules boards_keep)+

lemma boards_signed [boards_keep]:
  "keeps tasks_step (createSignedAttachmentUrl h k p n m o' t)" "keeps tasks_step (listSignedAttachments so p' t' c)"
proof -
  show url: "keeps tasks_step (createSignedAttachmentUrl h k p n m o' t)" for h k p n m o' t
    unfolding createSignedAttachmentUrl_def Let_def by (intro boards_rules)
  have "keeps tasks_step (sign_rows so as')" for as'
    by (induction as') (auto simp: createSignedAttachmentUrls_def intro!: boards_rules url)
  then show "keeps tasks_step (listSignedAttachments so p' t' c)"
    unfolding listSignedAttachments_def by (intro boards_rules boards_keep)
qed

lemma boards_observer_gate: "keeps tasks_step k \<Longrightarrow> keeps tasks_step (observer_gate f req a b k)"
  unfolding observer_gate_def by (intro boards_rules)

lemma boards_accepting: "keeps tasks_step m \<Longrightarrow> (\<And>x. keeps tasks_step (k x)) \<Longrightarrow> keeps tasks_step (accepting m k)"
  unfolding accepting_def by (intro boards_rules)

lemma boards_unless: "keeps tasks_step m \<Longrightarrow> keeps tasks_step k \<Longrightarrow> keeps tasks_step (unless m k)"
  unfolding unless_def by (intro boards_rules)

lemma boards_people: "keeps tasks_step k \<Longrightarrow> keeps tasks_step (with_people j k)"
  unfolding with_people_def by (intro boards_rules)

lemma boards_windows: "(\<And>h e. keeps tasks_step (k h e)) \<Longrightarrow> keeps tasks_step (with_windows j k)"
  unfolding with_windows_def by (auto intro!: boards_rules split: expiry_check.split)

lemma boards_body:
  "(\<And>j. keeps tasks_step (f j)) \<Longrightarrow> keeps tasks_step g \<Longrightarrow> keeps tasks_step h \<Longrightarrow>
   keeps tasks_step (case b of Parsed j \<Rightarrow> f j | BadJson \<Rightarrow> g | NoBody \<Rightarrow> h)"
  by (cases b) simp_all

lemmas boards_gates = boards.keeps_read_project boards.keeps_write_project boards.keeps_keyed boards.keeps_pair_options
  boards_observer_gate boards_accepting boards_unless boards_people boards_windows boards_body

section \<open>Runs, blockers, sweeps\<close>

lemma boards_run_routes:
  "keeps tasks_step (runs_get req p t)" "keeps tasks_step (runs_post tt req p t)" "keeps tasks_step (run_get req p t r)"
  "keeps tasks_step (run_patch tt req p t r)" "keeps tasks_step (checkpoints_get req p t r)"
  "keeps tasks_step (checkpoints_post tt req p t r)"
proof -
  show "keeps tasks_step (runs_get req p t)" "keeps tasks_step (run_get req p t r)" "keeps tasks_step (checkpoints_get req p t r)"
    unfolding runs_get_def run_get_def checkpoints_get_def by (intro boards_gates boards_rules boards_keep)+
  have "keeps tasks_step (runs_post_parsed tt req p t key e j)" for key e j
    unfolding runs_post_parsed_def run_created_def Let_def
    by (intro boards_gates boards_rules boards_keep boards.keeps_reading) simp_all
  then show "keeps tasks_step (runs_post tt req p t)"
    unfolding runs_post_def Let_def by (intro boards_gates boards_rules boards_keep)
  have "keeps tasks_step (run_patch_parsed tt req p t b j)" for b j
    unfolding run_patch_parsed_def run_patched_def Let_def by (intro boards_gates boards_rules boards_keep)
  then show "keeps tasks_step (run_patch tt req p t r)"
    unfolding run_patch_def by (intro boards_gates boards_rules boards_keep)
  have "keeps tasks_step (checkpoints_post_parsed tt req p t r key e j)" for key e j
    unfolding checkpoints_post_parsed_def checkpoint_appended_def by (intro boards_gates boards_rules boards_keep)
  then show "keeps tasks_step (checkpoints_post tt req p t r)"
    unfolding checkpoints_post_def Let_def by (intro boards_gates boards_rules boards_keep)
qed

lemma boards_blocker_workflow: "keeps tasks_step (runBlockerWorkflowAction dates p t a n ow du ac)"
proof -
  have "keeps tasks_step (resolveBlockerActionContext p t)"
    unfolding resolveBlockerActionContext_def by (intro boards_rules boards_keep)
  moreover have "task_home (planned_task a w at' t) = task_home t" for a w at' t
    by (simp add: planned_task_def task_home_def)
  ultimately show ?thesis
    unfolding runBlockerWorkflowAction_def by (auto intro!: boards_rules boards_keep split: sum.split)
qed

lemma boards_blocker_actions: "keeps tasks_step (blocker_actions_post dates req p t)"
  using boards_blocker_workflow
  unfolding blocker_actions_post_def by (auto intro!: boards_gates boards_rules boards_keep split: prod.split)

lemma boards_sweeps:
  "keeps tasks_step (blocker_sweep url dry)" "keeps tasks_step (stale_run_sweep m n dry)"
proof -
  have "keeps tasks_step (sweep_task url dry now c)" for now c
    unfolding sweep_task_def notify_stale_def Let_def by (intro boards_rules boards_keep)
  then have "keeps tasks_step (sweep_tasks url dry now cs)" for now cs
    by (induction cs) (auto intro!: boards_rules)
  then show "keeps tasks_step (blocker_sweep url dry)"
    unfolding blocker_sweep_def by (intro boards_rules boards_keep)
  have "keeps tasks_step (tell_of_runs m rs)" for rs
    by (induction rs) (auto simp: Let_def intro!: boards_rules boards_keep)
  then show "keeps tasks_step (stale_run_sweep m n dry)"
    unfolding stale_run_sweep_def by (intro boards_rules boards_keep)
qed

text \<open>The shape in which the rows are asked for does not matter.\<close>

lemma keeps_callD: "keeps R (call q) \<Longrightarrow> R d (snd (q d))"
proof -
  have "final (call q) [] d = snd (q d)" by (simp add: final_def run_def call_def split: prod.splits)
  moreover assume "keeps R (call q)"
  ultimately show ?thesis using keeps_run [of R "call q" "[]" d] by simp
qed

lemma boards_shaped: "keeps tasks_step (call q) \<Longrightarrow> keeps tasks_step (call (shaped sh q))"
  using keeps_callD by (intro boards.keeps_call) simp

section \<open>The contracts of a task\<close>

lemma boards_asked [boards_keep]:
  "keeps tasks_step (check_names k req j)" "keeps tasks_step (check_agents k req j)"
proof -
  show names: "keeps tasks_step (check_names k req j)" for j
    unfolding check_names_def agents_named_def Let_def by (intro boards_rules boards_keep)
  show "keeps tasks_step (check_agents k req j)"
    unfolding check_agents_def by (intro boards_rules names)
qed

lemma boards_propose:
  assumes "keeps tasks_step undo"
  shows "keeps tasks_step (propose_for_task dv k req t undo terms as')"
  unfolding propose_for_task_def contract_linked_def could_not_def drop_participants_def drop_contract_def Let_def
  using assms by (intro boards_rules boards_keep)

lemma boards_propose_changed [boards_keep]:
  "keeps tasks_step (propose_for_task dv k req t (State_Monad.return ()) terms as')"
  by (intro boards_propose boards.keeps_return)

lemma boards_propose_new [boards_keep]:
  "keeps tasks_step (propose_for_task dv k req t (drop_task task) terms as')"
  unfolding drop_task_def by (intro boards_propose boards_rules boards_delete_task)

lemma boards_invite [boards_keep]: "keeps tasks_step (invite_to_task p t c as' data)"
  unfolding invite_to_task_def by (rule boards.keeps_deliver)

lemma boards_new_contracts [boards_keep]:
  "keeps tasks_step (new_task_handoff dv req task (drop_task task) j h as')"
  "keeps tasks_step (new_task_escalation dv req task (drop_task task) j h as')"
  unfolding new_task_handoff_def new_task_escalation_def Let_def
  by (auto intro!: boards_rules boards_keep split: option.split sum.split)

lemma boards_context [boards_keep]: "keeps tasks_step (task_context_of k p task)"
  unfolding task_context_of_def Let_def by (intro boards_rules boards_keep)

lemma boards_noted [boards_keep]:
  "keeps tasks_step (handoff_noted req p task x c e ns as')" "keeps tasks_step (escalation_noted req p task x j c e ns as')"
  unfolding handoff_noted_def escalation_noted_def mark_run_def Let_def by (intro boards_rules boards_keep)+

lemma boards_changed_contracts [boards_keep]:
  "keeps tasks_step (changed_task_handoff dv req p task j h)" "keeps tasks_step (changed_task_escalation dv req p task j h)"
  unfolding changed_task_handoff_def changed_task_escalation_def Let_def
  by (auto intro!: boards_rules boards_keep split: option.split sum.split)

section \<open>Tasks\<close>

lemma boards_refusals [boards_keep]:
  "keeps tasks_step (sprint_refusal dv p v)" "keeps tasks_step (assignee_refusal dv p v)"
  unfolding sprint_refusal_def assignee_refusal_def by (intro boards_rules boards_keep)+

lemma boards_insert_task [boards_keep]: "keeps tasks_step (call (shaped sh (q_insert_task dv p a j n)))"
proof -
  have "keeps tasks_step (call (q_insert_task dv p a j n))"
  proof (cases "dv_list dv (if falsy (jprop (Some j) ''labels'') then JArr [] else the (jprop (Some j) ''labels''))")
    case None
    then show ?thesis by (intro boards.keeps_reading) (simp add: q_insert_task_def)
  next
    case (Some labels)
    then show ?thesis
      unfolding q_insert_task_def
      by simp (intro conjI impI boards_insert boards.keeps_reading; simp add: new_task_def Let_def)
  qed
  then show ?thesis by (rule boards_shaped)
qed

lemma boards_tasks_get: "keeps tasks_step (tasks_get req p q)"
  unfolding tasks_get_def Let_def by (intro boards_gates boards_rules boards_keep)

lemma boards_tasks_post: "keeps tasks_step (tasks_post dv encode req p)"
proof -
  have "keeps tasks_step (task_recorded req j task c c' as')" for j task c c' as'
    unfolding task_recorded_def note_assignment_def note_contract_def task_announced_def
    by (intro boards_rules boards_keep)
  then have "keeps tasks_step (task_created dv encode req key e j h h' as' bs task)" for key e j h h' as' bs task
    unfolding task_created_def Let_def by (intro boards_gates boards_rules boards_keep)
  then have "keeps tasks_step (task_inserted dv encode req key e p j h h' as' bs)" for key e j h h' as' bs
    unfolding task_inserted_def by (intro boards_rules boards_keep)
  then have "keeps tasks_step (tasks_post_parsed dv encode req key e p j)" for key e j
    unfolding tasks_post_parsed_def task_checked_def
    by (auto intro!: boards_gates boards_rules boards_keep split: prod.split)
  then show ?thesis
    unfolding tasks_post_def Let_def by (intro boards_gates boards_rules)
qed

lemma boards_task_get: "keeps tasks_step (task_get so req p t)"
proof -
  have "keeps tasks_step (task_detailed so req p task)" for task
    unfolding task_detailed_def Let_def by (intro boards_rules boards_keep)
  then show ?thesis unfolding task_get_def by (intro boards_gates boards_rules)
qed

lemma boards_update_statement [boards_keep]: "keeps tasks_step (call (q_update_task dv p t j))"
  unfolding q_update_task_def [abs_def]
  by (rule boards.keeps_call) (auto simp: changed_task_def task_home_def boards.refl intro!: boards.later_view split: option.split)

lemma boards_followed [boards_keep]: "keeps tasks_step (syncTaskExecutionForStatusChange req p t old task)"
proof -
  have "keeps tasks_step (run_followed req p t pr nx runs r)" for pr nx runs r
    unfolding run_followed_def run_moved_def Let_def by (intro boards_rules boards_keep)
  then show ?thesis
    unfolding syncTaskExecutionForStatusChange_def Let_def by (intro boards_rules boards_keep)
qed

lemma boards_changes_noted [boards_keep]: "keeps tasks_step (changes_noted dv req p t old j)"
proof -
  have "keeps tasks_step (log_changes req p t ns)" for ns
    by (induction ns) (auto intro!: boards_rules boards_keep)
  then show ?thesis
    unfolding changes_noted_def assignee_note_def Let_def by (intro boards_rules boards_keep)
qed

lemma boards_task_patch: "keeps tasks_step (task_patch dv req p t)"
proof -
  have finished: "keeps tasks_step (patch_finished dv req p j old task c c')" for j old task c c'
    unfolding patch_finished_def note_contract_def change_announced_def by (intro boards_rules boards_keep)
  have "keeps tasks_step (patch_written dv req p t j h h' old)" for j h h' old
  proof -
    have "keeps tasks_step (call (shaped shape_single (if b then q_update_task dv p t j else q_select db_tasks P)))" for b P
      by (cases b) (auto intro: boards_shaped boards_keep)
    then show ?thesis
      unfolding patch_written_def patch_updated_def by (intro boards_gates boards_rules boards_keep finished)
  qed
  then have "keeps tasks_step (patch_people dv req p t j h h')" for j h h'
    unfolding patch_people_def by (intro boards_gates boards_rules boards_keep)
  then have "keeps tasks_step (task_patch_parsed dv req p t j)" for j
    unfolding task_patch_parsed_def by (intro boards_gates boards_rules boards_keep)
  then show ?thesis
    unfolding task_patch_def by (intro boards_gates boards_rules)
qed

lemma boards_comment_routes:
  "keeps tasks_step (comments_get req p t k n)" "keeps tasks_step (comments_post req p t)"
proof -
  show "keeps tasks_step (comments_get req p t k n)"
    unfolding comments_get_def Let_def by (intro boards_rules boards_keep)
  have "keeps tasks_step (comment_added req p t a tx ki m)" for a tx ki m
    unfolding comment_added_def by (intro boards_rules boards_keep boards_shaped)
  then have "keeps tasks_step (comments_post_parsed req p t a j)" for a j
    unfolding comments_post_parsed_def Let_def by (intro boards_rules)
  then show "keeps tasks_step (comments_post req p t)"
    unfolding comments_post_def by (intro boards_gates boards_rules)
qed

lemma boards_linked_routes:
  "keeps tasks_step (linked_get req p t)" "keeps tasks_step (linked_post tt req p t)" "keeps tasks_step (linked_delete tt req p t)"
proof -
  have body: "keeps tasks_step (with_contract_id req k)" if "\<And>j. keeps tasks_step (k j)" for k :: "json \<Rightarrow> 'z response prog"
    using that unfolding with_contract_id_def by (intro boards_gates boards_rules)
  show "keeps tasks_step (linked_get req p t)"
    unfolding linked_get_def by (intro boards_rules boards_keep)
  have "keeps tasks_step (linked_post_parsed tt req t j)" for j
    unfolding linked_post_parsed_def audit_link_def Let_def by (intro boards_rules boards_keep boards_shaped)
  then show "keeps tasks_step (linked_post tt req p t)"
    unfolding linked_post_def by (intro boards_rules boards_keep body)
  have "keeps tasks_step (linked_delete_parsed tt req t j)" for j
    unfolding linked_delete_parsed_def audit_link_def Let_def by (intro boards_rules boards_keep)
  then show "keeps tasks_step (linked_delete tt req p t)"
    unfolding linked_delete_def by (intro boards_gates boards_rules boards_keep body)
qed

lemma boards_operator_gate:
  "(\<And>a u. keeps tasks_step (k a u)) \<Longrightarrow> keeps tasks_step (requireProjectMembership s p r k)"
  "(\<And>u. keeps tasks_step (k' u)) \<Longrightarrow> keeps tasks_step (requireTaskMembership s p b k')"
proof -
  have "keeps tasks_step (first_access p as')" for as'
    by (induction as') (auto intro!: boards_rules)
  then have "keeps tasks_step (resolveProjectActorAccess a p r b)" for a r b
    unfolding resolveProjectActorAccess_def by (intro boards_rules)
  then show "(\<And>a u. keeps tasks_step (k a u)) \<Longrightarrow> keeps tasks_step (requireProjectMembership s p r k)"
    "(\<And>u. keeps tasks_step (k' u)) \<Longrightarrow> keeps tasks_step (requireTaskMembership s p b k')"
    unfolding requireProjectMembership_def requireTaskMembership_def
    by (auto intro!: boards_rules split: option.split sum.split)
qed

lemma boards_checked_update [boards_keep]:
  assumes "keeps tasks_step (call q)"
  shows "keeps tasks_step (call (checked_update ok hit q))"
  unfolding checked_update_def by (rule boards.keeps_call) (use keeps_callD [OF assms] in \<open>simp add: boards.refl\<close>)

lemma boards_written [boards_keep]: "keeps tasks_step (call q) \<Longrightarrow> keeps tasks_step (written what q)"
  unfolding written_def by (intro boards_rules)

lemma boards_operator:
  "keeps tasks_step (updateTaskStatus s p t st)" "keeps tasks_step (createTask s p f)"
proof -
  have "keeps tasks_step (call (q_set_task_status p t st))"
    unfolding q_set_task_status_def [abs_def] checked_update_def
    by (rule boards.keeps_call) (auto simp: task_home_def boards.refl intro!: boards.later_view)
  then show "keeps tasks_step (updateTaskStatus s p t st)"
    unfolding updateTaskStatus_def by (intro boards_operator_gate boards_rules boards_keep)
  have "keeps tasks_step (call (q_insert_form p f))"
  proof (cases "fm_status f \<notin> set task_statuses \<or> fm_priority f \<notin> set task_priorities")
    case True
    then show ?thesis by (intro boards.keeps_reading) (simp add: q_insert_form_def)
  next
    case False
    then show ?thesis unfolding q_insert_form_def by simp (rule boards_insert, simp add: task_of_form_def)
  qed
  then show "keeps tasks_step (createTask s p f)"
    unfolding createTask_def by (intro boards_operator_gate boards_rules boards_keep)
qed

section \<open>Attachments\<close>

lemma boards_file_statements [boards_keep]:
  "keeps tasks_step (call (q_write_file f c))" "keeps tasks_step (call (q_unlink f))" "keeps tasks_step (call (q_read_file f))"
  "keeps tasks_step (call (q_update db_checkpoints db_checkpoints_update P g))"
  by (rule boards.keeps_later; simp add: q_write_file_def q_unlink_def q_read_file_def split: option.split)+

lemma boards_delete_attachments [boards_keep]: "keeps tasks_step (call (q_delete db_attachments db_attachments_update P))"
  by (intro boards.keeps_call step_fewer_attachments) (auto simp: tasks_ok_def)

lemma boards_files [boards_keep]:
  "keeps tasks_step (uploadAttachmentBinary dir p c)" "keeps tasks_step (removeAttachmentBinary dir p)"
  "keeps tasks_step random_uuid"
  "keeps tasks_step (getParticipant c' a)" "keeps tasks_step (getLinkedTaskForContract c')"
  "keeps tasks_step (verifyContractParticipation c' a)" "keeps tasks_step (getAttachmentById i)"
  unfolding uploadAttachmentBinary_def removeAttachmentBinary_def random_uuid_def
    getParticipant_def getLinkedTaskForContract_def verifyContractParticipation_def getAttachmentById_def
  by (auto intro!: boards_rules boards_keep boards.keeps_memory boards.later_view boards.keeps_reading boards_shaped
    simp: q_linked_task_row_def limited_def split: sum.split)

lemma boards_listed [boards_keep]: "keeps tasks_step (listed so p t c)"
  unfolding listed_def by (intro boards_rules boards_keep)

lemma boards_verified: "keeps tasks_step k \<Longrightarrow> keeps tasks_step (with_verified_task p t k)"
  unfolding with_verified_task_def verifyTask_def by (intro boards_rules boards_keep)

lemma boards_upload:
  "(\<And>f o' m c' pa u. keeps tasks_step (k f o' m c' pa u)) \<Longrightarrow> keeps tasks_step (with_upload so p t c form k)"
  unfolding with_upload_def Let_def
  by (auto intro!: boards_rules boards_keep split: upload_form.split option.split sum.split)

lemma boards_save_attachment [boards_keep]: "keeps tasks_step (call (shaped sh (q_insert_attachment new)))"
  by (intro boards_shaped boards_insert_attachment)

lemma boards_attachment_routes:
  "keeps tasks_step (task_attachments_get so req p t)" "keeps tasks_step (contract_attachments_get so req c)"
  "keeps tasks_step (task_attachments_post so req p t form)" "keeps tasks_step (contract_attachments_post so req c form)"
  "keeps tasks_step (attachment_download so req i)"
proof -
  show "keeps tasks_step (task_attachments_get so req p t)"
    unfolding task_attachments_get_def by (intro boards_rules boards_keep boards_verified)
  show "keeps tasks_step (contract_attachments_get so req c)"
    unfolding contract_attachments_get_def by (intro boards_rules boards_keep)
  have "keeps tasks_step (task_upload_saved so req p t f o' m c' pa u)" for f o' m c' pa u
    unfolding task_upload_saved_def undo_task_upload_def note_checkpoint_def Let_def by (intro boards_rules boards_keep)
  then show "keeps tasks_step (task_attachments_post so req p t form)"
    unfolding task_attachments_post_def by (intro boards_gates boards_verified boards_upload)
  have "keeps tasks_step (contract_upload_saved so req p' c f o' m c' pa u)" for p' f o' m c' pa u
    unfolding contract_upload_saved_def by (intro boards_rules boards_keep)
  then show "keeps tasks_step (contract_attachments_post so req c form)"
    unfolding contract_attachments_post_def
    by (auto intro!: boards_rules boards_keep boards_upload split: participant_decision.split)
  show "keeps tasks_step (attachment_download so req i)"
    unfolding attachment_download_def download_url_of_def contract_download_def by (intro boards_rules boards_keep)
qed

section \<open>The page of a task\<close>

section \<open>Dependencies\<close>

lemma boards_dependencies:
  "keeps tasks_step (dependencies_get req p t)" "keeps tasks_step (dependencies_delete tt req p t)"
proof -
  show "keeps tasks_step (dependencies_get req p t)"
    unfolding dependencies_get_def by (intro boards_rules boards_keep)
  have "keeps tasks_step (dependency_removed req p t i g)" for i g
    unfolding dependency_removed_def by (intro boards_rules boards_keep boards_delete_dependencies)
  then show "keeps tasks_step (dependencies_delete tt req p t)"
    unfolding dependencies_delete_def by (intro boards_gates boards_rules)
qed

lemma boards_page:
  "keeps tasks_step (updateTask s p t e)" "keeps tasks_step (addComment s p t tx)"
  "keeps tasks_step (runDashboardBlockerWorkflowAction dates s p t a n ow du)"
  "keeps tasks_step (uploadTaskAttachment so s p t file no)" "keeps tasks_step (deleteTask s p t)"
proof -
  have noted: "keeps tasks_step (operator_activity u p t ev su fa)" for u ev su fa
    unfolding operator_activity_def by (intro boards_rules)
  then have "keeps tasks_step (note_edits u p t ns)" for u ns
    by (induction u p t ns rule: note_edits.induct) (auto intro!: boards_rules)
  moreover have "keeps tasks_step (call (q_edit_task p t e now))" for now
    unfolding q_edit_task_def by (intro boards_keep) (simp add: edited_task_def task_home_def)
  ultimately show "keeps tasks_step (updateTask s p t e)"
    unfolding updateTask_def by (intro boards_operator_gate boards_rules boards_keep)
  have name: "keeps tasks_step (member_name u)" for u
    unfolding member_name_def by (intro boards_rules boards_keep)
  then show "keeps tasks_step (addComment s p t tx)"
    unfolding addComment_def by (intro boards_operator_gate boards_rules boards_keep noted)
  show "keeps tasks_step (runDashboardBlockerWorkflowAction dates s p t a n ow du)"
    unfolding runDashboardBlockerWorkflowAction_def by (intro boards_operator_gate boards_rules boards_blocker_workflow name)
  have "keeps tasks_step (operator_upload_saved so u p t f o' m c pa no)" for u f o' m c pa
    unfolding operator_upload_saved_def
    by (intro boards_rules boards_keep boards_insert_attachment noted boards.keeps_later) (simp_all add: q_insert_def)
  then show "keeps tasks_step (uploadTaskAttachment so s p t file no)"
    unfolding uploadTaskAttachment_def Let_def
    by (auto intro!: boards_operator_gate boards_rules boards_keep split: prod.split option.split sum.split)
  show "keeps tasks_step (deleteTask s p t)"
    unfolding deleteTask_def drop_dependencies_def
    by (intro boards_operator_gate boards_rules boards_keep boards_delete_dependencies boards_delete_task)
qed

text \<open>A task that was found in a project is in no other one, even when it has been deleted since.\<close>

definition rooted :: "string \<Rightarrow> string \<Rightarrow> db \<Rightarrow> bool" where
  "rooted i p d \<longleftrightarrow> tasks_ok d \<and> spent d i \<and> (\<forall>q. (i, q) \<in> homes d \<longrightarrow> q = p)"

lemma stable_tasks_ok: "stable tasks_step tasks_ok"
  by (simp add: stable_def tasks_step_def)

lemma stable_rooted: "stable tasks_step (rooted i p)"
  using spent_later by (fastforce simp: stable_def rooted_def tasks_step_def)

lemma found_rooted:
  assumes "tasks_ok d" "t \<in> set (db_tasks d)" "t_id t = i" "t_project_id t = p"
  shows "rooted i p d"
proof -
  have "q = p" if home: "(i, q) \<in> homes d" for q
  proof -
    obtain u where "u \<in> set (db_tasks d)" "t_id u = i" "t_project_id u = q"
      using home by (auto simp: homes_def task_home_def)
    with assms have "u = t" by (auto simp: tasks_ok_def distinct_map dest: inj_onD)
    with assms \<open>t_project_id u = q\<close> show ?thesis by simp
  qed
  with assms show ?thesis by (auto simp: rooted_def tasks_ok_def)
qed

lemma rooted_home:
  assumes "rooted i p d" "i \<in> t_id ` set (db_tasks d)"
  shows "(i, p) \<in> homes d"
proof -
  from assms(2) obtain t where "t \<in> set (db_tasks d)" "t_id t = i" by blast
  then have "(i, t_project_id t) \<in> homes d" by (auto simp: homes_def task_home_def)
  with assms(1) show ?thesis by (auto simp: rooted_def)
qed

lemma valid_verify:
  assumes "stable tasks_step P" "\<And>d. P d \<Longrightarrow> tasks_ok d"
  shows "valid tasks_step P (verifyTaskInProject i p) (\<lambda>b d. P d \<and> (b \<longrightarrow> rooted i p d))"
proof -
  have read: "valid tasks_step P (call (shaped shape_single (q_select db_tasks (\<lambda>t. t_id t = i \<and> t_project_id t = p))))
      (\<lambda>r d. P d \<and> (data_of r \<noteq> None \<longrightarrow> rooted i p d))"
  proof (rule boards.valid_call [OF assms(1)])
    fix d assume "P d"
    let ?r = "fst (shaped shape_single (q_select db_tasks (\<lambda>t. t_id t = i \<and> t_project_id t = p)) d)"
    have "rooted i p d" if "data_of ?r \<noteq> None"
    proof -
      from that obtain t where "?r = Inr t" by (cases ?r) auto
      then have "filter (\<lambda>t. t_id t = i \<and> t_project_id t = p) (db_tasks d) = [t]" by (simp add: shape_single_Inr)
      then have "t \<in> set (filter (\<lambda>t. t_id t = i \<and> t_project_id t = p) (db_tasks d))" by simp
      then have "t \<in> set (db_tasks d)" "t_id t = i" "t_project_id t = p" by simp_all
      then show ?thesis using found_rooted assms(2) [OF \<open>P d\<close>] by blast
    qed
    with \<open>P d\<close> show "tasks_step d (snd (shaped shape_single (q_select db_tasks (\<lambda>t. t_id t = i \<and> t_project_id t = p)) d)) \<and>
        P (snd (shaped shape_single (q_select db_tasks (\<lambda>t. t_id t = i \<and> t_project_id t = p)) d)) \<and>
        (data_of ?r \<noteq> None \<longrightarrow> rooted i p (snd (shaped shape_single (q_select db_tasks (\<lambda>t. t_id t = i \<and> t_project_id t = p)) d)))"
      by (simp add: boards.refl)
  qed simp
  show ?thesis
    unfolding verifyTaskInProject_def getTaskContext_def
    by (rule boards.valid_bind [OF boards.valid_bind [OF read boards.valid_return]], assumption) (simp add: boards.valid_return)
qed

lemma boards_add_dependency:
  "valid tasks_step (\<lambda>d. rooted a p d \<and> rooted b p d) (call (shaped sh (q_insert_dependency a b kind)))
     (\<lambda>_ d. rooted a p d \<and> rooted b p d)"
proof (rule boards.valid_call [OF stable_conj [OF stable_rooted stable_rooted]])
  fix d assume ok: "rooted a p d \<and> rooted b p d"
  let ?d = "d\<lparr>db_next := Suc (db_next d)\<rparr>" and ?d' = "snd (shaped sh (q_insert_dependency a b kind) d)"
  have bump: "tasks_step d ?d" by (simp add: boards.later_view)
  have step: "tasks_step d ?d'"
  proof (cases "a \<noteq> b \<and> {a, b} \<subseteq> t_id ` set (db_tasks d)")
    case False
    then have "?d' = ?d" by (auto simp: q_insert_dependency_def with_fresh_def)
    with bump show ?thesis by simp
  next
    case True
    then have "(a, p) \<in> homes d" "(b, p) \<in> homes d" using ok rooted_home by blast+
    then have "dependency_ok d n" if "dp_blocking_task_id n = a" "dp_blocked_task_id n = b" for n
      using True that by (auto simp: dependency_ok_def)
    then have more: "tasks_step ?d (db_dependencies_update (\<lambda>rs. rs @ [n]) ?d)"
      if "dp_blocking_task_id n = a" "dp_blocked_task_id n = b" for n
      using that attachment_same [of "db_dependencies_update (\<lambda>rs. rs @ [n]) ?d" ?d]
      by (auto simp: tasks_step_def tasks_ok_def dependency_ok_def homes_def spent_def)
    let ?n = "\<lparr>dp_id = db_ids d (db_next d), dp_blocking_task_id = a, dp_blocked_task_id = b, dp_type = kind, dp_created_at = db_now d\<rparr>"
    have "?d' = ?d \<or> ?d' = db_dependencies_update (\<lambda>rs. rs @ [?n]) ?d"
      using True by (simp add: q_insert_dependency_def with_fresh_def q_insert_def)
    then have "tasks_step ?d ?d'" using more [of ?n] boards.refl by (elim disjE) simp_all
    with bump show ?thesis by (rule boards.trans)
  qed
  moreover have "stable tasks_step (\<lambda>d. rooted a p d \<and> rooted b p d)" by (intro stable_conj stable_rooted)
  ultimately show "tasks_step d ?d' \<and> rooted a p ?d' \<and> rooted b p ?d'"
    using ok unfolding stable_def by blast
qed

lemma boards_dependency_inserted:
  "valid tasks_step (\<lambda>d. rooted a p d \<and> rooted b p d) (dependency_inserted req t a b kind) (\<lambda>_ d. rooted a p d \<and> rooted b p d)"
proof -
  have aside: "valid tasks_step (\<lambda>d. rooted a p d \<and> rooted b p d) m (\<lambda>_ d. rooted a p d \<and> rooted b p d)" if "keeps tasks_step m" for m :: "'z prog"
    using that by (intro boards.keeps_holds stable_conj stable_rooted)
  show ?thesis
    unfolding dependency_inserted_def Let_def
    by (intro boards.holds_rules boards_add_dependency aside boards.keeps_side)
qed

lemma boards_dependencies_post: "valid tasks_step tasks_ok (dependencies_post tt req p t) (\<lambda>_. tasks_ok)"
proof -
  have aside: "valid tasks_step tasks_ok m (\<lambda>_. tasks_ok)" if "keeps tasks_step m" for m :: "'z prog"
    using that stable_tasks_ok by (rule boards.keeps_holds)
  have two: "valid tasks_step tasks_ok (do {
      x \<leftarrow> verifyTaskInProject i p; y \<leftarrow> verifyTaskInProject j p;
      if \<not> x \<or> \<not> y then State_Monad.return e else m }) (\<lambda>_. tasks_ok)"
    if "valid tasks_step (\<lambda>d. rooted i p d \<and> rooted j p d) m (\<lambda>_. tasks_ok)" for i j e and m :: "'z prog"
  proof -
    have first: "valid tasks_step tasks_ok (verifyTaskInProject i p) (\<lambda>b d. tasks_ok d \<and> (b \<longrightarrow> rooted i p d))"
      using stable_tasks_ok by (rule valid_verify)
    have second: "valid tasks_step (\<lambda>d. tasks_ok d \<and> (x \<longrightarrow> rooted i p d)) (verifyTaskInProject j p)
        (\<lambda>b d. (tasks_ok d \<and> (x \<longrightarrow> rooted i p d)) \<and> (b \<longrightarrow> rooted j p d))" for x
    proof (rule valid_verify)
      show "stable tasks_step (\<lambda>d. tasks_ok d \<and> (x \<longrightarrow> rooted i p d))"
        using stable_tasks_ok stable_rooted by (auto simp: stable_def)
    qed simp
    have "valid tasks_step (\<lambda>d. (tasks_ok d \<and> (x \<longrightarrow> rooted i p d)) \<and> (y \<longrightarrow> rooted j p d))
        (if \<not> x \<or> \<not> y then State_Monad.return e else m) (\<lambda>_. tasks_ok)" for x y
      using that by (cases x; cases y) (auto intro!: boards.valid_return intro: valid_conseq)
    then show ?thesis by (intro boards.valid_bind [OF first] boards.valid_bind [OF second])
  qed
  have "valid tasks_step tasks_ok (dependencies_post_parsed tt req p t j) (\<lambda>_. tasks_ok)" for j
  proof -
    have ins: "valid tasks_step (\<lambda>d. rooted i p d \<and> rooted k p d) (dependency_inserted req t a b kind) (\<lambda>_. tasks_ok)"
      if "{a, b} = {i, k}" for i k a b kind
      using that by (intro valid_conseq [OF boards_dependency_inserted [of a p b]]) (auto simp: doubleton_eq_iff rooted_def)
    have ends: "(case column_text tt (Some b) of Some s \<Rightarrow> s | None \<Rightarrow> []) = t \<and> c = o' \<or>
        b = o' \<and> (case column_text tt (Some c) of Some s \<Rightarrow> s | None \<Rightarrow> []) = t"
      if "dependency_ends j t = Some (b, c, o')" for b c o'
      using that by (auto simp: dependency_ends_def column_text_def is_nullish_def Let_def split: if_splits)
    have found: "valid tasks_step tasks_ok (case e of None \<Rightarrow> State_Monad.return r | Some (b, c, o') \<Rightarrow> f b c o') (\<lambda>_. tasks_ok)"
      if "\<And>b c o'. e = Some (b, c, o') \<Longrightarrow> valid tasks_step tasks_ok (f b c o') (\<lambda>_. tasks_ok)"
      for e r and f :: "json \<Rightarrow> json \<Rightarrow> json \<Rightarrow> dependency_row response prog"
      using that by (cases e) (auto intro: boards.valid_return)
    show ?thesis
      unfolding dependencies_post_parsed_def Let_def
      by (intro boards.holds_rules found two ins) (use ends in auto)
  qed
  then have "valid tasks_step tasks_ok (case rq_body req of
      Parsed j \<Rightarrow> dependencies_post_parsed tt req p t j
    | _ \<Rightarrow> State_Monad.return (reply_error 400 ''Invalid JSON body'' ''INVALID_BODY'')) (\<lambda>_. tasks_ok)"
    by (cases "rq_body req") (simp_all add: boards.valid_return)
  then show ?thesis
    unfolding dependencies_post_def writing_project_def
    by (intro boards.holds_rules) (auto intro: aside boards.keeps_side)
qed

section \<open>All calls\<close>

datatype task_call =
    ListTasks request string task_query
  | CreateTask request string
  | ShowTask request string string
  | ChangeTask request string string
  | ListDependencies request string string
  | AddDependency request string string
  | RemoveDependency request string string
  | ActOnBlocker request string string
  | ListComments request string string "string option" "string option"
  | AddComment request string string
  | ListLinked request string string
  | LinkContract request string string
  | UnlinkContract request string string
  | ListRuns request string string
  | StartRun request string string
  | ShowRun request string string string
  | ChangeRun request string string string
  | ListCheckpoints request string string string
  | AddCheckpoint request string string string
  | OpTaskStatus "actor_context option" string string string
  | OpCreateTask "actor_context option" string task_form
  | OpUpdateTask "actor_context option" string string task_edit
  | OpComment "actor_context option" string string string
  | OpPlan "actor_context option" string string blocker_action jvalue jvalue jvalue
  | OpUpload "actor_context option" string string "(string \<times> string \<times> string) option" "string option"
  | OpDeleteTask "actor_context option" string string
  | ListAttachments request string string
  | UploadAttachment request string string upload_form
  | ListContractAttachments request string
  | UploadToContract request string upload_form
  | DownloadAttachment request string
  | SweepBlocked bool
  | SweepStaleRuns int nat bool

text \<open>What the calls take from outside: the driver, the JSON of an answer, \<open>new Date\<close> of a text, the address of a page, the
  directory of the files with the functions of the crypto module.\<close>

record task_outside =
  to_driver :: driver
  to_encode :: "task_answer \<Rightarrow> json"
  to_dates :: "string \<Rightarrow> timestamp option"
  to_url :: "string \<Rightarrow> string"
  to_storage :: storage

fun perform_task :: "task_outside \<Rightarrow> task_call \<Rightarrow> unit prog" where
  "perform_task o' (ListTasks r p q) = ignoring (tasks_get r p q)"
| "perform_task o' (CreateTask r p) = ignoring (tasks_post (to_driver o') (to_encode o') r p)"
| "perform_task o' (ShowTask r p t) = ignoring (task_get (to_storage o') r p t)"
| "perform_task o' (ChangeTask r p t) = ignoring (task_patch (to_driver o') r p t)"
| "perform_task o' (ListDependencies r p t) = ignoring (dependencies_get r p t)"
| "perform_task o' (AddDependency r p t) = ignoring (dependencies_post (dv_text (to_driver o')) r p t)"
| "perform_task o' (RemoveDependency r p t) = ignoring (dependencies_delete (dv_text (to_driver o')) r p t)"
| "perform_task o' (ActOnBlocker r p t) = ignoring (blocker_actions_post (to_dates o') r p t)"
| "perform_task o' (ListComments r p t k n) = ignoring (comments_get r p t k n)"
| "perform_task o' (AddComment r p t) = ignoring (comments_post r p t)"
| "perform_task o' (ListLinked r p t) = ignoring (linked_get r p t)"
| "perform_task o' (LinkContract r p t) = ignoring (linked_post (dv_text (to_driver o')) r p t)"
| "perform_task o' (UnlinkContract r p t) = ignoring (linked_delete (dv_text (to_driver o')) r p t)"
| "perform_task o' (ListRuns r p t) = ignoring (runs_get r p t)"
| "perform_task o' (StartRun r p t) = ignoring (runs_post (dv_text (to_driver o')) r p t)"
| "perform_task o' (ShowRun r p t i) = ignoring (run_get r p t i)"
| "perform_task o' (ChangeRun r p t i) = ignoring (run_patch (dv_text (to_driver o')) r p t i)"
| "perform_task o' (ListCheckpoints r p t i) = ignoring (checkpoints_get r p t i)"
| "perform_task o' (AddCheckpoint r p t i) = ignoring (checkpoints_post (dv_text (to_driver o')) r p t i)"
| "perform_task o' (OpTaskStatus s p t x) = ignoring (updateTaskStatus s p t x)"
| "perform_task o' (OpCreateTask s p f) = ignoring (createTask s p f)"
| "perform_task o' (OpUpdateTask s p t e) = ignoring (updateTask s p t e)"
| "perform_task o' (OpComment s p t tx) = ignoring (addComment s p t tx)"
| "perform_task o' (OpPlan s p t a n ow du) = ignoring (runDashboardBlockerWorkflowAction (to_dates o') s p t a n ow du)"
| "perform_task o' (OpUpload s p t f n) = ignoring (uploadTaskAttachment (to_storage o') s p t f n)"
| "perform_task o' (OpDeleteTask s p t) = ignoring (deleteTask s p t)"
| "perform_task o' (ListAttachments r p t) = ignoring (task_attachments_get (to_storage o') r p t)"
| "perform_task o' (UploadAttachment r p t f) = ignoring (task_attachments_post (to_storage o') r p t f)"
| "perform_task o' (ListContractAttachments r c) = ignoring (contract_attachments_get (to_storage o') r c)"
| "perform_task o' (UploadToContract r c f) = ignoring (contract_attachments_post (to_storage o') r c f)"
| "perform_task o' (DownloadAttachment r i) = ignoring (attachment_download (to_storage o') r i)"
| "perform_task o' (SweepBlocked dry) = ignoring (blocker_sweep (to_url o') dry)"
| "perform_task o' (SweepStaleRuns m n dry) = ignoring (stale_run_sweep m n dry)"

lemma boards_perform: "valid tasks_step tasks_ok (perform_task o' c) (\<lambda>_. tasks_ok)"
proof -
  have quietly: "valid tasks_step tasks_ok (ignoring m) (\<lambda>_. tasks_ok)" if "valid tasks_step tasks_ok m (\<lambda>_. tasks_ok)"
    for m :: "'z prog"
    using that unfolding ignoring_def by (intro boards.valid_bind boards.valid_return)
  have calm: "valid tasks_step tasks_ok (ignoring m) (\<lambda>_. tasks_ok)" if "keeps tasks_step m" for m :: "'z prog"
    by (intro quietly boards.keeps_holds that stable_tasks_ok)
  show ?thesis
    by (cases c) (simp_all add: calm quietly boards_tasks_get boards_tasks_post boards_task_get boards_task_patch boards_dependencies
      boards_dependencies_post boards_blocker_actions boards_comment_routes boards_linked_routes boards_run_routes
      boards_operator boards_sweeps boards_page boards_attachment_routes)
qed

text \<open>Property C31: whatever call on tasks runs, beside whatever others, a dependency links two different tasks of one
  project, what is attached to a task belongs to its project, no task has another's id, and no task moves to another project or comes back after it was deleted.\<close>

theorem dependencies_stay_in_project:
  assumes "rely tasks_step env" "tasks_ok d"
  shows "tasks_ok (final (perform_task o' c) env d) \<and>
    (\<forall>h\<in>homes (final (perform_task o' c) env d). spent d (fst h) \<longrightarrow> h \<in> homes d)"
  using valid_run(1) [OF boards_perform assms, of o' c] assms(2) by (simp add: tasks_step_def)

definition sample_form :: task_form where
  "sample_form = \<lparr>fm_title = ''Task'', fm_status = ''todo'', fm_priority = ''medium'', fm_sprintId = None,
     fm_assigneeAgentId = None, fm_labels = [], fm_dueDate = None, fm_description = None\<rparr>"

definition sample_board :: db where
  "sample_board = (sample_project 5000)\<lparr>
     db_tasks := [task_of_form ''p'' sample_form ''u'' 0, task_of_form ''p'' sample_form ''v'' 0]\<rparr>"

definition sample_storage :: storage where
  "sample_storage = \<lparr>so_root = ''/data/attachments'', so_key = Some ''key'', so_hmac = (\<lambda>k t. k @ t), so_bytes = id, so_sha256 = id\<rparr>"

definition sample_task_outside :: task_outside where
  "sample_task_outside = \<lparr>to_driver = sample_driver, to_encode = (\<lambda>_. JNull), to_dates = (\<lambda>_. None), to_url = id,
     to_storage = sample_storage\<rparr>"

definition sample_waiting :: db where
  "sample_waiting = final (perform_task sample_task_outside (AddDependency
     (sample_request ''a'' (Parsed (JObj [(''blocking_task_id'', JStr ''u'')]))) ''p'' ''v'')) [] sample_board"

lemma sample_board_ok: "tasks_ok sample_board"
proof -
  have "db_ids sample_board = sample_ids" by (simp add: sample_board_def sample_project_def empty_db_def)
  moreover have "sample_ids k \<noteq> ''u''" "sample_ids k \<noteq> ''v''" for k by (simp_all add: sample_ids_def)
  moreover have "map t_id (db_tasks sample_board) = [''u'', ''v'']" "db_dependencies sample_board = []" "db_attachments sample_board = []"
    by (simp_all add: sample_board_def sample_project_def empty_db_def task_of_form_def)
  moreover from this have "t_id ` set (db_tasks sample_board) = {''u'', ''v''}" by (metis list.set(1,2) list.set_map)
  ultimately show ?thesis using inj_sample_ids by (auto simp: tasks_ok_def spent_def)
qed

theorem dependencies_stay_in_project_witness:
  "tasks_ok sample_waiting \<and>
   map (\<lambda>p. (dp_blocking_task_id p, dp_blocked_task_id p)) (db_dependencies sample_waiting) = [(''u'', ''v'')]"
proof
  show "tasks_ok sample_waiting"
    using dependencies_stay_in_project [OF rely_Nil sample_board_ok] unfolding sample_waiting_def by blast
  show "map (\<lambda>p. (dp_blocking_task_id p, dp_blocked_task_id p)) (db_dependencies sample_waiting) = [(''u'', ''v'')]"
    by code_simp
qed

end
