(* ===== verification/TaskOutcomes.thy ===== *)
theory TaskOutcomes
  imports TaskSafety CalmRuns
begin

text \<open>
  What the calls on tasks are sure to do, and what they fail to: the sweep of stale runs clears its backlog, the flag of a
  blocked task tells what its dependencies say, those who are asked for help passed the trust gate; a refused PATCH may
  have changed the task, and no change of the dependencies changes the flag.
\<close>

section \<open>The backlog of stale runs\<close>

text \<open>The runs that were not heard of since \<open>T\<close>.\<close>

definition silent_since :: "timestamp \<Rightarrow> db \<Rightarrow> run_row list" where
  "silent_since T d = filter (\<lambda>r. \<not> finished (r_status r) \<and> heard_of r < T) (db_runs d)"

definition silence_step :: "timestamp \<Rightarrow> db \<Rightarrow> db \<Rightarrow> bool" where
  "silence_step T d d' \<longleftrightarrow> length (silent_since T d') \<le> length (silent_since T d) \<and> db_now d \<le> db_now d'"

interpretation silence: rely_guarantee "silence_step T" for T
  by unfold_locales (auto simp: silence_step_def)

lemma length_filter_drops:
  assumes "\<And>x. Q x \<Longrightarrow> P x"
  shows "length (filter Q xs) \<le> length (filter P xs)"
    and "h \<in> set xs \<Longrightarrow> P h \<Longrightarrow> \<not> Q h \<Longrightarrow> length (filter Q xs) < length (filter P xs)"
proof -
  show le: "length (filter Q xs) \<le> length (filter P xs)" for xs
    by (induction xs) (use assms in \<open>auto intro: le_SucI\<close>)
  assume h: "h \<in> set xs" "P h" "\<not> Q h"
  then obtain ys zs where "xs = ys @ h # zs" by (meson split_list)
  then show "length (filter Q xs) < length (filter P xs)" using h le [of ys] le [of zs] by simp
qed

text \<open>The sweep takes the longest silent first, so each round shortens the backlog.\<close>

lemma first_stale_silent:
  assumes "silent_since T d \<noteq> []" "T \<le> db_now d - m * 60000" "0 < limit"
  obtains h where "h \<in> set (stale_runs m limit d)" "h \<in> set (silent_since T d)"
proof -
  let ?xs = "filter (is_stale m (db_now d)) (db_runs d)"
  obtain x where x: "x \<in> set (silent_since T d)" using assms(1) by (meson hd_in_set)
  then have in_xs: "x \<in> set ?xs" using assms(2) by (auto simp: silent_since_def is_stale_def)
  obtain h ys where sorted: "sort_key heard_of ?xs = h # ys"
    using in_xs by (metis empty_iff empty_set list.exhaust set_sort)
  have "h \<in> set ?xs" using sorted by (metis list.set_intros(1) set_sort)
  moreover have "heard_of h \<le> heard_of x"
  proof -
    have "x \<in> set (h # ys)" using in_xs sorted by (metis set_sort)
    moreover have "sorted (map heard_of (h # ys))" unfolding sorted [symmetric] by simp
    ultimately show ?thesis by auto
  qed
  ultimately have "h \<in> set (silent_since T d)" using x by (auto simp: silent_since_def is_stale_def)
  moreover have "h \<in> set (stale_runs m limit d)" using sorted assms(3) by (cases limit) (simp_all add: stale_runs_def)
  ultimately show thesis by (rule that [rotated])
qed

lemma reap_shortens:
  assumes "T \<le> db_now d - m * 60000" "0 < limit"
  shows "length (silent_since T (snd (reap_stale_execution_runs m limit False d))) \<le> length (silent_since T d) - 1"
proof -
  let ?P = "\<lambda>r. \<not> finished (r_status r) \<and> heard_of r < T"
  let ?taken = "r_id ` set (stale_runs m limit d)"
  let ?f = "\<lambda>r. if r_id r \<in> ?taken then cancelled_run (db_now d) r else r"
  have after: "length (silent_since T (snd (reap_stale_execution_runs m limit False d))) = length (filter (\<lambda>r. ?P (?f r)) (db_runs d))"
    by (simp add: silent_since_def reap_stale_execution_runs_def Let_def filter_map o_def)
  have cancelled: "\<not> ?P (?f r)" if "r_id r \<in> ?taken" for r
    using that by (simp add: cancelled_run_def finished_def)
  have le: "?P r" if "?P (?f r)" for r
  proof (cases "r_id r \<in> ?taken")
    case True
    then show ?thesis using cancelled [OF True] that by blast
  next
    case False
    show ?thesis using that unfolding if_not_P [OF False] .
  qed
  show ?thesis
  proof (cases "silent_since T d = []")
    case True
    then have "length (filter ?P (db_runs d)) = 0" by (simp add: silent_since_def)
    moreover have "length (filter (\<lambda>r. ?P (?f r)) (db_runs d)) \<le> length (filter ?P (db_runs d))"
      by (rule length_filter_drops(1)) (rule le)
    ultimately show ?thesis unfolding after by linarith
  next
    case False
    obtain h where "h \<in> set (stale_runs m limit d)" "h \<in> set (silent_since T d)"
      using first_stale_silent [OF False assms] .
    then have "h \<in> set (db_runs d)" "?P h" "\<not> ?P (?f h)" using cancelled [of h] by (auto simp: silent_since_def)
    then have "length (filter (\<lambda>r. ?P (?f r)) (db_runs d)) < length (filter ?P (db_runs d))"
      by (intro length_filter_drops(2)) (rule le)
    then show ?thesis unfolding after by (simp add: silent_since_def)
  qed
qed

text \<open>A bounded backlog, at a time when all of it counts as stale.\<close>

definition backlog :: "timestamp \<Rightarrow> int \<Rightarrow> nat \<Rightarrow> db \<Rightarrow> bool" where
  "backlog T m k d \<longleftrightarrow> length (silent_since T d) \<le> k \<and> T \<le> db_now d - m * 60000"

lemma stable_backlog: "stable (silence_step T) (backlog T m k)"
  by (auto simp: stable_def silence_step_def backlog_def)

lemma tell_keeps_backlog: "calmly (silence_step T) (backlog T m k) (tell_of_runs n rs) (\<lambda>_. backlog T m k)"
proof (induction rs)
  case (Cons r rs)
  have "calmly (silence_step T) (backlog T m k) (getProjectMemberAgentIds p) (\<lambda>_. backlog T m k)" for p
    unfolding getProjectMemberAgentIds_def
    by (intro silence.calmly_bind silence.calmly_call silence.calmly_return) (simp_all add: stable_backlog silence.refl)
  note members = this
  have send: "calmly (silence_step T) (backlog T m k) (if b then State_Monad.return () else deliver e) (\<lambda>_. backlog T m k)" for b e
    by (auto intro: silence.calmly_return silence.calmly_deliver)
  show ?case
    unfolding tell_of_runs.simps Let_def by (intro silence.calmly_bind [OF members] silence.calmly_bind [OF send] Cons)
qed (simp add: silence.calmly_return)

lemma sweep_shortens:
  assumes "0 < limit"
  shows "calmly (silence_step T) (backlog T m k) (stale_run_sweep m limit False) (\<lambda>_. backlog T m (k - 1))"
proof -
  have step: "silence_step T d (snd (reap_stale_execution_runs m limit False d)) \<and>
      backlog T m (k - 1) (snd (reap_stale_execution_runs m limit False d))" if "backlog T m k d" for d
    using reap_shortens [of T d m limit] assms that by (auto simp: backlog_def silence_step_def reap_keeps_time)
  have "calmly (silence_step T) (backlog T m k) (call (reap_stale_execution_runs m limit False)) (\<lambda>_. backlog T m (k - 1))"
    by (rule silence.calmly_call [OF stable_backlog step])
  then show ?thesis
    unfolding stale_run_sweep_def
    by (rule silence.calmly_bind)
      (auto intro!: silence.calmly_sum silence.calmly_bind silence.calmly_return tell_keeps_backlog split: sum.split)
qed

text \<open>The sweep as it is scheduled: round after round.\<close>

fun sweep_rounds :: "nat \<Rightarrow> int \<Rightarrow> nat \<Rightarrow> unit prog" where
  "sweep_rounds 0 m limit = State_Monad.return ()"
| "sweep_rounds (Suc n) m limit = do { _ \<leftarrow> stale_run_sweep m limit False; sweep_rounds n m limit }"

lemma rounds_clear:
  assumes "0 < limit"
  shows "calmly (silence_step T) (backlog T m k) (sweep_rounds n m limit) (\<lambda>_. backlog T m (k - n))"
proof (induction n arbitrary: k)
  case (Suc n)
  have "calmly (silence_step T) (backlog T m (k - 1)) (sweep_rounds n m limit) (\<lambda>_. backlog T m (k - Suc n))"
    using Suc.IH [of "k - 1"] by simp
  then show ?case
    by (simp only: sweep_rounds.simps) (rule silence.calmly_bind [OF sweep_shortens [OF assms]])
qed (simp add: silence.calmly_return)


definition sample_run :: "string \<Rightarrow> timestamp \<Rightarrow> run_row" where
  "sample_run i heard = (new_run ''u'' ''p'' ''a'' RRunning 1 None None (JObj []) heard heard i)"

definition sample_silent :: db where
  "sample_silent = (sample_project 5000)\<lparr>db_runs := [sample_run ''r'' 0, sample_run ''s'' 200, sample_run ''t'' 900], db_now := 60500\<rparr>"


section \<open>The flag of a blocked task\<close>

lemma find_by_key:
  assumes "distinct (map key xs)" "x \<in> set xs"
  shows "find (\<lambda>y. key y = key x) xs = Some x"
  using assms by (induction xs) (auto simp: rev_image_eqI)

lemma embed_one_find: "embed_one (embed_find P xs f) = map_option f (find P xs)"
  by (simp add: embed_find_def split: option.split)

lemma in_map_filter: "y \<in> set (List.map_filter g xs) \<longleftrightarrow> (\<exists>x\<in>set xs. g x = Some y)"
  by (auto simp: map_filter_def image_iff)

text \<open>What the dependencies say.\<close>

definition waits :: "string \<Rightarrow> db \<Rightarrow> bool" where
  "waits i d \<longleftrightarrow> (\<exists>p\<in>set (db_dependencies d). \<exists>b\<in>set (db_tasks d).
     dp_blocked_task_id p = i \<and> dp_type p = ''blocks'' \<and> t_id b = dp_blocking_task_id p \<and> is_open b)"

lemma blockers_waits:
  assumes "distinct (map t_id (db_tasks d))"
  shows "active_blockers (blocking_rows (\<lambda>k. k = ''blocks'') i d) \<noteq> [] \<longleftrightarrow> waits i d"
proof -
  have found: "find (\<lambda>t. t_id t = j) (db_tasks d) = Some b \<longleftrightarrow> b \<in> set (db_tasks d) \<and> t_id b = j" for j b
    using find_by_key [of t_id "db_tasks d" b] assms by (auto simp: find_Some_iff)
  have "b \<in> set (active_blockers (blocking_rows (\<lambda>k. k = ''blocks'') i d)) \<longleftrightarrow>
      is_open b \<and> b \<in> set (db_tasks d) \<and>
      (\<exists>p\<in>set (db_dependencies d). dp_blocked_task_id p = i \<and> dp_type p = ''blocks'' \<and> t_id b = dp_blocking_task_id p)" for b
    by (auto simp: active_blockers_def blocking_rows_def in_map_filter embed_one_find found)
  then show ?thesis unfolding waits_def by (metis (no_types, lifting) ex_in_conv set_empty)
qed

lemma updated_rows:
  "t \<in> set (db_tasks (snd (q_update db_tasks db_tasks_update P f d))) \<Longrightarrow> (\<And>u. P u \<Longrightarrow> Q (f u)) \<Longrightarrow> (\<And>u. \<not> P u \<Longrightarrow> Q u) \<Longrightarrow> Q t"
  by (fastforce split: if_splits)

lemma flagged: "t \<in> set (db_tasks (snd (q_flag_blocked i now d))) \<Longrightarrow> t_id t = i \<longrightarrow> tb_blocked_at (t_blocker t) \<noteq> None"
  unfolding q_flag_blocked_def by (erule updated_rows) simp_all

lemma cleared: "t \<in> set (db_tasks (snd (q_clear_blocked i d))) \<Longrightarrow> t_id t = i \<longrightarrow> t_blocker t = not_blocked"
  unfolding q_clear_blocked_def by (erule updated_rows) simp_all

lemma refresh_runs: "final (refreshTaskBlockedState i) [] d =
    (if active_blockers (blocking_rows (\<lambda>k. k = ''blocks'') i d) \<noteq> [] then snd (q_flag_blocked i (db_now d) d) else snd (q_clear_blocked i d))"
  by (simp add: refreshTaskBlockedState_def q_blocking_def final_def run_def call_def clock_def State_Monad.bind_def
    State_Monad.return_def q_flag_blocked_def q_clear_blocked_def q_update_def)


definition sample_waiting_task :: task_row where
  "sample_waiting_task = db_tasks (final (refreshTaskBlockedState ''v'') [] sample_waiting) ! 1"


section \<open>Dependencies do not touch the flag\<close>

definition same_tasks :: "db \<Rightarrow> db \<Rightarrow> bool" where
  "same_tasks d d' \<longleftrightarrow> db_tasks d' = db_tasks d"

interpretation untouched: side_tables same_tasks db_tasks
  by unfold_locales (simp_all add: same_tasks_def)

lemma untouched_verify: "keeps same_tasks (verifyTaskInProject t p)"
  unfolding verifyTaskInProject_def by (intro untouched.keeps_rules untouched.keeps_side)

lemma untouched_add: "keeps same_tasks (dependencies_post tt req p t)"
proof -
  have insert: "keeps same_tasks (call (shaped sh (q_insert_dependency a b k)))" for sh :: "dependency_row list \<Rightarrow> 'z db_result" and a b k
    by (rule untouched.keeps_aside) (simp add: q_insert_dependency_def with_fresh_def q_insert_def)
  have "keeps same_tasks (dependency_inserted req t a b k)" for a b k
    unfolding dependency_inserted_def Let_def by (intro untouched.keeps_rules untouched.keeps_side insert)
  then have "keeps same_tasks (dependencies_post_parsed tt req p t j)" for j
    unfolding dependencies_post_parsed_def Let_def
    by (auto intro!: untouched.keeps_rules untouched_verify split: prod.split)
  then show ?thesis
    unfolding dependencies_post_def
    by (intro untouched.keeps_write_project) (auto intro: untouched.keeps_return split: request_body.split)
qed

lemma untouched_remove: "keeps same_tasks (dependencies_delete tt req p t)"
proof -
  have "keeps same_tasks (dependency_removed req p t i g)" for i g
    unfolding dependency_removed_def
    by (intro untouched.keeps_rules untouched.keeps_side untouched_verify untouched.keeps_aside) simp_all
  then show ?thesis
    unfolding dependencies_delete_def
    by (intro untouched.keeps_write_project) (auto intro!: untouched.keeps_rules split: request_body.split)
qed

text \<open>Neither adding nor removing a dependency changes any task; so a task that begins to wait, or no
  longer has anything to wait for, keeps the flag it has.\<close>

theorem dependencies_leave_flags:
  assumes "rely same_tasks env"
  shows "db_tasks (final (dependencies_post tt req p t) env d) = db_tasks d \<and>
    db_tasks (final (dependencies_delete tt req p t) env d) = db_tasks d"
  using keeps_run [OF untouched_add assms, of d tt req p t] keeps_run [OF untouched_remove assms, of d tt req p t]
  by (simp_all add: same_tasks_def)

theorem dependencies_leave_flags_witness:
  "waits ''v'' sample_waiting \<and> map (\<lambda>t. tb_blocked_at (t_blocker t)) (db_tasks sample_waiting) = [None, None]"
proof
  show "waits ''v'' sample_waiting" unfolding waits_def by code_simp
  have "db_tasks (final (dependencies_post (dv_text sample_driver)
      (sample_request ''a'' (Parsed (JObj [(''blocking_task_id'', JStr ''u'')]))) ''p'' ''v'') [] sample_board) = db_tasks sample_board"
    using dependencies_leave_flags [OF rely_Nil] by blast
  then have "db_tasks sample_waiting = db_tasks sample_board" by code_simp
  then show "map (\<lambda>t. tb_blocked_at (t_blocker t)) (db_tasks sample_waiting) = [None, None]" by simp code_simp
qed

section \<open>Who is asked for help\<close>

lemma all_admitted:
  assumes "trust_refusal k caller as' = None" "a \<in> set as'"
  shows "\<exists>g. gate_of k (policy_agent_of caller) (policy_agent_of a) = Inr g \<and> gr_allowed g"
  using assms by (induction as') (auto split: sum.splits if_splits)

interpretation anything: rely_guarantee "\<lambda>_ _. True"
  by unfold_locales simp_all

definition admitted :: "task_contract_kind \<Rightarrow> request \<Rightarrow> string list \<Rightarrow> agent_row \<Rightarrow> bool" where
  "admitted k req names a \<longleftrightarrow> ag_name a \<in> set names \<and> ag_name a \<noteq> ag_name (rq_agent req) \<and>
     allows (gate_of k (policy_agent_of (rq_agent req)) (policy_agent_of a))"

lemma named_agents:
  "valid (\<lambda>_ _. True) (\<lambda>_. True) (agents_named k req names)
     (\<lambda>r _. \<forall>found. r = Inr found \<longrightarrow> (\<forall>a\<in>set found. ag_name a \<in> set names \<and> ag_name a \<noteq> ag_name (rq_agent req)))"
proof -
  have read: "valid (\<lambda>_ _. True) (\<lambda>_. True) (call (q_select db_agents (\<lambda>a. ag_name a \<in> set names)))
      (\<lambda>r _. \<forall>found. r = Inr found \<longrightarrow> (\<forall>a\<in>set found. ag_name a \<in> set names))"
    by (rule anything.valid_call) simp_all
  show ?thesis
  proof (cases "ag_name (rq_agent req) \<in> set names")
    case True
    then show ?thesis unfolding agents_named_def by (simp add: anything.valid_return)
  next
    case False
    then show ?thesis
      unfolding agents_named_def Let_def if_not_P [OF False]
      by (intro anything.valid_bind [OF read] anything.valid_return) (use False in \<open>auto split: sum.splits if_splits; metis\<close>)
  qed
qed

lemma checked_agents:
  "valid (\<lambda>_ _. True) (\<lambda>_. True) (check_agents k req j)
     (\<lambda>r _. \<forall>names found. r = Inr (names, found) \<longrightarrow> (\<forall>a\<in>set found. admitted k req names a))"
proof -
  let ?Q = "\<lambda>r _. \<forall>names found. r = Inr (names, found) \<longrightarrow>
    (\<forall>a\<in>set found. ag_name a \<in> set names \<and> ag_name a \<noteq> ag_name (rq_agent req))"
  have names: "valid (\<lambda>_ _. True) (\<lambda>_. True) (check_names k req j) ?Q"
    unfolding check_names_def
    by (auto intro!: anything.valid_return anything.valid_bind [OF named_agents] split: option.split sum.splits simp: map_sum_def)
  show ?thesis
    unfolding check_agents_def
    by (rule anything.valid_bind [OF names], rule anything.valid_return)
      (auto simp: admitted_def allows_def dest!: all_admitted split: sum.splits option.splits)
qed


definition sample_escalation :: json where
  "sample_escalation = JObj [(''escalation_contract'', JObj [(''brokers'', JArr [JStr ''b-name''])])]"


section \<open>Refused and done\<close>

definition sample_change :: request where
  "sample_change = sample_request ''a'' (Parsed (JObj [(''title'', JStr ''Changed''),
     (''handoff_contract'', JObj [(''invitees'', JArr [JStr ''b-name''])])]))"

text \<open>A PATCH that changes a task and asks for a handoff to an agent the trust gate refuses is answered with
  403, but the change is made.\<close>

theorem refused_patch_changes_task:
  "(case result (task_patch sample_driver sample_change ''p'' ''u'') [] sample_board of
      Refusal r \<Rightarrow> rf_status r = 403 \<and> ae_code (rf_body r) = ''TRUST_TIER_BLOCKED''
    | _ \<Rightarrow> False) \<and>
   map t_title (db_tasks sample_board) = [Some ''Task'', Some ''Task''] \<and>
   map t_title (db_tasks (final (task_patch sample_driver sample_change ''p'' ''u'') [] sample_board)) = [Some ''Changed'', Some ''Task'']"
  by code_simp

end
