(* ===== verification/AttachmentOutcomes.thy ===== *)
theory AttachmentOutcomes
  imports TaskSafety CalmRuns CanonicalJson
begin

text \<open>
  Who gets at a file: what a signed link opens and for how long, and the ways around the policy that guards the
  attachments. Also what the deletion of a task takes with it.
\<close>

section \<open>Runs that only read, with nothing beside them\<close>

definition alone :: "db \<Rightarrow> sys" where
  "alone d = \<lparr>sys_db = d, sys_env = [], sys_out = []\<rparr>"

definition gives :: "'a prog \<Rightarrow> (db \<Rightarrow> 'a \<Rightarrow> bool) \<Rightarrow> bool" where
  "gives m Q \<longleftrightarrow> (\<forall>d. \<exists>x. run_state m (alone d) = (x, alone d) \<and> Q d x)"

lemma alone_simps [simp]: "sys_db (alone d) = d" "sys_env (alone d) = []"
  by (simp_all add: alone_def)

lemma run_alone: "run_state m (alone d) = (x, alone d) \<Longrightarrow> result m [] d = x"
  by (simp add: result_def run_def alone_def)

lemma gives_result: "gives m Q \<Longrightarrow> Q d (result m [] d)"
  using run_alone by (fastforce simp: gives_def)

lemma gives_return: "(\<And>d. Q d x) \<Longrightarrow> gives (State_Monad.return x) Q"
  by (simp add: gives_def State_Monad.return_def)

lemma gives_clock: "(\<And>d. Q d (db_now d)) \<Longrightarrow> gives clock Q"
  by (simp add: gives_def clock_def)

lemma gives_call:
  assumes "\<And>d. snd (q d) = d" and "\<And>d. Q d (fst (q d))"
  shows "gives (call q) Q"
  unfolding gives_def
proof
  fix d :: db
  obtain r where r: "q d = (r, d)" using assms(1) [of d] by (cases "q d") simp
  then have "run_state (call q) (alone d) = (r, alone d)" by (simp add: call_def alone_def)
  moreover have "Q d r" using assms(2) [of d] r by simp
  ultimately show "\<exists>x. run_state (call q) (alone d) = (x, alone d) \<and> Q d x" by blast
qed

lemma gives_bind:
  assumes "gives m P" and "\<And>x. gives (k x) (\<lambda>d y. P d x \<longrightarrow> Q d y)"
  shows "gives (State_Monad.bind m k) Q"
  unfolding gives_def
proof
  fix d :: db
  from assms(1) obtain x where x: "run_state m (alone d) = (x, alone d)" "P d x" unfolding gives_def by blast
  with assms(2) [of x] obtain y where "run_state (k x) (alone d) = (y, alone d)" "Q d y" unfolding gives_def by blast
  with x show "\<exists>y. run_state (State_Monad.bind m k) (alone d) = (y, alone d) \<and> Q d y" by (auto simp: State_Monad.bind_def)
qed

lemma gives_weaken: "gives m P \<Longrightarrow> (\<And>d x. P d x \<Longrightarrow> Q d x) \<Longrightarrow> gives m Q"
  by (fastforce simp: gives_def)

lemma gives_if: "(b \<Longrightarrow> gives m Q) \<Longrightarrow> (\<not> b \<Longrightarrow> gives n Q) \<Longrightarrow> gives (if b then m else n) Q"
  by simp

lemma gives_option:
  "(x = None \<Longrightarrow> gives m Q) \<Longrightarrow> (\<And>y. x = Some y \<Longrightarrow> gives (f y) Q) \<Longrightarrow> gives (case x of None \<Rightarrow> m | Some y \<Rightarrow> f y) Q"
  by (cases x) simp_all

lemma gives_sum:
  "(\<And>e. x = Inl e \<Longrightarrow> gives (f e) Q) \<Longrightarrow> (\<And>y. x = Inr y \<Longrightarrow> gives (g y) Q) \<Longrightarrow>
   gives (case x of Inl e \<Rightarrow> f e | Inr y \<Rightarrow> g y) Q"
  by (cases x) simp_all

text \<open>A read whose answer does not matter.\<close>

definition quiet :: "'a prog \<Rightarrow> bool" where
  "quiet m \<longleftrightarrow> gives m (\<lambda>_ _. True)"

lemma quiet_rules:
  "quiet (State_Monad.return x)" "quiet clock" "(\<And>d. snd (q d) = d) \<Longrightarrow> quiet (call q)"
  "quiet m \<Longrightarrow> (\<And>x. quiet (k x)) \<Longrightarrow> quiet (State_Monad.bind m k)"
  "quiet m \<Longrightarrow> quiet n \<Longrightarrow> quiet (if b then m else n)"
  "quiet m \<Longrightarrow> (\<And>y. quiet (f y)) \<Longrightarrow> quiet (case z of None \<Rightarrow> m | Some y \<Rightarrow> f y)"
  "(\<And>e. quiet (h e)) \<Longrightarrow> (\<And>y. quiet (g y)) \<Longrightarrow> quiet (case w of Inl e \<Rightarrow> h e | Inr y \<Rightarrow> g y)"
  unfolding quiet_def
  by (auto intro: gives_return gives_clock gives_call gives_bind split: option.split sum.split)

lemma quiet_result: "quiet m \<Longrightarrow> gives m (\<lambda>d x. x = result m [] d)"
  using run_alone by (fastforce simp: quiet_def gives_def)

lemma quiet_then:
  assumes "quiet m"
  shows "result (State_Monad.bind m k) [] d = result (k (result m [] d)) [] d"
proof -
  obtain x where "run_state m (alone d) = (x, alone d)" using assms unfolding quiet_def gives_def by blast
  then show ?thesis by (simp add: result_def run_def State_Monad.bind_def alone_def)
qed

lemma result_return: "result (State_Monad.return x) env d = x"
  by (simp add: result_def run_def State_Monad.return_def)

lemma result_call: "(\<And>d. snd (q d) = d) \<Longrightarrow> result (call q) [] d = fst (q d)"
  by (rule gives_result [OF gives_call [where Q = "\<lambda>d x. x = fst (q d)"]]) simp_all

lemma unfailing_bind: "quiet m \<Longrightarrow> (\<And>x. gives (k x) Q) \<Longrightarrow> gives (State_Monad.bind m k) Q"
  unfolding quiet_def by (erule gives_bind) (auto intro: gives_weaken)

section \<open>Numbers and names in a link\<close>

lemma digit_in_char: "n < 10 \<Longrightarrow> digit_in (digit_char n) = Some n"
  by (auto simp: digit_char_def digit_in_def nth_Cons numeral_eq_Suc less_Suc_eq)

lemma digits_show_nat: "ExpiryWindow.digits_value 10 (show_nat n) = n"
proof (induction n rule: show_nat.induct)
  case (1 n)
  then show ?case
    by (subst show_nat.simps) (simp add: ExpiryWindow.digits_value_def digit_in_char)
qed

lemma show_nat_chars: "c \<in> set (show_nat n) \<Longrightarrow> is_dec c \<and> \<not> is_ws c \<and> c \<noteq> CHR ''x'' \<and> c \<noteq> CHR ''X'' \<and> c \<noteq> CHR ''o'' \<and>
   c \<noteq> CHR ''O'' \<and> c \<noteq> CHR ''b'' \<and> c \<noteq> CHR ''B'' \<and> c \<noteq> CHR ''-'' \<and> c \<noteq> CHR ''+'' \<and> c \<noteq> CHR ''I'' \<and> c \<noteq> newline"
  using show_nat_digits [of n] by (auto simp: is_dec_def is_ws_def newline_def)

lemma number_of_nat: "Number (show_nat n) = Fin (of_nat n)"
proof -
  let ?s = "show_nat n"
  have chars: "is_dec c \<and> \<not> is_ws c \<and> c \<notin> set ''xXoObB-+I''" if "c \<in> set ?s" for c
    using show_nat_chars [OF that] by simp
  have "dropWhile is_ws xs = xs" if "set xs = set ?s" for xs
    using chars that by (cases xs) auto
  then have "dropWhile is_ws ?s = ?s" "dropWhile is_ws (rev ?s) = rev ?s" by simp_all
  then have trim: "js_trim ?s = ?s" by (simp add: js_trim_def)
  have ne: "?s \<noteq> []" using show_nat_digits by blast
  then obtain c r where s: "?s = c # r" by (cases ?s) auto
  have "c \<noteq> CHR ''I''" using chars [of c] s by simp
  then have "?s \<noteq> ''Infinity''" using s by simp
  moreover have all: "takeWhile is_dec ?s = ?s" "dropWhile is_dec ?s = []"
    using chars by (simp_all add: takeWhile_eq_all_conv dropWhile_eq_Nil_conv)
  ultimately have decimal: "unsigned_decimal ?s = Fin (of_nat n)"
    unfolding unsigned_decimal_def Let_def all using ne by (simp add: exponent_part_def scale10_def digits_show_nat)
  have "c \<noteq> CHR ''-''" "c \<noteq> CHR ''+''" using chars [of c] s by simp_all
  moreover have "x \<notin> set ''xXoObB''" if "r = x # q" for x q using chars [of x] s that by simp
  ultimately have "Number ?s = unsigned_decimal ?s"
    unfolding Number_def trim Let_def using ne s by (cases r) (auto split: char.split bool.split)
  with decimal show ?thesis by simp
qed

lemma safe_number: "0 \<le> e \<Longrightarrow> e \<le> 9007199254740991 \<Longrightarrow> safe_integer (Number (show_int e)) = Some e"
  by (simp add: show_int_def number_of_nat safe_integer_def)

lemma show_int_one_line: "newline \<notin> set (show_int e)"
  using show_nat_chars [of newline] by (auto simp: show_int_def newline_def)

lemma show_int_inj: "show_int e = show_int e' \<Longrightarrow> e = e'"
proof -
  assume eq: "show_int e = show_int e'"
  have head: "show_nat n \<noteq> CHR ''-'' # r" for n r using show_nat_chars [of "CHR ''-''" n] by auto
  have inj: "nat e = nat e'" if "show_nat (nat e) = show_nat (nat e')" for e e' using that by (metis digits_show_nat)
  from eq head head [symmetric] show "e = e'"
    by (auto simp: show_int_def dest!: inj split: if_splits)
qed

text \<open>A text with \<open>k\<close> line ends splits in one way only.\<close>

definition line_ends :: "string \<Rightarrow> nat" where
  "line_ends s = length (filter (\<lambda>c. c = newline) s)"

lemma line_ends_append [simp]: "line_ends (a @ b) = line_ends a + line_ends b" "line_ends nl = 1" "line_ends [] = 0"
  by (simp_all add: line_ends_def nl_def)

lemma no_line_ends: "newline \<notin> set s \<longleftrightarrow> line_ends s = 0"
  by (induction s) (auto simp: line_ends_def)

lemma first_line:
  assumes "newline \<notin> set a" "newline \<notin> set a'" "a @ nl @ r = a' @ nl @ r'"
  shows "a = a' \<and> r = r'"
proof -
  have "takeWhile (\<lambda>c. c \<noteq> newline) (b @ nl @ q) = b" if "newline \<notin> set b" for b q
    using that by (induction b) (auto simp: nl_def)
  then have "a = a'" using assms by metis
  then show ?thesis using assms(3) by simp
qed

lemma signed_value_inj:
  assumes "newline \<notin> set (p @ n @ m)" "signed_value p e n m = signed_value p' e' n' m'"
  shows "p = p' \<and> e = e' \<and> n = n' \<and> m = m'"
proof -
  have "line_ends (signed_value p e n m) = 3"
    using assms(1) show_int_one_line [of e] by (simp add: signed_value_def no_line_ends)
  with assms(2) have "line_ends p' + line_ends n' + line_ends m' = 0"
    using show_int_one_line [of e'] by (simp add: signed_value_def no_line_ends)
  then have no: "newline \<notin> set p'" "newline \<notin> set n'" "newline \<notin> set m'" by (simp_all add: no_line_ends)
  from assms(1) have no': "newline \<notin> set p" "newline \<notin> set n" "newline \<notin> set m" by simp_all
  have 1: "p = p' \<and> show_int e @ nl @ n @ nl @ m = show_int e' @ nl @ n' @ nl @ m'"
    using assms(2) unfolding signed_value_def by (rule first_line [OF no'(1) no(1)])
  have 2: "show_int e = show_int e' \<and> n @ nl @ m = n' @ nl @ m'"
    by (rule first_line [OF show_int_one_line show_int_one_line 1 [THEN conjunct2]])
  have "n = n' \<and> m = m'" by (rule first_line [OF no'(2) no(2) 2 [THEN conjunct2]])
  with 1 2 show ?thesis using show_int_inj by blast
qed

section \<open>What a link opens\<close>

lemma read_alone: "result (readAttachmentBinary dir path) [] d =
    (case absolutePath dir path of Inl e \<Rightarrow> Inl e
     | Inr target \<Rightarrow> (case db_files d target of None \<Rightarrow> Inl (de_message (no_such_file target)) | Some bytes \<Rightarrow> Inr bytes))"
proof (cases "absolutePath dir path")
  case (Inr target)
  have "gives (readAttachmentBinary dir path) (\<lambda>d x. x =
      (case db_files d target of None \<Rightarrow> Inl (de_message (no_such_file target)) | Some bytes \<Rightarrow> Inr bytes))"
    unfolding readAttachmentBinary_def Inr sum.case
    by (rule gives_bind [where P = "\<lambda>d r. r = fst (q_read_file target d)"])
      (auto intro!: gives_return gives_call simp: q_read_file_def split: option.split)
  from gives_result [OF this] Inr show ?thesis by simp
next
  case (Inl e)
  then show ?thesis by (simp add: readAttachmentBinary_def result_def run_def State_Monad.return_def)
qed

lemma files_alone: "result (files_get hmac bytes setting dir q) [] d =
    (case link_verified hmac bytes setting (db_now d) q of
       Inl _ \<Rightarrow> FileRefused 503 ''Attachment links are unavailable: this server is missing HOLLOWAY_ATTACHMENT_SIGNING_KEY.''
     | Inr verified \<Rightarrow> if \<not> verified then FileRefused 403 ''Invalid or expired attachment link.''
         else served q (result (readAttachmentBinary dir (param q ''path'' [])) [] d))"
proof -
  have "quiet (readAttachmentBinary dir p)" for p
    unfolding readAttachmentBinary_def by (intro quiet_rules) (simp add: q_read_file_def split: option.split)
  note read = quiet_result [OF this]
  have "gives (files_get hmac bytes setting dir q) (\<lambda>d x. x = (case link_verified hmac bytes setting (db_now d) q of
       Inl _ \<Rightarrow> FileRefused 503 ''Attachment links are unavailable: this server is missing HOLLOWAY_ATTACHMENT_SIGNING_KEY.''
     | Inr verified \<Rightarrow> if \<not> verified then FileRefused 403 ''Invalid or expired attachment link.''
         else served q (result (readAttachmentBinary dir (param q ''path'' [])) [] d)))"
    unfolding files_get_def
    by (rule gives_bind [OF gives_clock [where Q = "\<lambda>d x. x = db_now d"]], rule refl)
      (auto intro!: gives_return gives_sum gives_if gives_bind [OF read])
  then show ?thesis by (rule gives_result)
qed

lemma opened_file:
  assumes "result (files_get hmac bytes setting dir q) [] d = FileServed f"
  shows "link_verified hmac bytes setting (db_now d) q = Inr True"
    and "\<exists>target. absolutePath dir (param q ''path'' []) = Inr target \<and> db_files d target = Some (sf_bytes f)"
proof -
  obtain v where v: "link_verified hmac bytes setting (db_now d) q = Inr v" and "v"
    and f: "served q (result (readAttachmentBinary dir (param q ''path'' [])) [] d) = FileServed f"
    using assms unfolding files_alone by (auto split: sum.splits if_splits)
  then show "link_verified hmac bytes setting (db_now d) q = Inr True" by simp
  show "\<exists>target. absolutePath dir (param q ''path'' []) = Inr target \<and> db_files d target = Some (sf_bytes f)"
    using f unfolding read_alone served_def by (auto split: sum.splits option.splits)
qed

text \<open>A verified link names a time that has not passed and carries the signature of what it asks for.\<close>

lemma verified_link:
  assumes "link_verified hmac bytes (Some key) now q = Inr True"
  shows "\<exists>e. now div 1000 \<le> e \<and> bytes (param q ''signature'' []) = bytes (hmac key
    (signed_value (param q ''path'' []) e (param q ''download'' []) (param q ''mime'' ''application/octet-stream'')))"
proof -
  let ?v = "\<lambda>e. signed_value (param q ''path'' []) e (param q ''download'' []) (param q ''mime'' ''application/octet-stream'')"
  obtain x where "verifyAttachmentToken hmac bytes (Some key) now (param q ''path'' []) x (param q ''download'' [])
      (param q ''mime'' ''application/octet-stream'') (param q ''signature'' []) = Inr True"
    using assms by (auto simp: link_verified_def Let_def split: if_splits)
  then obtain e where "\<not> e < now div 1000" "bytes (param q ''signature'' []) = bytes (hmac key (?v e))"
    by (auto simp: verifyAttachmentToken_def signingKey_def split: option.splits if_splits)
  then show ?thesis by (intro exI [of _ e]) simp
qed

lemma minted:
  "result (createSignedAttachmentUrl hmac setting path n DownloadUrl name mimeType) [] d =
    (case signingKey setting of Inl e \<Rightarrow> Inl e | Inr key \<Rightarrow> Inr (signed_query hmac key path (db_now d div 1000 + n) name mimeType))"
  by (simp add: createSignedAttachmentUrl_def result_def run_def clock_def State_Monad.bind_def State_Monad.return_def Let_def
    split: sum.split)

lemma str_or_self [simp]: "str_or (Some x) [] = x"
  by (simp add: str_or_def)

lemma signed_params:
  fixes hmac :: "string \<Rightarrow> string \<Rightarrow> string"
  assumes "path \<noteq> []" "mimeType \<noteq> []" "q = signed_query hmac key path e name mimeType"
  shows "param q ''path'' [] = path" "param q ''download'' [] = name"
    "param q ''mime'' ''application/octet-stream'' = mimeType" "map_of q ''expires'' = Some (show_int e)"
    "param q ''signature'' [] = hmac key (signed_value path e name mimeType)"
  using assms by (simp_all add: signed_query_def param_def str_or_def)

lemma allowed_headers: "mimeType \<in> set ALLOWED_MIME_TYPES \<Longrightarrow> header_value mimeType = Some mimeType \<and> mimeType \<noteq> []"
proof -
  have "list_all (\<lambda>m. header_value m = Some m \<and> m \<noteq> []) ALLOWED_MIME_TYPES" by code_simp
  then show "mimeType \<in> set ALLOWED_MIME_TYPES \<Longrightarrow> header_value mimeType = Some mimeType \<and> mimeType \<noteq> []"
    by (simp add: list_all_iff)
qed

lemma link_opens:
  assumes "q = signed_query hmac key path e name mimeType" "key \<noteq> []" "path \<noteq> []" "mimeType \<in> set ALLOWED_MIME_TYPES"
    and "0 \<le> e" "e \<le> 9007199254740991" "absolutePath dir path = Inr target" "db_files d target = Some content"
  shows "result (files_get hmac bytes (Some key) dir q) [] d =
    (if db_now d div 1000 \<le> e
     then FileServed \<lparr>sf_bytes = content, sf_type = mimeType, sf_filename = (if name = [] then None else Some name)\<rparr>
     else FileRefused 403 ''Invalid or expired attachment link.'')"
proof -
  have type: "header_value mimeType = Some mimeType" "mimeType \<noteq> []" using allowed_headers [OF assms(4)] by simp_all
  note params = signed_params [OF assms(3) type(2) assms(1)]
  have "safe_integer (Number (show_int e)) = Some e" using assms(5,6) by (rule safe_number)
  then have "link_verified hmac bytes (Some key) (db_now d) q = Inr (\<not> e < db_now d div 1000)"
    using assms(2,3) by (simp add: link_verified_def params verifyAttachmentToken_def signingKey_def truthy_str_def)
  moreover have "result (readAttachmentBinary dir path) [] d = Inr content" using assms(7,8) by (simp add: read_alone)
  ultimately show ?thesis
    unfolding files_alone by (auto simp: params served_def type)
qed

text \<open>Property C36: a link to download a file opens that file, with its type and under its name, until the hour is over,
  and is refused from then on.\<close>

theorem signed_link_opens_for_an_hour:
  assumes "result (createSignedAttachmentUrl hmac (Some key) path 3600 DownloadUrl name mimeType) [] d = Inr q"
    and "path \<noteq> []" "mimeType \<in> set ALLOWED_MIME_TYPES" "0 \<le> db_now d" "db_now d \<le> 8640000000000000"
    and "absolutePath dir path = Inr target" "db_files d' target = Some content"
  shows "result (files_get hmac bytes (Some key) dir q) [] d' =
    (if db_now d' div 1000 \<le> db_now d div 1000 + 3600
     then FileServed \<lparr>sf_bytes = content, sf_type = mimeType, sf_filename = (if name = [] then None else Some name)\<rparr>
     else FileRefused 403 ''Invalid or expired attachment link.'')"
proof (rule link_opens [OF _ _ assms(2,3) _ _ assms(6,7)])
  show "q = signed_query hmac key path (db_now d div 1000 + 3600) name mimeType" "key \<noteq> []"
    using assms(1) by (auto simp: minted signingKey_def truthy_str_def split: if_splits)
  show "0 \<le> db_now d div 1000 + 3600" "db_now d div 1000 + 3600 \<le> 9007199254740991" using assms(4,5) by linarith+
qed

definition sample_disk :: db where
  "sample_disk = sample_board\<lparr>db_files := [''/data/attachments/p/f.txt'' \<mapsto> ''text'']\<rparr>"

theorem signed_link_opens_for_an_hour_witness:
  "result (files_get (\<lambda>k t. k @ t) id (Some ''key'') ''/data/attachments''
     (signed_query (\<lambda>k t. k @ t) ''key'' ''p/f.txt'' 3601 ''f.txt'' ''text/plain'')) [] sample_disk =
   FileServed \<lparr>sf_bytes = ''text'', sf_type = ''text/plain'', sf_filename = Some ''f.txt''\<rparr>"
proof -
  have now: "db_now sample_disk = 1000" by code_simp
  have "result (createSignedAttachmentUrl (\<lambda>k t. k @ t) (Some ''key'') ''p/f.txt'' 3600 DownloadUrl ''f.txt'' ''text/plain'') [] sample_disk =
      Inr (signed_query (\<lambda>k t. k @ t) ''key'' ''p/f.txt'' 3601 ''f.txt'' ''text/plain'')"
    by (simp add: minted signingKey_def truthy_str_def now)
  moreover have "''text/plain'' \<in> set ALLOWED_MIME_TYPES" by (simp add: ALLOWED_MIME_TYPES_def)
  moreover have "absolutePath ''/data/attachments'' ''p/f.txt'' = Inr ''/data/attachments/p/f.txt''" by code_simp
  moreover have "db_files sample_disk ''/data/attachments/p/f.txt'' = Some ''text''" by (simp add: sample_disk_def)
  ultimately show ?thesis
    using signed_link_opens_for_an_hour [where d = sample_disk and d' = sample_disk and bytes = id] now by simp
qed

text \<open>Property C35: whoever alters a link whose path, name and type have no line end, and gets a file for its signature, has
  either changed nothing that matters, it is the file of the link and its time has not passed, or has found another text
  with the same HMAC.\<close>

theorem altered_link_needs_collision:
  assumes "newline \<notin> set (path @ name @ mimeType)"
    and "bytes (param q ''signature'' []) = bytes (hmac key (signed_value path e name mimeType))"
    and "result (files_get hmac bytes (Some key) dir q) [] d = FileServed f"
  shows "db_now d div 1000 \<le> e \<and> (\<exists>target. absolutePath dir path = Inr target \<and> db_files d target = Some (sf_bytes f)) \<or>
    (\<exists>t. t \<noteq> signed_value path e name mimeType \<and> bytes (hmac key t) = bytes (hmac key (signed_value path e name mimeType)))"
proof -
  let ?v = "\<lambda>e'. signed_value (param q ''path'' []) e' (param q ''download'' []) (param q ''mime'' ''application/octet-stream'')"
  obtain e' where e': "db_now d div 1000 \<le> e'" "bytes (param q ''signature'' []) = bytes (hmac key (?v e'))"
    using verified_link [OF opened_file(1) [OF assms(3)]] by blast
  show ?thesis
  proof (cases "?v e' = signed_value path e name mimeType")
    case True
    then have "path = param q ''path'' []" "e = e'" using signed_value_inj [OF assms(1)] by metis+
    with e' opened_file(2) [OF assms(3)] show ?thesis by simp
  next
    case False
    with e'(2) assms(2) show ?thesis by metis
  qed
qed

theorem altered_link_needs_collision_witness:
  "\<exists>target. absolutePath ''/data/attachments'' ''p/f.txt'' = Inr target \<and> db_files sample_disk target = Some ''text''"
proof -
  let ?q = "signed_query (\<lambda>k t. k @ t) ''key'' ''p/f.txt'' 3601 ''f.txt'' ''text/plain''"
  have "newline \<notin> set (''p/f.txt'' @ ''f.txt'' @ ''text/plain'')" by (simp add: newline_def)
  moreover have "id (param ?q ''signature'' []) = id (''key'' @ signed_value ''p/f.txt'' 3601 ''f.txt'' ''text/plain'')"
    by (simp add: signed_params [OF _ _ HOL.refl])
  moreover have "result (files_get (\<lambda>k t. k @ t) id (Some ''key'') ''/data/attachments'' ?q) [] sample_disk =
      FileServed \<lparr>sf_bytes = ''text'', sf_type = ''text/plain'', sf_filename = Some ''f.txt''\<rparr>"
  proof -
    have "absolutePath ''/data/attachments'' ''p/f.txt'' = Inr ''/data/attachments/p/f.txt''" "db_now sample_disk = 1000" by code_simp+
    then show ?thesis
      by (subst link_opens [OF HOL.refl, where target = "''/data/attachments/p/f.txt''" and content = "''text''"])
        (simp_all add: sample_disk_def ALLOWED_MIME_TYPES_def)
  qed
  ultimately have "(\<exists>target. absolutePath ''/data/attachments'' ''p/f.txt'' = Inr target \<and> db_files sample_disk target = Some ''text'') \<or>
      (\<exists>t. t \<noteq> signed_value ''p/f.txt'' 3601 ''f.txt'' ''text/plain'' \<and> id (''key'' @ t) = id (''key'' @ signed_value ''p/f.txt'' 3601 ''f.txt'' ''text/plain''))"
    using altered_link_needs_collision [where q = ?q and hmac = "\<lambda>k t. k @ t" and key = "''key''" and bytes = id] by fastforce
  then show ?thesis by (simp only: id_apply same_append_eq) blast
qed

section \<open>A line end in a name\<close>

definition own_path :: string where
  "own_path = ''p/tasks/u/x-notes.txt''"

definition other_path :: string where
  "other_path = ''q/tasks/w/y-secret.txt''"

definition split_name :: string where
  "split_name = ''/../../../../'' @ other_path @ nl @ ''99999999999'' @ nl @ ''secret.txt''"

text \<open>The link of one's own file, cut into its parts at other line ends.\<close>

definition cut_elsewhere :: "query \<Rightarrow> query" where
  "cut_elsewhere q =
     [(''path'', own_path @ nl @ param q ''expires'' [] @ nl @ ''/../../../../'' @ other_path), (''expires'', ''99999999999''),
      (''mime'', ''text/plain''), (''signature'', param q ''signature'' []), (''download'', ''secret.txt'')]"

lemma show_far: "show_nat 99999999999 = ''99999999999''" "show_nat 3600 = ''3600''"
  by (simp_all add: show_nat.simps digit_char_def)


section \<open>Ways around the policy\<close>

definition signed_by :: "storage \<Rightarrow> string \<Rightarrow> timestamp \<Rightarrow> attachment_row \<Rightarrow> signed_attachment" where
  "signed_by so key now a =
     \<lparr>sg_row = a, sg_urls =
        \<lparr>preview_url = signed_query (so_hmac so) key (at_storage_path a) (now div 1000 + 3600) [] (at_mime_type a),
         download_url = signed_query (so_hmac so) key (at_storage_path a) (now div 1000 + 3600) (at_original_name a) (at_mime_type a)\<rparr>\<rparr>"

definition all_signed :: "storage \<Rightarrow> timestamp \<Rightarrow> attachment_row list \<Rightarrow> string + signed_attachment list" where
  "all_signed so now as' = (if as' = [] then Inr [] else map_sum id (\<lambda>key. map (signed_by so key now) as') (signingKey (so_key so)))"

lemma gives_urls: "gives (createSignedAttachmentUrls hmac setting path n name kind) (\<lambda>d x. x = map_sum id
    (\<lambda>key. \<lparr>preview_url = signed_query hmac key path (db_now d div 1000 + n) [] kind,
      download_url = signed_query hmac key path (db_now d div 1000 + n) name kind\<rparr>) (signingKey setting))"
  by (simp add: gives_def createSignedAttachmentUrls_def createSignedAttachmentUrl_def State_Monad.bind_def
    State_Monad.return_def clock_def Let_def split: sum.split)

lemma gives_sign_rows: "gives (sign_rows so as') (\<lambda>d x. x = all_signed so (db_now d) as')"
proof (induction as')
  case Nil
  show ?case by (simp add: all_signed_def gives_return)
next
  case (Cons a as')
  show ?case
    by (simp only: sign_rows.simps, rule gives_bind [OF gives_urls])
      (auto intro!: gives_sum gives_return gives_bind [OF Cons.IH] simp: all_signed_def signed_by_def map_sum_def split: sum.splits)
qed

definition in_scope :: "string \<Rightarrow> string option \<Rightarrow> string option \<Rightarrow> db \<Rightarrow> attachment_row list" where
  "in_scope p t c d = rows_of (fst (q_attachments (\<lambda>a. at_project_id a = p \<and> (truthy_str t \<longrightarrow> at_task_id a = t) \<and>
     (truthy_str c \<longrightarrow> at_contract_id a = c)) d))"

lemma gives_signed_list: "gives (listSignedAttachments so p t c) (\<lambda>d x. x = all_signed so (db_now d) (in_scope p t c d))"
proof -
  have "gives (listAttachmentsForScope p t c) (\<lambda>d r. r = Inr (in_scope p t c d))"
    unfolding listAttachmentsForScope_def by (rule gives_call) (simp_all add: q_attachments_def in_scope_def)
  then show ?thesis
    unfolding listSignedAttachments_def
    by (rule gives_bind) (auto intro!: gives_sum gives_return intro: gives_weaken [OF gives_sign_rows])
qed

subsection \<open>Observers\<close>

lemma unfailing_select: "quiet (call (q_select rows P))" "quiet (call (shaped sh (q_select rows P)))"
  by (rule quiet_rules; simp)+

lemma quiet_statements:
  "quiet (call (q_incoming t))" "quiet (call (q_outgoing t))" "quiet (call (q_task_contracts t))" "quiet (call (q_activity t n))"
  by (rule quiet_rules; simp add: q_incoming_def q_outgoing_def q_task_contracts_def q_activity_def Let_def)+

lemma quiet_readers:
  "quiet (maybe_row rows key i)" "quiet (listTaskExecutionRuns t)" "quiet (checkpoints_of_runs rs)"
  "quiet (visible_contracts a cs)" "quiet (listTaskActivityEvents t' n)" "quiet (getTaskContext p t)" "quiet (getProjectAccess p a)"
proof -
  have "quiet (listTaskExecutionCheckpoints r)" for r
    unfolding listTaskExecutionCheckpoints_def selectTaskExecutionCheckpoints_def by (intro quiet_rules) simp_all
  then show "quiet (checkpoints_of_runs rs)" by (induction rs) (auto intro!: quiet_rules)
  show "quiet (maybe_row rows key i)" "quiet (listTaskExecutionRuns t)"
    unfolding maybe_row_def listTaskExecutionRuns_def by (intro quiet_rules; simp)+
  show "quiet (visible_contracts a cs)" "quiet (listTaskActivityEvents t' n)"
    unfolding visible_contracts_def listTaskActivityEvents_def by (intro quiet_rules unfailing_select quiet_statements)+
  show "quiet (getTaskContext p t)" "quiet (getProjectAccess p a)"
    unfolding getTaskContext_def getProjectAccess_def by (intro quiet_rules unfailing_select)+
qed

lemmas skip_read = unfailing_bind [OF unfailing_select(1)] unfailing_bind [OF quiet_statements(1)] unfailing_bind [OF quiet_statements(2)]
  unfailing_bind [OF quiet_statements(3)] unfailing_bind [OF quiet_readers(1)] unfailing_bind [OF quiet_readers(2)]
  unfailing_bind [OF quiet_readers(3)] unfailing_bind [OF quiet_readers(4)] unfailing_bind [OF quiet_readers(5)]

lemma gives_detail: "gives (task_detailed so req p task) (\<lambda>d x. \<exists>y. x = Answer 200 y \<and>
    td_attachments y = or_none (all_signed so (db_now d) (in_scope p (Some (t_id task)) None d)))"
  unfolding task_detailed_def
  by (rule skip_read)+ (rule gives_bind [OF gives_signed_list], (rule skip_read)+, rule gives_return, simp)

lemma task_found:
  assumes "result (getTaskContext p t) [] d = Some task"
  shows "t_id task = t" "t_project_id task = p"
proof -
  have "result (getTaskContext p t) [] d = data_of (shape_single (filter (\<lambda>x. t_id x = t \<and> t_project_id x = p) (db_tasks d)))"
    unfolding getTaskContext_def by (simp add: quiet_then [OF unfailing_select(2)] result_return result_call)
  with assms obtain x where "filter (\<lambda>x. t_id x = t \<and> t_project_id x = p) (db_tasks d) = [task]"
    by (cases "shape_single (filter (\<lambda>x. t_id x = t \<and> t_project_id x = p) (db_tasks d))") (auto simp: shape_single_Inr)
  then have "task \<in> set (filter (\<lambda>x. t_id x = t \<and> t_project_id x = p) (db_tasks d))" by simp
  then show "t_id task = t" "t_project_id task = p" by simp_all
qed

text \<open>Property C38: an observer whom the policy lets read the project but not download its attachments is refused the list
  of the attachments of a task, and gets all of them with their signed links from the route that shows the task.\<close>

theorem observer_gets_links_with_task:
  assumes "result (getProjectAccess p (ag_id (rq_agent req))) [] d = Some pa" "pac_accessKind pa = ObserverKind"
    and "evaluateObserverProjectReadPolicyAccess (access_context_of (rq_agent req)) = Inr rd" "pd_allowed rd"
    and "evaluateObserverProjectAttachmentDownloadPolicyAccess (access_context_of (rq_agent req)) = Inr ad" "\<not> pd_allowed ad"
    and "result (getTaskContext p t) [] d = Some task" "signingKey (so_key so) = Inr key"
  shows "(\<exists>r. result (task_attachments_get so req p t) [] d = Refusal r) \<and>
    (\<exists>x. result (task_get so req p t) [] d = Answer 200 x \<and>
       td_attachments x = map (signed_by so key (db_now d)) (in_scope p (Some t) None d))"
proof
  have dd: "evaluateAttachmentDownloadAccess (access_context_of (rq_agent req)) (Some pa) (Some JNull) = Inr (download_no ad)"
    using assms(2-6) by (simp add: evaluateAttachmentDownloadAccess_def truthy_str_def Let_def)
  have one: "shape_single (filter (\<lambda>x. t_id x = t \<and> t_project_id x = p) (db_tasks d)) = Inr task"
    using assms(7) unfolding getTaskContext_def
    by (cases "shape_single (filter (\<lambda>x. t_id x = t \<and> t_project_id x = p) (db_tasks d))")
      (simp_all add: quiet_then [OF unfailing_select(2)] result_return result_call)
  have "quiet (verifyTask p t)" unfolding verifyTask_def by (intro quiet_rules unfailing_select)
  moreover have "result (verifyTask p t) [] d = Inr (Some task)"
    unfolding verifyTask_def by (simp add: quiet_then [OF unfailing_select(2)] result_return result_call one)
  ultimately show "\<exists>r. result (task_attachments_get so req p t) [] d = Refusal r"
    unfolding task_attachments_get_def with_verified_task_def
    by (simp add: quiet_then [OF quiet_readers(7)] assms(1) quiet_then result_return dd download_no_def)
  have "result (task_get so req p t) [] d = result (task_detailed so req p task) [] d"
    unfolding task_get_def reading_project_def
    by (simp add: quiet_then [OF quiet_readers(7)] quiet_then [OF quiet_readers(6)] assms)
  moreover from gives_result [OF gives_detail, of so req p task d] obtain x where
    "result (task_detailed so req p task) [] d = Answer 200 x"
    "td_attachments x = or_none (all_signed so (db_now d) (in_scope p (Some t) None d))"
    unfolding task_found(1) [OF assms(7)] by blast
  ultimately show "\<exists>x. result (task_get so req p t) [] d = Answer 200 x \<and>
      td_attachments x = map (signed_by so key (db_now d)) (in_scope p (Some t) None d)"
    using assms(8) by (intro exI [of _ x]) (simp add: all_signed_def or_none_def)
qed

definition sample_watcher :: request where
  "sample_watcher = (sample_request ''b'' NoBody)\<lparr>rq_agent := (sample_agent ''b'')\<lparr>ag_trust_policy := JObj
     [(''observer_project_access'', JObj [(''download_project_attachments'', JStr ''internal'')])]\<rparr>\<rparr>"

definition sample_attachment :: attachment_row where
  "sample_attachment = attachment_of sample_storage
     \<lparr>pl_project = ''p'', pl_task = Some ''u'', pl_contract = None, pl_run = None, pl_checkpoint = None, pl_agent = Some ''a'', pl_user = None\<rparr>
     ''f.txt'' ''f.txt'' ''text/plain'' ''text'' ''p/tasks/u/x-f.txt'' None ''i'' 0"

definition sample_watched :: db where
  "sample_watched = sample_board\<lparr>db_attachments := [sample_attachment],
     db_observers := [\<lparr>ob_id = ''o'', ob_project_id = ''p'', ob_agent_id = ''b'', ob_invited_by_agent_id = None, ob_note = None, ob_created_at = 0\<rparr>]\<rparr>"

theorem observer_gets_links_with_task_witness:
  "\<exists>x. result (task_get sample_storage sample_watcher ''p'' ''u'') [] sample_watched = Answer 200 x \<and>
     map (\<lambda>a. map_of (download_url (sg_urls a)) ''path'') (td_attachments x) = [Some ''p/tasks/u/x-f.txt'']"
proof -
  let ?c = "access_context_of (rq_agent sample_watcher)"
  obtain pa where pa: "result (getProjectAccess ''p'' (ag_id (rq_agent sample_watcher))) [] sample_watched = Some pa"
      "pac_accessKind pa = ObserverKind"
  proof -
    have "map_option pac_accessKind (result (getProjectAccess ''p'' (ag_id (rq_agent sample_watcher))) [] sample_watched) = Some ObserverKind"
      by code_simp
    then show thesis using that by auto
  qed
  obtain rd where rd: "evaluateObserverProjectReadPolicyAccess ?c = Inr rd" "pd_allowed rd"
  proof -
    have "map_sum id pd_allowed (evaluateObserverProjectReadPolicyAccess ?c) = Inr True" by code_simp
    then show thesis using that by (cases "evaluateObserverProjectReadPolicyAccess ?c") auto
  qed
  obtain ad where ad: "evaluateObserverProjectAttachmentDownloadPolicyAccess ?c = Inr ad" "\<not> pd_allowed ad"
  proof -
    have "map_sum id pd_allowed (evaluateObserverProjectAttachmentDownloadPolicyAccess ?c) = Inr False" by code_simp
    then show thesis using that by (cases "evaluateObserverProjectAttachmentDownloadPolicyAccess ?c") auto
  qed
  obtain task where task: "result (getTaskContext ''p'' ''u'') [] sample_watched = Some task"
  proof -
    have "map_option t_id (result (getTaskContext ''p'' ''u'') [] sample_watched) = Some ''u''" by code_simp
    then show thesis using that by auto
  qed
  have key: "signingKey (so_key sample_storage) = Inr ''key''" by code_simp
  have "in_scope ''p'' (Some ''u'') None sample_watched = [sample_attachment]" by code_simp
  moreover have "at_storage_path sample_attachment = ''p/tasks/u/x-f.txt''" by code_simp
  ultimately show ?thesis
    using observer_gets_links_with_task [OF pa rd ad task key] by (auto simp: signed_by_def signed_query_def)
qed

subsection \<open>Participants who declined\<close>

text \<open>Everybody has declined every contract, and nobody is in a project.\<close>

definition all_declined :: "db \<Rightarrow> db" where
  "all_declined d = d\<lparr>db_participants := map (\<lambda>p. p\<lparr>p_status := PRejected\<rparr>) (db_participants d), db_members := [], db_observers := []\<rparr>"

lemma quiet_linked: "quiet (getLinkedTaskForContract c)"
  unfolding getLinkedTaskForContract_def by (intro quiet_rules) (simp add: q_linked_task_row_def limited_def)

lemma quiet_participant: "quiet (getParticipant c a)" "quiet (verifyContractParticipation c a)" "quiet (getAttachmentById i)"
  unfolding getParticipant_def verifyContractParticipation_def getAttachmentById_def by (intro quiet_rules unfailing_select)+

lemma declined_participant: "result (getParticipant c a) [] (all_declined d) = None \<longleftrightarrow> result (getParticipant c a) [] d = None"
  unfolding getParticipant_def
  by (simp add: quiet_then [OF unfailing_select(2)] result_return result_call all_declined_def filter_map o_def shape_single_def)

lemma declined_link: "result (getLinkedTaskForContract c) [] (all_declined d) = result (getLinkedTaskForContract c) [] d"
proof -
  have "snd (shaped shape_maybe (q_linked_task_row c) d) = d" for d by (simp add: q_linked_task_row_def limited_def)
  then show ?thesis
    unfolding getLinkedTaskForContract_def
    by (simp add: quiet_then [OF quiet_rules(3)] result_return result_call)
      (simp add: q_linked_task_row_def limited_def all_declined_def)
qed

lemma declined_list: "result (listed so p t c) [] (all_declined d) = result (listed so p t c) [] d"
proof -
  have "gives (listed so p t c) (\<lambda>d x. x = (case all_signed so (db_now d) (in_scope p t c d) of Inl e \<Rightarrow> Thrown e | Inr xs \<Rightarrow> Answer 200 xs))"
    unfolding listed_def by (rule gives_bind [OF gives_signed_list]) (simp add: gives_return)
  from gives_result [OF this, of "all_declined d"] gives_result [OF this, of d] show ?thesis
    by (simp add: in_scope_def q_attachments_def all_declined_def)
qed


section \<open>Deleting a task\<close>

text \<open>Beside the deletion no task changes and none gets a contract.\<close>

definition unlink_step :: "string \<Rightarrow> db \<Rightarrow> db \<Rightarrow> bool" where
  "unlink_step t d d' \<longleftrightarrow> db_tasks d' = db_tasks d \<and>
     (\<forall>k\<in>set (db_task_contracts d'). tk_task_id k = t \<longrightarrow> k \<in> set (db_task_contracts d))"

interpretation unlinking: rely_guarantee "unlink_step t" for t
  by unfold_locales (auto simp: unlink_step_def)

definition elsewhere :: "string \<Rightarrow> string \<Rightarrow> db \<Rightarrow> bool" where
  "elsewhere p t d \<longleftrightarrow> (\<forall>x\<in>set (db_tasks d). \<not> my_task p t x)"

definition unlinked :: "string \<Rightarrow> db \<Rightarrow> bool" where
  "unlinked t d \<longleftrightarrow> (\<forall>k\<in>set (db_task_contracts d). tk_task_id k \<noteq> t)"

lemma stable_elsewhere: "stable (unlink_step t) (elsewhere p t)"
  by (simp add: stable_def unlink_step_def elsewhere_def)

lemma stable_unlinked: "stable (unlink_step t) (\<lambda>d. elsewhere p t d \<and> unlinked t d)"
  by (auto simp: stable_def unlink_step_def elsewhere_def unlinked_def)

lemma calm_read: "stable (unlink_step t) P \<Longrightarrow> (\<And>d. snd (q d) = d) \<Longrightarrow> calmly (unlink_step t) P (call q) (\<lambda>_. P)"
  by (rule unlinking.calmly_call) (simp_all add: unlinking.refl)

lemma calm_access:
  assumes "stable (unlink_step t) P"
  shows "calmly (unlink_step t) P (resolveProjectActorAccess auth p r b) (\<lambda>_. P)"
proof -
  have one: "calmly (unlink_step t) P (getProjectAccess p a) (\<lambda>_. P)" for a
    unfolding getProjectAccess_def
    by (auto intro!: unlinking.calmly_bind [OF calm_read [OF assms]] unlinking.calmly_return split: option.split)
  have many: "calmly (unlink_step t) P (first_access p as') (\<lambda>_. P)" for as'
    by (induction as') (auto intro!: unlinking.calmly_return unlinking.calmly_bind [OF one] split: option.split)
  show ?thesis
    unfolding resolveProjectActorAccess_def
    by (intro unlinking.calmly_if unlinking.calmly_return unlinking.calmly_bind [OF many])
qed

lemma calm_drop: "calmly (unlink_step t) (elsewhere p t) (drop_dependencies t is') (\<lambda>_. elsewhere p t)"
proof -
  have "calmly (unlink_step t) (elsewhere p t) (call (q_delete db_dependencies db_dependencies_update P)) (\<lambda>_. elsewhere p t)" for P
    by (rule unlinking.calmly_call [OF stable_elsewhere]) (simp add: unlink_step_def elsewhere_def)
  then show ?thesis
    unfolding drop_dependencies_def
    by (auto intro!: unlinking.calmly_return unlinking.calmly_bind [where Q = "\<lambda>_. elsewhere p t"])
qed

lemma calm_unlink:
  "calmly (unlink_step t) (elsewhere p t) (call (q_delete db_task_contracts db_task_contracts_update (\<lambda>k. tk_task_id k = t)))
     (\<lambda>_ d. elsewhere p t d \<and> unlinked t d)"
  by (rule unlinking.calmly_call [OF stable_elsewhere]) (auto simp: unlink_step_def elsewhere_def unlinked_def)

lemma calm_delete: "calmly (unlink_step t) (\<lambda>d. elsewhere p t d \<and> unlinked t d) (written what (q_delete_task t p)) (\<lambda>_. unlinked t)"
proof -
  have "calmly (unlink_step t) (\<lambda>d. elsewhere p t d \<and> unlinked t d) (call (q_delete_task t p)) (\<lambda>_. unlinked t)"
    by (rule unlinking.calmly_call [OF stable_unlinked]) (auto simp: q_delete_task_def elsewhere_def my_task_def unlinking.refl)
  then show ?thesis unfolding written_def by (rule unlinking.calmly_bind) (simp add: unlinking.calmly_return)
qed

lemma calm_delete_task:
  "calmly (unlink_step t) (elsewhere p t) (deleteTask session p t) (\<lambda>r d. r = Inr () \<longrightarrow> unlinked t d)"
proof -
  have body: "calmly (unlink_step t) (elsewhere p t) (do {
       tasks \<leftarrow> call (q_select db_tasks (\<lambda>t. t_project_id t = p));
       drop_dependencies t (map t_id (rows_of tasks));
       _ \<leftarrow> call (q_delete db_task_contracts db_task_contracts_update (\<lambda>k. tk_task_id k = t));
       written what (q_delete_task t p) }) (\<lambda>r d. r = Inr () \<longrightarrow> unlinked t d)" for what
    by (rule unlinking.calmly_bind [OF calm_read [OF stable_elsewhere]], simp)
      (intro unlinking.calmly_bind [OF calm_drop] unlinking.calmly_bind [OF calm_unlink] calmly_conseq [OF calm_delete]; simp)
  show ?thesis
    unfolding deleteTask_def requireTaskMembership_def
    by (auto intro!: unlinking.calmly_return unlinking.calmly_bind [OF calm_access [OF stable_elsewhere]] body split: option.split sum.split)
qed


definition sample_member :: "actor_context option" where
  "sample_member = Some (actor_context_of None (auth_user_of ''owner-a'' None None [sample_agent ''a'']))"

definition sample_foreign :: db where
  "sample_foreign = sample_board\<lparr>db_tasks := db_tasks sample_board @ [task_of_form ''q'' sample_form ''w'' 0],
     db_task_contracts := [\<lparr>tk_task_id = ''w'', tk_contract_id = ''c''\<rparr>]\<rparr>"


end
