(* ===== verification/Spec2Isabelle.thy ===== *)
theory Spec2Isabelle
  imports ProjectOutcomes WebhookRoutes TaskOutcomes AttachmentOutcomes
begin

text \<open>
  A2A-Comms, a platform on which software agents of different owners work together under contracts: a
  verification library of its server code (TypeScript, \<open>src/app\<close>, \<open>src/lib\<close>, \<open>src/scripts\<close>; the SQL functions under
  \<open>migrations\<close> that the code calls). Every definition is translated from the source, in the source's names.

  \<^bold>\<open>The program.\<close> An agent signs its requests (\<open>HmacAuth\<close>); a route of \<open>src/app/api/v1\<close> checks the
  request, reads and writes the database with a handful of separate SQL statements, writes the audit log, and
  announces what happened to webhooks. Operators (people) act through the dashboard on behalf of the agents they own
  (\<open>AuthContext\<close>), workers under \<open>src/scripts\<close> sweep the tables. There is no transaction around a
  handler: between any two statements other requests run, and any statement may fail. That is what the library is
  about.

  \<^bold>\<open>How it is modelled.\<close> \<open>Prelude\<close>: JavaScript strings and JSON values. \<open>Store\<close>: the tables (lists of rows in
  insertion order), the statements (\<open>q_select\<close>, \<open>q_update\<close>, \<open>q_insert\<close>, each atomic), the result shapes of the query
  client, and the execution of a handler as a state-monad program: \<open>call q\<close> first lets the environment do a step (an
  arbitrary change by other requests, possibly a failure of this very call), then runs the statement. \<open>RelyGuarantee\<close>
  is the program logic for it: \<open>valid R P m Q\<close> (beside others that respect \<open>R\<close>, \<open>m\<close> respects \<open>R\<close> itself and
  leads from \<open>P\<close> to \<open>Q\<close>), \<open>keeps R m\<close>, with one rule per construct; \<open>CalmRuns\<close> is the same for runs in which no
  statement fails. The locales there (a relation that the statements of a component keep) are interpreted on the relations
  the properties speak of: \<open>orderly\<close> and \<open>sound\<close> for contracts, \<open>inv_rel\<close> for invariants, the views of \<open>SideTables\<close>.

  \<^bold>\<open>Pure rules.\<close> \<open>TrustTiers\<close>, \<open>TrustPolicy\<close>, \<open>ParticipantPolicy\<close> (who may do what),
  \<open>ContractTypes\<close>, \<open>MessageContent\<close>, \<open>ExpiryWindow\<close>, \<open>TurnState\<close>, \<open>Closure\<close>, \<open>Succession\<close>, \<open>SchemaValidator\<close>,
  \<open>UrlValidator\<close>, \<open>JsonText\<close>, \<open>CanonicalJson\<close>, \<open>TaskBriefs\<close>. Their lemmas decide each function on every branch, and
  relate the optimised ones to a reference (the scanner for escaped line breaks, the normalisation of policies).

  \<^bold>\<open>Contracts.\<close> \<open>MessageSql\<close> (the function every message goes through), \<open>ContractHelpers\<close>, \<open>ContractRoutes\<close>,
  \<open>Proposals\<close>, \<open>AcceptRoute\<close>, \<open>MessageRoute\<close>, \<open>Links\<close>, \<open>TaskLink\<close>, \<open>OperatorChannel\<close>, \<open>Attachments\<close>,
  \<open>Approvals\<close>, \<open>ApprovalRoutes\<close>, \<open>OperatorActions\<close>. \<open>ContractLifecycle\<close> states what every call does to the contracts
  (\<open>lifecycle\<close>, \<open>contracts_ok\<close>) and shows it route by route; \<open>System\<close> puts all routes together, each interrupted by
  the others between any two statements (\<open>concurrent\<close>); \<open>LifecycleSpec\<close> is the abstract machine of one contract that
  the rows are shown to follow. The theorems below are about that whole system; \<open>Sample\<close> is the small state on
  which they are instantiated.

  \<^bold>\<open>Requests.\<close> \<open>ApiHelpers\<close> (the request as a handler sees it, audit log, kill switch), \<open>Idempotency\<close>, \<open>RateLimit\<close>,
  \<open>RequestGuards\<close>, \<open>HmacAuth\<close> (keys, timestamps, nonces, the signed text), \<open>AuthContext\<close> (sessions of the dashboard).

  \<^bold>\<open>Agents, projects, tasks.\<close> \<open>Agents\<close>; \<open>ProjectInvitations\<close>, \<open>Projects\<close>, \<open>ProjectActions\<close> with \<open>ProjectSafety\<close>
  (who becomes a member) and \<open>ProjectOutcomes\<close> (what calls are sure to do); \<open>TaskExecution\<close>, \<open>RunRoutes\<close>,
  \<open>HandoffResume\<close> (runs, checkpoints, the snapshot on the task), \<open>TaskBlockers\<close>, \<open>BlockedTasks\<close>, \<open>StaleRuns\<close> (the sweeps),
  \<open>TaskDependencies\<close>, \<open>TaskBriefs\<close>, \<open>TaskContracts\<close> (the contracts a task is handed over or escalated with), \<open>Tasks\<close>,
  \<open>TaskRoutes\<close>, \<open>TaskComments\<close>, \<open>TaskActions\<close>, \<open>TaskPage\<close> (the routes and the dashboard's actions), with \<open>TaskSafety\<close> (what
  all of them keep, each beside the others) and \<open>TaskOutcomes\<close> (what single ones are sure to do). The routes of tasks are not
  among the calls of \<open>System\<close>: when a link to a task fails they delete the participants of the new contract before the
  contract, and between the two the invariant of contracts does not hold. \<open>Webhooks\<close>, \<open>WebhookRoutes\<close> (deliveries, the retry worker, the registry).
  \<open>AttachmentFiles\<close> (paths in the attachment directory, the files, signed links and the route that serves them),
  \<open>AttachmentRoutes\<close> (listing, uploading and downloading the files of contracts and of tasks), with
  \<open>AttachmentOutcomes\<close> (who can open which file, and for how long).

  \<^bold>\<open>Parameters.\<close> What is not under \<open>src\<close> is an argument: what the database driver makes of a JSON value in a column
  (\<open>to_text\<close>, \<open>to_int\<close>, \<open>driver\<close>), hashes and random secrets, the URL parser, the DNS and the answers of webhook
  receivers (\<open>internet\<close>), the date parser (\<open>dates\<close>), the digests, the keyed hash and the decoder of base64url behind files and their links
  (\<open>storage\<close>), the environment's variables, the base URL. Hypotheses about them
  are named in the theorems and met by concrete functions in the witnesses.

  \<^bold>\<open>Choices.\<close> Times are integers (milliseconds). JSON objects are association lists with distinct keys; a JSON column
  keeps its value. SQL without ORDER BY answers in insertion order; names are ordered by code unit. Foreign keys and
  check constraints are written out where a handler depends on their error; elsewhere a failing statement stands for them.
  What the code starts with \<open>Promise.all\<close> runs in the order of the list; deliveries run one after the other.

  \<^bold>\<open>Bounds and fuel.\<close> The trigger that rejects cycles of links walks 64 links (as in the SQL), so cycles of at
  most 64 links are excluded. Decimal digits take fuel 1100, trailing zeros 400, base 36 fuel 32: a double has at
  most 767 significant digits and at most 1074 decimals; times have fewer than 32 digits in base 36. Recursions over
  rows are structural; the only loops that run without end are the workers', of which one cycle is modelled.

  \<^bold>\<open>Not modelled.\<close> Pages, components and their view models (React), e-mails and their templates, logs,
  cache revalidation, the text of the SQL the query client builds, the setup of TLS and cookies,
  the security-event log, a pool that hands out no connection (it throws and ends the handler), and the
  analytics over the tables; the reputation ledger and the inspector of protocols,
  which read and derive but decide nothing the other parts rely on.

  \<^bold>\<open>What is shown.\<close> Contracts only move forward, keep their terms and their budget, need every acceptance, respect the
  approval gate; approvals are decided once and never by their actor; links close no cycle; no nonce is accepted twice,
  accepted requests are signed, the kill switch stops every write; webhooks go to checked hosts first and stop at the
  limit of attempts; sessions act for own agents only, deactivated agents stay out, tiers are kept; nobody joins a
  project uninvited and no invitation outlives a sweep; dependencies stay within a project, the flag of a blocked task
  tells what they say once it is refreshed, the sweep of stale runs clears its backlog, and whom a task's contract is
  proposed to passed the trust gate; a signed link opens its own file for an hour, and another link needs a collision of
  the keyed hash as long as no name has a line end. Where the code does not do what it means to, the theorem says
  what it does (kind \<open>error\<close> in the manifest, with the finding).
\<close>

section \<open>The life of a contract\<close>



text \<open>Property C8: every contract follows the machine of \<open>LifecycleSpec\<close>: its turns are spent one by one
  within its budget while it is active, and once it has ended it spends none, is not approved and not
  opened again.\<close>
theorem contract_follows_machine:
  assumes "concurrent f" "contracts_ok d" "c \<in> set (db_contracts d)" "c' \<in> set (db_contracts (f d))" "c_id c' = c_id c"
  shows "(moves (c_max_turns c))\<^sup>*\<^sup>* (phase_of c) (phase_of c')"
proof (rule evolves_moves)
  show "evolves c c'" by (rule row_evolves(1) [OF assms])
  show "turns_bounded c" using row_evolves(2) [OF assms] by (simp add: row_ok_def)
  show "turns_bounded c'" using row_evolves(3) [OF assms] by (simp add: row_ok_def)
qed

theorem contract_follows_machine_witness:
  "(moves 3)\<^sup>*\<^sup>* (phase_of sample_contract) (phase_of (sample_contract\<lparr>c_status := SActive\<rparr>))"
  using contract_follows_machine [OF sample_steps(3) sample_ok, of sample_contract "sample_contract\<lparr>c_status := SActive\<rparr>"]
  by (simp add: sample_accepted) (simp add: sample_db_def sample_contract_def)

text \<open>Property C9: the terms of a contract never change: its proposer, its budget, whether its completion needs
  approval, and an approval once given.\<close>
theorem terms_never_change:
  assumes "concurrent f" "contracts_ok d" "c \<in> set (db_contracts d)" "c' \<in> set (db_contracts (f d))" "c_id c' = c_id c"
  shows "c_proposer_id c' = c_proposer_id c \<and> c_max_turns c' = c_max_turns c \<and>
    c_completion_requires_approval c' = c_completion_requires_approval c \<and>
    c_completion_approved_at c \<in> {None, c_completion_approved_at c'}"
  using row_evolves(1) [OF assms] by (auto simp: evolves_def)

theorem terms_never_change_witness:
  "c_proposer_id (sample_contract\<lparr>c_status := SActive\<rparr>) = c_proposer_id sample_contract"
  using terms_never_change [OF sample_steps(3) sample_ok, of sample_contract "sample_contract\<lparr>c_status := SActive\<rparr>"]
  by (simp add: sample_accepted)

text \<open>Property C10: from an empty database on, the turn counter of every contract is the number of its messages
  that spend a turn, and never exceeds its budget.\<close>
theorem turns_are_counted:
  assumes "concurrent f" "inj ids" "c \<in> set (db_contracts (f (empty_db ids)))"
  shows "c_current_turns c = int (length (filter (\<lambda>m. m_contract_id m = c_id c \<and> m_consumes_turn m)
      (db_messages (f (empty_db ids))))) \<and> c_current_turns c \<le> max 0 (c_max_turns c)"
  using history_ok [OF assms(1,2)] assms(3)
  by (auto simp: contracts_ok_def row_ok_def turns_bounded_def turns_spent_def)

theorem turns_are_counted_witness:
  "c_current_turns (hd (db_contracts (sample_agreed (empty_db sample_ids)))) \<le>
     max 0 (c_max_turns (hd (db_contracts (sample_agreed (empty_db sample_ids)))))"
proof -
  have "hd (db_contracts (sample_agreed (empty_db sample_ids))) \<in> set (db_contracts (sample_agreed (empty_db sample_ids)))"
    by code_simp
  from turns_are_counted [OF sample_concurrent(1) inj_sample_ids this] show ?thesis by simp
qed

text \<open>Property C11: every participant of an active contract has accepted it, and its proposer is one of them.\<close>
theorem active_means_accepted:
  assumes "concurrent f" "inj ids" "c \<in> set (db_contracts (f (empty_db ids)))" "c_status c = SActive"
  shows "c_proposer_id c \<in> p_agent_id ` {p \<in> set (db_participants (f (empty_db ids))). p_contract_id p = c_id c} \<and>
    p_status ` {p \<in> set (db_participants (f (empty_db ids))). p_contract_id p = c_id c} = {PAccepted}"
proof -
  have "row_ok (f (empty_db ids)) c" using history_ok [OF assms(1,2)] assms(3) by (simp add: contracts_ok_def)
  then have "parts (f (empty_db ids)) (c_id c) \<noteq> []" "\<forall>p\<in>set (parts (f (empty_db ids)) (c_id c)). p_status p = PAccepted"
    "c_proposer_id c \<in> p_agent_id ` set (parts (f (empty_db ids)) (c_id c))"
    using assms(4) by (auto simp: row_ok_def)
  then show ?thesis by (auto simp: parts_def filter_empty_conv image_iff)
qed

theorem active_means_accepted_witness:
  "p_status ` {p \<in> set (db_participants (sample_agreed (empty_db sample_ids))).
      p_contract_id p = c_id (hd (db_contracts (sample_agreed (empty_db sample_ids))))} = {PAccepted}"
proof -
  have "let cs = db_contracts (sample_agreed (empty_db sample_ids)) in hd cs \<in> set cs \<and> c_status (hd cs) = SActive"
    by code_simp
  then have "hd (db_contracts (sample_agreed (empty_db sample_ids))) \<in> set (db_contracts (sample_agreed (empty_db sample_ids)))"
    "c_status (hd (db_contracts (sample_agreed (empty_db sample_ids)))) = SActive"
    by (simp_all only: Let_def)
  from active_means_accepted [OF sample_concurrent(1) inj_sample_ids this] show ?thesis by simp
qed

text \<open>Property C12: a contract whose completion needs approval is closed by an agent, or by its last message, only
  with the approval recorded, or marked as closed without one.\<close>
theorem gate_is_respected:
  assumes "concurrent f" "inj ids" "c \<in> set (db_contracts (f (empty_db ids)))"
    and "c_completion_requires_approval c" "c_status c = SClosed"
    and "c_closed_by_kind c = Some ByAgent \<or> c_closed_by c \<in> {Some ''system:max-turns'', Some ''system:completion-approved''}"
  shows "c_completion_approved_at c \<noteq> None \<or> c_closed_without_approval c"
  using history_ok [OF assms(1,2)] assms(3-6) by (auto simp: contracts_ok_def row_ok_def gate_respected_def)

theorem gate_is_respected_witness:
  "c_closed_without_approval (hd (db_contracts (sample_refused (empty_db sample_ids))))"
proof -
  let ?c = "hd (db_contracts (sample_refused (empty_db sample_ids)))"
  have "let cs = db_contracts (sample_refused (empty_db sample_ids)); c = hd cs in c \<in> set cs \<and>
      c_completion_requires_approval c \<and> c_status c = SClosed \<and> c_closed_by_kind c = Some ByAgent \<and>
      c_completion_approved_at c = None"
    by code_simp
  then have "?c \<in> set (db_contracts (sample_refused (empty_db sample_ids)))" "c_completion_requires_approval ?c"
    "c_status ?c = SClosed" "c_closed_by_kind ?c = Some ByAgent" "c_completion_approved_at ?c = None"
    by (simp_all only: Let_def)
  then show ?thesis using gate_is_respected [OF sample_concurrent(2) inj_sample_ids, of ?c] by simp
qed

section \<open>Approvals and links\<close>



text \<open>Property C14: from an empty database on, whoever decided a request is somebody else than its actor.\<close>
theorem nobody_reviews_themselves:
  assumes "concurrent f" "a \<in> set (db_approvals (f (empty_db ids)))" "ap_status a \<noteq> APending"
  shows "\<exists>r. ap_reviewed_by a = Some r \<and> r \<noteq> ap_actor a"
proof -
  have "approvals_ok (empty_db ids)" by (simp add: approvals_ok_def empty_db_def)
  then have "approvals_ok (f (empty_db ids))"
    using concurrent_sound [OF assms(1), of "empty_db ids"] by (simp add: sound_def approvals_step_def)
  with assms(2,3) show ?thesis by (simp add: approvals_ok_def four_eyes_def)
qed

theorem nobody_reviews_themselves_witness:
  "\<exists>r. ap_reviewed_by (hd (db_approvals (sample_granted (empty_db sample_ids)))) = Some r \<and>
     r \<noteq> ap_actor (hd (db_approvals (sample_granted (empty_db sample_ids))))"
proof (rule nobody_reviews_themselves [OF sample_concurrent(4)])
  show "hd (db_approvals (sample_granted (empty_db sample_ids))) \<in> set (db_approvals (sample_granted (empty_db sample_ids)))"
    by code_simp
  show "ap_status (hd (db_approvals (sample_granted (empty_db sample_ids)))) \<noteq> APending"
    by code_simp
qed



end
